(* ===== verification/Prelude.thy ===== *)
theory Prelude
  imports Main
    "HOL-Library.AList"
    "HOL-Library.Char_ord"
    "HOL-Library.List_Lexorder"
    "HOL-Library.Product_Lexorder"
begin

text \<open>
  What the components share. Go maps are association lists (\<open>gomap\<close>): the order of the list is
  the order in which one particular \<open>range\<close> loop happens to visit the map, so a theorem that holds
  for every association list with distinct keys holds for every iteration order. Times are
  nanoseconds since Go's zero time, so \<open>IsZero\<close> is \<open>t = 0\<close>; \<open>time_sub\<close> saturates as \<open>Time.Sub\<close> does.
  A chain of \<open>if cond { return err }\<close> is a list of \<open>fail_if\<close> read by \<open>first_err\<close>. The search loops that keep
  the best candidate so far are \<open>pick_best\<close>.
\<close>

named_theorems keeps \<open>an operation leaves a field or an invariant as it was\<close>
named_theorems gomap_simps \<open>lookup and key sets of association lists after an operation\<close>

section \<open>Times\<close>

type_synonym time = int
type_synonym duration = int

abbreviation second :: duration where "second \<equiv> 1000000000"
abbreviation minute :: duration where "minute \<equiv> 60000000000"

abbreviation max_int64 :: int where "max_int64 \<equiv> 9223372036854775807"
abbreviation min_int64 :: int where "min_int64 \<equiv> -9223372036854775808"

text \<open>\<open>t.Sub(u)\<close>: the difference, saturated to the range of \<open>time.Duration\<close>.\<close>

definition time_sub :: "time \<Rightarrow> time \<Rightarrow> duration" where
  "time_sub t u = max min_int64 (min max_int64 (t - u))"

lemma time_sub_le_iff:
  "min_int64 \<le> d \<Longrightarrow> d < max_int64 \<Longrightarrow> time_sub t u \<le> d \<longleftrightarrow> t - u \<le> d"
  unfolding time_sub_def by (auto simp: max_def min_def)

lemma time_sub_mono: "t \<le> t' \<Longrightarrow> time_sub t u \<le> time_sub t' u"
  unfolding time_sub_def by (auto simp: max_def min_def)

lemma time_sub_self [simp]: "time_sub t t = 0"
  unfolding time_sub_def by simp

section \<open>Go maps as association lists\<close>

type_synonym ('k, 'v) gomap = "('k \<times> 'v) list"

definition mkeys :: "('k, 'v) gomap \<Rightarrow> 'k list" where
  "mkeys m = map fst m"

text \<open>\<open>m[k]\<close> with the zero value \<open>d\<close> for a missing key.\<close>

definition mget :: "'v \<Rightarrow> ('k, 'v) gomap \<Rightarrow> 'k \<Rightarrow> 'v" where
  "mget d m k = (case map_of m k of None \<Rightarrow> d | Some v \<Rightarrow> v)"

definition mhas :: "('k, 'v) gomap \<Rightarrow> 'k \<Rightarrow> bool" where
  "mhas m k = (map_of m k \<noteq> None)"

definition mput :: "'k \<Rightarrow> 'v \<Rightarrow> ('k, 'v) gomap \<Rightarrow> ('k, 'v) gomap" where
  "mput k v m = AList.update k v m"

definition mdel :: "'k \<Rightarrow> ('k, 'v) gomap \<Rightarrow> ('k, 'v) gomap" where
  "mdel k m = AList.delete k m"

definition mwf :: "('k, 'v) gomap \<Rightarrow> bool" where
  "mwf m = distinct (mkeys m)"

lemma mwf_Nil [simp]: "mwf []"
  by (simp add: mwf_def mkeys_def)

lemma map_of_mput [gomap_simps, simp]: "map_of (mput k v m) = (map_of m)(k \<mapsto> v)"
  by (simp add: mput_def update_conv')

lemma map_of_mdel [gomap_simps, simp]: "map_of (mdel k m) = (map_of m)(k := None)"
  by (simp add: mdel_def delete_conv')

lemma mwf_mput [simp, intro]: "mwf m \<Longrightarrow> mwf (mput k v m)"
  by (simp add: mwf_def mkeys_def mput_def distinct_update)

lemma mwf_mdel [simp, intro]: "mwf m \<Longrightarrow> mwf (mdel k m)"
  by (simp add: mwf_def mkeys_def mdel_def distinct_delete)

lemma mwf_filter [simp, intro]: "mwf m \<Longrightarrow> mwf (filter P m)"
  by (simp add: mwf_def mkeys_def distinct_map_filter)

lemma mkeys_filter_subset: "set (mkeys (filter P m)) \<subseteq> set (mkeys m)"
  by (auto simp: mkeys_def)

lemma set_mkeys: "set (mkeys m) = dom (map_of m)"
  by (simp add: mkeys_def dom_map_of_conv_image_fst)

lemma mhas_iff: "mhas m k \<longleftrightarrow> k \<in> set (mkeys m)"
  by (auto simp: mhas_def set_mkeys)

lemma set_mkeys_mput [gomap_simps, simp]: "set (mkeys (mput k v m)) = insert k (set (mkeys m))"
  by (auto simp: set_mkeys)

lemma set_mkeys_mdel [gomap_simps, simp]: "set (mkeys (mdel k m)) = set (mkeys m) - {k}"
  by (auto simp: set_mkeys)

lemma mget_mput [gomap_simps, simp]: "mget d (mput k v m) x = (if x = k then v else mget d m x)"
  by (simp add: mget_def)

lemma mget_mdel [gomap_simps, simp]: "mget d (mdel k m) x = (if x = k then d else mget d m x)"
  by (simp add: mget_def)

lemma mget_Nil [simp]: "mget d [] k = d"
  by (simp add: mget_def)

lemma mget_notin: "k \<notin> set (mkeys m) \<Longrightarrow> mget d m k = d"
  by (auto simp: mget_def set_mkeys split: option.splits)

lemma map_of_filter_wf:
  assumes "mwf m"
  shows "map_of (filter P m) k =
    (case map_of m k of Some v \<Rightarrow> if P (k, v) then Some v else None | None \<Rightarrow> None)"
  using assms
  by (induction m) (auto simp: mwf_def mkeys_def map_of_eq_None_iff rev_image_eqI
      split: option.splits)

lemma map_of_in_set: "map_of m k = Some v \<Longrightarrow> (k, v) \<in> set m"
  by (rule map_of_SomeD)

lemma map_of_wf_iff: "mwf m \<Longrightarrow> map_of m k = Some v \<longleftrightarrow> (k, v) \<in> set m"
  by (simp add: mwf_def mkeys_def)

lemma length_mdel_le: "length (mdel k m) \<le> length m"
  by (simp add: mdel_def length_delete_le)

lemma map_of_rev_distinct: "distinct (map fst xs) \<Longrightarrow> map_of (rev xs) = map_of xs"
  by (subst map_of_inject_set) (simp_all add: rev_map[symmetric])

lemma set_mput_subset: "set (mput k v xs) \<subseteq> insert (k, v) (set xs)"
  by (induction xs) (auto simp: mput_def)

lemma set_mdel_subset: "set (mdel k xs) \<subseteq> set xs"
  by (auto simp: mdel_def AList.delete_eq)

section \<open>Sequences of checks\<close>

definition fail_if :: "bool \<Rightarrow> 'e \<Rightarrow> 'e option" where
  "fail_if b e = (if b then Some e else None)"

fun first_err :: "'e option list \<Rightarrow> 'e option" where
  "first_err [] = None"
| "first_err (Some e # es) = Some e"
| "first_err (None # es) = first_err es"

lemma fail_if_None [simp]: "fail_if b e = None \<longleftrightarrow> \<not> b"
  by (simp add: fail_if_def)

lemma fail_if_Some [simp]: "fail_if b e = Some e' \<longleftrightarrow> b \<and> e' = e"
  by (auto simp: fail_if_def)

lemma first_err_None [simp]: "first_err es = None \<longleftrightarrow> (\<forall>e \<in> set es. e = None)"
  by (induction es rule: first_err.induct) auto

lemma first_err_Some: "first_err es = Some e \<Longrightarrow> Some e \<in> set es"
  by (induction es rule: first_err.induct) auto

section \<open>Searching a list\<close>

lemma find_SomeD: "find P xs = Some x \<Longrightarrow> x \<in> set xs \<and> P x"
  by (induction xs) (auto split: if_splits)

lemma set_map_filter: "y \<in> set (List.map_filter f xs) \<longleftrightarrow> (\<exists>x \<in> set xs. f x = Some y)"
  by (induction xs) (auto simp: map_filter_simps split: option.splits)

lemma map_filter_empty: "List.map_filter f xs = [] \<longleftrightarrow> (\<forall>x \<in> set xs. f x = None)"
  by (induction xs) (auto simp: map_filter_simps split: option.splits)

text \<open>The index of the first element that satisfies a condition; \<open>None\<close> for the -1 of a Go loop.\<close>

fun index_of :: "('a \<Rightarrow> bool) \<Rightarrow> 'a list \<Rightarrow> nat option" where
  "index_of P [] = None"
| "index_of P (x # xs) = (if P x then Some 0 else map_option Suc (index_of P xs))"

lemma index_of_Some: "index_of P xs = Some i \<Longrightarrow> i < length xs \<and> P (xs ! i)"
  by (induction xs arbitrary: i) (auto split: if_splits)

lemma index_of_None [simp]: "index_of P xs = None \<longleftrightarrow> (\<forall>x \<in> set xs. \<not> P x)"
  by (induction xs) auto

lemma map_update_same: "i < length xs \<Longrightarrow> f y = f (xs ! i) \<Longrightarrow> map f (xs[i := y]) = map f xs"
  by (metis list_update_id map_update nth_map)

section \<open>First occurrence of each element\<close>

definition dedup_first :: "'a list \<Rightarrow> 'a list" where
  "dedup_first xs = rev (remdups (rev xs))"

lemma set_dedup_first [simp]: "set (dedup_first xs) = set xs"
  by (simp add: dedup_first_def)

lemma distinct_dedup_first [simp]: "distinct (dedup_first xs)"
  by (simp add: dedup_first_def)

lemma dedup_first_empty [simp]: "dedup_first xs = [] \<longleftrightarrow> xs = []"
  by (simp add: dedup_first_def)

section \<open>Keeping the best candidate so far\<close>

text \<open>
  \<open>if !found || better(x, best) { best = x }\<close> over a slice: an earlier element is kept unless a
  later one is strictly better.
\<close>

fun keep_best :: "('a \<Rightarrow> 'a \<Rightarrow> bool) \<Rightarrow> 'a list \<Rightarrow> 'a option \<Rightarrow> 'a option" where
  "keep_best lt [] best = best"
| "keep_best lt (x # xs) None = keep_best lt xs (Some x)"
| "keep_best lt (x # xs) (Some b) = keep_best lt xs (Some (if lt x b then x else b))"

definition pick_best :: "('a \<Rightarrow> 'a \<Rightarrow> bool) \<Rightarrow> 'a list \<Rightarrow> 'a option" where
  "pick_best lt xs = keep_best lt xs None"

lemma keep_best_None_iff: "keep_best lt xs b = None \<longleftrightarrow> xs = [] \<and> b = None"
  by (induction lt xs b rule: keep_best.induct) auto

lemma pick_best_None [simp]: "pick_best lt xs = None \<longleftrightarrow> xs = []"
  by (simp add: pick_best_def keep_best_None_iff)

lemma keep_best_in: "keep_best lt xs b = Some r \<Longrightarrow> r \<in> set xs \<or> b = Some r"
  by (induction lt xs b rule: keep_best.induct) (auto split: if_splits)

lemma pick_best_in: "pick_best lt xs = Some r \<Longrightarrow> r \<in> set xs"
  using keep_best_in[of lt xs None r] by (simp add: pick_best_def)

text \<open>With an order given by a key into a linear order, the result is a minimum.\<close>

lemma keep_best_key_le:
  fixes f :: "'a \<Rightarrow> 'b::linorder"
  shows "keep_best (\<lambda>x y. f x < f y) xs b = Some r \<Longrightarrow>
    (\<forall>x \<in> set xs. f r \<le> f x) \<and> (\<forall>c. b = Some c \<longrightarrow> f r \<le> f c)"
proof (induction "\<lambda>x y. f x < f y" xs b rule: keep_best.induct)
  case (3 x xs b)
  then show ?case by (fastforce split: if_splits)
qed auto

lemma pick_best_key_le:
  fixes f :: "'a \<Rightarrow> 'b::linorder"
  assumes "pick_best (\<lambda>x y. f x < f y) xs = Some r" "x \<in> set xs"
  shows "f r \<le> f x"
  using keep_best_key_le[of f xs None r] assms by (simp add: pick_best_def)

section \<open>Sorting\<close>

lemma hd_sort_key_le:
  fixes f :: "'a \<Rightarrow> 'b::linorder"
  assumes "x \<in> set xs"
  shows "f (hd (sort_key f xs)) \<le> f x"
proof -
  have "sorted (map f (sort_key f xs))" by simp
  moreover obtain y ys where s: "sort_key f xs = y # ys"
    using assms by (cases "sort_key f xs") (metis empty_iff list.set(1) set_sort)
  moreover have "x \<in> set (y # ys)"
    using assms s by (metis set_sort)
  ultimately show ?thesis by auto
qed

lemma hd_sort_key_in: "xs \<noteq> [] \<Longrightarrow> hd (sort_key f xs) \<in> set xs"
  by (metis hd_in_set length_0_conv length_sort set_sort)

section \<open>Removing one element\<close>

lemma count_list_remove1:
  "count_list (remove1 x xs) y = (if x = y \<and> x \<in> set xs then count_list xs y - 1 else count_list xs y)"
  by (induction xs) (auto simp: count_list_0_iff)

lemma filter_remove1: "filter P (remove1 x xs) = remove1 x (filter P xs)"
  by (induction xs) auto

lemma distinct_map_remove1: "distinct (map f xs) \<Longrightarrow> distinct (map f (remove1 x xs))"
  by (induction xs) (auto dest!: subsetD[OF set_remove1_subset])

lemma length_remove1_in: "x \<in> set xs \<Longrightarrow> Suc (length (remove1 x xs)) = length xs"
  by (metis Suc_pred' length_pos_if_in_set length_remove1)

section \<open>Sums over lists\<close>

lemma sum_list_map_nonneg_int:
  "(\<And>x. x \<in> set xs \<Longrightarrow> 0 \<le> f x) \<Longrightarrow> 0 \<le> (\<Sum>x\<leftarrow>xs. f x :: int)"
  by (induction xs) auto

end
