(* ===== verification/GoStd.thy ===== *)
theory GoStd
  imports Prelude
begin

text \<open>
  The parts of Go's standard library the modelled code calls: \<open>strings.TrimSpace\<close>,
  \<open>strings.ToLower\<close>, \<open>strings.EqualFold\<close> against an ASCII literal, \<open>strings.ContainsAny\<close>,
  \<open>strings.Split\<close>, \<open>strings.ReplaceAll\<close> of one byte, \<open>path.Clean\<close>, \<open>path.Base\<close>,
  \<open>filepath.Join\<close>, \<open>filepath.IsAbs\<close>, \<open>hex.EncodeToString\<close> and \<open>net.ParseIP(s) != nil\<close>. A Go string is its list of bytes. White space and case folding follow
  Unicode through the UTF-8 encodings that matter: every white-space rune is trimmed, and the two
  non-ASCII runes that fold to an ASCII letter (U+017F to s, U+212A to k) fold; runes that stay
  outside ASCII under \<open>ToLower\<close> are left as they are, which no comparison with an ASCII literal sees.
\<close>

section \<open>Bytes\<close>

definition byte :: "char \<Rightarrow> nat" where
  "byte c = of_char c"

definition bytes_at :: "nat list \<Rightarrow> string \<Rightarrow> bool" where
  "bytes_at bs s = (map byte (take (length bs) s) = bs)"

section \<open>strings.TrimSpace\<close>

text \<open>The UTF-8 encodings of the white-space runes of \<open>unicode.IsSpace\<close>.\<close>

definition space_runes :: "nat list list" where
  "space_runes =
    [[9], [10], [11], [12], [13], [32], [0xC2, 0x85], [0xC2, 0xA0], [0xE1, 0x9A, 0x80],
     [0xE2, 0x80, 0x80], [0xE2, 0x80, 0x81], [0xE2, 0x80, 0x82], [0xE2, 0x80, 0x83],
     [0xE2, 0x80, 0x84], [0xE2, 0x80, 0x85], [0xE2, 0x80, 0x86], [0xE2, 0x80, 0x87],
     [0xE2, 0x80, 0x88], [0xE2, 0x80, 0x89], [0xE2, 0x80, 0x8A], [0xE2, 0x80, 0xA8],
     [0xE2, 0x80, 0xA9], [0xE2, 0x80, 0xAF], [0xE2, 0x81, 0x9F], [0xE3, 0x80, 0x80]]"

text \<open>Drop white-space runes from the front, each rune's bytes given as a list.\<close>

function trim_runes :: "nat list list \<Rightarrow> string \<Rightarrow> string" where
  "trim_runes rs s =
    (case find (\<lambda>r. r \<noteq> [] \<and> s \<noteq> [] \<and> bytes_at r s) rs of
       None \<Rightarrow> s
     | Some r \<Rightarrow> trim_runes rs (drop (length r) s))"
  by pat_completeness auto
termination
  by (relation "measure (\<lambda>(rs, s). length s)") (auto simp: find_Some_iff)

declare trim_runes.simps [simp del]

definition trim_space :: "string \<Rightarrow> string" where
  "trim_space s =
    rev (trim_runes (map rev space_runes) (rev (trim_runes space_runes s)))"

lemma trim_runes_Nil [simp]: "trim_runes rs [] = []"
  by (subst trim_runes.simps) (auto split: option.splits simp: find_Some_iff)

lemma trim_space_Nil [simp]: "trim_space [] = []"
  by (simp add: trim_space_def)

section \<open>strings.ToLower and strings.EqualFold\<close>

definition ascii_lower :: "char \<Rightarrow> char" where
  "ascii_lower c = (if 65 \<le> byte c \<and> byte c \<le> 90 then char_of (byte c + 32) else c)"

fun to_lower :: "string \<Rightarrow> string" where
  "to_lower [] = []"
| "to_lower (c # cs) =
    (if bytes_at [0xE2, 0x84, 0xAA] (c # cs) then CHR ''k'' # to_lower (drop 2 cs)
     else if bytes_at [0xC4, 0xB0] (c # cs) then CHR ''i'' # to_lower (drop 1 cs)
     else ascii_lower c # to_lower cs)"

fun fold_case :: "string \<Rightarrow> string" where
  "fold_case [] = []"
| "fold_case (c # cs) =
    (if bytes_at [0xE2, 0x84, 0xAA] (c # cs) then CHR ''k'' # fold_case (drop 2 cs)
     else if bytes_at [0xC5, 0xBF] (c # cs) then CHR ''s'' # fold_case (drop 1 cs)
     else ascii_lower c # fold_case cs)"

text \<open>\<open>EqualFold(s, lit)\<close> where one side is an ASCII literal.\<close>

definition equal_fold :: "string \<Rightarrow> string \<Rightarrow> bool" where
  "equal_fold s t = (fold_case s = fold_case t)"

lemma equal_fold_refl [simp]: "equal_fold s s"
  by (simp add: equal_fold_def)

section \<open>Splitting, replacing, searching\<close>

definition contains_any :: "string \<Rightarrow> string \<Rightarrow> bool" where
  "contains_any s chars = (\<exists>c \<in> set s. c \<in> set chars)"

fun split_on :: "char \<Rightarrow> string \<Rightarrow> string list" where
  "split_on sep [] = [[]]"
| "split_on sep (c # cs) =
    (if c = sep then [] # split_on sep cs
     else (case split_on sep cs of [] \<Rightarrow> [[c]] | w # ws \<Rightarrow> (c # w) # ws))"

definition replace_char :: "char \<Rightarrow> char \<Rightarrow> string \<Rightarrow> string" where
  "replace_char a b s = map (\<lambda>c. if c = a then b else c) s"

definition is_abs_path :: "string \<Rightarrow> bool" where
  "is_abs_path s = (s \<noteq> [] \<and> hd s = CHR ''/'')"

definition has_prefix :: "string \<Rightarrow> string \<Rightarrow> bool" where
  "has_prefix s p = (take (length p) s = p)"

fun join_with :: "string \<Rightarrow> string list \<Rightarrow> string" where
  "join_with sep [] = []"
| "join_with sep [x] = x"
| "join_with sep (x # y # ys) = x @ sep @ join_with sep (y # ys)"

section \<open>path.Clean and path.Base\<close>

text \<open>
  The elements kept so far, in reverse: an empty element or \<open>.\<close> is skipped, \<open>..\<close> removes the last
  kept element unless that is itself \<open>..\<close>, and is dropped at the root of an absolute path.
\<close>

fun clean_elems :: "bool \<Rightarrow> string list \<Rightarrow> string list \<Rightarrow> string list" where
  "clean_elems rooted kept [] = rev kept"
| "clean_elems rooted kept (e # es) =
    (if e = [] \<or> e = ''.'' then clean_elems rooted kept es
     else if e = ''..'' then
       (case kept of
          [] \<Rightarrow> clean_elems rooted (if rooted then [] else [e]) es
        | k # ks \<Rightarrow> clean_elems rooted (if k = ''..'' then e # kept else ks) es)
     else clean_elems rooted (e # kept) es)"

definition path_clean :: "string \<Rightarrow> string" where
  "path_clean p =
    (let rooted = is_abs_path p;
         body = join_with ''/'' (clean_elems rooted [] (split_on CHR ''/'' p))
     in if rooted then CHR ''/'' # body else if body = [] then ''.'' else body)"

definition path_base :: "string \<Rightarrow> string" where
  "path_base p =
    (if p = [] then ''.''
     else (case rev (dropWhile (\<lambda>c. c = CHR ''/'') (rev p)) of
             [] \<Rightarrow> ''/''
           | q \<Rightarrow> last (split_on CHR ''/'' q)))"

section \<open>net.ParseIP\<close>

definition is_hex :: "char \<Rightarrow> bool" where
  "is_hex c = (48 \<le> byte c \<and> byte c \<le> 57 \<or> 97 \<le> byte c \<and> byte c \<le> 102 \<or> 65 \<le> byte c \<and> byte c \<le> 70)"

definition is_digit :: "char \<Rightarrow> bool" where
  "is_digit c = (48 \<le> byte c \<and> byte c \<le> 57)"

definition decimal :: "string \<Rightarrow> nat" where
  "decimal s = foldl (\<lambda>n c. 10 * n + (byte c - 48)) 0 s"

text \<open>Four decimal fields, none empty, above 255 or with a leading zero.\<close>

definition ipv4_ok :: "string \<Rightarrow> bool" where
  "ipv4_ok s =
    (let fs = split_on CHR ''.'' s
     in length fs = 4 \<and>
        (\<forall>f \<in> set fs. f \<noteq> [] \<and> length f \<le> 3 \<and> (\<forall>c \<in> set f. is_digit c) \<and> decimal f \<le> 255 \<and>
           (hd f = CHR ''0'' \<longrightarrow> length f = 1)))"

text \<open>
  The loop of \<open>netip.parseIPv6\<close> from field \<open>i\<close> (in bytes, 16 in all), with \<open>ell\<close> set once a double
  colon has been read. Fuel 9 is enough: a field is read per round and there are at most eight.
\<close>

fun ipv6_fields :: "nat \<Rightarrow> nat \<Rightarrow> bool \<Rightarrow> string \<Rightarrow> bool" where
  "ipv6_fields 0 i ell s = False"
| "ipv6_fields (Suc fuel) i ell s =
    (if 16 \<le> i then s = [] \<and> \<not> ell
     else let h = takeWhile is_hex s; r = dropWhile is_hex s
          in if h = [] \<or> 4 < length h then False
             else if r \<noteq> [] \<and> hd r = CHR ''.'' then
               (if \<not> ell \<and> i \<noteq> 12 \<or> 16 < i + 4 then False
                else ipv4_ok s \<and> (if i + 4 < 16 then ell else \<not> ell))
             else if r = [] then (if i + 2 < 16 then ell else \<not> ell)
             else if hd r \<noteq> CHR '':'' \<or> length r = 1 then False
             else if hd (tl r) = CHR '':'' then
               (if ell then False
                else if length r = 2 then i + 2 < 16
                else ipv6_fields fuel (i + 2) True (drop 2 r))
             else ipv6_fields fuel (i + 2) ell (tl r))"

definition ipv6_ok :: "string \<Rightarrow> bool" where
  "ipv6_ok s =
    (if take 2 s = ''::'' then (if length s = 2 then True else ipv6_fields 9 0 True (drop 2 s))
     else ipv6_fields 9 0 False s)"

text \<open>\<open>net.ParseIP(s) != nil\<close>: the first of dot, colon and percent decides; a zone is refused.\<close>

definition parse_ip_ok :: "string \<Rightarrow> bool" where
  "parse_ip_ok s =
    (case find (\<lambda>c. c = CHR ''.'' \<or> c = CHR '':'' \<or> c = CHR ''%'') s of
       Some c \<Rightarrow> if c = CHR ''.'' then ipv4_ok s
                 else if c = CHR '':'' then CHR ''%'' \<notin> set s \<and> ipv6_ok s
                 else False
     | None \<Rightarrow> False)"

section \<open>Replacing a text, trimming bytes, joining paths\<close>

text \<open>\<open>strings.ReplaceAll\<close> of a text that is not empty; \<open>strings.TrimLeft\<close> and \<open>strings.TrimRight\<close> of one ASCII byte.\<close>

function replace_all :: "string \<Rightarrow> string \<Rightarrow> string \<Rightarrow> string" where
  "replace_all old new s =
     (if old = [] \<or> s = [] then s
      else if has_prefix s old then new @ replace_all old new (drop (length old) s)
      else hd s # replace_all old new (tl s))"
  by pat_completeness auto
termination
  by (relation "measure (\<lambda>(old, new, s). length s)") auto

declare replace_all.simps [simp del]

definition trim_left_char :: "char \<Rightarrow> string \<Rightarrow> string" where
  "trim_left_char c s = dropWhile (\<lambda>d. d = c) s"

definition trim_right_char :: "char \<Rightarrow> string \<Rightarrow> string" where
  "trim_right_char c s = rev (dropWhile (\<lambda>d. d = c) (rev s))"

text \<open>\<open>filepath.Join\<close> of two elements.\<close>

definition path_join :: "string \<Rightarrow> string \<Rightarrow> string" where
  "path_join a b = (let es = filter (\<lambda>e. e \<noteq> []) [a, b] in if es = [] then [] else path_clean (join_with ''/'' es))"

text \<open>\<open>hex.EncodeToString\<close>, the same as \<open>fmt.Sprintf("%x", bs)\<close>.\<close>

definition hex_digit :: "nat \<Rightarrow> char" where
  "hex_digit n = ''0123456789abcdef'' ! n"

definition hex_bytes :: "nat list \<Rightarrow> string" where
  "hex_bytes bs = concat (map (\<lambda>b. [hex_digit (b div 16), hex_digit (b mod 16)]) bs)"

section \<open>Decimal notation\<close>

text \<open>\<open>fmt.Sprintf("%d", i)\<close>; \<open>decimal\<close> reads it back, so different numbers print differently.\<close>

fun nat_digits :: "nat \<Rightarrow> string" where
  "nat_digits n = (if n < 10 then [char_of (48 + n)] else nat_digits (n div 10) @ [char_of (48 + n mod 10)])"

declare nat_digits.simps [simp del]

definition itoa :: "int \<Rightarrow> string" where
  "itoa i = (if i < 0 then CHR ''-'' # nat_digits (nat (- i)) else nat_digits (nat i))"

lemma byte_char_of [simp]: "n < 256 \<Longrightarrow> byte (char_of n) = n"
  by (simp add: byte_def)

lemma decimal_snoc [simp]: "decimal (s @ [c]) = 10 * decimal s + (byte c - 48)"
  by (simp add: decimal_def)

lemma decimal_nat_digits [simp]: "decimal (nat_digits n) = n"
proof (induction n rule: nat_digits.induct)
  case (1 n)
  show ?case
  proof (cases "n < 10")
    case True
    then show ?thesis using decimal_snoc[of "[]" "char_of (48 + n)"]
      by (subst nat_digits.simps) (simp add: decimal_def)
  next
    case False
    with 1 show ?thesis by (subst nat_digits.simps) simp
  qed
qed

lemma nat_digits_digit: "c \<in> set (nat_digits n) \<Longrightarrow> 48 \<le> byte c \<and> byte c \<le> 57"
proof (induction n rule: nat_digits.induct)
  case (1 n)
  show ?case
  proof (cases "n < 10")
    case True
    with 1(2) show ?thesis by (subst (asm) nat_digits.simps) auto
  next
    case False
    have "n mod 10 \<le> 9" by simp
    with 1 False show ?thesis by (subst (asm) (2) nat_digits.simps) auto
  qed
qed

lemma itoa_inject [simp]: "itoa i = itoa j \<longleftrightarrow> i = j"
proof
  have minus: "CHR ''-'' \<notin> set (nat_digits n)" for n
    using nat_digits_digit[of "CHR ''-''" n] by (auto simp: byte_def)
  have inj: "nat_digits m = nat_digits n \<Longrightarrow> m = n" for m n by (metis decimal_nat_digits)
  assume "itoa i = itoa j"
  moreover have "CHR ''-'' # xs \<noteq> nat_digits n" for xs n using minus[of n] by (metis list.set_intros(1))
  ultimately show "i = j"
    by (auto simp: itoa_def dest!: inj split: if_splits) (metis)+
qed simp

end
