(* ===== verification/Config.thy ===== *)
theory Config
  imports Complex_Main GoStd
begin

text \<open>
  The gateway's configuration (internal/config): its data, the defaults and the validation that
  \<open>LoadGateway\<close> runs on a decoded document, the directory identity of a model, and the views the
  gateway takes of it (alias resolution, the active configuration, capacity per model and tag).
  Decoding YAML is third-party code and a parameter of \<open>load_gateway\<close> and \<open>load_agent\<close>.
\<close>

section \<open>Data\<close>

text \<open>
  A slice or a map that may be nil. Only \<open>reflect.DeepEqual\<close> and the encoders tell nil from empty, so the
  fields whose nil-ness is looked at have this type and the rest of the code reads their \<open>elems\<close>.
\<close>

datatype 'a slice = NilSlice | Slice "'a list"

fun elems :: "'a slice \<Rightarrow> 'a list" where
  "elems NilSlice = []"
| "elems (Slice xs) = xs"

text \<open>A float64 price: only its sign is looked at here.\<close>

datatype go_float = Finite rat | PosInf | NegInf | NaN

fun go_neg :: "go_float \<Rightarrow> bool" where
  "go_neg (Finite q) = (q < 0)"
| "go_neg PosInf = False"
| "go_neg NegInf = True"
| "go_neg NaN = False"

record worker_defaults =
  wd_max_concurrency :: int
  wd_max_queue :: int

record artifact =
  art_object :: string
  art_kind :: string
  art_crc64ecma :: string

record model_billing =
  mb_per_request_usd :: go_float
  mb_input_per_million_usd :: go_float
  mb_output_per_million_usd :: go_float
  mb_cached_input_per_million_usd :: go_float

record model =
  m_disabled :: bool
  m_model_dir :: string
  m_priority :: int
  m_min_loaded :: int
  m_max_loaded :: int
  m_max_loaded_set :: bool
  m_max_concurrency :: int
  m_max_queue :: int
  m_tag_capacities :: "(string \<times> worker_defaults) slice"
  m_queue_timeout_ms :: int
  m_ttl :: int
  m_artifact :: artifact
  m_run :: string
  m_runtime :: string
  m_runtime_args :: "string slice"
  m_cmd_stop :: string
  m_check_endpoint :: string
  m_billing :: model_billing

record tag_policy =
  tp_max_concurrency :: int
  tp_max_queue :: int
  tp_worker_defaults :: worker_defaults
  tp_allowed :: "string slice"
  tp_warm_when_idle :: string

record frp_tcp_config =
  frp_server_addr :: string
  frp_dial_addr :: string
  frp_server_port :: int
  frp_auth_token :: string
  frp_port_start :: int
  frp_port_end :: int
  frp_lease_ttl_seconds :: int
  frp_lease_store_path :: string
  frp_lease_ttl_set :: bool

record transport_config =
  tr_type :: string
  tr_frp :: frp_tcp_config

record gateway_settings =
  gs_listen_addr :: string
  gs_proxy_attempts :: int

record oss_config =
  oss_base_url :: string

record token_config =
  tok_client :: string
  tok_agent :: string
  tok_llama_swap :: string

record metrics_store_config =
  ms_enabled :: bool
  ms_type :: string
  ms_query_url :: string
  ms_default_range :: string
  ms_max_range :: string
  ms_timeout_ms :: int

record records_store_config =
  rs_enabled :: bool
  rs_type :: string
  rs_dsn :: string
  rs_gateway_id :: string
  rs_auto_migrate :: bool
  rs_timeout_ms :: int

record gateway_config =
  gc_gateway :: gateway_settings
  gc_transport :: transport_config
  gc_oss :: oss_config
  gc_tokens :: token_config
  gc_metrics_store :: metrics_store_config
  gc_records_store :: records_store_config
  gc_models :: "(string, model) gomap"
  gc_model_aliases :: "(string, string) gomap"
  gc_policies :: "(string \<times> tag_policy) slice"

abbreviation m_tag_capacity :: "model \<Rightarrow> (string, worker_defaults) gomap" where
  "m_tag_capacity m \<equiv> elems (m_tag_capacities m)"

abbreviation tp_allowed_models :: "tag_policy \<Rightarrow> string list" where
  "tp_allowed_models p \<equiv> elems (tp_allowed p)"

abbreviation gc_tag_policies :: "gateway_config \<Rightarrow> (string, tag_policy) gomap" where
  "gc_tag_policies cfg \<equiv> elems (gc_policies cfg)"

text \<open>The zero value \<open>model{}\<close>, which indexing the map with a missing key returns.\<close>

definition zero_artifact :: artifact where
  "zero_artifact = \<lparr>art_object = [], art_kind = [], art_crc64ecma = []\<rparr>"

definition zero_billing :: model_billing where
  "zero_billing = \<lparr>mb_per_request_usd = Finite 0, mb_input_per_million_usd = Finite 0,
     mb_output_per_million_usd = Finite 0, mb_cached_input_per_million_usd = Finite 0\<rparr>"

definition zero_model :: model where
  "zero_model = \<lparr>m_disabled = False, m_model_dir = [], m_priority = 0, m_min_loaded = 0,
     m_max_loaded = 0, m_max_loaded_set = False, m_max_concurrency = 0, m_max_queue = 0,
     m_tag_capacities = NilSlice, m_queue_timeout_ms = 0, m_ttl = 0, m_artifact = zero_artifact,
     m_run = [], m_runtime = [], m_runtime_args = NilSlice, m_cmd_stop = [], m_check_endpoint = [],
     m_billing = zero_billing\<rparr>"

text \<open>Every map of the document has each key once.\<close>

definition config_wf :: "gateway_config \<Rightarrow> bool" where
  "config_wf cfg \<longleftrightarrow> mwf (gc_models cfg) \<and> mwf (gc_model_aliases cfg) \<and> mwf (gc_tag_policies cfg)"

section \<open>Loaded-replica ceilings of a model\<close>

definition hard_max_loaded :: "model \<Rightarrow> int" where
  "hard_max_loaded m = (if m_max_loaded_set m \<or> m_max_loaded m > 0 then m_max_loaded m else 0)"

definition effective_max_loaded_cfg :: "model \<Rightarrow> int" where
  "effective_max_loaded_cfg m =
     (if m_max_loaded_set m \<or> m_max_loaded m > 0 then m_max_loaded m else 0)"

definition max_loaded_is_auto :: "model \<Rightarrow> bool" where
  "max_loaded_is_auto m \<longleftrightarrow> \<not> m_max_loaded_set m \<and> m_max_loaded m = 0"

section \<open>Directory identity\<close>

definition resolved_model_dir :: "string \<Rightarrow> model \<Rightarrow> string" where
  "resolved_model_dir name m =
     (let dir = trim_space (m_model_dir m) in if dir \<noteq> [] then dir else name)"

definition model_dir_identity_for_os :: "string \<Rightarrow> string \<Rightarrow> string" where
  "model_dir_identity_for_os dir goos =
     (let d = (if goos = ''windows'' then replace_char (CHR 92) (CHR ''/'') dir else dir);
          identity = path_clean d
      in if goos = ''windows'' then to_lower identity else identity)"

definition safe_dir_char :: "char \<Rightarrow> bool" where
  "safe_dir_char c \<longleftrightarrow>
     (97 \<le> byte c \<and> byte c \<le> 122) \<or> (65 \<le> byte c \<and> byte c \<le> 90) \<or> (48 \<le> byte c \<and> byte c \<le> 57) \<or>
     c = CHR ''.'' \<or> c = CHR ''_'' \<or> c = CHR ''-''"

definition is_safe_model_dir_name :: "string \<Rightarrow> bool" where
  "is_safe_model_dir_name dir \<longleftrightarrow>
     \<not> (dir = [] \<or> dir = ''.'' \<or> dir = ''..'') \<and> list_all safe_dir_char dir"

section \<open>Validation\<close>

datatype config_error =
    ErrProxyAttempts
  | ErrMetricsStoreType
  | ErrRecordsStoreType
  | ErrRecordsStoreDSN
  | ErrOSSBaseURL
  | ErrTokens
  | ErrTransportType
  | ErrFRPServerAddr
  | ErrFRPAuthToken
  | ErrFRPDialAddr
  | ErrFRPServerPort
  | ErrFRPPortStart
  | ErrFRPPortEnd
  | ErrFRPPortOrder
  | ErrFRPLeaseTTL
  | ErrFRPLeaseStorePath
  | ErrModelsRequired
  | ErrArtifactObject string
  | ErrArtifactKind string
  | ErrArtifactCRC string
  | ErrRunOrRuntime string
  | ErrRuntime string
  | ErrMinExceedsMax string
  | ErrModelLimits string
  | ErrTagCapacityLimits string string
  | ErrQueueTimeout string
  | ErrBillingPrices string
  | ErrModelDirUnsafe string
  | ErrModelDirSourceCollision string string
  | ErrModelDirReserved string string
  | ErrModelDirDuplicate string string string
  | ErrAliasBlank
  | ErrAliasCollides string
  | ErrAliasTarget string string
  | ErrPolicyLimits string
  | ErrPolicyModel string string
  | ErrPolicyWarm string string
  | ErrTagCapacityPolicy string string
  | ErrDecode string
  | ErrAgentID
  | ErrAgentTags
  | ErrAgentPaths
  | ErrAgentToken

definition valid_frp_dial_addr :: "string \<Rightarrow> bool" where
  "valid_frp_dial_addr value =
     (let v = trim_space value
      in if v = [] \<or> contains_any v [CHR ''/'', CHR ''?'', CHR ''#'', CHR '' '', CHR 9, CHR 13, CHR 10]
         then False
         else if parse_ip_ok v then True
         else CHR '':'' \<notin> set v)"

definition valid_model_runtime :: "string \<Rightarrow> bool" where
  "valid_model_runtime rt \<longleftrightarrow>
     to_lower (trim_space rt) \<in> {''vllm'', ''vllm-omni'', ''sglang'', ''llamacpp''}"

definition validate_transport :: "transport_config \<Rightarrow> config_error option" where
  "validate_transport t =
     (if tr_type t = [] then None
      else if tr_type t \<noteq> ''frp_tcp'' then Some ErrTransportType
      else let f = tr_frp t in first_err
        [fail_if (trim_space (frp_server_addr f) = []) ErrFRPServerAddr,
         fail_if (trim_space (frp_auth_token f) = []) ErrFRPAuthToken,
         fail_if (\<not> valid_frp_dial_addr (frp_dial_addr f)) ErrFRPDialAddr,
         fail_if (frp_server_port f < 1 \<or> frp_server_port f > 65535) ErrFRPServerPort,
         fail_if (frp_port_start f < 1 \<or> frp_port_start f > 65535) ErrFRPPortStart,
         fail_if (frp_port_end f < 1 \<or> frp_port_end f > 65535) ErrFRPPortEnd,
         fail_if (frp_port_start f > frp_port_end f) ErrFRPPortOrder,
         fail_if (frp_lease_ttl_seconds f \<le> 0) ErrFRPLeaseTTL,
         fail_if (let p = trim_space (frp_lease_store_path f) in p \<noteq> [] \<and> \<not> is_abs_path p)
           ErrFRPLeaseStorePath])"

text \<open>The body of the loop over the models.\<close>

definition validate_model :: "string \<Rightarrow> model \<Rightarrow> config_error option" where
  "validate_model name m = first_err
     ([fail_if (art_object (m_artifact m) = []) (ErrArtifactObject name),
       fail_if (art_kind (m_artifact m) \<noteq> ''file'' \<and> art_kind (m_artifact m) \<noteq> ''tar_gz'')
         (ErrArtifactKind name),
       fail_if (art_crc64ecma (m_artifact m) = []) (ErrArtifactCRC name),
       fail_if (trim_space (m_run m) = [] \<and> trim_space (m_runtime m) = []) (ErrRunOrRuntime name),
       fail_if (trim_space (m_runtime m) \<noteq> [] \<and> \<not> valid_model_runtime (m_runtime m)) (ErrRuntime name),
       fail_if (m_max_loaded_set m \<and> m_min_loaded m > m_max_loaded m) (ErrMinExceedsMax name),
       fail_if (m_max_concurrency m < 0 \<or> m_max_queue m < 0) (ErrModelLimits name)] @
      map (\<lambda>(tag, c). fail_if (wd_max_concurrency c \<le> 0 \<or> wd_max_queue c < 0)
             (ErrTagCapacityLimits name tag)) (m_tag_capacity m) @
      [fail_if (m_queue_timeout_ms m < 0) (ErrQueueTimeout name),
       fail_if (go_neg (mb_per_request_usd (m_billing m)) \<or>
                go_neg (mb_input_per_million_usd (m_billing m)) \<or>
                go_neg (mb_output_per_million_usd (m_billing m)) \<or>
                go_neg (mb_cached_input_per_million_usd (m_billing m))) (ErrBillingPrices name)])"

text \<open>
  The loop over the sorted model names: the directory checks of one model, and the map from
  directory identities to the names seen so far.
\<close>

definition artifact_source_basenames :: "gateway_config \<Rightarrow> string list" where
  "artifact_source_basenames cfg =
     map (\<lambda>(name, m). path_base (trim_space (art_object (m_artifact m)))) (gc_models cfg)"

fun check_model_dirs ::
  "gateway_config \<Rightarrow> string \<Rightarrow> string list \<Rightarrow> (string, string) gomap \<Rightarrow> config_error option" where
  "check_model_dirs cfg goos [] dirs = None"
| "check_model_dirs cfg goos (name # names) dirs =
     (let m = mget zero_model (gc_models cfg) name;
          dir = resolved_model_dir name m;
          ident = model_dir_identity_for_os dir goos
      in if m_model_dir m \<noteq> [] \<and> (dir \<noteq> m_model_dir m \<or> \<not> is_safe_model_dir_name dir)
         then Some (ErrModelDirUnsafe name)
         else if m_model_dir m \<noteq> [] \<and> dir \<in> set (artifact_source_basenames cfg)
         then Some (ErrModelDirSourceCollision name dir)
         else if ident = model_dir_identity_for_os ''.locks'' goos
         then Some (ErrModelDirReserved name dir)
         else case map_of dirs ident of
                Some previous \<Rightarrow> Some (ErrModelDirDuplicate previous name ident)
              | None \<Rightarrow> check_model_dirs cfg goos names (mput ident name dirs))"

definition check_alias :: "gateway_config \<Rightarrow> string \<Rightarrow> config_error option" where
  "check_alias cfg alias =
     (let raw = mget [] (gc_model_aliases cfg) alias; target = trim_space raw
      in first_err
        [fail_if (alias = [] \<or> alias \<noteq> trim_space alias \<or> target = [] \<or> target \<noteq> raw) ErrAliasBlank,
         fail_if (mhas (gc_models cfg) alias) (ErrAliasCollides alias),
         fail_if (\<not> mhas (gc_models cfg) target) (ErrAliasTarget alias target)])"

definition validate_model_identities_for_os :: "gateway_config \<Rightarrow> string \<Rightarrow> config_error option" where
  "validate_model_identities_for_os cfg goos =
     first_err
       (check_model_dirs cfg goos (sort (mkeys (gc_models cfg))) [] #
        map (check_alias cfg) (sort (mkeys (gc_model_aliases cfg))))"

definition validate_policy :: "gateway_config \<Rightarrow> string \<Rightarrow> tag_policy \<Rightarrow> config_error option" where
  "validate_policy cfg tag p = first_err
     ([fail_if (tp_max_concurrency p < 0 \<or> tp_max_queue p < 0 \<or>
                wd_max_concurrency (tp_worker_defaults p) < 0 \<or>
                wd_max_queue (tp_worker_defaults p) < 0) (ErrPolicyLimits tag)] @
      map (\<lambda>mn. fail_if (\<not> mhas (gc_models cfg) mn) (ErrPolicyModel tag mn)) (tp_allowed_models p) @
      [fail_if (tp_warm_when_idle p \<noteq> [] \<and> tp_warm_when_idle p \<notin> set (tp_allowed_models p))
         (ErrPolicyWarm tag (tp_warm_when_idle p))])"

definition validate_tag_capacity :: "gateway_config \<Rightarrow> string \<Rightarrow> model \<Rightarrow> config_error option" where
  "validate_tag_capacity cfg name m = first_err
     (map (\<lambda>(tag, c). case map_of (gc_tag_policies cfg) tag of
             None \<Rightarrow> Some (ErrTagCapacityPolicy name tag)
           | Some p \<Rightarrow> fail_if (name \<notin> set (tp_allowed_models p)) (ErrTagCapacityPolicy name tag))
        (m_tag_capacity m))"

definition validate_gateway :: "string \<Rightarrow> gateway_config \<Rightarrow> config_error option" where
  "validate_gateway goos cfg = first_err
     ([fail_if (gs_proxy_attempts (gc_gateway cfg) < 0) ErrProxyAttempts,
       fail_if (ms_enabled (gc_metrics_store cfg) \<and> ms_type (gc_metrics_store cfg) \<noteq> ''victoriametrics'')
         ErrMetricsStoreType,
       fail_if (rs_enabled (gc_records_store cfg) \<and> rs_type (gc_records_store cfg) \<noteq> ''postgres'')
         ErrRecordsStoreType,
       fail_if (rs_enabled (gc_records_store cfg) \<and> trim_space (rs_dsn (gc_records_store cfg)) = [])
         ErrRecordsStoreDSN,
       fail_if (trim_space (oss_base_url (gc_oss cfg)) = []) ErrOSSBaseURL,
       fail_if (tok_client (gc_tokens cfg) = [] \<or> tok_agent (gc_tokens cfg) = []) ErrTokens,
       validate_transport (gc_transport cfg),
       fail_if (gc_models cfg = []) ErrModelsRequired] @
      map (\<lambda>(name, m). validate_model name m) (gc_models cfg) @
      [validate_model_identities_for_os cfg goos] @
      map (\<lambda>(tag, p). validate_policy cfg tag p) (gc_tag_policies cfg) @
      map (\<lambda>(name, m). validate_tag_capacity cfg name m) (gc_models cfg))"

section \<open>Defaults and loading\<close>

definition default_proxy_attempts :: int where
  "default_proxy_attempts = 3"

definition apply_gateway_defaults :: "gateway_config \<Rightarrow> gateway_config" where
  "apply_gateway_defaults cfg =
     (let g = gc_gateway cfg; ms = gc_metrics_store cfg; rs = gc_records_store cfg;
          t = gc_transport cfg; f = tr_frp t;
          g' = (if gs_proxy_attempts g = 0 then g\<lparr>gs_proxy_attempts := default_proxy_attempts\<rparr> else g);
          ms' = ms\<lparr>ms_type := (if ms_type ms = [] then ''victoriametrics'' else ms_type ms),
                   ms_default_range := (if ms_default_range ms = [] then ''1h'' else ms_default_range ms),
                   ms_max_range := (if ms_max_range ms = [] then ''7d'' else ms_max_range ms),
                   ms_timeout_ms := (if ms_timeout_ms ms \<le> 0 then 3000 else ms_timeout_ms ms)\<rparr>;
          rs' = rs\<lparr>rs_type := (if rs_type rs = [] then ''postgres'' else rs_type rs),
                   rs_timeout_ms := (if rs_timeout_ms rs \<le> 0 then 3000 else rs_timeout_ms rs)\<rparr>;
          f1 = (if tr_type t = ''frp_tcp'' \<and> frp_lease_ttl_seconds f = 0 \<and> \<not> frp_lease_ttl_set f
                then f\<lparr>frp_lease_ttl_seconds := 180\<rparr> else f);
          f2 = (if tr_type t = ''frp_tcp'' \<and> trim_space (frp_dial_addr f1) = []
                then f1\<lparr>frp_dial_addr := trim_space (frp_server_addr f1)\<rparr> else f1)
      in cfg\<lparr>gc_gateway := g', gc_metrics_store := ms', gc_records_store := rs',
             gc_transport := t\<lparr>tr_frp := f2\<rparr>\<rparr>)"

definition apply_gateway_token_defaults :: "gateway_config \<Rightarrow> gateway_config" where
  "apply_gateway_token_defaults cfg =
     (let tk = gc_tokens cfg
      in if tok_llama_swap tk = [] then cfg\<lparr>gc_tokens := tk\<lparr>tok_llama_swap := tok_agent tk\<rparr>\<rparr> else cfg)"

definition load_gateway ::
  "('raw \<Rightarrow> string + gateway_config) \<Rightarrow> string \<Rightarrow> 'raw \<Rightarrow> config_error + gateway_config" where
  "load_gateway decode goos raw =
     (case decode raw of
        Inl e \<Rightarrow> Inl (ErrDecode e)
      | Inr cfg0 \<Rightarrow>
          (let cfg = apply_gateway_token_defaults (apply_gateway_defaults cfg0)
           in case validate_gateway goos cfg of Some e \<Rightarrow> Inl e | None \<Rightarrow> Inr cfg))"

record agent_config =
  ac_id :: string
  ac_tags :: "string list"
  ac_model_root :: string
  ac_llama_swap_config :: string
  ac_llama_swap_service :: string
  ac_restart_command :: string
  ac_swap_url :: string
  ac_swap_port :: int
  ac_llama_swap_url :: string
  ac_gateway_url :: string
  ac_token :: string
  ac_llama_swap_token :: string

definition load_agent ::
  "('raw \<Rightarrow> string + agent_config) \<Rightarrow> 'raw \<Rightarrow> config_error + agent_config" where
  "load_agent decode raw =
     (case decode raw of
        Inl e \<Rightarrow> Inl (ErrDecode e)
      | Inr c \<Rightarrow>
          if ac_id c = [] then Inl ErrAgentID
          else if ac_tags c = [] then Inl ErrAgentTags
          else (let c1 = (if ac_llama_swap_url c = [] \<and> ac_swap_url c \<noteq> []
                          then c\<lparr>ac_llama_swap_url := ac_swap_url c\<rparr> else c)
                in if ac_model_root c1 = [] \<or> ac_llama_swap_config c1 = [] \<or> ac_gateway_url c1 = []
                   then Inl ErrAgentPaths
                   else if ac_token c1 = [] then Inl ErrAgentToken
                   else Inr (if ac_llama_swap_token c1 = [] \<and> ac_llama_swap_url c1 \<noteq> []
                             then c1\<lparr>ac_llama_swap_token := ac_token c1\<rparr> else c1)))"

section \<open>Views of the configuration\<close>

definition resolve_requested_model :: "gateway_config \<Rightarrow> string \<Rightarrow> string \<times> model option" where
  "resolve_requested_model cfg requested =
     (let resolved = (case map_of (gc_model_aliases cfg) requested of
                        Some target \<Rightarrow> target | None \<Rightarrow> requested)
      in (resolved, map_of (gc_models cfg) resolved))"

text \<open>\<open>append([]T(nil), xs...)\<close>: an empty slice becomes nil.\<close>

definition clone_slice :: "'a slice \<Rightarrow> 'a slice" where
  "clone_slice s = (if elems s = [] then NilSlice else Slice (elems s))"

text \<open>
  \<open>cloneGatewayConfig\<close>: values are immutable here, so a copy differs from the original in nil-ness only.
  A nil map of models or aliases is not told from an empty one.
\<close>

definition clone_model :: "model \<Rightarrow> model" where
  "clone_model m = m\<lparr>m_runtime_args := clone_slice (m_runtime_args m)\<rparr>"

definition clone_policy :: "tag_policy \<Rightarrow> tag_policy" where
  "clone_policy p = p\<lparr>tp_allowed := clone_slice (tp_allowed p)\<rparr>"

definition clone_gateway_config :: "gateway_config \<Rightarrow> gateway_config" where
  "clone_gateway_config cfg =
     cfg\<lparr>gc_models := map (\<lambda>(n, m). (n, clone_model m)) (gc_models cfg),
         gc_policies := Slice (map (\<lambda>(t, p). (t, clone_policy p)) (gc_tag_policies cfg))\<rparr>"

definition active_policy :: "(string, model) gomap \<Rightarrow> tag_policy \<Rightarrow> tag_policy" where
  "active_policy models p =
     p\<lparr>tp_allowed := (if tp_allowed_models p \<noteq> [] then Slice (filter (mhas models) (tp_allowed_models p))
                      else tp_allowed p),
       tp_warm_when_idle :=
         (if tp_warm_when_idle p \<noteq> [] \<and> \<not> mhas models (tp_warm_when_idle p) then []
          else tp_warm_when_idle p)\<rparr>"

definition active_gateway_config :: "gateway_config \<Rightarrow> gateway_config" where
  "active_gateway_config cfg =
     (let out = clone_gateway_config cfg;
          models = filter (\<lambda>(n, m). \<not> m_disabled m) (gc_models out)
      in out\<lparr>gc_models := models,
             gc_model_aliases := filter (\<lambda>(a, t). mhas models t) (gc_model_aliases out),
             gc_policies := Slice (map (\<lambda>(t, p). (t, active_policy models p)) (gc_tag_policies out))\<rparr>)"

definition effective_capacity :: "int \<Rightarrow> int \<Rightarrow> int" where
  "effective_capacity derived legacy_ceiling =
     (if derived \<le> 0 then legacy_ceiling
      else if legacy_ceiling \<le> 0 \<or> derived < legacy_ceiling then derived
      else legacy_ceiling)"

definition model_tag_capacity :: "gateway_config \<Rightarrow> string \<Rightarrow> string \<Rightarrow> worker_defaults" where
  "model_tag_capacity cfg model_name tag =
     (case (case map_of (gc_models cfg) model_name of
              Some m \<Rightarrow> map_of (m_tag_capacity m) tag | None \<Rightarrow> None) of
        Some c \<Rightarrow> c
      | None \<Rightarrow>
          (case map_of (gc_tag_policies cfg) tag of
             Some p \<Rightarrow>
               if wd_max_concurrency (tp_worker_defaults p) > 0 \<or> wd_max_queue (tp_worker_defaults p) > 0
               then tp_worker_defaults p
               else \<lparr>wd_max_concurrency = 1, wd_max_queue = 1\<rparr>
           | None \<Rightarrow> \<lparr>wd_max_concurrency = 1, wd_max_queue = 1\<rparr>))"

definition worker_model_limit_key :: "string \<Rightarrow> string \<Rightarrow> string" where
  "worker_model_limit_key worker_id mdl = ''worker:'' @ worker_id @ '':model:'' @ mdl"

definition worker_model_limit_prefix :: "string \<Rightarrow> string" where
  "worker_model_limit_prefix worker_id = ''worker:'' @ worker_id @ '':model:''"

end
