(* ===== verification/ConfigFacts.thy ===== *)
theory ConfigFacts
  imports Config "HOL-Library.Multiset"
begin

text \<open>
  What a configuration accepted by \<open>load_gateway\<close> guarantees: the namespace of models and aliases,
  the install directories, the transport's port range, independence of the maps' iteration order,
  and the laws of the defaults and of the active view.
\<close>

section \<open>Reading validation\<close>

definition model_ident :: "gateway_config \<Rightarrow> string \<Rightarrow> string \<Rightarrow> string" where
  "model_ident cfg goos name =
     model_dir_identity_for_os (resolved_model_dir name (mget zero_model (gc_models cfg) name)) goos"

lemma validate_gateway_None:
  assumes "validate_gateway goos cfg = None"
  shows "validate_transport (gc_transport cfg) = None"
    and "gc_models cfg \<noteq> []"
    and "validate_model_identities_for_os cfg goos = None"
    and "\<And>n m. (n, m) \<in> set (gc_models cfg) \<Longrightarrow> validate_model n m = None"
    and "\<And>t p. (t, p) \<in> set (gc_tag_policies cfg) \<Longrightarrow> validate_policy cfg t p = None"
    and "\<And>n m. (n, m) \<in> set (gc_models cfg) \<Longrightarrow> validate_tag_capacity cfg n m = None"
    and "0 \<le> gs_proxy_attempts (gc_gateway cfg)"
  using assms unfolding validate_gateway_def by (auto simp: ball_Un)

lemma validate_policy_None:
  assumes "validate_policy cfg t p = None"
  shows "\<And>mn. mn \<in> set (tp_allowed_models p) \<Longrightarrow> mhas (gc_models cfg) mn"
    and "tp_warm_when_idle p \<noteq> [] \<Longrightarrow> tp_warm_when_idle p \<in> set (tp_allowed_models p)"
  using assms unfolding validate_policy_def by (auto simp: ball_Un)

lemma check_alias_None:
  assumes "check_alias cfg a = None"
  shows "\<not> mhas (gc_models cfg) a"
    and "mhas (gc_models cfg) (mget [] (gc_model_aliases cfg) a)"
  using assms unfolding check_alias_def by (auto simp: Let_def)

lemma load_gateway_Inr:
  assumes "load_gateway decode goos raw = Inr cfg"
  obtains cfg0 where "decode raw = Inr cfg0"
    "cfg = apply_gateway_token_defaults (apply_gateway_defaults cfg0)"
    "validate_gateway goos cfg = None"
  using assms unfolding load_gateway_def
  by (auto simp: Let_def split: sum.splits option.splits)

lemma check_model_dirs_None:
  assumes "check_model_dirs cfg goos names dirs = None"
  shows "distinct (map (model_ident cfg goos) names)"
    and "\<And>n. n \<in> set names \<Longrightarrow>
      model_ident cfg goos n \<notin> set (mkeys dirs) \<and>
      model_ident cfg goos n \<noteq> model_dir_identity_for_os ''.locks'' goos \<and>
      (m_model_dir (mget zero_model (gc_models cfg) n) \<noteq> [] \<longrightarrow>
         is_safe_model_dir_name (m_model_dir (mget zero_model (gc_models cfg) n)))"
proof -
  have "distinct (map (model_ident cfg goos) names) \<and>
    (\<forall>n \<in> set names.
      model_ident cfg goos n \<notin> set (mkeys dirs) \<and>
      model_ident cfg goos n \<noteq> model_dir_identity_for_os ''.locks'' goos \<and>
      (m_model_dir (mget zero_model (gc_models cfg) n) \<noteq> [] \<longrightarrow>
         is_safe_model_dir_name (m_model_dir (mget zero_model (gc_models cfg) n))))"
    using assms
  proof (induction names arbitrary: dirs)
    case (Cons n ns)
    let ?m = "mget zero_model (gc_models cfg) n"
    from Cons.prems have step: "check_model_dirs cfg goos ns (mput (model_ident cfg goos n) n dirs) = None"
      and here: "map_of dirs (model_ident cfg goos n) = None"
        "model_ident cfg goos n \<noteq> model_dir_identity_for_os ''.locks'' goos"
        "m_model_dir ?m \<noteq> [] \<longrightarrow> is_safe_model_dir_name (m_model_dir ?m)"
      by (auto simp: Let_def model_ident_def split: if_splits option.splits)
    from Cons.IH[OF step] here show ?case
      by (auto simp: set_mkeys)
  qed simp
  then show "distinct (map (model_ident cfg goos) names)"
    and "\<And>n. n \<in> set names \<Longrightarrow>
      model_ident cfg goos n \<notin> set (mkeys dirs) \<and>
      model_ident cfg goos n \<noteq> model_dir_identity_for_os ''.locks'' goos \<and>
      (m_model_dir (mget zero_model (gc_models cfg) n) \<noteq> [] \<longrightarrow>
         is_safe_model_dir_name (m_model_dir (mget zero_model (gc_models cfg) n)))"
    by blast+
qed

lemma identities_None:
  assumes "validate_model_identities_for_os cfg goos = None"
  shows "check_model_dirs cfg goos (sort (mkeys (gc_models cfg))) [] = None"
    and "\<And>a. a \<in> set (mkeys (gc_model_aliases cfg)) \<Longrightarrow> check_alias cfg a = None"
  using assms unfolding validate_model_identities_for_os_def by (auto simp del: first_err.simps)

lemma mget_of_Some: "map_of m k = Some v \<Longrightarrow> mget d m k = v"
  by (simp add: mget_def)

section \<open>A small configuration\<close>

text \<open>Concrete values that the witnesses of this and the later theories evaluate.\<close>

definition example_model :: model where
  "example_model = zero_model\<lparr>m_artifact := \<lparr>art_object = ''models/m.bin'', art_kind = ''file'',
     art_crc64ecma = ''1''\<rparr>, m_runtime := ''vllm''\<rparr>"

definition example_policy :: tag_policy where
  "example_policy = \<lparr>tp_max_concurrency = 0, tp_max_queue = 0,
     tp_worker_defaults = \<lparr>wd_max_concurrency = 0, wd_max_queue = 0\<rparr>,
     tp_allowed = Slice [''a'', ''b''], tp_warm_when_idle = ''a''\<rparr>"

definition base_config ::
  "(string, model) gomap \<Rightarrow> (string, string) gomap \<Rightarrow> (string, tag_policy) gomap \<Rightarrow> gateway_config" where
  "base_config models aliases policies =
     \<lparr>gc_gateway = \<lparr>gs_listen_addr = '':8080'', gs_proxy_attempts = 3\<rparr>,
      gc_transport = \<lparr>tr_type = ''frp_tcp'', tr_frp = \<lparr>frp_server_addr = ''frps.example'',
        frp_dial_addr = ''10.0.0.1'', frp_server_port = 7000, frp_auth_token = ''s'',
        frp_port_start = 20000, frp_port_end = 20009, frp_lease_ttl_seconds = 180,
        frp_lease_store_path = [], frp_lease_ttl_set = True\<rparr>\<rparr>,
      gc_oss = \<lparr>oss_base_url = ''http://oss''\<rparr>,
      gc_tokens = \<lparr>tok_client = ''c'', tok_agent = ''g'', tok_llama_swap = ''l''\<rparr>,
      gc_metrics_store = \<lparr>ms_enabled = False, ms_type = ''victoriametrics'', ms_query_url = [],
        ms_default_range = ''1h'', ms_max_range = ''7d'', ms_timeout_ms = 3000\<rparr>,
      gc_records_store = \<lparr>rs_enabled = False, rs_type = ''postgres'', rs_dsn = [],
        rs_gateway_id = [], rs_auto_migrate = False, rs_timeout_ms = 3000\<rparr>,
      gc_models = models, gc_model_aliases = aliases, gc_policies = Slice policies\<rparr>"

definition example_config :: gateway_config where
  "example_config = base_config [(''a'', example_model), (''b'', example_model)]
     [(''latest'', ''a'')] [(''gpu'', example_policy)]"

lemma example_config_valid: "validate_gateway ''linux'' example_config = None"
  by code_simp

lemma example_dial_trimmed: "trim_space ''10.0.0.1'' = ''10.0.0.1''"
  by code_simp

lemma example_config_loads: "load_gateway (\<lambda>_. Inr example_config) ''linux'' () = Inr example_config"
proof -
  have "apply_gateway_token_defaults (apply_gateway_defaults example_config) = example_config"
    by (simp add: apply_gateway_defaults_def apply_gateway_token_defaults_def example_config_def
        base_config_def Let_def example_dial_trimmed)
  then show ?thesis by (simp add: load_gateway_def example_config_valid)
qed

section \<open>The namespace\<close>

text \<open>
  In a configuration that the gateway accepts, every alias resolves in one step to a defined
  model, an alias is never itself a model name, and an alias never points at another alias.
\<close>

theorem load_gateway_alias_resolves:
  assumes "load_gateway decode goos raw = Inr cfg"
    and "map_of (gc_model_aliases cfg) a = Some t"
  shows "map_of (gc_models cfg) a = None \<and> map_of (gc_model_aliases cfg) t = None \<and>
    (\<exists>m. resolve_requested_model cfg a = (t, Some m) \<and> resolve_requested_model cfg t = (t, Some m))"
proof -
  have ids: "validate_model_identities_for_os cfg goos = None"
    using assms(1) by (elim load_gateway_Inr) (rule validate_gateway_None(3))
  have alias_ok: "check_alias cfg x = None" if "map_of (gc_model_aliases cfg) x = Some y" for x y
    using identities_None(2)[OF ids] that by (auto simp: set_mkeys)
  have a: "map_of (gc_models cfg) a = None" and "mhas (gc_models cfg) t"
    using check_alias_None[OF alias_ok[OF assms(2)]] assms(2) by (simp_all add: mhas_def mget_of_Some)
  then obtain m where m: "map_of (gc_models cfg) t = Some m" by (auto simp: mhas_def)
  have "map_of (gc_model_aliases cfg) t = None"
  proof (rule ccontr)
    assume "map_of (gc_model_aliases cfg) t \<noteq> None"
    then obtain y where "map_of (gc_model_aliases cfg) t = Some y" by blast
    with check_alias_None(1)[OF alias_ok] m show False by (simp add: mhas_def)
  qed
  with a m assms(2) show ?thesis by (simp add: resolve_requested_model_def)
qed

theorem load_gateway_alias_resolves_witness:
  "map_of (gc_models example_config) ''latest'' = None \<and>
   map_of (gc_model_aliases example_config) ''a'' = None \<and>
   (\<exists>m. resolve_requested_model example_config ''latest'' = (''a'', Some m) \<and>
        resolve_requested_model example_config ''a'' = (''a'', Some m))"
  by (rule load_gateway_alias_resolves[OF example_config_loads])
    (simp add: example_config_def base_config_def)

section \<open>Install directories\<close>

text \<open>
  In a configuration that the gateway accepts, two different models never share an install
  directory (up to the operating system's identity of paths), none uses the lock directory, and a
  configured directory name is a single path element.
\<close>

theorem load_gateway_dirs_distinct:
  assumes "load_gateway decode goos raw = Inr cfg"
    and "map_of (gc_models cfg) n = Some m" "map_of (gc_models cfg) n' = Some m'" "n \<noteq> n'"
  shows "model_dir_identity_for_os (resolved_model_dir n m) goos \<noteq>
           model_dir_identity_for_os (resolved_model_dir n' m') goos
    \<and> model_dir_identity_for_os (resolved_model_dir n m) goos \<noteq> model_dir_identity_for_os ''.locks'' goos
    \<and> (m_model_dir m \<noteq> [] \<longrightarrow> CHR ''/'' \<notin> set (m_model_dir m) \<and> m_model_dir m \<noteq> ''..'')"
proof -
  have ids: "validate_model_identities_for_os cfg goos = None"
    using assms(1) by (elim load_gateway_Inr) (rule validate_gateway_None(3))
  note dirs = check_model_dirs_None[OF identities_None(1)[OF ids]]
  have mem: "n \<in> set (sort (mkeys (gc_models cfg)))" "n' \<in> set (sort (mkeys (gc_models cfg)))"
    using assms(2,3) by (auto simp: set_mkeys)
  have ident: "model_ident cfg goos n = model_dir_identity_for_os (resolved_model_dir n m) goos"
    "model_ident cfg goos n' = model_dir_identity_for_os (resolved_model_dir n' m') goos"
    using assms(2,3) by (simp_all add: model_ident_def mget_of_Some)
  have "inj_on (model_ident cfg goos) (set (sort (mkeys (gc_models cfg))))"
    using dirs(1) by (simp add: distinct_map)
  then have "model_ident cfg goos n \<noteq> model_ident cfg goos n'"
    using mem assms(4) by (auto dest: inj_onD)
  moreover have "is_safe_model_dir_name d \<Longrightarrow> CHR ''/'' \<notin> set d \<and> d \<noteq> ''..''" for d
    by (auto simp: is_safe_model_dir_name_def list_all_iff safe_dir_char_def byte_def)
  ultimately show ?thesis
    using dirs(2)[OF mem(1)] assms(2) ident by (simp add: mget_of_Some)
qed

theorem load_gateway_dirs_distinct_witness:
  "model_dir_identity_for_os (resolved_model_dir ''a'' example_model) ''linux'' \<noteq>
     model_dir_identity_for_os (resolved_model_dir ''b'' example_model) ''linux'' \<and>
   model_dir_identity_for_os (resolved_model_dir ''a'' example_model) ''linux'' \<noteq>
     model_dir_identity_for_os ''.locks'' ''linux''"
proof -
  have m: "map_of (gc_models example_config) ''a'' = Some example_model"
    "map_of (gc_models example_config) ''b'' = Some example_model" "''a'' \<noteq> (''b'' :: string)"
    by (simp_all add: example_config_def base_config_def)
  show ?thesis
    using load_gateway_dirs_distinct[OF example_config_loads m] by blast
qed

text \<open>
  The single-path-element check is made for a configured \<open>model_dir\<close> only: the gateway accepts a
  model whose canonical name is \<open>../escape\<close> and that has no \<open>model_dir\<close>, and its install directory
  is then that path, outside the model root.
\<close>

theorem canonical_name_may_escape:
  "load_gateway (\<lambda>_. Inr (base_config [(''../escape'', example_model)] [] [])) ''linux'' () =
     Inr (base_config [(''../escape'', example_model)] [] []) \<and>
   resolved_model_dir ''../escape'' example_model = ''../escape''"
proof -
  let ?c = "base_config [(''../escape'', example_model)] [] []"
  have "apply_gateway_token_defaults (apply_gateway_defaults ?c) = ?c"
    by (simp add: apply_gateway_defaults_def apply_gateway_token_defaults_def base_config_def Let_def
        example_dial_trimmed)
  moreover have "validate_gateway ''linux'' ?c = None" by code_simp
  moreover have "resolved_model_dir ''../escape'' example_model = ''../escape''" by code_simp
  ultimately show ?thesis by (simp add: load_gateway_def)
qed

section \<open>The transport\<close>

text \<open>
  With the FRP transport, an accepted configuration has a non-empty port range inside 1..65535,
  a valid server port, a positive lease time and a usable dial address, the defaults included.
\<close>

theorem load_gateway_transport_range:
  assumes "load_gateway decode goos raw = Inr cfg"
    and "tr_type (gc_transport cfg) \<noteq> []"
  shows "tr_type (gc_transport cfg) = ''frp_tcp'' \<and>
    1 \<le> frp_port_start (tr_frp (gc_transport cfg)) \<and>
    frp_port_start (tr_frp (gc_transport cfg)) \<le> frp_port_end (tr_frp (gc_transport cfg)) \<and>
    frp_port_end (tr_frp (gc_transport cfg)) \<le> 65535 \<and>
    0 < frp_lease_ttl_seconds (tr_frp (gc_transport cfg)) \<and>
    trim_space (frp_dial_addr (tr_frp (gc_transport cfg))) \<noteq> []"
proof -
  have "validate_transport (gc_transport cfg) = None"
    using assms(1) by (elim load_gateway_Inr) (rule validate_gateway_None(1))
  with assms(2) show ?thesis
    by (auto simp: validate_transport_def Let_def valid_frp_dial_addr_def split: if_splits)
qed

theorem load_gateway_transport_range_witness:
  "tr_type (gc_transport example_config) = ''frp_tcp'' \<and>
   frp_port_start (tr_frp (gc_transport example_config)) = 20000 \<and>
   0 < frp_lease_ttl_seconds (tr_frp (gc_transport example_config))"
  using load_gateway_transport_range[OF example_config_loads]
  by (simp add: example_config_def base_config_def)

section \<open>Iteration order\<close>

lemma map_of_mset_eq:
  assumes "mset xs = mset ys" "mwf xs"
  shows "map_of xs = map_of ys"
proof -
  have "mset (map fst xs) = mset (map fst ys)" using assms(1) by simp
  from mset_eq_imp_distinct_iff[OF this] have "distinct (map fst xs)" "distinct (map fst ys)"
    using assms(2) by (simp_all add: mwf_def mkeys_def)
  then show ?thesis
    using assms(1) by (metis map_of_inject_set mset_eq_setD)
qed

lemma sort_mset_eq:
  fixes xs ys :: "'a::linorder list"
  assumes "mset xs = mset ys"
  shows "sort xs = sort ys"
  using assms by (metis properties_for_sort mset_sort sorted_sort)

lemma check_model_dirs_cong:
  assumes "map_of (gc_models cfg) = map_of (gc_models cfg')"
    and "set (artifact_source_basenames cfg) = set (artifact_source_basenames cfg')"
  shows "check_model_dirs cfg goos names dirs = check_model_dirs cfg' goos names dirs"
proof (induction names arbitrary: dirs)
  case (Cons n ns)
  have "mget zero_model (gc_models cfg) n = mget zero_model (gc_models cfg') n"
    using assms(1) by (simp add: mget_def)
  with Cons.IH assms(2) show ?case
    by (auto simp: Let_def split: option.splits)
qed simp

text \<open>
  Whether validation accepts a configuration does not depend on the order in which Go happens to
  iterate the maps of models, aliases and tag policies.
\<close>

theorem validate_gateway_order_independent:
  assumes "config_wf cfg"
    and "mset (gc_models cfg') = mset (gc_models cfg)"
    and "mset (gc_model_aliases cfg') = mset (gc_model_aliases cfg)"
    and "mset (gc_tag_policies cfg') = mset (gc_tag_policies cfg)"
    and "gc_gateway cfg' = gc_gateway cfg" "gc_transport cfg' = gc_transport cfg"
    and "gc_oss cfg' = gc_oss cfg" "gc_tokens cfg' = gc_tokens cfg"
    and "gc_metrics_store cfg' = gc_metrics_store cfg"
    and "gc_records_store cfg' = gc_records_store cfg"
  shows "validate_gateway goos cfg' = None \<longleftrightarrow> validate_gateway goos cfg = None"
proof -
  have mo: "map_of (gc_models cfg') = map_of (gc_models cfg)"
    "map_of (gc_model_aliases cfg') = map_of (gc_model_aliases cfg)"
    "map_of (gc_tag_policies cfg') = map_of (gc_tag_policies cfg)"
    using map_of_mset_eq[OF assms(2)[symmetric]] map_of_mset_eq[OF assms(3)[symmetric]]
      map_of_mset_eq[OF assms(4)[symmetric]] assms(1) by (simp_all add: config_wf_def)
  have se: "set (gc_models cfg') = set (gc_models cfg)"
    "set (gc_tag_policies cfg') = set (gc_tag_policies cfg)"
    using assms(2,4) mset_eq_setD by blast+
  have so: "sort (mkeys (gc_models cfg')) = sort (mkeys (gc_models cfg))"
    "sort (mkeys (gc_model_aliases cfg')) = sort (mkeys (gc_model_aliases cfg))"
    using assms(2,3) by (auto intro!: sort_mset_eq simp: mkeys_def)
  have mh: "mhas (gc_models cfg') = mhas (gc_models cfg)"
    using mo(1) by (auto simp: mhas_def fun_eq_iff)
  have cd: "check_model_dirs cfg' goos ns ds = check_model_dirs cfg goos ns ds" for ns ds
    by (rule check_model_dirs_cong) (auto simp: mo se artifact_source_basenames_def)
  have ca: "check_alias cfg' = check_alias cfg"
    by (simp add: check_alias_def fun_eq_iff mget_def mo mh)
  have ids: "validate_model_identities_for_os cfg' goos = validate_model_identities_for_os cfg goos"
    by (simp add: validate_model_identities_for_os_def so cd ca)
  have pol: "validate_policy cfg' = validate_policy cfg"
    by (simp add: validate_policy_def fun_eq_iff mh)
  have cap: "validate_tag_capacity cfg' = validate_tag_capacity cfg"
    by (simp add: validate_tag_capacity_def fun_eq_iff mo cong: option.case_cong)
  have ne: "gc_models cfg' = [] \<longleftrightarrow> gc_models cfg = []"
    using se by (metis set_empty)
  show ?thesis
    unfolding validate_gateway_def first_err_None
    by (simp add: ball_Un se ids pol cap ne assms(5-10))
qed

theorem validate_gateway_order_independent_witness:
  "validate_gateway ''linux''
     (base_config [(''b'', example_model), (''a'', example_model)]
        [(''latest'', ''a'')] [(''gpu'', example_policy)]) = None"
proof -
  have wf: "config_wf example_config"
    by (simp add: config_wf_def example_config_def base_config_def mwf_def mkeys_def)
  show ?thesis
    by (subst validate_gateway_order_independent[OF wf])
      (simp_all add: example_config_valid, simp_all add: example_config_def base_config_def)
qed

section \<open>Defaults\<close>

text \<open>
  The defaults are a fixed point: applying them again changes nothing, and after them the number
  of proxy attempts is never zero and the llama-swap token is the agent token when it was left out.
\<close>

theorem gateway_defaults_idempotent:
  "apply_gateway_defaults (apply_gateway_defaults cfg) = apply_gateway_defaults cfg \<and>
   apply_gateway_token_defaults (apply_gateway_token_defaults cfg) = apply_gateway_token_defaults cfg \<and>
   gs_proxy_attempts (gc_gateway (apply_gateway_defaults cfg)) \<noteq> 0 \<and>
   tok_llama_swap (gc_tokens (apply_gateway_token_defaults cfg)) =
     (if tok_llama_swap (gc_tokens cfg) = [] then tok_agent (gc_tokens cfg) else tok_llama_swap (gc_tokens cfg))"
  by (auto simp: apply_gateway_defaults_def apply_gateway_token_defaults_def Let_def
      default_proxy_attempts_def)

section \<open>The active view\<close>

lemma elems_clone [simp]: "elems (clone_slice s) = elems s"
  by (simp add: clone_slice_def)

lemma clone_slice_twice [simp]: "clone_slice (clone_slice s) = clone_slice s"
  by (simp add: clone_slice_def)

lemma clone_model_simps [simp]:
  "m_disabled (clone_model m) = m_disabled m" "clone_model (clone_model m) = clone_model m"
  by (simp_all add: clone_model_def)

lemma clone_policy_simps [simp]:
  "tp_allowed_models (clone_policy p) = tp_allowed_models p"
  "tp_warm_when_idle (clone_policy p) = tp_warm_when_idle p" "clone_policy (clone_policy p) = clone_policy p"
  by (simp_all add: clone_policy_def)

lemma mhas_map_values [simp]: "mhas (map (\<lambda>(k, v). (k, f v)) xs) = mhas xs"
  by (auto simp: fun_eq_iff mhas_def map_of_map)

lemma mwf_map_values [simp]: "mwf (map (\<lambda>(k, v). (k, f v)) xs) = mwf xs"
  by (simp add: mwf_def mkeys_def comp_def case_prod_unfold)

lemma clone_config_twice [simp]: "clone_gateway_config (clone_gateway_config cfg) = clone_gateway_config cfg"
  by (simp add: clone_gateway_config_def case_prod_unfold)

lemma clone_config_wf [simp]: "config_wf (clone_gateway_config cfg) = config_wf cfg"
  by (simp add: clone_gateway_config_def config_wf_def)

lemma active_models:
  "gc_models (active_gateway_config cfg) =
    filter (\<lambda>(n, m). \<not> m_disabled m) (map (\<lambda>(n, m). (n, clone_model m)) (gc_models cfg))"
  by (simp add: active_gateway_config_def clone_gateway_config_def Let_def)

lemma active_lookup:
  assumes "mwf (gc_models cfg)"
  shows "map_of (gc_models (active_gateway_config cfg)) n =
    (case map_of (gc_models cfg) n of Some m \<Rightarrow> if m_disabled m then None else Some (clone_model m) | None \<Rightarrow> None)"
  using assms by (auto simp: active_models map_of_filter_wf map_of_map split: option.splits)

lemma active_policy_twice:
  "clone_policy (active_policy models (clone_policy (active_policy models p))) = clone_policy (active_policy models p)"
  by (cases p) (auto simp: active_policy_def clone_policy_def clone_slice_def)

lemma active_twice_models:
  "gc_models (active_gateway_config (active_gateway_config cfg)) = gc_models (active_gateway_config cfg)"
  by (simp add: active_models filter_map comp_def case_prod_unfold)

text \<open>
  The active view holds exactly the enabled models; an alias survives exactly when its target
  does, every allowed model and every warm hint of a tag policy is an enabled model, and taking the
  view twice is taking it once, up to the nil-ness of slices that a copy drops.
\<close>

theorem active_config_closed:
  assumes "config_wf cfg"
  shows "(map_of (gc_models (active_gateway_config cfg)) n = Some m \<longleftrightarrow>
      (\<exists>m'. map_of (gc_models cfg) n = Some m' \<and> \<not> m_disabled m' \<and> m = clone_model m')) \<and>
    (map_of (gc_model_aliases (active_gateway_config cfg)) a = Some t \<longleftrightarrow>
      map_of (gc_model_aliases cfg) a = Some t \<and> mhas (gc_models (active_gateway_config cfg)) t) \<and>
    (\<forall>(tag, p) \<in> set (gc_tag_policies (active_gateway_config cfg)).
      (\<forall>mn \<in> set (tp_allowed_models p). mhas (gc_models (active_gateway_config cfg)) mn) \<and>
      (tp_warm_when_idle p \<noteq> [] \<longrightarrow> mhas (gc_models (active_gateway_config cfg)) (tp_warm_when_idle p))) \<and>
    clone_gateway_config (active_gateway_config (active_gateway_config cfg)) =
      clone_gateway_config (active_gateway_config cfg)"
proof (intro conjI)
  have wf: "mwf (gc_models cfg)" "mwf (gc_model_aliases cfg)"
    using assms by (simp_all add: config_wf_def)
  show "map_of (gc_models (active_gateway_config cfg)) n = Some m \<longleftrightarrow>
      (\<exists>m'. map_of (gc_models cfg) n = Some m' \<and> \<not> m_disabled m' \<and> m = clone_model m')"
    using active_lookup[OF wf(1)] by (auto split: option.splits if_splits)
  show "map_of (gc_model_aliases (active_gateway_config cfg)) a = Some t \<longleftrightarrow>
      map_of (gc_model_aliases cfg) a = Some t \<and> mhas (gc_models (active_gateway_config cfg)) t"
    using wf(2) by (auto simp: active_gateway_config_def clone_gateway_config_def Let_def map_of_filter_wf
        split: option.splits)
  show "\<forall>(tag, p) \<in> set (gc_tag_policies (active_gateway_config cfg)).
      (\<forall>mn \<in> set (tp_allowed_models p). mhas (gc_models (active_gateway_config cfg)) mn) \<and>
      (tp_warm_when_idle p \<noteq> [] \<longrightarrow> mhas (gc_models (active_gateway_config cfg)) (tp_warm_when_idle p))"
    by (auto simp: active_gateway_config_def Let_def active_policy_def split: if_splits)
  show "clone_gateway_config (active_gateway_config (active_gateway_config cfg)) =
      clone_gateway_config (active_gateway_config cfg)"
  proof (rule gateway_config.equality)
    show "gc_models (clone_gateway_config (active_gateway_config (active_gateway_config cfg))) =
        gc_models (clone_gateway_config (active_gateway_config cfg))"
      by (simp add: clone_gateway_config_def active_twice_models)
    show "gc_policies (clone_gateway_config (active_gateway_config (active_gateway_config cfg))) =
        gc_policies (clone_gateway_config (active_gateway_config cfg))"
      using active_twice_models[of cfg]
      by (simp add: active_gateway_config_def clone_gateway_config_def Let_def case_prod_unfold comp_def
          active_policy_twice)
  qed (simp_all add: active_gateway_config_def clone_gateway_config_def Let_def case_prod_unfold
      filter_map comp_def)
qed

theorem active_config_closed_witness:
  "map_of (gc_models (active_gateway_config example_config)) ''a'' = Some example_model \<and>
   clone_gateway_config (active_gateway_config (active_gateway_config example_config)) =
     clone_gateway_config (active_gateway_config example_config)"
proof -
  have wf: "config_wf example_config"
    by (simp add: config_wf_def example_config_def base_config_def mwf_def mkeys_def)
  have "map_of (gc_models example_config) ''a'' = Some example_model \<and> \<not> m_disabled example_model \<and>
      example_model = clone_model example_model"
    by (simp add: example_config_def base_config_def example_model_def zero_model_def clone_model_def
        clone_slice_def)
  with active_config_closed[OF wf, of "''a''" example_model] show ?thesis by blast
qed

end
