(* ===== verification/Protocol.thy ===== *)
theory Protocol
  imports Config
begin

text \<open>
  The messages between agents and the gateway (internal/protocol/agent.go). A float64 of a GPU
  report is a \<open>go_float\<close>.
\<close>

definition agent_protocol_version :: int where
  "agent_protocol_version = 3"

record build_info =
  bi_version :: string
  bi_commit :: string
  bi_build_time :: string
  bi_protocol_version :: int

record agent_tag_policy =
  atp_tag :: string
  atp_allowed_models :: "string list"
  atp_warm_when_idle :: string
  atp_worker_defaults :: worker_defaults

record encrypted_transport_bootstrap =
  etb_generation :: nat
  etb_nonce :: string
  etb_ciphertext :: string

text \<open>\<open>DesiredModelDirs\<close> and \<open>Transport\<close> may be absent.\<close>

record agent_config_response =
  acr_config_revision :: int
  acr_desired_model_dirs :: "string list option"
  acr_oss :: oss_config
  acr_models :: "(string, model) gomap"
  acr_tag_policy :: agent_tag_policy
  acr_transport :: "encrypted_transport_bootstrap option"

record transport_lease_request =
  tlq_agent_id :: string
  tlq_tags :: "string list"
  tlq_generation :: nat
  tlq_lease_id :: string
  tlq_release :: bool
  tlq_exclude_slots :: "int list"

record transport_lease_response =
  tlr_lease_id :: string
  tlr_slot :: int
  tlr_remote_port :: int
  tlr_generation :: nat
  tlr_expires_at :: time

record running_model =
  rm_model :: string
  rm_state :: string
  rm_protected_until :: time

record gpu_device =
  gpu_index :: int
  gpu_name :: string
  gpu_uuid :: string
  gpu_memory_total_mib :: int
  gpu_memory_used_mib :: int
  gpu_memory_free_mib :: int
  gpu_utilization_percent :: go_float
  gpu_temperature_celsius :: go_float

record agent_event =
  ev_time :: time
  ev_event :: string
  ev_model :: string
  ev_from_state :: string
  ev_to_state :: string
  ev_object :: string
  ev_kind :: string
  ev_crc64ecma :: string
  ev_downloaded_bytes :: int
  ev_total_bytes :: int
  ev_percent :: go_float
  ev_duration_ms :: int
  ev_error :: string

record heartbeat_request =
  hb_agent_id :: string
  hb_tags :: "string list"
  hb_llama_swap_url :: string
  hb_running_models :: "running_model list"
  hb_gpu_devices :: "gpu_device list"
  hb_artifacts :: "(string, string) gomap"
  hb_capacity :: worker_defaults
  hb_needs_restart :: bool
  hb_restart_models :: "string list"
  hb_agent_build :: build_info
  hb_transport_lease_id :: string
  hb_transport_generation :: nat
  hb_last_error :: string
  hb_events :: "agent_event list"

record heartbeat_response =
  hr_worker_state :: string
  hr_restart_allowed :: bool

end
