(* ===== verification/Workers.thy ===== *)
theory Workers
  imports Protocol
begin

text \<open>
  The in-memory worker registry (internal/gateway/workers.go): heartbeats, the restart holders that
  keep a model from restarting on two workers at once, manual drains, health, the pruning of workers
  that went away, the count of requests each worker is serving, and the scrape backoff.
  A registry method is a function from the registry to the registry; the mutex makes each one atomic.
  The closure that \<open>Acquire\<close> returns is \<open>release_active\<close>, run at most once per acquisition.
\<close>

section \<open>State\<close>

datatype worker_state = WorkerActive | WorkerDraining

fun worker_state_string :: "worker_state \<Rightarrow> string" where
  "worker_state_string WorkerActive = ''active''"
| "worker_state_string WorkerDraining = ''draining''"

record worker =
  w_id :: string
  w_tags :: "string list"
  w_llama_swap_url :: string
  w_running_models :: "running_model list"
  w_gpu_devices :: "gpu_device list"
  w_artifacts :: "(string, string) gomap"
  w_capacity :: worker_defaults
  w_needs_restart :: bool
  w_last_error :: string
  w_agent_build :: build_info
  w_last_heartbeat :: time
  w_state :: worker_state
  w_scrape_failures :: int
  w_scrape_backoff_until :: time

record registry =
  reg_stale_after :: duration
  reg_workers :: "(string, worker) gomap"
  reg_worker_order :: "string list"
  reg_active :: "(string, int) gomap"
  reg_manual_drains :: "(string, bool) gomap"
  reg_restart_holders :: "(string, string) gomap"

definition scrape_failure_backoff_threshold :: int where
  "scrape_failure_backoff_threshold = 3"

definition scrape_failure_backoff :: duration where
  "scrape_failure_backoff = 30 * second"

definition worker_offline_retention :: duration where
  "worker_offline_retention = 10 * minute"

definition restart_global_scope :: string where
  "restart_global_scope = ''*''"

definition new_worker_registry :: "duration \<Rightarrow> registry" where
  "new_worker_registry stale_after =
     \<lparr>reg_stale_after = stale_after, reg_workers = [], reg_worker_order = [], reg_active = [],
      reg_manual_drains = [], reg_restart_holders = []\<rparr>"

section \<open>Restart holders\<close>

definition release_expired_restart_holder :: "time \<Rightarrow> registry \<Rightarrow> registry" where
  "release_expired_restart_holder now r =
     r\<lparr>reg_restart_holders := filter (\<lambda>(scope, wid).
         \<not> (case map_of (reg_workers r) wid of
              None \<Rightarrow> True
            | Some holder \<Rightarrow> time_sub now (w_last_heartbeat holder) > worker_offline_retention))
       (reg_restart_holders r)\<rparr>"

definition release_restart_holder_for_worker :: "string \<Rightarrow> registry \<Rightarrow> registry" where
  "release_restart_holder_for_worker wid r =
     r\<lparr>reg_restart_holders := filter (\<lambda>(scope, holder). holder \<noteq> wid) (reg_restart_holders r)\<rparr>"

definition restart_scopes :: "string list \<Rightarrow> string list" where
  "restart_scopes models =
     (let out = dedup_first (filter (\<lambda>m. m \<noteq> []) (map trim_space models))
      in if out = [] then [restart_global_scope] else sort out)"

text \<open>The holder of a scope; a missing entry and an empty worker id both count as none.\<close>

definition holder_of :: "registry \<Rightarrow> string \<Rightarrow> string" where
  "holder_of r scope = mget [] (reg_restart_holders r) scope"

definition restart_blocked_by_other :: "registry \<Rightarrow> string \<Rightarrow> string list \<Rightarrow> bool" where
  "restart_blocked_by_other r wid scopes =
     (if holder_of r restart_global_scope \<noteq> [] \<and> holder_of r restart_global_scope \<noteq> wid then True
      else if scopes = [restart_global_scope] then
        (\<exists>(scope, holder) \<in> set (reg_restart_holders r). holder \<noteq> [] \<and> holder \<noteq> wid)
      else (\<exists>scope \<in> set scopes. holder_of r scope \<noteq> [] \<and> holder_of r scope \<noteq> wid))"

fun hold_scopes :: "string \<Rightarrow> string list \<Rightarrow> registry \<Rightarrow> registry" where
  "hold_scopes wid [] r = r"
| "hold_scopes wid (scope # scopes) r =
     hold_scopes wid scopes
       (if holder_of r scope = []
        then r\<lparr>reg_restart_holders := mput scope wid (reg_restart_holders r)\<rparr> else r)"

text \<open>The result is (draining, allowed) and the registry with the scopes taken.\<close>

definition restart_decision ::
  "string \<Rightarrow> bool \<Rightarrow> string list \<Rightarrow> registry \<Rightarrow> (bool \<times> bool) \<times> registry" where
  "restart_decision wid needs_restart restart_models r =
     (if \<not> needs_restart then ((False, False), r)
      else let scopes = restart_scopes restart_models
           in if restart_blocked_by_other r wid scopes then ((False, False), r)
              else ((True, mget 0 (reg_active r) wid = 0), hold_scopes wid scopes r))"

section \<open>Heartbeats and drains\<close>

definition worker_of_heartbeat :: "heartbeat_request \<Rightarrow> time \<Rightarrow> worker option \<Rightarrow> worker" where
  "worker_of_heartbeat hb now prev =
     \<lparr>w_id = hb_agent_id hb, w_tags = hb_tags hb, w_llama_swap_url = hb_llama_swap_url hb,
      w_running_models = hb_running_models hb, w_gpu_devices = hb_gpu_devices hb,
      w_artifacts = hb_artifacts hb, w_capacity = hb_capacity hb,
      w_needs_restart = hb_needs_restart hb, w_last_error = hb_last_error hb,
      w_agent_build = hb_agent_build hb, w_last_heartbeat = now, w_state = WorkerActive,
      w_scrape_failures = (case prev of Some p \<Rightarrow> w_scrape_failures p | None \<Rightarrow> 0),
      w_scrape_backoff_until = (case prev of Some p \<Rightarrow> w_scrape_backoff_until p | None \<Rightarrow> 0)\<rparr>"

definition upsert_heartbeat ::
  "heartbeat_request \<Rightarrow> time \<Rightarrow> registry \<Rightarrow> heartbeat_response \<times> registry" where
  "upsert_heartbeat hb now r0 =
     (let r1 = release_expired_restart_holder now r0;
          wid = hb_agent_id hb;
          prev = map_of (reg_workers r1) wid;
          r2 = (if prev = None then r1\<lparr>reg_worker_order := reg_worker_order r1 @ [wid]\<rparr> else r1);
          w = worker_of_heartbeat hb now prev;
          r3 = r2\<lparr>reg_workers := mput wid w (reg_workers r2)\<rparr>;
          r4 = (if hb_needs_restart hb then r3 else release_restart_holder_for_worker wid r3);
          ((restart_draining, restart_allowed), r5) =
            restart_decision wid (hb_needs_restart hb) (hb_restart_models hb) r4;
          w' = (if restart_draining \<or> mget False (reg_manual_drains r5) wid
                then w\<lparr>w_state := WorkerDraining\<rparr> else w)
      in (\<lparr>hr_worker_state = worker_state_string (w_state w'), hr_restart_allowed = restart_allowed\<rparr>,
          r5\<lparr>reg_workers := mput wid w' (reg_workers r5)\<rparr>))"

definition drain :: "string \<Rightarrow> registry \<Rightarrow> worker option \<times> registry" where
  "drain wid r =
     (case map_of (reg_workers r) wid of
        None \<Rightarrow> (None, r)
      | Some w \<Rightarrow>
          (let w' = w\<lparr>w_state := WorkerDraining\<rparr>
           in (Some w', r\<lparr>reg_manual_drains := mput wid True (reg_manual_drains r),
                          reg_workers := mput wid w' (reg_workers r)\<rparr>)))"

definition undrain :: "string \<Rightarrow> registry \<Rightarrow> worker option \<times> registry" where
  "undrain wid r =
     (case map_of (reg_workers r) wid of
        None \<Rightarrow> (None, r)
      | Some w \<Rightarrow>
          (let w' = (if w_needs_restart w then w else w\<lparr>w_state := WorkerActive\<rparr>)
           in (Some w', r\<lparr>reg_manual_drains := mdel wid (reg_manual_drains r),
                          reg_workers := mput wid w' (reg_workers r)\<rparr>)))"

section \<open>Health and snapshots\<close>

definition healthy :: "registry \<Rightarrow> string \<Rightarrow> time \<Rightarrow> bool" where
  "healthy r wid now =
     (case map_of (reg_workers r) wid of
        None \<Rightarrow> False
      | Some w \<Rightarrow>
          if time_sub now (w_last_heartbeat w) \<ge> reg_stale_after r then False
          else if now < w_scrape_backoff_until w then False
          else if trim_space (w_llama_swap_url w) = [] then False
          else w_state w = WorkerActive)"

text \<open>One iteration of the loop over the workers: the worker and everything kept for it goes.\<close>

definition forget_worker :: "string \<Rightarrow> registry \<Rightarrow> registry" where
  "forget_worker wid r =
     release_restart_holder_for_worker wid
       (r\<lparr>reg_workers := mdel wid (reg_workers r), reg_active := mdel wid (reg_active r),
          reg_manual_drains := mdel wid (reg_manual_drains r)\<rparr>)"

definition offline_ids :: "time \<Rightarrow> registry \<Rightarrow> string list" where
  "offline_ids now r =
     map fst (filter (\<lambda>(wid, w). time_sub now (w_last_heartbeat w) > worker_offline_retention)
       (reg_workers r))"

definition prune_offline :: "time \<Rightarrow> registry \<Rightarrow> registry" where
  "prune_offline now r =
     (let ids = offline_ids now r; r' = fold forget_worker ids r
      in if ids = [] then r'
         else r'\<lparr>reg_worker_order := filter (mhas (reg_workers r')) (reg_worker_order r')\<rparr>)"

definition snapshot :: "time \<Rightarrow> registry \<Rightarrow> worker list \<times> registry" where
  "snapshot now r =
     (let r' = prune_offline now r
      in (List.map_filter (\<lambda>wid. map_of (reg_workers r') wid) (reg_worker_order r'), r'))"

definition active_snapshot :: "registry \<Rightarrow> (string, int) gomap" where
  "active_snapshot r = reg_active r"

section \<open>Active requests\<close>

definition acquire :: "string \<Rightarrow> time \<Rightarrow> registry \<Rightarrow> bool \<times> registry" where
  "acquire wid now r =
     (case map_of (reg_workers r) wid of
        None \<Rightarrow> (False, r)
      | Some w \<Rightarrow>
          if time_sub now (w_last_heartbeat w) \<ge> reg_stale_after r then (False, r)
          else if now < w_scrape_backoff_until w then (False, r)
          else if w_state w \<noteq> WorkerActive then (False, r)
          else (True, r\<lparr>reg_active := mput wid (mget 0 (reg_active r) wid + 1) (reg_active r)\<rparr>))"

definition release_active :: "string \<Rightarrow> registry \<Rightarrow> registry" where
  "release_active wid r =
     (if mget 0 (reg_active r) wid \<le> 1 then r\<lparr>reg_active := mdel wid (reg_active r)\<rparr>
      else r\<lparr>reg_active := mput wid (mget 0 (reg_active r) wid - 1) (reg_active r)\<rparr>)"

section \<open>Scrape results\<close>

definition record_scrape_success :: "string \<Rightarrow> registry \<Rightarrow> registry" where
  "record_scrape_success wid r =
     (case map_of (reg_workers r) wid of
        None \<Rightarrow> r
      | Some w \<Rightarrow> r\<lparr>reg_workers :=
          mput wid (w\<lparr>w_scrape_failures := 0, w_scrape_backoff_until := 0\<rparr>) (reg_workers r)\<rparr>)"

definition record_scrape_failure :: "string \<Rightarrow> time \<Rightarrow> registry \<Rightarrow> registry" where
  "record_scrape_failure wid now r =
     (case map_of (reg_workers r) wid of
        None \<Rightarrow> r
      | Some w \<Rightarrow>
          (let n = w_scrape_failures w + 1; w1 = w\<lparr>w_scrape_failures := n\<rparr>;
               w2 = (if n \<ge> scrape_failure_backoff_threshold
                     then w1\<lparr>w_scrape_backoff_until := now + scrape_failure_backoff\<rparr> else w1)
           in r\<lparr>reg_workers := mput wid w2 (reg_workers r)\<rparr>))"

definition record_reverse_failure :: "string \<Rightarrow> time \<Rightarrow> registry \<Rightarrow> bool \<times> registry" where
  "record_reverse_failure wid now r =
     (case map_of (reg_workers r) wid of
        None \<Rightarrow> (False, r)
      | Some w \<Rightarrow>
          (let already = now < w_scrape_backoff_until w;
               n = w_scrape_failures w + 1; w1 = w\<lparr>w_scrape_failures := n\<rparr>
           in if n < scrape_failure_backoff_threshold
              then (False, r\<lparr>reg_workers := mput wid w1 (reg_workers r)\<rparr>)
              else (\<not> already, r\<lparr>reg_workers :=
                 mput wid (w1\<lparr>w_scrape_backoff_until := now + scrape_failure_backoff\<rparr>) (reg_workers r)\<rparr>)))"

end
