(* ===== verification/WorkersFacts.thy ===== *)
theory WorkersFacts
  imports Workers ConfigFacts
begin

text \<open>
  The registry's invariants: its maps agree with each other (\<open>reg_wf\<close>), a global restart excludes
  every other one (\<open>restart_exclusive\<close>), and the active counts are the outstanding acquisitions.
\<close>

section \<open>Pruning\<close>

lemma forget_worker_fields [simp]:
  "reg_workers (forget_worker w r) = mdel w (reg_workers r)"
  "reg_active (forget_worker w r) = mdel w (reg_active r)"
  "reg_manual_drains (forget_worker w r) = mdel w (reg_manual_drains r)"
  "reg_worker_order (forget_worker w r) = reg_worker_order r"
  "reg_stale_after (forget_worker w r) = reg_stale_after r"
  "reg_restart_holders (forget_worker w r) = filter (\<lambda>(s, h). h \<noteq> w) (reg_restart_holders r)"
  by (simp_all add: forget_worker_def release_restart_holder_for_worker_def)

lemma forget_workers_frame [simp]:
  "reg_worker_order (fold forget_worker ws r) = reg_worker_order r"
  "reg_stale_after (fold forget_worker ws r) = reg_stale_after r"
  by (induction ws arbitrary: r) simp_all

lemma forget_workers_lookup [simp]:
  "map_of (reg_workers (fold forget_worker ws r)) k =
     (if k \<in> set ws then None else map_of (reg_workers r) k)"
  "mget d (reg_active (fold forget_worker ws r)) k =
     (if k \<in> set ws then d else mget d (reg_active r) k)"
  "mget b (reg_manual_drains (fold forget_worker ws r)) k =
     (if k \<in> set ws then b else mget b (reg_manual_drains r) k)"
  by (induction ws arbitrary: r) simp_all

lemma forget_workers_holders [simp]:
  "reg_restart_holders (fold forget_worker ws r) =
     filter (\<lambda>(s, h). h \<notin> set ws) (reg_restart_holders r)"
  by (induction ws arbitrary: r) (auto intro!: filter_cong)

lemma forget_workers_mwf:
  "mwf (reg_workers r) \<Longrightarrow> mwf (reg_workers (fold forget_worker ws r))"
  "mwf (reg_active r) \<Longrightarrow> mwf (reg_active (fold forget_worker ws r))"
  "mwf (reg_manual_drains r) \<Longrightarrow> mwf (reg_manual_drains (fold forget_worker ws r))"
  by (induction ws arbitrary: r) auto

lemma prune_offline_fields:
  "reg_workers (prune_offline now r) = reg_workers (fold forget_worker (offline_ids now r) r)"
  "reg_active (prune_offline now r) = reg_active (fold forget_worker (offline_ids now r) r)"
  "reg_manual_drains (prune_offline now r) = reg_manual_drains (fold forget_worker (offline_ids now r) r)"
  "reg_restart_holders (prune_offline now r) = reg_restart_holders (fold forget_worker (offline_ids now r) r)"
  "reg_stale_after (prune_offline now r) = reg_stale_after r"
  by (simp_all add: prune_offline_def Let_def)

lemma offline_ids_iff:
  assumes "mwf (reg_workers r)"
  shows "k \<in> set (offline_ids now r) \<longleftrightarrow>
    (\<exists>w. map_of (reg_workers r) k = Some w \<and> worker_offline_retention < time_sub now (w_last_heartbeat w))"
  using assms by (force simp: offline_ids_def map_of_wf_iff)

section \<open>Well-formed registries\<close>

definition reg_wf :: "registry \<Rightarrow> bool" where
  "reg_wf r \<longleftrightarrow> mwf (reg_workers r) \<and> mwf (reg_active r) \<and> mwf (reg_manual_drains r) \<and>
     mwf (reg_restart_holders r) \<and>
     distinct (reg_worker_order r) \<and> set (reg_worker_order r) = set (mkeys (reg_workers r)) \<and>
     (\<forall>(k, w) \<in> set (reg_workers r). w_id w = k) \<and>
     (\<forall>k. 0 \<le> mget 0 (reg_active r) k)"

lemma reg_wf_id: "reg_wf r \<Longrightarrow> map_of (reg_workers r) k = Some w \<Longrightarrow> w_id w = k"
  by (auto simp: reg_wf_def dest!: map_of_SomeD)

lemma reg_wf_worker_upd:
  assumes "reg_wf r" "map_of (reg_workers r) k = Some w" "w_id w' = k"
  shows "reg_wf (r\<lparr>reg_workers := mput k w' (reg_workers r)\<rparr>)"
proof -
  have "k \<in> set (mkeys (reg_workers r))"
    using assms(2) by (auto simp: set_mkeys)
  moreover have "\<forall>(x, v) \<in> set (mput k w' (reg_workers r)). w_id v = x"
  proof (intro ballI, clarify)
    fix x v assume "(x, v) \<in> set (mput k w' (reg_workers r))"
    then have "map_of (mput k w' (reg_workers r)) x = Some v"
      using assms(1) by (subst map_of_wf_iff) (auto simp: reg_wf_def)
    then show "w_id v = x"
      using assms reg_wf_id[OF assms(1)] by (auto split: if_splits)
  qed
  ultimately show ?thesis
    using assms(1) by (auto simp: reg_wf_def insert_absorb)
qed

lemma reg_wf_holders:
  "reg_wf r \<Longrightarrow> mwf hs \<Longrightarrow> reg_wf (r\<lparr>reg_restart_holders := hs\<rparr>)"
  by (simp add: reg_wf_def)

lemma reg_wf_holders_filter [intro]:
  "reg_wf r \<Longrightarrow> reg_wf (r\<lparr>reg_restart_holders := filter P (reg_restart_holders r)\<rparr>)"
  by (simp add: reg_wf_def)

lemma reg_wf_drains:
  "reg_wf r \<Longrightarrow> mwf ds \<Longrightarrow> reg_wf (r\<lparr>reg_manual_drains := ds\<rparr>)"
  by (simp add: reg_wf_def)

lemma reg_wf_release_expired [keeps]: "reg_wf r \<Longrightarrow> reg_wf (release_expired_restart_holder now r)"
  by (simp add: release_expired_restart_holder_def reg_wf_holders_filter)

lemma reg_wf_release_holder [keeps]: "reg_wf r \<Longrightarrow> reg_wf (release_restart_holder_for_worker w r)"
  by (simp add: release_restart_holder_for_worker_def reg_wf_holders_filter)

lemma hold_scopes_frame [simp]:
  "reg_workers (hold_scopes w ss r) = reg_workers r"
  "reg_active (hold_scopes w ss r) = reg_active r"
  "reg_manual_drains (hold_scopes w ss r) = reg_manual_drains r"
  "reg_worker_order (hold_scopes w ss r) = reg_worker_order r"
  "reg_stale_after (hold_scopes w ss r) = reg_stale_after r"
  by (induction w ss r rule: hold_scopes.induct) simp_all

lemma reg_wf_hold_scopes [keeps]: "reg_wf r \<Longrightarrow> reg_wf (hold_scopes w ss r)"
  by (induction w ss r rule: hold_scopes.induct) (auto simp: reg_wf_def)

lemma holder_of_hold_scopes:
  "holder_of (hold_scopes w ss r) s =
     (if s \<in> set ss \<and> holder_of r s = [] then w else holder_of r s)"
  by (induction w ss r rule: hold_scopes.induct) (auto simp: holder_of_def)

lemma restart_decision_frame [simp]:
  "reg_workers (snd (restart_decision w n ms r)) = reg_workers r"
  "reg_active (snd (restart_decision w n ms r)) = reg_active r"
  "reg_manual_drains (snd (restart_decision w n ms r)) = reg_manual_drains r"
  "reg_worker_order (snd (restart_decision w n ms r)) = reg_worker_order r"
  "reg_stale_after (snd (restart_decision w n ms r)) = reg_stale_after r"
  by (simp_all add: restart_decision_def Let_def)

lemma reg_wf_restart_decision [keeps]: "reg_wf r \<Longrightarrow> reg_wf (snd (restart_decision w n ms r))"
  by (simp add: restart_decision_def Let_def reg_wf_hold_scopes)

lemma release_frame [simp]:
  "reg_workers (release_expired_restart_holder now r) = reg_workers r"
  "reg_active (release_expired_restart_holder now r) = reg_active r"
  "reg_manual_drains (release_expired_restart_holder now r) = reg_manual_drains r"
  "reg_worker_order (release_expired_restart_holder now r) = reg_worker_order r"
  "reg_stale_after (release_expired_restart_holder now r) = reg_stale_after r"
  "reg_workers (release_restart_holder_for_worker w r) = reg_workers r"
  "reg_active (release_restart_holder_for_worker w r) = reg_active r"
  "reg_manual_drains (release_restart_holder_for_worker w r) = reg_manual_drains r"
  "reg_worker_order (release_restart_holder_for_worker w r) = reg_worker_order r"
  "reg_stale_after (release_restart_holder_for_worker w r) = reg_stale_after r"
  by (simp_all add: release_expired_restart_holder_def release_restart_holder_for_worker_def)

text \<open>The registry just before the restart decision of a heartbeat, and the heartbeat in its terms.\<close>

definition heartbeat_registered :: "heartbeat_request \<Rightarrow> time \<Rightarrow> registry \<Rightarrow> registry" where
  "heartbeat_registered hb now r0 =
     (let r1 = release_expired_restart_holder now r0;
          prev = map_of (reg_workers r1) (hb_agent_id hb);
          r2 = (if prev = None then r1\<lparr>reg_worker_order := reg_worker_order r1 @ [hb_agent_id hb]\<rparr> else r1);
          r3 = r2\<lparr>reg_workers := mput (hb_agent_id hb) (worker_of_heartbeat hb now prev) (reg_workers r2)\<rparr>
      in (if hb_needs_restart hb then r3 else release_restart_holder_for_worker (hb_agent_id hb) r3))"

definition heartbeat_worker :: "heartbeat_request \<Rightarrow> time \<Rightarrow> registry \<Rightarrow> worker" where
  "heartbeat_worker hb now r0 =
     (let r = heartbeat_registered hb now r0;
          w = worker_of_heartbeat hb now (map_of (reg_workers r0) (hb_agent_id hb));
          d = fst (fst (restart_decision (hb_agent_id hb) (hb_needs_restart hb) (hb_restart_models hb) r))
      in if d \<or> mget False (reg_manual_drains r0) (hb_agent_id hb)
         then w\<lparr>w_state := WorkerDraining\<rparr> else w)"

lemma heartbeat_registered_frame [simp]:
  "reg_active (heartbeat_registered hb now r) = reg_active r"
  "reg_manual_drains (heartbeat_registered hb now r) = reg_manual_drains r"
  "reg_stale_after (heartbeat_registered hb now r) = reg_stale_after r"
  "reg_workers (heartbeat_registered hb now r) =
     mput (hb_agent_id hb) (worker_of_heartbeat hb now (map_of (reg_workers r) (hb_agent_id hb))) (reg_workers r)"
  by (simp_all add: heartbeat_registered_def Let_def)

lemma upsert_heartbeat_eq:
  "upsert_heartbeat hb now r =
     (let d = restart_decision (hb_agent_id hb) (hb_needs_restart hb) (hb_restart_models hb)
                (heartbeat_registered hb now r)
      in (\<lparr>hr_worker_state = worker_state_string (w_state (heartbeat_worker hb now r)),
           hr_restart_allowed = snd (fst d)\<rparr>,
          (snd d)\<lparr>reg_workers := mput (hb_agent_id hb) (heartbeat_worker hb now r) (reg_workers (snd d))\<rparr>))"
proof -
  let ?r4 = "heartbeat_registered hb now r"
  obtain dr al r5 where d: "restart_decision (hb_agent_id hb) (hb_needs_restart hb)
      (hb_restart_models hb) ?r4 = ((dr, al), r5)"
    by (metis prod.collapse)
  have "reg_manual_drains r5 = reg_manual_drains r"
    using restart_decision_frame(3)[of "hb_agent_id hb" "hb_needs_restart hb" "hb_restart_models hb" ?r4]
    by (simp add: d)
  with d show ?thesis
    unfolding upsert_heartbeat_def heartbeat_worker_def heartbeat_registered_def Let_def
    by simp
qed

lemma w_id_of_heartbeat [simp]: "w_id (worker_of_heartbeat hb now p) = hb_agent_id hb"
  by (simp add: worker_of_heartbeat_def)

lemma w_id_heartbeat_worker [simp]: "w_id (heartbeat_worker hb now r) = hb_agent_id hb"
  by (simp add: heartbeat_worker_def Let_def)

lemma mput_existing_order:
  "map_of m k = Some v \<Longrightarrow> set (mkeys (mput k v' m)) = set (mkeys m)"
  by (auto simp: set_mkeys)

lemma reg_wf_registered [keeps]:
  assumes "reg_wf r"
  shows "reg_wf (heartbeat_registered hb now r)"
proof -
  let ?k = "hb_agent_id hb"
  let ?r1 = "release_expired_restart_holder now r"
  have r1: "reg_wf ?r1" using assms by (rule reg_wf_release_expired)
  show ?thesis
  proof (cases "map_of (reg_workers r) ?k")
    case None
    let ?w = "worker_of_heartbeat hb now None"
    have fresh: "?k \<notin> set (mkeys (reg_workers r))" using None by (auto simp: set_mkeys)
    have ids: "\<forall>(x, v) \<in> set (mput ?k ?w (reg_workers r)). w_id v = x"
    proof (intro ballI, clarify)
      fix x v assume "(x, v) \<in> set (mput ?k ?w (reg_workers r))"
      then have "map_of (mput ?k ?w (reg_workers r)) x = Some v"
        using assms by (subst map_of_wf_iff) (auto simp: reg_wf_def)
      then show "w_id v = x" using reg_wf_id[OF assms] by (auto split: if_splits)
    qed
    have "reg_wf (?r1\<lparr>reg_worker_order := reg_worker_order ?r1 @ [?k],
        reg_workers := mput ?k ?w (reg_workers ?r1)\<rparr>)"
      using r1 fresh ids unfolding reg_wf_def by auto
    then show ?thesis
      using None by (auto simp: heartbeat_registered_def Let_def intro: reg_wf_release_holder)
  next
    case (Some p)
    have "reg_wf (?r1\<lparr>reg_workers := mput ?k (worker_of_heartbeat hb now (Some p)) (reg_workers ?r1)\<rparr>)"
      using r1 Some by (intro reg_wf_worker_upd) auto
    then show ?thesis
      using Some by (auto simp: heartbeat_registered_def Let_def intro: reg_wf_release_holder)
  qed
qed

lemma reg_wf_upsert [keeps]:
  assumes "reg_wf r"
  shows "reg_wf (snd (upsert_heartbeat hb now r))"
  using assms unfolding upsert_heartbeat_eq Let_def snd_conv
  by (intro reg_wf_worker_upd reg_wf_restart_decision reg_wf_registered) auto

lemma reg_wf_worker_drain_upd:
  assumes "reg_wf r" "map_of (reg_workers r) k = Some w" "w_id w' = k" "mwf ds"
  shows "reg_wf (r\<lparr>reg_manual_drains := ds, reg_workers := mput k w' (reg_workers r)\<rparr>)"
  using reg_wf_worker_upd[OF reg_wf_drains[OF assms(1,4)], of k w w'] assms(2,3) by simp

lemma reg_wf_drain [keeps]: "reg_wf r \<Longrightarrow> reg_wf (snd (drain w r))"
  by (auto simp: drain_def Let_def reg_wf_id split: option.splits
      intro!: reg_wf_worker_drain_upd) (simp add: reg_wf_def mwf_mput)

lemma reg_wf_undrain [keeps]: "reg_wf r \<Longrightarrow> reg_wf (snd (undrain w r))"
  by (auto simp: undrain_def Let_def reg_wf_id split: option.splits
      intro!: reg_wf_worker_drain_upd) (simp_all add: reg_wf_def mwf_mdel)

lemma reg_wf_scrape [keeps]:
  "reg_wf r \<Longrightarrow> reg_wf (record_scrape_success w r)"
  "reg_wf r \<Longrightarrow> reg_wf (record_scrape_failure w now r)"
  "reg_wf r \<Longrightarrow> reg_wf (snd (record_reverse_failure w now r))"
  by (auto simp: record_scrape_success_def record_scrape_failure_def record_reverse_failure_def
      Let_def reg_wf_id split: option.splits intro!: reg_wf_worker_upd)

lemma reg_wf_active:
  "reg_wf r \<Longrightarrow> mwf as \<Longrightarrow> (\<And>k. 0 \<le> mget 0 as k) \<Longrightarrow> reg_wf (r\<lparr>reg_active := as\<rparr>)"
  by (simp add: reg_wf_def)

lemma reg_wf_active_nonneg: "reg_wf r \<Longrightarrow> 0 \<le> mget 0 (reg_active r) k"
  by (simp add: reg_wf_def)

lemma reg_wf_acquire [keeps]: "reg_wf r \<Longrightarrow> reg_wf (snd (acquire w now r))"
  by (auto simp: acquire_def reg_wf_active_nonneg add_nonneg_nonneg split: option.splits
      intro!: reg_wf_active) (simp_all add: reg_wf_def mwf_mput)

lemma reg_wf_release [keeps]: "reg_wf r \<Longrightarrow> reg_wf (release_active w r)"
  by (auto simp: release_active_def reg_wf_active_nonneg intro!: reg_wf_active)
    (simp_all add: reg_wf_def mwf_mput mwf_mdel)

lemma prune_nothing: "offline_ids now r = [] \<Longrightarrow> prune_offline now r = r"
  by (simp add: prune_offline_def)

lemma prune_order:
  assumes "reg_wf r"
  shows "reg_worker_order (prune_offline now r) =
    filter (mhas (reg_workers (prune_offline now r))) (reg_worker_order r)"
proof (cases "offline_ids now r = []")
  case True
  have "filter (mhas (reg_workers r)) (reg_worker_order r) = reg_worker_order r"
    using assms by (auto simp: reg_wf_def mhas_iff intro!: filter_True)
  with True show ?thesis by (simp add: prune_nothing)
qed (simp add: prune_offline_def Let_def)

lemma reg_wf_prune [keeps]:
  assumes "reg_wf r"
  shows "reg_wf (prune_offline now r)"
proof -
  let ?r = "prune_offline now r"
  have wf: "mwf (reg_workers ?r)" "mwf (reg_active ?r)" "mwf (reg_manual_drains ?r)"
    "mwf (reg_restart_holders ?r)"
    using assms by (auto simp: prune_offline_fields reg_wf_def intro!: forget_workers_mwf)
  have keys: "set (mkeys (reg_workers ?r)) \<subseteq> set (mkeys (reg_workers r))"
    by (auto simp: set_mkeys prune_offline_fields split: if_splits)
  have "distinct (reg_worker_order ?r)" "set (reg_worker_order ?r) = set (mkeys (reg_workers ?r))"
    using assms keys by (auto simp: prune_order reg_wf_def mhas_iff)
  moreover have "\<forall>(k, w) \<in> set (reg_workers ?r). w_id w = k"
  proof (intro ballI, clarify)
    fix k w assume "(k, w) \<in> set (reg_workers ?r)"
    then have "map_of (reg_workers r) k = Some w"
      using wf(1) by (auto simp: prune_offline_fields simp flip: map_of_wf_iff split: if_splits)
    then show "w_id w = k" by (rule reg_wf_id[OF assms])
  qed
  moreover have "0 \<le> mget 0 (reg_active ?r) k" for k
    using assms by (simp add: prune_offline_fields reg_wf_def)
  ultimately show ?thesis using wf unfolding reg_wf_def by blast
qed

lemma reg_wf_snapshot [keeps]: "reg_wf r \<Longrightarrow> reg_wf (snd (snapshot now r))"
  by (simp add: snapshot_def Let_def reg_wf_prune)

lemma reg_wf_new [keeps]: "reg_wf (new_worker_registry d)"
  by (simp add: reg_wf_def new_worker_registry_def mkeys_def)

section \<open>What a snapshot holds\<close>

lemma snapshot_workers:
  assumes "reg_wf r"
  shows "w \<in> set (fst (snapshot now r)) \<longleftrightarrow>
      map_of (reg_workers r) (w_id w) = Some w \<and>
      time_sub now (w_last_heartbeat w) \<le> worker_offline_retention"
    (is "_ \<longleftrightarrow> ?R")
proof -
  let ?p = "prune_offline now r"
  have wf: "reg_wf ?p" using assms by (rule reg_wf_prune)
  have "w \<in> set (fst (snapshot now r)) \<longleftrightarrow>
      (\<exists>k \<in> set (reg_worker_order ?p). map_of (reg_workers ?p) k = Some w)"
    by (auto simp: snapshot_def Let_def map_filter_def image_iff)
  also have "\<dots> \<longleftrightarrow> map_of (reg_workers ?p) (w_id w) = Some w"
    using wf reg_wf_id[OF wf] by (auto simp: reg_wf_def set_mkeys)
  also have "\<dots> \<longleftrightarrow> ?R"
    using assms by (auto simp: prune_offline_fields offline_ids_iff reg_wf_def split: if_splits)
  finally show ?thesis .
qed

lemma snapshot_distinct:
  assumes "reg_wf r"
  shows "distinct (map w_id (fst (snapshot now r)))"
proof -
  let ?p = "prune_offline now r"
  have wf: "reg_wf ?p" using assms by (rule reg_wf_prune)
  have "map w_id (List.map_filter (\<lambda>k. map_of (reg_workers ?p) k) ks) = ks"
    if "set ks \<subseteq> set (mkeys (reg_workers ?p))" for ks
    using that by (induction ks) (auto simp: List.map_filter_simps set_mkeys reg_wf_id[OF wf])
  then show ?thesis
    using wf by (simp add: snapshot_def Let_def reg_wf_def)
qed

lemma snapshot_state: "snd (snapshot now r) = prune_offline now r"
  by (simp add: snapshot_def Let_def)

lemma healthy_prune:
  assumes "reg_wf r" "reg_stale_after r \<le> worker_offline_retention"
  shows "healthy (prune_offline now r) w now = healthy r w now"
  using assms by (auto simp: healthy_def prune_offline_fields offline_ids_iff reg_wf_def
      split: option.splits)

section \<open>A global restart excludes every other restart\<close>

definition restart_exclusive :: "registry \<Rightarrow> bool" where
  "restart_exclusive r \<longleftrightarrow>
     (\<forall>s. holder_of r restart_global_scope \<noteq> [] \<and> holder_of r s \<noteq> [] \<longrightarrow>
          holder_of r s = holder_of r restart_global_scope)"

text \<open>A heartbeat that does not name a model called like the global scope.\<close>

definition plain_scopes :: "heartbeat_request \<Rightarrow> bool" where
  "plain_scopes hb \<longleftrightarrow> restart_global_scope \<notin> set (map trim_space (hb_restart_models hb))"

lemma holder_of_filter:
  assumes "mwf (reg_restart_holders r)"
  shows "holder_of (r\<lparr>reg_restart_holders := filter P (reg_restart_holders r)\<rparr>) s \<in> {[], holder_of r s}"
  using assms by (auto simp: holder_of_def mget_def map_of_filter_wf split: option.splits)

lemma restart_exclusive_shrink:
  assumes "restart_exclusive r" "\<And>s. holder_of r' s \<in> {[], holder_of r s}"
  shows "restart_exclusive r'"
  unfolding restart_exclusive_def
proof (intro allI impI, elim conjE)
  fix s assume *: "holder_of r' restart_global_scope \<noteq> []" "holder_of r' s \<noteq> []"
  then have eq: "holder_of r' restart_global_scope = holder_of r restart_global_scope"
    "holder_of r' s = holder_of r s"
    using assms(2)[of restart_global_scope] assms(2)[of s] by simp_all
  have "holder_of r s = holder_of r restart_global_scope"
    using assms(1)[unfolded restart_exclusive_def, rule_format, of s] * unfolding eq by blast
  then show "holder_of r' s = holder_of r' restart_global_scope" unfolding eq .
qed

lemma restart_exclusive_same:
  "restart_exclusive r \<Longrightarrow> reg_restart_holders r' = reg_restart_holders r \<Longrightarrow> restart_exclusive r'"
  by (rule restart_exclusive_shrink[of r]) (simp_all add: holder_of_def)

lemma restart_scopes_cases:
  assumes "restart_global_scope \<notin> set (map trim_space ms)"
  shows "restart_scopes ms = [restart_global_scope] \<or> restart_global_scope \<notin> set (restart_scopes ms)"
  using assms by (auto simp: restart_scopes_def Let_def)

lemma restart_scopes_nonempty [simp]: "restart_scopes ms \<noteq> []"
proof
  assume "restart_scopes ms = []"
  then show False
    by (auto simp: restart_scopes_def Let_def split: if_splits dest!: arg_cong[where f = set])
qed

lemma unblocked_scope:
  assumes "\<not> restart_blocked_by_other r w ss" "s \<in> set ss"
  shows "holder_of r s \<in> {[], w}"
  using assms by (auto simp: restart_blocked_by_other_def split: if_splits)

lemma unblocked_global:
  assumes "\<not> restart_blocked_by_other r w ss"
  shows "holder_of r restart_global_scope \<in> {[], w}"
  using assms by (auto simp: restart_blocked_by_other_def split: if_splits)

lemma unblocked_all:
  assumes "\<not> restart_blocked_by_other r w [restart_global_scope]"
  shows "holder_of r s \<in> {[], w}"
  using assms
  by (fastforce simp: restart_blocked_by_other_def holder_of_def mget_def
      dest: map_of_SomeD split: if_splits option.splits)

lemma restart_exclusive_decision:
  assumes ex: "restart_exclusive r" and plain: "restart_global_scope \<notin> set (map trim_space ms)"
  shows "restart_exclusive (snd (restart_decision w n ms r))"
proof (cases "n \<and> \<not> restart_blocked_by_other r w (restart_scopes ms)")
  case False
  then show ?thesis using ex by (auto simp: restart_decision_def Let_def)
next
  case True
  let ?ss = "restart_scopes ms"
  have held: "holder_of (snd (restart_decision w n ms r)) s =
      (if s \<in> set ?ss \<and> holder_of r s = [] then w else holder_of r s)" for s
    using True by (simp add: restart_decision_def Let_def holder_of_hold_scopes)
  from restart_scopes_cases[OF plain] show ?thesis
  proof
    assume g: "?ss = [restart_global_scope]"
    with True have "holder_of r s \<in> {[], w}" for s by (intro unblocked_all) simp
    then show ?thesis
      unfolding restart_exclusive_def held g by auto
  next
    assume g: "restart_global_scope \<notin> set ?ss"
    then have "holder_of r restart_global_scope \<in> {[], w}"
      "\<And>s. s \<in> set ?ss \<Longrightarrow> holder_of r s \<in> {[], w}"
      using True unblocked_global unblocked_scope by blast+
    with ex g show ?thesis
      unfolding restart_exclusive_def held by (auto split: if_splits)
  qed
qed

lemma restart_exclusive_registered:
  assumes "restart_exclusive r" "reg_wf r"
  shows "restart_exclusive (heartbeat_registered hb now r)"
proof -
  let ?r1 = "release_expired_restart_holder now r"
  have wf1: "mwf (reg_restart_holders ?r1)"
    using reg_wf_release_expired[OF assms(2)] by (simp add: reg_wf_def)
  have 1: "restart_exclusive ?r1"
    using assms unfolding release_expired_restart_holder_def
    by (intro restart_exclusive_shrink[OF assms(1)] holder_of_filter) (simp add: reg_wf_def)
  have 2: "restart_exclusive (release_restart_holder_for_worker w r')"
    if "restart_exclusive r'" "mwf (reg_restart_holders r')" for w r'
    using that unfolding release_restart_holder_for_worker_def
    by (intro restart_exclusive_shrink[OF that(1)] holder_of_filter)
  show ?thesis
    by (auto simp: heartbeat_registered_def Let_def wf1
        intro!: 2 intro: restart_exclusive_same[OF 1])
qed

lemma restart_exclusive_upsert [keeps]:
  assumes "restart_exclusive r" "reg_wf r" "plain_scopes hb"
  shows "restart_exclusive (snd (upsert_heartbeat hb now r))"
proof -
  have "restart_exclusive (snd (restart_decision (hb_agent_id hb) (hb_needs_restart hb)
      (hb_restart_models hb) (heartbeat_registered hb now r)))"
    using assms by (intro restart_exclusive_decision restart_exclusive_registered)
      (simp_all add: plain_scopes_def)
  then show ?thesis
    by (simp add: upsert_heartbeat_eq Let_def) (erule restart_exclusive_same, simp)
qed

lemma restart_exclusive_prune [keeps]:
  assumes "restart_exclusive r" "reg_wf r"
  shows "restart_exclusive (prune_offline now r)"
proof (rule restart_exclusive_shrink[OF assms(1)])
  fix s
  have "reg_restart_holders (prune_offline now r) =
      filter (\<lambda>(s, h). h \<notin> set (offline_ids now r)) (reg_restart_holders r)"
    by (simp add: prune_offline_fields)
  then show "holder_of (prune_offline now r) s \<in> {[], holder_of r s}"
    using assms(2) holder_of_filter[of r] by (simp add: holder_of_def reg_wf_def)
qed

text \<open>One method call of the registry; \<open>ok\<close> says which heartbeats arrive.\<close>

inductive registry_step :: "(heartbeat_request \<Rightarrow> bool) \<Rightarrow> registry \<Rightarrow> registry \<Rightarrow> bool"
  for ok :: "heartbeat_request \<Rightarrow> bool" where
  step_heartbeat: "ok hb \<Longrightarrow> registry_step ok r (snd (upsert_heartbeat hb now r))"
| step_drain: "registry_step ok r (snd (drain w r))"
| step_undrain: "registry_step ok r (snd (undrain w r))"
| step_snapshot: "registry_step ok r (snd (snapshot now r))"
| step_acquire: "registry_step ok r (snd (acquire w now r))"
| step_release: "registry_step ok r (release_active w r)"
| step_scrape_success: "registry_step ok r (record_scrape_success w r)"
| step_scrape_failure: "registry_step ok r (record_scrape_failure w now r)"
| step_reverse_failure: "registry_step ok r (snd (record_reverse_failure w now r))"

inductive registry_reachable :: "(heartbeat_request \<Rightarrow> bool) \<Rightarrow> registry \<Rightarrow> bool"
  for ok :: "heartbeat_request \<Rightarrow> bool" where
  reach_new: "registry_reachable ok (new_worker_registry d)"
| reach_step: "registry_reachable ok r \<Longrightarrow> registry_step ok r r' \<Longrightarrow> registry_reachable ok r'"

lemma holders_frame [simp]:
  "reg_restart_holders (snd (drain w r)) = reg_restart_holders r"
  "reg_restart_holders (snd (undrain w r)) = reg_restart_holders r"
  "reg_restart_holders (snd (acquire w now r)) = reg_restart_holders r"
  "reg_restart_holders (release_active w r) = reg_restart_holders r"
  "reg_restart_holders (record_scrape_success w r) = reg_restart_holders r"
  "reg_restart_holders (record_scrape_failure w now r) = reg_restart_holders r"
  "reg_restart_holders (snd (record_reverse_failure w now r)) = reg_restart_holders r"
  by (simp_all add: drain_def undrain_def acquire_def release_active_def record_scrape_success_def
      record_scrape_failure_def record_reverse_failure_def Let_def split: option.splits)

lemma registry_step_wf: "registry_step ok r r' \<Longrightarrow> reg_wf r \<Longrightarrow> reg_wf r'"
  by (induction rule: registry_step.induct) (simp_all add: keeps)

lemma registry_step_exclusive:
  "registry_step ok r r' \<Longrightarrow> (\<And>hb. ok hb \<Longrightarrow> plain_scopes hb) \<Longrightarrow> reg_wf r \<Longrightarrow>
   restart_exclusive r \<Longrightarrow> restart_exclusive r'"
  by (induction rule: registry_step.induct)
    (simp_all add: keeps snapshot_state, (erule restart_exclusive_same, simp)+)

lemma reachable_wf: "registry_reachable ok r \<Longrightarrow> reg_wf r"
  by (induction rule: registry_reachable.induct) (auto intro: reg_wf_new registry_step_wf)

lemma restart_exclusive_new: "restart_exclusive (new_worker_registry d)"
  by (simp add: restart_exclusive_def new_worker_registry_def holder_of_def)

text \<open>
  C8. In every registry reachable by any sequence of method calls, a worker that holds the global
  restart scope is the only holder of any scope, provided that no heartbeat asks for the restart of
  a model named like the global scope.
\<close>

theorem reachable_restart_exclusive:
  assumes "registry_reachable ok r" "\<And>hb. ok hb \<Longrightarrow> plain_scopes hb"
    and "holder_of r restart_global_scope = A" "A \<noteq> []" "holder_of r s = B" "B \<noteq> []"
  shows "B = A"
proof -
  have "restart_exclusive r" using assms(1)
  proof (induction rule: registry_reachable.induct)
    case (reach_step r r')
    then show ?case using assms(2) by (blast intro: registry_step_exclusive reachable_wf)
  qed (rule restart_exclusive_new)
  with assms(3-) show ?thesis by (auto simp: restart_exclusive_def)
qed

section \<open>What a restart permission means\<close>

lemma acquire_draining:
  "map_of (reg_workers r) k = Some w \<Longrightarrow> w_state w = WorkerDraining \<Longrightarrow> acquire k t r = (False, r)"
  by (simp add: acquire_def)

lemma healthy_draining:
  "map_of (reg_workers r) k = Some w \<Longrightarrow> w_state w = WorkerDraining \<Longrightarrow> \<not> healthy r k t"
  by (simp add: healthy_def)

lemma upsert_worker:
  "map_of (reg_workers (snd (upsert_heartbeat hb now r))) (hb_agent_id hb) = Some (heartbeat_worker hb now r)"
  by (simp add: upsert_heartbeat_eq Let_def)

lemma upsert_active [simp]: "reg_active (snd (upsert_heartbeat hb now r)) = reg_active r"
  by (simp add: upsert_heartbeat_eq Let_def)

lemma upsert_drains [simp]: "reg_manual_drains (snd (upsert_heartbeat hb now r)) = reg_manual_drains r"
  by (simp add: upsert_heartbeat_eq Let_def)

lemma restart_allowed_facts:
  assumes "upsert_heartbeat hb now r = (resp, r')" "hr_restart_allowed resp"
    and "hb_agent_id hb \<noteq> []"
  shows "hb_needs_restart hb" "mget 0 (reg_active r') (hb_agent_id hb) = 0" "hr_worker_state resp = ''draining''"
    "map_of (reg_workers r') (hb_agent_id hb) = Some (heartbeat_worker hb now r)"
    "w_state (heartbeat_worker hb now r) = WorkerDraining" "w_needs_restart (heartbeat_worker hb now r)"
    "\<forall>s \<in> set (restart_scopes (hb_restart_models hb)). holder_of r' s = hb_agent_id hb"
proof -
  let ?w = "hb_agent_id hb" and ?ss = "restart_scopes (hb_restart_models hb)"
  let ?r = "heartbeat_registered hb now r"
  let ?d = "restart_decision ?w (hb_needs_restart hb) (hb_restart_models hb) ?r"
  have resp: "resp = \<lparr>hr_worker_state = worker_state_string (w_state (heartbeat_worker hb now r)),
      hr_restart_allowed = snd (fst ?d)\<rparr>"
    and r': "r' = snd (upsert_heartbeat hb now r)"
    using assms(1) by (auto simp: upsert_heartbeat_eq Let_def)
  have al: "hb_needs_restart hb" "\<not> restart_blocked_by_other ?r ?w ?ss" "fst (fst ?d)"
    "mget 0 (reg_active r) ?w = 0"
    using assms(2) by (auto simp: resp restart_decision_def Let_def split: if_splits)
  have drain: "w_state (heartbeat_worker hb now r) = WorkerDraining"
    using al(3) by (simp add: heartbeat_worker_def Let_def)
  note here = upsert_worker[of hb now r, folded r']
  have hold: "holder_of r' s = ?w" if "s \<in> set ?ss" for s
  proof -
    have "holder_of r' s = holder_of (hold_scopes ?w ?ss ?r) s"
      using al by (simp add: r' upsert_heartbeat_eq Let_def restart_decision_def holder_of_def)
    with unblocked_scope[OF al(2) that] that show ?thesis
      by (auto simp: holder_of_hold_scopes)
  qed
  show "hb_needs_restart hb" "mget 0 (reg_active r') (hb_agent_id hb) = 0" "hr_worker_state resp = ''draining''"
    "map_of (reg_workers r') (hb_agent_id hb) = Some (heartbeat_worker hb now r)"
    "w_state (heartbeat_worker hb now r) = WorkerDraining" "w_needs_restart (heartbeat_worker hb now r)"
    "\<forall>s \<in> set (restart_scopes (hb_restart_models hb)). holder_of r' s = hb_agent_id hb"
    using al drain hold here by (auto simp: resp r' heartbeat_worker_def Let_def worker_of_heartbeat_def)
qed

text \<open>
  When the gateway answers a heartbeat with a restart permission, the worker asked for it, serves
  no request, is draining so that it can be given none, and holds every scope of the restart.
\<close>

theorem restart_allowed_sound:
  assumes "upsert_heartbeat hb now r = (resp, r')" "hr_restart_allowed resp"
    and "hb_agent_id hb \<noteq> []"
  shows "hb_needs_restart hb \<and> mget 0 (reg_active r') (hb_agent_id hb) = 0 \<and>
    hr_worker_state resp = ''draining'' \<and>
    \<not> healthy r' (hb_agent_id hb) t \<and> acquire (hb_agent_id hb) t r' = (False, r') \<and>
    (\<forall>s \<in> set (restart_scopes (hb_restart_models hb)). holder_of r' s = hb_agent_id hb)"
  using restart_allowed_facts[OF assms]
    acquire_draining[OF restart_allowed_facts(4,5)[OF assms]] healthy_draining[OF restart_allowed_facts(4,5)[OF assms]]
  by auto

lemma registered_keeps_holder:
  assumes "reg_wf r" "holder_of r s = A" "A \<noteq> []" "A \<noteq> hb_agent_id hb"
    and "map_of (reg_workers r) A = Some wA"
    and "time_sub now (w_last_heartbeat wA) \<le> worker_offline_retention"
  shows "holder_of (heartbeat_registered hb now r) s = A"
proof -
  let ?r1 = "release_expired_restart_holder now r"
  have wf: "mwf (reg_restart_holders r)" "mwf (reg_restart_holders ?r1)"
    using assms(1) reg_wf_release_expired[OF assms(1)] by (simp_all add: reg_wf_def)
  have "map_of (reg_restart_holders r) s = Some A"
    using assms(2,3) by (auto simp: holder_of_def mget_def split: option.splits)
  then have "map_of (reg_restart_holders ?r1) s = Some A"
    using assms(5,6) wf(1) by (simp add: release_expired_restart_holder_def map_of_filter_wf)
  then show ?thesis
    using assms(4) wf(2)
    by (auto simp: heartbeat_registered_def Let_def holder_of_def mget_def
        release_restart_holder_for_worker_def map_of_filter_wf)
qed

text \<open>
  While a worker that still reports itself holds a scope, a heartbeat of another worker that asks
  for a restart with this scope, or for a global restart, is neither allowed nor drained for it, and
  the scope stays with its holder.
\<close>

theorem restart_blocked_while_held:
  assumes "reg_wf r" "holder_of r s = A" "A \<noteq> []" "A \<noteq> hb_agent_id hb"
    and "map_of (reg_workers r) A = Some wA"
    and "time_sub now (w_last_heartbeat wA) \<le> worker_offline_retention"
    and "s \<in> set (restart_scopes (hb_restart_models hb)) \<or>
         restart_scopes (hb_restart_models hb) = [restart_global_scope]"
  shows "\<not> hr_restart_allowed (fst (upsert_heartbeat hb now r)) \<and>
    holder_of (snd (upsert_heartbeat hb now r)) s = A \<and>
    (\<not> mget False (reg_manual_drains r) (hb_agent_id hb) \<longrightarrow>
       hr_worker_state (fst (upsert_heartbeat hb now r)) = ''active'')"
proof -
  let ?w = "hb_agent_id hb" and ?ss = "restart_scopes (hb_restart_models hb)"
  let ?r = "heartbeat_registered hb now r"
  have held: "holder_of ?r s = A" by (rule registered_keeps_holder[OF assms(1-6)])
  then have "(s, A) \<in> set (reg_restart_holders ?r)"
    using assms(3) by (auto simp: holder_of_def mget_def dest: map_of_SomeD split: option.splits)
  then have "restart_blocked_by_other ?r ?w ?ss"
    using assms(3,4,7) held by (auto simp: restart_blocked_by_other_def)
  then have d: "restart_decision ?w (hb_needs_restart hb) (hb_restart_models hb) ?r = ((False, False), ?r)"
    by (simp add: restart_decision_def Let_def)
  show ?thesis
    using held by (simp add: upsert_heartbeat_eq Let_def d holder_of_def heartbeat_worker_def
        worker_of_heartbeat_def)
qed

text \<open>
  A manual drain outlives heartbeats: once an operator drained a worker, no heartbeat makes it
  healthy or lets a request acquire it, until \<open>undrain\<close> (or until the worker is forgotten).
\<close>

theorem drain_survives_heartbeat:
  assumes "drain k r = (Some w, r')" "hb_agent_id hb = k"
  shows "\<not> healthy r' k t \<and> \<not> healthy (snd (upsert_heartbeat hb now r')) k t \<and>
    \<not> fst (acquire k t (snd (upsert_heartbeat hb now r'))) \<and>
    mget False (reg_manual_drains (snd (upsert_heartbeat hb now r'))) k"
proof -
  obtain x where x: "map_of (reg_workers r) k = Some x" "w = x\<lparr>w_state := WorkerDraining\<rparr>"
    and r': "r' = r\<lparr>reg_manual_drains := mput k True (reg_manual_drains r), reg_workers := mput k w (reg_workers r)\<rparr>"
    using assms(1) by (auto simp: drain_def Let_def split: option.splits)
  have d: "mget False (reg_manual_drains r') k" by (simp add: r')
  have "w_state (heartbeat_worker hb now r') = WorkerDraining"
    using d assms(2) by (simp add: heartbeat_worker_def Let_def)
  note h = healthy_draining[OF upsert_worker this] acquire_draining[OF upsert_worker this]
  have "\<not> healthy r' k t" by (rule healthy_draining[of _ _ w]) (simp_all add: r' x)
  with h d assms(2) show ?thesis by simp
qed

section \<open>Requests in flight\<close>

text \<open>
  The registry with the acquisitions that are still outstanding: one entry per release closure that
  has not run yet. A prune is idle when no forgotten worker has one.
\<close>

type_synonym serving = "registry \<times> string list"

inductive serving_step :: "serving \<Rightarrow> serving \<Rightarrow> bool" where
  serve_acquire: "acquire w now r = (True, r') \<Longrightarrow> serving_step (r, ts) (r', w # ts)"
| serve_release: "w \<in> set ts \<Longrightarrow> serving_step (r, ts) (release_active w r, remove1 w ts)"
| serve_heartbeat: "serving_step (r, ts) (snd (upsert_heartbeat hb now r), ts)"
| serve_drain: "serving_step (r, ts) (snd (drain w r), ts)"
| serve_undrain: "serving_step (r, ts) (snd (undrain w r), ts)"
| serve_snapshot: "set (offline_ids now r) \<inter> set ts = {} \<Longrightarrow>
     serving_step (r, ts) (snd (snapshot now r), ts)"
| serve_scrape_success: "serving_step (r, ts) (record_scrape_success w r, ts)"
| serve_scrape_failure: "serving_step (r, ts) (record_scrape_failure w now r, ts)"
| serve_reverse_failure: "serving_step (r, ts) (snd (record_reverse_failure w now r), ts)"

definition counts_outstanding :: "serving \<Rightarrow> bool" where
  "counts_outstanding s \<longleftrightarrow> (\<forall>w. mget 0 (reg_active (fst s)) w = int (count_list (snd s) w))"

lemma active_frame [simp]:
  "reg_active (snd (drain w r)) = reg_active r"
  "reg_active (snd (undrain w r)) = reg_active r"
  "reg_active (record_scrape_success w r) = reg_active r"
  "reg_active (record_scrape_failure w now r) = reg_active r"
  "reg_active (snd (record_reverse_failure w now r)) = reg_active r"
  by (simp_all add: drain_def undrain_def record_scrape_success_def record_scrape_failure_def
      record_reverse_failure_def Let_def split: option.splits)

lemma acquire_counts:
  "acquire w now r = (True, r') \<Longrightarrow>
   reg_active r' = mput w (mget 0 (reg_active r) w + 1) (reg_active r)"
  by (auto simp: acquire_def split: option.splits if_splits)

lemma release_counts:
  "mget 0 (reg_active (release_active w r)) x =
     (if x = w then max 0 (mget 0 (reg_active r) w - 1) else mget 0 (reg_active r) x)"
  by (simp add: release_active_def)

text \<open>
  C16. The active count of every worker is the number of its outstanding acquisitions, in every run
  in which a worker is only forgotten while it serves no request.
\<close>

theorem active_counts_outstanding:
  assumes "serving_step\<^sup>*\<^sup>* (new_worker_registry d, []) s"
  shows "mget 0 (reg_active (fst s)) w = int (count_list (snd s) w)"
proof -
  have step: "counts_outstanding u" if "serving_step t u" "counts_outstanding t" for t u
    using that
  proof (induction rule: serving_step.induct)
    case (serve_release w ts r)
    then have "0 < count_list ts w" by (metis count_list_0_iff gr0I)
    with serve_release show ?case
      by (auto simp: counts_outstanding_def release_counts count_list_remove1)
  next
    case (serve_snapshot now r ts)
    then have "count_list ts x = 0" if "x \<in> set (offline_ids now r)" for x
      using that by (auto simp: count_list_0_iff)
    with serve_snapshot show ?case
      by (auto simp: counts_outstanding_def snapshot_state prune_offline_fields)
  qed (auto simp: counts_outstanding_def acquire_counts)
  have "counts_outstanding s"
    using assms
  proof (induction rule: rtranclp_induct)
    case base
    show ?case by (simp add: counts_outstanding_def new_worker_registry_def)
  qed (rule step)
  then show ?thesis by (simp add: counts_outstanding_def)
qed

section \<open>Concrete runs\<close>

definition example_build :: build_info where
  "example_build = \<lparr>bi_version = ''v'', bi_commit = [], bi_build_time = [], bi_protocol_version = 3\<rparr>"

definition beat ::
  "string \<Rightarrow> running_model list \<Rightarrow> (string, string) gomap \<Rightarrow> bool \<Rightarrow> string list \<Rightarrow> heartbeat_request" where
  "beat wid running artifacts needs models =
     \<lparr>hb_agent_id = wid, hb_tags = [''gpu''], hb_llama_swap_url = ''u'', hb_running_models = running,
      hb_gpu_devices = [], hb_artifacts = artifacts,
      hb_capacity = \<lparr>wd_max_concurrency = 1, wd_max_queue = 1\<rparr>, hb_needs_restart = needs,
      hb_restart_models = models, hb_agent_build = example_build, hb_transport_lease_id = [],
      hb_transport_generation = 0, hb_last_error = [], hb_events = []\<rparr>"

definition one_worker :: registry where
  "one_worker = snd (upsert_heartbeat (beat ''w'' [] [] False []) second (new_worker_registry (6 * second)))"

definition restarting_worker :: registry where
  "restarting_worker = snd (upsert_heartbeat (beat ''w'' [] [] True [''m'']) (2 * second) one_worker)"

lemma one_worker_wf: "reg_wf one_worker"
  unfolding one_worker_def by (intro reg_wf_upsert reg_wf_new)

lemma restarting_worker_wf: "reg_wf restarting_worker"
  unfolding restarting_worker_def by (intro reg_wf_upsert one_worker_wf)

theorem reachable_restart_exclusive_witness:
  "registry_reachable plain_scopes
     (snd (upsert_heartbeat (beat ''w'' [] [] True []) (2 * second) one_worker)) \<and>
   holder_of (snd (upsert_heartbeat (beat ''w'' [] [] True []) (2 * second) one_worker))
     restart_global_scope = ''w''"
proof -
  let ?r = "snd (upsert_heartbeat (beat ''w'' [] [] True []) (2 * second) one_worker)"
  have plain: "plain_scopes (beat ''w'' [] [] b [])" for b
    by (simp add: plain_scopes_def beat_def)
  have "registry_reachable plain_scopes one_worker"
    unfolding one_worker_def by (rule reach_step[OF reach_new step_heartbeat]) (rule plain)
  then have reach: "registry_reachable plain_scopes ?r"
    by (rule reach_step[OF _ step_heartbeat])
      (simp add: plain_scopes_def beat_def)
  have g: "holder_of ?r restart_global_scope = ''w''" by code_simp
  from reachable_restart_exclusive[OF reach _ g _ g] g reach show ?thesis by simp
qed

theorem restart_allowed_sound_witness:
  "\<not> healthy restarting_worker ''w'' (3 * second) \<and> holder_of restarting_worker ''m'' = ''w''"
proof -
  let ?hb = "beat ''w'' [] [] True [''m'']"
  obtain resp where u: "upsert_heartbeat ?hb (2 * second) one_worker = (resp, restarting_worker)"
    unfolding restarting_worker_def by (metis prod.collapse)
  have "hr_restart_allowed (fst (upsert_heartbeat ?hb (2 * second) one_worker))" by code_simp
  then have al: "hr_restart_allowed resp" by (simp only: u fst_conv)
  have id: "hb_agent_id ?hb \<noteq> []" "hb_agent_id ?hb = ''w''" by (simp_all add: beat_def)
  have "''m'' \<in> set (restart_scopes (hb_restart_models ?hb))" by code_simp
  with restart_allowed_sound[OF u al id(1)] id(2) show ?thesis by simp
qed

theorem restart_blocked_while_held_witness:
  "\<not> hr_restart_allowed
     (fst (upsert_heartbeat (beat ''v'' [] [] True [''m'']) (3 * second) restarting_worker))"
proof -
  let ?hb = "beat ''v'' [] [] True [''m'']"
  obtain wA where w: "map_of (reg_workers restarting_worker) ''w'' = Some wA"
    "w_last_heartbeat wA = 2 * second"
    using upsert_worker[of "beat ''w'' [] [] True [''m'']" "2 * second" one_worker]
    by (auto simp: restarting_worker_def beat_def heartbeat_worker_def worker_of_heartbeat_def Let_def)
  have h: "holder_of restarting_worker ''m'' = ''w''" by code_simp
  have s: "''m'' \<in> set (restart_scopes (hb_restart_models ?hb))" by code_simp
  have "time_sub (3 * second) (w_last_heartbeat wA) \<le> worker_offline_retention"
    by (simp add: w(2) time_sub_def worker_offline_retention_def)
  from restart_blocked_while_held[OF restarting_worker_wf h _ _ w(1) this] s
  show ?thesis by (simp add: beat_def)
qed

theorem drain_survives_heartbeat_witness:
  "\<not> healthy (snd (upsert_heartbeat (beat ''w'' [] [] False []) (2 * second) (snd (drain ''w'' one_worker))))
      ''w'' (2 * second)"
proof -
  obtain x where "map_of (reg_workers one_worker) ''w'' = Some x"
    using upsert_worker[of "beat ''w'' [] [] False []" second "new_worker_registry (6 * second)"]
    by (simp add: one_worker_def beat_def)
  then obtain w where "drain ''w'' one_worker = (Some w, snd (drain ''w'' one_worker))"
    by (simp add: drain_def Let_def)
  from drain_survives_heartbeat[OF this, of "beat ''w'' [] [] False []"] show ?thesis
    by (simp add: beat_def)
qed

theorem active_counts_outstanding_witness:
  "mget 0 (reg_active (snd (acquire ''w'' (2 * second) one_worker))) ''w'' = 1"
proof -
  have a: "acquire ''w'' (2 * second) one_worker = (True, snd (acquire ''w'' (2 * second) one_worker))"
    by (simp add: prod_eq_iff) code_simp
  have "serving_step\<^sup>*\<^sup>* (new_worker_registry (6 * second), [])
      (snd (acquire ''w'' (2 * second) one_worker), [''w''])"
  proof (rule converse_rtranclp_into_rtranclp)
    show "serving_step (new_worker_registry (6 * second), []) (one_worker, [])"
      unfolding one_worker_def by (rule serve_heartbeat)
    show "serving_step\<^sup>*\<^sup>* (one_worker, []) (snd (acquire ''w'' (2 * second) one_worker), [''w''])"
      by (rule r_into_rtranclp, rule serve_acquire[OF a])
  qed
  from active_counts_outstanding[OF this, of "''w''"] show ?thesis by simp
qed

definition forgotten_busy :: registry where
  "forgotten_busy = snd (snapshot (700 * second) (snd (acquire ''w'' (2 * second) one_worker)))"

definition returned_busy :: registry where
  "returned_busy = snd (acquire ''w'' (701 * second)
     (snd (upsert_heartbeat (beat ''w'' [] [] False []) (701 * second) forgotten_busy)))"

text \<open>
  Forgetting a worker while it serves a request loses that request's place: the worker is
  forgotten after ten minutes without a heartbeat, comes back, takes a second request, and when the
  first request's release closure runs it removes the count of the second one. The next heartbeat
  is then allowed to restart the worker although the second request is still being served.
\<close>

theorem busy_worker_may_restart:
  "fst (acquire ''w'' (2 * second) one_worker) \<and>
   fst (acquire ''w'' (701 * second)
     (snd (upsert_heartbeat (beat ''w'' [] [] False []) (701 * second) forgotten_busy))) \<and>
   mget 0 (reg_active returned_busy) ''w'' = 1 \<and>
   hr_restart_allowed (fst (upsert_heartbeat (beat ''w'' [] [] True [''m'']) (702 * second)
     (release_active ''w'' returned_busy)))"
  by (intro conjI; code_simp)

text \<open>
  A heartbeat that names a model called like the global scope beside another model takes the
  global scope without excluding anyone: two workers then hold the global scope and another one.
\<close>

theorem global_scope_name_clash:
  "holder_of (snd (upsert_heartbeat (beat ''v'' [] [] True [''*'', ''n'']) (3 * second) restarting_worker))
     restart_global_scope = ''v'' \<and>
   holder_of (snd (upsert_heartbeat (beat ''v'' [] [] True [''*'', ''n'']) (3 * second) restarting_worker))
     ''m'' = ''w''"
  by (intro conjI; code_simp)

end
