(* ===== verification/QueueLimits.thy ===== *)
theory QueueLimits
  imports GoStd
begin

text \<open>
  The queue limiter (internal/gateway/limits.go): per key, at most \<open>maxActive\<close> acquisitions at once
  and at most \<open>maxQueue\<close> callers waiting for one. \<open>AcquireWithStats\<close> is cut where it gives up the lock:
  \<open>acquire_begin\<close> is the part under the lock, a caller it leaves waiting ends with \<open>acquire_ready\<close> when
  its channel is closed or with \<open>acquire_done\<close> when its context ends. A waiter is the address of its
  \<open>queueWaiter\<close>, taken from a counter; closing its channel puts the address into \<open>ql_closed\<close>.
  The system of callers around the limiter is \<open>limiter_step\<close>; its limits may differ from call to call,
  as they do when the configuration is reloaded.
\<close>

section \<open>State\<close>

datatype queue_result =
    QueueResultAdmitted | QueueResultAdmittedAfterWait | QueueResultFull | QueueResultTimeout
  | QueueResultNoReady

fun queue_result_string :: "queue_result \<Rightarrow> string" where
  "queue_result_string QueueResultAdmitted = ''admitted''"
| "queue_result_string QueueResultAdmittedAfterWait = ''admitted_after_wait''"
| "queue_result_string QueueResultFull = ''queue_full''"
| "queue_result_string QueueResultTimeout = ''queue_timeout''"
| "queue_result_string QueueResultNoReady = ''no_ready''"

datatype queue_error = ErrQueueFull | ErrQueueTimeout

record queue_acquire_stats =
  qs_result :: queue_result
  qs_waited :: bool
  qs_wait_ms :: int
  qs_active_before :: int
  qs_queued_before :: int
  qs_max_concurrency :: int
  qs_max_queue :: int

record queue_limit_state =
  ls_active :: int
  ls_waiters :: "nat list"

record queue_limiter =
  ql_states :: "(string, queue_limit_state) gomap"
  ql_closed :: "nat list"
  ql_next :: nat

definition new_queue_limiter :: queue_limiter where
  "new_queue_limiter = \<lparr>ql_states = [], ql_closed = [], ql_next = 0\<rparr>"

definition idle_limit_state :: queue_limit_state where
  "idle_limit_state = \<lparr>ls_active = 0, ls_waiters = []\<rparr>"

definition limit_state_of :: "queue_limiter \<Rightarrow> string \<Rightarrow> queue_limit_state" where
  "limit_state_of l key = mget idle_limit_state (ql_states l) key"

definition put_limit_state :: "string \<Rightarrow> queue_limit_state \<Rightarrow> queue_limiter \<Rightarrow> queue_limiter" where
  "put_limit_state key st l = l\<lparr>ql_states := mput key st (ql_states l)\<rparr>"

text \<open>\<open>stateLocked\<close>: the state of the key, entered into the map when it is missing.\<close>

definition state_locked :: "string \<Rightarrow> queue_limiter \<Rightarrow> queue_limit_state \<times> queue_limiter" where
  "state_locked key l =
     (case map_of (ql_states l) key of
        Some st \<Rightarrow> (st, l)
      | None \<Rightarrow> (idle_limit_state, put_limit_state key idle_limit_state l))"

definition queue_active :: "queue_limiter \<Rightarrow> string \<Rightarrow> int" where
  "queue_active l key =
     (case map_of (ql_states l) key of Some st \<Rightarrow> ls_active st | None \<Rightarrow> 0)"

definition queue_queued :: "queue_limiter \<Rightarrow> string \<Rightarrow> int" where
  "queue_queued l key =
     (case map_of (ql_states l) key of Some st \<Rightarrow> int (length (ls_waiters st)) | None \<Rightarrow> 0)"

definition queued_prefix :: "queue_limiter \<Rightarrow> string \<Rightarrow> int" where
  "queued_prefix l p =
     (\<Sum>(key, st) \<leftarrow> ql_states l. if has_prefix key p then int (length (ls_waiters st)) else 0)"

section \<open>Acquire\<close>

text \<open>
  How the locked part of \<open>AcquireWithStats\<close> leaves the caller: returning a release closure that does
  nothing, returning one for the key, returning \<open>ErrQueueFull\<close>, or waiting on a channel.
\<close>

datatype acquire_outcome =
    Unlimited queue_acquire_stats
  | Admitted queue_acquire_stats
  | Rejected queue_acquire_stats queue_error
  | Waiting queue_acquire_stats nat

definition initial_stats :: "int \<Rightarrow> int \<Rightarrow> queue_acquire_stats" where
  "initial_stats max_active max_queue =
     \<lparr>qs_result = QueueResultAdmitted, qs_waited = False, qs_wait_ms = 0, qs_active_before = 0,
      qs_queued_before = 0, qs_max_concurrency = max_active, qs_max_queue = max_queue\<rparr>"

definition acquire_begin ::
  "string \<Rightarrow> int \<Rightarrow> int \<Rightarrow> queue_limiter \<Rightarrow> acquire_outcome \<times> queue_limiter" where
  "acquire_begin key max_active max_queue l =
     (let stats = initial_stats max_active max_queue
      in if max_active \<le> 0 then (Unlimited stats, l)
         else
           let (st, l1) = state_locked key l;
               stats = stats\<lparr>qs_active_before := ls_active st,
                             qs_queued_before := int (length (ls_waiters st))\<rparr>
           in if ls_active st < max_active
              then (Admitted (stats\<lparr>qs_result := QueueResultAdmitted\<rparr>),
                    put_limit_state key (st\<lparr>ls_active := ls_active st + 1\<rparr>) l1)
              else if int (length (ls_waiters st)) \<ge> max_queue
              then (Rejected (stats\<lparr>qs_result := QueueResultFull\<rparr>) ErrQueueFull, l1)
              else (Waiting stats (ql_next l1),
                    put_limit_state key (st\<lparr>ls_waiters := ls_waiters st @ [ql_next l1]\<rparr>)
                      (l1\<lparr>ql_next := ql_next l1 + 1\<rparr>)))"

definition wait_ms :: "time \<Rightarrow> time \<Rightarrow> int" where
  "wait_ms start now = time_sub now start div 1000000"

text \<open>\<open>case <-waiter.ready\<close>; the caller then holds a place under the key.\<close>

definition acquire_ready :: "queue_acquire_stats \<Rightarrow> time \<Rightarrow> time \<Rightarrow> queue_acquire_stats" where
  "acquire_ready stats start now =
     stats\<lparr>qs_result := QueueResultAdmittedAfterWait, qs_waited := True, qs_wait_ms := wait_ms start now\<rparr>"

definition drop_idle_state :: "string \<Rightarrow> queue_limiter \<Rightarrow> queue_limiter" where
  "drop_idle_state key l =
     (if ls_active (limit_state_of l key) = 0 \<and> ls_waiters (limit_state_of l key) = []
      then l\<lparr>ql_states := mdel key (ql_states l)\<rparr> else l)"

definition cancel_waiter :: "string \<Rightarrow> nat \<Rightarrow> queue_limiter \<Rightarrow> bool \<times> queue_limiter" where
  "cancel_waiter key w l =
     (case map_of (ql_states l) key of
        None \<Rightarrow> (False, l)
      | Some st \<Rightarrow>
          if w \<in> set (ls_waiters st)
          then (True, drop_idle_state key
                        (put_limit_state key (st\<lparr>ls_waiters := remove1 w (ls_waiters st)\<rparr>) l))
          else (False, l))"

text \<open>
  \<open>case <-ctx.Done()\<close>. When the waiter is no longer queued the code receives from its channel, which
  returns only once the channel is closed: \<open>None\<close> is the caller that stays blocked there.
\<close>

definition acquire_done ::
  "string \<Rightarrow> nat \<Rightarrow> queue_acquire_stats \<Rightarrow> time \<Rightarrow> time \<Rightarrow> queue_limiter \<Rightarrow>
   ((queue_error \<times> queue_acquire_stats) + queue_acquire_stats) option \<times> queue_limiter" where
  "acquire_done key w stats start now l =
     (let stats = stats\<lparr>qs_waited := True, qs_wait_ms := wait_ms start now\<rparr>;
          (cancelled, l') = cancel_waiter key w l
      in if cancelled then (Some (Inl (ErrQueueTimeout, stats\<lparr>qs_result := QueueResultTimeout\<rparr>)), l')
         else if w \<in> set (ql_closed l')
         then (Some (Inr (stats\<lparr>qs_result := QueueResultAdmittedAfterWait\<rparr>)), l')
         else (None, l'))"

section \<open>Release\<close>

text \<open>The closure \<open>release\<close> returns; \<open>sync.Once\<close> lets each closure run its body at most once.\<close>

definition release_slot :: "string \<Rightarrow> queue_limiter \<Rightarrow> queue_limiter" where
  "release_slot key l =
     (case map_of (ql_states l) key of
        None \<Rightarrow> l
      | Some st \<Rightarrow>
          (case ls_waiters st of
             w # ws \<Rightarrow> (put_limit_state key (st\<lparr>ls_waiters := ws\<rparr>) l)\<lparr>ql_closed := w # ql_closed l\<rparr>
           | [] \<Rightarrow> drop_idle_state key
                (put_limit_state key
                  (if ls_active st > 0 then st\<lparr>ls_active := ls_active st - 1\<rparr> else st) l)))"

section \<open>The callers\<close>

text \<open>
  \<open>sy_held\<close> has one entry for every release closure that has not run, \<open>sy_waiting\<close> one for every
  caller in the \<open>select\<close>, in the order they arrived.
\<close>

record limiter_sys =
  sy_limiter :: queue_limiter
  sy_held :: "string list"
  sy_waiting :: "(string \<times> nat) list"

inductive limiter_step ::
  "(string \<Rightarrow> int \<Rightarrow> int \<Rightarrow> bool) \<Rightarrow> limiter_sys \<Rightarrow> limiter_sys \<Rightarrow> bool"
  for limits where
  step_admit: "\<lbrakk>limits key a q; acquire_begin key a q (sy_limiter s) = (Admitted stats, l)\<rbrakk> \<Longrightarrow>
    limiter_step limits s (s\<lparr>sy_limiter := l, sy_held := key # sy_held s\<rparr>)"
| step_wait: "\<lbrakk>limits key a q; acquire_begin key a q (sy_limiter s) = (Waiting stats w, l)\<rbrakk> \<Longrightarrow>
    limiter_step limits s (s\<lparr>sy_limiter := l, sy_waiting := sy_waiting s @ [(key, w)]\<rparr>)"
| step_refuse: "\<lbrakk>limits key a q; acquire_begin key a q (sy_limiter s) = (Rejected stats e, l)\<rbrakk> \<Longrightarrow>
    limiter_step limits s (s\<lparr>sy_limiter := l\<rparr>)"
| step_unlimited: "\<lbrakk>limits key a q; acquire_begin key a q (sy_limiter s) = (Unlimited stats, l)\<rbrakk> \<Longrightarrow>
    limiter_step limits s (s\<lparr>sy_limiter := l\<rparr>)"
| step_ready: "\<lbrakk>(key, w) \<in> set (sy_waiting s); w \<in> set (ql_closed (sy_limiter s))\<rbrakk> \<Longrightarrow>
    limiter_step limits s
      (s\<lparr>sy_held := key # sy_held s, sy_waiting := remove1 (key, w) (sy_waiting s)\<rparr>)"
| step_timeout: "\<lbrakk>(key, w) \<in> set (sy_waiting s);
      acquire_done key w stats start now (sy_limiter s) = (Some (Inl e), l)\<rbrakk> \<Longrightarrow>
    limiter_step limits s (s\<lparr>sy_limiter := l, sy_waiting := remove1 (key, w) (sy_waiting s)\<rparr>)"
| step_late_ready: "\<lbrakk>(key, w) \<in> set (sy_waiting s);
      acquire_done key w stats start now (sy_limiter s) = (Some (Inr stats'), l)\<rbrakk> \<Longrightarrow>
    limiter_step limits s (s\<lparr>sy_limiter := l, sy_held := key # sy_held s,
      sy_waiting := remove1 (key, w) (sy_waiting s)\<rparr>)"
| step_release: "key \<in> set (sy_held s) \<Longrightarrow>
    limiter_step limits s
      (s\<lparr>sy_limiter := release_slot key (sy_limiter s), sy_held := remove1 key (sy_held s)\<rparr>)"

definition limiter_start :: limiter_sys where
  "limiter_start = \<lparr>sy_limiter = new_queue_limiter, sy_held = [], sy_waiting = []\<rparr>"

inductive_cases limiter_stepE: "limiter_step limits s s'"

end
