(* ===== verification/QueueLimitsFacts.thy ===== *)
theory QueueLimitsFacts
  imports QueueLimits
begin

text \<open>
  The queue limiter against its callers. The invariant \<open>limiter_inv\<close> says what the counters mean: the
  active count of a key is the number of callers that hold a place (their closure has not run, or
  their channel is closed and they have not returned yet), its waiters are exactly the callers parked
  under the key in the order they came. From it: the bounds, the order in which places are handed on,
  that nobody stays blocked, and that an idle key keeps no entry.
\<close>

section \<open>Lookups after an operation\<close>

lemma limit_state_of_put [gomap_simps, simp]:
  "limit_state_of (put_limit_state key st l) k = (if k = key then st else limit_state_of l k)"
  by (simp add: limit_state_of_def put_limit_state_def)

lemma limit_state_of_drop [gomap_simps, simp]:
  "limit_state_of (drop_idle_state key l) k = limit_state_of l k"
  by (auto simp: limit_state_of_def drop_idle_state_def idle_limit_state_def)

lemma put_limit_state_fields [keeps, simp]:
  "ql_closed (put_limit_state key st l) = ql_closed l"
  "ql_next (put_limit_state key st l) = ql_next l"
  by (simp_all add: put_limit_state_def)

lemma drop_idle_state_fields [keeps, simp]:
  "ql_closed (drop_idle_state key l) = ql_closed l"
  "ql_next (drop_idle_state key l) = ql_next l"
  by (simp_all add: drop_idle_state_def)

lemma limit_state_of_cong [simp]:
  "limit_state_of (l\<lparr>ql_closed := c\<rparr>) k = limit_state_of l k"
  "limit_state_of (l\<lparr>ql_next := n\<rparr>) k = limit_state_of l k"
  by (simp_all add: limit_state_of_def)

lemma limit_state_of_lookup:
  "map_of (ql_states l) key = Some st \<Longrightarrow> limit_state_of l key = st"
  "map_of (ql_states l) key = None \<Longrightarrow> limit_state_of l key = idle_limit_state"
  by (simp_all add: limit_state_of_def mget_def)

lemma state_locked_eq:
  assumes "state_locked key l = (st, l1)"
  shows "st = limit_state_of l key" "limit_state_of l1 k = limit_state_of l k"
    "ql_closed l1 = ql_closed l" "ql_next l1 = ql_next l"
  using assms by (auto simp: state_locked_def limit_state_of_lookup split: option.splits)

section \<open>No entry for an idle key\<close>

definition no_idle_entry :: "queue_limiter \<Rightarrow> bool" where
  "no_idle_entry l \<longleftrightarrow> mwf (ql_states l) \<and>
     (\<forall>key st. map_of (ql_states l) key = Some st \<longrightarrow> ls_active st > 0)"

lemma no_idle_entry_cong [simp]:
  "no_idle_entry (l\<lparr>ql_closed := c\<rparr>) = no_idle_entry l"
  "no_idle_entry (l\<lparr>ql_next := n\<rparr>) = no_idle_entry l"
  by (simp_all add: no_idle_entry_def)

lemma no_idle_entry_put:
  "no_idle_entry l \<Longrightarrow> ls_active st > 0 \<Longrightarrow> no_idle_entry (put_limit_state key st l)"
  by (auto simp: no_idle_entry_def put_limit_state_def split: if_splits)

lemma put_over_locked:
  "put_limit_state key st (put_limit_state key st' l) = put_limit_state key st l"
  by (simp add: put_limit_state_def mput_def)

lemma no_idle_entry_put_locked:
  assumes "no_idle_entry l" "state_locked key l = (st', l1)" "ls_active st > 0"
  shows "no_idle_entry (put_limit_state key st l1)"
  using assms by (auto simp: state_locked_def put_over_locked no_idle_entry_put split: option.splits)

lemma locked_nonidle:
  assumes "state_locked key l = (st, l1)" "ls_active st > 0"
  shows "l1 = l"
  using assms by (auto simp: state_locked_def idle_limit_state_def split: option.splits)

lemma no_idle_entry_drop:
  assumes "no_idle_entry l" "0 \<le> ls_active st" "ls_active st = 0 \<Longrightarrow> ls_waiters st = []"
  shows "no_idle_entry (drop_idle_state key (put_limit_state key st l))"
  using assms by (auto simp: no_idle_entry_def drop_idle_state_def put_limit_state_def limit_state_of_def
      mget_def split: if_splits)

section \<open>What the operations do to a key\<close>

lemma acquire_beginE:
  assumes "acquire_begin key a q l = (out, l')"
  obtains (Unlimited) "a \<le> 0" "out = Unlimited (initial_stats a q)" "l' = l"
  | (Admitted) stats where "0 < a" "out = Admitted stats" "ls_active (limit_state_of l key) < a"
      "\<And>k. limit_state_of l' k = (if k = key then (limit_state_of l key)\<lparr>ls_active := ls_active (limit_state_of l key) + 1\<rparr>
         else limit_state_of l k)"
      "ql_closed l' = ql_closed l" "ql_next l' = ql_next l"
  | (Rejected) stats where "0 < a" "out = Rejected stats ErrQueueFull" "a \<le> ls_active (limit_state_of l key)"
      "int (length (ls_waiters (limit_state_of l key))) \<ge> q" "l' = l"
  | (Waiting) stats where "0 < a" "out = Waiting stats (ql_next l)" "a \<le> ls_active (limit_state_of l key)"
      "int (length (ls_waiters (limit_state_of l key))) < q"
      "\<And>k. limit_state_of l' k = (if k = key then (limit_state_of l key)\<lparr>ls_waiters := ls_waiters (limit_state_of l key) @ [ql_next l]\<rparr>
         else limit_state_of l k)"
      "ql_closed l' = ql_closed l" "ql_next l' = Suc (ql_next l)"
proof -
  obtain st l1 where s: "state_locked key l = (st, l1)" by fastforce
  note eq = state_locked_eq[OF s]
  note def = assms[unfolded acquire_begin_def Let_def s, simplified]
  consider "a \<le> 0" | "0 < a" "ls_active st < a" | "0 < a" "a \<le> ls_active st" "int (length (ls_waiters st)) \<ge> q"
    | "0 < a" "a \<le> ls_active st" "int (length (ls_waiters st)) < q" by linarith
  then show thesis
  proof cases
    case 1 with def Unlimited show ?thesis by simp
  next
    case 2 with def eq show ?thesis by (intro Admitted) auto
  next
    case 3
    with locked_nonidle[OF s] have "l1 = l" by simp
    with 3 def eq show ?thesis by (intro Rejected) auto
  next
    case 4
    with locked_nonidle[OF s] have "l1 = l" by simp
    with 4 def eq show ?thesis by (intro Waiting) auto
  qed
qed

lemma acquire_begin_no_idle:
  assumes "no_idle_entry l" "acquire_begin key a q l = (out, l')"
    and nn: "0 \<le> ls_active (limit_state_of l key)"
  shows "no_idle_entry l'"
proof -
  obtain st l1 where s: "state_locked key l = (st, l1)" by fastforce
  have st: "st = limit_state_of l key" using state_locked_eq[OF s] by simp
  note def = assms(2)[unfolded acquire_begin_def Let_def s, simplified]
  consider "a \<le> 0" | "0 < a" "ls_active st < a" | "0 < a" "a \<le> ls_active st" by linarith
  then show ?thesis
  proof cases
    case 1 with def assms(1) show ?thesis by simp
  next
    case 2
    then have "l' = put_limit_state key (st\<lparr>ls_active := ls_active st + 1\<rparr>) l1" using def by simp
    moreover have "ls_active (st\<lparr>ls_active := ls_active st + 1\<rparr>) > 0" using nn st by simp
    ultimately show ?thesis using no_idle_entry_put_locked[OF assms(1) s] by blast
  next
    case 3
    with locked_nonidle[OF s] have "l1 = l" by simp
    then have "l' = l \<or> l' = put_limit_state key (st\<lparr>ls_waiters := ls_waiters st @ [ql_next l]\<rparr>) (l\<lparr>ql_next := ql_next l + 1\<rparr>)"
      using 3 def by (auto split: if_splits)
    with 3 assms(1) show ?thesis by (auto intro!: no_idle_entry_put)
  qed
qed

lemma release_slot_state:
  "limit_state_of (release_slot key l) k = (if k \<noteq> key then limit_state_of l k else
     case ls_waiters (limit_state_of l key) of
       w # ws \<Rightarrow> (limit_state_of l key)\<lparr>ls_waiters := ws\<rparr>
     | [] \<Rightarrow> if ls_active (limit_state_of l key) > 0
            then (limit_state_of l key)\<lparr>ls_active := ls_active (limit_state_of l key) - 1\<rparr>
            else limit_state_of l key)"
  by (auto simp: release_slot_def limit_state_of_lookup idle_limit_state_def split: option.splits list.splits)

lemma release_slot_fields:
  "ql_closed (release_slot key l) =
     (case ls_waiters (limit_state_of l key) of w # ws \<Rightarrow> w # ql_closed l | [] \<Rightarrow> ql_closed l)"
  "ql_next (release_slot key l) = ql_next l"
  by (auto simp: release_slot_def limit_state_of_lookup idle_limit_state_def split: option.splits list.splits)

lemma release_slot_no_idle:
  assumes "no_idle_entry l"
  shows "no_idle_entry (release_slot key l)"
proof (cases "map_of (ql_states l) key")
  case None
  then show ?thesis using assms by (simp add: release_slot_def)
next
  case (Some st)
  then have "ls_active st > 0" using assms by (auto simp: no_idle_entry_def)
  then show ?thesis using assms Some
    by (auto simp: release_slot_def intro!: no_idle_entry_put no_idle_entry_drop split: list.splits)
qed

lemma cancel_waiter_state:
  assumes "cancel_waiter key w l = (b, l')"
  shows "b = (w \<in> set (ls_waiters (limit_state_of l key)))"
    "limit_state_of l' k = (if k = key then (limit_state_of l key)\<lparr>ls_waiters := remove1 w (ls_waiters (limit_state_of l key))\<rparr>
       else limit_state_of l k)"
    "ql_closed l' = ql_closed l" "ql_next l' = ql_next l"
    "\<not> b \<Longrightarrow> l' = l"
  using assms
  by (auto simp: cancel_waiter_def limit_state_of_lookup idle_limit_state_def remove1_idem
      split: option.splits if_splits)

lemma cancel_waiter_no_idle:
  assumes "no_idle_entry l" "cancel_waiter key w l = (b, l')"
  shows "no_idle_entry l'"
proof (cases "map_of (ql_states l) key")
  case None
  then show ?thesis using assms by (simp add: cancel_waiter_def)
next
  case (Some st)
  then have "ls_active st > 0" using assms by (auto simp: no_idle_entry_def)
  then show ?thesis using assms Some
    by (auto simp: cancel_waiter_def intro!: no_idle_entry_drop split: if_splits)
qed

section \<open>The invariant\<close>

definition parked :: "limiter_sys \<Rightarrow> string \<Rightarrow> (string \<times> nat) list" where
  "parked s key = filter (\<lambda>(k, w). k = key \<and> w \<notin> set (ql_closed (sy_limiter s))) (sy_waiting s)"

definition woken :: "limiter_sys \<Rightarrow> string \<Rightarrow> (string \<times> nat) list" where
  "woken s key = filter (\<lambda>(k, w). k = key \<and> w \<in> set (ql_closed (sy_limiter s))) (sy_waiting s)"

definition slots_taken :: "limiter_sys \<Rightarrow> string \<Rightarrow> nat" where
  "slots_taken s key = count_list (sy_held s) key + length (woken s key)"

definition limiter_inv :: "limiter_sys \<Rightarrow> bool" where
  "limiter_inv s \<longleftrightarrow>
     no_idle_entry (sy_limiter s) \<and>
     (\<forall>key. ls_active (limit_state_of (sy_limiter s) key) = int (slots_taken s key)) \<and>
     (\<forall>key. ls_waiters (limit_state_of (sy_limiter s) key) = map snd (parked s key)) \<and>
     distinct (map snd (sy_waiting s)) \<and>
     (\<forall>w \<in> snd ` set (sy_waiting s) \<union> set (ql_closed (sy_limiter s)). w < ql_next (sy_limiter s))"

lemma limiter_invD:
  assumes "limiter_inv s"
  shows "no_idle_entry (sy_limiter s)"
    "ls_active (limit_state_of (sy_limiter s) key) = int (slots_taken s key)"
    "ls_waiters (limit_state_of (sy_limiter s) key) = map snd (parked s key)"
    "distinct (map snd (sy_waiting s))"
    "w \<in> snd ` set (sy_waiting s) \<Longrightarrow> w < ql_next (sy_limiter s)"
    "w \<in> set (ql_closed (sy_limiter s)) \<Longrightarrow> w < ql_next (sy_limiter s)"
  using assms unfolding limiter_inv_def by blast+

lemma limiter_invI:
  assumes "no_idle_entry (sy_limiter s)"
    "\<And>key. ls_active (limit_state_of (sy_limiter s) key) = int (slots_taken s key)"
    "\<And>key. ls_waiters (limit_state_of (sy_limiter s) key) = map snd (parked s key)"
    "distinct (map snd (sy_waiting s))"
    "\<And>w. w \<in> snd ` set (sy_waiting s) \<Longrightarrow> w < ql_next (sy_limiter s)"
    "\<And>w. w \<in> set (ql_closed (sy_limiter s)) \<Longrightarrow> w < ql_next (sy_limiter s)"
  shows "limiter_inv s"
  using assms unfolding limiter_inv_def by blast

lemma limiter_inv_start: "limiter_inv limiter_start"
  by (simp add: limiter_inv_def limiter_start_def new_queue_limiter_def no_idle_entry_def
      limit_state_of_def idle_limit_state_def slots_taken_def woken_def parked_def)

text \<open>A caller leaves the queue of waiting callers.\<close>

lemma map_snd_remove1:
  assumes "distinct (map snd xs)" "(k, w) \<in> set xs"
  shows "map snd (remove1 (k, w) xs) = remove1 w (map snd xs)"
  using assms by (induction xs) force+

lemma distinct_snd_eq:
  "distinct (map snd xs) \<Longrightarrow> (k, w) \<in> set xs \<Longrightarrow> (k', w) \<in> set xs \<Longrightarrow> k = k'"
  by (induction xs) (auto simp: image_iff)

lemma waiting_remove1:
  assumes "limiter_inv s"
  shows "distinct (map snd (remove1 x (sy_waiting s)))"
    "w \<in> snd ` set (remove1 x (sy_waiting s)) \<Longrightarrow> w < ql_next (sy_limiter s)"
proof -
  show "distinct (map snd (remove1 x (sy_waiting s)))"
    by (rule distinct_map_remove1) (rule limiter_invD(4)[OF assms])
  assume "w \<in> snd ` set (remove1 x (sy_waiting s))"
  then have "w \<in> snd ` set (sy_waiting s)" by (meson image_mono set_remove1_subset subsetD)
  then show "w < ql_next (sy_limiter s)" by (rule limiter_invD(5)[OF assms])
qed

lemma leave_waiting:
  "parked (s\<lparr>sy_held := h, sy_waiting := remove1 x (sy_waiting s)\<rparr>) k = remove1 x (parked s k)"
  "woken (s\<lparr>sy_held := h, sy_waiting := remove1 x (sy_waiting s)\<rparr>) k = remove1 x (woken s k)"
  by (simp_all add: parked_def woken_def filter_remove1)

lemma parked_iff:
  assumes "limiter_inv s" "(key, w) \<in> set (sy_waiting s)"
  shows "w \<in> set (ls_waiters (limit_state_of (sy_limiter s) key)) \<longleftrightarrow> w \<notin> set (ql_closed (sy_limiter s))"
  using assms(2) by (force simp: limiter_invD(3)[OF assms(1)] parked_def)

section \<open>Every step keeps it\<close>

lemma admit_inv:
  assumes inv: "limiter_inv s" and a: "acquire_begin key a q (sy_limiter s) = (Admitted stats, l)"
  shows "limiter_inv (s\<lparr>sy_limiter := l, sy_held := key # sy_held s\<rparr>)"
proof -
  note d = limiter_invD[OF inv]
  have nn: "0 \<le> ls_active (limit_state_of (sy_limiter s) key)" by (simp add: d(2))
  note ni = acquire_begin_no_idle[OF d(1) a nn]
  from a show ?thesis
  proof (cases rule: acquire_beginE)
    case (Admitted)
    show ?thesis using d ni Admitted
      by (intro limiter_invI) (auto simp: slots_taken_def woken_def parked_def)
  qed auto
qed

lemma wait_inv:
  assumes inv: "limiter_inv s" and a: "acquire_begin key a q (sy_limiter s) = (Waiting stats w, l)"
  shows "limiter_inv (s\<lparr>sy_limiter := l, sy_waiting := sy_waiting s @ [(key, w)]\<rparr>)"
proof -
  note d = limiter_invD[OF inv]
  have nn: "0 \<le> ls_active (limit_state_of (sy_limiter s) key)" by (simp add: d(2))
  note ni = acquire_begin_no_idle[OF d(1) a nn]
  from a show ?thesis
  proof (cases rule: acquire_beginE)
    case (Waiting)
    then have w: "w = ql_next (sy_limiter s)" by simp
    have new: "w \<notin> set (ql_closed (sy_limiter s))" "w \<notin> snd ` set (sy_waiting s)"
      using d(5)[of w] d(6)[of w] w by auto
    let ?s' = "s\<lparr>sy_limiter := l, sy_waiting := sy_waiting s @ [(key, w)]\<rparr>"
    have pk: "parked ?s' k = parked s k @ (if k = key then [(key, w)] else [])"
      and wk: "woken ?s' k = woken s k" for k
      using Waiting(6) new(1) by (simp_all add: parked_def woken_def)
    show ?thesis
    proof (rule limiter_invI)
      show "ls_active (limit_state_of (sy_limiter ?s') k) = int (slots_taken ?s' k)" for k
        using wk by (simp add: Waiting(5) d(2) slots_taken_def)
      show "ls_waiters (limit_state_of (sy_limiter ?s') k) = map snd (parked ?s' k)" for k
        unfolding pk by (simp add: Waiting(5) d(3) w)
      show "distinct (map snd (sy_waiting ?s'))" using d(4) new(2) by simp
      show "v \<in> snd ` set (sy_waiting ?s') \<Longrightarrow> v < ql_next (sy_limiter ?s')" for v
        using d(5)[of v] w by (cases "v = w") (auto simp: Waiting(7) less_Suc_eq)
      show "v \<in> set (ql_closed (sy_limiter ?s')) \<Longrightarrow> v < ql_next (sy_limiter ?s')" for v
        using d(6)[of v] by (simp add: Waiting(6,7))
    qed (simp add: ni)
  qed auto
qed

lemma ready_inv:
  assumes inv: "limiter_inv s" and w: "(key, w) \<in> set (sy_waiting s)" "w \<in> set (ql_closed (sy_limiter s))"
  shows "limiter_inv (s\<lparr>sy_held := key # sy_held s, sy_waiting := remove1 (key, w) (sy_waiting s)\<rparr>)"
proof -
  note d = limiter_invD[OF inv]
  have wk: "(key, w) \<in> set (woken s key)" using w by (simp add: woken_def)
  have out: "k \<noteq> key \<Longrightarrow> remove1 (key, w) (woken s k) = woken s k"
    "remove1 (key, w) (parked s k) = parked s k" for k
    using w by (auto simp: woken_def parked_def intro!: remove1_idem)
  have st: "slots_taken (s\<lparr>sy_held := key # sy_held s, sy_waiting := remove1 (key, w) (sy_waiting s)\<rparr>) k
      = slots_taken s k" for k
    using length_remove1_in[OF wk] out(1)[of k] by (cases "k = key") (simp_all add: slots_taken_def leave_waiting)
  show ?thesis
    by (rule limiter_invI) (use d waiting_remove1[OF inv] in \<open>simp_all add: st leave_waiting out\<close>)
qed

lemma woken_parked_total:
  "length (woken s k) + length (parked s k) = length (filter (\<lambda>(k', w). k' = k) (sy_waiting s))"
proof -
  have "length (filter (\<lambda>(k', w). k' = k \<and> P w) xs) + length (filter (\<lambda>(k', w). k' = k \<and> \<not> P w) xs)
      = length (filter (\<lambda>(k', w). k' = k) xs)" for P and xs :: "(string \<times> nat) list"
    by (induction xs) auto
  then show ?thesis unfolding woken_def parked_def .
qed

lemma parked_after_close:
  assumes inv: "limiter_inv s" and w: "(key, w) \<in> set (sy_waiting s)"
    and p: "parked s key = (key, w) # ps" and s': "sy_waiting s' = sy_waiting s"
    and cl: "ql_closed (sy_limiter s') = w # ql_closed (sy_limiter s)"
  shows "parked s' k = (if k = key then ps else parked s k)"
proof -
  have eq: "parked s' k = filter (\<lambda>(k', v). v \<noteq> w) (parked s k)"
    by (auto simp: parked_def cl s' intro!: filter_cong)
  show ?thesis
  proof (cases "k = key")
    case True
    have "distinct (map snd (parked s key))"
      using limiter_invD(4)[OF inv] by (simp add: parked_def distinct_map_filter)
    then have "w \<notin> snd ` set ps" using p by simp
    then have "filter (\<lambda>(k', v). v \<noteq> w) ps = ps" by (force intro!: filter_True)
    then show ?thesis using True p eq by simp
  next
    case False
    have "v \<noteq> w" if "(k', v) \<in> set (parked s k)" for k' v
      using that False w distinct_snd_eq[OF limiter_invD(4)[OF inv]] by (fastforce simp: parked_def)
    then have "filter (\<lambda>(k', v). v \<noteq> w) (parked s k) = parked s k" by (auto intro!: filter_True)
    then show ?thesis using False eq by simp
  qed
qed

lemma release_inv:
  assumes inv: "limiter_inv s" and h: "key \<in> set (sy_held s)"
  shows "limiter_inv (s\<lparr>sy_limiter := release_slot key (sy_limiter s), sy_held := remove1 key (sy_held s)\<rparr>)"
    (is "limiter_inv ?s'")
proof -
  note d = limiter_invD[OF inv]
  note ni = release_slot_no_idle[OF d(1), of key]
  have c: "0 < count_list (sy_held s) key"
    using h count_list_0_iff[of "sy_held s" key] by simp
  show ?thesis
  proof (cases "parked s key")
    case Nil
    then have "ls_waiters (limit_state_of (sy_limiter s) key) = []" by (simp add: d(3))
    moreover have "ls_active (limit_state_of (sy_limiter s) key) > 0" using c by (simp add: d(2) slots_taken_def)
    ultimately show ?thesis using d ni c
      by (intro limiter_invI) (auto simp: release_slot_state release_slot_fields slots_taken_def woken_def parked_def count_list_remove1)
  next
    case (Cons x ps)
    then have "x \<in> set (parked s key)" by simp
    then obtain w where x: "x = (key, w)" "(key, w) \<in> set (sy_waiting s)" "w \<notin> set (ql_closed (sy_limiter s))"
      by (auto simp: parked_def)
    have ws: "ls_waiters (limit_state_of (sy_limiter s) key) = w # map snd ps" using Cons x by (simp add: d(3))
    have cl: "ql_closed (sy_limiter ?s') = w # ql_closed (sy_limiter s)" by (simp add: release_slot_fields ws)
    have pk: "parked ?s' k = (if k = key then ps else parked s k)" for k
      by (rule parked_after_close[OF inv x(2) _ _ cl]) (use Cons x in simp_all)
    have wk: "length (woken ?s' k) = (if k = key then Suc (length (woken s k)) else length (woken s k))" for k
      using woken_parked_total[of ?s' k] woken_parked_total[of s k] pk[of k] Cons by (auto split: if_splits)
    show ?thesis
    proof (rule limiter_invI)
      show "ls_active (limit_state_of (sy_limiter ?s') k) = int (slots_taken ?s' k)" for k
        using wk[of k] c h d(2)[of k] ws
        by (cases "k = key") (simp_all add: release_slot_state slots_taken_def count_list_remove1)
      show "ls_waiters (limit_state_of (sy_limiter ?s') k) = map snd (parked ?s' k)" for k
        unfolding pk using ws d(3)[of k] by (simp add: release_slot_state)
      show "v \<in> snd ` set (sy_waiting ?s') \<Longrightarrow> v < ql_next (sy_limiter ?s')" for v
        using d(5)[of v] by (simp add: release_slot_fields(2))
      show "v \<in> set (ql_closed (sy_limiter ?s')) \<Longrightarrow> v < ql_next (sy_limiter ?s')" for v
        using d(6)[of v] d(5)[of w] x(2) unfolding cl by (force simp: release_slot_fields(2))
    qed (use d(4) ni in simp_all)
  qed
qed

lemma timeout_inv:
  assumes inv: "limiter_inv s" and w: "(key, w) \<in> set (sy_waiting s)"
    and c: "cancel_waiter key w (sy_limiter s) = (True, l)"
  shows "limiter_inv (s\<lparr>sy_limiter := l, sy_waiting := remove1 (key, w) (sy_waiting s)\<rparr>)"
    (is "limiter_inv ?s'")
proof -
  note d = limiter_invD[OF inv]
  note cs = cancel_waiter_state[OF c]
  have open': "w \<notin> set (ql_closed (sy_limiter s))" using cs(1) parked_iff[OF inv w] by simp
  have pk: "parked ?s' k = remove1 (key, w) (parked s k)" "woken ?s' k = remove1 (key, w) (woken s k)" for k
    using cs(3) by (simp_all add: parked_def woken_def filter_remove1)
  have wk: "remove1 (key, w) (woken s k) = woken s k" for k
    using open' by (auto simp: woken_def intro!: remove1_idem)
  have other: "k \<noteq> key \<Longrightarrow> remove1 (key, w) (parked s k) = parked s k" for k
    by (auto simp: parked_def intro!: remove1_idem)
  have same: "map snd (remove1 (key, w) (parked s key)) = remove1 w (map snd (parked s key))"
    using w open' d(4) by (intro map_snd_remove1) (auto simp: parked_def distinct_map_filter)
  show ?thesis
  proof (rule limiter_invI)
    show "ls_active (limit_state_of (sy_limiter ?s') k) = int (slots_taken ?s' k)" for k
      using d(2)[of k] by (cases "k = key") (simp_all add: cs(2) slots_taken_def pk wk)
    show "ls_waiters (limit_state_of (sy_limiter ?s') k) = map snd (parked ?s' k)" for k
      unfolding pk(1) using same other[of k] by (cases "k = key") (simp_all add: cs(2) d(3))
    show "v \<in> snd ` set (sy_waiting ?s') \<Longrightarrow> v < ql_next (sy_limiter ?s')" for v
      using waiting_remove1(2)[OF inv] by (simp add: cs(4))
    show "v \<in> set (ql_closed (sy_limiter ?s')) \<Longrightarrow> v < ql_next (sy_limiter ?s')" for v
      using d(6)[of v] by (simp add: cs(3,4))
    show "distinct (map snd (sy_waiting ?s'))" using waiting_remove1(1)[OF inv] by simp
    show "no_idle_entry (sy_limiter ?s')" using cancel_waiter_no_idle[OF d(1) c] by simp
  qed
qed

lemma acquire_doneE:
  assumes "acquire_done key w stats start now l = (out, l')"
  obtains (Cancelled) e where "cancel_waiter key w l = (True, l')" "out = Some (Inl (ErrQueueTimeout, e))"
  | (Ready) stats' where "cancel_waiter key w l = (False, l')" "l' = l" "w \<in> set (ql_closed l)" "out = Some (Inr stats')"
  | (Stuck) "cancel_waiter key w l = (False, l')" "l' = l" "w \<notin> set (ql_closed l)" "out = None"
  using assms cancel_waiter_state(5)[of key w l "fst (cancel_waiter key w l)" "snd (cancel_waiter key w l)"]
  by (auto simp: acquire_done_def Let_def split: prod.splits if_splits)

lemma limiter_step_inv:
  assumes "limiter_step limits s s'" "limiter_inv s"
  shows "limiter_inv s'"
  using assms
proof (induction rule: limiter_step.induct)
  case (step_admit key a q s stats l) then show ?case by (rule_tac admit_inv)
next
  case (step_wait key a q s stats w l) then show ?case by (rule_tac wait_inv)
next
  case (step_refuse key a q s stats e l)
  then have "l = sy_limiter s" by (auto elim: acquire_beginE)
  with step_refuse show ?case by simp
next
  case (step_unlimited key a q s stats l)
  then have "l = sy_limiter s" by (auto elim: acquire_beginE)
  with step_unlimited show ?case by simp
next
  case (step_ready key w s) then show ?case by (rule_tac ready_inv)
next
  case (step_timeout key w s stats start now e l)
  then show ?case by (auto elim!: acquire_doneE intro: timeout_inv)
next
  case (step_late_ready key w s stats start now stats' l)
  then have "l = sy_limiter s" "w \<in> set (ql_closed (sy_limiter s))" by (auto elim!: acquire_doneE)
  with step_late_ready show ?case using ready_inv[of s key w] by simp
next
  case (step_release key s) then show ?case by (rule_tac release_inv)
qed

lemma limiter_reachable_inv:
  "(limiter_step limits)\<^sup>*\<^sup>* limiter_start s \<Longrightarrow> limiter_inv s"
  by (induction rule: rtranclp_induct) (auto simp: limiter_inv_start intro: limiter_step_inv)

section \<open>Fixed limits\<close>

definition fixed_limits :: "(string \<Rightarrow> int) \<Rightarrow> (string \<Rightarrow> int) \<Rightarrow> string \<Rightarrow> int \<Rightarrow> int \<Rightarrow> bool" where
  "fixed_limits A Q key a q \<longleftrightarrow> a = A key \<and> q = Q key"

definition within_state :: "int \<Rightarrow> int \<Rightarrow> queue_limit_state \<Rightarrow> bool" where
  "within_state a q st \<longleftrightarrow> ls_active st \<le> max 0 a \<and> int (length (ls_waiters st)) \<le> max 0 q \<and>
     (ls_waiters st \<noteq> [] \<longrightarrow> ls_active st = a)"

definition within_limits :: "(string \<Rightarrow> int) \<Rightarrow> (string \<Rightarrow> int) \<Rightarrow> queue_limiter \<Rightarrow> bool" where
  "within_limits A Q l \<longleftrightarrow> (\<forall>key. within_state (A key) (Q key) (limit_state_of l key))"

lemma within_limits_upd:
  assumes "within_limits A Q l" "within_state (A key) (Q key) st"
    "\<And>k. limit_state_of l' k = (if k = key then st else limit_state_of l k)"
  shows "within_limits A Q l'"
  using assms by (simp add: within_limits_def)

lemma within_limits_acquire:
  assumes "within_limits A Q l" "acquire_begin key (A key) (Q key) l = (out, l')"
  shows "within_limits A Q l'"
proof -
  have st: "within_state (A key) (Q key) (limit_state_of l key)" using assms(1) by (simp add: within_limits_def)
  from assms(2) show ?thesis
  proof (cases rule: acquire_beginE)
    case Admitted
    from st Admitted(1,3) show ?thesis
      by (intro within_limits_upd[OF assms(1) _ Admitted(4)]) (auto simp: within_state_def)
  next
    case Waiting
    from st Waiting(1,3,4) show ?thesis
      by (intro within_limits_upd[OF assms(1) _ Waiting(5)]) (auto simp: within_state_def)
  qed (use assms(1) in simp_all)
qed

lemma within_limits_release:
  assumes "within_limits A Q l"
  shows "within_limits A Q (release_slot key l)"
proof -
  have st: "within_state (A key) (Q key) (limit_state_of l key)" using assms(1) by (simp add: within_limits_def)
  show ?thesis
  proof (rule within_limits_upd[OF assms])
    show "limit_state_of (release_slot key l) k =
        (if k = key then limit_state_of (release_slot key l) key else limit_state_of l k)" for k
      by (simp add: release_slot_state)
    show "within_state (A key) (Q key) (limit_state_of (release_slot key l) key)"
      using st by (auto simp: release_slot_state within_state_def split: list.splits)
  qed
qed

lemma within_limits_cancel:
  assumes "within_limits A Q l" "cancel_waiter key w l = (b, l')"
  shows "within_limits A Q l'"
proof -
  have st: "within_state (A key) (Q key) (limit_state_of l key)" using assms(1) by (simp add: within_limits_def)
  let ?ws = "ls_waiters (limit_state_of l key)"
  have "int (length (remove1 w ?ws)) \<le> int (length ?ws)" "remove1 w ?ws \<noteq> [] \<longrightarrow> ?ws \<noteq> []"
    by (auto simp: length_remove1)
  then have "within_state (A key) (Q key) ((limit_state_of l key)\<lparr>ls_waiters := remove1 w ?ws\<rparr>)"
    using st unfolding within_state_def by simp
  then show ?thesis by (rule within_limits_upd[OF assms(1) _ cancel_waiter_state(2)[OF assms(2)]])
qed

lemma limiter_step_limits:
  assumes "limiter_step (fixed_limits A Q) s s'" "within_limits A Q (sy_limiter s)"
  shows "within_limits A Q (sy_limiter s')"
  using assms
  by (induction rule: limiter_step.induct)
    (auto simp: fixed_limits_def within_limits_release elim!: acquire_doneE
      intro: within_limits_acquire within_limits_cancel)

lemma limiter_reachable_limits:
  "(limiter_step (fixed_limits A Q))\<^sup>*\<^sup>* limiter_start s \<Longrightarrow> within_limits A Q (sy_limiter s)"
proof (induction rule: rtranclp_induct)
  case base
  show ?case by (simp add: within_limits_def within_state_def limiter_start_def new_queue_limiter_def limit_state_of_def idle_limit_state_def)
qed (rule limiter_step_limits)

section \<open>Properties\<close>

lemma queue_active_eq: "queue_active l key = ls_active (limit_state_of l key)"
  by (simp add: queue_active_def limit_state_of_def idle_limit_state_def mget_def split: option.splits)

lemma queue_queued_eq: "queue_queued l key = int (length (ls_waiters (limit_state_of l key)))"
  by (simp add: queue_queued_def limit_state_of_def idle_limit_state_def mget_def split: option.splits)

text \<open>
  In every run of the callers, whatever limits the single calls use, the active count of a key is
  the number of callers that hold a place: those whose release closure has not run and those whose
  channel was closed and who have not returned yet. The queue of the key is the callers parked under
  it, oldest first, and a key has no entry in the map when nobody holds a place under it.
\<close>

theorem limiter_accounting:
  assumes "(limiter_step limits)\<^sup>*\<^sup>* limiter_start s"
  shows "queue_active (sy_limiter s) key = int (count_list (sy_held s) key) + int (length (woken s key)) \<and>
    ls_waiters (limit_state_of (sy_limiter s) key) = map snd (parked s key) \<and>
    (mhas (ql_states (sy_limiter s)) key \<longleftrightarrow> 0 < queue_active (sy_limiter s) key)"
proof -
  note inv = limiter_reachable_inv[OF assms]
  have "mhas (ql_states (sy_limiter s)) key \<longleftrightarrow> 0 < queue_active (sy_limiter s) key"
    using limiter_invD(1)[OF inv] by (auto simp: no_idle_entry_def mhas_def queue_active_def split: option.splits)
  then show ?thesis using limiter_invD(2,3)[OF inv, of key] by (simp add: queue_active_eq slots_taken_def)
qed

text \<open>
  C17. With fixed limits per key, at most \<open>maxActive\<close> callers hold a place and at most \<open>maxQueue\<close> are
  queued, and while somebody is queued a new caller is never admitted past the queue.
\<close>

theorem limiter_bounds:
  assumes "(limiter_step (fixed_limits A Q))\<^sup>*\<^sup>* limiter_start s" "0 < A key"
  shows "int (count_list (sy_held s) key) + int (length (woken s key)) \<le> A key \<and>
    queue_queued (sy_limiter s) key \<le> max 0 (Q key) \<and>
    (parked s key \<noteq> [] \<longrightarrow>
      (\<forall>stats l. acquire_begin key (A key) (Q key) (sy_limiter s) \<noteq> (Admitted stats, l)))"
proof -
  note inv = limiter_reachable_inv[OF assms(1)]
  note lim = limiter_reachable_limits[OF assms(1), unfolded within_limits_def within_state_def, rule_format, of key]
  have "acquire_begin key (A key) (Q key) (sy_limiter s) \<noteq> (Admitted stats, l)" if "parked s key \<noteq> []" for stats l
  proof
    assume "acquire_begin key (A key) (Q key) (sy_limiter s) = (Admitted stats, l)"
    then show False
      by (cases rule: acquire_beginE) (use that lim limiter_invD(3)[OF inv, of key] in auto)
  qed
  then show ?thesis using lim limiter_invD(2)[OF inv, of key] assms(2)
    by (simp add: queue_queued_eq slots_taken_def)
qed

text \<open>
  Nobody waits for ever: a caller whose context ends gets an answer at once, the timeout error
  when it is still queued and its place when the place was handed to it meanwhile; and as long as
  somebody is queued under a key somebody holds a place under it, whose release hands that place to
  the caller that has been queued longest, leaving the active count as it is.
\<close>

theorem limiter_progress:
  assumes "(limiter_step limits)\<^sup>*\<^sup>* limiter_start s" "(key, w) \<in> set (sy_waiting s)"
  shows "(case fst (acquire_done key w stats start now (sy_limiter s)) of
            None \<Rightarrow> False
          | Some (Inl (e, _)) \<Rightarrow> e = ErrQueueTimeout \<and> (key, w) \<in> set (parked s key)
          | Some (Inr _) \<Rightarrow> (key, w) \<in> set (woken s key)) \<and>
    (\<forall>v ps. parked s key = (key, v) # ps \<longrightarrow>
      0 < slots_taken s key \<and>
      ql_closed (release_slot key (sy_limiter s)) = v # ql_closed (sy_limiter s) \<and>
      queue_active (release_slot key (sy_limiter s)) key = queue_active (sy_limiter s) key \<and>
      ls_waiters (limit_state_of (release_slot key (sy_limiter s)) key) = map snd ps)"
proof (intro conjI allI impI)
  note inv = limiter_reachable_inv[OF assms(1)]
  note d = limiter_invD[OF inv]
  obtain out l where a: "acquire_done key w stats start now (sy_limiter s) = (out, l)" by fastforce
  from a show "case fst (acquire_done key w stats start now (sy_limiter s)) of
      None \<Rightarrow> False | Some (Inl (e, _)) \<Rightarrow> e = ErrQueueTimeout \<and> (key, w) \<in> set (parked s key)
    | Some (Inr _) \<Rightarrow> (key, w) \<in> set (woken s key)"
  proof (cases rule: acquire_doneE)
    case Cancelled
    with cancel_waiter_state(1) parked_iff[OF inv assms(2)] have "w \<notin> set (ql_closed (sy_limiter s))" by metis
    with Cancelled a assms(2) show ?thesis by (simp add: parked_def)
  next
    case Ready
    with a assms(2) show ?thesis by (simp add: woken_def)
  next
    case Stuck
    with cancel_waiter_state(1) parked_iff[OF inv assms(2)] show ?thesis by metis
  qed
  fix v ps
  assume p: "parked s key = (key, v) # ps"
  have ws: "ls_waiters (limit_state_of (sy_limiter s) key) = v # map snd ps" by (simp add: d(3) p)
  then have "limit_state_of (sy_limiter s) key \<noteq> idle_limit_state" by (auto simp: idle_limit_state_def)
  then have "0 < ls_active (limit_state_of (sy_limiter s) key)"
    using d(1) limit_state_of_lookup[of "sy_limiter s" key]
    by (cases "map_of (ql_states (sy_limiter s)) key") (auto simp: no_idle_entry_def)
  then show "0 < slots_taken s key" by (simp add: d(2))
  show "ql_closed (release_slot key (sy_limiter s)) = v # ql_closed (sy_limiter s)"
    "queue_active (release_slot key (sy_limiter s)) key = queue_active (sy_limiter s) key"
    "ls_waiters (limit_state_of (release_slot key (sy_limiter s)) key) = map snd ps"
    by (simp_all add: ws release_slot_fields queue_active_eq release_slot_state)
qed

section \<open>A run with one holder and one caller in the queue\<close>

definition one_slot :: "string \<Rightarrow> int \<Rightarrow> int \<Rightarrow> bool" where
  "one_slot = fixed_limits (\<lambda>_. 1) (\<lambda>_. 1)"

definition example_held :: limiter_sys where
  "example_held = \<lparr>sy_limiter = snd (acquire_begin ''m'' 1 1 new_queue_limiter),
     sy_held = [''m''], sy_waiting = []\<rparr>"

definition example_queued :: limiter_sys where
  "example_queued = \<lparr>sy_limiter = snd (acquire_begin ''m'' 1 1 (sy_limiter example_held)),
     sy_held = [''m''], sy_waiting = [(''m'', 0)]\<rparr>"

lemmas example_run_defs = example_queued_def example_held_def acquire_begin_def state_locked_def
  put_limit_state_def new_queue_limiter_def initial_stats_def idle_limit_state_def mput_def

lemma example_queued_reachable: "(limiter_step one_slot)\<^sup>*\<^sup>* limiter_start example_queued"
proof -
  obtain stats where "acquire_begin ''m'' 1 1 new_queue_limiter = (Admitted stats, sy_limiter example_held)"
    by (simp add: example_run_defs)
  then have "limiter_step one_slot limiter_start example_held"
    using step_admit[of one_slot "''m''" 1 1 limiter_start]
    by (simp add: one_slot_def fixed_limits_def limiter_start_def example_held_def)
  moreover obtain stats where
    "acquire_begin ''m'' 1 1 (sy_limiter example_held) = (Waiting stats 0, sy_limiter example_queued)"
    by (simp add: example_run_defs)
  then have "limiter_step one_slot example_held example_queued"
    using step_wait[of one_slot "''m''" 1 1 example_held]
    by (simp add: one_slot_def fixed_limits_def example_queued_def) (simp add: example_held_def)
  ultimately show ?thesis by (meson r_into_rtranclp rtranclp_trans)
qed

theorem limiter_accounting_witness:
  "queue_active (sy_limiter example_queued) ''m'' = 1 \<and> mhas (ql_states (sy_limiter example_queued)) ''m''"
  using limiter_accounting[OF example_queued_reachable, of "''m''"]
  by (simp add: woken_def) (simp add: example_run_defs)

theorem limiter_bounds_witness:
  "\<forall>stats l. acquire_begin ''m'' 1 1 (sy_limiter example_queued) \<noteq> (Admitted stats, l)"
proof -
  have "parked example_queued ''m'' \<noteq> []" by (simp add: parked_def) (simp add: example_run_defs)
  then show ?thesis using limiter_bounds[OF example_queued_reachable[unfolded one_slot_def], of "''m''"] by simp
qed

theorem limiter_progress_witness:
  "ql_closed (release_slot ''m'' (sy_limiter example_queued)) = [0]"
proof -
  have w: "(''m'', 0) \<in> set (sy_waiting example_queued)" by (simp add: example_queued_def)
  have p: "parked example_queued ''m'' = [(''m'', 0)]" "ql_closed (sy_limiter example_queued) = []"
    by (simp_all add: parked_def example_run_defs)
  from limiter_progress[OF example_queued_reachable w] p show ?thesis by simp
qed

end
