(* ===== verification/Cooldowns.thy ===== *)
theory Cooldowns
  imports GoStd
begin

text \<open>
  Replica cooldowns (internal/gateway/replica_cooldown.go): a replica that failed is kept out of the
  choice of replicas for a while. The tracker keeps one entry per worker and model; the scheduler
  reads a snapshot of it, a map of maps taken at one time and read at a later one. Both answer the
  same question; what an answer promises is the locale \<open>cooldown_view\<close>, interpreted on both.
  The methods replace a zero \<open>now\<close> by the clock, the argument \<open>clock\<close> here. The receiver is not nil.
\<close>

section \<open>The tracker\<close>

record replica_cooldown =
  rc_worker_id :: string
  rc_model :: string
  rc_reason :: string
  rc_first_failure :: time
  rc_last_failure :: time
  rc_failure_count :: int
  rc_cooldown_until :: time
  rc_remaining_seconds :: int

definition zero_cooldown :: replica_cooldown where
  "zero_cooldown = \<lparr>rc_worker_id = [], rc_model = [], rc_reason = [], rc_first_failure = 0,
     rc_last_failure = 0, rc_failure_count = 0, rc_cooldown_until = 0, rc_remaining_seconds = 0\<rparr>"

record replica_cooldowns =
  cds_ttl :: duration
  cds_entries :: "(string \<times> string, replica_cooldown) gomap"

definition default_replica_cooldown_ttl :: duration where
  "default_replica_cooldown_ttl = 30 * second"

definition new_replica_cooldowns :: "duration \<Rightarrow> replica_cooldowns" where
  "new_replica_cooldowns ttl =
     \<lparr>cds_ttl = (if ttl \<le> 0 then default_replica_cooldown_ttl else ttl), cds_entries = []\<rparr>"

definition now_or_clock :: "time \<Rightarrow> time \<Rightarrow> time" where
  "now_or_clock clock now = (if now = 0 then clock else now)"

definition mark_cooldown ::
  "string \<Rightarrow> string \<Rightarrow> string \<Rightarrow> time \<Rightarrow> time \<Rightarrow> replica_cooldowns \<Rightarrow>
   replica_cooldown option \<times> replica_cooldowns" where
  "mark_cooldown wid m reason clock now0 c =
     (if wid = [] \<or> m = [] then (None, c)
      else
        let now = now_or_clock clock now0;
            entry = mget zero_cooldown (cds_entries c) (wid, m);
            entry = (if rc_first_failure entry = 0 then entry\<lparr>rc_first_failure := now\<rparr> else entry);
            entry = entry\<lparr>rc_worker_id := wid, rc_model := m, rc_reason := reason, rc_last_failure := now,
              rc_failure_count := rc_failure_count entry + 1, rc_cooldown_until := now + cds_ttl c,
              rc_remaining_seconds := cds_ttl c div second\<rparr>
        in (Some entry, c\<lparr>cds_entries := mput (wid, m) entry (cds_entries c)\<rparr>))"

definition prune_cooldowns :: "time \<Rightarrow> replica_cooldowns \<Rightarrow> replica_cooldowns" where
  "prune_cooldowns now c =
     c\<lparr>cds_entries := filter (\<lambda>(key, entry). now < rc_cooldown_until entry) (cds_entries c)\<rparr>"

definition remaining_seconds :: "time \<Rightarrow> time \<Rightarrow> int" where
  "remaining_seconds until now =
     (if until \<le> now then 0
      else let remaining = time_sub until now; seconds = remaining div second
           in if remaining mod second \<noteq> 0 then seconds + 1 else seconds)"

definition clear_cooldown ::
  "string \<Rightarrow> string \<Rightarrow> time \<Rightarrow> time \<Rightarrow> replica_cooldowns \<Rightarrow> replica_cooldown option \<times> replica_cooldowns" where
  "clear_cooldown wid m clock now0 c =
     (if wid = [] \<or> m = [] then (None, c)
      else
        let c' = prune_cooldowns (now_or_clock clock now0) c
        in case map_of (cds_entries c') (wid, m) of
             None \<Rightarrow> (None, c')
           | Some entry \<Rightarrow> (Some (entry\<lparr>rc_remaining_seconds := 0\<rparr>),
               c'\<lparr>cds_entries := mdel (wid, m) (cds_entries c')\<rparr>))"

definition get_cooldown ::
  "string \<Rightarrow> string \<Rightarrow> time \<Rightarrow> time \<Rightarrow> replica_cooldowns \<Rightarrow> replica_cooldown option \<times> replica_cooldowns" where
  "get_cooldown wid m clock now0 c =
     (if wid = [] \<or> m = [] then (None, c)
      else
        let now = now_or_clock clock now0; c' = prune_cooldowns now c
        in case map_of (cds_entries c') (wid, m) of
             None \<Rightarrow> (None, c')
           | Some entry \<Rightarrow>
               (Some (entry\<lparr>rc_remaining_seconds := remaining_seconds (rc_cooldown_until entry) now\<rparr>), c'))"

definition cooldown_active ::
  "string \<Rightarrow> string \<Rightarrow> time \<Rightarrow> time \<Rightarrow> replica_cooldowns \<Rightarrow> bool \<times> replica_cooldowns" where
  "cooldown_active wid m clock now c =
     (let (entry, c') = get_cooldown wid m clock now c in (entry \<noteq> None, c'))"

section \<open>Snapshots\<close>

type_synonym cooldown_snapshot = "(string, (string, replica_cooldown) gomap) gomap"

definition add_to_snapshot :: "time \<Rightarrow> replica_cooldown \<Rightarrow> cooldown_snapshot \<Rightarrow> cooldown_snapshot" where
  "add_to_snapshot now entry out =
     mput (rc_worker_id entry)
       (mput (rc_model entry)
          (entry\<lparr>rc_remaining_seconds := remaining_seconds (rc_cooldown_until entry) now\<rparr>)
          (mget [] out (rc_worker_id entry))) out"

definition snapshot_cooldowns ::
  "time \<Rightarrow> time \<Rightarrow> replica_cooldowns \<Rightarrow> cooldown_snapshot \<times> replica_cooldowns" where
  "snapshot_cooldowns clock now0 c =
     (let now = now_or_clock clock now0; c' = prune_cooldowns now c
      in (fold (add_to_snapshot now) (map snd (cds_entries c')) [], c'))"

definition snapshot_get ::
  "cooldown_snapshot \<Rightarrow> string \<Rightarrow> string \<Rightarrow> time \<Rightarrow> replica_cooldown option" where
  "snapshot_get s wid m now =
     (case map_of (mget [] s wid) m of
        None \<Rightarrow> None
      | Some entry \<Rightarrow>
          if rc_cooldown_until entry \<le> now then None
          else Some (entry\<lparr>rc_remaining_seconds := remaining_seconds (rc_cooldown_until entry) now\<rparr>))"

definition snapshot_cooling :: "cooldown_snapshot \<Rightarrow> string \<Rightarrow> string \<Rightarrow> time \<Rightarrow> bool" where
  "snapshot_cooling s wid m now = (snapshot_get s wid m now \<noteq> None)"

section \<open>What an answer promises\<close>

lemma remaining_seconds_bounds:
  assumes "now < until" "until - now < max_int64"
  shows "(remaining_seconds until now - 1) * second < until - now"
    "until - now \<le> remaining_seconds until now * second"
    "1 \<le> remaining_seconds until now"
proof -
  have t: "time_sub until now = until - now" using assms by (simp add: time_sub_def)
  let ?d = "until - now"
  define q r where "q = ?d div second" and "r = ?d mod second"
  have d: "?d = second * q + r" "0 \<le> r" "r < second" by (simp_all add: q_def r_def)
  have "remaining_seconds until now = (if r = 0 then q else q + 1)"
    using assms(1) by (simp add: remaining_seconds_def t Let_def q_def r_def)
  then show "(remaining_seconds until now - 1) * second < ?d" "?d \<le> remaining_seconds until now * second"
    "1 \<le> remaining_seconds until now"
    using d assms(1) by (auto split: if_splits)
qed

text \<open>
  \<open>read s w m t\<close> is the entry for the replica at time \<open>t\<close>: it has not expired, its remaining seconds
  say how long it still lasts, and a replica that is out of its cooldown stays out as time goes on.
\<close>

locale cooldown_view =
  fixes read :: "'s \<Rightarrow> string \<Rightarrow> string \<Rightarrow> time \<Rightarrow> replica_cooldown option"
  assumes read_live: "read s w m t = Some e \<Longrightarrow> t < rc_cooldown_until e"
    and read_remaining: "read s w m t = Some e \<Longrightarrow> rc_remaining_seconds e = remaining_seconds (rc_cooldown_until e) t"
    and read_expired: "read s w m t = None \<Longrightarrow> t \<le> t' \<Longrightarrow> read s w m t' = None"
    and read_later: "read s w m t = Some e \<Longrightarrow> t \<le> t' \<Longrightarrow> t' < rc_cooldown_until e \<Longrightarrow>
      read s w m t' = Some (e\<lparr>rc_remaining_seconds := remaining_seconds (rc_cooldown_until e) t'\<rparr>)"
    and read_ended: "read s w m t = Some e \<Longrightarrow> rc_cooldown_until e \<le> t' \<Longrightarrow> read s w m t' = None"
begin

lemma read_seconds:
  assumes "read s w m t = Some e" "rc_cooldown_until e - t < max_int64"
  shows "1 \<le> rc_remaining_seconds e" "rc_cooldown_until e \<le> t + rc_remaining_seconds e * second"
    "t + (rc_remaining_seconds e - 1) * second < rc_cooldown_until e"
  using remaining_seconds_bounds[OF read_live[OF assms(1)] assms(2)] read_remaining[OF assms(1)] by simp_all

text \<open>From one answer, the answer at every later time.\<close>

lemma read_iff_before_end:
  assumes "read s w m t = Some e" "t \<le> t'"
  shows "read s w m t' \<noteq> None \<longleftrightarrow> t' < rc_cooldown_until e"
  using read_later[OF assms(1,2)] read_ended[OF assms(1), of t'] by (cases "t' < rc_cooldown_until e") auto

text \<open>A caller told to come back after the remaining seconds finds the replica out of its cooldown.\<close>

lemma read_after_remaining:
  assumes "read s w m t = Some e" "rc_cooldown_until e - t < max_int64"
  shows "read s w m (t + rc_remaining_seconds e * second) = None"
  using read_ended[OF assms(1)] read_seconds(2)[OF assms] by simp

end

section \<open>The tracker and the snapshots are views\<close>

definition cooldowns_wf :: "replica_cooldowns \<Rightarrow> bool" where
  "cooldowns_wf c \<longleftrightarrow> mwf (cds_entries c) \<and> 0 < cds_ttl c \<and>
     (\<forall>(key, e) \<in> set (cds_entries c). key = (rc_worker_id e, rc_model e) \<and>
        rc_worker_id e \<noteq> [] \<and> rc_model e \<noteq> [])"

definition tracker_read :: "replica_cooldowns \<Rightarrow> string \<Rightarrow> string \<Rightarrow> time \<Rightarrow> replica_cooldown option" where
  "tracker_read c wid m t = (if cooldowns_wf c then fst (get_cooldown wid m t t c) else None)"

lemma now_or_clock_self [simp]: "now_or_clock t t = t"
  by (simp add: now_or_clock_def)

lemma pruned_lookup:
  "cooldowns_wf c \<Longrightarrow> map_of (cds_entries (prune_cooldowns now c)) key =
    (case map_of (cds_entries c) key of
       Some e \<Rightarrow> if now < rc_cooldown_until e then Some e else None | None \<Rightarrow> None)"
  by (simp add: cooldowns_wf_def prune_cooldowns_def map_of_filter_wf split: option.splits)

lemma get_cooldown_eq:
  assumes "cooldowns_wf c"
  shows "fst (get_cooldown wid m t t c) =
    (if wid = [] \<or> m = [] then None
     else case map_of (cds_entries c) (wid, m) of
       None \<Rightarrow> None
     | Some e \<Rightarrow> if t < rc_cooldown_until e
         then Some (e\<lparr>rc_remaining_seconds := remaining_seconds (rc_cooldown_until e) t\<rparr>) else None)"
  by (simp add: get_cooldown_def Let_def pruned_lookup[OF assms] split: option.splits)

interpretation tracker: cooldown_view tracker_read
  by unfold_locales (auto simp: tracker_read_def get_cooldown_eq split: if_splits option.splits)

interpretation snap: cooldown_view snapshot_get
  by unfold_locales (auto simp: snapshot_get_def split: if_splits option.splits)

lemma cooldowns_wf_new: "cooldowns_wf (new_replica_cooldowns ttl)"
  by (simp add: cooldowns_wf_def new_replica_cooldowns_def default_replica_cooldown_ttl_def)

lemma cooldowns_wf_prune: "cooldowns_wf c \<Longrightarrow> cooldowns_wf (prune_cooldowns now c)"
  by (auto simp: cooldowns_wf_def prune_cooldowns_def)

lemma cooldowns_wf_mark:
  assumes "cooldowns_wf c"
  shows "cooldowns_wf (snd (mark_cooldown wid m reason clock now c))"
  using assms set_mput_subset[of "(wid, m)" _ "cds_entries c"]
  by (fastforce simp: cooldowns_wf_def mark_cooldown_def Let_def)

lemma cooldowns_wf_clear:
  assumes "cooldowns_wf c"
  shows "cooldowns_wf (snd (clear_cooldown wid m clock now c))"
  using cooldowns_wf_prune[OF assms, of "now_or_clock clock now"]
    set_mdel_subset[of "(wid, m)" "cds_entries (prune_cooldowns (now_or_clock clock now) c)"] assms
  by (fastforce simp: clear_cooldown_def Let_def cooldowns_wf_def split: option.splits)

lemma snapshot_lookup:
  "map_of (mget [] (fold (add_to_snapshot now) es out) w) m =
     (case map_of (rev (map (\<lambda>e. ((rc_worker_id e, rc_model e),
          e\<lparr>rc_remaining_seconds := remaining_seconds (rc_cooldown_until e) now\<rparr>)) es)) (w, m) of
        Some x \<Rightarrow> Some x | None \<Rightarrow> map_of (mget [] out w) m)"
  by (induction es arbitrary: out) (auto simp: add_to_snapshot_def map_add_def split: option.splits)

lemma snapshot_entry:
  assumes "cooldowns_wf c"
  shows "map_of (mget [] (fst (snapshot_cooldowns now now c)) w) m =
    map_option (\<lambda>e. e\<lparr>rc_remaining_seconds := remaining_seconds (rc_cooldown_until e) now\<rparr>)
      (map_of (cds_entries (prune_cooldowns now c)) (w, m))"
proof -
  let ?es = "cds_entries (prune_cooldowns now c)"
  let ?f = "\<lambda>e. e\<lparr>rc_remaining_seconds := remaining_seconds (rc_cooldown_until e) now\<rparr>"
  have wf: "cooldowns_wf (prune_cooldowns now c)" by (rule cooldowns_wf_prune[OF assms])
  have eq: "map (\<lambda>e. ((rc_worker_id e, rc_model e), ?f e)) (map snd ?es) = map (\<lambda>(k, e). (k, ?f e)) ?es"
    using wf by (auto simp: cooldowns_wf_def)
  have "map fst (map (\<lambda>(k, e). (k, ?f e)) ?es) = mkeys ?es" by (auto simp: mkeys_def)
  then have "distinct (map fst (map (\<lambda>(k, e). (k, ?f e)) ?es))"
    using wf by (simp add: cooldowns_wf_def mwf_def)
  then have "map_of (rev (map (\<lambda>(k, e). (k, ?f e)) ?es)) = map_of (map (\<lambda>(k, e). (k, ?f e)) ?es)"
    by (rule map_of_rev_distinct)
  moreover have "map_of (map (\<lambda>(k, e). (k, ?f e)) ?es) (w, m) = map_option ?f (map_of ?es (w, m))"
    by (simp add: map_of_map)
  ultimately show ?thesis
    by (simp add: snapshot_cooldowns_def Let_def snapshot_lookup eq[unfolded map_map comp_def] comp_def split: option.splits)
qed

section \<open>Properties\<close>

text \<open>
  The scheduler's snapshot and the tracker agree: an entry read from a snapshot at the time it was
  taken or later is the entry the tracker itself gives at that time, the remaining seconds included.
\<close>

theorem snapshot_agrees:
  assumes "cooldowns_wf c" "now \<le> t" "wid \<noteq> []" "m \<noteq> []"
  shows "snapshot_get (fst (snapshot_cooldowns now now c)) wid m t = fst (get_cooldown wid m t t c)"
proof -
  have "snapshot_get (fst (snapshot_cooldowns now now c)) wid m t =
    (case map_of (cds_entries c) (wid, m) of None \<Rightarrow> None
     | Some e \<Rightarrow> if t < rc_cooldown_until e
         then Some (e\<lparr>rc_remaining_seconds := remaining_seconds (rc_cooldown_until e) t\<rparr>) else None)"
    using assms(2) by (auto simp: snapshot_get_def snapshot_entry[OF assms(1)] pruned_lookup[OF assms(1)]
        split: option.splits)
  then show ?thesis using assms(3,4) by (simp add: get_cooldown_eq[OF assms(1)])
qed

text \<open>
  Marking a replica as failed takes it out of the choice until the mark plus the configured time,
  and no longer unless it is marked again; the answer carries the reason and a count one higher than
  before, tells the caller to wait at least one second and not past the second in which the cooldown
  ends, and the other replicas are as they were.
\<close>

theorem mark_cools_down:
  assumes "cooldowns_wf c" "wid \<noteq> []" "m \<noteq> []" "cds_ttl c < max_int64" "now \<le> t"
  shows "let c' = snd (mark_cooldown wid m reason now now c) in
    (case fst (get_cooldown wid m t t c') of
       None \<Rightarrow> now + cds_ttl c \<le> t
     | Some e \<Rightarrow> t < now + cds_ttl c \<and> rc_reason e = reason \<and> rc_cooldown_until e = now + cds_ttl c \<and>
         rc_failure_count e = rc_failure_count (mget zero_cooldown (cds_entries c) (wid, m)) + 1 \<and>
         1 \<le> rc_remaining_seconds e \<and> now + cds_ttl c \<le> t + rc_remaining_seconds e * second \<and>
         t + (rc_remaining_seconds e - 1) * second < now + cds_ttl c) \<and>
    (\<forall>wid' m'. (wid', m') \<noteq> (wid, m) \<longrightarrow>
       fst (get_cooldown wid' m' t t c') = fst (get_cooldown wid' m' t t c))"
proof -
  define c' where "c' = snd (mark_cooldown wid m reason now now c)"
  have wf: "cooldowns_wf c'" unfolding c'_def by (rule cooldowns_wf_mark[OF assms(1)])
  obtain e where e: "map_of (cds_entries c') = (map_of (cds_entries c))((wid, m) \<mapsto> e)"
      "rc_reason e = reason" "rc_cooldown_until e = now + cds_ttl c"
      "rc_failure_count e = rc_failure_count (mget zero_cooldown (cds_entries c) (wid, m)) + 1"
    using assms(2,3) by (fastforce simp: c'_def mark_cooldown_def Let_def)
  have other: "fst (get_cooldown wid' m' t t c') = fst (get_cooldown wid' m' t t c)"
    if "(wid', m') \<noteq> (wid, m)" for wid' m'
  proof -
    have "map_of (cds_entries c') (wid', m') = map_of (cds_entries c) (wid', m')" using that e(1) by auto
    then show ?thesis by (simp add: get_cooldown_eq wf assms(1))
  qed
  show ?thesis
  proof (cases "t < now + cds_ttl c")
    case True
    let ?e = "e\<lparr>rc_remaining_seconds := remaining_seconds (rc_cooldown_until e) t\<rparr>"
    have g: "fst (get_cooldown wid m t t c') = Some ?e"
      using True assms(2,3) by (simp add: get_cooldown_eq wf e)
    then have r: "tracker_read c' wid m t = Some ?e" by (simp add: tracker_read_def wf)
    have "rc_cooldown_until ?e - t < max_int64" using assms(4,5) e(3) by simp
    from tracker.read_seconds[OF r this] show ?thesis
      unfolding Let_def c'_def[symmetric] using g True e other by auto
  next
    case False
    then have "fst (get_cooldown wid m t t c') = None"
      using assms(2,3) by (simp add: get_cooldown_eq wf e)
    with False show ?thesis unfolding Let_def c'_def[symmetric] using other by auto
  qed
qed

definition example_cooldowns :: replica_cooldowns where
  "example_cooldowns = snd (mark_cooldown ''w'' ''m'' ''eof'' 7 7 (new_replica_cooldowns 0))"

lemma example_cooldowns_wf: "cooldowns_wf example_cooldowns"
  unfolding example_cooldowns_def by (intro cooldowns_wf_mark cooldowns_wf_new)

theorem snapshot_agrees_witness:
  "snapshot_get (fst (snapshot_cooldowns 8 8 example_cooldowns)) ''w'' ''m'' 9 =
     fst (get_cooldown ''w'' ''m'' 9 9 example_cooldowns) \<and>
   snapshot_get (fst (snapshot_cooldowns 8 8 example_cooldowns)) ''w'' ''m'' 9 \<noteq> None"
proof
  show eq: "snapshot_get (fst (snapshot_cooldowns 8 8 example_cooldowns)) ''w'' ''m'' 9 =
     fst (get_cooldown ''w'' ''m'' 9 9 example_cooldowns)"
    by (rule snapshot_agrees[OF example_cooldowns_wf]) simp_all
  show "snapshot_get (fst (snapshot_cooldowns 8 8 example_cooldowns)) ''w'' ''m'' 9 \<noteq> None"
    unfolding eq by code_simp
qed

theorem mark_cools_down_witness:
  "fst (get_cooldown ''w'' ''m'' (30 * second + 6) (30 * second + 6) example_cooldowns) \<noteq> None \<and>
   fst (get_cooldown ''w'' ''m'' (30 * second + 7) (30 * second + 7) example_cooldowns) = None"
proof -
  let ?c = "new_replica_cooldowns 0"
  have ttl: "cds_ttl ?c = 30 * second" by (simp add: new_replica_cooldowns_def default_replica_cooldown_ttl_def)
  have m: "7 \<le> t \<Longrightarrow> fst (get_cooldown ''w'' ''m'' t t example_cooldowns) = None \<longleftrightarrow> 7 + 30 * second \<le> t" for t
    using mark_cools_down[OF cooldowns_wf_new[of 0], of "''w''" "''m''" 7 t "''eof''"]
    by (auto simp: Let_def ttl example_cooldowns_def split: option.splits)
  show ?thesis using m[of "30 * second + 6"] m[of "30 * second + 7"] by simp
qed

end
