(* ===== verification/Pressure.thy ===== *)
theory Pressure
  imports QueueLimits "HOL-Library.Multiset"
begin

text \<open>
  Demand pressure (internal/gateway/pressure.go): the observations of the last minutes, what they say
  of one model, and the score from which the scheduler decides to start another replica. Observations
  are pruned on every call; \<open>pressure_refines\<close> shows that the pruning cannot be seen: an answer is the
  summary of the whole history restricted to the window. Counts are unbounded integers.
\<close>

section \<open>Observations\<close>

record queue_observation =
  qo_time :: time
  qo_model :: string
  qo_result :: string
  qo_wait_ms :: int
  qo_ready_replicas :: int
  qo_occupied_replicas :: int
  qo_active_before :: int
  qo_queued_before :: int

record request_observation =
  ro_time :: time
  ro_model :: string
  ro_worker_id :: string
  ro_total_tokens :: int
  ro_duration_ms :: int
  ro_status_code :: int

record pressure_snapshot =
  ps_model :: string
  ps_recent_requests :: int
  ps_recent_tokens :: int
  ps_waited_requests :: int
  ps_queue_errors :: int
  ps_no_ready_requests :: int
  ps_p95_wait_ms :: int
  ps_p95_duration_ms :: int
  ps_ready_replicas :: int
  ps_occupied_replicas :: int
  ps_max_active :: int
  ps_last_access :: time

record demand_score_input =
  di_priority :: int
  di_ready_replicas :: int
  di_occupied_replicas :: int
  di_active :: int

record pressure_tracker =
  pt_window :: duration
  pt_queues :: "queue_observation list"
  pt_requests :: "request_observation list"

definition default_pressure_window :: duration where
  "default_pressure_window = 5 * minute"

definition min_scale_out_requests :: int where
  "min_scale_out_requests = 3"

definition min_scale_out_score :: int where
  "min_scale_out_score = 120"

definition default_switch_cost :: int where
  "default_switch_cost = 80"

definition new_pressure_tracker :: "duration \<Rightarrow> pressure_tracker" where
  "new_pressure_tracker window =
     \<lparr>pt_window = (if window \<le> 0 then default_pressure_window else window), pt_queues = [], pt_requests = []\<rparr>"

definition prune_queue_observations :: "queue_observation list \<Rightarrow> time \<Rightarrow> queue_observation list" where
  "prune_queue_observations obs cutoff = filter (\<lambda>ob. \<not> qo_time ob < cutoff) obs"

definition prune_request_observations :: "request_observation list \<Rightarrow> time \<Rightarrow> request_observation list" where
  "prune_request_observations obs cutoff = filter (\<lambda>ob. \<not> ro_time ob < cutoff) obs"

definition prune_pressure :: "time \<Rightarrow> pressure_tracker \<Rightarrow> pressure_tracker" where
  "prune_pressure now p =
     (let cutoff = now - pt_window p
      in p\<lparr>pt_queues := prune_queue_observations (pt_queues p) cutoff,
           pt_requests := prune_request_observations (pt_requests p) cutoff\<rparr>)"

text \<open>A zero observation time is replaced by the clock.\<close>

definition record_queue :: "time \<Rightarrow> queue_observation \<Rightarrow> pressure_tracker \<Rightarrow> pressure_tracker" where
  "record_queue clock ob p =
     (if qo_model ob = [] \<or> qo_result ob = [] then p
      else let ob = (if qo_time ob = 0 then ob\<lparr>qo_time := clock\<rparr> else ob)
           in prune_pressure (qo_time ob) (p\<lparr>pt_queues := pt_queues p @ [ob]\<rparr>))"

definition record_pressure_request ::
  "time \<Rightarrow> request_observation \<Rightarrow> pressure_tracker \<Rightarrow> pressure_tracker" where
  "record_pressure_request clock ob p =
     (if ro_model ob = [] then p
      else let ob = (if ro_time ob = 0 then ob\<lparr>ro_time := clock\<rparr> else ob)
           in prune_pressure (ro_time ob) (p\<lparr>pt_requests := pt_requests p @ [ob]\<rparr>))"

section \<open>The summary of a model\<close>

definition percentile95 :: "int list \<Rightarrow> int" where
  "percentile95 values =
     (if values = [] then 0
      else let n = int (length values);
               index = (95 * n + 99) div 100;
               index = (if index < 1 then 1 else index);
               index = (if index > n then n else index)
           in sort values ! nat (index - 1))"

definition empty_snapshot :: "string \<Rightarrow> pressure_snapshot" where
  "empty_snapshot m =
     \<lparr>ps_model = m, ps_recent_requests = 0, ps_recent_tokens = 0, ps_waited_requests = 0,
      ps_queue_errors = 0, ps_no_ready_requests = 0, ps_p95_wait_ms = 0, ps_p95_duration_ms = 0,
      ps_ready_replicas = 0, ps_occupied_replicas = 0, ps_max_active = 0, ps_last_access = 0\<rparr>"

text \<open>One iteration of the two loops; the second component collects the positive durations or waits.\<close>

definition add_request_observation ::
  "string \<Rightarrow> request_observation \<Rightarrow> pressure_snapshot \<times> int list \<Rightarrow> pressure_snapshot \<times> int list" where
  "add_request_observation m ob acc =
     (case acc of (s, durations) \<Rightarrow>
       if ro_model ob \<noteq> m then (s, durations)
       else (s\<lparr>ps_recent_requests := ps_recent_requests s + 1,
               ps_recent_tokens := ps_recent_tokens s + max (ro_total_tokens ob) 0,
               ps_last_access := (if ro_time ob > ps_last_access s then ro_time ob else ps_last_access s)\<rparr>,
             if ro_duration_ms ob > 0 then durations @ [ro_duration_ms ob] else durations))"

definition count_queue_result :: "string \<Rightarrow> pressure_snapshot \<Rightarrow> pressure_snapshot" where
  "count_queue_result result s =
     (if result = queue_result_string QueueResultAdmittedAfterWait
      then s\<lparr>ps_waited_requests := ps_waited_requests s + 1\<rparr>
      else if result = queue_result_string QueueResultFull \<or> result = queue_result_string QueueResultTimeout
      then s\<lparr>ps_queue_errors := ps_queue_errors s + 1\<rparr>
      else if result = queue_result_string QueueResultNoReady
      then s\<lparr>ps_queue_errors := ps_queue_errors s + 1, ps_no_ready_requests := ps_no_ready_requests s + 1\<rparr>
      else s)"

definition add_queue_observation ::
  "string \<Rightarrow> queue_observation \<Rightarrow> pressure_snapshot \<times> int list \<Rightarrow> pressure_snapshot \<times> int list" where
  "add_queue_observation m ob acc =
     (case acc of (s, waits) \<Rightarrow>
       if qo_model ob \<noteq> m then (s, waits)
       else
         let s = count_queue_result (qo_result ob) s
         in (s\<lparr>ps_ready_replicas := (if qo_ready_replicas ob > ps_ready_replicas s then qo_ready_replicas ob
                                     else ps_ready_replicas s),
               ps_occupied_replicas := (if qo_occupied_replicas ob > ps_occupied_replicas s
                                        then qo_occupied_replicas ob else ps_occupied_replicas s),
               ps_max_active := (if qo_active_before ob > ps_max_active s then qo_active_before ob
                                 else ps_max_active s),
               ps_last_access := (if qo_time ob > ps_last_access s then qo_time ob else ps_last_access s)\<rparr>,
             if qo_wait_ms ob > 0 then waits @ [qo_wait_ms ob] else waits))"

definition summarize_pressure ::
  "string \<Rightarrow> queue_observation list \<Rightarrow> request_observation list \<Rightarrow> pressure_snapshot" where
  "summarize_pressure m queues requests =
     (let (s, durations) = fold (add_request_observation m) requests (empty_snapshot m, []);
          (s, waits) = fold (add_queue_observation m) queues (s, [])
      in s\<lparr>ps_p95_wait_ms := percentile95 waits, ps_p95_duration_ms := percentile95 durations\<rparr>)"

definition pressure_model ::
  "string \<Rightarrow> time \<Rightarrow> time \<Rightarrow> pressure_tracker \<Rightarrow> pressure_snapshot \<times> pressure_tracker" where
  "pressure_model m clock now0 p =
     (if m = [] then (empty_snapshot m, p)
      else let now = (if now0 = 0 then clock else now0); p = prune_pressure now p
           in (summarize_pressure m (pt_queues p) (pt_requests p), p))"

section \<open>The score\<close>

definition demand_events :: "pressure_snapshot \<Rightarrow> int" where
  "demand_events s = ps_recent_requests s + ps_waited_requests s + ps_queue_errors s"

definition demand_score :: "pressure_snapshot \<Rightarrow> demand_score_input \<Rightarrow> int" where
  "demand_score s i =
     (if di_ready_replicas i = 0 \<and> di_occupied_replicas i = 0 \<and> ps_no_ready_requests s > 0 \<and> demand_events s > 0
      then min_scale_out_score
      else if demand_events s < min_scale_out_requests then 0
      else
        let score = di_priority i;
            score = score + min (ps_recent_requests s * 10) 60;
            score = score + min (ps_p95_duration_ms s div 100) 50;
            score = score + min (ps_waited_requests s * 25) 75;
            score = score + min (ps_queue_errors s * 40) 80;
            score = score + min (ps_p95_wait_ms s div 100) 40;
            score = (if di_ready_replicas i > 0 \<and> di_active i \<ge> di_ready_replicas i then score + 35 else score);
            score = (if di_ready_replicas i = 0 \<and> ps_recent_requests s > 0 then score + 20 else score);
            starting = di_occupied_replicas i - di_ready_replicas i;
            score = (if starting > 0 then score - starting * 60 else score)
        in if score < 0 then 0 else score)"

section \<open>The percentile\<close>

lemma sorted_take_le:
  assumes "sorted xs" "k < length xs"
  shows "Suc k \<le> length (filter (\<lambda>x. x \<le> xs ! k) xs)" "length (filter (\<lambda>x. x < xs ! k) xs) \<le> k"
proof -
  have lo: "y \<le> xs ! k" if "y \<in> set (take (Suc k) xs)" for y
  proof -
    from that obtain i where "i < Suc k" "y = xs ! i" using assms(2) by (auto simp: in_set_conv_nth)
    then show ?thesis using sorted_nth_mono[OF assms(1), of i k] assms(2) by simp
  qed
  have hi: "xs ! k \<le> y" if "y \<in> set (drop k xs)" for y
  proof -
    from that obtain i where "i < length (drop k xs)" "y = drop k xs ! i" by (metis in_set_conv_nth)
    then show ?thesis using sorted_nth_mono[OF assms(1), of k "k + i"] by simp
  qed
  have "filter (\<lambda>x. x \<le> xs ! k) (take (Suc k) xs) = take (Suc k) xs" by (rule filter_True) (use lo in blast)
  then have "length (filter (\<lambda>x. x \<le> xs ! k) (take (Suc k) xs)) = Suc k" using assms(2) by simp
  moreover have "length (filter (\<lambda>x. x \<le> xs ! k) xs) =
      length (filter (\<lambda>x. x \<le> xs ! k) (take (Suc k) xs)) + length (filter (\<lambda>x. x \<le> xs ! k) (drop (Suc k) xs))"
    by (metis append_take_drop_id filter_append length_append)
  ultimately show "Suc k \<le> length (filter (\<lambda>x. x \<le> xs ! k) xs)" by simp
  have "filter (\<lambda>x. x < xs ! k) (drop k xs) = []"
    using hi by (auto simp: filter_empty_conv not_less)
  moreover have "length (filter (\<lambda>x. x < xs ! k) xs) =
      length (filter (\<lambda>x. x < xs ! k) (take k xs)) + length (filter (\<lambda>x. x < xs ! k) (drop k xs))"
    by (metis append_take_drop_id filter_append length_append)
  ultimately show "length (filter (\<lambda>x. x < xs ! k) xs) \<le> k"
    by (simp add: order_trans[OF length_filter_le])
qed

lemma length_filter_sort: "length (filter P (sort xs)) = length (filter P xs)"
  by (metis mset_filter mset_sort size_mset)

text \<open>
  \<open>percentile95\<close> is the nearest-rank 95th percentile: one of the values, at least 95 percent of the
  values are at most it, and fewer than 95 percent are below it.
\<close>

theorem percentile95_nearest_rank:
  assumes "values \<noteq> []"
  shows "percentile95 values \<in> set values \<and>
    95 * length values \<le> 100 * length (filter (\<lambda>x. x \<le> percentile95 values) values) \<and>
    100 * length (filter (\<lambda>x. x < percentile95 values) values) < 95 * length values"
proof -
  define n where "n = length values"
  have n: "0 < n" using assms by (simp add: n_def)
  define q where "q = (95 * n + 99) div 100"
  have q: "100 * q \<le> 95 * n + 99" "95 * n + 99 < 100 * q + 100" unfolding q_def by linarith+
  have "q \<noteq> 0" using n q by linarith
  then obtain k where "q = Suc k" using not0_implies_Suc by blast
  then have k: "q = Suc k" "100 * k < 95 * n" using q by simp_all
  have k': "95 * n \<le> 100 * Suc k" "k < n" using n q(2) k by simp_all
  have "(95 * int n + 99) div 100 = int q" unfolding q_def by (simp add: zdiv_int)
  then have p: "percentile95 values = sort values ! k"
    using assms k'(2) k(1) by (simp add: percentile95_def n_def[symmetric] Let_def)
  note f = sorted_take_le[of "sort values" k]
  have "Suc k \<le> length (filter (\<lambda>x. x \<le> percentile95 values) values)"
    "length (filter (\<lambda>x. x < percentile95 values) values) \<le> k"
    using f k'(2) by (simp_all add: p n_def length_filter_sort)
  moreover have "percentile95 values \<in> set values"
    using k'(2) nth_mem[of k "sort values"] by (simp add: p n_def)
  ultimately show ?thesis using k(2) k'(1) n_def by auto
qed

section \<open>Pruning cannot be seen\<close>

datatype observation = QueueSeen queue_observation | RequestSeen request_observation

fun observation_time :: "observation \<Rightarrow> time" where
  "observation_time (QueueSeen ob) = qo_time ob"
| "observation_time (RequestSeen ob) = ro_time ob"

fun observe :: "observation \<Rightarrow> pressure_tracker \<Rightarrow> pressure_tracker" where
  "observe (QueueSeen ob) p = record_queue (qo_time ob) ob p"
| "observe (RequestSeen ob) p = record_pressure_request (ro_time ob) ob p"

text \<open>The abstract state is the whole history; only observations with a model (and a result) count.\<close>

definition queue_history :: "observation list \<Rightarrow> queue_observation list" where
  "queue_history obs = List.map_filter (\<lambda>ob. case ob of
     QueueSeen q \<Rightarrow> if qo_model q = [] \<or> qo_result q = [] then None else Some q | RequestSeen r \<Rightarrow> None) obs"

definition request_history :: "observation list \<Rightarrow> request_observation list" where
  "request_history obs = List.map_filter (\<lambda>ob. case ob of
     QueueSeen q \<Rightarrow> None | RequestSeen r \<Rightarrow> if ro_model r = [] then None else Some r) obs"

lemma history_simps [simp]:
  "queue_history (xs @ ys) = queue_history xs @ queue_history ys"
  "request_history (xs @ ys) = request_history xs @ request_history ys"
  "queue_history [] = []" "request_history [] = []"
  by (induction xs) (auto simp: queue_history_def request_history_def map_filter_simps split: option.splits)

definition pressure_of :: "duration \<Rightarrow> observation list \<Rightarrow> pressure_tracker" where
  "pressure_of window obs = fold observe obs (new_pressure_tracker window)"

lemma prune_after_prune:
  "c' \<le> c \<Longrightarrow> prune_queue_observations (prune_queue_observations q c') c = prune_queue_observations q c"
  "c' \<le> c \<Longrightarrow> prune_request_observations (prune_request_observations r c') c = prune_request_observations r c"
  by (auto simp: prune_queue_observations_def prune_request_observations_def intro!: filter_cong)

lemma prune_append [simp]:
  "prune_queue_observations (q @ q') c = prune_queue_observations q c @ prune_queue_observations q' c"
  "prune_request_observations (r @ r') c = prune_request_observations r c @ prune_request_observations r' c"
  by (simp_all add: prune_queue_observations_def prune_request_observations_def)

lemma observe_window [simp]: "pt_window (observe ob p) = pt_window p"
  by (cases ob) (simp_all add: record_queue_def record_pressure_request_def prune_pressure_def Let_def)

lemma pressure_of_snoc: "pressure_of w (obs @ [ob]) = observe ob (pressure_of w obs)"
  by (simp add: pressure_of_def)

lemma pressure_of_window: "pt_window (pressure_of w obs) = pt_window (new_pressure_tracker w)"
proof (induction obs rule: rev_induct)
  case Nil show ?case by (simp add: pressure_of_def)
qed (simp add: pressure_of_snoc)

lemma record_at_own_time:
  "record_queue (qo_time q) q p = (if qo_model q = [] \<or> qo_result q = [] then p
     else prune_pressure (qo_time q) (p\<lparr>pt_queues := pt_queues p @ [q]\<rparr>))"
  "record_pressure_request (ro_time r) r p = (if ro_model r = [] then p
     else prune_pressure (ro_time r) (p\<lparr>pt_requests := pt_requests p @ [r]\<rparr>))"
  by (cases q, simp add: record_queue_def Let_def) (cases r, simp add: record_pressure_request_def Let_def)

lemma prune_pressure_fields:
  "pt_queues (prune_pressure t p) = prune_queue_observations (pt_queues p) (t - pt_window p)"
  "pt_requests (prune_pressure t p) = prune_request_observations (pt_requests p) (t - pt_window p)"
  by (simp_all add: prune_pressure_def Let_def)

lemma observe_pruned:
  assumes "c \<ge> observation_time ob - pt_window p"
  shows "prune_queue_observations (pt_queues (observe ob p)) c =
      prune_queue_observations (pt_queues p) c @ prune_queue_observations (queue_history [ob]) c"
    "prune_request_observations (pt_requests (observe ob p)) c =
      prune_request_observations (pt_requests p) c @ prune_request_observations (request_history [ob]) c"
  using assms
  by (cases ob; simp add: record_at_own_time prune_pressure_fields queue_history_def request_history_def
      map_filter_simps prune_after_prune prune_queue_observations_def[of "[]"]
      prune_request_observations_def[of "[]"])+

lemma pressure_of_pruned:
  assumes "\<forall>ob \<in> set obs. observation_time ob \<le> now"
  shows "prune_queue_observations (pt_queues (pressure_of w obs)) (now - pt_window (new_pressure_tracker w)) =
      prune_queue_observations (queue_history obs) (now - pt_window (new_pressure_tracker w))"
    "prune_request_observations (pt_requests (pressure_of w obs)) (now - pt_window (new_pressure_tracker w)) =
      prune_request_observations (request_history obs) (now - pt_window (new_pressure_tracker w))"
  using assms
proof (induction obs rule: rev_induct)
  case Nil
  { case 1 show ?case by (simp add: pressure_of_def new_pressure_tracker_def) }
  { case 2 show ?case by (simp add: pressure_of_def new_pressure_tracker_def) }
next
  case (snoc ob obs)
  let ?c = "now - pt_window (new_pressure_tracker w)"
  { case 1
    then have "?c \<ge> observation_time ob - pt_window (pressure_of w obs)" by (simp add: pressure_of_window)
    from observe_pruned(1)[OF this] snoc(1) 1 show ?case by (simp add: pressure_of_snoc) }
  { case 2
    then have "?c \<ge> observation_time ob - pt_window (pressure_of w obs)" by (simp add: pressure_of_window)
    from observe_pruned(2)[OF this] snoc(2) 2 show ?case by (simp add: pressure_of_snoc) }
qed

text \<open>
  C40. What the tracker answers is the summary of the whole history of observations restricted to the
  window before the question, in whatever order the observations came, as long as none of them is
  later than the question: pruning while recording never loses one that would have counted.
\<close>

theorem pressure_refines:
  assumes "\<forall>ob \<in> set obs. observation_time ob \<le> now" "m \<noteq> []" "now \<noteq> 0" "0 < window"
  shows "fst (pressure_model m clock now (pressure_of window obs)) =
    summarize_pressure m
      (filter (\<lambda>ob. now - window \<le> qo_time ob) (queue_history obs))
      (filter (\<lambda>ob. now - window \<le> ro_time ob) (request_history obs))"
proof -
  have w: "pt_window (new_pressure_tracker window) = window" using assms(4) by (simp add: new_pressure_tracker_def)
  have "prune_queue_observations xs c = filter (\<lambda>ob. c \<le> qo_time ob) xs"
    "prune_request_observations ys c = filter (\<lambda>ob. c \<le> ro_time ob) ys" for xs ys c
    by (simp_all add: prune_queue_observations_def prune_request_observations_def not_less)
  with pressure_of_pruned[OF assms(1), of window] assms(2,3) show ?thesis
    by (simp add: pressure_model_def prune_pressure_def Let_def pressure_of_window w)
qed

section \<open>The score grows with the pressure\<close>

text \<open>The snapshot \<open>s'\<close> shows at least the pressure of \<open>s\<close>.\<close>

definition pressure_le :: "pressure_snapshot \<Rightarrow> pressure_snapshot \<Rightarrow> bool" where
  "pressure_le s s' \<longleftrightarrow> ps_recent_requests s \<le> ps_recent_requests s' \<and>
     ps_waited_requests s \<le> ps_waited_requests s' \<and> ps_queue_errors s \<le> ps_queue_errors s' \<and>
     ps_no_ready_requests s \<le> ps_no_ready_requests s' \<and>
     ps_p95_wait_ms s \<le> ps_p95_wait_ms s' \<and> ps_p95_duration_ms s \<le> ps_p95_duration_ms s'"

definition pressure_points :: "pressure_snapshot \<Rightarrow> int" where
  "pressure_points s = min (ps_recent_requests s * 10) 60 + min (ps_p95_duration_ms s div 100) 50 +
     min (ps_waited_requests s * 25) 75 + min (ps_queue_errors s * 40) 80 + min (ps_p95_wait_ms s div 100) 40"

definition replica_points :: "pressure_snapshot \<Rightarrow> demand_score_input \<Rightarrow> int" where
  "replica_points s i =
     (if 0 < di_ready_replicas i \<and> di_ready_replicas i \<le> di_active i then 35 else 0) +
     (if di_ready_replicas i = 0 \<and> 0 < ps_recent_requests s then 20 else 0)"

lemma demand_score_eq:
  assumes "0 < di_occupied_replicas i"
  shows "demand_score s i = (if demand_events s < min_scale_out_requests then 0
    else max 0 (di_priority i + pressure_points s + replica_points s i
      - 60 * max 0 (di_occupied_replicas i - di_ready_replicas i)))"
proof -
  define a where "a = min (ps_recent_requests s * 10) 60"
  define b where "b = min (ps_p95_duration_ms s div 100) 50"
  define c where "c = min (ps_waited_requests s * 25) 75"
  define d where "d = min (ps_queue_errors s * 40) 80"
  define e where "e = min (ps_p95_wait_ms s div 100) 40"
  note terms = a_def[symmetric] b_def[symmetric] c_def[symmetric] d_def[symmetric] e_def[symmetric]
  show ?thesis using assms
    unfolding demand_score_def Let_def pressure_points_def replica_points_def terms
    by (auto simp: max_def)
qed

lemma pressure_points_mono: "pressure_le s s' \<Longrightarrow> pressure_points s \<le> pressure_points s'"
  unfolding pressure_points_def pressure_le_def
  by (intro add_mono min.mono zdiv_mono1 mult_right_mono) auto

lemma pressure_points_le: "pressure_points s \<le> 305"
  unfolding pressure_points_def by linarith

lemma replica_points_mono: "pressure_le s s' \<Longrightarrow> replica_points s i \<le> replica_points s' i"
  by (auto simp: replica_points_def pressure_le_def)

lemma replica_points_le: "replica_points s i \<le> 35"
  by (simp add: replica_points_def)

lemma demand_events_mono: "pressure_le s s' \<Longrightarrow> demand_events s \<le> demand_events s'"
  by (simp add: demand_events_def pressure_le_def)

text \<open>
  For a model that has a replica the demand score never falls when the pressure rises, is never
  negative, and the pressure adds at most 340 points to the priority; each replica that is starting
  takes sixty points off, so the score alone cannot start replicas without end.
\<close>

theorem demand_score_monotone:
  assumes "pressure_le s s'" "0 < di_occupied_replicas i"
  shows "demand_score s i \<le> demand_score s' i \<and> 0 \<le> demand_score s i \<and>
    demand_score s i \<le> max 0 (di_priority i + 340 - 60 * max 0 (di_occupied_replicas i - di_ready_replicas i))"
  unfolding demand_score_eq[OF assms(2)]
  using pressure_points_mono[OF assms(1)] replica_points_mono[OF assms(1), of i]
    demand_events_mono[OF assms(1)] pressure_points_le[of s] replica_points_le[of s i]
  by (auto simp: max_def)

section \<open>Examples\<close>

definition example_observations :: "observation list" where
  "example_observations =
     [RequestSeen \<lparr>ro_time = 5 * second, ro_model = ''m'', ro_worker_id = ''w'', ro_total_tokens = 12,
        ro_duration_ms = 900, ro_status_code = 200\<rparr>,
      QueueSeen \<lparr>qo_time = 9 * second, qo_model = ''m'', qo_result = ''queue_full'', qo_wait_ms = 0,
        qo_ready_replicas = 1, qo_occupied_replicas = 1, qo_active_before = 2, qo_queued_before = 0\<rparr>,
      RequestSeen \<lparr>ro_time = 2 * second, ro_model = ''m'', ro_worker_id = ''w'', ro_total_tokens = 3,
        ro_duration_ms = 100, ro_status_code = 200\<rparr>]"

theorem percentile95_nearest_rank_witness:
  "percentile95 [30, 10, 20] = 30 \<and> percentile95 [30, 10, 20] \<in> set [30, 10, 20]"
  using percentile95_nearest_rank[of "[30, 10, 20]"] by (simp add: percentile95_def)

theorem pressure_refines_witness:
  "ps_recent_requests (fst (pressure_model ''m'' 0 (10 * second) (pressure_of (6 * second) example_observations))) = 1"
proof -
  have "\<forall>ob \<in> set example_observations. observation_time ob \<le> 10 * second"
    by (simp add: example_observations_def)
  from pressure_refines[OF this, of "''m''" "6 * second" 0] show ?thesis
    by (simp add: example_observations_def queue_history_def request_history_def map_filter_simps
        summarize_pressure_def add_request_observation_def add_queue_observation_def count_queue_result_def
        empty_snapshot_def)
qed

theorem demand_score_monotone_witness:
  "let s = (empty_snapshot ''m'')\<lparr>ps_recent_requests := 2\<rparr>; s' = s\<lparr>ps_queue_errors := 2\<rparr>;
       i = \<lparr>di_priority = 0, di_ready_replicas = 1, di_occupied_replicas = 1, di_active = 1\<rparr>
   in demand_score s i = 0 \<and> demand_score s' i = 135 \<and> demand_score s i \<le> demand_score s' i"
proof -
  let ?s = "(empty_snapshot ''m'')\<lparr>ps_recent_requests := 2\<rparr>"
  let ?s' = "?s\<lparr>ps_queue_errors := 2\<rparr>"
  let ?i = "\<lparr>di_priority = 0, di_ready_replicas = 1, di_occupied_replicas = 1, di_active = 1\<rparr>"
  have "demand_score ?s ?i \<le> demand_score ?s' ?i"
    using demand_score_monotone[of ?s ?s' ?i] by (simp add: pressure_le_def empty_snapshot_def)
  moreover have "demand_score ?s ?i = 0" "demand_score ?s' ?i = 135" by code_simp+
  ultimately show ?thesis by (simp add: Let_def)
qed

end
