(* ===== verification/Access.thy ===== *)
theory Access
  imports Config "HOL-Library.Word"
begin

text \<open>
  Access statistics (internal/gateway/access.go): per model and per worker and model, the last access,
  64-bit counters and the largest duration, fed by finished requests and rebuilt at start-up from the
  last lines of the request log. The log's lines (or the scanner's error) and the JSON decoder are
  arguments; the lines are kept in the ring buffer of the code. The receiver is not nil.
\<close>

section \<open>Request log entries and access records\<close>

record request_log_entry =
  rl_time :: time
  rl_request_id :: string
  rl_model :: string
  rl_requested_model :: string
  rl_worker_id :: string
  rl_tag :: string
  rl_status_code :: int
  rl_duration_ms :: int
  rl_stream :: bool
  rl_request_bytes :: int
  rl_response_bytes :: int
  rl_message_count :: int
  rl_image_count :: int
  rl_video_count :: int
  rl_audio_count :: int
  rl_max_tokens :: int
  rl_temperature :: "go_float option"
  rl_top_p :: "go_float option"
  rl_top_k :: "go_float option"
  rl_prompt_tokens :: int
  rl_completion_tokens :: int
  rl_total_tokens :: int
  rl_cache_tokens :: int
  rl_reasoning_tokens :: int
  rl_finish_reason :: string
  rl_error_type :: string
  rl_error_code :: string
  rl_error_message :: string
  rl_retry_count :: int
  rl_upstream_url :: string
  rl_request_headers :: "(string, string) gomap"
  rl_cost_by_token_rmb :: go_float
  rl_cost_by_request_rmb :: go_float
  rl_billing_per_request_usd :: go_float
  rl_billing_input_per_million_usd :: go_float
  rl_billing_output_per_million_usd :: go_float
  rl_billing_cached_input_per_million_usd :: go_float
  rl_model_used_cost_usd :: go_float
  rl_cost_calculated_at :: "time option"

record access_record =
  ar_last_access :: time
  ar_count :: "64 word"
  ar_status_counts :: "(string, 64 word) gomap"
  ar_prompt_tokens :: "64 word"
  ar_completion_tokens :: "64 word"
  ar_total_tokens :: "64 word"
  ar_cache_tokens :: "64 word"
  ar_reasoning_tokens :: "64 word"
  ar_duration_ms :: "64 word"
  ar_max_duration_ms :: "64 word"

definition zero_access_record :: access_record where
  "zero_access_record = \<lparr>ar_last_access = 0, ar_count = 0, ar_status_counts = [], ar_prompt_tokens = 0,
     ar_completion_tokens = 0, ar_total_tokens = 0, ar_cache_tokens = 0, ar_reasoning_tokens = 0,
     ar_duration_ms = 0, ar_max_duration_ms = 0\<rparr>"

record access_tracker =
  at_models :: "(string, access_record) gomap"
  at_worker_model :: "(string, (string, access_record) gomap) gomap"

definition new_access_tracker :: access_tracker where
  "new_access_tracker = \<lparr>at_models = [], at_worker_model = []\<rparr>"

definition default_replay_request_log_lines :: int where
  "default_replay_request_log_lines = 1000"

section \<open>Recording\<close>

definition model_record_of :: "access_tracker \<Rightarrow> string \<Rightarrow> access_record" where
  "model_record_of a m = mget zero_access_record (at_models a) m"

definition worker_record_of :: "access_tracker \<Rightarrow> string \<Rightarrow> string \<Rightarrow> access_record" where
  "worker_record_of a wid m = mget zero_access_record (mget [] (at_worker_model a) wid) m"

definition put_worker_record :: "string \<Rightarrow> string \<Rightarrow> access_record \<Rightarrow> access_tracker \<Rightarrow> access_tracker" where
  "put_worker_record wid m r a =
     a\<lparr>at_worker_model := mput wid (mput m r (mget [] (at_worker_model a) wid)) (at_worker_model a)\<rparr>"

definition touch_record :: "time \<Rightarrow> access_record \<Rightarrow> access_record" where
  "touch_record now r = r\<lparr>ar_last_access := now, ar_count := ar_count r + 1\<rparr>"

definition record_access :: "string \<Rightarrow> string \<Rightarrow> time \<Rightarrow> access_tracker \<Rightarrow> access_tracker" where
  "record_access m wid now a =
     (if m = [] then a
      else
        let a1 = a\<lparr>at_models := mput m (touch_record now (model_record_of a m)) (at_models a)\<rparr>
        in if wid = [] then a1
           else put_worker_record wid m (touch_record now (worker_record_of a1 wid m)) a1)"

text \<open>\<open>uint64(maxInt(x, 0))\<close>\<close>

definition counted :: "int \<Rightarrow> 64 word" where
  "counted x = word_of_int (max x 0)"

definition apply_request_stats :: "access_record \<Rightarrow> request_log_entry \<Rightarrow> access_record" where
  "apply_request_stats r e =
     (let r = r\<lparr>ar_last_access := rl_time e, ar_count := ar_count r + 1\<rparr>;
          code = itoa (rl_status_code e);
          r = (if rl_status_code e > 0
               then r\<lparr>ar_status_counts := mput code (mget 0 (ar_status_counts r) code + 1) (ar_status_counts r)\<rparr>
               else r);
          r = r\<lparr>ar_prompt_tokens := ar_prompt_tokens r + counted (rl_prompt_tokens e),
                ar_completion_tokens := ar_completion_tokens r + counted (rl_completion_tokens e),
                ar_total_tokens := ar_total_tokens r + counted (rl_total_tokens e),
                ar_cache_tokens := ar_cache_tokens r + counted (rl_cache_tokens e),
                ar_reasoning_tokens := ar_reasoning_tokens r + counted (rl_reasoning_tokens e)\<rparr>;
          duration = counted (rl_duration_ms e);
          r = r\<lparr>ar_duration_ms := ar_duration_ms r + duration\<rparr>
      in if duration > ar_max_duration_ms r then r\<lparr>ar_max_duration_ms := duration\<rparr> else r)"

definition record_access_request :: "time \<Rightarrow> request_log_entry \<Rightarrow> access_tracker \<Rightarrow> access_tracker" where
  "record_access_request clock e a =
     (if rl_model e = [] then a
      else
        let e = (if rl_time e = 0 then e\<lparr>rl_time := clock\<rparr> else e);
            m = rl_model e; wid = rl_worker_id e;
            a1 = a\<lparr>at_models := mput m (apply_request_stats (model_record_of a m) e) (at_models a)\<rparr>
        in if wid = [] then a1
           else put_worker_record wid m (apply_request_stats (worker_record_of a1 wid m) e) a1)"

section \<open>Reading\<close>

definition model_last_access :: "access_tracker \<Rightarrow> string \<Rightarrow> time" where
  "model_last_access a m = ar_last_access (model_record_of a m)"

definition worker_model_last_access :: "access_tracker \<Rightarrow> string \<Rightarrow> string \<Rightarrow> time" where
  "worker_model_last_access a wid m = ar_last_access (worker_record_of a wid m)"

definition model_count :: "access_tracker \<Rightarrow> string \<Rightarrow> 64 word" where
  "model_count a m = ar_count (model_record_of a m)"

definition worker_model_count :: "access_tracker \<Rightarrow> string \<Rightarrow> string \<Rightarrow> 64 word" where
  "worker_model_count a wid m = ar_count (worker_record_of a wid m)"

definition model_total_tokens :: "access_tracker \<Rightarrow> string \<Rightarrow> 64 word" where
  "model_total_tokens a m = ar_total_tokens (model_record_of a m)"

definition worker_model_status_count :: "access_tracker \<Rightarrow> string \<Rightarrow> string \<Rightarrow> int \<Rightarrow> 64 word" where
  "worker_model_status_count a wid m code =
     mget 0 (ar_status_counts (worker_record_of a wid m)) (itoa code)"

section \<open>Replay of the request log\<close>

text \<open>The state of the loop is the ring and the number of lines seen.\<close>

fun fill_ring :: "nat \<Rightarrow> string list \<Rightarrow> string list \<times> nat \<Rightarrow> string list \<times> nat" where
  "fill_ring limit [] st = st"
| "fill_ring limit (x # xs) (ring, count) =
     (let line = trim_space x
      in if line = [] then fill_ring limit xs (ring, count)
         else fill_ring limit xs (ring[count mod limit := line], count + 1))"

definition recent_request_log_lines :: "int \<Rightarrow> 'e + string list \<Rightarrow> 'e + string list" where
  "recent_request_log_lines limit0 scanned =
     (let limit = nat (if limit0 \<le> 0 then default_replay_request_log_lines else limit0)
      in case scanned of
           Inl e \<Rightarrow> Inl e
         | Inr xs \<Rightarrow>
             (let (ring, count) = fill_ring limit xs (replicate limit [], 0);
                  total = (if count > limit then limit else count);
                  start = (if count > limit then count mod limit else 0)
              in Inr (map (\<lambda>i. ring ! ((start + i) mod limit)) [0..<total])))"

datatype 'e log_file = NotExist | OpenError 'e | Opened "'e + string list"

definition load_access_tracker ::
  "(string \<Rightarrow> request_log_entry option) \<Rightarrow> time \<Rightarrow> string \<Rightarrow> 'e log_file \<Rightarrow> 'e + access_tracker" where
  "load_access_tracker decode clock path file =
     (if path = [] then Inr new_access_tracker
      else case file of
          NotExist \<Rightarrow> Inr new_access_tracker
        | OpenError e \<Rightarrow> Inl e
        | Opened scanned \<Rightarrow>
            (case recent_request_log_lines default_replay_request_log_lines scanned of
               Inl e \<Rightarrow> Inl e
             | Inr xs \<Rightarrow> Inr (fold (record_access_request clock) (List.map_filter decode xs) new_access_tracker)))"

section \<open>The ring keeps the last lines\<close>

definition take_last :: "nat \<Rightarrow> 'a list \<Rightarrow> 'a list" where
  "take_last n xs = drop (length xs - n) xs"

definition log_lines :: "string list \<Rightarrow> string list" where
  "log_lines xs = filter (\<lambda>x. x \<noteq> []) (map trim_space xs)"

text \<open>The ring after the lines \<open>seen\<close>: every one of the last \<open>limit\<close> lines stands at its index modulo \<open>limit\<close>.\<close>

definition ring_holds :: "nat \<Rightarrow> string list \<Rightarrow> string list \<Rightarrow> bool" where
  "ring_holds limit ring seen \<longleftrightarrow> length ring = limit \<and>
     (\<forall>j. length seen - limit \<le> j \<and> j < length seen \<longrightarrow> ring ! (j mod limit) = seen ! j)"

lemma ring_holds_snoc:
  assumes "ring_holds limit ring seen" "0 < limit"
  shows "ring_holds limit (ring[length seen mod limit := x]) (seen @ [x])"
  unfolding ring_holds_def
proof (intro conjI allI impI)
  show "length (ring[length seen mod limit := x]) = limit" using assms by (simp add: ring_holds_def)
  fix j assume j: "length (seen @ [x]) - limit \<le> j \<and> j < length (seen @ [x])"
  show "ring[length seen mod limit := x] ! (j mod limit) = (seen @ [x]) ! j"
  proof (cases "j = length seen")
    case True
    then show ?thesis using assms by (simp add: ring_holds_def)
  next
    case False
    with j have lt: "j < length seen" by simp
    have "j mod limit \<noteq> length seen mod limit"
    proof
      assume e: "j mod limit = length seen mod limit"
      then have "limit dvd length seen - j" using lt by (metis less_imp_le mod_eq_dvd_iff_nat)
      then have "limit \<le> length seen - j" using lt by (simp add: dvd_imp_le)
      moreover have "length seen + 1 - limit \<le> j" using j by simp
      ultimately show False using lt assms(2) by linarith
    qed
    then show ?thesis using assms lt j by (simp add: ring_holds_def nth_append)
  qed
qed

lemma fill_ring_holds:
  "ring_holds limit ring seen \<Longrightarrow> 0 < limit \<Longrightarrow> fill_ring limit xs (ring, length seen) = (ring', n) \<Longrightarrow>
   ring_holds limit ring' (seen @ log_lines xs) \<and> n = length (seen @ log_lines xs)"
proof (induction xs arbitrary: ring seen)
  case Nil
  then show ?case by (simp add: log_lines_def)
next
  case (Cons x xs)
  show ?case
  proof (cases "trim_space x = []")
    case True
    then show ?thesis using Cons by (simp add: log_lines_def)
  next
    case False
    let ?seen = "seen @ [trim_space x]"
    have "ring_holds limit (ring[length seen mod limit := trim_space x]) ?seen"
      by (rule ring_holds_snoc[OF Cons.prems(1,2)])
    moreover have "fill_ring limit xs (ring[length seen mod limit := trim_space x], length ?seen) = (ring', n)"
      using Cons.prems(3) False by (simp add: Let_def)
    ultimately have "ring_holds limit ring' (?seen @ log_lines xs) \<and> n = length (?seen @ log_lines xs)"
      using Cons.IH Cons.prems(2) by blast
    then show ?thesis using False by (simp add: log_lines_def)
  qed
qed

text \<open>
  The replay reads exactly the last \<open>limit\<close> lines of the log that are not blank, in the order of the
  file, however the ring buffer has wrapped around.
\<close>

theorem recent_lines_are_last:
  assumes "0 < limit"
  shows "recent_request_log_lines limit (Inr xs) = Inr (take_last (nat limit) (log_lines xs))"
proof -
  let ?l = "nat limit"
  have l: "0 < ?l" using assms by simp
  obtain ring n where f: "fill_ring ?l xs (replicate ?l [], 0) = (ring, n)" by fastforce
  have "ring_holds ?l (replicate ?l []) []" by (simp add: ring_holds_def)
  from fill_ring_holds[OF this l, of xs ring n] f
  have h: "ring_holds ?l ring (log_lines xs)" and n: "n = length (log_lines xs)" by simp_all
  have "map (\<lambda>i. ring ! (((if n > ?l then n mod ?l else 0) + i) mod ?l)) [0..<(if n > ?l then ?l else n)]
      = take_last ?l (log_lines xs)" (is "map ?f ?is = _")
  proof (rule nth_equalityI)
    show "length (map ?f ?is) = length (take_last ?l (log_lines xs))" by (simp add: take_last_def n)
    fix i assume "i < length (map ?f ?is)"
    then have i: "i < (if n > ?l then ?l else n)" by simp
    let ?j = "n - ?l + i"
    have j: "length (log_lines xs) - ?l \<le> ?j" "?j < length (log_lines xs)"
      using i by (auto simp: n split: if_splits)
    have "((if n > ?l then n mod ?l else 0) + i) mod ?l = ?j mod ?l"
    proof (cases "n > ?l")
      case True
      then have "(n mod ?l + i) mod ?l = (n + i) mod ?l" by (simp add: mod_add_left_eq)
      also have "\<dots> = (n - ?l + i) mod ?l" using True by (metis Nat.add_diff_assoc2 less_imp_le mod_add_self2 le_add_diff_inverse2 add.commute add.left_commute)
      finally show ?thesis using True by simp
    qed simp
    then have "map ?f ?is ! i = log_lines xs ! ?j"
      using i j h by (simp add: ring_holds_def)
    also have "\<dots> = take_last ?l (log_lines xs) ! i" using j by (simp add: take_last_def n)
    finally show "map ?f ?is ! i = take_last ?l (log_lines xs) ! i" .
  qed
  then show ?thesis using assms by (simp add: recent_request_log_lines_def f Let_def)
qed

theorem recent_lines_are_last_witness:
  "(recent_request_log_lines 2 (Inr [''a'', '' '', ''b'', ''c'', ''d ''])) = (Inr [''c'', ''d''] :: unit + string list)"
proof -
  have "take_last (nat 2) (log_lines [''a'', '' '', ''b'', ''c'', ''d '']) = [''c'', ''d'']" by code_simp
  then show ?thesis using recent_lines_are_last[of 2 "[''a'', '' '', ''b'', ''c'', ''d '']", where ?'a = unit] by simp
qed

section \<open>What the counters add up to\<close>

definition stamped :: "time \<Rightarrow> request_log_entry \<Rightarrow> request_log_entry" where
  "stamped clock e = (if rl_time e = 0 then e\<lparr>rl_time := clock\<rparr> else e)"

lemma stamped_fields [simp]:
  "rl_model (stamped clock e) = rl_model e" "rl_worker_id (stamped clock e) = rl_worker_id e"
  "rl_status_code (stamped clock e) = rl_status_code e" "rl_total_tokens (stamped clock e) = rl_total_tokens e"
  "rl_duration_ms (stamped clock e) = rl_duration_ms e"
  by (simp_all add: stamped_def)

lemma record_request_eq:
  "record_access_request clock e a =
     (if rl_model e = [] then a
      else let a1 = a\<lparr>at_models := mput (rl_model e) (apply_request_stats (model_record_of a (rl_model e)) (stamped clock e)) (at_models a)\<rparr>
        in if rl_worker_id e = [] then a1
           else put_worker_record (rl_worker_id e) (rl_model e)
             (apply_request_stats (worker_record_of a (rl_worker_id e) (rl_model e)) (stamped clock e)) a1)"
  by (simp add: record_access_request_def Let_def stamped_def worker_record_of_def)

lemma record_request_lookup:
  "m \<noteq> [] \<Longrightarrow> model_record_of (record_access_request clock e a) m =
     (if rl_model e = m then apply_request_stats (model_record_of a m) (stamped clock e) else model_record_of a m)"
  "m \<noteq> [] \<Longrightarrow> wid \<noteq> [] \<Longrightarrow> worker_record_of (record_access_request clock e a) wid m =
     (if rl_model e = m \<and> rl_worker_id e = wid then apply_request_stats (worker_record_of a wid m) (stamped clock e)
      else worker_record_of a wid m)"
  by (auto simp: record_request_eq model_record_of_def worker_record_of_def put_worker_record_def Let_def)

definition apply_all :: "time \<Rightarrow> request_log_entry list \<Rightarrow> access_record \<Rightarrow> access_record" where
  "apply_all clock es r = fold (\<lambda>e r. apply_request_stats r (stamped clock e)) es r"

lemma replay_lookup:
  "m \<noteq> [] \<Longrightarrow> model_record_of (fold (record_access_request clock) es a) m =
     apply_all clock (filter (\<lambda>e. rl_model e = m) es) (model_record_of a m)"
  "m \<noteq> [] \<Longrightarrow> wid \<noteq> [] \<Longrightarrow> worker_record_of (fold (record_access_request clock) es a) wid m =
     apply_all clock (filter (\<lambda>e. rl_model e = m \<and> rl_worker_id e = wid) es) (worker_record_of a wid m)"
  by (induction es arbitrary: a) (auto simp: apply_all_def record_request_lookup)

lemma apply_stats_fields:
  "ar_count (apply_request_stats r e) = ar_count r + 1"
  "ar_total_tokens (apply_request_stats r e) = ar_total_tokens r + counted (rl_total_tokens e)"
  "ar_last_access (apply_request_stats r e) = rl_time e"
  "ar_max_duration_ms (apply_request_stats r e) = max (counted (rl_duration_ms e)) (ar_max_duration_ms r)"
  "0 < code \<Longrightarrow> mget 0 (ar_status_counts (apply_request_stats r e)) (itoa code) =
     mget 0 (ar_status_counts r) (itoa code) + (if rl_status_code e = code then 1 else 0)"
  by (auto simp: apply_request_stats_def Let_def max_def)

lemma apply_all_fields:
  "ar_count (apply_all clock es r) = ar_count r + of_nat (length es)"
  "ar_total_tokens (apply_all clock es r) = ar_total_tokens r + word_of_int (\<Sum>e\<leftarrow>es. max (rl_total_tokens e) 0)"
  "ar_last_access (apply_all clock es r) = (if es = [] then ar_last_access r else rl_time (stamped clock (last es)))"
  "0 < code \<Longrightarrow> mget 0 (ar_status_counts (apply_all clock es r)) (itoa code) =
     mget 0 (ar_status_counts r) (itoa code) + of_nat (length (filter (\<lambda>e. rl_status_code e = code) es))"
  unfolding apply_all_def
  by (induction es arbitrary: r) (auto simp: apply_stats_fields counted_def add_ac)

lemma apply_all_max:
  "e \<in> set es \<or> counted (rl_duration_ms e) \<le> ar_max_duration_ms r \<Longrightarrow>
     counted (rl_duration_ms e) \<le> ar_max_duration_ms (apply_all clock es r)"
  unfolding apply_all_def
  by (induction es arbitrary: r) (auto simp: apply_stats_fields max.coboundedI2)

text \<open>
  After replaying any sequence of log entries the counters of a model and of a worker and model
  are what the entries add up to, modulo 2 to the 64: the number of requests, the tokens (negative
  counts taken as zero), the requests per status; the last access is that of the last entry, and the
  largest duration bounds every one seen.
\<close>

theorem replay_adds_up:
  assumes "m \<noteq> []" "wid \<noteq> []" "0 < code"
  shows "let a = fold (record_access_request clock) entries new_access_tracker;
      es = filter (\<lambda>e. rl_model e = m) entries;
      ws = filter (\<lambda>e. rl_model e = m \<and> rl_worker_id e = wid) entries
    in model_count a m = of_nat (length es) \<and>
       model_total_tokens a m = word_of_int (\<Sum>e\<leftarrow>es. max (rl_total_tokens e) 0) \<and>
       worker_model_count a wid m = of_nat (length ws) \<and>
       worker_model_status_count a wid m code = of_nat (length (filter (\<lambda>e. rl_status_code e = code) ws)) \<and>
       (es \<noteq> [] \<longrightarrow> model_last_access a m = rl_time (stamped clock (last es))) \<and>
       (ws \<noteq> [] \<longrightarrow> worker_model_last_access a wid m = rl_time (stamped clock (last ws))) \<and>
       (\<forall>e \<in> set es. counted (rl_duration_ms e) \<le> ar_max_duration_ms (model_record_of a m))"
proof -
  have z: "model_record_of new_access_tracker m = zero_access_record"
    "worker_record_of new_access_tracker wid m = zero_access_record"
    by (simp_all add: model_record_of_def worker_record_of_def new_access_tracker_def)
  show ?thesis
    unfolding Let_def model_count_def model_total_tokens_def worker_model_count_def
      worker_model_status_count_def model_last_access_def worker_model_last_access_def
      replay_lookup[OF assms(1)] replay_lookup(2)[OF assms(1,2)] z
    using apply_all_max[where r = zero_access_record]
    by (simp add: apply_all_fields(1-3) apply_all_fields(4)[OF assms(3)] zero_access_record_def)
qed

definition zero_entry :: request_log_entry where
  "zero_entry = \<lparr>rl_time = 0, rl_request_id = [], rl_model = [], rl_requested_model = [], rl_worker_id = [],
     rl_tag = [], rl_status_code = 0, rl_duration_ms = 0, rl_stream = False, rl_request_bytes = 0,
     rl_response_bytes = 0, rl_message_count = 0, rl_image_count = 0, rl_video_count = 0, rl_audio_count = 0,
     rl_max_tokens = 0, rl_temperature = None, rl_top_p = None, rl_top_k = None, rl_prompt_tokens = 0,
     rl_completion_tokens = 0, rl_total_tokens = 0, rl_cache_tokens = 0, rl_reasoning_tokens = 0,
     rl_finish_reason = [], rl_error_type = [], rl_error_code = [], rl_error_message = [], rl_retry_count = 0,
     rl_upstream_url = [], rl_request_headers = [], rl_cost_by_token_rmb = Finite 0,
     rl_cost_by_request_rmb = Finite 0, rl_billing_per_request_usd = Finite 0,
     rl_billing_input_per_million_usd = Finite 0, rl_billing_output_per_million_usd = Finite 0,
     rl_billing_cached_input_per_million_usd = Finite 0, rl_model_used_cost_usd = Finite 0,
     rl_cost_calculated_at = None\<rparr>"

definition example_entry :: "string \<Rightarrow> int \<Rightarrow> request_log_entry" where
  "example_entry wid tokens = zero_entry\<lparr>rl_time := 4 * second, rl_model := ''m'', rl_worker_id := wid,
     rl_status_code := 200, rl_total_tokens := tokens, rl_duration_ms := 10\<rparr>"

theorem replay_adds_up_witness:
  "let a = fold (record_access_request 0) [example_entry ''w'' 7, example_entry ''v'' (-1)] new_access_tracker
   in model_count a ''m'' = 2 \<and> model_total_tokens a ''m'' = 7 \<and> worker_model_status_count a ''w'' ''m'' 200 = 1"
  using replay_adds_up[of "''m''" "''w''" 200 0 "[example_entry ''w'' 7, example_entry ''v'' (-1)]"]
  by (simp add: Let_def example_entry_def)

end
