(* ===== verification/Placement.thy ===== *)
theory Placement
  imports Workers Cooldowns Pressure Access
begin

text \<open>
  Placement (internal/gateway/scheduler.go, internal/gateway/placement.go): which ready replica serves
  a request, and which models the gateway warms or unloads. The registry, the access statistics and
  the pressure tracker are optional, as the pointers are. \<open>Snapshot\<close> prunes the registry and
  \<open>Model\<close> prunes the pressure tracker, so the operations return the placement with both updated. The
  several calls into the registry within one operation see the same registry.
\<close>

section \<open>Candidates and scores\<close>

datatype schedule_reason =
    ReadyIdle | ReadyBusy | ReadyBusyScaleOut | SameModelLoading | EmptyScaleOut | SwitchScaleOut
  | EmptyColdStart | SwitchColdStart | MaxLoadedSatisfied

definition ready_word :: string where "ready_word = ''ready''"
definition stale_config_word :: string where "stale_config_word = ''stale_config''"

definition score_schedule_candidate ::
  "worker \<Rightarrow> string \<Rightarrow> bool \<Rightarrow> bool \<Rightarrow> bool \<Rightarrow> int \<Rightarrow> int \<Rightarrow> int \<times> schedule_reason" where
  "score_schedule_candidate w state running_same_model can_scale_out target_loaded ready_count active_requests =
     (if equal_fold state ready_word then
        (if active_requests = 0 then (600, ReadyIdle)
         else if can_scale_out then (100 - active_requests, ReadyBusyScaleOut)
         else (500 - active_requests, ReadyBusy))
      else if running_same_model then
        (if ready_count = 0 then (450 - active_requests, SameModelLoading)
         else (350 - active_requests, SameModelLoading))
      else if can_scale_out then
        (if w_running_models w = [] then (400 - active_requests, EmptyScaleOut)
         else (200 - active_requests, SwitchScaleOut))
      else if \<not> target_loaded \<and> w_running_models w = [] then (100 - active_requests, EmptyColdStart)
      else if \<not> target_loaded then (50 - active_requests, SwitchColdStart)
      else (0, MaxLoadedSatisfied))"

definition allowed_model :: "tag_policy \<Rightarrow> string \<Rightarrow> bool" where
  "allowed_model policy m = (\<exists>allowed \<in> set (tp_allowed_models policy). allowed = m)"

definition tag_policy_of :: "gateway_config \<Rightarrow> string \<Rightarrow> tag_policy option" where
  "tag_policy_of cfg tag = map_of (gc_tag_policies cfg) tag"

definition worker_allows_model :: "gateway_config \<Rightarrow> worker \<Rightarrow> string \<Rightarrow> bool" where
  "worker_allows_model cfg w m =
     (\<exists>tag \<in> set (w_tags w). case tag_policy_of cfg tag of None \<Rightarrow> False | Some policy \<Rightarrow> allowed_model policy m)"

definition running_model_state :: "worker \<Rightarrow> string \<Rightarrow> string option" where
  "running_model_state w m =
     (case find (\<lambda>running. rm_model running = m) (w_running_models w) of
        None \<Rightarrow> None
      | Some running \<Rightarrow> Some (to_lower (trim_space (rm_state running))))"

definition running_model_ready :: "worker \<Rightarrow> string \<Rightarrow> bool" where
  "running_model_ready w m =
     (case running_model_state w m of None \<Rightarrow> False | Some state \<Rightarrow> equal_fold state ready_word)"

definition artifact_ready :: "worker \<Rightarrow> string \<Rightarrow> bool" where
  "artifact_ready w m = equal_fold (mget [] (w_artifacts w) m) ready_word"

definition artifact_refreshable :: "worker \<Rightarrow> string \<Rightarrow> bool" where
  "artifact_refreshable w m =
     (let status = mget [] (w_artifacts w) m
      in equal_fold status ready_word \<or> equal_fold status stale_config_word)"

section \<open>Placement\<close>

record placement =
  pl_config :: gateway_config
  pl_workers :: "registry option"
  pl_access :: "access_tracker option"
  pl_pressure :: "pressure_tracker option"
  pl_cooldowns :: cooldown_snapshot

record placement_candidate =
  pc_worker_id :: string
  pc_reason :: schedule_reason
  pc_score :: int
  pc_active_requests :: int
  pc_running_state :: string
  pc_running_models :: int

record placement_decision =
  pd_worker :: "worker option"
  pd_reason :: "schedule_reason option"
  pd_ready_replicas :: int
  pd_occupied_replicas :: int
  pd_max_loaded :: int
  pd_max_loaded_auto :: bool
  pd_candidates :: "placement_candidate list"

definition zero_decision :: placement_decision where
  "zero_decision = \<lparr>pd_worker = None, pd_reason = None, pd_ready_replicas = 0, pd_occupied_replicas = 0,
     pd_max_loaded = 0, pd_max_loaded_auto = False, pd_candidates = []\<rparr>"

datatype placement_error =
  UnknownModel string | NoHealthyWorker string | NoReadyWorker string | MaxLoadedZero string

record scored_placement_worker =
  sp_worker :: worker
  sp_score :: int
  sp_reason :: schedule_reason
  sp_active_requests :: int
  sp_running_state :: string

definition placement_candidates :: "scored_placement_worker list \<Rightarrow> placement_candidate list" where
  "placement_candidates scored =
     map (\<lambda>c. \<lparr>pc_worker_id = w_id (sp_worker c), pc_reason = sp_reason c, pc_score = sp_score c,
       pc_active_requests = sp_active_requests c, pc_running_state = sp_running_state c,
       pc_running_models = int (length (w_running_models (sp_worker c)))\<rparr>) scored"

text \<open>\<open>p.Workers != nil && !p.Workers.Healthy(...)\<close> is \<open>\<not> placement_healthy\<close>.\<close>

definition placement_healthy :: "placement \<Rightarrow> string \<Rightarrow> time \<Rightarrow> bool" where
  "placement_healthy p wid now = (case pl_workers p of None \<Rightarrow> True | Some r \<Rightarrow> healthy r wid now)"

definition effective_max_loaded :: "placement \<Rightarrow> model \<Rightarrow> worker list \<Rightarrow> string \<Rightarrow> time \<Rightarrow> int \<times> bool" where
  "effective_max_loaded p model workers model_name now =
     (if \<not> max_loaded_is_auto model then (hard_max_loaded model, False)
      else (int (length (filter (\<lambda>w. placement_healthy p (w_id w) now \<and>
              worker_allows_model (pl_config p) w model_name \<and> artifact_refreshable w model_name) workers)), True))"

section \<open>PickReadyWorker\<close>

text \<open>The three counts of the first loop: ready, occupied, eligible.\<close>

definition count_replica :: "placement \<Rightarrow> string \<Rightarrow> time \<Rightarrow> worker \<Rightarrow> int \<times> int \<times> int \<Rightarrow> int \<times> int \<times> int" where
  "count_replica p m now w counts =
     (case counts of (ready, occupied, eligible) \<Rightarrow>
       if \<not> placement_healthy p (w_id w) now then counts
       else if \<not> worker_allows_model (pl_config p) w m then counts
       else
         let state = running_model_state w m;
             occupied = (if state \<noteq> None then occupied + 1 else occupied)
         in if \<not> artifact_ready w m then (ready, occupied, eligible)
            else (if (case state of None \<Rightarrow> False | Some s \<Rightarrow> equal_fold s ready_word)
                  then ready + 1 else ready, occupied, eligible + 1))"

text \<open>The body of the second loop: a scored candidate, or \<open>continue\<close>.\<close>

definition ready_candidate ::
  "placement \<Rightarrow> string \<Rightarrow> time \<Rightarrow> (string, bool) gomap \<Rightarrow> (string, int) gomap \<Rightarrow> bool \<Rightarrow> int \<Rightarrow> worker \<Rightarrow>
   scored_placement_worker option" where
  "ready_candidate p m now exclude active can_scale_out ready_count w =
     (if mget False exclude (w_id w) then None
      else if \<not> placement_healthy p (w_id w) now then None
      else if \<not> worker_allows_model (pl_config p) w m then None
      else if \<not> artifact_ready w m then None
      else if snapshot_cooling (pl_cooldowns p) (w_id w) m now then None
      else case running_model_state w m of
          None \<Rightarrow> None
        | Some state \<Rightarrow>
            if \<not> equal_fold state ready_word then None
            else
              let n = mget 0 active (w_id w);
                  (score, reason) = score_schedule_candidate w state True can_scale_out (ready_count > 0) ready_count n
              in Some \<lparr>sp_worker = w, sp_score = score, sp_reason = reason, sp_active_requests = n,
                       sp_running_state = state\<rparr>)"

definition pick_ready_worker ::
  "string \<Rightarrow> time \<Rightarrow> (string, bool) gomap \<Rightarrow> placement \<Rightarrow>
   (placement_decision \<times> placement_error option) \<times> placement" where
  "pick_ready_worker m now exclude p =
     (case map_of (gc_models (pl_config p)) m of
        None \<Rightarrow> ((zero_decision, Some (UnknownModel m)), p)
      | Some model_cfg \<Rightarrow>
     (case pl_workers p of
        None \<Rightarrow> ((zero_decision, Some (NoHealthyWorker m)), p)
      | Some reg \<Rightarrow>
       (let (workers, reg') = snapshot now reg;
            p = p\<lparr>pl_workers := Some reg'\<rparr>;
            active = active_snapshot reg';
            (ready_count, occupied_count, eligible_count) = fold (count_replica p m now) workers (0, 0, 0);
            (max_loaded, max_loaded_auto) = effective_max_loaded p model_cfg workers m now;
            counted = zero_decision\<lparr>pd_ready_replicas := ready_count, pd_occupied_replicas := occupied_count,
              pd_max_loaded := max_loaded, pd_max_loaded_auto := max_loaded_auto\<rparr>
        in if max_loaded \<le> 0 \<and> \<not> max_loaded_auto then ((counted, Some (MaxLoadedZero m)), p)
           else
             let can_scale_out = (max_loaded > 0 \<and> occupied_count < max_loaded);
                 candidates = List.map_filter (ready_candidate p m now exclude active can_scale_out ready_count) workers
             in if candidates = [] then
                  (if ready_count > 0 then ((counted, Some (NoHealthyWorker m)), p)
                   else if eligible_count > 0 \<or> occupied_count > 0 then ((counted, Some (NoReadyWorker m)), p)
                   else ((zero_decision, Some (NoHealthyWorker m)), p))
                else
                  let sorted = sort_key (\<lambda>c. (- sp_score c, w_id (sp_worker c))) candidates; picked = hd sorted
                  in ((counted\<lparr>pd_worker := Some (sp_worker picked), pd_reason := Some (sp_reason picked),
                       pd_candidates := placement_candidates sorted\<rparr>, None), p))))"

section \<open>The scheduler\<close>

text \<open>\<open>ScheduleCandidate\<close> and \<open>ScheduleDecision\<close> have the fields of their placement counterparts.\<close>

type_synonym schedule_candidate = placement_candidate
type_synonym schedule_decision = placement_decision

definition schedule_candidates_from_placement :: "placement_candidate list \<Rightarrow> schedule_candidate list" where
  "schedule_candidates_from_placement cs =
     map (\<lambda>c. \<lparr>pc_worker_id = pc_worker_id c, pc_reason = pc_reason c, pc_score = pc_score c,
       pc_active_requests = pc_active_requests c, pc_running_state = pc_running_state c,
       pc_running_models = pc_running_models c\<rparr>) cs"

definition pick_decision ::
  "string \<Rightarrow> time \<Rightarrow> (string, bool) gomap \<Rightarrow> placement \<Rightarrow>
   (schedule_decision \<times> placement_error option) \<times> placement" where
  "pick_decision m now exclude p =
     (let ((d, err), p') = pick_ready_worker m now exclude p;
          counted = zero_decision\<lparr>pd_ready_replicas := pd_ready_replicas d, pd_occupied_replicas := pd_occupied_replicas d,
            pd_max_loaded := pd_max_loaded d, pd_max_loaded_auto := pd_max_loaded_auto d,
            pd_candidates := schedule_candidates_from_placement (pd_candidates d)\<rparr>
      in if err \<noteq> None then ((counted, err), p')
         else ((counted\<lparr>pd_worker := pd_worker d, pd_reason := pd_reason d\<rparr>, None), p'))"

definition pick ::
  "string \<Rightarrow> time \<Rightarrow> (string, bool) gomap \<Rightarrow> placement \<Rightarrow> (placement_error + worker option) \<times> placement" where
  "pick m now exclude p =
     (let ((d, err), p') = pick_decision m now exclude p
      in (case err of Some e \<Rightarrow> Inl e | None \<Rightarrow> Inr (pd_worker d), p'))"

section \<open>Counting replicas\<close>

definition sorted_workers_by_id :: "worker list \<Rightarrow> worker list" where
  "sorted_workers_by_id workers = sort_key w_id workers"

definition occupied_model_count :: "placement \<Rightarrow> worker list \<Rightarrow> time \<Rightarrow> string \<Rightarrow> int" where
  "occupied_model_count p workers now m =
     int (length (filter (\<lambda>w. placement_healthy p (w_id w) now \<and> running_model_state w m \<noteq> None) workers))"

definition active_count_for_ready_model :: "worker list \<Rightarrow> (string, int) gomap \<Rightarrow> string \<Rightarrow> int" where
  "active_count_for_ready_model workers active m =
     (\<Sum>w \<leftarrow> workers. if running_model_ready w m then mget 0 active (w_id w) else 0)"

definition placement_model_names_by_priority :: "gateway_config \<Rightarrow> string list" where
  "placement_model_names_by_priority cfg =
     sort_key (\<lambda>name. (- m_priority (mget zero_model (gc_models cfg) name), name)) (mkeys (gc_models cfg))"

definition bump_count :: "string \<Rightarrow> (string, int) gomap \<Rightarrow> (string, int) gomap" where
  "bump_count m counts = mput m (mget 0 counts m + 1) counts"

text \<open>\<open>runningModelCounts\<close> (internal/gateway/reconcile.go): ready replicas on healthy workers.\<close>

definition running_model_counts :: "placement \<Rightarrow> worker list \<Rightarrow> time \<Rightarrow> (string, int) gomap" where
  "running_model_counts p workers now =
     fold (\<lambda>w counts. if \<not> placement_healthy p (w_id w) now then counts
        else fold (\<lambda>running counts. if equal_fold (rm_state running) ready_word
               then bump_count (rm_model running) counts else counts) (w_running_models w) counts)
       workers []"

section \<open>Who may be warmed or unloaded\<close>

definition warm_eligible_worker :: "placement \<Rightarrow> worker \<Rightarrow> time \<Rightarrow> (string, int) gomap \<Rightarrow> string \<Rightarrow> bool" where
  "warm_eligible_worker p w now active m =
     (if \<not> placement_healthy p (w_id w) now then False
      else if mget 0 active (w_id w) > 0 then False
      else if \<not> worker_allows_model (pl_config p) w m \<or> \<not> artifact_ready w m then False
      else if snapshot_cooling (pl_cooldowns p) (w_id w) m now then False
      else running_model_state w m = None)"

definition warm_eviction_candidate_worker :: "placement \<Rightarrow> worker \<Rightarrow> time \<Rightarrow> (string, int) gomap \<Rightarrow> string \<Rightarrow> bool" where
  "warm_eviction_candidate_worker p w now active m =
     (if \<not> placement_healthy p (w_id w) now then False
      else if mget 0 active (w_id w) > 0 then False
      else if \<not> worker_allows_model (pl_config p) w m \<or> \<not> artifact_refreshable w m then False
      else if snapshot_cooling (pl_cooldowns p) (w_id w) m now then False
      else running_model_state w m = None)"

definition can_unload_model :: "placement \<Rightarrow> string \<Rightarrow> (string, int) gomap \<Rightarrow> bool" where
  "can_unload_model p m loaded_counts =
     (case map_of (gc_models (pl_config p)) m of
        None \<Rightarrow> True
      | Some model \<Rightarrow> mget 0 loaded_counts m > m_min_loaded model \<or> m_min_loaded model = 0)"

definition has_excess_replica :: "placement \<Rightarrow> string \<Rightarrow> (string, int) gomap \<Rightarrow> bool" where
  "has_excess_replica p m loaded_counts =
     (case map_of (gc_models (pl_config p)) m of
        None \<Rightarrow> mget 0 loaded_counts m > 0
      | Some model \<Rightarrow>
          if m_min_loaded model \<le> 0 then mget 0 loaded_counts m > 0
          else mget 0 loaded_counts m > m_min_loaded model)"

definition protected_at :: "running_model \<Rightarrow> time \<Rightarrow> bool" where
  "protected_at running now = (rm_protected_until running \<noteq> 0 \<and> now < rm_protected_until running)"

definition keep_score ::
  "placement \<Rightarrow> time \<Rightarrow> string \<Rightarrow> running_model \<Rightarrow> int \<Rightarrow> (string, int) gomap \<Rightarrow> int" where
  "keep_score p now wid running active loaded_counts =
     (let model = mget zero_model (gc_models (pl_config p)) (rm_model running);
          score = m_priority model;
          score = (if mget 0 loaded_counts (rm_model running) \<le> m_min_loaded model then score + 120 else score);
          score = (if protected_at running now then score + 80 else score);
          score = (if active > 0 then score + 50 else score);
          score = (case pl_access p of
                     None \<Rightarrow> score
                   | Some a \<Rightarrow>
                       let last = worker_model_last_access a wid (rm_model running)
                       in if last \<noteq> 0 \<and> time_sub now last \<le> default_pressure_window then score + 30 else score)
      in if m_min_loaded model = 0 then score - 40 else score)"

end
