(* ===== verification/Planning.thy ===== *)
theory Planning
  imports Placement
begin

text \<open>
  The plan of control actions (internal/gateway/placement.go): warming empty workers for models below
  their minimum, freeing a worker when none is empty, and otherwise scaling out the model under the
  most pressure. The choice of a victim uses the linear order \<open>eviction_rank\<close>; the choice among
  evictions for a scale-out the order \<open>eviction_key\<close>.
\<close>

section \<open>Actions\<close>

datatype control_action_type = ControlActionUnload | ControlActionWarm

record control_action =
  ca_type :: control_action_type
  ca_worker :: worker
  ca_model :: string
  ca_reason :: string
  ca_victim_model :: string
  ca_demand_score :: int
  ca_keep_score :: int
  ca_switch_cost :: int

definition plain_action :: "control_action_type \<Rightarrow> worker \<Rightarrow> string \<Rightarrow> string \<Rightarrow> control_action" where
  "plain_action t w m reason = \<lparr>ca_type = t, ca_worker = w, ca_model = m, ca_reason = reason,
     ca_victim_model = [], ca_demand_score = 0, ca_keep_score = 0, ca_switch_cost = 0\<rparr>"

section \<open>The order of eviction\<close>

datatype eviction_rank = EvictionRank
  (er_min_loaded_zero: bool) (er_priority: int) (er_last_access: time) (er_worker_id: string)

instantiation eviction_rank :: linorder
begin

definition less_eviction_rank :: "eviction_rank \<Rightarrow> eviction_rank \<Rightarrow> bool" where
  "r < other =
     (if er_min_loaded_zero r \<noteq> er_min_loaded_zero other then er_min_loaded_zero r
      else if er_priority r \<noteq> er_priority other then er_priority r < er_priority other
      else if er_last_access r \<noteq> er_last_access other then er_last_access r < er_last_access other
      else er_worker_id r < er_worker_id other)"

definition less_eq_eviction_rank :: "eviction_rank \<Rightarrow> eviction_rank \<Rightarrow> bool" where
  "r \<le> other = (r = other \<or> r < (other :: eviction_rank))"

instance
proof
  fix x y z :: eviction_rank
  show "x < y \<longleftrightarrow> x \<le> y \<and> \<not> y \<le> x"
    by (cases x; cases y) (auto simp: less_eq_eviction_rank_def less_eviction_rank_def)
  show "x \<le> x" by (simp add: less_eq_eviction_rank_def)
  show "x \<le> y \<Longrightarrow> y \<le> z \<Longrightarrow> x \<le> z"
    by (cases x; cases y; cases z)
      (auto simp: less_eq_eviction_rank_def less_eviction_rank_def split: if_splits)
  show "x \<le> y \<Longrightarrow> y \<le> x \<Longrightarrow> x = y"
    by (cases x; cases y) (auto simp: less_eq_eviction_rank_def less_eviction_rank_def split: if_splits)
  show "x \<le> y \<or> y \<le> x"
    by (cases x; cases y) (auto simp: less_eq_eviction_rank_def less_eviction_rank_def)
qed

end

definition eviction_rank_of :: "placement \<Rightarrow> string \<Rightarrow> string \<Rightarrow> eviction_rank" where
  "eviction_rank_of p wid m =
     (let model = mget zero_model (gc_models (pl_config p)) m;
          last = (case pl_access p of None \<Rightarrow> 0 | Some a \<Rightarrow> worker_model_last_access a wid m)
      in EvictionRank (m_min_loaded model = 0) (m_priority model) last wid)"

text \<open>The pairs the two loops look at, in their order: a worker and a running model on it.\<close>

definition worker_victims ::
  "placement \<Rightarrow> time \<Rightarrow> (string, int) gomap \<Rightarrow> (string, int) gomap \<Rightarrow> string \<Rightarrow> worker \<Rightarrow> (worker \<times> running_model) list" where
  "worker_victims p now active loaded_counts target w =
     (if mget 0 active (w_id w) > 0 then []
      else if running_model_ready w target then []
      else if \<not> worker_allows_model (pl_config p) w target \<or> \<not> artifact_refreshable w target then []
      else map (Pair w) (filter (\<lambda>running.
          \<not> (\<not> equal_fold (rm_state running) ready_word \<or> rm_model running = target) \<and>
          \<not> protected_at running now \<and> can_unload_model p (rm_model running) loaded_counts)
        (w_running_models w)))"

definition pick_eviction_victim ::
  "placement \<Rightarrow> time \<Rightarrow> worker list \<Rightarrow> (string, int) gomap \<Rightarrow> (string, int) gomap \<Rightarrow> string \<Rightarrow>
   (worker \<times> string) option" where
  "pick_eviction_victim p now workers active loaded_counts target =
     map_option (\<lambda>(w, running). (w, rm_model running))
       (pick_best (\<lambda>(w, running) (w', running').
            eviction_rank_of p (w_id w) (rm_model running) < eviction_rank_of p (w_id w') (rm_model running'))
          (concat (map (worker_victims p now active loaded_counts target) workers)))"

section \<open>Warming an empty worker\<close>

definition pick_empty_warm_worker ::
  "placement \<Rightarrow> time \<Rightarrow> worker list \<Rightarrow> (string, int) gomap \<Rightarrow> string \<Rightarrow> string list \<Rightarrow> worker option" where
  "pick_empty_warm_worker p now workers active m excluded =
     find (\<lambda>w. w_id w \<notin> set excluded \<and> warm_eligible_worker p w now active m \<and> w_running_models w = [])
       (sorted_workers_by_id workers)"

text \<open>The loop \<open>for occupiedCount < targetCount\<close>; it returns the count, the reserved workers and the actions.\<close>

function warm_up_to ::
  "placement \<Rightarrow> time \<Rightarrow> worker list \<Rightarrow> (string, int) gomap \<Rightarrow> string \<Rightarrow> int \<Rightarrow> int \<Rightarrow> string list \<Rightarrow>
   control_action list \<Rightarrow> int \<times> string list \<times> control_action list" where
  "warm_up_to p now workers active m target occupied reserved actions =
     (if \<not> occupied < target then (occupied, reserved, actions)
      else case pick_empty_warm_worker p now workers active m reserved of
          None \<Rightarrow> (occupied, reserved, actions)
        | Some w \<Rightarrow> warm_up_to p now workers active m target (occupied + 1) (w_id w # reserved)
            (actions @ [plain_action ControlActionWarm w m ''warm_for_min_loaded_empty_worker'']))"
  by pat_completeness auto
termination
  by (relation "measure (\<lambda>(p, now, workers, active, m, target, occupied, reserved, actions). nat (target - occupied))") auto

declare warm_up_to.simps [simp del]

text \<open>The loop over the models below their minimum: the early return of one unload, or what it leaves.\<close>

datatype floor_result = FloorReturn "control_action list" | FloorDone bool "control_action list"

fun plan_floors ::
  "placement \<Rightarrow> time \<Rightarrow> worker list \<Rightarrow> (string, int) gomap \<Rightarrow> (string, int) gomap \<Rightarrow> string list \<Rightarrow>
   bool \<Rightarrow> string list \<Rightarrow> control_action list \<Rightarrow> floor_result" where
  "plan_floors p now workers active loaded [] low reserved actions = FloorDone low actions"
| "plan_floors p now workers active loaded (m # ms) low reserved actions =
     (let model = mget zero_model (gc_models (pl_config p)) m
      in if m_min_loaded model \<le> 0 then plan_floors p now workers active loaded ms low reserved actions
         else
           let occupied = occupied_model_count p workers now m
           in if occupied \<ge> m_min_loaded model then plan_floors p now workers active loaded ms low reserved actions
              else
                let max_loaded = fst (effective_max_loaded p model workers m now)
                in if max_loaded \<le> 0 \<or> occupied \<ge> max_loaded
                   then plan_floors p now workers active loaded ms low reserved actions
                   else
                     let target = min (m_min_loaded model) max_loaded;
                         (occupied, reserved, actions) = warm_up_to p now workers active m target occupied reserved actions
                     in if occupied \<ge> target \<or> actions \<noteq> []
                        then plan_floors p now workers active loaded ms True reserved actions
                        else case pick_eviction_victim p now workers active loaded m of
                            None \<Rightarrow> plan_floors p now workers active loaded ms True reserved actions
                          | Some (victim, victim_model) \<Rightarrow>
                              FloorReturn [plain_action ControlActionUnload victim victim_model ''free_capacity_for_min_loaded''])"

section \<open>Scaling out under pressure\<close>

definition warm_evictions_on ::
  "placement \<Rightarrow> time \<Rightarrow> (string, int) gomap \<Rightarrow> (string, int) gomap \<Rightarrow> string \<Rightarrow> int \<Rightarrow> bool \<Rightarrow> worker \<Rightarrow> control_action list" where
  "warm_evictions_on p now active loaded target demand cold_start w =
     (if \<not> warm_eviction_candidate_worker p w now active target then []
      else List.map_filter (\<lambda>running.
        if rm_model running = target \<or> \<not> equal_fold (rm_state running) ready_word then None
        else if protected_at running now then None
        else if \<not> can_unload_model p (rm_model running) loaded then None
        else
          let keep = keep_score p now (w_id w) running (mget 0 active (w_id w)) loaded;
              can_use_excess = (cold_start \<and> has_excess_replica p (rm_model running) loaded)
          in if demand \<le> keep + default_switch_cost \<and> \<not> can_use_excess then None
             else
               let reason = (if can_use_excess then ''evict_for_cold_start_request''
                             else ''evict_for_predictive_scaleout'');
                   action = \<lparr>ca_type = ControlActionWarm, ca_worker = w, ca_model = target, ca_reason = reason,
                     ca_victim_model = rm_model running, ca_demand_score = demand, ca_keep_score = keep,
                     ca_switch_cost = default_switch_cost\<rparr>
               in Some (if \<not> artifact_ready w target
                        then action\<lparr>ca_type := ControlActionUnload, ca_model := rm_model running,
                          ca_reason := ''free_capacity_for_predictive_scaleout_stale_config''\<rparr>
                        else action))
        (w_running_models w))"

definition better_eviction :: "control_action \<Rightarrow> control_action \<Rightarrow> bool" where
  "better_eviction action best =
     (ca_keep_score action < ca_keep_score best \<or>
      (ca_keep_score action = ca_keep_score best \<and>
       (ca_victim_model action < ca_victim_model best \<or>
        (ca_victim_model action = ca_victim_model best \<and>
         w_id (ca_worker action) < w_id (ca_worker best)))))"

definition plan_warm_eviction ::
  "placement \<Rightarrow> time \<Rightarrow> worker list \<Rightarrow> (string, int) gomap \<Rightarrow> (string, int) gomap \<Rightarrow> string \<Rightarrow> int \<Rightarrow> bool \<Rightarrow>
   control_action option" where
  "plan_warm_eviction p now workers active loaded target demand cold_start =
     pick_best better_eviction
       (concat (map (warm_evictions_on p now active loaded target demand cold_start) workers))"

text \<open>The loop over the models; \<open>Model\<close> prunes the tracker, which is threaded through.\<close>

fun plan_warm_models ::
  "time \<Rightarrow> worker list \<Rightarrow> (string, int) gomap \<Rightarrow> (string, int) gomap \<Rightarrow> string list \<Rightarrow> pressure_tracker \<Rightarrow> placement \<Rightarrow>
   control_action option \<times> placement" where
  "plan_warm_models now workers active loaded [] tracker p = (None, p\<lparr>pl_pressure := Some tracker\<rparr>)"
| "plan_warm_models now workers active loaded (m # ms) tracker p =
     (let model = mget zero_model (gc_models (pl_config p)) m;
          ready = mget 0 loaded m;
          occupied = occupied_model_count p workers now m;
          max_loaded = fst (effective_max_loaded p model workers m now)
      in if max_loaded \<le> 0 \<or> occupied \<ge> max_loaded then plan_warm_models now workers active loaded ms tracker p
         else if occupied > ready then plan_warm_models now workers active loaded ms tracker p
         else
           let (pressure, tracker) = pressure_model m now now tracker;
               cold_start = (ps_no_ready_requests pressure > 0 \<and> ready = 0 \<and> occupied = 0);
               demand = demand_score pressure \<lparr>di_priority = m_priority model, di_ready_replicas = ready,
                 di_occupied_replicas = occupied, di_active = active_count_for_ready_model workers active m\<rparr>
           in if demand < min_scale_out_score then plan_warm_models now workers active loaded ms tracker p
              else case pick_empty_warm_worker p now workers active m [] of
                  Some w \<Rightarrow> (Some ((plain_action ControlActionWarm w m ''empty_worker_predictive_scaleout'')
                     \<lparr>ca_demand_score := demand\<rparr>), p\<lparr>pl_pressure := Some tracker\<rparr>)
                | None \<Rightarrow>
                   (case plan_warm_eviction p now workers active loaded m demand cold_start of
                      Some action \<Rightarrow> (Some action, p\<lparr>pl_pressure := Some tracker\<rparr>)
                    | None \<Rightarrow> plan_warm_models now workers active loaded ms tracker p))"

definition plan_warm_action ::
  "time \<Rightarrow> worker list \<Rightarrow> (string, int) gomap \<Rightarrow> (string, int) gomap \<Rightarrow> placement \<Rightarrow> control_action option \<times> placement" where
  "plan_warm_action now workers active loaded p =
     (case pl_pressure p of
        None \<Rightarrow> (None, p)
      | Some tracker \<Rightarrow> plan_warm_models now (sorted_workers_by_id workers) active loaded
          (placement_model_names_by_priority (pl_config p)) tracker p)"

section \<open>PlanControlActions\<close>

definition plan_control_actions :: "time \<Rightarrow> placement \<Rightarrow> control_action list \<times> placement" where
  "plan_control_actions now p =
     (case pl_workers p of
        None \<Rightarrow> ([], p)
      | Some reg \<Rightarrow>
       (let (workers, reg') = snapshot now reg;
            p = p\<lparr>pl_workers := Some reg'\<rparr>;
            active = active_snapshot reg';
            loaded = running_model_counts p workers now
        in case plan_floors p now workers active loaded (placement_model_names_by_priority (pl_config p)) False [] [] of
             FloorReturn actions \<Rightarrow> (actions, p)
           | FloorDone low actions \<Rightarrow>
               if actions \<noteq> [] then (actions, p)
               else if low then ([], p)
               else case plan_warm_action now workers active loaded p of
                   (Some action, p) \<Rightarrow> ([action], p)
                 | (None, p) \<Rightarrow> ([], p)))"

end
