(* ===== verification/PlacementFacts.thy ===== *)
theory PlacementFacts
  imports Placement WorkersFacts
begin

text \<open>
  The choice of a replica. What placement relies on of the registry is the locale \<open>worker_pool\<close>:
  workers with different ids and loads that are not negative. Under it the least loaded worker, ties
  by the smaller id, is unique; the registry is an interpretation.
\<close>

section \<open>What placement relies on\<close>

locale worker_pool =
  fixes ok :: "'s \<Rightarrow> bool"
    and pool :: "'s \<Rightarrow> worker list"
    and load :: "'s \<Rightarrow> string \<Rightarrow> int"
  assumes pool_distinct: "ok s \<Longrightarrow> distinct (map w_id (pool s))"
    and load_nonneg: "ok s \<Longrightarrow> 0 \<le> load s wid"
begin

definition least_loaded :: "'s \<Rightarrow> (worker \<Rightarrow> bool) \<Rightarrow> worker \<Rightarrow> bool" where
  "least_loaded s can w \<longleftrightarrow> w \<in> set (pool s) \<and> can w \<and>
     (\<forall>v \<in> set (pool s). can v \<longrightarrow> (load s (w_id w), w_id w) \<le> (load s (w_id v), w_id v))"

lemma least_loaded_unique:
  assumes "ok s" "least_loaded s can w" "least_loaded s can v"
  shows "w = v"
proof -
  have "w_id w = w_id v" using assms(2,3) unfolding least_loaded_def by (metis order_antisym prod.inject)
  then show ?thesis using pool_distinct[OF assms(1)] assms(2,3)
    by (auto simp: least_loaded_def distinct_map dest: inj_onD)
qed

lemma same_id_same_worker:
  "ok s \<Longrightarrow> w \<in> set (pool s) \<Longrightarrow> v \<in> set (pool s) \<Longrightarrow> w_id w = w_id v \<Longrightarrow> w = v"
  using pool_distinct[of s] by (auto simp: distinct_map dest: inj_onD)

end

definition pool_at :: "time \<times> registry \<Rightarrow> worker list" where
  "pool_at s = fst (snapshot (fst s) (snd s))"

definition load_at :: "time \<times> registry \<Rightarrow> string \<Rightarrow> int" where
  "load_at s wid = mget 0 (active_snapshot (snd (snapshot (fst s) (snd s)))) wid"

interpretation rp: worker_pool "\<lambda>s. reg_wf (snd s)" pool_at load_at
proof
  fix s :: "time \<times> registry" and wid
  assume wf: "reg_wf (snd s)"
  show "distinct (map w_id (pool_at s))" unfolding pool_at_def by (rule snapshot_distinct[OF wf])
  show "0 \<le> load_at s wid" unfolding load_at_def active_snapshot_def
    by (rule reg_wf_active_nonneg[OF reg_wf_snapshot[OF wf]])
qed

section \<open>Candidates\<close>

definition can_serve :: "placement \<Rightarrow> string \<Rightarrow> time \<Rightarrow> (string, bool) gomap \<Rightarrow> worker \<Rightarrow> bool" where
  "can_serve p m now exclude w \<longleftrightarrow> \<not> mget False exclude (w_id w) \<and> placement_healthy p (w_id w) now \<and>
     worker_allows_model (pl_config p) w m \<and> artifact_ready w m \<and>
     \<not> snapshot_cooling (pl_cooldowns p) (w_id w) m now \<and> running_model_ready w m"

definition ready_score :: "bool \<Rightarrow> int \<Rightarrow> int" where
  "ready_score scale n = (if n = 0 then 600 else if scale then 100 - n else 500 - n)"

lemma ready_candidate_iff:
  "ready_candidate p m now exclude active scale rc w = Some c \<Longrightarrow>
     can_serve p m now exclude w \<and> sp_worker c = w \<and> sp_score c = ready_score scale (mget 0 active (w_id w)) \<and>
     sp_reason c \<in> {ReadyIdle, ReadyBusy, ReadyBusyScaleOut} \<and> sp_active_requests c = mget 0 active (w_id w)"
  "can_serve p m now exclude w \<Longrightarrow> \<exists>c. ready_candidate p m now exclude active scale rc w = Some c"
  by (auto simp: ready_candidate_def can_serve_def running_model_ready_def ready_score_def
      score_schedule_candidate_def Let_def split: option.splits if_splits)

lemma ready_score_key:
  assumes "0 \<le> a" "0 \<le> b"
  shows "(- ready_score scale a, x) \<le> (- ready_score scale b, y) \<longleftrightarrow> (a, x) \<le> (b, y :: string)"
  using assms by (auto simp: ready_score_def less_eq_prod_def)

text \<open>The result of the choice in terms of the snapshot and the candidates.\<close>

definition decided ::
  "string \<Rightarrow> scored_placement_worker list \<Rightarrow> placement_decision \<Rightarrow> placement_error option \<Rightarrow> bool" where
  "decided m cs d err \<longleftrightarrow>
     (if cs = [] then err \<in> {Some (NoHealthyWorker m), Some (NoReadyWorker m)} \<and> pd_worker d = None
      else err = None \<and>
        (let c = hd (sort_key (\<lambda>c. (- sp_score c, w_id (sp_worker c))) cs)
         in pd_worker d = Some (sp_worker c) \<and> pd_reason d = Some (sp_reason c)))"

lemma pick_ready_worker_cases:
  assumes "pl_workers p = Some r" "map_of (gc_models (pl_config p)) m = Some cfg"
    "snapshot now r = (ws, r')" "pick_ready_worker m now exclude p = ((d, err), p')"
  obtains (Zero) "p' = p\<lparr>pl_workers := Some r'\<rparr>" "\<not> max_loaded_is_auto cfg" "hard_max_loaded cfg \<le> 0"
      "err = Some (MaxLoadedZero m)" "pd_worker d = None"
  | (Candidates) scale rc where "p' = p\<lparr>pl_workers := Some r'\<rparr>"
      "max_loaded_is_auto cfg \<or> 0 < hard_max_loaded cfg"
      "decided m (List.map_filter (ready_candidate p' m now exclude (active_snapshot r') scale rc) ws) d err"
proof -
  let ?p = "p\<lparr>pl_workers := Some r'\<rparr>"
  obtain limit auto where e: "effective_max_loaded ?p cfg ws m now = (limit, auto)" by fastforce
  have la: "auto = max_loaded_is_auto cfg" "\<not> auto \<Longrightarrow> limit = hard_max_loaded cfg"
    using e by (auto simp: effective_max_loaded_def split: if_splits)
  obtain rc oc ec where f: "fold (count_replica ?p m now) ws (0, 0, 0) = (rc, oc, ec)" by (metis prod_cases3)
  let ?scale = "limit > 0 \<and> oc < limit"
  let ?cs = "List.map_filter (ready_candidate ?p m now exclude (active_snapshot r') ?scale rc) ws"
  note eq = assms(4)[unfolded pick_ready_worker_def assms(1-3) option.case Let_def prod.case f e]
  have p': "p' = ?p" using eq by (auto split: if_splits)
  show thesis
  proof (cases "limit \<le> 0 \<and> \<not> auto")
    case True
    then show ?thesis using Zero eq la by (auto simp: p' zero_decision_def split: if_splits)
  next
    case False
    then have "decided m ?cs d err"
      using eq by (auto simp: decided_def zero_decision_def Let_def split: if_splits)
    then show ?thesis using Candidates False la unfolding p' by auto
  qed
qed

section \<open>Properties\<close>

text \<open>
  C5. The replica a request is sent to is the least loaded of those that can serve it: its worker is in
  the snapshot, not excluded, healthy, allowed the model by one of its tags, has the artifact ready,
  is not cooling down for the model and runs it in state ready; among all such workers it serves the
  fewest requests, ties going to the smaller id. The recorded reason is one of the three ready ones.
\<close>

theorem picked_worker_least_loaded:
  assumes "reg_wf r" "pl_workers p = Some r" "pick_ready_worker m now exclude p = ((d, None), p')"
  shows "pl_workers p' = Some (snd (snapshot now r)) \<and>
    (\<exists>w reason. pd_worker d = Some w \<and> pd_reason d = Some reason \<and>
      reason \<in> {ReadyIdle, ReadyBusy, ReadyBusyScaleOut} \<and>
      w \<in> set (fst (snapshot now r)) \<and> can_serve p' m now exclude w \<and>
      (\<forall>v \<in> set (fst (snapshot now r)). can_serve p' m now exclude v \<longrightarrow>
        (load_at (now, r) (w_id w), w_id w) \<le> (load_at (now, r) (w_id v), w_id v)))"
proof -
  obtain ws r' where s: "snapshot now r = (ws, r')" by fastforce
  obtain cfg where c: "map_of (gc_models (pl_config p)) m = Some cfg"
    using assms(3) by (cases "map_of (gc_models (pl_config p)) m") (auto simp: pick_ready_worker_def)
  have load: "load_at (now, r) wid = mget 0 (active_snapshot r') wid" for wid by (simp add: load_at_def s)
  have nn: "0 \<le> load_at (now, r) wid" for wid using rp.load_nonneg[of "(now, r)"] assms(1) by simp
  from assms(2) c s assms(3) show ?thesis
  proof (cases rule: pick_ready_worker_cases)
    case (Candidates scale rc)
    let ?f = "ready_candidate p' m now exclude (active_snapshot r') scale rc"
    let ?cs = "List.map_filter ?f ws"
    let ?key = "\<lambda>c. (- sp_score c, w_id (sp_worker c))"
    let ?c = "hd (sort_key ?key ?cs)"
    have ne: "?cs \<noteq> []" and d: "pd_worker d = Some (sp_worker ?c)" "pd_reason d = Some (sp_reason ?c)"
      using Candidates(3) by (auto simp: decided_def Let_def split: if_splits)
    then have "?c \<in> set ?cs" by (simp add: hd_sort_key_in)
    then obtain w where w: "w \<in> set ws" "?f w = Some ?c" by (auto simp: set_map_filter)
    note wc = ready_candidate_iff(1)[OF w(2)]
    have "(load_at (now, r) (w_id w), w_id w) \<le> (load_at (now, r) (w_id v), w_id v)"
      if v: "v \<in> set ws" "can_serve p' m now exclude v" for v
    proof -
      obtain c where vc: "?f v = Some c" using ready_candidate_iff(2)[OF v(2)] by blast
      then have "c \<in> set ?cs" using v(1) by (auto simp: set_map_filter)
      then have "?key ?c \<le> ?key c" by (rule hd_sort_key_le)
      then have "(- ready_score scale (load_at (now, r) (w_id w)), w_id w)
          \<le> (- ready_score scale (load_at (now, r) (w_id v)), w_id v)"
        using wc ready_candidate_iff(1)[OF vc] by (simp only: load)
      then show ?thesis by (simp only: ready_score_key[OF nn nn])
    qed
    then show ?thesis using wc w(1) d s Candidates(1) by auto
  qed simp
qed

text \<open>
  C21. A request fails to find a replica exactly when there is none to find: the choice returns an error
  if and only if the model is unknown, or has a hard limit of no loaded replica, or no worker of the
  snapshot can serve it. No filter of the code loses the last candidate.
\<close>

theorem pick_fails_iff_none_can_serve:
  assumes "pl_workers p = Some r" "pick_ready_worker m now exclude p = ((d, err), p')"
  shows "err \<noteq> None \<longleftrightarrow>
    (case map_of (gc_models (pl_config p)) m of
       None \<Rightarrow> True
     | Some cfg \<Rightarrow> \<not> max_loaded_is_auto cfg \<and> hard_max_loaded cfg \<le> 0 \<or>
         (\<forall>w \<in> set (fst (snapshot now r)). \<not> can_serve p' m now exclude w))"
proof (cases "map_of (gc_models (pl_config p)) m")
  case None
  then show ?thesis using assms(2) by (auto simp: pick_ready_worker_def)
next
  case (Some cfg)
  obtain ws r' where s: "snapshot now r = (ws, r')" by fastforce
  from assms(1) Some s assms(2) show ?thesis
  proof (cases rule: pick_ready_worker_cases)
    case Zero
    then show ?thesis using Some by simp
  next
    case (Candidates scale rc)
    let ?f = "ready_candidate p' m now exclude (active_snapshot r') scale rc"
    have "List.map_filter ?f ws = [] \<longleftrightarrow> (\<forall>w \<in> set ws. \<not> can_serve p' m now exclude w)"
      using ready_candidate_iff[where p = p' and m = m and now = now and exclude = exclude
        and active = "active_snapshot r'" and scale = scale and rc = rc]
      by (auto simp: map_filter_empty) (metis not_None_eq)+
    then show ?thesis using Candidates Some s by (auto simp: decided_def Let_def split: if_splits)
  qed
qed

text \<open>\<open>Scheduler.Pick\<close> hands the worker on.\<close>

lemma pick_eq:
  "fst (pick m now exclude p) =
    (case snd (fst (pick_ready_worker m now exclude p)) of
       Some e \<Rightarrow> Inl e | None \<Rightarrow> Inr (pd_worker (fst (fst (pick_ready_worker m now exclude p)))))"
  by (auto simp: pick_def pick_decision_def Let_def split: prod.splits option.splits)

section \<open>Examples\<close>

definition running_on :: "string \<Rightarrow> running_model list" where
  "running_on m = [\<lparr>rm_model = m, rm_state = ''ready'', rm_protected_until = 0\<rparr>]"

definition two_workers :: registry where
  "two_workers =
     snd (acquire ''v'' (2 * second)
       (snd (upsert_heartbeat (beat ''w'' (running_on ''a'') [(''a'', ''ready'')] False []) (2 * second)
         (snd (upsert_heartbeat (beat ''v'' (running_on ''a'') [(''a'', ''ready'')] False []) second
           (new_worker_registry (6 * second)))))))"

lemma two_workers_wf: "reg_wf two_workers"
  unfolding two_workers_def by (intro reg_wf_acquire reg_wf_upsert reg_wf_new)

definition example_placement :: placement where
  "example_placement = \<lparr>pl_config = example_config\<lparr>gc_models := [(''a'', example_model\<lparr>m_max_loaded := 2\<rparr>),
       (''b'', example_model\<lparr>m_max_loaded := 2\<rparr>)]\<rparr>,
     pl_workers = Some two_workers, pl_access = None, pl_pressure = None, pl_cooldowns = []\<rparr>"


theorem picked_worker_least_loaded_witness:
  "\<exists>w. pd_worker (fst (fst (pick_ready_worker ''a'' (3 * second) [] example_placement))) = Some w \<and> w_id w = ''w'' \<and>
     can_serve (snd (pick_ready_worker ''a'' (3 * second) [] example_placement)) ''a'' (3 * second) [] w"
proof -
  have v: "(case pick_ready_worker ''a'' (3 * second) [] example_placement of
      ((d, err), p') \<Rightarrow> (map_option w_id (pd_worker d), err)) = (Some ''w'', None)"
    by code_simp
  then obtain d p' where e: "pick_ready_worker ''a'' (3 * second) [] example_placement = ((d, None), p')"
    and d: "map_option w_id (pd_worker d) = Some ''w''"
    by (auto split: prod.splits)
  have "pl_workers example_placement = Some two_workers" by (simp add: example_placement_def)
  from picked_worker_least_loaded[OF two_workers_wf this e] d
  show ?thesis unfolding e fst_conv snd_conv by auto
qed

theorem pick_fails_iff_none_can_serve_witness:
  "snd (fst (pick_ready_worker ''b'' (3 * second) [] example_placement)) = Some (NoHealthyWorker ''b'') \<and>
   filter (can_serve (snd (pick_ready_worker ''b'' (3 * second) [] example_placement)) ''b'' (3 * second) [])
     (fst (snapshot (3 * second) two_workers)) = []"
proof -
  obtain d err p' where e: "pick_ready_worker ''b'' (3 * second) [] example_placement = ((d, err), p')"
    by (metis prod.collapse)
  have err: "snd (fst (pick_ready_worker ''b'' (3 * second) [] example_placement)) = Some (NoHealthyWorker ''b'')"
    by code_simp
  have w: "pl_workers example_placement = Some two_workers" by (simp add: example_placement_def)
  obtain cfg where m: "map_of (gc_models (pl_config example_placement)) ''b'' = Some cfg" "0 < hard_max_loaded cfg"
    by (auto simp: example_placement_def example_config_def base_config_def hard_max_loaded_def)
  from pick_fails_iff_none_can_serve[OF w e] err e m show ?thesis by (auto simp: filter_empty_conv)
qed

end
