(* ===== verification/PlanningFacts.thy ===== *)
theory PlanningFacts
  imports Planning PlacementFacts
begin

text \<open>
  The plan of control actions: only idle workers are touched, warmed workers are healthy and eligible,
  what is unloaded is ready, unprotected and above its minimum, no worker is used twice, no model is
  warmed past its ceiling, and the victim is the least in the order of eviction.
\<close>

section \<open>What an action may be\<close>

text \<open>A running model that may be unloaded for the model \<open>target\<close>.\<close>

definition unloadable :: "placement \<Rightarrow> time \<Rightarrow> (string, int) gomap \<Rightarrow> worker \<Rightarrow> string \<Rightarrow> string \<Rightarrow> bool" where
  "unloadable p now loaded w target m \<longleftrightarrow> m \<noteq> target \<and> can_unload_model p m loaded \<and>
     (\<exists>running \<in> set (w_running_models w). rm_model running = m \<and>
        equal_fold (rm_state running) ready_word \<and> \<not> protected_at running now)"

definition warm_sound ::
  "placement \<Rightarrow> time \<Rightarrow> (string, int) gomap \<Rightarrow> (string, int) gomap \<Rightarrow> control_action \<Rightarrow> bool" where
  "warm_sound p now active loaded a \<longleftrightarrow> ca_type a = ControlActionWarm \<and>
     warm_eligible_worker p (ca_worker a) now active (ca_model a) \<and>
     (w_running_models (ca_worker a) = [] \<or> unloadable p now loaded (ca_worker a) (ca_model a) (ca_victim_model a))"

definition unload_sound ::
  "placement \<Rightarrow> time \<Rightarrow> (string, int) gomap \<Rightarrow> (string, int) gomap \<Rightarrow> control_action \<Rightarrow> bool" where
  "unload_sound p now active loaded a \<longleftrightarrow> ca_type a = ControlActionUnload \<and>
     \<not> mget 0 active (w_id (ca_worker a)) > 0 \<and>
     (\<exists>target. worker_allows_model (pl_config p) (ca_worker a) target \<and> artifact_refreshable (ca_worker a) target \<and>
        unloadable p now loaded (ca_worker a) target (ca_model a))"

definition action_sound ::
  "placement \<Rightarrow> time \<Rightarrow> worker list \<Rightarrow> (string, int) gomap \<Rightarrow> (string, int) gomap \<Rightarrow> control_action \<Rightarrow> bool" where
  "action_sound p now workers active loaded a \<longleftrightarrow> ca_worker a \<in> set workers \<and>
     (warm_sound p now active loaded a \<or> unload_sound p now active loaded a)"

text \<open>The batch of warm actions: different workers, and each model within its minimum and its ceiling.\<close>

definition warm_count :: "control_action list \<Rightarrow> string \<Rightarrow> int" where
  "warm_count actions m = int (length (filter (\<lambda>a. ca_type a = ControlActionWarm \<and> ca_model a = m) actions))"

definition within_ceiling :: "placement \<Rightarrow> time \<Rightarrow> worker list \<Rightarrow> control_action list \<Rightarrow> string \<Rightarrow> bool" where
  "within_ceiling p now workers actions m \<longleftrightarrow> warm_count actions m = 0 \<or>
     occupied_model_count p workers now m + warm_count actions m
       \<le> fst (effective_max_loaded p (mget zero_model (gc_models (pl_config p)) m) workers m now)"

definition batch_ok ::
  "placement \<Rightarrow> time \<Rightarrow> worker list \<Rightarrow> (string, int) gomap \<Rightarrow> (string, int) gomap \<Rightarrow> string list \<Rightarrow> control_action list \<Rightarrow> bool" where
  "batch_ok p now workers active loaded reserved actions \<longleftrightarrow>
     (\<forall>a \<in> set actions. ca_worker a \<in> set workers \<and> warm_sound p now active loaded a) \<and>
     set reserved = (w_id \<circ> ca_worker) ` set actions \<and> distinct (map (w_id \<circ> ca_worker) actions) \<and>
     (\<forall>m. within_ceiling p now workers actions m)"

section \<open>Choosing a victim\<close>

lemma set_sorted_workers [simp]: "set (sorted_workers_by_id ws) = set ws"
  by (simp add: sorted_workers_by_id_def)

lemma pick_empty_warm_worker_Some:
  "pick_empty_warm_worker p now ws active m ex = Some w \<Longrightarrow>
     w \<in> set ws \<and> w_id w \<notin> set ex \<and> warm_eligible_worker p w now active m \<and> w_running_models w = []"
  by (auto simp: pick_empty_warm_worker_def find_Some_iff in_set_conv_nth[symmetric] dest: nth_mem)

lemma worker_victims_iff:
  "(w', running) \<in> set (worker_victims p now active loaded target w) \<longleftrightarrow> w' = w \<and>
     \<not> mget 0 active (w_id w) > 0 \<and> \<not> running_model_ready w target \<and>
     worker_allows_model (pl_config p) w target \<and> artifact_refreshable w target \<and>
     running \<in> set (w_running_models w) \<and> equal_fold (rm_state running) ready_word \<and>
     rm_model running \<noteq> target \<and> \<not> protected_at running now \<and> can_unload_model p (rm_model running) loaded"
  by (auto simp: worker_victims_def)

lemma pick_eviction_victim_Some:
  assumes "pick_eviction_victim p now ws active loaded target = Some (w, m)"
  shows "w \<in> set ws \<and> \<not> mget 0 active (w_id w) > 0 \<and> worker_allows_model (pl_config p) w target \<and>
    artifact_refreshable w target \<and> unloadable p now loaded w target m"
proof -
  obtain running where "pick_best (\<lambda>(w, running) (w', running').
        eviction_rank_of p (w_id w) (rm_model running) < eviction_rank_of p (w_id w') (rm_model running'))
      (concat (map (worker_victims p now active loaded target) ws)) = Some (w, running)" "m = rm_model running"
    using assms by (auto simp: pick_eviction_victim_def)
  from pick_best_in[OF this(1)] this(2) show ?thesis
    by (auto simp: worker_victims_iff unloadable_def)
qed

section \<open>The warm-up loop\<close>

lemma warm_up_to_result:
  "warm_up_to p now ws active m target occ reserved actions = (occ', reserved', actions') \<Longrightarrow>
   \<exists>new. actions' = actions @ map (\<lambda>w. plain_action ControlActionWarm w m ''warm_for_min_loaded_empty_worker'') new \<and>
     occ' = occ + int (length new) \<and> (occ \<le> target \<longrightarrow> occ' \<le> target) \<and>
     set reserved' = w_id ` set new \<union> set reserved \<and> distinct (map w_id new) \<and>
     w_id ` set new \<inter> set reserved = {} \<and>
     (\<forall>w \<in> set new. w \<in> set ws \<and> warm_eligible_worker p w now active m \<and> w_running_models w = [])"
proof (induction p now ws active m target occ reserved actions arbitrary: occ' reserved' actions' rule: warm_up_to.induct)
  case (1 p now ws active m target occ reserved actions)
  show ?case
  proof (cases "occ < target")
    case False
    then show ?thesis using 1(2) by (subst (asm) warm_up_to.simps) auto
  next
    case lt: True
    show ?thesis
    proof (cases "pick_empty_warm_worker p now ws active m reserved")
      case None
      then show ?thesis using 1(2) lt by (subst (asm) warm_up_to.simps) auto
    next
      case (Some w)
      note w = pick_empty_warm_worker_Some[OF Some]
      have "warm_up_to p now ws active m target (occ + 1) (w_id w # reserved)
          (actions @ [plain_action ControlActionWarm w m ''warm_for_min_loaded_empty_worker'']) = (occ', reserved', actions')"
        using 1(2) lt Some by (subst (asm) warm_up_to.simps) simp
      from 1(1)[OF _ Some this] lt obtain new where new:
        "actions' = (actions @ [plain_action ControlActionWarm w m ''warm_for_min_loaded_empty_worker'']) @
           map (\<lambda>w. plain_action ControlActionWarm w m ''warm_for_min_loaded_empty_worker'') new"
        "occ' = occ + 1 + int (length new)" "occ + 1 \<le> target \<longrightarrow> occ' \<le> target"
        "set reserved' = w_id ` set new \<union> set (w_id w # reserved)" "distinct (map w_id new)"
        "w_id ` set new \<inter> set (w_id w # reserved) = {}"
        "\<forall>w \<in> set new. w \<in> set ws \<and> warm_eligible_worker p w now active m \<and> w_running_models w = []"
        by auto
      show ?thesis using new w lt by (intro exI[of _ "w # new"]) auto
    qed
  qed
qed

lemma warm_count_append [simp]: "warm_count (xs @ ys) m = warm_count xs m + warm_count ys m"
  by (simp add: warm_count_def)

lemma warm_count_new:
  "warm_count (map (\<lambda>w. plain_action ControlActionWarm w m reason) new) m' = (if m' = m then int (length new) else 0)"
  by (simp add: warm_count_def plain_action_def comp_def filter_map)

lemma warm_count_0: "(\<And>a. a \<in> set actions \<Longrightarrow> ca_model a \<noteq> m) \<Longrightarrow> warm_count actions m = 0"
  by (auto simp: warm_count_def filter_empty_conv)

lemma warm_up_to_batch:
  assumes "batch_ok p now ws active loaded reserved actions" "\<forall>a \<in> set actions. ca_model a \<noteq> m"
    "warm_up_to p now ws active m target (occupied_model_count p ws now m) reserved actions = (occ', reserved', actions')"
    "occupied_model_count p ws now m \<le> target"
    "target \<le> fst (effective_max_loaded p (mget zero_model (gc_models (pl_config p)) m) ws m now)"
  shows "batch_ok p now ws active loaded reserved' actions'"
    "ca_model ` set actions' \<subseteq> insert m (ca_model ` set actions)"
proof -
  let ?new = "\<lambda>w. plain_action ControlActionWarm w m ''warm_for_min_loaded_empty_worker''"
  obtain new where n: "actions' = actions @ map ?new new"
     "occ' = occupied_model_count p ws now m + int (length new)" "occ' \<le> target"
     "set reserved' = w_id ` set new \<union> set reserved" "distinct (map w_id new)"
     "w_id ` set new \<inter> set reserved = {}"
     "\<And>w. w \<in> set new \<Longrightarrow> w \<in> set ws \<and> warm_eligible_worker p w now active m \<and> w_running_models w = []"
    using warm_up_to_result[OF assms(3)] assms(4) by auto
  note b = assms(1)[unfolded batch_ok_def]
  have z: "warm_count actions m = 0" using assms(2) by (intro warm_count_0) auto
  have wc: "within_ceiling p now ws actions' m'" for m'
    using b n(2,3) assms(5) z by (auto simp: within_ceiling_def n(1) warm_count_new)
  have ids: "map (w_id \<circ> ca_worker) (map ?new new) = map w_id new" by (simp add: plain_action_def)
  have disj: "w_id ` set new \<inter> (w_id \<circ> ca_worker) ` set actions = {}" using n(6) b by simp
  have set_ids: "(w_id \<circ> ca_worker) ` set actions' = w_id ` set new \<union> (w_id \<circ> ca_worker) ` set actions"
    using arg_cong[OF ids, of set] by (auto simp: n(1) image_Un image_comp)
  have sound: "ca_worker a \<in> set ws \<and> warm_sound p now active loaded a" if "a \<in> set actions'" for a
    using that b n(7) by (auto simp: n(1) warm_sound_def plain_action_def)
  have dist: "distinct (map (w_id \<circ> ca_worker) actions')"
    unfolding n(1) map_append ids distinct_append using b n(5) disj by auto
  show "batch_ok p now ws active loaded reserved' actions'"
    unfolding batch_ok_def using sound dist wc set_ids n(4) b by auto
  show "ca_model ` set actions' \<subseteq> insert m (ca_model ` set actions)"
    by (auto simp: n(1) plain_action_def)
qed

section \<open>The models below their minimum\<close>

lemma batch_ok_Nil: "batch_ok p now ws active loaded [] []"
  by (simp add: batch_ok_def within_ceiling_def warm_count_def)

definition floor_unload ::
  "placement \<Rightarrow> time \<Rightarrow> worker list \<Rightarrow> (string, int) gomap \<Rightarrow> (string, int) gomap \<Rightarrow> control_action list \<Rightarrow> bool" where
  "floor_unload p now ws active loaded xs \<longleftrightarrow> (\<exists>target v m.
     pick_eviction_victim p now ws active loaded target = Some (v, m) \<and>
     xs = [plain_action ControlActionUnload v m ''free_capacity_for_min_loaded''])"

definition floor_sound ::
  "placement \<Rightarrow> time \<Rightarrow> worker list \<Rightarrow> (string, int) gomap \<Rightarrow> (string, int) gomap \<Rightarrow> floor_result \<Rightarrow> bool" where
  "floor_sound p now ws active loaded res \<longleftrightarrow>
     (case res of FloorReturn xs \<Rightarrow> floor_unload p now ws active loaded xs
      | FloorDone low xs \<Rightarrow> \<exists>reserved. batch_ok p now ws active loaded reserved xs)"

lemma plan_floors_sound:
  "batch_ok p now ws active loaded reserved actions \<Longrightarrow> distinct ms \<Longrightarrow>
   ca_model ` set actions \<inter> set ms = {} \<Longrightarrow>
   floor_sound p now ws active loaded (plan_floors p now ws active loaded ms low reserved actions)"
proof (induction ms arbitrary: low reserved actions)
  case Nil
  then show ?case by (auto simp: floor_sound_def)
next
  case (Cons m ms)
  let ?model = "mget zero_model (gc_models (pl_config p)) m"
  let ?occ = "occupied_model_count p ws now m"
  let ?max = "fst (effective_max_loaded p ?model ws m now)"
  let ?target = "min (m_min_loaded ?model) ?max"
  have skip: "floor_sound p now ws active loaded (plan_floors p now ws active loaded ms low' reserved actions)" for low'
    using Cons by (intro Cons.IH) auto
  show ?case
  proof (cases "m_min_loaded ?model \<le> 0 \<or> ?occ \<ge> m_min_loaded ?model \<or> ?max \<le> 0 \<or> ?occ \<ge> ?max")
    case True
    then have "plan_floors p now ws active loaded (m # ms) low reserved actions =
        plan_floors p now ws active loaded ms low reserved actions" by (auto simp: Let_def)
    then show ?thesis using skip by metis
  next
    case False
    obtain occ' reserved' actions' where w:
      "warm_up_to p now ws active m ?target ?occ reserved actions = (occ', reserved', actions')"
      by (metis prod_cases3)
    have nm: "\<forall>a \<in> set actions. ca_model a \<noteq> m" using Cons.prems(3) by auto
    have le: "?occ \<le> ?target" "?target \<le> ?max" using False by auto
    note b = warm_up_to_batch[OF Cons.prems(1) nm w le]
    have next': "floor_sound p now ws active loaded (plan_floors p now ws active loaded ms low' reserved' actions')" for low'
      using Cons.prems(2,3) b by (intro Cons.IH) auto
    have "plan_floors p now ws active loaded (m # ms) low reserved actions =
        (if occ' \<ge> ?target \<or> actions' \<noteq> [] then plan_floors p now ws active loaded ms True reserved' actions'
         else case pick_eviction_victim p now ws active loaded m of
             None \<Rightarrow> plan_floors p now ws active loaded ms True reserved' actions'
           | Some (v, vm) \<Rightarrow> FloorReturn [plain_action ControlActionUnload v vm ''free_capacity_for_min_loaded''])"
      using False w by (simp add: Let_def)
    then show ?thesis using next'
      by (auto simp: floor_sound_def[of _ _ _ _ _ "FloorReturn _"] floor_unload_def split: option.splits prod.splits)
  qed
qed

section \<open>Scaling out\<close>

lemma warm_evictions_sound:
  assumes "a \<in> set (warm_evictions_on p now active loaded target demand cold w)"
  shows "ca_worker a = w \<and> (warm_sound p now active loaded a \<or> unload_sound p now active loaded a) \<and>
    (ca_type a = ControlActionWarm \<longrightarrow> ca_model a = target)"
proof -
  have cw: "warm_eviction_candidate_worker p w now active target"
    using assms by (auto simp: warm_evictions_on_def split: if_splits)
  obtain running where r: "running \<in> set (w_running_models w)" "rm_model running \<noteq> target"
      "equal_fold (rm_state running) ready_word" "\<not> protected_at running now"
      "can_unload_model p (rm_model running) loaded"
      "ca_worker a = w" "if artifact_ready w target
        then ca_type a = ControlActionWarm \<and> ca_model a = target \<and> ca_victim_model a = rm_model running
        else ca_type a = ControlActionUnload \<and> ca_model a = rm_model running"
    using assms cw by (auto simp: warm_evictions_on_def set_map_filter Let_def split: if_splits)
  have u: "unloadable p now loaded w target (rm_model running)" using r by (auto simp: unloadable_def)
  show ?thesis
  proof (cases "artifact_ready w target")
    case True
    with cw r(6,7) u show ?thesis
      by (auto simp: warm_sound_def warm_eligible_worker_def warm_eviction_candidate_worker_def split: if_splits)
  next
    case False
    with cw r(6,7) u show ?thesis
      by (auto simp: unload_sound_def warm_eviction_candidate_worker_def split: if_splits)
  qed
qed

lemma plan_warm_eviction_Some:
  assumes "plan_warm_eviction p now ws active loaded target demand cold = Some a"
  shows "ca_worker a \<in> set ws \<and> (warm_sound p now active loaded a \<or> unload_sound p now active loaded a) \<and>
    (ca_type a = ControlActionWarm \<longrightarrow> ca_model a = target)"
proof -
  have "a \<in> set (concat (map (warm_evictions_on p now active loaded target demand cold) ws))"
    using assms unfolding plan_warm_eviction_def by (rule pick_best_in)
  then show ?thesis using warm_evictions_sound by fastforce
qed

lemma warm_count_single: "warm_count [a] m = (if ca_type a = ControlActionWarm \<and> ca_model a = m then 1 else 0)"
  by (simp add: warm_count_def)

lemma plan_warm_models_sound:
  "plan_warm_models now ws active loaded ms tracker p = (Some a, p') \<Longrightarrow>
   action_sound p now ws active loaded a \<and> (\<forall>m. within_ceiling p now ws [a] m)"
proof (induction ms arbitrary: tracker)
  case Nil
  then show ?case by simp
next
  case (Cons m ms)
  let ?model = "mget zero_model (gc_models (pl_config p)) m"
  let ?ready = "mget 0 loaded m" let ?occ = "occupied_model_count p ws now m"
  let ?max = "fst (effective_max_loaded p ?model ws m now)"
  obtain pr tracker' where pm: "pressure_model m now now tracker = (pr, tracker')" by fastforce
  let ?demand = "demand_score pr \<lparr>di_priority = m_priority ?model, di_ready_replicas = ?ready,
    di_occupied_replicas = ?occ, di_active = active_count_for_ready_model ws active m\<rparr>"
  let ?cold = "ps_no_ready_requests pr > 0 \<and> ?ready = 0 \<and> ?occ = 0"
  show ?case
  proof (cases "?max \<le> 0 \<or> ?occ \<ge> ?max \<or> ?occ > ?ready")
    case True
    then show ?thesis using Cons by (auto simp: Let_def split: if_splits)
  next
    case False
    then have ceil: "within_ceiling p now ws [a] m'" if "ca_type a = ControlActionWarm \<longrightarrow> ca_model a = m" for m'
      using that by (auto simp: within_ceiling_def warm_count_single)
    have eq: "plan_warm_models now ws active loaded (m # ms) tracker p =
      (if ?demand < min_scale_out_score then plan_warm_models now ws active loaded ms tracker' p
       else case pick_empty_warm_worker p now ws active m [] of
           Some w \<Rightarrow> (Some ((plain_action ControlActionWarm w m ''empty_worker_predictive_scaleout'')
              \<lparr>ca_demand_score := ?demand\<rparr>), p\<lparr>pl_pressure := Some tracker'\<rparr>)
         | None \<Rightarrow> (case plan_warm_eviction p now ws active loaded m ?demand ?cold of
              Some action \<Rightarrow> (Some action, p\<lparr>pl_pressure := Some tracker'\<rparr>)
            | None \<Rightarrow> plan_warm_models now ws active loaded ms tracker' p))"
      using False pm by (simp add: Let_def)
    consider (later) "plan_warm_models now ws active loaded ms tracker' p = (Some a, p')"
      | (empty) w where "pick_empty_warm_worker p now ws active m [] = Some w"
          "a = (plain_action ControlActionWarm w m ''empty_worker_predictive_scaleout'')\<lparr>ca_demand_score := ?demand\<rparr>"
      | (evict) "plan_warm_eviction p now ws active loaded m ?demand ?cold = Some a"
      using Cons.prems unfolding eq by (auto split: if_splits option.splits)
    then show ?thesis
    proof cases
      case later then show ?thesis by (rule Cons.IH)
    next
      case empty
      with pick_empty_warm_worker_Some[OF empty(1)] ceil show ?thesis
        by (auto simp: action_sound_def warm_sound_def plain_action_def)
    next
      case evict
      with plan_warm_eviction_Some[OF evict] ceil show ?thesis by (auto simp: action_sound_def)
    qed
  qed
qed

section \<open>The whole plan\<close>

lemma length_filter_sort_key: "length (filter P (sort_key f xs)) = length (filter P xs)"
  by (metis mset_filter mset_sort size_mset)

lemma sorted_workers_counts [simp]:
  "occupied_model_count p (sorted_workers_by_id ws) now m = occupied_model_count p ws now m"
  "effective_max_loaded p model (sorted_workers_by_id ws) m now = effective_max_loaded p model ws m now"
  by (simp_all add: occupied_model_count_def effective_max_loaded_def sorted_workers_by_id_def length_filter_sort_key)

lemma distinct_model_names: "mwf (gc_models cfg) \<Longrightarrow> distinct (placement_model_names_by_priority cfg)"
  by (simp add: placement_model_names_by_priority_def mwf_def)

lemma plan_warm_action_sound:
  assumes "plan_warm_action now ws active loaded p = (Some a, p')"
  shows "action_sound p now ws active loaded a \<and> (\<forall>m. within_ceiling p now ws [a] m)"
proof -
  obtain tracker where "plan_warm_models now (sorted_workers_by_id ws) active loaded
      (placement_model_names_by_priority (pl_config p)) tracker p = (Some a, p')"
    using assms by (auto simp: plan_warm_action_def split: option.splits)
  from plan_warm_models_sound[OF this] show ?thesis
    by (simp add: action_sound_def within_ceiling_def)
qed

lemma floor_unload_sound:
  assumes "floor_unload p now ws active loaded xs"
  shows "\<exists>a. xs = [a] \<and> action_sound p now ws active loaded a \<and> (\<forall>m. within_ceiling p now ws xs m)"
proof -
  obtain target v m where v: "pick_eviction_victim p now ws active loaded target = Some (v, m)"
    "xs = [plain_action ControlActionUnload v m ''free_capacity_for_min_loaded'']"
    using assms by (auto simp: floor_unload_def)
  from pick_eviction_victim_Some[OF v(1)] v(2) show ?thesis
    by (auto simp: action_sound_def unload_sound_def plain_action_def within_ceiling_def warm_count_single)
qed

definition batch_only_warms_empty :: "control_action list \<Rightarrow> bool" where
  "batch_only_warms_empty actions \<longleftrightarrow> distinct (map (w_id \<circ> ca_worker) actions) \<and>
     (2 \<le> length actions \<longrightarrow> (\<forall>a \<in> set actions. ca_type a = ControlActionWarm))"

lemma plan_cases:
  assumes "mwf (gc_models (pl_config p))" "pl_workers p = Some r" "snapshot now r = (ws, r')"
    "plan_control_actions now p = (actions, p')"
  defines "q \<equiv> p\<lparr>pl_workers := Some r'\<rparr>" and "active \<equiv> active_snapshot r'"
  defines "loaded \<equiv> running_model_counts q ws now"
  shows "(\<forall>a \<in> set actions. action_sound q now ws active loaded a) \<and> batch_only_warms_empty actions \<and>
    (\<forall>m. within_ceiling q now ws actions m)"
proof -
  let ?res = "plan_floors q now ws active loaded (placement_model_names_by_priority (pl_config q)) False [] []"
  have fs: "floor_sound q now ws active loaded ?res"
    using assms(1) by (intro plan_floors_sound batch_ok_Nil) (auto simp: distinct_model_names q_def)
  note eq = assms(4)[unfolded plan_control_actions_def assms(2,3) option.case prod.case Let_def,
      folded q_def active_def, folded loaded_def]
  have single: "(\<forall>a \<in> set [a]. action_sound q now ws active loaded a) \<and> batch_only_warms_empty [a] \<and>
      (\<forall>m. within_ceiling q now ws [a] m)"
    if "action_sound q now ws active loaded a" "\<forall>m. within_ceiling q now ws [a] m" for a
    using that by (simp add: batch_only_warms_empty_def)
  have none: "(\<forall>a \<in> set []. action_sound q now ws active loaded a) \<and> batch_only_warms_empty [] \<and>
      (\<forall>m. within_ceiling q now ws [] m)"
    by (simp add: batch_only_warms_empty_def within_ceiling_def warm_count_def)
  show ?thesis
  proof (cases ?res)
    case (FloorReturn xs)
    then have "actions = xs" using eq by simp
    then show ?thesis using fs FloorReturn floor_unload_sound single by (fastforce simp: floor_sound_def)
  next
    case (FloorDone low xs)
    show ?thesis
    proof (cases "xs = []")
      case False
      then have "actions = xs" using eq FloorDone by simp
      moreover obtain reserved where "batch_ok q now ws active loaded reserved xs"
        using fs FloorDone by (auto simp: floor_sound_def)
      ultimately show ?thesis
        by (auto simp: batch_ok_def action_sound_def batch_only_warms_empty_def warm_sound_def)
    next
      case True
      then consider "actions = []" | a p'' where "plan_warm_action now ws active loaded q = (Some a, p'')" "actions = [a]"
        using eq FloorDone by (auto split: if_splits option.splits prod.splits)
      then show ?thesis using none single plan_warm_action_sound by cases auto
    qed
  qed
qed

section \<open>Properties\<close>


text \<open>
  C18. The plan never warms a model past its ceiling: the replicas a healthy worker already runs plus the
  warm actions for the model are at most its effective maximum.
\<close>

theorem plan_within_ceiling:
  assumes "mwf (gc_models (pl_config p))" "pl_workers p = Some r" "snapshot now r = (ws, r')"
    "plan_control_actions now p = (actions, p')" "0 < warm_count actions m"
  shows "let q = p\<lparr>pl_workers := Some r'\<rparr> in
    occupied_model_count q ws now m + warm_count actions m
      \<le> fst (effective_max_loaded q (mget zero_model (gc_models (pl_config p)) m) ws m now)"
  using plan_cases[OF assms(1-4), THEN conjunct2, THEN conjunct2, rule_format, of m] assms(5)
  by (simp add: within_ceiling_def Let_def)

text \<open>
  The replica freed for a model below its minimum is the least in the order of eviction among all
  that may be freed (models without a minimum first, then low priority, then least recently used, then
  the smaller worker id), and there is none only when none may be freed.
\<close>

theorem eviction_victim_least:
  shows "case pick_eviction_victim p now ws active loaded target of
      None \<Rightarrow> \<forall>w \<in> set ws. worker_victims p now active loaded target w = []
    | Some (v, m) \<Rightarrow> \<forall>w \<in> set ws. \<forall>(w', running) \<in> set (worker_victims p now active loaded target w).
        eviction_rank_of p (w_id v) m \<le> eviction_rank_of p (w_id w') (rm_model running)"
proof -
  let ?rank = "\<lambda>(w, running). eviction_rank_of p (w_id w) (rm_model running)"
  let ?cs = "concat (map (worker_victims p now active loaded target) ws)"
  have eq: "pick_eviction_victim p now ws active loaded target =
      map_option (\<lambda>(w, running). (w, rm_model running)) (pick_best (\<lambda>x y. ?rank x < ?rank y) ?cs)"
  proof -
    have f: "(\<lambda>(w, running) (w', running'). eviction_rank_of p (w_id w) (rm_model running)
        < eviction_rank_of p (w_id w') (rm_model running')) = (\<lambda>x y. ?rank x < ?rank y)"
      by (auto simp: fun_eq_iff)
    show ?thesis unfolding pick_eviction_victim_def by (subst f) (rule refl)
  qed
  show ?thesis
  proof (cases "pick_best (\<lambda>x y. ?rank x < ?rank y) ?cs")
    case None
    then have "\<forall>w \<in> set ws. worker_victims p now active loaded target w = []" by simp
    then show ?thesis unfolding eq None by simp
  next
    case (Some x)
    obtain v running where x: "x = (v, running)" by (cases x)
    have "eviction_rank_of p (w_id v) (rm_model running) \<le> ?rank y" if "y \<in> set ?cs" for y
      using pick_best_key_le[OF Some that] by (simp add: x)
    then show ?thesis unfolding eq Some x by fastforce
  qed
qed

section \<open>Examples\<close>

text \<open>A registry of one worker that runs \<open>a\<close> and has the artifact of \<open>b\<close> ready; \<open>b\<close> has a minimum of one.\<close>

definition floor_config :: gateway_config where
  "floor_config = example_config\<lparr>gc_models := [(''a'', example_model\<lparr>m_max_loaded := 1\<rparr>),
     (''b'', example_model\<lparr>m_min_loaded := 1, m_max_loaded := 1\<rparr>)]\<rparr>"

definition busy_registry :: "running_model list \<Rightarrow> registry" where
  "busy_registry running =
     snd (upsert_heartbeat (beat ''w'' running [(''b'', ''ready'')] False []) second
       (new_worker_registry (6 * second)))"

definition floor_placement :: "registry \<Rightarrow> placement" where
  "floor_placement r = \<lparr>pl_config = floor_config, pl_workers = Some r, pl_access = None, pl_pressure = None,
     pl_cooldowns = []\<rparr>"

definition summary_of :: "control_action list \<Rightarrow> (control_action_type \<times> string \<times> string) list" where
  "summary_of = map (\<lambda>a. (ca_type a, w_id (ca_worker a), ca_model a))"

lemma floor_mwf: "mwf (gc_models (pl_config (floor_placement r)))"
  by (simp add: floor_placement_def floor_config_def mwf_def mkeys_def)

lemma floor_workers: "pl_workers (floor_placement r) = Some r"
  by (simp add: floor_placement_def)

lemma floor_plan_empty:
  "summary_of (fst (plan_control_actions (2 * second) (floor_placement (busy_registry [])))) =
     [(ControlActionWarm, ''w'', ''b'')]"
  by code_simp


theorem plan_within_ceiling_witness:
  "let q = (floor_placement (busy_registry []))\<lparr>pl_workers := Some (snd (snapshot (2 * second) (busy_registry [])))\<rparr>;
       ws = fst (snapshot (2 * second) (busy_registry []))
   in warm_count (fst (plan_control_actions (2 * second) (floor_placement (busy_registry [])))) ''b'' = 1 \<and>
      occupied_model_count q ws (2 * second) ''b'' + 1 \<le>
        fst (effective_max_loaded q (mget zero_model (gc_models (pl_config (floor_placement (busy_registry [])))) ''b'')
          ws ''b'' (2 * second))"
proof -
  have c: "warm_count (fst (plan_control_actions (2 * second) (floor_placement (busy_registry [])))) ''b'' = 1"
    using floor_plan_empty by (auto simp: summary_of_def warm_count_def)
  have pos: "0 < warm_count (fst (plan_control_actions (2 * second) (floor_placement (busy_registry [])))) ''b''"
    by (simp only: c)
  show ?thesis
    using plan_within_ceiling[OF floor_mwf floor_workers surjective_pairing surjective_pairing pos]
    unfolding Let_def c by (intro conjI refl)
qed

definition two_models_registry :: registry where
  "two_models_registry = busy_registry (running_on ''a'' @ running_on ''c'')"

lemma two_models_victim:
  "map_option (\<lambda>(v, m). (w_id v, m)) (pick_eviction_victim (floor_placement two_models_registry) (2 * second)
     (fst (snapshot (2 * second) two_models_registry)) [] [(''a'', 1), (''c'', 1)] ''b'') = Some (''w'', ''a'')"
  by code_simp

lemma two_models_candidates:
  "map (map (\<lambda>(w, running). (w_id w, rm_model running)))
     (map (worker_victims (floor_placement two_models_registry) (2 * second) [] [(''a'', 1), (''c'', 1)] ''b'')
       (fst (snapshot (2 * second) two_models_registry))) = [[(''w'', ''a''), (''w'', ''c'')]]"
  by code_simp

theorem eviction_victim_least_witness:
  "eviction_rank_of (floor_placement two_models_registry) ''w'' ''a'' \<le>
     eviction_rank_of (floor_placement two_models_registry) ''w'' ''c''"
proof -
  let ?p = "floor_placement two_models_registry" and ?ws = "fst (snapshot (2 * second) two_models_registry)"
    and ?n = "[(''a'', 1), (''c'', 1)]"
  obtain v where v: "pick_eviction_victim ?p (2 * second) ?ws [] ?n ''b'' = Some (v, ''a'')" "w_id v = ''w''"
    using two_models_victim by auto
  obtain w u running where c: "w \<in> set ?ws" "(u, running) \<in> set (worker_victims ?p (2 * second) [] ?n ''b'' w)"
      "w_id u = ''w''" "rm_model running = ''c''"
    using two_models_candidates by (fastforce simp: map_eq_Cons_conv)
  show ?thesis
    using eviction_victim_least[where p = ?p and now = "2 * second" and ws = ?ws and active = "[]" and loaded = ?n and target = "''b''"] v c by fastforce
qed

text \<open>
  The victim for a model below its minimum is chosen without asking whether its worker is healthy: a
  worker that an operator drains keeps losing its models to the plan, although the model they make
  room for can never be warmed there while it drains.
\<close>

theorem drained_worker_is_unloaded:
  "summary_of (fst (plan_control_actions (2 * second)
      (floor_placement (snd (drain ''w'' (busy_registry (running_on ''a''))))))) =
     [(ControlActionUnload, ''w'', ''a'')] \<and>
   fst (plan_control_actions (2 * second)
      (floor_placement (snd (drain ''w'' (busy_registry []))))) = []"
  by (intro conjI; code_simp)

end
