(* ===== verification/Leases.thy ===== *)
theory Leases
  imports Config
begin

text \<open>
  Transport leases (internal/gateway/transport_lease.go, transport_lease_store.go,
  transport_generation.go): the gateway hands every agent a remote port of the tunnel server, keeps
  the set of leases in memory and in a store, and takes expired leases back. A manager is generic in
  its store: \<open>save\<close> is an argument of the operations. The clock's reading and the generator's answers
  are arguments too: \<open>ids k\<close> is what the \<open>k\<close>-th call of \<open>newID\<close> within the operation returns, \<open>None\<close>
  an error. SHA-256 of the JSON of a configuration is the argument \<open>digest\<close>.
\<close>

section \<open>Data\<close>

record transport_lease =
  tl_agent_id :: string
  tl_lease_id :: string
  tl_slot :: int
  tl_remote_port :: int
  tl_generation :: nat
  tl_current :: bool
  tl_renewed_at :: time
  tl_expires_at :: time

record transport_lease_policy =
  lp_port_start :: int
  lp_port_end :: int
  lp_ttl :: duration

record lease_acquire_request =
  lr_agent_id :: string
  lr_generation :: nat
  lr_current_lease_id :: string
  lr_excluded_slots :: "int list"

datatype policy_error = InvalidPortStart | InvalidPortEnd | InvalidTTL

datatype loaded_error =
    EmptyIdentity
  | InvalidAllocation string
  | InvalidLifetime string
  | PortReservedTwice string string int
  | LeaseIDDuplicated string
  | MultipleCurrent string string string

datatype 'e lease_error =
    LeaseCapacity | LeaseConflict | LeaseIDCollision | LeaseNotFound
  | PolicyError policy_error | InvalidLeaseRequest | InvalidExcludedSlot int
  | GenerateIDFailed | SaveLeasesFailed 'e

datatype 'e start_error =
  LoadLeasesFailed 'e | InvalidLeases loaded_error | PruneLeasesFailed 'e

record 's lease_manager =
  lm_store :: 's
  lm_leases :: "transport_lease list"

type_synonym ('s, 'e) lease_save = "transport_lease list \<Rightarrow> 's \<Rightarrow> 'e option \<times> 's"
type_synonym ('s, 'e) lease_load = "'s \<Rightarrow> 'e + transport_lease list"

definition lease_id_attempts :: nat where
  "lease_id_attempts = 8"

section \<open>Checks\<close>

definition validate_lease_policy :: "transport_lease_policy \<Rightarrow> policy_error option" where
  "validate_lease_policy policy = first_err
     [fail_if (lp_port_start policy < 1 \<or> lp_port_start policy > 65535) InvalidPortStart,
      fail_if (lp_port_end policy < lp_port_start policy \<or> lp_port_end policy > 65535) InvalidPortEnd,
      fail_if (lp_ttl policy \<le> 0) InvalidTTL]"

text \<open>The loop of \<open>validateLoadedTransportLeases\<close> with its three maps.\<close>

fun validate_loaded_from ::
  "(int, string) gomap \<Rightarrow> string list \<Rightarrow> (string, string) gomap \<Rightarrow> transport_lease list \<Rightarrow> loaded_error option" where
  "validate_loaded_from ports ids agents [] = None"
| "validate_loaded_from ports ids agents (lease # leases) =
     (if trim_space (tl_agent_id lease) = [] \<or> trim_space (tl_lease_id lease) = [] then Some EmptyIdentity
      else if tl_generation lease = 0 \<or> tl_slot lease < 0 \<or> tl_remote_port lease < 1 \<or> tl_remote_port lease > 65535
      then Some (InvalidAllocation (tl_lease_id lease))
      else if tl_renewed_at lease = 0 \<or> \<not> tl_expires_at lease > tl_renewed_at lease
      then Some (InvalidLifetime (tl_lease_id lease))
      else if mhas ports (tl_remote_port lease)
      then Some (PortReservedTwice (mget [] ports (tl_remote_port lease)) (tl_lease_id lease) (tl_remote_port lease))
      else if tl_lease_id lease \<in> set ids then Some (LeaseIDDuplicated (tl_lease_id lease))
      else if tl_current lease \<and> mhas agents (tl_agent_id lease)
      then Some (MultipleCurrent (tl_agent_id lease) (mget [] agents (tl_agent_id lease)) (tl_lease_id lease))
      else validate_loaded_from (mput (tl_remote_port lease) (tl_lease_id lease) ports) (tl_lease_id lease # ids)
             (if tl_current lease then mput (tl_agent_id lease) (tl_lease_id lease) agents else agents) leases)"

definition validate_loaded_leases :: "transport_lease list \<Rightarrow> loaded_error option" where
  "validate_loaded_leases leases = validate_loaded_from [] [] [] leases"

definition lease_matches_policy :: "transport_lease \<Rightarrow> transport_lease_policy \<Rightarrow> bool" where
  "lease_matches_policy lease policy \<longleftrightarrow>
     tl_remote_port lease \<ge> lp_port_start policy \<and> tl_remote_port lease \<le> lp_port_end policy \<and>
     tl_slot lease = tl_remote_port lease - lp_port_start policy \<and>
     time_sub (tl_expires_at lease) (tl_renewed_at lease) = lp_ttl policy"

definition prune_expired_leases :: "transport_lease list \<Rightarrow> time \<Rightarrow> transport_lease list" where
  "prune_expired_leases leases now = filter (\<lambda>lease. tl_expires_at lease > now) leases"

definition contains_slot :: "int list \<Rightarrow> int \<Rightarrow> bool" where
  "contains_slot slots target = (target \<in> set slots)"

section \<open>Start, lookup, renew, release\<close>

definition new_lease_manager ::
  "('s, 'e) lease_load \<Rightarrow> ('s, 'e) lease_save \<Rightarrow> time \<Rightarrow> 's \<Rightarrow> ('e start_error + 's lease_manager) \<times> 's" where
  "new_lease_manager load save now s =
     (case load s of
        Inl e \<Rightarrow> (Inl (LoadLeasesFailed e), s)
      | Inr leases \<Rightarrow>
         (let pruned = prune_expired_leases leases now
          in case validate_loaded_leases pruned of
               Some e \<Rightarrow> (Inl (InvalidLeases e), s)
             | None \<Rightarrow>
                 if length pruned \<noteq> length leases then
                   (case save pruned s of
                      (Some e, s') \<Rightarrow> (Inl (PruneLeasesFailed e), s')
                    | (None, s') \<Rightarrow> (Inr \<lparr>lm_store = s', lm_leases = pruned\<rparr>, s'))
                 else (Inr \<lparr>lm_store = s, lm_leases = pruned\<rparr>, s)))"

definition lookup_current ::
  "string \<Rightarrow> string \<Rightarrow> nat \<Rightarrow> time \<Rightarrow> 's lease_manager \<Rightarrow> 'e lease_error + transport_lease" where
  "lookup_current agent lease_id gen now m =
     (case find (\<lambda>lease. tl_current lease \<and> tl_agent_id lease = agent \<and> tl_lease_id lease = lease_id \<and>
             tl_generation lease = gen \<and> tl_expires_at lease > now) (lm_leases m) of
        None \<Rightarrow> Inl LeaseNotFound
      | Some lease \<Rightarrow> Inr lease)"

text \<open>Save a candidate set; memory takes it over only when the store did.\<close>

definition commit_leases ::
  "('s, 'e) lease_save \<Rightarrow> transport_lease list \<Rightarrow> 'r \<Rightarrow> 's lease_manager \<Rightarrow> ('e lease_error + 'r) \<times> 's lease_manager" where
  "commit_leases save candidate r m =
     (case save candidate (lm_store m) of
        (Some e, s') \<Rightarrow> (Inl (SaveLeasesFailed e), m\<lparr>lm_store := s'\<rparr>)
      | (None, s') \<Rightarrow> (Inr r, \<lparr>lm_store = s', lm_leases = candidate\<rparr>))"

definition renew_lease ::
  "('s, 'e) lease_save \<Rightarrow> transport_lease_policy \<Rightarrow> string \<Rightarrow> string \<Rightarrow> nat \<Rightarrow> time \<Rightarrow> 's lease_manager \<Rightarrow>
   ('e lease_error + transport_lease) \<times> 's lease_manager" where
  "renew_lease save policy agent lease_id gen now m =
     (case validate_lease_policy policy of
        Some e \<Rightarrow> (Inl (PolicyError e), m)
      | None \<Rightarrow>
         (case index_of (\<lambda>lease. tl_current lease \<and> tl_agent_id lease = agent \<and> tl_lease_id lease = lease_id \<and>
               tl_generation lease = gen \<and> tl_expires_at lease > now \<and> lease_matches_policy lease policy)
             (lm_leases m) of
            None \<Rightarrow> (Inl LeaseNotFound, m)
          | Some i \<Rightarrow>
             (let lease = lm_leases m ! i
              in if time_sub (tl_expires_at lease) now > lp_ttl policy div 2 then (Inr lease, m)
                 else let renewed = lease\<lparr>tl_renewed_at := now, tl_expires_at := now + lp_ttl policy\<rparr>
                      in commit_leases save ((lm_leases m)[i := renewed]) renewed m)))"

definition release_lease ::
  "('s, 'e) lease_save \<Rightarrow> string \<Rightarrow> string \<Rightarrow> nat \<Rightarrow> time \<Rightarrow> 's lease_manager \<Rightarrow>
   ('e lease_error + bool) \<times> 's lease_manager" where
  "release_lease save agent lease_id gen now m =
     (let candidate = prune_expired_leases (lm_leases m) now;
          found = index_of (\<lambda>lease. tl_current lease \<and> tl_agent_id lease = agent \<and>
              tl_lease_id lease = lease_id \<and> tl_generation lease = gen) candidate;
          candidate = (case found of None \<Rightarrow> candidate | Some i \<Rightarrow> take i candidate @ drop (Suc i) candidate)
      in if found \<noteq> None \<or> length candidate \<noteq> length (lm_leases m)
         then commit_leases save candidate (found \<noteq> None) m
         else (Inr False, m))"

section \<open>Acquire\<close>

fun unique_lease_id_from :: "nat \<Rightarrow> nat \<Rightarrow> (nat \<Rightarrow> string option) \<Rightarrow> string list \<Rightarrow> 'e lease_error + string" where
  "unique_lease_id_from 0 k ids used = Inl LeaseIDCollision"
| "unique_lease_id_from (Suc n) k ids used =
     (case ids k of
        None \<Rightarrow> Inl GenerateIDFailed
      | Some lease_id \<Rightarrow>
          if trim_space lease_id = [] then unique_lease_id_from n (Suc k) ids used
          else if lease_id \<notin> set used then Inr lease_id
          else unique_lease_id_from n (Suc k) ids used)"

definition generate_unique_lease_id :: "(nat \<Rightarrow> string option) \<Rightarrow> transport_lease list \<Rightarrow> 'e lease_error + string" where
  "generate_unique_lease_id ids leases = unique_lease_id_from lease_id_attempts 0 ids (map tl_lease_id leases)"

text \<open>The first free port; 0 when there is none.\<close>

definition pick_port :: "transport_lease_policy \<Rightarrow> int list \<Rightarrow> transport_lease list \<Rightarrow> int" where
  "pick_port policy excluded leases =
     (case find (\<lambda>port. \<not> contains_slot excluded (port - lp_port_start policy) \<and> port \<notin> set (map tl_remote_port leases))
         [lp_port_start policy..lp_port_end policy] of
        None \<Rightarrow> 0 | Some port \<Rightarrow> port)"

definition sticky_lease ::
  "transport_lease_policy \<Rightarrow> lease_acquire_request \<Rightarrow> transport_lease \<Rightarrow> bool" where
  "sticky_lease policy req lease \<longleftrightarrow> tl_generation lease = lr_generation req \<and>
     lease_matches_policy lease policy \<and> \<not> contains_slot (lr_excluded_slots req) (tl_slot lease)"

definition acquire_request_error ::
  "transport_lease_policy \<Rightarrow> lease_acquire_request \<Rightarrow> 'e lease_error option" where
  "acquire_request_error policy req =
     (case validate_lease_policy policy of
        Some e \<Rightarrow> Some (PolicyError e)
      | None \<Rightarrow>
          if trim_space (lr_agent_id req) = [] \<or> lr_generation req = 0 then Some InvalidLeaseRequest
          else map_option InvalidExcludedSlot
            (find (\<lambda>slot. slot < 0 \<or> slot > lp_port_end policy - lp_port_start policy) (lr_excluded_slots req)))"

text \<open>What the agent claims to hold must be what it holds, unless its own lease just expired.\<close>

definition acquire_conflict ::
  "transport_lease_policy \<Rightarrow> lease_acquire_request \<Rightarrow> time \<Rightarrow> transport_lease list \<Rightarrow> transport_lease list \<Rightarrow> bool" where
  "acquire_conflict policy req now leases candidate =
     (let expired_owned = (lr_current_lease_id req \<noteq> [] \<and>
            (\<exists>lease \<in> set leases. tl_agent_id lease = lr_agent_id req \<and>
               tl_lease_id lease = lr_current_lease_id req \<and> \<not> tl_expires_at lease > now))
      in case find (\<lambda>lease. tl_current lease \<and> tl_agent_id lease = lr_agent_id req) candidate of
           None \<Rightarrow> lr_current_lease_id req \<noteq> [] \<and> \<not> expired_owned
         | Some current \<Rightarrow>
             lr_current_lease_id req \<noteq> [] \<and> lr_current_lease_id req \<noteq> tl_lease_id current \<or>
             \<not> sticky_lease policy req current \<and> lr_current_lease_id req \<noteq> tl_lease_id current)"

definition retire_current :: "string \<Rightarrow> transport_lease list \<Rightarrow> transport_lease list" where
  "retire_current agent leases =
     map (\<lambda>lease. if tl_current lease \<and> tl_agent_id lease = agent then lease\<lparr>tl_current := False\<rparr> else lease) leases"

definition new_lease :: "transport_lease_policy \<Rightarrow> lease_acquire_request \<Rightarrow> time \<Rightarrow> string \<Rightarrow> int \<Rightarrow> transport_lease" where
  "new_lease policy req now lease_id port =
     \<lparr>tl_agent_id = lr_agent_id req, tl_lease_id = lease_id, tl_slot = port - lp_port_start policy,
      tl_remote_port = port, tl_generation = lr_generation req, tl_current = True, tl_renewed_at = now,
      tl_expires_at = now + lp_ttl policy\<rparr>"

definition acquire_lease ::
  "('s, 'e) lease_save \<Rightarrow> (nat \<Rightarrow> string option) \<Rightarrow> transport_lease_policy \<Rightarrow> lease_acquire_request \<Rightarrow> time \<Rightarrow>
   's lease_manager \<Rightarrow> ('e lease_error + transport_lease) \<times> 's lease_manager" where
  "acquire_lease save ids policy req now m =
     (case acquire_request_error policy req of
        Some e \<Rightarrow> (Inl e, m)
      | None \<Rightarrow>
         (let candidate = prune_expired_leases (lm_leases m) now
          in if acquire_conflict policy req now (lm_leases m) candidate then (Inl LeaseConflict, m)
             else case index_of (\<lambda>lease. tl_current lease \<and> tl_agent_id lease = lr_agent_id req \<and>
                      sticky_lease policy req lease) candidate of
                 Some i \<Rightarrow>
                   (let renewed = (candidate ! i)\<lparr>tl_renewed_at := now, tl_expires_at := now + lp_ttl policy\<rparr>
                    in commit_leases save (candidate[i := renewed]) renewed m)
               | None \<Rightarrow>
                   (let port = pick_port policy (lr_excluded_slots req) candidate
                    in if port = 0 then (Inl LeaseCapacity, m)
                       else case generate_unique_lease_id ids candidate of
                           Inl e \<Rightarrow> (Inl e, m)
                         | Inr lease_id \<Rightarrow>
                             (let lease = new_lease policy req now lease_id port
                              in commit_leases save (retire_current (lr_agent_id req) candidate @ [lease]) lease m))))"

section \<open>The stores\<close>

text \<open>
  What the manager relies on (the comment at the interface): a save that succeeds is what the next
  load returns, a save that fails leaves what the load returns as it was.
\<close>

locale lease_store =
  fixes load :: "'s \<Rightarrow> 'e + transport_lease list"
    and save :: "transport_lease list \<Rightarrow> 's \<Rightarrow> 'e option \<times> 's"
  assumes load_saved: "save leases s = (None, s') \<Longrightarrow> load s' = Inr leases"
    and load_unsaved: "save leases s = (Some e, s') \<Longrightarrow> load s' = load s"

type_synonym memory_lease_store = "transport_lease list"

definition memory_load :: "memory_lease_store \<Rightarrow> unit + transport_lease list" where
  "memory_load s = Inr s"

definition memory_save :: "transport_lease list \<Rightarrow> memory_lease_store \<Rightarrow> unit option \<times> memory_lease_store" where
  "memory_save leases s = (None, leases)"

text \<open>
  The file store. The file's content is what \<open>encoding/json\<close> reads from it. \<open>lfs_faults\<close> says at which
  step each coming save fails (\<open>None\<close>: it does not); opening an \<open>Unreadable\<close> file fails.
\<close>

datatype save_step = MakeDirectory | CreateTemporary | SecureTemporary | EncodeDocument | SyncTemporary
  | CloseTemporary | ReplaceFile

datatype lease_file = NoFile | Unreadable | NotJSON | TrailingJSON | Document int "transport_lease list"

datatype file_store_error = OpenFailed | DecodeFailed | TrailingValue | UnsupportedVersion int | StepFailed save_step

record lease_file_store =
  lfs_file :: lease_file
  lfs_temporaries :: nat
  lfs_faults :: "save_step option list"

definition lease_store_version :: int where
  "lease_store_version = 1"

definition file_load :: "lease_file_store \<Rightarrow> file_store_error + transport_lease list" where
  "file_load s =
     (case lfs_file s of
        NoFile \<Rightarrow> Inr []
      | Unreadable \<Rightarrow> Inl OpenFailed
      | NotJSON \<Rightarrow> Inl DecodeFailed
      | TrailingJSON \<Rightarrow> Inl TrailingValue
      | Document version leases \<Rightarrow>
          if version \<noteq> lease_store_version then Inl (UnsupportedVersion version) else Inr leases)"

text \<open>The steps in order; the deferred function removes the temporary file when one of them failed.\<close>

definition save_steps :: "save_step list" where
  "save_steps = [MakeDirectory, CreateTemporary, SecureTemporary, EncodeDocument, SyncTemporary,
     CloseTemporary, ReplaceFile]"

fun run_save_step :: "transport_lease list \<Rightarrow> save_step \<Rightarrow> lease_file_store \<Rightarrow> lease_file_store" where
  "run_save_step leases CreateTemporary s = s\<lparr>lfs_temporaries := lfs_temporaries s + 1\<rparr>"
| "run_save_step leases ReplaceFile s =
     s\<lparr>lfs_file := Document lease_store_version leases, lfs_temporaries := lfs_temporaries s - 1\<rparr>"
| "run_save_step leases _ s = s"

fun run_save :: "save_step list \<Rightarrow> save_step option \<Rightarrow> transport_lease list \<Rightarrow> lease_file_store \<Rightarrow>
   file_store_error option \<times> lease_file_store" where
  "run_save [] fault leases s = (None, s)"
| "run_save (step # steps) fault leases s =
     (if fault = Some step
      then (Some (StepFailed step),
            if step \<in> {MakeDirectory, CreateTemporary} then s else s\<lparr>lfs_temporaries := lfs_temporaries s - 1\<rparr>)
      else run_save steps fault leases (run_save_step leases step s))"

definition file_save :: "transport_lease list \<Rightarrow> lease_file_store \<Rightarrow> file_store_error option \<times> lease_file_store" where
  "file_save leases s =
     (case lfs_faults s of
        [] \<Rightarrow> run_save save_steps None leases s
      | fault # faults \<Rightarrow> run_save save_steps fault leases (s\<lparr>lfs_faults := faults\<rparr>))"

section \<open>The generation of a transport configuration\<close>

record transport_generation_input =
  gi_type :: string
  gi_server_addr :: string
  gi_server_port :: int
  gi_auth_token :: string
  gi_port_start :: int
  gi_port_end :: int
  gi_lease_ttl_seconds :: int
  gi_llama_swap_token :: string

definition generation_input :: "gateway_config \<Rightarrow> transport_generation_input" where
  "generation_input cfg =
     (let token = tok_llama_swap (gc_tokens cfg);
          token = (if token = [] then tok_agent (gc_tokens cfg) else token);
          frp = tr_frp (gc_transport cfg)
      in \<lparr>gi_type = tr_type (gc_transport cfg), gi_server_addr = frp_server_addr frp,
          gi_server_port = frp_server_port frp, gi_auth_token = frp_auth_token frp,
          gi_port_start = frp_port_start frp, gi_port_end = frp_port_end frp,
          gi_lease_ttl_seconds = frp_lease_ttl_seconds frp, gi_llama_swap_token = token\<rparr>)"

text \<open>\<open>digest\<close> gives the bytes of the SHA-256 of the JSON of its argument, \<open>None\<close> a marshalling error.\<close>

definition transport_config_generation ::
  "(transport_generation_input \<Rightarrow> nat list option) \<Rightarrow> gateway_config \<Rightarrow> nat option" where
  "transport_config_generation digest cfg =
     (case digest (generation_input cfg) of
        None \<Rightarrow> None
      | Some bs \<Rightarrow>
          let generation = foldl (\<lambda>n b. 256 * n + b) 0 (take 8 bs)
          in Some (if generation = 0 then 1 else generation))"

end
