(* ===== verification/LeasesFacts.thy ===== *)
theory LeasesFacts
  imports Leases
begin

text \<open>
  The lease set is always valid (what the check at start-up tests), the store always holds what the
  manager believes, and acquiring gives each agent one port of the range that nobody else holds. The
  agreement of store and memory is proved once in the locale \<open>lease_store\<close> and used through its
  interpretations on the memory store and the file store.
\<close>

section \<open>Validity without the maps\<close>

definition lease_entry_ok :: "transport_lease \<Rightarrow> bool" where
  "lease_entry_ok l \<longleftrightarrow> trim_space (tl_agent_id l) \<noteq> [] \<and> trim_space (tl_lease_id l) \<noteq> [] \<and>
     tl_generation l \<noteq> 0 \<and> 0 \<le> tl_slot l \<and> 1 \<le> tl_remote_port l \<and> tl_remote_port l \<le> 65535 \<and>
     tl_renewed_at l \<noteq> 0 \<and> tl_renewed_at l < tl_expires_at l"

definition current_agents :: "transport_lease list \<Rightarrow> string list" where
  "current_agents ls = map snd (filter fst (map (\<lambda>l. (tl_current l, tl_agent_id l)) ls))"

definition lease_set_ok :: "transport_lease list \<Rightarrow> bool" where
  "lease_set_ok ls \<longleftrightarrow> (\<forall>l \<in> set ls. lease_entry_ok l) \<and> distinct (map tl_remote_port ls) \<and>
     distinct (map tl_lease_id ls) \<and> distinct (current_agents ls)"

lemma current_agents_simps [simp]:
  "current_agents [] = []"
  "current_agents (l # ls) = (if tl_current l then tl_agent_id l # current_agents ls else current_agents ls)"
  "current_agents (xs @ ys) = current_agents xs @ current_agents ys"
  by (simp_all add: current_agents_def)

lemma set_current_agents: "a \<in> set (current_agents ls) \<longleftrightarrow> (\<exists>l \<in> set ls. tl_current l \<and> tl_agent_id l = a)"
  by (induction ls) auto

lemma validate_loaded_from_None:
  "validate_loaded_from ports ids agents ls = None \<longleftrightarrow>
     lease_set_ok ls \<and> set (map tl_remote_port ls) \<inter> set (mkeys ports) = {} \<and>
     set (map tl_lease_id ls) \<inter> set ids = {} \<and> set (current_agents ls) \<inter> set (mkeys agents) = {}"
proof (induction ls arbitrary: ports ids agents)
  case Nil
  then show ?case by (simp add: lease_set_ok_def)
next
  case (Cons l ls)
  show ?case
    by (auto simp: Cons.IH lease_set_ok_def lease_entry_ok_def mhas_iff not_less not_le split: if_splits)
qed

lemma validate_loaded_None: "validate_loaded_leases ls = None \<longleftrightarrow> lease_set_ok ls"
  by (simp add: validate_loaded_leases_def validate_loaded_from_None mkeys_def)

section \<open>What the operations do to a valid set\<close>

lemma lease_set_ok_append:
  "lease_set_ok (xs @ ys) \<Longrightarrow> lease_set_ok xs \<and> lease_set_ok ys"
  by (auto simp: lease_set_ok_def)

lemma lease_set_ok_filter: "lease_set_ok ls \<Longrightarrow> lease_set_ok (filter P ls)"
  by (induction ls) (auto simp: lease_set_ok_def set_current_agents)

lemma lease_set_ok_prune: "lease_set_ok ls \<Longrightarrow> lease_set_ok (prune_expired_leases ls now)"
  unfolding prune_expired_leases_def by (rule lease_set_ok_filter)

lemma lease_set_ok_remove:
  assumes "lease_set_ok ls" "i < length ls"
  shows "lease_set_ok (take i ls @ drop (Suc i) ls)"
proof -
  have ls: "ls = take i ls @ ls ! i # drop (Suc i) ls" by (rule id_take_nth_drop[OF assms(2)])
  then have "lease_set_ok (take i ls @ ls ! i # drop (Suc i) ls)" using assms(1) by simp
  then show ?thesis by (auto simp: lease_set_ok_def split: if_splits)
qed

lemma lease_set_ok_update:
  assumes "lease_set_ok ls" "i < length ls" "lease_entry_ok l"
    "tl_remote_port l = tl_remote_port (ls ! i)" "tl_lease_id l = tl_lease_id (ls ! i)"
    "tl_current l = tl_current (ls ! i)" "tl_agent_id l = tl_agent_id (ls ! i)"
  shows "lease_set_ok (ls[i := l])"
proof -
  have "current_agents (ls[i := l]) = current_agents ls"
    using assms unfolding current_agents_def by (subst map_update_same) simp_all
  moreover have "map tl_remote_port (ls[i := l]) = map tl_remote_port ls" "map tl_lease_id (ls[i := l]) = map tl_lease_id ls"
    using assms by (simp_all add: map_update_same)
  ultimately show ?thesis using assms(1,3) set_update_subset_insert[of ls i l]
    by (auto simp: lease_set_ok_def)
qed

lemma renewed_entry_ok:
  assumes "lease_entry_ok l" "now \<noteq> 0" "0 < ttl"
  shows "lease_entry_ok (l\<lparr>tl_renewed_at := now, tl_expires_at := now + ttl\<rparr>)"
  using assms by (simp add: lease_entry_ok_def)

lemma retire_current_fields:
  "map tl_remote_port (retire_current a ls) = map tl_remote_port ls"
  "map tl_lease_id (retire_current a ls) = map tl_lease_id ls"
  by (simp_all add: retire_current_def)

lemma retire_current_agents:
  "current_agents (retire_current a ls) = filter (\<lambda>x. x \<noteq> a) (current_agents ls)"
  unfolding retire_current_def by (induction ls) simp_all

lemma retired_entry_ok [simp]: "lease_entry_ok (l\<lparr>tl_current := b\<rparr>) = lease_entry_ok l"
  by (simp add: lease_entry_ok_def)

lemma retire_current_entries:
  "(\<forall>l \<in> set ls. lease_entry_ok l) \<Longrightarrow> \<forall>l \<in> set (retire_current a ls). lease_entry_ok l"
  by (auto simp: retire_current_def)

lemma lease_policy_ok:
  "validate_lease_policy policy = None \<longleftrightarrow> 1 \<le> lp_port_start policy \<and> lp_port_start policy \<le> lp_port_end policy \<and>
     lp_port_end policy \<le> 65535 \<and> 0 < lp_ttl policy"
  by (simp add: validate_lease_policy_def not_less not_le conj_ac) linarith

definition request_ok :: "transport_lease_policy \<Rightarrow> lease_acquire_request \<Rightarrow> bool" where
  "request_ok policy req \<longleftrightarrow> validate_lease_policy policy = None \<and>
     trim_space (lr_agent_id req) \<noteq> [] \<and> lr_generation req \<noteq> 0 \<and>
     (\<forall>slot \<in> set (lr_excluded_slots req). 0 \<le> slot \<and> slot \<le> lp_port_end policy - lp_port_start policy)"

lemma request_error_None: "acquire_request_error policy req = None \<longleftrightarrow> request_ok policy req"
  unfolding acquire_request_error_def request_ok_def
  by (cases "validate_lease_policy policy") (auto simp: find_None_iff not_less)

lemma pick_port_found:
  assumes "validate_lease_policy policy = None" "pick_port policy ex ls = port" "port \<noteq> 0"
  shows "lp_port_start policy \<le> port" "port \<le> lp_port_end policy" "port \<notin> set (map tl_remote_port ls)"
    "port - lp_port_start policy \<notin> set ex"
proof -
  have "port \<in> set [lp_port_start policy..lp_port_end policy] \<and> port \<notin> set (map tl_remote_port ls) \<and>
      port - lp_port_start policy \<notin> set ex"
    using assms(2,3) by (auto simp: pick_port_def contains_slot_def split: option.splits dest: find_SomeD)
  then show "lp_port_start policy \<le> port" "port \<le> lp_port_end policy" "port \<notin> set (map tl_remote_port ls)"
    "port - lp_port_start policy \<notin> set ex" by auto
qed

lemma pick_port_none:
  assumes "validate_lease_policy policy = None" "pick_port policy ex ls = 0"
    "lp_port_start policy \<le> port" "port \<le> lp_port_end policy"
  shows "port - lp_port_start policy \<in> set ex \<or> port \<in> set (map tl_remote_port ls)"
proof (cases "find (\<lambda>port. \<not> contains_slot ex (port - lp_port_start policy) \<and> port \<notin> set (map tl_remote_port ls))
    [lp_port_start policy..lp_port_end policy]")
  case None
  then show ?thesis using assms(3,4) by (auto simp: find_None_iff contains_slot_def)
next
  case (Some p)
  then have "p = 0" using assms(2) by (simp add: pick_port_def)
  moreover have "p \<in> set [lp_port_start policy..lp_port_end policy]"
    using find_SomeD[OF Some] by blast
  ultimately show ?thesis using assms(1) by (simp add: lease_policy_ok)
qed

lemma unique_id_new:
  "unique_lease_id_from n k ids used = Inr x \<Longrightarrow> trim_space x \<noteq> [] \<and> x \<notin> set used"
  by (induction n k ids used rule: unique_lease_id_from.induct) (auto split: option.splits if_splits)

lemma unique_id_error:
  "unique_lease_id_from n k ids used = Inl e \<Longrightarrow> e \<in> {LeaseIDCollision, GenerateIDFailed}"
  by (induction n k ids used rule: unique_lease_id_from.induct) (auto split: option.splits if_splits)

lemma new_lease_set_ok:
  assumes "lease_set_ok ls" "request_ok policy req" "now \<noteq> 0"
    "pick_port policy (lr_excluded_slots req) ls = port" "port \<noteq> 0"
    "generate_unique_lease_id ids ls = Inr lease_id"
  shows "lease_set_ok (retire_current (lr_agent_id req) ls @ [new_lease policy req now lease_id port])"
proof -
  note r = assms(2)[unfolded request_ok_def]
  note p = pick_port_found[OF r[THEN conjunct1] assms(4,5)]
  have u: "trim_space lease_id \<noteq> []" "lease_id \<notin> set (map tl_lease_id ls)"
    using unique_id_new[OF assms(6)[unfolded generate_unique_lease_id_def]] by auto
  have "lease_entry_ok (new_lease policy req now lease_id port)"
    using r p u(1) assms(3) by (auto simp: lease_entry_ok_def new_lease_def lease_policy_ok)
  then show ?thesis
    using assms(1) retire_current_entries[of ls] p(3) u(2)
    unfolding lease_set_ok_def map_append retire_current_fields
    by (auto simp: new_lease_def retire_current_agents)
qed

section \<open>The result of each operation\<close>

lemma commit_cases:
  assumes "commit_leases save c r m = (res, m')"
  obtains (Failed) e where "res = Inl (SaveLeasesFailed e)" "lm_leases m' = lm_leases m"
      "save c (lm_store m) = (Some e, lm_store m')"
  | (Saved) "res = Inr r" "lm_leases m' = c" "save c (lm_store m) = (None, lm_store m')"
  using assms by (auto simp: commit_leases_def split: prod.splits option.splits)

lemma acquire_cases:
  fixes save :: "('s, 'e) lease_save"
  assumes "acquire_lease save ids policy req now m = (res, m')"
  obtains (Refused) e where "res = Inl e" "m' = m" "\<nexists>x. e = SaveLeasesFailed x"
  | (Sticky) i renewed where "request_ok policy req"
      "\<not> acquire_conflict policy req now (lm_leases m) (prune_expired_leases (lm_leases m) now)"
      "i < length (prune_expired_leases (lm_leases m) now)"
      "tl_current (prune_expired_leases (lm_leases m) now ! i)"
      "tl_agent_id (prune_expired_leases (lm_leases m) now ! i) = lr_agent_id req"
      "sticky_lease policy req (prune_expired_leases (lm_leases m) now ! i)"
      "renewed = (prune_expired_leases (lm_leases m) now ! i)
         \<lparr>tl_renewed_at := now, tl_expires_at := now + lp_ttl policy\<rparr>"
      "commit_leases save ((prune_expired_leases (lm_leases m) now)[i := renewed]) renewed m = (res, m')"
  | (New) port lease_id where "request_ok policy req"
      "\<not> acquire_conflict policy req now (lm_leases m) (prune_expired_leases (lm_leases m) now)"
      "\<forall>l \<in> set (prune_expired_leases (lm_leases m) now).
         \<not> (tl_current l \<and> tl_agent_id l = lr_agent_id req \<and> sticky_lease policy req l)"
      "pick_port policy (lr_excluded_slots req) (prune_expired_leases (lm_leases m) now) = port" "port \<noteq> 0"
      "generate_unique_lease_id ids (prune_expired_leases (lm_leases m) now) = (Inr lease_id :: 'e lease_error + string)"
      "commit_leases save (retire_current (lr_agent_id req) (prune_expired_leases (lm_leases m) now) @
         [new_lease policy req now lease_id port]) (new_lease policy req now lease_id port) m = (res, m')"
proof -
  let ?c = "prune_expired_leases (lm_leases m) now"
  note eq = assms[unfolded acquire_lease_def Let_def]
  show thesis
  proof (cases "acquire_request_error policy req :: 'e lease_error option")
    case (Some e)
    have "e \<noteq> SaveLeasesFailed x" for x
      using Some by (auto simp: acquire_request_error_def split: option.splits if_splits)
    then show ?thesis using Refused Some eq by auto
  next
    case ok: None
    then have rok: "request_ok policy req" by (simp add: request_error_None)
    show ?thesis
    proof (cases "acquire_conflict policy req now (lm_leases m) ?c")
      case True
      then show ?thesis using Refused ok eq by auto
    next
      case nc: False
      show ?thesis
      proof (cases "index_of (\<lambda>lease. tl_current lease \<and> tl_agent_id lease = lr_agent_id req \<and>
          sticky_lease policy req lease) ?c")
        case (Some i)
        with index_of_Some[OF Some] ok rok nc eq show ?thesis by (intro Sticky) auto
      next
        case none: None
        have eq2: "(if pick_port policy (lr_excluded_slots req) ?c = 0 then (Inl LeaseCapacity, m)
            else case generate_unique_lease_id ids ?c of Inl e \<Rightarrow> (Inl e, m)
              | Inr lease_id \<Rightarrow> commit_leases save (retire_current (lr_agent_id req) ?c @
                  [new_lease policy req now lease_id (pick_port policy (lr_excluded_slots req) ?c)])
                  (new_lease policy req now lease_id (pick_port policy (lr_excluded_slots req) ?c)) m) = (res, m')"
          using eq ok nc by (simp add: none del: index_of_None)
        show ?thesis
        proof (cases "pick_port policy (lr_excluded_slots req) ?c = 0")
          case True
          then show ?thesis using Refused eq2 by auto
        next
          case port: False
          show ?thesis
          proof (cases "generate_unique_lease_id ids ?c :: 'e lease_error + string")
            case (Inl e)
            then have "e \<in> {LeaseIDCollision, GenerateIDFailed}"
              by (intro unique_id_error) (simp add: generate_unique_lease_id_def)
            then show ?thesis using Refused port Inl eq2 by auto
          next
            case (Inr lease_id)
            then show ?thesis using rok nc none port eq2 by (intro New) auto
          qed
        qed
      qed
    qed
  qed
qed

section \<open>Every operation keeps the set valid\<close>

inductive lease_step :: "('s, 'e) lease_save \<Rightarrow> 's lease_manager \<Rightarrow> 's lease_manager \<Rightarrow> bool"
  for save where
  lease_acquire: "now \<noteq> 0 \<Longrightarrow> acquire_lease save ids policy req now m = (res, m') \<Longrightarrow> lease_step save m m'"
| lease_renew: "now \<noteq> 0 \<Longrightarrow> renew_lease save policy agent lid gen now m = (res, m') \<Longrightarrow> lease_step save m m'"
| lease_release: "release_lease save agent lid gen now m = (res, m') \<Longrightarrow> lease_step save m m'"

text \<open>An operation leaves the manager as it is or commits one candidate set, which is valid.\<close>

lemma acquire_commits:
  assumes "acquire_lease save ids policy req now m = (res, m')" "now \<noteq> 0" "lease_set_ok (lm_leases m)"
  shows "m' = m \<or> (\<exists>c r. lease_set_ok c \<and> commit_leases save c r m = (res, m'))"
  using assms(1)
proof (cases rule: acquire_cases)
  case (Sticky i renewed)
  let ?c = "prune_expired_leases (lm_leases m) now"
  have ok: "lease_set_ok ?c" by (rule lease_set_ok_prune[OF assms(3)])
  then have "lease_entry_ok (?c ! i)" using Sticky(3) by (auto simp: lease_set_ok_def)
  then have "lease_entry_ok renewed"
    using Sticky(1,7) assms(2) by (auto simp: request_ok_def lease_policy_ok intro: renewed_entry_ok)
  then have "lease_set_ok (?c[i := renewed])" using ok Sticky(3,7) by (intro lease_set_ok_update) auto
  then show ?thesis using Sticky(8) by blast
next
  case (New port lease_id)
  from new_lease_set_ok[OF lease_set_ok_prune[OF assms(3)] New(1) assms(2) New(4-6)] New(7)
  show ?thesis by blast
qed simp

lemma renew_commits:
  assumes "renew_lease save policy agent lid gen now m = (res, m')" "now \<noteq> 0" "lease_set_ok (lm_leases m)"
  shows "m' = m \<or> (\<exists>c r. lease_set_ok c \<and> commit_leases save c r m = (res, m'))"
proof (cases "m' = m")
  case False
  then obtain i where p: "validate_lease_policy policy = None" and i: "i < length (lm_leases m)"
    and c: "commit_leases save ((lm_leases m)[i := (lm_leases m ! i)\<lparr>tl_renewed_at := now, tl_expires_at := now + lp_ttl policy\<rparr>])
      ((lm_leases m ! i)\<lparr>tl_renewed_at := now, tl_expires_at := now + lp_ttl policy\<rparr>) m = (res, m')"
    using assms(1) by (auto simp: renew_lease_def Let_def split: option.splits if_splits dest!: index_of_Some)
  have "lease_entry_ok (lm_leases m ! i)" using assms(3) i by (auto simp: lease_set_ok_def)
  then have "lease_entry_ok ((lm_leases m ! i)\<lparr>tl_renewed_at := now, tl_expires_at := now + lp_ttl policy\<rparr>)"
    using p assms(2) by (auto simp: lease_policy_ok intro: renewed_entry_ok)
  then have "lease_set_ok ((lm_leases m)[i := (lm_leases m ! i)\<lparr>tl_renewed_at := now, tl_expires_at := now + lp_ttl policy\<rparr>])"
    using assms(3) i by (intro lease_set_ok_update) auto
  then show ?thesis using c by blast
qed simp

lemma release_commits:
  assumes "release_lease save agent lid gen now m = (res, m')" "lease_set_ok (lm_leases m)"
  shows "m' = m \<or> (\<exists>c r. lease_set_ok c \<and> commit_leases save c r m = (res, m'))"
proof -
  let ?c = "prune_expired_leases (lm_leases m) now"
  let ?f = "index_of (\<lambda>lease. tl_current lease \<and> tl_agent_id lease = agent \<and>
      tl_lease_id lease = lid \<and> tl_generation lease = gen) ?c"
  let ?c' = "case ?f of None \<Rightarrow> ?c | Some i \<Rightarrow> take i ?c @ drop (Suc i) ?c"
  have "lease_set_ok ?c'"
    using lease_set_ok_prune[OF assms(2), of now] by (auto split: option.splits dest!: index_of_Some intro: lease_set_ok_remove)
  moreover have "m' = m \<or> commit_leases save ?c' (?f \<noteq> None) m = (res, m')"
    using assms(1) unfolding release_lease_def Let_def by (auto split: if_splits)
  ultimately show ?thesis by blast
qed

text \<open>What one save of a valid set does to the manager, whatever the operation returned.\<close>

definition saves_valid :: "('s, 'e) lease_save \<Rightarrow> 's lease_manager \<Rightarrow> 's lease_manager \<Rightarrow> bool" where
  "saves_valid save m m' \<longleftrightarrow> (\<exists>c. lease_set_ok c \<and>
     (save c (lm_store m) = (None, lm_store m') \<and> lm_leases m' = c \<or>
      (\<exists>e. save c (lm_store m) = (Some e, lm_store m') \<and> lm_leases m' = lm_leases m)))"

lemma commit_saves_valid:
  assumes "commit_leases save c r m = (res, m')" "lease_set_ok c"
  shows "saves_valid save m m'"
  using assms(1) by (cases rule: commit_cases) (use assms(2) in \<open>auto simp: saves_valid_def\<close>)

lemma lease_step_saves:
  assumes "lease_step save m m'" "lease_set_ok (lm_leases m)"
  shows "m' = m \<or> saves_valid save m m'"
  using assms
proof (induction rule: lease_step.induct)
  case (lease_acquire now ids policy req m res m')
  with acquire_commits commit_saves_valid show ?case by metis
next
  case (lease_renew now policy agent lid gen m res m')
  with renew_commits commit_saves_valid show ?case by metis
next
  case (lease_release agent lid gen now m res m')
  with release_commits commit_saves_valid show ?case by metis
qed

lemma lease_step_valid:
  "lease_step save m m' \<Longrightarrow> lease_set_ok (lm_leases m) \<Longrightarrow> lease_set_ok (lm_leases m')"
  by (drule (1) lease_step_saves) (auto simp: saves_valid_def)

lemma lease_steps_valid:
  "(lease_step save)\<^sup>*\<^sup>* m m' \<Longrightarrow> lease_set_ok (lm_leases m) \<Longrightarrow> lease_set_ok (lm_leases m')"
  by (induction rule: rtranclp_induct) (auto intro: lease_step_valid)

section \<open>Store and memory agree\<close>

context lease_store
begin

definition in_sync :: "'s lease_manager \<Rightarrow> bool" where
  "in_sync m \<longleftrightarrow> load (lm_store m) = Inr (lm_leases m)"

lemma step_in_sync:
  "lease_step save m m' \<Longrightarrow> lease_set_ok (lm_leases m) \<Longrightarrow> in_sync m \<Longrightarrow> in_sync m'"
  by (drule (1) lease_step_saves) (auto simp: saves_valid_def in_sync_def load_saved load_unsaved)

lemma steps_in_sync:
  "(lease_step save)\<^sup>*\<^sup>* m m' \<Longrightarrow> lease_set_ok (lm_leases m) \<Longrightarrow> in_sync m \<Longrightarrow> in_sync m'"
  by (induction rule: rtranclp_induct) (blast intro: step_in_sync dest: lease_steps_valid)+

lemma start_ok:
  assumes "new_lease_manager load save now s = (Inr m, s')"
  shows "lease_set_ok (lm_leases m) \<and> in_sync m \<and> lm_store m = s'"
proof -
  obtain leases where l: "load s = Inr leases"
    and v: "validate_loaded_leases (prune_expired_leases leases now) = None"
    using assms by (auto simp: new_lease_manager_def Let_def split: sum.splits option.splits)
  have same: "length (prune_expired_leases leases now) = length leases \<Longrightarrow> prune_expired_leases leases now = leases"
    unfolding prune_expired_leases_def by (metis length_filter_less filter_True less_irrefl)
  show ?thesis using assms l v same load_saved
    by (auto simp: new_lease_manager_def Let_def in_sync_def validate_loaded_None
        split: if_splits prod.splits option.splits)
qed

text \<open>After any run, a restart finds a valid set: the unexpired leases of the manager that went away.\<close>

lemma restart_after_run:
  assumes "new_lease_manager load save t s = (Inr m, s0)" "(lease_step save)\<^sup>*\<^sup>* m m'"
    "new_lease_manager load save now (lm_store m') = (res, s')"
  shows "(\<exists>m''. res = Inr m'' \<and> lm_leases m'' = prune_expired_leases (lm_leases m') now) \<or>
    (\<exists>e. res = Inl (PruneLeasesFailed e))"
proof -
  have ok: "lease_set_ok (lm_leases m')" and sync: "in_sync m'"
    using start_ok[OF assms(1)] lease_steps_valid[OF assms(2)] steps_in_sync[OF assms(2)] by blast+
  have "validate_loaded_leases (prune_expired_leases (lm_leases m') now) = None"
    by (simp add: validate_loaded_None lease_set_ok_prune[OF ok])
  then show ?thesis using assms(3) sync
    by (auto simp: new_lease_manager_def Let_def in_sync_def split: if_splits prod.splits option.splits)
qed

end

interpretation memory_store: lease_store memory_load memory_save
  by unfold_locales (auto simp: memory_load_def memory_save_def)

lemma run_save_file:
  "run_save save_steps fault leases s = (None, s') \<Longrightarrow> lfs_file s' = Document lease_store_version leases"
  "run_save save_steps fault leases s = (Some e, s') \<Longrightarrow> lfs_file s' = lfs_file s"
  by (auto simp: save_steps_def split: if_splits)

interpretation file_store: lease_store file_load file_save
  by unfold_locales
    (auto simp: file_save_def file_load_def lease_store_version_def split: list.splits dest!: run_save_file)

section \<open>Acquiring\<close>

lemma same_current_lease:
  "lease_set_ok ls \<Longrightarrow> l \<in> set ls \<Longrightarrow> l' \<in> set ls \<Longrightarrow> tl_current l \<Longrightarrow> tl_current l' \<Longrightarrow>
     tl_agent_id l = tl_agent_id l' \<Longrightarrow> l = l'"
proof (induction ls)
  case (Cons x xs)
  then show ?case by (auto simp: lease_set_ok_def set_current_agents split: if_splits)
qed simp

lemma same_port_same_lease:
  "lease_set_ok ls \<Longrightarrow> l \<in> set ls \<Longrightarrow> l' \<in> set ls \<Longrightarrow> tl_remote_port l = tl_remote_port l' \<Longrightarrow> l = l'"
  by (auto simp: lease_set_ok_def distinct_map dest: inj_onD)

lemma acquired_facts:
  assumes "acquire_lease save ids policy req now m = (Inr lease, m')"
  shows "request_ok policy req" "lease \<in> set (lm_leases m')" "tl_agent_id lease = lr_agent_id req"
    "tl_generation lease = lr_generation req" "tl_current lease"
    "lp_port_start policy \<le> tl_remote_port lease" "tl_remote_port lease \<le> lp_port_end policy"
    "tl_slot lease = tl_remote_port lease - lp_port_start policy" "tl_slot lease \<notin> set (lr_excluded_slots req)"
    "tl_renewed_at lease = now" "tl_expires_at lease = now + lp_ttl policy"
    "l \<in> set (lm_leases m) \<Longrightarrow> tl_agent_id l \<noteq> lr_agent_id req \<Longrightarrow> now < tl_expires_at l \<Longrightarrow> l \<in> set (lm_leases m')"
proof -
  let ?c = "prune_expired_leases (lm_leases m) now"
  have "request_ok policy req \<and> lease \<in> set (lm_leases m') \<and> tl_agent_id lease = lr_agent_id req \<and>
    tl_generation lease = lr_generation req \<and> tl_current lease \<and>
    lp_port_start policy \<le> tl_remote_port lease \<and> tl_remote_port lease \<le> lp_port_end policy \<and>
    tl_slot lease = tl_remote_port lease - lp_port_start policy \<and> tl_slot lease \<notin> set (lr_excluded_slots req) \<and>
    tl_renewed_at lease = now \<and> tl_expires_at lease = now + lp_ttl policy \<and>
    (\<forall>l \<in> set (lm_leases m). tl_agent_id l \<noteq> lr_agent_id req \<and> now < tl_expires_at l \<longrightarrow> l \<in> set (lm_leases m'))"
    using assms
  proof (cases rule: acquire_cases)
    case (Sticky i renewed)
    then have m': "lm_leases m' = ?c[i := renewed]" "lease = renewed"
      by (auto elim: commit_cases)
    have keep: "l \<in> set (?c[i := renewed])" if "l \<in> set ?c" "tl_agent_id l \<noteq> lr_agent_id req" for l
      using that Sticky(3,5) by (metis in_set_conv_nth length_list_update nth_list_update_neq)
    show ?thesis using Sticky(1,3-7) m' keep
      by (auto simp: sticky_lease_def lease_matches_policy_def contains_slot_def prune_expired_leases_def
          intro: set_update_memI)
  next
    case (New port lease_id)
    then have m': "lm_leases m' = retire_current (lr_agent_id req) ?c @ [new_lease policy req now lease_id port]"
      "lease = new_lease policy req now lease_id port"
      by (auto elim: commit_cases)
    have keep: "l \<in> set (retire_current (lr_agent_id req) ?c)" if "l \<in> set ?c" "tl_agent_id l \<noteq> lr_agent_id req" for l
      using that by (force simp: retire_current_def)
    have "validate_lease_policy policy = None" using New(1) by (simp add: request_ok_def)
    from pick_port_found[OF this New(4,5)] show ?thesis using New(1) m' keep
      by (auto simp: new_lease_def prune_expired_leases_def)
  qed simp
  then show "request_ok policy req" "lease \<in> set (lm_leases m')" "tl_agent_id lease = lr_agent_id req"
    "tl_generation lease = lr_generation req" "tl_current lease"
    "lp_port_start policy \<le> tl_remote_port lease" "tl_remote_port lease \<le> lp_port_end policy"
    "tl_slot lease = tl_remote_port lease - lp_port_start policy" "tl_slot lease \<notin> set (lr_excluded_slots req)"
    "tl_renewed_at lease = now" "tl_expires_at lease = now + lp_ttl policy"
    "l \<in> set (lm_leases m) \<Longrightarrow> tl_agent_id l \<noteq> lr_agent_id req \<Longrightarrow> now < tl_expires_at l \<Longrightarrow> l \<in> set (lm_leases m')"
    by blast+
qed

lemma acquired_valid:
  assumes "acquire_lease save ids policy req now m = (res, m')" "now \<noteq> 0" "lease_set_ok (lm_leases m)"
  shows "lease_set_ok (lm_leases m')"
  using lease_step_valid[OF lease_acquire[OF assms(2,1)] assms(3)] .

lemma find_current:
  assumes "lease_set_ok ls" "l \<in> set ls" "tl_current l"
  shows "find (\<lambda>x. tl_current x \<and> tl_agent_id x = tl_agent_id l) ls = Some l"
proof (cases "find (\<lambda>x. tl_current x \<and> tl_agent_id x = tl_agent_id l) ls")
  case None
  then show ?thesis using assms by (auto simp: find_None_iff)
next
  case (Some x)
  with find_SomeD[OF Some] same_current_lease[OF assms(1) _ assms(2) _ assms(3)] show ?thesis by auto
qed

section \<open>Properties\<close>

text \<open>
  C29. The check the manager makes of a persisted lease set at start-up holds after every operation,
  failed saves included: no two leases have the same port or the same id, no agent has two current
  leases, and every lease has an identity, a generation, a port and a lifetime that are valid.
\<close>

theorem leases_stay_valid:
  assumes "validate_loaded_leases (lm_leases m) = None" "(lease_step save)\<^sup>*\<^sup>* m m'"
  shows "validate_loaded_leases (lm_leases m') = None \<and>
    distinct (map tl_remote_port (lm_leases m')) \<and> distinct (map tl_lease_id (lm_leases m')) \<and>
    distinct (current_agents (lm_leases m'))"
  using lease_steps_valid[OF assms(2)] assms(1) by (simp add: validate_loaded_None lease_set_ok_def)

text \<open>
  C30. The file store loses nothing the manager acknowledged: after any sequence of operations, with saves
  failing at any of their steps, a restart on the file left behind starts with exactly the leases the
  manager had in memory, less those that expired meanwhile, unless saving that pruned set fails.
\<close>

theorem leases_survive_restart:
  assumes "new_lease_manager file_load file_save t s = (Inr m, s0)" "(lease_step file_save)\<^sup>*\<^sup>* m m'"
    "new_lease_manager file_load file_save now (lm_store m') = (res, s')"
  shows "case res of
      Inr m'' \<Rightarrow> lm_leases m'' = prune_expired_leases (lm_leases m') now
    | Inl e \<Rightarrow> (\<exists>step. e = PruneLeasesFailed (StepFailed step))"
proof (cases res)
  case (Inr m'')
  then show ?thesis using file_store.restart_after_run[OF assms] by auto
next
  case (Inl e)
  then obtain x where "e = PruneLeasesFailed x" using file_store.restart_after_run[OF assms] by auto
  moreover from this Inl assms(3) obtain pruned s1 where "file_save pruned (lm_store m') = (Some x, s1)"
    by (auto simp: new_lease_manager_def Let_def split: sum.splits option.splits if_splits prod.splits)
  then have "\<exists>step. x = StepFailed step"
    by (auto simp: file_save_def save_steps_def split: list.splits if_splits)
  ultimately show ?thesis using Inl by auto
qed

text \<open>
  A lease that is granted is the agent's current one for the generation it asked for, on a port of the
  policy's range at a slot the agent did not exclude, for the whole time to live; no other lease has
  its port, and the unexpired leases of the other agents stay as they are.
\<close>

theorem acquire_grants_own_port:
  assumes "validate_loaded_leases (lm_leases m) = None" "now \<noteq> 0"
    "acquire_lease save ids policy req now m = (Inr lease, m')"
  shows "lease \<in> set (lm_leases m') \<and> tl_current lease \<and> tl_agent_id lease = lr_agent_id req \<and>
    tl_generation lease = lr_generation req \<and>
    lp_port_start policy \<le> tl_remote_port lease \<and> tl_remote_port lease \<le> lp_port_end policy \<and>
    tl_remote_port lease - lp_port_start policy \<notin> set (lr_excluded_slots req) \<and>
    tl_expires_at lease = now + lp_ttl policy \<and>
    (\<forall>l \<in> set (lm_leases m'). tl_remote_port l = tl_remote_port lease \<longrightarrow> l = lease) \<and>
    (\<forall>l \<in> set (lm_leases m). tl_agent_id l \<noteq> lr_agent_id req \<longrightarrow> now < tl_expires_at l \<longrightarrow>
       l \<in> set (lm_leases m'))"
proof -
  note f = acquired_facts[OF assms(3)]
  have ok: "lease_set_ok (lm_leases m')"
    using acquired_valid[OF assms(3,2)] assms(1) by (simp add: validate_loaded_None)
  show ?thesis using f same_port_same_lease[OF ok _ f(2)] by auto
qed

text \<open>
  The manager refuses for want of capacity only when there is none: every port of the range is then
  excluded by the agent or held by a lease that has not expired, and nothing changes.
\<close>

theorem capacity_error_means_full:
  assumes "acquire_lease save ids policy req now m = (Inl LeaseCapacity, m')"
    "lp_port_start policy \<le> port" "port \<le> lp_port_end policy"
  shows "m' = m \<and> (port - lp_port_start policy \<in> set (lr_excluded_slots req) \<or>
    port \<in> tl_remote_port ` {l \<in> set (lm_leases m). now < tl_expires_at l})"
proof -
  let ?c = "prune_expired_leases (lm_leases m) now"
  note eq = assms(1)[unfolded acquire_lease_def Let_def]
  have "acquire_request_error policy req \<noteq> Some LeaseCapacity"
    by (auto simp: acquire_request_error_def split: option.splits)
  moreover have "generate_unique_lease_id ids ?c \<noteq> Inl LeaseCapacity"
    unfolding generate_unique_lease_id_def using unique_id_error by blast
  ultimately have "request_ok policy req" "pick_port policy (lr_excluded_slots req) ?c = 0" "m' = m"
    using eq
    by (auto simp: commit_leases_def request_error_None split: option.splits if_splits sum.splits prod.splits)
  moreover from this have "validate_lease_policy policy = None" by (simp add: request_ok_def)
  ultimately show ?thesis
    using pick_port_none[OF _ _ assms(2,3), of "lr_excluded_slots req" ?c] by (auto simp: prune_expired_leases_def)
qed

text \<open>
  Acquiring is idempotent: an agent that asks again before its lease expires, with the same request
  and naming the lease it holds or none, gets the same lease id and port with a renewed lifetime, or
  the error of the store and then keeps what it had.
\<close>

theorem acquire_again_same_lease:
  assumes "validate_loaded_leases (lm_leases m) = None" "now \<noteq> 0" "lp_ttl policy \<le> max_int64"
    "acquire_lease save ids policy req now m = (Inr lease, m')"
    "claimed = [] \<or> claimed = tl_lease_id lease" "later < tl_expires_at lease"
    "acquire_lease save ids' policy (req\<lparr>lr_current_lease_id := claimed\<rparr>) later m' = (res, m'')"
  shows "case res of
      Inr lease' \<Rightarrow> lease' = lease\<lparr>tl_renewed_at := later, tl_expires_at := later + lp_ttl policy\<rparr>
    | Inl e \<Rightarrow> (\<exists>x. e = SaveLeasesFailed x) \<and> lm_leases m'' = lm_leases m'"
proof -
  let ?c = "prune_expired_leases (lm_leases m') later"
  define req' where "req' = req\<lparr>lr_current_lease_id := claimed\<rparr>"
  note f = acquired_facts[OF assms(4)]
  have r': "lr_agent_id req' = lr_agent_id req" "lr_generation req' = lr_generation req"
      "lr_excluded_slots req' = lr_excluded_slots req"
    by (simp_all add: req'_def)
  have "lease_set_ok (lm_leases m')"
    using acquired_valid[OF assms(4,2)] assms(1) by (simp add: validate_loaded_None)
  then have ok: "lease_set_ok ?c" by (rule lease_set_ok_prune)
  have mem: "lease \<in> set ?c" using f(2) assms(6) by (simp add: prune_expired_leases_def)
  have ttl: "0 < lp_ttl policy" using f(1) by (simp add: request_ok_def lease_policy_ok)
  have sticky: "sticky_lease policy req' lease"
    using f(4,6-11) assms(3) ttl
    by (simp add: sticky_lease_def lease_matches_policy_def contains_slot_def r' time_sub_def)
  have req: "request_ok policy req'" using f(1) by (simp add: request_ok_def r')
  have "find (\<lambda>l. tl_current l \<and> tl_agent_id l = lr_agent_id req') ?c = Some lease"
    using find_current[OF ok mem f(5)] by (simp add: f(3) r')
  then have nc: "\<not> acquire_conflict policy req' later (lm_leases m') ?c"
    using assms(5) sticky by (auto simp: acquire_conflict_def req'_def)
  obtain i where i: "index_of (\<lambda>l. tl_current l \<and> tl_agent_id l = lr_agent_id req' \<and> sticky_lease policy req' l) ?c = Some i"
    using mem f(3,5) sticky r'(1) by (metis (mono_tags, lifting) index_of_None not_None_eq)
  then have "?c ! i = lease"
    using index_of_Some[OF i] same_current_lease[OF ok _ mem _ f(5)] f(3) r'(1) by (metis nth_mem)
  then have "commit_leases save (?c[i := lease\<lparr>tl_renewed_at := later, tl_expires_at := later + lp_ttl policy\<rparr>])
      (lease\<lparr>tl_renewed_at := later, tl_expires_at := later + lp_ttl policy\<rparr>) m' = (res, m'')"
    using assms(7)[folded req'_def] nc i
    by (simp add: acquire_lease_def Let_def request_error_None[THEN iffD2, OF req] del: index_of_None)
  then show ?thesis by (cases rule: commit_cases) auto
qed

section \<open>Examples\<close>

definition example_lease_policy :: transport_lease_policy where
  "example_lease_policy = \<lparr>lp_port_start = 20000, lp_port_end = 20000, lp_ttl = 60 * second\<rparr>"

definition example_lease_request :: "string \<Rightarrow> lease_acquire_request" where
  "example_lease_request agent = \<lparr>lr_agent_id = agent, lr_generation = 7, lr_current_lease_id = [], lr_excluded_slots = []\<rparr>"

definition empty_file_store :: lease_file_store where
  "empty_file_store = \<lparr>lfs_file = NoFile, lfs_temporaries = 0, lfs_faults = []\<rparr>"

definition empty_manager :: "lease_file_store lease_manager" where
  "empty_manager = \<lparr>lm_store = empty_file_store, lm_leases = []\<rparr>"

definition example_lease :: transport_lease where
  "example_lease = \<lparr>tl_agent_id = ''g'', tl_lease_id = ''i'', tl_slot = 0, tl_remote_port = 20000, tl_generation = 7,
     tl_current = True, tl_renewed_at = second, tl_expires_at = 61 * second\<rparr>"

definition one_lease_manager :: "lease_file_store lease_manager" where
  "one_lease_manager = \<lparr>lm_store = empty_file_store\<lparr>lfs_file := Document 1 [example_lease]\<rparr>, lm_leases = [example_lease]\<rparr>"

lemma example_acquire:
  "acquire_lease file_save (\<lambda>k. Some ''i'') example_lease_policy (example_lease_request ''g'') second empty_manager =
     (Inr example_lease, one_lease_manager)"
  by code_simp

lemma empty_manager_valid: "validate_loaded_leases (lm_leases empty_manager) = None"
  by code_simp

lemma one_lease_valid: "validate_loaded_leases (lm_leases one_lease_manager) = None"
  by code_simp

lemma example_lease_run: "(lease_step file_save)\<^sup>*\<^sup>* empty_manager one_lease_manager"
  by (rule r_into_rtranclp, rule lease_acquire[OF _ example_acquire]) simp

theorem leases_stay_valid_witness:
  "validate_loaded_leases (lm_leases one_lease_manager) = None \<and> lm_leases one_lease_manager = [example_lease]"
  using leases_stay_valid[OF empty_manager_valid example_lease_run] by (simp add: one_lease_manager_def)

theorem leases_survive_restart_witness:
  "\<exists>m. fst (new_lease_manager file_load file_save (2 * second) (lm_store one_lease_manager)) = Inr m \<and>
     lm_leases m = [example_lease]"
proof -
  have start: "new_lease_manager file_load file_save 0 empty_file_store = (Inr empty_manager, empty_file_store)"
    by code_simp
  obtain res s' where r: "new_lease_manager file_load file_save (2 * second) (lm_store one_lease_manager) = (res, s')"
    by fastforce
  have ok: "fst (new_lease_manager file_load file_save (2 * second) (lm_store one_lease_manager)) =
      (Inr one_lease_manager :: file_store_error start_error + lease_file_store lease_manager)" by code_simp
  have "prune_expired_leases (lm_leases one_lease_manager) (2 * second) = [example_lease]" by code_simp
  with leases_survive_restart[OF start example_lease_run r] ok r show ?thesis by simp
qed

theorem acquire_grants_own_port_witness:
  "example_lease \<in> set (lm_leases one_lease_manager) \<and> tl_remote_port example_lease = 20000"
  using acquire_grants_own_port[OF empty_manager_valid _ example_acquire]
  by (simp add: example_lease_def example_lease_policy_def)

theorem capacity_error_means_full_witness:
  "20000 \<in> tl_remote_port ` {l \<in> set (lm_leases one_lease_manager). 2 * second < tl_expires_at l}"
proof -
  have "acquire_lease file_save (\<lambda>k. Some ''j'') example_lease_policy (example_lease_request ''h'') (2 * second) one_lease_manager =
     (Inl LeaseCapacity, one_lease_manager)" by code_simp
  from capacity_error_means_full[OF this, of 20000] show ?thesis
    by (simp add: example_lease_policy_def example_lease_request_def)
qed

theorem acquire_again_same_lease_witness:
  "fst (acquire_lease file_save (\<lambda>k. None) example_lease_policy
      ((example_lease_request ''g'')\<lparr>lr_current_lease_id := ''i''\<rparr>) (2 * second) one_lease_manager) =
     Inr (example_lease\<lparr>tl_renewed_at := 2 * second, tl_expires_at := 62 * second\<rparr>)"
proof -
  let ?req = "(example_lease_request ''g'')\<lparr>lr_current_lease_id := ''i''\<rparr>"
  obtain res m'' where r: "acquire_lease file_save (\<lambda>k. None) example_lease_policy ?req (2 * second) one_lease_manager = (res, m'')"
    by fastforce
  have ok: "isl (fst (acquire_lease file_save (\<lambda>k. None) example_lease_policy ?req (2 * second) one_lease_manager)) = False"
    by code_simp
  have "lp_ttl example_lease_policy \<le> max_int64" "''i'' = tl_lease_id example_lease" "2 * second < tl_expires_at example_lease"
    by (simp_all add: example_lease_policy_def example_lease_def)
  from acquire_again_same_lease[OF empty_manager_valid _ this(1) example_acquire disjI2[OF this(2)] this(3) r] ok r
  show ?thesis by (cases res) (simp_all add: example_lease_policy_def)
qed

end
