(* ===== verification/YamlNodes.thy ===== *)
theory YamlNodes
  imports Prelude
begin

text \<open>
  The YAML node graph that the configuration editor walks (internal/gateway/config_manager.go:
  \<open>yamlLookupMappingKey\<close> to \<open>isYAMLMergeKey\<close>, \<open>replaceFRPAuthTokenYAML\<close>). The nodes of a document are a
  list and a pointer is an index into it; an index past the end is nil. The decoder puts a document
  node at the top only, so \<open>yamlDocumentRoot\<close> is the field \<open>yd_root\<close> of a document, \<open>None\<close> when the
  document is empty. Aliases make the graph cyclic: every recursion carries the nodes it is visiting,
  and ends because a node is entered once. Decoding and encoding are parameters.
\<close>

section \<open>Nodes\<close>

datatype yaml_kind = MappingNode | SequenceNode | ScalarNode | AliasNode

record yaml_node =
  yn_kind :: yaml_kind
  yn_tag :: string
  yn_value :: string
  yn_content :: "nat list"
  yn_alias :: "nat option"

record yaml_document =
  yd_nodes :: "yaml_node list"
  yd_root :: "nat option"

text \<open>The key and value pointers of a mapping's content; an odd last entry is ignored.\<close>

fun content_pairs :: "nat list \<Rightarrow> (nat \<times> nat) list" where
  "content_pairs (k # v # rest) = (k, v) # content_pairs rest"
| "content_pairs _ = []"

definition is_yaml_merge_key :: "yaml_node list \<Rightarrow> nat \<Rightarrow> bool" where
  "is_yaml_merge_key ns k \<longleftrightarrow> k < length ns \<and> (yn_tag (ns ! k) = ''!!merge'' \<or> yn_value (ns ! k) = ''<<'')"

definition has_key :: "yaml_node list \<Rightarrow> string \<Rightarrow> nat \<times> nat \<Rightarrow> bool" where
  "has_key ns key kv \<longleftrightarrow> \<not> is_yaml_merge_key ns (fst kv) \<and> fst kv < length ns \<and> yn_value (ns ! fst kv) = key"

definition merged_values :: "yaml_node list \<Rightarrow> nat \<Rightarrow> nat list" where
  "merged_values ns i = map snd (filter (\<lambda>kv. is_yaml_merge_key ns (fst kv)) (content_pairs (yn_content (ns ! i))))"

definition unvisited :: "yaml_node list \<Rightarrow> nat list \<Rightarrow> nat" where
  "unvisited ns visiting = card ({..<length ns} - set visiting)"

lemma unvisited_less [termination_simp, intro]:
  "i < length ns \<Longrightarrow> i \<notin> set visiting \<Longrightarrow> unvisited ns (i # visiting) < unvisited ns visiting"
  unfolding unvisited_def by (rule psubset_card_mono) auto

section \<open>Looking up a key\<close>

function (sequential)
  yaml_lookup_mapping_key :: "yaml_node list \<Rightarrow> string \<Rightarrow> nat list \<Rightarrow> nat \<Rightarrow> nat option" and
  yaml_lookup_merged_key :: "yaml_node list \<Rightarrow> string \<Rightarrow> nat list \<Rightarrow> nat \<Rightarrow> nat option" and
  yaml_lookup_first_merged :: "yaml_node list \<Rightarrow> string \<Rightarrow> nat list \<Rightarrow> nat list \<Rightarrow> nat option"
where
  "yaml_lookup_mapping_key ns key visiting i =
     (if i \<ge> length ns then None
      else case yn_kind (ns ! i) of
        AliasNode \<Rightarrow>
          (case yn_alias (ns ! i) of
             None \<Rightarrow> None
           | Some j \<Rightarrow> if i \<in> set visiting then None else yaml_lookup_mapping_key ns key (i # visiting) j)
      | MappingNode \<Rightarrow>
          (if i \<in> set visiting then None
           else case find (has_key ns key) (content_pairs (yn_content (ns ! i))) of
             Some kv \<Rightarrow> Some (snd kv)
           | None \<Rightarrow> yaml_lookup_first_merged ns key (i # visiting) (merged_values ns i))
      | _ \<Rightarrow> None)"
| "yaml_lookup_merged_key ns key visiting i =
     (if i \<ge> length ns then None
      else case yn_kind (ns ! i) of
        AliasNode \<Rightarrow> yaml_lookup_mapping_key ns key visiting i
      | MappingNode \<Rightarrow> yaml_lookup_mapping_key ns key visiting i
      | SequenceNode \<Rightarrow>
          (if i \<in> set visiting then None
           else yaml_lookup_first_merged ns key (i # visiting) (yn_content (ns ! i)))
      | ScalarNode \<Rightarrow> None)"
| "yaml_lookup_first_merged ns key visiting [] = None"
| "yaml_lookup_first_merged ns key visiting (c # cs) =
     (case yaml_lookup_merged_key ns key visiting c of
        Some v \<Rightarrow> Some v
      | None \<Rightarrow> yaml_lookup_first_merged ns key visiting cs)"
  by pat_completeness auto
termination
  by (relation "measures
      [case_sum (\<lambda>(ns, key, visiting, i). unvisited ns visiting)
         (case_sum (\<lambda>(ns, key, visiting, i). unvisited ns visiting) (\<lambda>(ns, key, visiting, cs). unvisited ns visiting)),
       case_sum (\<lambda>_. 0) (case_sum (\<lambda>_. 1) (\<lambda>(ns, key, visiting, cs). 2 + length cs))]")
    auto

function (sequential) yaml_resolve_alias :: "yaml_node list \<Rightarrow> nat list \<Rightarrow> nat \<Rightarrow> nat option" where
  "yaml_resolve_alias ns visited i =
     (if i \<ge> length ns then None
      else if yn_kind (ns ! i) = AliasNode
      then (case yn_alias (ns ! i) of
              None \<Rightarrow> None
            | Some j \<Rightarrow> if i \<in> set visited then None else yaml_resolve_alias ns (i # visited) j)
      else Some i)"
  by pat_completeness auto
termination
  by (relation "measure (\<lambda>(ns, visited, i). unvisited ns visited)") auto

fun yaml_lookup_path :: "yaml_node list \<Rightarrow> nat \<Rightarrow> string list \<Rightarrow> nat option" where
  "yaml_lookup_path ns i [] = Some i"
| "yaml_lookup_path ns i (key # path) =
     (case yaml_lookup_mapping_key ns key [] i of
        None \<Rightarrow> None
      | Some j \<Rightarrow> yaml_lookup_path ns j path)"

definition yaml_mapping_value :: "yaml_document \<Rightarrow> string list \<Rightarrow> nat option" where
  "yaml_mapping_value doc path =
     (case yd_root doc of
        None \<Rightarrow> None
      | Some root \<Rightarrow>
          (case yaml_lookup_path (yd_nodes doc) root path of
             None \<Rightarrow> None
           | Some i \<Rightarrow> yaml_resolve_alias (yd_nodes doc) [] i))"

section \<open>Collecting every value a key may take\<close>

text \<open>\<open>seen\<close> holds exactly the values collected so far, so the list of values stands for both.\<close>

definition add_value :: "yaml_node list \<Rightarrow> nat \<Rightarrow> nat list \<Rightarrow> nat list" where
  "add_value ns v vals =
     (case yaml_resolve_alias ns [] v of
        Some r \<Rightarrow> if r \<in> set vals then vals else vals @ [r]
      | None \<Rightarrow> vals)"

definition add_own_values :: "yaml_node list \<Rightarrow> string \<Rightarrow> nat \<Rightarrow> nat list \<Rightarrow> nat list" where
  "add_own_values ns key i vals =
     fold (\<lambda>kv. add_value ns (snd kv)) (filter (has_key ns key) (content_pairs (yn_content (ns ! i)))) vals"

function (sequential)
  yaml_collect_mapping :: "yaml_node list \<Rightarrow> string \<Rightarrow> nat list \<Rightarrow> nat \<Rightarrow> nat list \<Rightarrow> nat list" and
  yaml_collect_merged :: "yaml_node list \<Rightarrow> string \<Rightarrow> nat list \<Rightarrow> nat \<Rightarrow> nat list \<Rightarrow> nat list" and
  yaml_collect_all :: "yaml_node list \<Rightarrow> string \<Rightarrow> nat list \<Rightarrow> nat list \<Rightarrow> nat list \<Rightarrow> nat list"
where
  "yaml_collect_mapping ns key visiting i vals =
     (if i \<ge> length ns then vals
      else case yn_kind (ns ! i) of
        AliasNode \<Rightarrow>
          (case yn_alias (ns ! i) of
             None \<Rightarrow> vals
           | Some j \<Rightarrow> if i \<in> set visiting then vals else yaml_collect_mapping ns key (i # visiting) j vals)
      | MappingNode \<Rightarrow>
          (if i \<in> set visiting then vals
           else yaml_collect_all ns key (i # visiting) (merged_values ns i) (add_own_values ns key i vals))
      | _ \<Rightarrow> vals)"
| "yaml_collect_merged ns key visiting i vals =
     (if i \<ge> length ns then vals
      else case yn_kind (ns ! i) of
        AliasNode \<Rightarrow> yaml_collect_mapping ns key visiting i vals
      | MappingNode \<Rightarrow> yaml_collect_mapping ns key visiting i vals
      | SequenceNode \<Rightarrow>
          (if i \<in> set visiting then vals
           else yaml_collect_all ns key (i # visiting) (yn_content (ns ! i)) vals)
      | ScalarNode \<Rightarrow> vals)"
| "yaml_collect_all ns key visiting [] vals = vals"
| "yaml_collect_all ns key visiting (c # cs) vals =
     yaml_collect_all ns key visiting cs (yaml_collect_merged ns key visiting c vals)"
  by pat_completeness auto
termination
  by (relation "measures
      [case_sum (\<lambda>(ns, key, visiting, i, vals). unvisited ns visiting)
         (case_sum (\<lambda>(ns, key, visiting, i, vals). unvisited ns visiting)
            (\<lambda>(ns, key, visiting, cs, vals). unvisited ns visiting)),
       case_sum (\<lambda>_. 0) (case_sum (\<lambda>_. 1) (\<lambda>(ns, key, visiting, cs, vals). 2 + length cs))]")
    auto

declare yaml_resolve_alias.simps [simp del] yaml_lookup_mapping_key.simps [simp del]
  yaml_lookup_merged_key.simps [simp del] yaml_collect_mapping.simps [simp del] yaml_collect_merged.simps [simp del]

definition yaml_mapping_contributors :: "yaml_node list \<Rightarrow> string \<Rightarrow> nat \<Rightarrow> nat list" where
  "yaml_mapping_contributors ns key i = yaml_collect_mapping ns key [] i []"

fun yaml_contributors_from :: "yaml_node list \<Rightarrow> nat list \<Rightarrow> string list \<Rightarrow> nat list" where
  "yaml_contributors_from ns current [] = current"
| "yaml_contributors_from ns current (key # path) =
     (let found = dedup_first (concat (map (yaml_mapping_contributors ns key) current))
      in if found = [] then [] else yaml_contributors_from ns found path)"

definition yaml_path_contributors :: "yaml_document \<Rightarrow> string list \<Rightarrow> nat list" where
  "yaml_path_contributors doc path =
     (case yd_root doc of None \<Rightarrow> [] | Some root \<Rightarrow> yaml_contributors_from (yd_nodes doc) [root] path)"

section \<open>Masking the tunnel token\<close>

definition redaction_marker :: string where
  "redaction_marker = ''__LLMSWAP_REDACTED__''"

definition auth_token_path :: "string list" where
  "auth_token_path = [''transport'', ''frp'', ''auth_token'']"

datatype 'e yaml_error = YamlDecode 'e | YamlEncode 'e | NoSecretToPreserve

definition skips_token :: "string \<Rightarrow> yaml_node \<Rightarrow> bool" where
  "skips_token match token \<longleftrightarrow> yn_value token = [] \<or> match \<noteq> [] \<and> yn_value token \<noteq> match"

definition set_token :: "string \<Rightarrow> yaml_node \<Rightarrow> yaml_node" where
  "set_token replacement token = token\<lparr>yn_kind := ScalarNode, yn_tag := ''!!str'', yn_value := replacement\<rparr>"

text \<open>The loop over the contributors: the nodes, and whether one of them changed; \<open>None\<close> is the error.\<close>

fun replace_tokens ::
  "string \<Rightarrow> string \<Rightarrow> nat list \<Rightarrow> yaml_node list \<Rightarrow> bool \<Rightarrow> (yaml_node list \<times> bool) option" where
  "replace_tokens match replacement [] ns changed = Some (ns, changed)"
| "replace_tokens match replacement (i # is) ns changed =
     (if skips_token match (ns ! i) then replace_tokens match replacement is ns changed
      else if match = redaction_marker \<and> (replacement = [] \<or> replacement = redaction_marker) then None
      else replace_tokens match replacement is (ns[i := set_token replacement (ns ! i)]) True)"

definition replace_auth_token_yaml ::
  "(string \<Rightarrow> 'e + yaml_document) \<Rightarrow> (yaml_document \<Rightarrow> 'e + string) \<Rightarrow> string \<Rightarrow> string \<Rightarrow> string \<Rightarrow>
   'e yaml_error + string" where
  "replace_auth_token_yaml decode encode raw match replacement =
     (case decode raw of
        Inl e \<Rightarrow> Inl (YamlDecode e)
      | Inr doc \<Rightarrow>
          (case replace_tokens match replacement (yaml_path_contributors doc auth_token_path) (yd_nodes doc) False of
             None \<Rightarrow> Inl NoSecretToPreserve
           | Some (ns, changed) \<Rightarrow>
               if \<not> changed then Inr raw
               else (case encode (doc\<lparr>yd_nodes := ns\<rparr>) of
                       Inl e \<Rightarrow> Inl (YamlEncode e)
                     | Inr out \<Rightarrow> Inr out)))"

end
