(* ===== verification/RevisionStore.thy ===== *)
theory RevisionStore
  imports Leases
begin

text \<open>
  Configuration revisions (internal/gateway/config_revision_store.go): every accepted configuration gets
  a number that is larger than all before it, from a counter in memory or in a file that several
  gateways may share. What the callers rely on is the locale \<open>revision_store\<close>. The file's content is
  what \<open>encoding/json\<close> reads from it; \<open>allocation\<close> says which calls of one allocation fail.
\<close>

section \<open>Memory\<close>

datatype revision_error =
    ContextDone | RevisionExhausted | RevisionDirectoryFailed | RevisionLockOpenFailed | RevisionLockFailed
  | RevisionOpenFailed | RevisionDecodeFailed | RevisionTrailingValue | RevisionVersion int | RevisionNegative int
  | RevisionSaveFailed save_step | RevisionUnlockFailed bool bool

type_synonym memory_revision_store = int

definition memory_allocate :: "bool \<Rightarrow> memory_revision_store \<Rightarrow> (revision_error + int) \<times> memory_revision_store" where
  "memory_allocate ctx_done s =
     (if ctx_done then (Inl ContextDone, s)
      else if s = max_int64 then (Inl RevisionExhausted, s)
      else (Inr (s + 1), s + 1))"

section \<open>File\<close>

datatype revision_file =
  NoRevisionFile | UnreadableRevision | RevisionNotJSON | RevisionTrailing | RevisionDocument int int

record revision_file_store =
  rfs_file :: revision_file
  rfs_temporaries :: nat

record allocation =
  al_ctx_done :: bool
  al_directory_fails :: bool
  al_lock_open_fails :: bool
  al_lock_fails :: bool
  al_ctx_done_late :: bool
  al_save_fails :: "save_step option"
  al_unlock_fails :: bool
  al_close_fails :: bool

definition revision_store_version :: int where
  "revision_store_version = 1"

definition load_revision :: "revision_file_store \<Rightarrow> revision_error + int" where
  "load_revision s =
     (case rfs_file s of
        NoRevisionFile \<Rightarrow> Inr 0
      | UnreadableRevision \<Rightarrow> Inl RevisionOpenFailed
      | RevisionNotJSON \<Rightarrow> Inl RevisionDecodeFailed
      | RevisionTrailing \<Rightarrow> Inl RevisionTrailingValue
      | RevisionDocument version revision \<Rightarrow>
          if version \<noteq> revision_store_version then Inl (RevisionVersion version)
          else if revision < 0 then Inl (RevisionNegative revision)
          else Inr revision)"

fun run_revision_step :: "int \<Rightarrow> save_step \<Rightarrow> revision_file_store \<Rightarrow> revision_file_store" where
  "run_revision_step revision CreateTemporary s = s\<lparr>rfs_temporaries := rfs_temporaries s + 1\<rparr>"
| "run_revision_step revision ReplaceFile s =
     s\<lparr>rfs_file := RevisionDocument revision_store_version revision, rfs_temporaries := rfs_temporaries s - 1\<rparr>"
| "run_revision_step revision _ s = s"

fun save_revision :: "save_step list \<Rightarrow> save_step option \<Rightarrow> int \<Rightarrow> revision_file_store \<Rightarrow>
   revision_error option \<times> revision_file_store" where
  "save_revision [] fault revision s = (None, s)"
| "save_revision (step # steps) fault revision s =
     (if fault = Some step
      then (Some (RevisionSaveFailed step),
            if step \<in> {MakeDirectory, CreateTemporary} then s else s\<lparr>rfs_temporaries := rfs_temporaries s - 1\<rparr>)
      else save_revision steps fault revision (run_revision_step revision step s))"

text \<open>The part of \<open>Allocate\<close> under the file lock.\<close>

definition allocate_locked :: "allocation \<Rightarrow> revision_file_store \<Rightarrow> (revision_error + int) \<times> revision_file_store" where
  "allocate_locked a s =
     (case load_revision s of
        Inl e \<Rightarrow> (Inl e, s)
      | Inr current \<Rightarrow>
          if current = max_int64 then (Inl RevisionExhausted, s)
          else if al_ctx_done_late a then (Inl ContextDone, s)
          else (case save_revision save_steps (al_save_fails a) (current + 1) s of
                  (Some e, s') \<Rightarrow> (Inl e, s')
                | (None, s') \<Rightarrow> (Inr (current + 1), s')))"

text \<open>
  The deferred unlock and close turn a success into an error when they fail: the caller then sees an
  error although the revision is used up.
\<close>

definition file_allocate :: "allocation \<Rightarrow> revision_file_store \<Rightarrow> (revision_error + int) \<times> revision_file_store" where
  "file_allocate a s =
     (if al_ctx_done a then (Inl ContextDone, s)
      else if al_directory_fails a then (Inl RevisionDirectoryFailed, s)
      else if al_lock_open_fails a then (Inl RevisionLockOpenFailed, s)
      else if al_lock_fails a then (Inl RevisionLockFailed, s)
      else
        let (res, s') = allocate_locked a s
        in if al_unlock_fails a \<or> al_close_fails a
           then (Inl (RevisionUnlockFailed (al_unlock_fails a) (al_close_fails a)), s') else (res, s'))"

section \<open>What the callers rely on\<close>

locale revision_store =
  fixes allocate :: "'a \<Rightarrow> 's \<Rightarrow> (revision_error + int) \<times> 's"
    and current :: "'s \<Rightarrow> int"
  assumes allocate_ok: "allocate a s = (Inr v, s') \<Longrightarrow> v = current s + 1 \<and> current s' = v"
    and allocate_error: "allocate a s = (Inl e, s') \<Longrightarrow> current s \<le> current s'"
begin

text \<open>A sequence of allocations by any callers: the revisions handed out, and the store.\<close>

fun hand_out :: "'a list \<Rightarrow> 's \<Rightarrow> int list \<times> 's" where
  "hand_out [] s = ([], s)"
| "hand_out (a # as) s =
     (case allocate a s of
        (Inl e, s') \<Rightarrow> hand_out as s'
      | (Inr v, s') \<Rightarrow> (let (vs, s'') = hand_out as s' in (v # vs, s'')))"

lemma hand_out_above:
  "hand_out as s = (vs, s') \<Longrightarrow> current s \<le> current s' \<and> sorted_wrt (<) vs \<and>
     (\<forall>v \<in> set vs. current s < v \<and> v \<le> current s')"
proof (induction as arbitrary: s vs)
  case (Cons a as)
  show ?case
  proof (cases "allocate a s")
    case (Pair res s1)
    show ?thesis
    proof (cases res)
      case (Inl e)
      with Pair Cons.prems have "hand_out as s1 = (vs, s')" by simp
      from Cons.IH[OF this] allocate_error[of a s e s1] Pair Inl show ?thesis by force
    next
      case (Inr v)
      obtain vs1 where h: "hand_out as s1 = (vs1, s')" "vs = v # vs1"
        using Pair Inr Cons.prems by (auto split: prod.splits)
      from Cons.IH[OF h(1)] allocate_ok[of a s v s1] Pair Inr h(2) show ?thesis by force
    qed
  qed
qed simp

end

text \<open>The revision a file holds; a file that cannot be read hands out nothing.\<close>

definition held_revision :: "revision_file_store \<Rightarrow> int" where
  "held_revision s = (case load_revision s of Inl e \<Rightarrow> 0 | Inr v \<Rightarrow> v)"

interpretation memory_revisions: revision_store memory_allocate "\<lambda>s. s"
  by unfold_locales (auto simp: memory_allocate_def split: if_splits)

lemma save_revision_file:
  "save_revision save_steps fault v s = (None, s') \<Longrightarrow> rfs_file s' = RevisionDocument revision_store_version v"
  "save_revision save_steps fault v s = (Some e, s') \<Longrightarrow> rfs_file s' = rfs_file s"
  by (auto simp: save_steps_def split: if_splits)

lemma load_revision_cong: "rfs_file s' = rfs_file s \<Longrightarrow> load_revision s' = load_revision s"
  by (simp add: load_revision_def)

lemma load_revision_nonneg: "load_revision s = Inr v \<Longrightarrow> 0 \<le> v"
  by (auto simp: load_revision_def split: revision_file.splits if_splits)

lemma allocate_locked_effect:
  assumes "allocate_locked a s = (res, s')"
  shows "case res of
      Inr v \<Rightarrow> v = held_revision s + 1 \<and> held_revision s' = v
    | Inl e \<Rightarrow> held_revision s' = held_revision s"
proof (cases "load_revision s")
  case (Inl e)
  then have "res = Inl e \<and> s' = s" using assms by (simp add: allocate_locked_def)
  then show ?thesis by simp
next
  case (Inr current)
  show ?thesis
  proof (cases "current = max_int64 \<or> al_ctx_done_late a")
    case True
    then obtain e where "res = Inl e \<and> s' = s" using assms Inr by (auto simp: allocate_locked_def split: if_splits)
    then show ?thesis by simp
  next
    case False
    obtain err s1 where sv: "save_revision save_steps (al_save_fails a) (current + 1) s = (err, s1)" by fastforce
    show ?thesis
    proof (cases err)
      case None
      then have "rfs_file s1 = RevisionDocument revision_store_version (current + 1)" using sv save_revision_file(1) by simp
      then have "held_revision s1 = current + 1"
        using load_revision_nonneg[OF Inr] by (simp add: held_revision_def load_revision_def)
      then show ?thesis using assms False Inr sv None by (auto simp: allocate_locked_def held_revision_def)
    next
      case (Some e)
      then have "load_revision s1 = load_revision s" using sv save_revision_file(2) by (intro load_revision_cong) simp
      then show ?thesis using assms False Inr sv Some by (auto simp: allocate_locked_def held_revision_def)
    qed
  qed
qed

lemma file_allocate_effect:
  assumes "file_allocate a s = (res, s')"
  shows "case res of
      Inr v \<Rightarrow> v = held_revision s + 1 \<and> held_revision s' = v
    | Inl e \<Rightarrow> held_revision s \<le> held_revision s'"
proof -
  obtain r1 s1 where l: "allocate_locked a s = (r1, s1)" by fastforce
  show ?thesis using allocate_locked_effect[OF l] assms
    by (cases r1) (auto simp: file_allocate_def l split: if_splits)
qed

interpretation file_revisions: revision_store file_allocate held_revision
proof
  fix a s v s' assume "file_allocate a s = (Inr v, s')"
  from file_allocate_effect[OF this] show "v = held_revision s + 1 \<and> held_revision s' = v" by simp
next
  fix a s e s' assume "file_allocate a s = (Inl e, s')"
  from file_allocate_effect[OF this] show "held_revision s \<le> held_revision s'" by simp
qed

section \<open>Properties\<close>

text \<open>
  Revisions never repeat and never go back: the numbers a shared file hands out over any sequence of
  allocations, any of whose calls may fail (the unlock after a successful save included), are strictly
  increasing and larger than the number the file held before.
\<close>

theorem revisions_strictly_increase:
  assumes "file_revisions.hand_out allocations s = (revisions, s')"
  shows "sorted_wrt (<) revisions \<and> held_revision s \<le> held_revision s' \<and>
    (\<forall>v \<in> set revisions. held_revision s < v \<and> v \<le> held_revision s')"
  using file_revisions.hand_out_above[OF assms] by blast

definition plain_allocation :: allocation where
  "plain_allocation = \<lparr>al_ctx_done = False, al_directory_fails = False, al_lock_open_fails = False, al_lock_fails = False,
     al_ctx_done_late = False, al_save_fails = None, al_unlock_fails = False, al_close_fails = False\<rparr>"

theorem revisions_strictly_increase_witness:
  "fst (file_revisions.hand_out [plain_allocation, plain_allocation\<lparr>al_unlock_fails := True\<rparr>, plain_allocation]
     \<lparr>rfs_file = NoRevisionFile, rfs_temporaries = 0\<rparr>) = [1, 3] \<and> sorted_wrt (<) [1, 3 :: int]"
proof -
  have v: "file_revisions.hand_out [plain_allocation, plain_allocation\<lparr>al_unlock_fails := True\<rparr>, plain_allocation]
     \<lparr>rfs_file = NoRevisionFile, rfs_temporaries = 0\<rparr> =
     ([1, 3], \<lparr>rfs_file = RevisionDocument 1 3, rfs_temporaries = 0\<rparr>)"
    by (simp add: plain_allocation_def file_allocate_def allocate_locked_def load_revision_def save_steps_def
        revision_store_version_def)
  from revisions_strictly_increase[OF v] v show ?thesis by simp
qed

end
