(* ===== verification/ConfigManager.thy ===== *)
theory ConfigManager
  imports Config RevisionStore YamlNodes
begin

text \<open>
  The configuration manager (internal/gateway/config_manager.go): the running configuration, the one in the file,
  the text of the file and the version; the comparison of two configurations, the dry run of an edited
  text and its application. \<open>applyMu\<close> serialises the operations that change the manager, so each is one
  step. A manager is generic in its revision store. The YAML codec, the struct decoder and the host's
  operating system are fields of \<open>config_env\<close>; what goes wrong with the file is an argument.
\<close>

section \<open>reflect.DeepEqual on configurations\<close>

fun go_float_eq :: "go_float \<Rightarrow> go_float \<Rightarrow> bool" where
  "go_float_eq (Finite p) (Finite q) = (p = q)"
| "go_float_eq PosInf PosInf = True"
| "go_float_eq NegInf NegInf = True"
| "go_float_eq _ _ = False"

definition billing_equal :: "model_billing \<Rightarrow> model_billing \<Rightarrow> bool" where
  "billing_equal a b \<longleftrightarrow>
     go_float_eq (mb_per_request_usd a) (mb_per_request_usd b) \<and>
     go_float_eq (mb_input_per_million_usd a) (mb_input_per_million_usd b) \<and>
     go_float_eq (mb_output_per_million_usd a) (mb_output_per_million_usd b) \<and>
     go_float_eq (mb_cached_input_per_million_usd a) (mb_cached_input_per_million_usd b)"

text \<open>Two maps: both nil or neither, and every key with an equal value.\<close>

definition maps_equal :: "('v \<Rightarrow> 'v \<Rightarrow> bool) \<Rightarrow> ('k, 'v) gomap \<Rightarrow> ('k, 'v) gomap \<Rightarrow> bool" where
  "maps_equal eq a b \<longleftrightarrow> length a = length b \<and>
     list_all (\<lambda>(k, v). case map_of b k of None \<Rightarrow> False | Some w \<Rightarrow> eq v w) a"

definition nil_maps_equal :: "('v \<Rightarrow> 'v \<Rightarrow> bool) \<Rightarrow> ('k \<times> 'v) slice \<Rightarrow> ('k \<times> 'v) slice \<Rightarrow> bool" where
  "nil_maps_equal eq a b \<longleftrightarrow> (a = NilSlice) = (b = NilSlice) \<and> maps_equal eq (elems a) (elems b)"

definition models_equal :: "model \<Rightarrow> model \<Rightarrow> bool" where
  "models_equal a b \<longleftrightarrow>
     billing_equal (m_billing a) (m_billing b) \<and>
     nil_maps_equal (=) (m_tag_capacities a) (m_tag_capacities b) \<and>
     a\<lparr>m_billing := zero_billing, m_tag_capacities := NilSlice\<rparr> =
       b\<lparr>m_billing := zero_billing, m_tag_capacities := NilSlice\<rparr>"

section \<open>Comparing configurations\<close>

record config_change =
  cc_path :: string
  cc_type :: string
  cc_model :: string
  cc_requires_worker_restart :: bool
  cc_requires_gateway_restart :: bool
  cc_detail :: string

definition plain_change :: "string \<Rightarrow> string \<Rightarrow> config_change" where
  "plain_change path kind = \<lparr>cc_path = path, cc_type = kind, cc_model = [], cc_requires_worker_restart = False,
     cc_requires_gateway_restart = False, cc_detail = []\<rparr>"

definition restart_change :: "string \<Rightarrow> config_change" where
  "restart_change path = (plain_change path ''changed'')\<lparr>cc_requires_gateway_restart := True\<rparr>"

definition runtime_changed_detail :: string where
  "runtime_changed_detail = ''runtime command or artifact changed''"

definition model_runtime_fields_changed :: "model \<Rightarrow> model \<Rightarrow> bool" where
  "model_runtime_fields_changed a b \<longleftrightarrow>
     m_model_dir a \<noteq> m_model_dir b \<or> m_run a \<noteq> m_run b \<or> m_runtime a \<noteq> m_runtime b \<or>
     m_runtime_args a \<noteq> m_runtime_args b \<or> m_cmd_stop a \<noteq> m_cmd_stop b \<or>
     m_check_endpoint a \<noteq> m_check_endpoint b \<or> m_artifact a \<noteq> m_artifact b"

definition sorted_model_names :: "(string, model) gomap \<Rightarrow> string list" where
  "sorted_model_names models = sort (mkeys models)"

definition sorted_alias_names :: "(string, string) gomap \<Rightarrow> (string, string) gomap \<Rightarrow> string list" where
  "sorted_alias_names old new = sort (remdups (mkeys old @ mkeys new))"

definition model_change :: "gateway_config \<Rightarrow> gateway_config \<Rightarrow> string \<Rightarrow> config_change list" where
  "model_change old new name =
     (let new_model = mget zero_model (gc_models new) name; path = ''models.'' @ name
      in case map_of (gc_models old) name of
           None \<Rightarrow> [(plain_change path ''added'')\<lparr>cc_model := name\<rparr>]
         | Some old_model \<Rightarrow>
             if model_runtime_fields_changed old_model new_model
             then [(plain_change path ''changed'')\<lparr>cc_model := name, cc_requires_worker_restart := True,
                     cc_detail := runtime_changed_detail\<rparr>]
             else if \<not> models_equal old_model new_model
             then [(plain_change path ''changed'')\<lparr>cc_model := name\<rparr>]
             else [])"

definition removed_model :: "gateway_config \<Rightarrow> string \<Rightarrow> config_change list" where
  "removed_model new name =
     (if mhas (gc_models new) name then []
      else [(plain_change (''models.'' @ name) ''removed'')\<lparr>cc_model := name, cc_requires_worker_restart := True\<rparr>])"

definition alias_change :: "gateway_config \<Rightarrow> gateway_config \<Rightarrow> string \<Rightarrow> config_change list" where
  "alias_change old new name =
     (case (map_of (gc_model_aliases old) name, map_of (gc_model_aliases new) name) of
        (None, _) \<Rightarrow> [plain_change (''model_aliases.'' @ name) ''added'']
      | (_, None) \<Rightarrow> [plain_change (''model_aliases.'' @ name) ''removed'']
      | (Some t, Some t') \<Rightarrow> if t \<noteq> t' then [plain_change (''model_aliases.'' @ name) ''changed''] else [])"

definition when_changed :: "bool \<Rightarrow> config_change \<Rightarrow> config_change list" where
  "when_changed b c = (if b then [c] else [])"

definition sort_changes :: "config_change list \<Rightarrow> config_change list" where
  "sort_changes = sort_key (\<lambda>c. (cc_path c, cc_type c))"

definition diff_gateway_config :: "gateway_config \<Rightarrow> gateway_config \<Rightarrow> config_change list" where
  "diff_gateway_config old new = sort_changes
     (concat (map (model_change old new) (sorted_model_names (gc_models new))) @
      concat (map (removed_model new) (sorted_model_names (gc_models old))) @
      concat (map (alias_change old new) (sorted_alias_names (gc_model_aliases old) (gc_model_aliases new))) @
      when_changed (\<not> nil_maps_equal (=) (gc_policies old) (gc_policies new)) (plain_change ''tag_policies'' ''changed'') @
      when_changed (gc_oss old \<noteq> gc_oss new) (plain_change ''oss'' ''changed'') @
      when_changed (gs_listen_addr (gc_gateway old) \<noteq> gs_listen_addr (gc_gateway new))
        (restart_change ''gateway.listen_addr'') @
      when_changed (gc_tokens old \<noteq> gc_tokens new) (restart_change ''tokens'') @
      when_changed (gc_metrics_store old \<noteq> gc_metrics_store new) (restart_change ''metrics_store'') @
      when_changed (gs_proxy_attempts (gc_gateway old) \<noteq> gs_proxy_attempts (gc_gateway new))
        (plain_change ''gateway.proxy_attempts'' ''changed'') @
      when_changed (frp_lease_store_path (tr_frp (gc_transport old)) \<noteq> frp_lease_store_path (tr_frp (gc_transport new)))
        (restart_change ''transport.frp.lease_store_path''))"

definition changes_require_gateway_restart :: "config_change list \<Rightarrow> bool" where
  "changes_require_gateway_restart changes = (\<exists>c \<in> set changes. cc_requires_gateway_restart c)"

definition apply_mode_for_changes :: "config_change list \<Rightarrow> string" where
  "apply_mode_for_changes changes =
     (if changes_require_gateway_restart changes then ''save_requires_gateway_restart'' else ''hot_apply'')"

section \<open>The manager\<close>

record runtime_config_pins =
  rp_tokens :: token_config
  rp_listen_addr :: string
  rp_proxy_attempts :: int
  rp_pin_proxy_attempts :: bool

record 's config_manager =
  cm_cfg :: gateway_config
  cm_file_cfg :: gateway_config
  cm_raw_yaml :: string
  cm_version :: int
  cm_revisions :: 's
  cm_config_path :: string
  cm_pins :: runtime_config_pins
  cm_disk :: "string option"

record 'e config_env =
  env_yaml_decode :: "string \<Rightarrow> 'e + yaml_document"
  env_yaml_encode :: "yaml_document \<Rightarrow> 'e + string"
  env_decode :: "string \<Rightarrow> string + gateway_config"
  env_goos :: string

definition normalize_gateway_config :: "gateway_config \<Rightarrow> gateway_config" where
  "normalize_gateway_config cfg =
     (let g = gc_gateway cfg; tk = gc_tokens cfg; ms = gc_metrics_store cfg
      in cfg\<lparr>gc_gateway := (if gs_proxy_attempts g = 0 then g\<lparr>gs_proxy_attempts := default_proxy_attempts\<rparr> else g),
             gc_tokens := (if tok_llama_swap tk = [] then tk\<lparr>tok_llama_swap := tok_agent tk\<rparr> else tk),
             gc_metrics_store := ms\<lparr>ms_type := (if ms_type ms = [] then ''victoriametrics'' else ms_type ms),
               ms_default_range := (if ms_default_range ms = [] then ''1h'' else ms_default_range ms),
               ms_max_range := (if ms_max_range ms = [] then ''7d'' else ms_max_range ms),
               ms_timeout_ms := (if ms_timeout_ms ms \<le> 0 then 3000 else ms_timeout_ms ms)\<rparr>\<rparr>)"

datatype 'r manager_start_error = StartRevisionFailed 'r | StartRevisionNotPositive int

text \<open>\<open>NewConfigManagerWithOverridesAndRevisionStore\<close>; \<open>disk\<close> is what reading the configuration file gives.\<close>

definition new_config_manager ::
  "'e config_env \<Rightarrow> ('a \<Rightarrow> 's \<Rightarrow> ('r + int) \<times> 's) \<Rightarrow> 'a \<Rightarrow> gateway_config \<Rightarrow> string \<Rightarrow> bool \<Rightarrow> string option \<Rightarrow> 's \<Rightarrow>
   ('r manager_start_error + 's config_manager) \<times> 's" where
  "new_config_manager env allocate ctx cfg0 path pin_attempts disk s =
     (case allocate ctx s of
        (Inl e, s') \<Rightarrow> (Inl (StartRevisionFailed e), s')
      | (Inr revision, s') \<Rightarrow>
          if revision \<le> 0 then (Inl (StartRevisionNotPositive revision), s')
          else (let cfg = normalize_gateway_config cfg0;
                    raw = (if trim_space path \<noteq> [] then case disk of None \<Rightarrow> [] | Some text \<Rightarrow> text else []);
                    file_cfg = (if raw = [] then cfg
                      else case load_gateway (env_decode env) (env_goos env) raw of
                             Inl e \<Rightarrow> cfg | Inr loaded \<Rightarrow> loaded)
                in (Inr \<lparr>cm_cfg = clone_gateway_config cfg, cm_file_cfg = clone_gateway_config file_cfg, cm_raw_yaml = raw,
                     cm_version = revision, cm_revisions = s', cm_config_path = path,
                     cm_pins = \<lparr>rp_tokens = gc_tokens cfg, rp_listen_addr = gs_listen_addr (gc_gateway cfg),
                       rp_proxy_attempts = gs_proxy_attempts (gc_gateway cfg), rp_pin_proxy_attempts = pin_attempts\<rparr>,
                     cm_disk = disk\<rparr>, s')))"

definition manager_snapshot :: "'s config_manager \<Rightarrow> gateway_config \<times> int" where
  "manager_snapshot m = (clone_gateway_config (cm_cfg m), cm_version m)"

definition apply_runtime_pins :: "runtime_config_pins \<Rightarrow> gateway_config \<Rightarrow> gateway_config" where
  "apply_runtime_pins pins cfg =
     cfg\<lparr>gc_tokens := rp_tokens pins,
         gc_gateway := (gc_gateway cfg)\<lparr>gs_listen_addr := rp_listen_addr pins,
           gs_proxy_attempts := (if rp_pin_proxy_attempts pins then rp_proxy_attempts pins
                                 else gs_proxy_attempts (gc_gateway cfg))\<rparr>\<rparr>"

definition process_field_changes :: "'s config_manager \<Rightarrow> gateway_config \<Rightarrow> config_change list" where
  "process_field_changes m candidate =
     (let base = cm_file_cfg m
      in when_changed (gc_tokens base \<noteq> gc_tokens candidate) (restart_change ''tokens'') @
         when_changed (gs_listen_addr (gc_gateway base) \<noteq> gs_listen_addr (gc_gateway candidate))
           (restart_change ''gateway.listen_addr'') @
         when_changed (rp_pin_proxy_attempts (cm_pins m) \<and>
             gs_proxy_attempts (gc_gateway base) \<noteq> gs_proxy_attempts (gc_gateway candidate))
           (restart_change ''gateway.proxy_attempts''))"

section \<open>Dry run and application\<close>

datatype 'e dry_run_error = PrepareFailed "'e yaml_error" | LoadFailed config_error

record dry_run_response =
  dr_version :: int
  dr_changes :: "config_change list"
  dr_apply_mode :: string
  dr_requires_gateway_restart :: bool

text \<open>The error of an invalid document, or the response, the runtime and the file configuration, and the text.\<close>

definition dry_run ::
  "'e config_env \<Rightarrow> string \<Rightarrow> 's config_manager \<Rightarrow>
   'e dry_run_error + (dry_run_response \<times> gateway_config \<times> gateway_config \<times> string)" where
  "dry_run env raw m =
     (let (current, version) = manager_snapshot m
      in case replace_auth_token_yaml (env_yaml_decode env) (env_yaml_encode env) raw redaction_marker
           (frp_auth_token (tr_frp (gc_transport (cm_file_cfg m)))) of
           Inl e \<Rightarrow> Inl (PrepareFailed e)
         | Inr prepared \<Rightarrow>
             (case load_gateway (env_decode env) (env_goos env) prepared of
                Inl e \<Rightarrow> Inl (LoadFailed e)
              | Inr file_cfg \<Rightarrow>
                  (let runtime_cfg = apply_runtime_pins (cm_pins m) file_cfg;
                       changes = sort_changes (diff_gateway_config current runtime_cfg @ process_field_changes m file_cfg)
                   in Inr (\<lparr>dr_version = version, dr_changes = changes, dr_apply_mode = apply_mode_for_changes changes,
                            dr_requires_gateway_restart = changes_require_gateway_restart changes\<rparr>,
                          runtime_cfg, file_cfg, prepared))))"

text \<open>What writing the file does: a directory that cannot be made, a write that leaves any content, or success.\<close>

datatype write_outcome = MakeDirectoryFails | WriteLeaves "string option" | WriteSucceeds

datatype ('e, 'r) apply_error =
    InvalidConfig "'e dry_run_error"
  | AllocateFailed 'r
  | RevisionNotNewer int int
  | MakeDirectoryFailed
  | WriteFailed

definition write_config_file ::
  "write_outcome \<Rightarrow> string \<Rightarrow> 's config_manager \<Rightarrow> ('e, 'r) apply_error option \<times> 's config_manager" where
  "write_config_file outcome text m =
     (if trim_space (cm_config_path m) = [] then (None, m)
      else case outcome of
             MakeDirectoryFails \<Rightarrow> (Some MakeDirectoryFailed, m)
           | WriteLeaves content \<Rightarrow> (Some WriteFailed, m\<lparr>cm_disk := content\<rparr>)
           | WriteSucceeds \<Rightarrow> (None, m\<lparr>cm_disk := Some text\<rparr>))"

record apply_response =
  ar_version :: int
  ar_changes :: "config_change list"
  ar_apply_mode :: string
  ar_requires_gateway_restart :: bool

text \<open>
  \<open>ApplyContextWithPublish\<close>: the result, the manager, and what was handed to \<open>publish\<close>. No revision is
  allocated when the change waits for a restart.
\<close>

definition apply_config ::
  "'e config_env \<Rightarrow> ('a \<Rightarrow> 's \<Rightarrow> ('r + int) \<times> 's) \<Rightarrow> 'a \<Rightarrow> write_outcome \<Rightarrow> string \<Rightarrow> 's config_manager \<Rightarrow>
   (('e, 'r) apply_error + apply_response) \<times> 's config_manager \<times> gateway_config list" where
  "apply_config env allocate ctx outcome raw m0 =
     (case dry_run env raw m0 of
        Inl e \<Rightarrow> (Inl (InvalidConfig e), m0, [])
      | Inr (dry, runtime_cfg, file_cfg, prepared) \<Rightarrow>
          (let wait = dr_requires_gateway_restart dry;
               (allocated, s) = (if wait then (Inr 0, cm_revisions m0) else allocate ctx (cm_revisions m0));
               m = m0\<lparr>cm_revisions := s\<rparr>
           in case allocated of
                Inl e \<Rightarrow> (Inl (AllocateFailed e), m, [])
              | Inr revision \<Rightarrow>
                  if \<not> wait \<and> revision \<le> dr_version dry
                  then (Inl (RevisionNotNewer revision (dr_version dry)), m, [])
                  else (case write_config_file outcome prepared m of
                          (Some e, m') \<Rightarrow> (Inl e, m', [])
                        | (None, m') \<Rightarrow>
                            if wait
                            then (let m'' = m'\<lparr>cm_raw_yaml := prepared, cm_file_cfg := clone_gateway_config file_cfg\<rparr>
                                  in (Inr \<lparr>ar_version = cm_version m', ar_changes = dr_changes dry,
                                        ar_apply_mode = dr_apply_mode dry, ar_requires_gateway_restart = True\<rparr>,
                                      m'', [clone_gateway_config (cm_cfg m')]))
                            else (Inr \<lparr>ar_version = revision, ar_changes = dr_changes dry,
                                    ar_apply_mode = dr_apply_mode dry, ar_requires_gateway_restart = False\<rparr>,
                                  m'\<lparr>cm_cfg := clone_gateway_config runtime_cfg, cm_file_cfg := clone_gateway_config file_cfg,
                                     cm_raw_yaml := prepared, cm_version := revision\<rparr>,
                                  [clone_gateway_config runtime_cfg]))))"

text \<open>\<open>UIConfig\<close>: the configuration and its text with the tunnel token masked; \<open>marshal\<close> is \<open>yaml.Marshal\<close>.\<close>

definition ui_config ::
  "'e config_env \<Rightarrow> (gateway_config \<Rightarrow> 'e + string) \<Rightarrow> 's config_manager \<Rightarrow>
   'e yaml_error + (int \<times> gateway_config \<times> string)" where
  "ui_config env marshal m =
     (let cfg = clone_gateway_config (cm_cfg m);
          raw = (if cm_raw_yaml m = [] then marshal cfg else Inr (cm_raw_yaml m));
          frp = tr_frp (gc_transport cfg)
      in case raw of
           Inl e \<Rightarrow> Inl (YamlEncode e)
         | Inr text \<Rightarrow>
             (case replace_auth_token_yaml (env_yaml_decode env) (env_yaml_encode env) text [] redaction_marker of
                Inl e \<Rightarrow> Inl e
              | Inr redacted \<Rightarrow>
                  Inr (cm_version m,
                    (if frp_auth_token frp \<noteq> []
                     then cfg\<lparr>gc_transport := (gc_transport cfg)\<lparr>tr_frp := frp\<lparr>frp_auth_token := redaction_marker\<rparr>\<rparr>\<rparr>
                     else cfg), redacted)))"

end
