(* ===== verification/Promotion.thy ===== *)
theory Promotion
  imports ConfigManager
begin

text \<open>
  Promoting a service name (internal/gateway/service_name_promotion.go): a disabled model gives its name to an alias
  of another model, and an archive remembers the model and the tag policies it was listed in so that the
  promotion can be rolled back. The transaction runs below \<open>applyMu\<close>, so it is one step on the manager
  and the archive store. What the calls of the environment do (contexts, the random identifier, the clock,
  the atomic replacement of the file) are arguments.
\<close>

section \<open>Archives and their stores\<close>

record service_name_archive =
  sa_id :: string
  sa_service_name :: string
  sa_target_model :: string
  sa_model :: model
  sa_max_loaded_set :: bool
  sa_before_policies :: "(string, tag_policy) gomap"
  sa_after_policies :: "(string, tag_policy) gomap"
  sa_created_at :: time
  sa_rolled_back :: bool

type_synonym memory_archive_store = "(string, service_name_archive) gomap"

definition memory_archive_put :: "'c \<Rightarrow> service_name_archive \<Rightarrow> memory_archive_store \<Rightarrow> unit option \<times> memory_archive_store" where
  "memory_archive_put c archive s = (None, mput (sa_id archive) archive s)"

definition memory_archive_get :: "'c \<Rightarrow> string \<Rightarrow> memory_archive_store \<Rightarrow> unit + service_name_archive option" where
  "memory_archive_get c i s = Inr (map_of s i)"

definition memory_archive_delete :: "'c \<Rightarrow> string \<Rightarrow> memory_archive_store \<Rightarrow> unit option \<times> memory_archive_store" where
  "memory_archive_delete c i s = (None, mdel i s)"

text \<open>
  What JSON keeps of an archive: \<open>MaxLoadedSet\<close> is not encoded, empty slices and maps tagged \<open>omitempty\<close> come
  back nil; a price that is not finite cannot be encoded.
\<close>

definition drop_empty :: "'a slice \<Rightarrow> 'a slice" where
  "drop_empty s = (if elems s = [] then NilSlice else s)"

definition archive_after_json :: "service_name_archive \<Rightarrow> service_name_archive" where
  "archive_after_json a = a\<lparr>sa_model := (sa_model a)\<lparr>m_max_loaded_set := False,
     m_tag_capacities := drop_empty (m_tag_capacities (sa_model a)),
     m_runtime_args := drop_empty (m_runtime_args (sa_model a))\<rparr>\<rparr>"

fun finite_float :: "go_float \<Rightarrow> bool" where
  "finite_float (Finite q) = True"
| "finite_float _ = False"

definition json_encodable :: "service_name_archive \<Rightarrow> bool" where
  "json_encodable a \<longleftrightarrow> (let b = m_billing (sa_model a) in
     finite_float (mb_per_request_usd b) \<and> finite_float (mb_input_per_million_usd b) \<and>
     finite_float (mb_output_per_million_usd b) \<and> finite_float (mb_cached_input_per_million_usd b))"

datatype archive_file =
  NoArchiveFile | ArchiveUnreadable | ArchiveNotJSON | ArchiveDocument int "(string \<times> service_name_archive) slice"

datatype archive_step = MakeArchiveDirectory | CreateArchiveTemporary | SecureArchive | SyncArchive | CloseArchive | RenameArchive

datatype archive_error =
    ArchiveContextDone | ReadArchiveFailed | DecodeArchiveFailed | UnsupportedArchiveVersion int
  | PathRequired | EncodeArchiveFailed | ArchiveStepFailed archive_step

record archive_file_store =
  afs_path :: string
  afs_file :: archive_file

text \<open>The context of a call and the step of the atomic write that fails, if one does.\<close>

record archive_call =
  ac_ctx_done :: bool
  ac_fault :: "archive_step option"

definition load_archives :: "archive_file_store \<Rightarrow> archive_error + (string, service_name_archive) gomap" where
  "load_archives s =
     (case afs_file s of
        NoArchiveFile \<Rightarrow> Inr []
      | ArchiveUnreadable \<Rightarrow> Inl ReadArchiveFailed
      | ArchiveNotJSON \<Rightarrow> Inl DecodeArchiveFailed
      | ArchiveDocument version archives \<Rightarrow>
          if version \<noteq> 1 then Inl (UnsupportedArchiveVersion version) else Inr (elems archives))"

definition write_archives ::
  "archive_step option \<Rightarrow> (string, service_name_archive) gomap \<Rightarrow> archive_file_store \<Rightarrow> archive_error option \<times> archive_file_store" where
  "write_archives fault archives s =
     (if trim_space (afs_path s) = [] then (Some PathRequired, s)
      else if fault \<in> {Some MakeArchiveDirectory, Some CreateArchiveTemporary, Some SecureArchive}
      then (Some (ArchiveStepFailed (the fault)), s)
      else if \<not> list_all (\<lambda>(i, a). json_encodable a) archives then (Some EncodeArchiveFailed, s)
      else case fault of
             Some step \<Rightarrow> (Some (ArchiveStepFailed step), s)
           | None \<Rightarrow> (None, s\<lparr>afs_file := ArchiveDocument 1 (Slice (map (\<lambda>(i, a). (i, archive_after_json a)) archives))\<rparr>))"

definition file_archive_put ::
  "archive_call \<Rightarrow> service_name_archive \<Rightarrow> archive_file_store \<Rightarrow> archive_error option \<times> archive_file_store" where
  "file_archive_put c archive s =
     (if ac_ctx_done c then (Some ArchiveContextDone, s)
      else case load_archives s of
             Inl e \<Rightarrow> (Some e, s)
           | Inr archives \<Rightarrow> write_archives (ac_fault c) (mput (sa_id archive) archive archives) s)"

definition file_archive_get ::
  "archive_call \<Rightarrow> string \<Rightarrow> archive_file_store \<Rightarrow> archive_error + service_name_archive option" where
  "file_archive_get c i s =
     (if ac_ctx_done c then Inl ArchiveContextDone
      else case load_archives s of Inl e \<Rightarrow> Inl e | Inr archives \<Rightarrow> Inr (map_of archives i))"

definition file_archive_delete ::
  "archive_call \<Rightarrow> string \<Rightarrow> archive_file_store \<Rightarrow> archive_error option \<times> archive_file_store" where
  "file_archive_delete c i s =
     (if ac_ctx_done c then (Some ArchiveContextDone, s)
      else case load_archives s of
             Inl e \<Rightarrow> (Some e, s)
           | Inr archives \<Rightarrow> write_archives (ac_fault c) (mdel i archives) s)"

text \<open>The three operations of the interface, on any store.\<close>

record ('c, 't, 'x) archive_ops =
  ao_put :: "'c \<Rightarrow> service_name_archive \<Rightarrow> 't \<Rightarrow> 'x option \<times> 't"
  ao_get :: "'c \<Rightarrow> string \<Rightarrow> 't \<Rightarrow> 'x + service_name_archive option"
  ao_delete :: "'c \<Rightarrow> string \<Rightarrow> 't \<Rightarrow> 'x option \<times> 't"

definition memory_archives :: "('c, memory_archive_store, unit) archive_ops" where
  "memory_archives = \<lparr>ao_put = memory_archive_put, ao_get = memory_archive_get, ao_delete = memory_archive_delete\<rparr>"

definition file_archives :: "(archive_call, archive_file_store, archive_error) archive_ops" where
  "file_archives = \<lparr>ao_put = file_archive_put, ao_get = file_archive_get, ao_delete = file_archive_delete\<rparr>"

section \<open>Steps both transactions share\<close>

record promotion_request =
  pr_service_name :: string
  pr_target_model :: string
  pr_archive_id :: string

record transaction_response =
  tx_action :: string
  tx_service_name :: string
  tx_target_model :: string
  tx_archive_id :: string
  tx_version :: int

datatype service_name_conflict =
    PendingRestartConfig | OldModelMissing | OldModelEnabled | AliasExists | InvalidTarget | TargetMissing
  | TargetDisabled | ArchiveUnavailable | ArchiveMismatch | NamespaceChanged | AliasChanged | PolicyChanged
  | OldRequestsActive | OldReplicaActive | OldArtifactBusy | TargetNotReady

datatype ('e, 'r, 'x) transaction_error =
    Conflict service_name_conflict
  | NamesRequired
  | MarshalFailed 'e
  | InvalidTransactionConfig config_error
  | TransactionAllocateFailed 'r
  | TransactionRevisionNotNewer int int
  | ArchiveIDFailed
  | PersistArchiveFailed 'x
  | PersistConfigFailed
  | ReadArchiveError 'x

definition same_service_name_namespace :: "gateway_config \<Rightarrow> gateway_config \<Rightarrow> bool" where
  "same_service_name_namespace runtime_cfg file_cfg \<longleftrightarrow>
     maps_equal models_equal (gc_models runtime_cfg) (gc_models file_cfg) \<and>
     maps_equal (=) (gc_model_aliases runtime_cfg) (gc_model_aliases file_cfg) \<and>
     nil_maps_equal (=) (gc_policies runtime_cfg) (gc_policies file_cfg)"

definition service_name_config_snapshot :: "'s config_manager \<Rightarrow> gateway_config \<times> gateway_config \<times> int" where
  "service_name_config_snapshot m =
     (clone_gateway_config (cm_cfg m), clone_gateway_config (cm_file_cfg m), cm_version m)"

text \<open>The first pair with this key is cut out of a mapping's content.\<close>

fun drop_first_key :: "yaml_node list \<Rightarrow> string \<Rightarrow> nat list \<Rightarrow> nat list" where
  "drop_first_key ns key (k # v # rest) =
     (if yn_value (ns ! k) = key then rest else k # v # drop_first_key ns key rest)"
| "drop_first_key ns key rest = rest"

definition drop_auto_max :: "gateway_config \<Rightarrow> nat \<times> nat \<Rightarrow> yaml_node list \<Rightarrow> yaml_node list" where
  "drop_auto_max cfg kv ns =
     (case map_of (gc_models cfg) (yn_value (ns ! fst kv)) of
        None \<Rightarrow> ns
      | Some m \<Rightarrow>
          if m_max_loaded_set m \<or> m_max_loaded m > 0 \<or> yn_kind (ns ! snd kv) \<noteq> MappingNode then ns
          else ns[snd kv := (ns ! snd kv)\<lparr>yn_content :=
                 drop_first_key ns ''max_loaded'' (yn_content (ns ! snd kv))\<rparr>])"

text \<open>\<open>encode_struct\<close> is \<open>document.Encode\<close>: the nodes of a configuration.\<close>

definition marshal_preserving_auto_max ::
  "'e config_env \<Rightarrow> (gateway_config \<Rightarrow> 'e + yaml_document) \<Rightarrow> gateway_config \<Rightarrow> 'e + string" where
  "marshal_preserving_auto_max env encode_struct cfg =
     (case encode_struct cfg of
        Inl e \<Rightarrow> Inl e
      | Inr doc \<Rightarrow>
          env_yaml_encode env
            (case yaml_mapping_value doc [''models''] of
               None \<Rightarrow> doc
             | Some i \<Rightarrow>
                 if yn_kind (yd_nodes doc ! i) \<noteq> MappingNode then doc
                 else doc\<lparr>yd_nodes := fold (drop_auto_max cfg) (content_pairs (yn_content (yd_nodes doc ! i)))
                        (yd_nodes doc)\<rparr>))"

definition prepare_transaction_config ::
  "'e config_env \<Rightarrow> (gateway_config \<Rightarrow> 'e + yaml_document) \<Rightarrow> gateway_config \<Rightarrow>
   ('e, 'r, 'x) transaction_error + string \<times> gateway_config" where
  "prepare_transaction_config env encode_struct next_cfg =
     (case marshal_preserving_auto_max env encode_struct next_cfg of
        Inl e \<Rightarrow> Inl (MarshalFailed e)
      | Inr raw \<Rightarrow>
          (case load_gateway (env_decode env) (env_goos env) raw of
             Inl e \<Rightarrow> Inl (InvalidTransactionConfig e)
           | Inr file_cfg \<Rightarrow> Inr (raw, file_cfg)))"

definition allocate_transaction_revision ::
  "('a \<Rightarrow> 's \<Rightarrow> ('r + int) \<times> 's) \<Rightarrow> 'a \<Rightarrow> int \<Rightarrow> 's \<Rightarrow> (('e, 'r, 'x) transaction_error + int) \<times> 's" where
  "allocate_transaction_revision allocate ctx current s =
     (case allocate ctx s of
        (Inl e, s') \<Rightarrow> (Inl (TransactionAllocateFailed e), s')
      | (Inr revision, s') \<Rightarrow>
          (if revision \<le> current then Inl (TransactionRevisionNotNewer revision current) else Inr revision, s'))"

text \<open>The file is replaced by a rename at the end: a write that fails leaves it as it was.\<close>

definition persist_transaction_config :: "bool \<Rightarrow> string \<Rightarrow> 's config_manager \<Rightarrow> bool \<times> 's config_manager" where
  "persist_transaction_config fails raw m =
     (if trim_space (cm_config_path m) = [] then (True, m)
      else if fails then (False, m)
      else (True, m\<lparr>cm_disk := Some raw\<rparr>))"

definition commit_transaction_config ::
  "gateway_config \<Rightarrow> gateway_config \<Rightarrow> string \<Rightarrow> int \<Rightarrow> 's config_manager \<Rightarrow> 's config_manager" where
  "commit_transaction_config runtime_cfg file_cfg raw revision m =
     m\<lparr>cm_cfg := clone_gateway_config runtime_cfg, cm_file_cfg := clone_gateway_config file_cfg,
       cm_raw_yaml := raw, cm_version := revision\<rparr>"

definition with_namespace :: "gateway_config \<Rightarrow> gateway_config \<Rightarrow> gateway_config" where
  "with_namespace file_cfg next_cfg =
     (let namespace = clone_gateway_config next_cfg
      in (clone_gateway_config file_cfg)\<lparr>gc_models := gc_models namespace,
           gc_model_aliases := gc_model_aliases namespace, gc_policies := gc_policies namespace\<rparr>)"

section \<open>Promotion\<close>

definition zero_policy :: tag_policy where
  "zero_policy = \<lparr>tp_max_concurrency = 0, tp_max_queue = 0,
     tp_worker_defaults = \<lparr>wd_max_concurrency = 0, wd_max_queue = 0\<rparr>, tp_allowed = NilSlice, tp_warm_when_idle = []\<rparr>"

definition promotion_conflict :: "gateway_config \<Rightarrow> string \<Rightarrow> string \<Rightarrow> service_name_conflict option" where
  "promotion_conflict current service_name target =
     (case map_of (gc_models current) service_name of
        None \<Rightarrow> Some OldModelMissing
      | Some old \<Rightarrow>
          if \<not> m_disabled old then Some OldModelEnabled
          else if mhas (gc_model_aliases current) service_name then Some AliasExists
          else if service_name = target then Some InvalidTarget
          else case map_of (gc_models current) target of
                 None \<Rightarrow> Some TargetMissing
               | Some t \<Rightarrow> if m_disabled t then Some TargetDisabled else None)"

text \<open>A policy without the service name; it counts as changed when it mentioned the name.\<close>

definition policy_without :: "string \<Rightarrow> tag_policy \<Rightarrow> tag_policy" where
  "policy_without name p = p\<lparr>tp_allowed := Slice (filter (\<lambda>n. n \<noteq> name) (tp_allowed_models p)),
     tp_warm_when_idle := (if tp_warm_when_idle p = name then [] else tp_warm_when_idle p)\<rparr>"

definition mentions_name :: "string \<Rightarrow> tag_policy \<Rightarrow> bool" where
  "mentions_name name p \<longleftrightarrow> name \<in> set (tp_allowed_models p) \<or> tp_warm_when_idle p = name"

definition promoted_config :: "gateway_config \<Rightarrow> string \<Rightarrow> string \<Rightarrow> gateway_config" where
  "promoted_config current service_name target =
     (let next_cfg = clone_gateway_config current
      in next_cfg\<lparr>gc_models := mdel service_name (gc_models next_cfg),
           gc_model_aliases := mput service_name target (gc_model_aliases next_cfg),
           gc_policies := Slice (map (\<lambda>(t, p). (t, if mentions_name service_name p then policy_without service_name p else p))
             (gc_tag_policies next_cfg))\<rparr>)"

definition archive_of :: "gateway_config \<Rightarrow> string \<Rightarrow> string \<Rightarrow> string \<Rightarrow> time \<Rightarrow> service_name_archive" where
  "archive_of current service_name target i now =
     (let old = mget zero_model (gc_models current) service_name;
          changed = filter (\<lambda>(t, p). mentions_name service_name p) (gc_tag_policies (clone_gateway_config current))
      in \<lparr>sa_id = i, sa_service_name = service_name, sa_target_model = target, sa_model = old,
          sa_max_loaded_set = m_max_loaded_set old,
          sa_before_policies = map (\<lambda>(t, p). (t, mget zero_policy (gc_tag_policies current) t)) changed,
          sa_after_policies = map (\<lambda>(t, p). (t, policy_without service_name p)) changed,
          sa_created_at = now, sa_rolled_back = False\<rparr>)"

text \<open>What the calls of one transaction meet outside.\<close>

record ('e, 'a, 'c) transaction_env =
  te_config :: "'e config_env"
  te_encode_struct :: "gateway_config \<Rightarrow> 'e + yaml_document"
  te_allocate_ctx :: 'a
  te_archive_ctx :: 'c
  te_background :: 'c
  te_new_id :: "string option"
  te_now :: time
  te_persist_fails :: bool

definition promote_service_name ::
  "('e, 'a, 'c) transaction_env \<Rightarrow> ('a \<Rightarrow> 's \<Rightarrow> ('r + int) \<times> 's) \<Rightarrow> ('c, 't, 'x) archive_ops \<Rightarrow>
   (gateway_config \<Rightarrow> service_name_conflict option) \<Rightarrow> promotion_request \<Rightarrow> 's config_manager \<times> 't \<Rightarrow>
   (('e, 'r, 'x) transaction_error + transaction_response) \<times> ('s config_manager \<times> 't) \<times> gateway_config list" where
  "promote_service_name env allocate ops validate req st =
     (let (m, t) = st;
          (current, file_current, version) = service_name_config_snapshot m;
          service_name = trim_space (pr_service_name req);
          target = trim_space (pr_target_model req)
      in if \<not> same_service_name_namespace current file_current then (Inl (Conflict PendingRestartConfig), st, [])
         else if service_name = [] \<or> target = [] then (Inl NamesRequired, st, [])
         else case promotion_conflict current service_name target of
           Some e \<Rightarrow> (Inl (Conflict e), st, [])
         | None \<Rightarrow>
          (case validate current of
            Some e \<Rightarrow> (Inl (Conflict e), st, [])
          | None \<Rightarrow>
             (let next_cfg = promoted_config current service_name target
              in case prepare_transaction_config (te_config env) (te_encode_struct env) (with_namespace file_current next_cfg) of
                Inl e \<Rightarrow> (Inl e, st, [])
              | Inr (prepared, file_cfg) \<Rightarrow>
                 (case allocate_transaction_revision allocate (te_allocate_ctx env) version (cm_revisions m) of
                   (Inl e, s) \<Rightarrow> (Inl e, (m\<lparr>cm_revisions := s\<rparr>, t), [])
                 | (Inr revision, s) \<Rightarrow>
                    (let m = m\<lparr>cm_revisions := s\<rparr>
                     in case te_new_id env of
                       None \<Rightarrow> (Inl ArchiveIDFailed, (m, t), [])
                     | Some i \<Rightarrow>
                        (case ao_put ops (te_archive_ctx env) (archive_of current service_name target i (te_now env)) t of
                          (Some e, t') \<Rightarrow> (Inl (PersistArchiveFailed e), (m, t'), [])
                        | (None, t') \<Rightarrow>
                           (case persist_transaction_config (te_persist_fails env) prepared m of
                             (False, m') \<Rightarrow> (Inl PersistConfigFailed, (m', snd (ao_delete ops (te_background env) i t')), [])
                           | (True, m') \<Rightarrow>
                               (Inr \<lparr>tx_action = ''promote'', tx_service_name = service_name, tx_target_model = target,
                                  tx_archive_id = i, tx_version = revision\<rparr>,
                                (commit_transaction_config next_cfg file_cfg prepared revision m', t'),
                                [clone_gateway_config next_cfg]))))))))"

section \<open>Rollback\<close>

definition rollback_conflict :: "gateway_config \<Rightarrow> promotion_request \<Rightarrow> service_name_archive \<Rightarrow> service_name_conflict option" where
  "rollback_conflict current req archive =
     (if sa_service_name archive \<noteq> trim_space (pr_service_name req) \<or> sa_target_model archive \<noteq> trim_space (pr_target_model req)
      then Some ArchiveMismatch
      else if mhas (gc_models current) (sa_service_name archive) then Some NamespaceChanged
      else if mget [] (gc_model_aliases current) (sa_service_name archive) \<noteq> sa_target_model archive then Some AliasChanged
      else if \<not> list_all (\<lambda>(tag, expected). mget zero_policy (gc_tag_policies current) tag = expected)
                (sa_after_policies archive)
      then Some PolicyChanged
      else None)"

definition restored_model :: "service_name_archive \<Rightarrow> model" where
  "restored_model archive = (sa_model archive)\<lparr>m_max_loaded_set := sa_max_loaded_set archive\<rparr>"

definition rolled_back_config :: "gateway_config \<Rightarrow> service_name_archive \<Rightarrow> gateway_config" where
  "rolled_back_config current archive =
     (let next_cfg = clone_gateway_config current
      in next_cfg\<lparr>gc_models := mput (sa_service_name archive) (restored_model archive) (gc_models next_cfg),
           gc_model_aliases := mdel (sa_service_name archive) (gc_model_aliases next_cfg),
           gc_policies := Slice (fold (\<lambda>(t, p). mput t p) (sa_before_policies archive) (gc_tag_policies next_cfg))\<rparr>)"

definition rollback_service_name ::
  "('e, 'a, 'c) transaction_env \<Rightarrow> ('a \<Rightarrow> 's \<Rightarrow> ('r + int) \<times> 's) \<Rightarrow> ('c, 't, 'x) archive_ops \<Rightarrow>
   promotion_request \<Rightarrow> 's config_manager \<times> 't \<Rightarrow>
   (('e, 'r, 'x) transaction_error + transaction_response) \<times> ('s config_manager \<times> 't) \<times> gateway_config list" where
  "rollback_service_name env allocate ops req st =
     (let (m, t) = st;
          (current, file_current, version) = service_name_config_snapshot m
      in if \<not> same_service_name_namespace current file_current then (Inl (Conflict PendingRestartConfig), st, [])
         else case ao_get ops (te_archive_ctx env) (trim_space (pr_archive_id req)) t of
           Inl e \<Rightarrow> (Inl (ReadArchiveError e), st, [])
         | Inr None \<Rightarrow> (Inl (Conflict ArchiveUnavailable), st, [])
         | Inr (Some archive) \<Rightarrow>
            (if sa_rolled_back archive then (Inl (Conflict ArchiveUnavailable), st, [])
             else case rollback_conflict current req archive of
              Some e \<Rightarrow> (Inl (Conflict e), st, [])
            | None \<Rightarrow>
               (let next_cfg = rolled_back_config current archive
                in case prepare_transaction_config (te_config env) (te_encode_struct env) (with_namespace file_current next_cfg) of
                  Inl e \<Rightarrow> (Inl e, st, [])
                | Inr (prepared, file_cfg) \<Rightarrow>
                   (case allocate_transaction_revision allocate (te_allocate_ctx env) version (cm_revisions m) of
                     (Inl e, s) \<Rightarrow> (Inl e, (m\<lparr>cm_revisions := s\<rparr>, t), [])
                   | (Inr revision, s) \<Rightarrow>
                      (case persist_transaction_config (te_persist_fails env) prepared (m\<lparr>cm_revisions := s\<rparr>) of
                        (False, m') \<Rightarrow> (Inl PersistConfigFailed, (m', t), [])
                      | (True, m') \<Rightarrow>
                          (Inr \<lparr>tx_action = ''rollback'', tx_service_name = sa_service_name archive,
                             tx_target_model = sa_target_model archive, tx_archive_id = sa_id archive, tx_version = revision\<rparr>,
                           (commit_transaction_config next_cfg file_cfg prepared revision m',
                            snd (ao_put ops (te_background env) (archive\<lparr>sa_rolled_back := True\<rparr>) t)),
                           [clone_gateway_config next_cfg]))))))"

end
