(* ===== verification/ConfigManagerFacts.thy ===== *)
theory ConfigManagerFacts
  imports ConfigManager ConfigFacts
begin

text \<open>
  Facts about the configuration manager: which changes ask for a restart, when two configurations
  count as the same, and what an application does to the manager on every branch. The laws of a
  revision store (locale \<open>revision_store\<close>) give that versions grow.
\<close>

section \<open>Lists of changes\<close>

lemma set_sort_changes [simp]: "set (sort_changes cs) = set cs"
  by (simp add: sort_changes_def)

lemma sort_changes_Nil [simp]: "sort_changes cs = [] \<longleftrightarrow> cs = []"
  by (metis set_empty set_sort_changes)

lemma set_when_changed [simp]: "c \<in> set (when_changed b x) \<longleftrightarrow> b \<and> c = x"
  by (cases b) (simp_all add: when_changed_def)

lemma when_changed_Nil [simp]: "when_changed b x = [] \<longleftrightarrow> \<not> b"
  by (simp add: when_changed_def)

lemma restart_flags [simp]:
  "cc_requires_gateway_restart (restart_change p)" "\<not> cc_requires_gateway_restart (plain_change p k)"
  by (simp_all add: restart_change_def plain_change_def)

lemma no_restart_parts:
  "c \<in> set (model_change old new n) \<Longrightarrow> \<not> cc_requires_gateway_restart c"
  "c \<in> set (removed_model new n) \<Longrightarrow> \<not> cc_requires_gateway_restart c"
  "c \<in> set (alias_change old new a) \<Longrightarrow> \<not> cc_requires_gateway_restart c"
  by (auto simp: model_change_def removed_model_def alias_change_def Let_def plain_change_def
      split: option.splits if_splits)

lemma requires_restart_simps [simp]:
  "changes_require_gateway_restart (xs @ ys) \<longleftrightarrow>
     changes_require_gateway_restart xs \<or> changes_require_gateway_restart ys"
  "changes_require_gateway_restart (sort_changes xs) = changes_require_gateway_restart xs"
  "changes_require_gateway_restart (when_changed b c) \<longleftrightarrow> b \<and> cc_requires_gateway_restart c"
  by (auto simp: changes_require_gateway_restart_def)

lemma requires_restart_none:
  "\<not> changes_require_gateway_restart (concat (map (model_change old new) ns))"
  "\<not> changes_require_gateway_restart (concat (map (removed_model new) ns))"
  "\<not> changes_require_gateway_restart (concat (map (alias_change old new) ns))"
  by (auto simp: changes_require_gateway_restart_def dest: no_restart_parts)

lemma diff_restart_iff:
  "changes_require_gateway_restart (diff_gateway_config old new) \<longleftrightarrow>
     gs_listen_addr (gc_gateway old) \<noteq> gs_listen_addr (gc_gateway new) \<or> gc_tokens old \<noteq> gc_tokens new \<or>
     gc_metrics_store old \<noteq> gc_metrics_store new \<or>
     frp_lease_store_path (tr_frp (gc_transport old)) \<noteq> frp_lease_store_path (tr_frp (gc_transport new))"
  by (simp add: diff_gateway_config_def requires_restart_none)

lemma process_restart_iff:
  "changes_require_gateway_restart (process_field_changes m file) \<longleftrightarrow>
     gc_tokens (cm_file_cfg m) \<noteq> gc_tokens file \<or>
     gs_listen_addr (gc_gateway (cm_file_cfg m)) \<noteq> gs_listen_addr (gc_gateway file) \<or>
     rp_pin_proxy_attempts (cm_pins m) \<and>
       gs_proxy_attempts (gc_gateway (cm_file_cfg m)) \<noteq> gs_proxy_attempts (gc_gateway file)"
  by (simp add: process_field_changes_def Let_def)

section \<open>The dry run\<close>

lemma dry_runE:
  assumes "dry_run env raw m = Inr (dry, runtime, file, text)"
  shows "replace_auth_token_yaml (env_yaml_decode env) (env_yaml_encode env) raw redaction_marker
      (frp_auth_token (tr_frp (gc_transport (cm_file_cfg m)))) = Inr text"
    and "load_gateway (env_decode env) (env_goos env) text = Inr file"
    and "runtime = apply_runtime_pins (cm_pins m) file"
    and "dr_version dry = cm_version m"
    and "dr_changes dry = sort_changes (diff_gateway_config (clone_gateway_config (cm_cfg m)) runtime @ process_field_changes m file)"
    and "dr_requires_gateway_restart dry = changes_require_gateway_restart (dr_changes dry)"
    and "dr_apply_mode dry = apply_mode_for_changes (dr_changes dry)"
  using assms by (auto simp: dry_run_def manager_snapshot_def Let_def split: sum.splits)

text \<open>The running configuration has the tokens and the address that the process was started with.\<close>

definition pinned :: "'s config_manager \<Rightarrow> bool" where
  "pinned m \<longleftrightarrow> gc_tokens (cm_cfg m) = rp_tokens (cm_pins m) \<and>
     gs_listen_addr (gc_gateway (cm_cfg m)) = rp_listen_addr (cm_pins m)"

lemma clone_config_fields [simp]:
  "gc_gateway (clone_gateway_config cfg) = gc_gateway cfg" "gc_tokens (clone_gateway_config cfg) = gc_tokens cfg"
  "gc_metrics_store (clone_gateway_config cfg) = gc_metrics_store cfg"
  "gc_transport (clone_gateway_config cfg) = gc_transport cfg" "gc_oss (clone_gateway_config cfg) = gc_oss cfg"
  "gc_model_aliases (clone_gateway_config cfg) = gc_model_aliases cfg"
  "gc_records_store (clone_gateway_config cfg) = gc_records_store cfg"
  by (simp_all add: clone_gateway_config_def)

lemma pins_fields [simp]:
  "gc_tokens (apply_runtime_pins pins cfg) = rp_tokens pins"
  "gs_listen_addr (gc_gateway (apply_runtime_pins pins cfg)) = rp_listen_addr pins"
  "gc_metrics_store (apply_runtime_pins pins cfg) = gc_metrics_store cfg"
  "gc_transport (apply_runtime_pins pins cfg) = gc_transport cfg"
  by (simp_all add: apply_runtime_pins_def)

text \<open>
  A document waits for a restart exactly when it changes, against the file, the tokens, the listen address or
  (when the command line pinned it) the number of proxy attempts, or, against the running
  configuration, the metrics store or the lease store's path. Everything else is applied hot.
\<close>

theorem restart_required_iff:
  assumes dry: "dry_run env raw m = Inr (dry, runtime, file, text)" and pinned: "pinned m"
  shows "dr_requires_gateway_restart dry \<longleftrightarrow>
    gc_tokens file \<noteq> gc_tokens (cm_file_cfg m) \<or>
    gs_listen_addr (gc_gateway file) \<noteq> gs_listen_addr (gc_gateway (cm_file_cfg m)) \<or>
    rp_pin_proxy_attempts (cm_pins m) \<and>
      gs_proxy_attempts (gc_gateway file) \<noteq> gs_proxy_attempts (gc_gateway (cm_file_cfg m)) \<or>
    gc_metrics_store file \<noteq> gc_metrics_store (cm_cfg m) \<or>
    frp_lease_store_path (tr_frp (gc_transport file)) \<noteq> frp_lease_store_path (tr_frp (gc_transport (cm_cfg m)))"
  using pinned unfolding dry_runE(3,5,6)[OF dry] requires_restart_simps diff_restart_iff process_restart_iff pinned_def
  by auto

section \<open>When nothing counts as changed\<close>

definition same_maps :: "('v \<Rightarrow> 'v \<Rightarrow> bool) \<Rightarrow> ('k, 'v) gomap \<Rightarrow> ('k, 'v) gomap \<Rightarrow> bool" where
  "same_maps eq a b \<longleftrightarrow> (\<forall>k. rel_option eq (map_of a k) (map_of b k))"

lemma model_change_Nil:
  assumes "n \<in> set (mkeys (gc_models new))"
  shows "model_change old new n = [] \<longleftrightarrow>
    (\<exists>a b. map_of (gc_models old) n = Some a \<and> map_of (gc_models new) n = Some b \<and> models_equal a b)"
proof -
  obtain b where b: "map_of (gc_models new) n = Some b" using assms by (auto simp: set_mkeys)
  have eq: "models_equal a b \<Longrightarrow> \<not> model_runtime_fields_changed a b" for a
    by (cases a; cases b) (simp add: models_equal_def model_runtime_fields_changed_def)
  show ?thesis using b eq by (auto simp: model_change_def Let_def mget_def split: option.splits)
qed

lemma same_models:
  "(\<forall>n \<in> set (mkeys (gc_models new)). model_change old new n = []) \<and>
   (\<forall>n \<in> set (mkeys (gc_models old)). removed_model new n = []) \<longleftrightarrow>
     same_maps models_equal (gc_models old) (gc_models new)"
proof -
  have removed: "removed_model new n = [] \<longleftrightarrow> map_of (gc_models new) n \<noteq> None" for n
    by (simp add: removed_model_def mhas_def)
  show ?thesis (is "?l \<longleftrightarrow> ?r")
  proof
    assume l: ?l
    show ?r unfolding same_maps_def
    proof
      fix k
      show "rel_option models_equal (map_of (gc_models old) k) (map_of (gc_models new) k)"
      proof (cases "map_of (gc_models new) k")
        case None
        with l removed[of k] have "map_of (gc_models old) k = None" by (auto simp: set_mkeys)
        with None show ?thesis by simp
      next
        case (Some b)
        then have k: "k \<in> set (mkeys (gc_models new))" by (auto simp: set_mkeys)
        with l have "model_change old new k = []" by blast
        with model_change_Nil[OF k, of old] Some show ?thesis by auto
      qed
    qed
  next
    assume r: ?r
    have "model_change old new n = []" if n: "n \<in> set (mkeys (gc_models new))" for n
    proof -
      obtain b where "map_of (gc_models new) n = Some b" using n by (auto simp: set_mkeys)
      with r show ?thesis unfolding model_change_Nil[OF n] same_maps_def
        by (metis option_rel_Some2)
    qed
    moreover have "removed_model new n = []" if "n \<in> set (mkeys (gc_models old))" for n
      using that r unfolding removed same_maps_def by (auto simp: set_mkeys) (metis option_rel_Some1 option.distinct(1))
    ultimately show ?l by blast
  qed
qed

lemma same_aliases:
  "(\<forall>a \<in> set (mkeys (gc_model_aliases old)) \<union> set (mkeys (gc_model_aliases new)). alias_change old new a = []) \<longleftrightarrow>
     map_of (gc_model_aliases old) = map_of (gc_model_aliases new)"
  (is "?l \<longleftrightarrow> ?r")
proof -
  have one: "alias_change old new a = [] \<longleftrightarrow>
      map_of (gc_model_aliases old) a \<noteq> None \<and> map_of (gc_model_aliases old) a = map_of (gc_model_aliases new) a" for a
    by (auto simp: alias_change_def split: option.splits)
  show ?thesis unfolding one by (auto simp: set_mkeys fun_eq_iff)
qed

lemma diff_Nil_iff:
  "diff_gateway_config old new = [] \<longleftrightarrow>
     same_maps models_equal (gc_models old) (gc_models new) \<and>
     map_of (gc_model_aliases old) = map_of (gc_model_aliases new) \<and>
     nil_maps_equal (=) (gc_policies old) (gc_policies new) \<and> gc_oss old = gc_oss new \<and>
     gc_gateway old = gc_gateway new \<and> gc_tokens old = gc_tokens new \<and> gc_metrics_store old = gc_metrics_store new \<and>
     frp_lease_store_path (tr_frp (gc_transport old)) = frp_lease_store_path (tr_frp (gc_transport new))"
proof -
  have gw: "gc_gateway old = gc_gateway new \<longleftrightarrow>
      gs_listen_addr (gc_gateway old) = gs_listen_addr (gc_gateway new) \<and>
      gs_proxy_attempts (gc_gateway old) = gs_proxy_attempts (gc_gateway new)"
    by (cases "gc_gateway old"; cases "gc_gateway new") simp
  show ?thesis
    unfolding same_models[symmetric] same_aliases[symmetric] gw
    by (auto simp: diff_gateway_config_def sorted_model_names_def sorted_alias_names_def)
qed

text \<open>
  The comparison reports nothing exactly when models (by value), aliases, tag policies, object store,
  listen address, tokens, metrics store, proxy attempts and lease store path agree; what it reports is
  sorted by path and kind.
\<close>

theorem no_change_iff:
  "(diff_gateway_config old new = [] \<longleftrightarrow>
     same_maps models_equal (gc_models old) (gc_models new) \<and>
     map_of (gc_model_aliases old) = map_of (gc_model_aliases new) \<and>
     nil_maps_equal (=) (gc_policies old) (gc_policies new) \<and> gc_oss old = gc_oss new \<and>
     gc_gateway old = gc_gateway new \<and> gc_tokens old = gc_tokens new \<and> gc_metrics_store old = gc_metrics_store new \<and>
     frp_lease_store_path (tr_frp (gc_transport old)) = frp_lease_store_path (tr_frp (gc_transport new))) \<and>
   sorted (map (\<lambda>c. (cc_path c, cc_type c)) (diff_gateway_config old new))"
  using diff_Nil_iff[of old new] by (simp add: diff_gateway_config_def sort_changes_def)

section \<open>Applying a document\<close>

text \<open>What the operations below \<open>applyMu\<close> keep of the manager when they fail.\<close>

definition same_memory :: "'s config_manager \<Rightarrow> 's config_manager \<Rightarrow> bool" where
  "same_memory m m' \<longleftrightarrow> cm_cfg m' = cm_cfg m \<and> cm_file_cfg m' = cm_file_cfg m \<and> cm_raw_yaml m' = cm_raw_yaml m \<and>
     cm_version m' = cm_version m \<and> cm_pins m' = cm_pins m \<and> cm_config_path m' = cm_config_path m"

lemma write_config_file_effect:
  assumes "write_config_file outcome body m = (res, m')"
  shows "same_memory m m' \<and> cm_revisions m' = cm_revisions m \<and>
    (case res of Some e \<Rightarrow> e \<in> {MakeDirectoryFailed, WriteFailed} \<and> (e \<noteq> WriteFailed \<longrightarrow> cm_disk m' = cm_disk m)
     | None \<Rightarrow> cm_disk m' = (if trim_space (cm_config_path m) = [] then cm_disk m else Some body))"
  using assms by (auto simp: write_config_file_def same_memory_def split: if_splits write_outcome.splits)

definition published_only :: "gateway_config list \<Rightarrow> 's config_manager \<Rightarrow> bool" where
  "published_only published m \<longleftrightarrow> published = [clone_gateway_config (cm_cfg m)]"

lemma apply_config_cases:
  fixes env :: "'e config_env" and allocate :: "'a \<Rightarrow> 's \<Rightarrow> ('r + int) \<times> 's"
  assumes "apply_config env allocate ctx outcome raw m = (res, m', published)"
  obtains (invalid) e where "dry_run env raw m = Inl e" "res = Inl (InvalidConfig e)" "m' = m" "published = []"
  | (allocation) dry x e s where "dry_run env raw m = Inr (dry, x)" "\<not> dr_requires_gateway_restart dry"
      "allocate ctx (cm_revisions m) = (Inl e, s)" "res = Inl (AllocateFailed e)"
      "m' = m\<lparr>cm_revisions := s\<rparr>" "published = []"
  | (not_newer) dry x v s where "dry_run env raw m = Inr (dry, x)" "\<not> dr_requires_gateway_restart dry"
      "allocate ctx (cm_revisions m) = (Inr v, s)" "v \<le> cm_version m" "res = Inl (RevisionNotNewer v (cm_version m))"
      "m' = m\<lparr>cm_revisions := s\<rparr>" "published = []"
  | (write_failed) dry runtime fc body s e where "dry_run env raw m = Inr (dry, runtime, fc, body)"
      "if dr_requires_gateway_restart dry then s = cm_revisions m else \<exists>v. allocate ctx (cm_revisions m) = (Inr v, s) \<and> cm_version m < v"
      "write_config_file outcome body (m\<lparr>cm_revisions := s\<rparr>) = (Some e, m')" "res = Inl e" "published = []"
  | (waits) dry runtime fc body m1 r where "dry_run env raw m = Inr (dry, runtime, fc, body)"
      "dr_requires_gateway_restart dry" "write_config_file outcome body m = (None :: ('e, 'r) apply_error option, m1)" "res = Inr r"
      "ar_version r = cm_version m" "ar_requires_gateway_restart r" "ar_changes r = dr_changes dry"
      "m' = m1\<lparr>cm_raw_yaml := body, cm_file_cfg := clone_gateway_config fc\<rparr>"
      "published = [clone_gateway_config (cm_cfg m1)]"
  | (hot) dry runtime fc body v s m1 r where "dry_run env raw m = Inr (dry, runtime, fc, body)"
      "\<not> dr_requires_gateway_restart dry" "allocate ctx (cm_revisions m) = (Inr v, s)" "cm_version m < v"
      "write_config_file outcome body (m\<lparr>cm_revisions := s\<rparr>) = (None :: ('e, 'r) apply_error option, m1)" "res = Inr r" "ar_version r = v"
      "\<not> ar_requires_gateway_restart r" "ar_changes r = dr_changes dry"
      "m' = m1\<lparr>cm_cfg := clone_gateway_config runtime, cm_file_cfg := clone_gateway_config fc,
         cm_raw_yaml := body, cm_version := v\<rparr>"
      "published = [clone_gateway_config runtime]"
proof (cases "dry_run env raw m")
  case (Inl e)
  with assms have r: "res = Inl (InvalidConfig e)" "m' = m" "published = []" by (simp_all add: apply_config_def)
  show ?thesis by (rule invalid[OF Inl r])
next
  case (Inr y)
  obtain dry runtime fc body where y: "y = (dry, runtime, fc, body)" by (cases y)
  note dry = Inr[unfolded y]
  have ver: "dr_version dry = cm_version m" using dry_runE(4)[OF dry] .
  show ?thesis
  proof (cases "dr_requires_gateway_restart dry")
    case True
    obtain w :: "('e, 'r) apply_error option" and m1 where w: "write_config_file outcome body m = (w, m1)" by fastforce
    have same: "cm_version m1 = cm_version m" using write_config_file_effect[OF w] by (simp add: same_memory_def)
    have self: "m\<lparr>cm_revisions := cm_revisions m\<rparr> = m" by (cases m) simp
    have eq: "(res, m', published) = (case w of Some e \<Rightarrow> (Inl e, m1, [])
        | None \<Rightarrow> (Inr \<lparr>ar_version = cm_version m1, ar_changes = dr_changes dry, ar_apply_mode = dr_apply_mode dry,
             ar_requires_gateway_restart = True\<rparr>,
           m1\<lparr>cm_raw_yaml := body, cm_file_cfg := clone_gateway_config fc\<rparr>, [clone_gateway_config (cm_cfg m1)]))"
      unfolding assms[symmetric] by (simp add: apply_config_def dry True w self Let_def split: option.split)
    show ?thesis
    proof (cases w)
      case None
      with eq same have r: "res = Inr \<lparr>ar_version = cm_version m, ar_changes = dr_changes dry,
          ar_apply_mode = dr_apply_mode dry, ar_requires_gateway_restart = True\<rparr>"
        "m' = m1\<lparr>cm_raw_yaml := body, cm_file_cfg := clone_gateway_config fc\<rparr>"
        "published = [clone_gateway_config (cm_cfg m1)]" by simp_all
      show ?thesis by (rule waits[OF dry True w[unfolded None] r(1) _ _ _ r(2,3)]) simp_all
    next
      case (Some e)
      with eq have r: "res = Inl e" "m' = m1" "published = []" by simp_all
      show ?thesis by (rule write_failed[OF dry _ _ r(1,3), of "cm_revisions m"]) (use True w Some r(2) in simp_all)
    qed
  next
    case False
    obtain a s where a: "allocate ctx (cm_revisions m) = (a, s)" by fastforce
    show ?thesis
    proof (cases a)
      case (Inl e)
      with assms dry False a have r: "res = Inl (AllocateFailed e)" "m' = m\<lparr>cm_revisions := s\<rparr>" "published = []"
        by (simp_all add: apply_config_def Let_def)
      show ?thesis by (rule allocation[OF dry False a[unfolded Inl] r])
    next
      case (Inr v)
      obtain w :: "('e, 'r) apply_error option" and m1 where w: "write_config_file outcome body (m\<lparr>cm_revisions := s\<rparr>) = (w, m1)" by fastforce
      show ?thesis
      proof (cases "v \<le> cm_version m")
        case True
        with assms dry False a Inr ver have r: "res = Inl (RevisionNotNewer v (cm_version m))"
            "m' = m\<lparr>cm_revisions := s\<rparr>" "published = []"
          by (simp_all add: apply_config_def Let_def)
        show ?thesis by (rule not_newer[OF dry _ a[unfolded Inr] True r]) (use \<open>\<not> dr_requires_gateway_restart dry\<close> in simp)
      next
        case new: False
        have eq: "(res, m', published) = (case w of Some e \<Rightarrow> (Inl e, m1, [])
            | None \<Rightarrow> (Inr \<lparr>ar_version = v, ar_changes = dr_changes dry, ar_apply_mode = dr_apply_mode dry,
                 ar_requires_gateway_restart = False\<rparr>,
               m1\<lparr>cm_cfg := clone_gateway_config runtime, cm_file_cfg := clone_gateway_config fc,
                 cm_raw_yaml := body, cm_version := v\<rparr>, [clone_gateway_config runtime]))"
          unfolding assms[symmetric] using new False
          by (simp add: apply_config_def dry a Inr ver w Let_def split: option.split)
        show ?thesis
        proof (cases w)
          case None
          with eq have r: "res = Inr \<lparr>ar_version = v, ar_changes = dr_changes dry,
              ar_apply_mode = dr_apply_mode dry, ar_requires_gateway_restart = False\<rparr>"
            "m' = m1\<lparr>cm_cfg := clone_gateway_config runtime, cm_file_cfg := clone_gateway_config fc,
               cm_raw_yaml := body, cm_version := v\<rparr>"
            "published = [clone_gateway_config runtime]" using False by simp_all
          show ?thesis
            by (rule hot[OF dry False a[unfolded Inr] _ w[unfolded None] r(1) _ _ _ r(2,3)]) (use new in simp_all)
        next
          case (Some e)
          with eq have r: "res = Inl e" "m' = m1" "published = []" using False by simp_all
          show ?thesis
            by (rule write_failed[OF dry _ _ r(1,3), of s]) (use False a Inr new w Some r(2) in auto)
        qed
      qed
    qed
  qed
qed

text \<open>
  C34. Applying a document is all or nothing in memory. On an error nothing of the running or the file
  configuration, the text or the version moves and nothing is published, and unless the write itself
  failed the file is untouched. On success the file configuration is what the new text loads to, the
  file holds that text, and what is published is the configuration that now runs: the document's own
  when it was applied hot, the old one with its old version when it waits for a restart.
\<close>

theorem apply_all_or_nothing:
  assumes "apply_config env allocate ctx outcome raw m = (res, m', published)"
  shows "case res of
      Inl e \<Rightarrow> same_memory m m' \<and> published = [] \<and> (e \<noteq> WriteFailed \<longrightarrow> cm_disk m' = cm_disk m)
    | Inr r \<Rightarrow> \<exists>dry runtime fc body. dry_run env raw m = Inr (dry, runtime, fc, body) \<and>
        load_gateway (env_decode env) (env_goos env) body = Inr fc \<and>
        cm_file_cfg m' = clone_gateway_config fc \<and> cm_raw_yaml m' = body \<and>
        (trim_space (cm_config_path m) \<noteq> [] \<longrightarrow> cm_disk m' = Some body) \<and>
        published = [clone_gateway_config (cm_cfg m')] \<and> ar_changes r = dr_changes dry \<and> ar_version r = cm_version m' \<and>
        (if dr_requires_gateway_restart dry then cm_cfg m' = cm_cfg m \<and> cm_version m' = cm_version m
         else cm_cfg m' = clone_gateway_config (apply_runtime_pins (cm_pins m) fc) \<and> cm_version m < cm_version m')"
  using assms
proof (cases rule: apply_config_cases)
  case (write_failed dry runtime fc body s e)
  from write_config_file_effect[OF write_failed(3)] write_failed(4,5) show ?thesis by (auto simp: same_memory_def)
next
  case (waits dry runtime fc body m1 r)
  from write_config_file_effect[OF waits(3)] waits dry_runE(2)[OF waits(1)] show ?thesis
    by (auto simp: same_memory_def)
next
  case (hot dry runtime fc body v s m1 r)
  from write_config_file_effect[OF hot(5)] hot dry_runE(2,3)[OF hot(1)] show ?thesis
    by (auto simp: same_memory_def)
qed (auto simp: same_memory_def)

section \<open>Versions\<close>

context revision_store
begin

text \<open>The manager never holds a version that its store has not handed out.\<close>

definition version_held :: "'s config_manager \<Rightarrow> bool" where
  "version_held m \<longleftrightarrow> cm_version m \<le> current (cm_revisions m)"

lemma allocate_above:
  "version_held m \<Longrightarrow> allocate a (cm_revisions m) = (Inr v, s) \<Longrightarrow> cm_version m < v \<and> current s = v"
  using allocate_ok by (fastforce simp: version_held_def)

lemma allocate_keeps_held: "version_held m \<Longrightarrow> allocate a (cm_revisions m) = (Inl e, s) \<Longrightarrow> cm_version m \<le> current s"
  using allocate_error by (fastforce simp: version_held_def)

lemma apply_version:
  assumes "version_held m" "apply_config env allocate ctx outcome raw m = (res, m', published)"
  shows "version_held m' \<and> (\<forall>v w. res \<noteq> Inl (RevisionNotNewer v w)) \<and> cm_version m \<le> cm_version m' \<and>
    (cm_version m' = cm_version m \<longrightarrow> cm_cfg m' = cm_cfg m)"
  using assms(2)
proof (cases rule: apply_config_cases)
  case (write_failed dry runtime fc body s e)
  have "cm_version m \<le> current s"
  proof (cases "dr_requires_gateway_restart dry")
    case True
    with write_failed(2) assms(1) show ?thesis by (simp add: version_held_def)
  next
    case False
    with write_failed(2) obtain v where "allocate ctx (cm_revisions m) = (Inr v, s)" by auto
    from allocate_above[OF assms(1) this] show ?thesis by simp
  qed
  with write_config_file_effect[OF write_failed(3)] write_failed(4) show ?thesis by (auto simp: same_memory_def version_held_def)
next
  case (waits dry runtime fc body m1 r)
  with write_config_file_effect[OF waits(3)] assms(1) show ?thesis by (auto simp: same_memory_def version_held_def)
next
  case (hot dry runtime fc body v s m1 r)
  with write_config_file_effect[OF hot(5)] allocate_above[OF assms(1) hot(3)] show ?thesis
    by (auto simp: same_memory_def version_held_def)
next
  case (not_newer dry x v s)
  with allocate_above[OF assms(1) not_newer(3)] show ?thesis by simp
next
  case (allocation dry x e s)
  with allocate_keeps_held[OF assms(1) allocation(3)] show ?thesis by (simp add: version_held_def)
qed (use assms(1) in simp)

end

lemma apply_pinned:
  assumes "pinned m" "apply_config env allocate ctx outcome raw m = (res, m', published)"
  shows "pinned m' \<and> cm_pins m' = cm_pins m"
  using assms(2)
proof (cases rule: apply_config_cases)
  case (write_failed dry runtime fc body s e)
  with write_config_file_effect[OF write_failed(3)] assms(1) show ?thesis by (simp add: same_memory_def pinned_def)
next
  case (waits dry runtime fc body m1 r)
  with write_config_file_effect[OF waits(3)] assms(1) show ?thesis by (simp add: same_memory_def pinned_def)
next
  case (hot dry runtime fc body v s m1 r)
  with write_config_file_effect[OF hot(5)] assms(1) dry_runE(3)[OF hot(1)] show ?thesis
    by (simp add: same_memory_def pinned_def)
qed (use assms(1) in \<open>simp_all add: pinned_def\<close>)

section \<open>An example\<close>

definition example_manager :: "gateway_config \<Rightarrow> revision_file_store config_manager" where
  "example_manager cfg = \<lparr>cm_cfg = clone_gateway_config cfg, cm_file_cfg = clone_gateway_config cfg, cm_raw_yaml = ''y'',
     cm_version = 1, cm_revisions = \<lparr>rfs_file = RevisionDocument 1 1, rfs_temporaries = 0\<rparr>,
     cm_config_path = ''/g.yaml'', cm_pins = \<lparr>rp_tokens = gc_tokens cfg, rp_listen_addr = gs_listen_addr (gc_gateway cfg),
       rp_proxy_attempts = 3, rp_pin_proxy_attempts = False\<rparr>, cm_disk = Some ''y''\<rparr>"

text \<open>A codec that encodes to one text and decodes it to the configuration \<open>cfg\<close>.\<close>

definition codec_of :: "gateway_config \<Rightarrow> string config_env" where
  "codec_of cfg = \<lparr>env_yaml_decode = (\<lambda>_. Inr \<lparr>yd_nodes = [], yd_root = None\<rparr>), env_yaml_encode = (\<lambda>_. Inr ''p''),
     env_decode = (\<lambda>_. Inr cfg), env_goos = ''linux''\<rparr>"

lemma maps_equal_refl: "mwf a \<Longrightarrow> (\<And>k v. (k, v) \<in> set a \<Longrightarrow> eq v v) \<Longrightarrow> maps_equal eq a a"
  by (auto simp: maps_equal_def list_all_iff map_of_wf_iff[symmetric])

lemma example_allocation:
  "file_allocate plain_allocation \<lparr>rfs_file = RevisionDocument 1 1, rfs_temporaries = 0\<rparr> =
     (Inr 2, \<lparr>rfs_file = RevisionDocument 1 2, rfs_temporaries = 0\<rparr>)"
  "file_allocate plain_allocation \<lparr>rfs_file = RevisionDocument 1 2, rfs_temporaries = 0\<rparr> =
     (Inr 3, \<lparr>rfs_file = RevisionDocument 1 3, rfs_temporaries = 0\<rparr>)"
  by (simp_all add: plain_allocation_def file_allocate_def allocate_locked_def load_revision_def save_steps_def
        revision_store_version_def)

lemma codec_loads:
  "load_gateway (env_decode (codec_of cfg)) (env_goos (codec_of cfg)) raw =
     (let c = apply_gateway_token_defaults (apply_gateway_defaults cfg)
      in case validate_gateway ''linux'' c of Some e \<Rightarrow> Inl e | None \<Rightarrow> Inr c)"
  by (simp add: load_gateway_def codec_of_def)

lemma codec_dry_run:
  assumes "load_gateway (env_decode (codec_of cfg)) (env_goos (codec_of cfg)) raw = Inr cfg"
  shows "dry_run (codec_of cfg) raw m =
    (let changes = sort_changes (diff_gateway_config (clone_gateway_config (cm_cfg m)) (apply_runtime_pins (cm_pins m) cfg) @
        process_field_changes m cfg)
     in Inr (\<lparr>dr_version = cm_version m, dr_changes = changes, dr_apply_mode = apply_mode_for_changes changes,
          dr_requires_gateway_restart = changes_require_gateway_restart changes\<rparr>, apply_runtime_pins (cm_pins m) cfg, cfg, raw))"
proof -
  have "replace_auth_token_yaml (env_yaml_decode (codec_of cfg)) (env_yaml_encode (codec_of cfg)) raw redaction_marker secret = Inr raw"
    for secret
    by (simp add: replace_auth_token_yaml_def codec_of_def yaml_path_contributors_def)
  with assms show ?thesis by (simp add: dry_run_def manager_snapshot_def Let_def)
qed

lemma example_codec_loads:
  "load_gateway (env_decode (codec_of example_config)) (env_goos (codec_of example_config)) raw = Inr example_config"
proof -
  have "apply_gateway_token_defaults (apply_gateway_defaults example_config) = example_config"
    by (simp add: apply_gateway_defaults_def apply_gateway_token_defaults_def example_config_def
        base_config_def Let_def example_dial_trimmed)
  then show ?thesis by (simp add: codec_loads example_config_valid)
qed

definition moved_config :: gateway_config where
  "moved_config = example_config\<lparr>gc_gateway := \<lparr>gs_listen_addr = '':9090'', gs_proxy_attempts = 3\<rparr>\<rparr>"

theorem restart_required_iff_witness:
  "\<exists>dry runtime file text. dry_run (codec_of example_config) ''z'' (example_manager moved_config) = Inr (dry, runtime, file, text) \<and>
     dr_requires_gateway_restart dry"
proof -
  obtain dry runtime fc body where d: "dry_run (codec_of example_config) ''z'' (example_manager moved_config) = Inr (dry, runtime, fc, body)"
    and fc: "fc = example_config"
    by (simp add: codec_dry_run[OF example_codec_loads] Let_def)
  have "pinned (example_manager moved_config)" by (simp add: pinned_def example_manager_def)
  from restart_required_iff[OF d this] have "dr_requires_gateway_restart dry"
    by (simp add: fc example_manager_def moved_config_def example_config_def base_config_def)
  with d show ?thesis by blast
qed

theorem apply_all_or_nothing_witness:
  "\<exists>res m' published. apply_config (codec_of example_config) file_allocate plain_allocation WriteSucceeds ''z''
       (example_manager moved_config) = (res, m', published) \<and>
     cm_file_cfg m' = clone_gateway_config example_config \<and> cm_disk m' = Some ''z'' \<and>
     cm_cfg m' = clone_gateway_config moved_config \<and> published = [clone_gateway_config moved_config]"
proof -
  let ?m = "example_manager moved_config" and ?c = "codec_of example_config"
  obtain res m' published where a: "apply_config ?c file_allocate plain_allocation WriteSucceeds ''z'' ?m = (res, m', published)"
    by (metis surj_pair)
  obtain dry where d: "dry_run ?c ''z'' ?m = Inr (dry, apply_runtime_pins (cm_pins ?m) example_config, example_config, ''z'')"
    by (simp add: codec_dry_run[OF example_codec_loads] Let_def)
  have w: "dr_requires_gateway_restart dry"
    using dry_runE(5,6)[OF d] by (simp add: process_restart_iff example_manager_def moved_config_def example_config_def base_config_def)
  have path: "trim_space ''/g.yaml'' = ''/g.yaml''" by code_simp
  obtain r where r: "res = Inr r"
    using a d w by (auto simp: apply_config_def write_config_file_def Let_def split: if_splits)
  from apply_all_or_nothing[OF a] have "cm_file_cfg m' = clone_gateway_config example_config \<and> cm_disk m' = Some ''z'' \<and>
      cm_cfg m' = clone_gateway_config moved_config \<and> published = [clone_gateway_config moved_config]"
    using d w path by (auto simp: r) (simp_all add: example_manager_def)
  with a show ?thesis by blast
qed

definition empty_args_config :: gateway_config where
  "empty_args_config = base_config [(''a'', example_model\<lparr>m_runtime_args := Slice []\<rparr>), (''b'', example_model)]
     [(''latest'', ''a'')] [(''gpu'', example_policy)]"

lemma empty_args_loads:
  "load_gateway (env_decode (codec_of empty_args_config)) (env_goos (codec_of empty_args_config)) raw = Inr empty_args_config"
proof -
  have "apply_gateway_token_defaults (apply_gateway_defaults empty_args_config) = empty_args_config"
    by (simp add: apply_gateway_defaults_def apply_gateway_token_defaults_def empty_args_config_def
        base_config_def Let_def example_dial_trimmed)
  moreover have "validate_gateway ''linux'' empty_args_config = None" by code_simp
  ultimately show ?thesis by (simp add: codec_loads)
qed

definition empty_args_manager :: "memory_revision_store config_manager" where
  "empty_args_manager = \<lparr>cm_cfg = clone_gateway_config empty_args_config,
     cm_file_cfg = clone_gateway_config empty_args_config, cm_raw_yaml = ''y'', cm_version = 1, cm_revisions = 1,
     cm_config_path = ''/g.yaml'', cm_pins = \<lparr>rp_tokens = gc_tokens empty_args_config,
       rp_listen_addr = gs_listen_addr (gc_gateway empty_args_config), rp_proxy_attempts = 3, rp_pin_proxy_attempts = False\<rparr>,
     cm_disk = Some ''y''\<rparr>"

lemma clone_empty_args:
  "clone_gateway_config empty_args_config = base_config [(''a'', example_model), (''b'', example_model)]
     [(''latest'', ''a'')] [(''gpu'', example_policy)]"
  by (simp add: clone_gateway_config_def empty_args_config_def base_config_def clone_model_def clone_policy_def
      clone_slice_def example_model_def example_policy_def zero_model_def)

lemma empty_args_diff:
  "diff_gateway_config (base_config [(''a'', example_model), (''b'', example_model)] [(''latest'', ''a'')] [(''gpu'', example_policy)])
     empty_args_config = [(plain_change ''models.a'' ''changed'')\<lparr>cc_model := ''a'', cc_requires_worker_restart := True,
       cc_detail := runtime_changed_detail\<rparr>]"
  by code_simp

text \<open>
  A defect: a document that holds \<open>runtime_args: []\<close> is reported as changed against itself. The manager keeps
  nil where the document decodes to an empty list, so a gateway started from such a document says, in a dry
  run of the very text it shows, that the model's runtime changed and its workers must restart. The
  configuration marshaller writes exactly this form.
\<close>

theorem unchanged_document_reports_change:
  "\<exists>m s. new_config_manager (codec_of empty_args_config) memory_allocate False empty_args_config ''/g.yaml'' False (Some ''y'') 0 =
       (Inr m, s) \<and> cm_raw_yaml m = ''y'' \<and>
     (\<exists>dry rest. dry_run (codec_of empty_args_config) (cm_raw_yaml m) m = Inr (dry, rest) \<and>
        dr_changes dry = [(plain_change ''models.a'' ''changed'')\<lparr>cc_model := ''a'', cc_requires_worker_restart := True,
          cc_detail := runtime_changed_detail\<rparr>])"
proof -
  let ?c = "codec_of empty_args_config"
  have n: "normalize_gateway_config empty_args_config = empty_args_config"
    by (simp add: normalize_gateway_config_def empty_args_config_def base_config_def)
  have path: "trim_space ''/g.yaml'' = ''/g.yaml''" by code_simp
  have "new_config_manager ?c memory_allocate False empty_args_config ''/g.yaml'' False (Some ''y'') 0 = (Inr empty_args_manager, 1)"
    by (simp add: new_config_manager_def memory_allocate_def path n empty_args_loads empty_args_manager_def Let_def)
      (simp add: empty_args_config_def base_config_def)
  moreover have "process_field_changes empty_args_manager empty_args_config = []"
    by (simp add: process_field_changes_def empty_args_manager_def when_changed_def clone_gateway_config_def)
  moreover have "apply_runtime_pins (cm_pins empty_args_manager) empty_args_config = empty_args_config"
    by (simp add: apply_runtime_pins_def empty_args_manager_def)
  moreover have "diff_gateway_config (clone_gateway_config (cm_cfg empty_args_manager)) empty_args_config =
      [(plain_change ''models.a'' ''changed'')\<lparr>cc_model := ''a'', cc_requires_worker_restart := True,
        cc_detail := runtime_changed_detail\<rparr>]"
    using empty_args_diff[folded clone_empty_args] by (simp add: empty_args_manager_def)
  moreover have "cm_raw_yaml empty_args_manager = ''y''" by (simp add: empty_args_manager_def)
  ultimately show ?thesis
    by (simp add: codec_dry_run[OF empty_args_loads] sort_changes_def Let_def)
qed

text \<open>The records store, opened once when the process starts, is no part of the comparison.\<close>

lemma diff_ignores_records_store:
  "diff_gateway_config old (new\<lparr>gc_records_store := store\<rparr>) = diff_gateway_config old new"
proof -
  have "model_change old (new\<lparr>gc_records_store := store\<rparr>) = model_change old new"
    "removed_model (new\<lparr>gc_records_store := store\<rparr>) = removed_model new"
    "alias_change old (new\<lparr>gc_records_store := store\<rparr>) = alias_change old new"
    by (simp_all add: fun_eq_iff model_change_def removed_model_def alias_change_def split: option.split)
  then show ?thesis by (simp add: diff_gateway_config_def)
qed

end
