(* ===== verification/PromotionFacts.thy ===== *)
theory PromotionFacts
  imports Promotion ConfigManagerFacts
begin

text \<open>
  Facts about service-name transactions: on an error nothing of the manager moves, a promotion hands the
  name over to the alias and leaves no policy that mentions the model, and a rollback restores the
  namespace. What the rollback relies on of the archive store is the locale \<open>archive_store\<close>.
\<close>

section \<open>The interface of an archive store\<close>

text \<open>\<open>kept\<close> is what a store keeps of an archive: everything in memory, what JSON keeps in a file.\<close>

locale archive_store =
  fixes ops :: "('c, 't, 'x) archive_ops" and kept :: "service_name_archive \<Rightarrow> service_name_archive"
  assumes get_after_put: "ao_put ops c a t = (None, t') \<Longrightarrow> ao_get ops c' (sa_id a) t' = Inr r \<Longrightarrow> r = Some (kept a)"
    and kept_names: "sa_id (kept a) = sa_id a" "sa_service_name (kept a) = sa_service_name a"
      "sa_target_model (kept a) = sa_target_model a" "sa_rolled_back (kept a) = sa_rolled_back a"
    and kept_policies: "sa_before_policies (kept a) = sa_before_policies a" "sa_after_policies (kept a) = sa_after_policies a"
    and kept_model: "sa_max_loaded_set a = m_max_loaded_set (sa_model a) \<Longrightarrow> m_tag_capacities (sa_model a) \<noteq> Slice [] \<Longrightarrow>
      clone_model (restored_model (kept a)) = clone_model (sa_model a)"

lemma clone_restored:
  "sa_max_loaded_set a = m_max_loaded_set (sa_model a) \<Longrightarrow> clone_model (restored_model a) = clone_model (sa_model a)"
  by (simp add: restored_model_def clone_model_def)

interpretation memory_archives: archive_store memory_archives "\<lambda>a. a"
  by unfold_locales
    (auto simp: memory_archives_def memory_archive_put_def memory_archive_get_def clone_restored)

lemma drop_empty_nonempty: "s \<noteq> Slice [] \<Longrightarrow> drop_empty s = s"
  by (cases s) (auto simp: drop_empty_def)

lemma clone_drop_empty [simp]: "clone_slice (drop_empty s) = clone_slice s"
  by (simp add: clone_slice_def drop_empty_def)

lemma file_get_after_put:
  assumes "file_archive_put c a s = (None, s')" "file_archive_get c' (sa_id a) s' = Inr r"
  shows "r = Some (archive_after_json a)"
proof -
  obtain archives where "load_archives s = Inr archives" "write_archives (ac_fault c) (mput (sa_id a) a archives) s = (None, s')"
    using assms(1) by (auto simp: file_archive_put_def split: if_splits sum.splits)
  then have "afs_file s' = ArchiveDocument 1 (Slice (map (\<lambda>(i, a). (i, archive_after_json a)) (mput (sa_id a) a archives)))"
    by (auto simp: write_archives_def split: if_splits option.splits)
  with assms(2) show ?thesis
    by (auto simp: file_archive_get_def load_archives_def map_of_map split: if_splits)
qed

interpretation file_archives: archive_store file_archives archive_after_json
proof unfold_locales
  fix c a s s' c' r
  assume "ao_put file_archives c a s = (None, s')" "ao_get file_archives c' (sa_id a) s' = Inr r"
  then show "r = Some (archive_after_json a)" by (auto simp: file_archives_def intro: file_get_after_put)
next
  fix a :: service_name_archive
  assume "sa_max_loaded_set a = m_max_loaded_set (sa_model a)" "m_tag_capacities (sa_model a) \<noteq> Slice []"
  then show "clone_model (restored_model (archive_after_json a)) = clone_model (sa_model a)"
    by (simp add: restored_model_def archive_after_json_def clone_model_def drop_empty_nonempty)
qed (simp_all add: archive_after_json_def)

section \<open>Reading the transactions\<close>

lemma promoteE:
  fixes allocate :: "'a \<Rightarrow> 's \<Rightarrow> ('r + int) \<times> 's" and ops :: "('c, 't, 'x) archive_ops"
  assumes "promote_service_name env allocate ops validate req (m, t) = (Inr r, (m', t'), published)"
  obtains prepared fc v s i m1 where
    "promotion_conflict (clone_gateway_config (cm_cfg m)) (trim_space (pr_service_name req)) (trim_space (pr_target_model req)) = None"
    "trim_space (pr_service_name req) \<noteq> []" "trim_space (pr_target_model req) \<noteq> []"
    "load_gateway (env_decode (te_config env)) (env_goos (te_config env)) prepared = Inr fc"
    "allocate (te_allocate_ctx env) (cm_revisions m) = (Inr v, s)" "cm_version m < v"
    "ao_put ops (te_archive_ctx env) (archive_of (clone_gateway_config (cm_cfg m)) (trim_space (pr_service_name req))
        (trim_space (pr_target_model req)) i (te_now env)) t = (None, t')"
    "persist_transaction_config (te_persist_fails env) prepared (m\<lparr>cm_revisions := s\<rparr>) = (True, m1)"
    "m' = commit_transaction_config (promoted_config (clone_gateway_config (cm_cfg m)) (trim_space (pr_service_name req))
        (trim_space (pr_target_model req))) fc prepared v m1"
    "published = [cm_cfg m']" "tx_version r = v" "tx_archive_id r = i"
  using assms
  by (auto simp: promote_service_name_def service_name_config_snapshot_def prepare_transaction_config_def
      allocate_transaction_revision_def commit_transaction_config_def Let_def
      split: if_splits option.splits sum.splits prod.splits bool.splits)

lemma promote_error:
  assumes "promote_service_name env allocate ops validate req (m, t) = (Inl e, (m', t'), published)"
  shows "same_memory m m' \<and> cm_disk m' = cm_disk m \<and> published = []"
  using assms
  by (auto simp: promote_service_name_def same_memory_def persist_transaction_config_def Let_def
      split: if_splits option.splits sum.splits prod.splits bool.splits)

lemma rollback_error:
  assumes "rollback_service_name env allocate ops req (m, t) = (Inl e, (m', t'), published)"
  shows "same_memory m m' \<and> cm_disk m' = cm_disk m \<and> published = []"
  using assms
  by (auto simp: rollback_service_name_def same_memory_def persist_transaction_config_def Let_def
      split: if_splits option.splits sum.splits prod.splits bool.splits)

section \<open>The namespace after a transaction\<close>

lemma lookup_clone [simp]:
  "map_of (gc_models (clone_gateway_config cfg)) n = map_option clone_model (map_of (gc_models cfg) n)"
  "map_of (gc_tag_policies (clone_gateway_config cfg)) t = map_option clone_policy (map_of (gc_tag_policies cfg) t)"
  by (simp_all add: clone_gateway_config_def map_of_map)

lemma mentions_clone [simp]: "mentions_name name (clone_policy p) = mentions_name name p"
  by (simp add: mentions_name_def)

lemma promoted_policies:
  "gc_tag_policies (promoted_config cfg name target) =
     map (\<lambda>(t, p). (t, if mentions_name name p then policy_without name p else p)) (gc_tag_policies (clone_gateway_config cfg))"
  by (simp add: promoted_config_def Let_def)

lemma promoted_fields:
  "gc_model_aliases (promoted_config cfg name target) = mput name target (gc_model_aliases cfg)"
  "map_of (gc_models (promoted_config cfg name target)) n = (if n = name then None else map_option clone_model (map_of (gc_models cfg) n))"
  "map_of (gc_tag_policies (promoted_config cfg name target)) tag =
     map_option (\<lambda>p. if mentions_name name p then policy_without name (clone_policy p) else clone_policy p) (map_of (gc_tag_policies cfg) tag)"
proof -
  show "map_of (gc_tag_policies (promoted_config cfg name target)) tag =
     map_option (\<lambda>p. if mentions_name name p then policy_without name (clone_policy p) else clone_policy p) (map_of (gc_tag_policies cfg) tag)"
    unfolding promoted_policies map_of_map comp_apply lookup_clone option.map_comp by (simp add: comp_def)
qed (simp_all add: promoted_config_def Let_def)

lemma committed_fields:
  assumes "persist_transaction_config fails prepared m = (True, m1)" "m' = commit_transaction_config next_cfg fc prepared v m1"
  shows "cm_cfg m' = clone_gateway_config next_cfg" "cm_file_cfg m' = clone_gateway_config fc" "cm_raw_yaml m' = prepared"
    "cm_version m' = v" "cm_pins m' = cm_pins m" "cm_config_path m' = cm_config_path m" "cm_revisions m' = cm_revisions m"
  using assms by (auto simp: persist_transaction_config_def commit_transaction_config_def split: if_splits)

lemma no_mention: "name \<noteq> [] \<Longrightarrow> \<not> mentions_name name (policy_without name p)"
  by (simp add: mentions_name_def policy_without_def)

text \<open>
  C31. A promotion is all or nothing. An error leaves the running and the file configuration, the text, the
  version and the file as they were and publishes nothing. After a success the name resolves to the
  target model, which is defined and enabled, the old model is gone and every other one is kept, no tag
  policy mentions the name any more, the version is a newer one and exactly the new configuration is
  published.
\<close>

theorem promotion_hands_over_name:
  assumes "promote_service_name env allocate ops validate req (m, t) = (res, (m', t'), published)"
  shows "case res of
      Inl e \<Rightarrow> same_memory m m' \<and> cm_disk m' = cm_disk m \<and> published = []
    | Inr r \<Rightarrow>
        (let name = trim_space (pr_service_name req); target = trim_space (pr_target_model req)
         in (\<exists>mdl. resolve_requested_model (cm_cfg m') name = (target, Some mdl) \<and> \<not> m_disabled mdl) \<and>
            (\<forall>n. map_of (gc_models (cm_cfg m')) n = (if n = name then None else map_option clone_model (map_of (gc_models (cm_cfg m)) n))) \<and>
            (\<forall>tag p. map_of (gc_tag_policies (cm_cfg m')) tag = Some p \<longrightarrow> \<not> mentions_name name p) \<and>
            cm_version m < cm_version m' \<and> tx_version r = cm_version m' \<and> published = [cm_cfg m'])"
proof (cases res)
  case (Inl e)
  with promote_error assms show ?thesis by simp
next
  case (Inr r)
  obtain prepared fc v s i m1 where ok:
    "promotion_conflict (clone_gateway_config (cm_cfg m)) (trim_space (pr_service_name req)) (trim_space (pr_target_model req)) = None"
    "trim_space (pr_service_name req) \<noteq> []" "cm_version m < v"
    "persist_transaction_config (te_persist_fails env) prepared (m\<lparr>cm_revisions := s\<rparr>) = (True, m1)"
    "m' = commit_transaction_config (promoted_config (clone_gateway_config (cm_cfg m)) (trim_space (pr_service_name req))
        (trim_space (pr_target_model req))) fc prepared v m1"
    "published = [cm_cfg m']" "tx_version r = v"
    by (rule promoteE[OF assms[unfolded Inr]]) blast
  note fields = committed_fields[OF ok(4,5)]
  obtain old tm where conf: "map_of (gc_models (cm_cfg m)) (trim_space (pr_service_name req)) = Some old"
      "trim_space (pr_service_name req) \<noteq> trim_space (pr_target_model req)"
      "map_of (gc_models (cm_cfg m)) (trim_space (pr_target_model req)) = Some tm" "\<not> m_disabled tm"
    using ok(1) by (auto simp: promotion_conflict_def split: option.splits if_splits)
  have models: "map_of (gc_models (cm_cfg m')) n = (if n = trim_space (pr_service_name req) then None
      else map_option clone_model (map_of (gc_models (cm_cfg m)) n))" for n
    by (simp add: fields(1) promoted_fields(2) option.map_comp comp_def)
  have policies: "\<not> mentions_name (trim_space (pr_service_name req)) p"
    if pol: "map_of (gc_tag_policies (cm_cfg m')) tag = Some p" for tag p
  proof -
    obtain z where z: "p = clone_policy (if mentions_name (trim_space (pr_service_name req)) z
        then policy_without (trim_space (pr_service_name req)) (clone_policy (clone_policy z)) else clone_policy (clone_policy z))"
      using pol by (auto simp: fields(1) promoted_fields(3))
    show ?thesis unfolding z mentions_clone
      by (cases "mentions_name (trim_space (pr_service_name req)) z") (simp_all add: no_mention[OF ok(2)])
  qed
  have res: "resolve_requested_model (cm_cfg m') (trim_space (pr_service_name req)) =
      (trim_space (pr_target_model req), Some (clone_model tm))"
    using conf models by (simp add: resolve_requested_model_def fields(1) promoted_fields(1))
  show ?thesis
    using models policies res conf(4) ok(3,6,7) fields(4) by (auto simp: Inr Let_def)
qed

section \<open>Rolling back\<close>

lemma map_of_map_key: "map_of (map (\<lambda>(k, v). (k, f k v)) xs) k = map_option (f k) (map_of xs k)"
  by (induction xs) auto

lemma map_of_fold_mput: "map_of (fold (\<lambda>(k, v). mput k v) kvs m) = map_of m ++ map_of (rev kvs)"
  by (induction kvs arbitrary: m) (auto simp: map_add_def split: option.splits)

lemma archive_fields [simp]:
  "sa_id (archive_of cfg name target i now) = i" "sa_service_name (archive_of cfg name target i now) = name"
  "sa_target_model (archive_of cfg name target i now) = target" "sa_rolled_back (archive_of cfg name target i now) = False"
  "sa_max_loaded_set (archive_of cfg name target i now) = m_max_loaded_set (sa_model (archive_of cfg name target i now))"
  "sa_model (archive_of cfg name target i now) = mget zero_model (gc_models cfg) name"
  by (simp_all add: archive_of_def Let_def)

lemma archive_policies:
  assumes "mwf (gc_tag_policies cfg)"
  shows "map_of (sa_before_policies (archive_of (clone_gateway_config cfg) name target i now)) tag =
      (case map_of (gc_tag_policies cfg) tag of
         Some p \<Rightarrow> if mentions_name name p then Some (clone_policy p) else None | None \<Rightarrow> None)"
    and "map_of (sa_after_policies (archive_of (clone_gateway_config cfg) name target i now)) tag =
      (case map_of (gc_tag_policies cfg) tag of
         Some p \<Rightarrow> if mentions_name name p then Some (policy_without name (clone_policy p)) else None | None \<Rightarrow> None)"
    and "distinct (map fst (sa_before_policies (archive_of (clone_gateway_config cfg) name target i now)))"
    and "distinct (map fst (sa_after_policies (archive_of (clone_gateway_config cfg) name target i now)))"
proof -
  let ?ps = "gc_tag_policies (clone_gateway_config cfg)"
  have wf: "mwf ?ps" using assms by (simp add: clone_gateway_config_def)
  have f: "map_of (filter (\<lambda>(t, p). mentions_name name p) ?ps) tag =
      (case map_of (gc_tag_policies cfg) tag of
         Some p \<Rightarrow> if mentions_name name p then Some (clone_policy p) else None | None \<Rightarrow> None)"
    by (simp add: map_of_filter_wf[OF wf] split: option.splits)
  show "map_of (sa_before_policies (archive_of (clone_gateway_config cfg) name target i now)) tag =
      (case map_of (gc_tag_policies cfg) tag of
         Some p \<Rightarrow> if mentions_name name p then Some (clone_policy p) else None | None \<Rightarrow> None)"
    by (auto simp: archive_of_def Let_def map_of_map_key f mget_def split: option.splits)
  show "map_of (sa_after_policies (archive_of (clone_gateway_config cfg) name target i now)) tag =
      (case map_of (gc_tag_policies cfg) tag of
         Some p \<Rightarrow> if mentions_name name p then Some (policy_without name (clone_policy p)) else None | None \<Rightarrow> None)"
    by (auto simp: archive_of_def Let_def map_of_map_key f split: option.splits)
  have "distinct (map fst (filter (\<lambda>(t, p). mentions_name name p) ?ps))"
    using mwf_filter[OF wf] by (simp add: mwf_def mkeys_def)
  then show "distinct (map fst (sa_before_policies (archive_of (clone_gateway_config cfg) name target i now)))"
    "distinct (map fst (sa_after_policies (archive_of (clone_gateway_config cfg) name target i now)))"
    by (simp_all add: archive_of_def Let_def comp_def case_prod_unfold)
qed

text \<open>A copy gives back the policy that was archived, unless dropping the name left nothing allowed.\<close>

lemma clone_without:
  "clone_policy (policy_without name (clone_policy p)) = policy_without name (clone_policy p) \<longleftrightarrow>
     filter (\<lambda>n. n \<noteq> name) (tp_allowed_models p) \<noteq> []"
  by (cases p) (auto simp: clone_policy_def policy_without_def clone_slice_def)

lemma rollback_cases:
  fixes allocate :: "'a \<Rightarrow> 's \<Rightarrow> ('r + int) \<times> 's" and ops :: "('c, 't, 'x) archive_ops"
  assumes "rollback_service_name env allocate ops req (m, t) = (res, (m', t'), published)"
    and "\<And>r. ao_get ops (te_archive_ctx env) (trim_space (pr_archive_id req)) t = Inr r \<Longrightarrow> r = Some archive"
    and "\<not> sa_rolled_back archive" and "same_service_name_namespace (clone_gateway_config (cm_cfg m)) (clone_gateway_config (cm_file_cfg m))"
  shows "(\<exists>c. rollback_conflict (clone_gateway_config (cm_cfg m)) req archive = Some c \<and> res = Inl (Conflict c)) \<or>
    (\<exists>e. res = Inl e \<and> (\<forall>c. e \<noteq> Conflict c)) \<or>
    (\<exists>fc prepared v m1 s r. rollback_conflict (clone_gateway_config (cm_cfg m)) req archive = None \<and> res = Inr r \<and>
      persist_transaction_config (te_persist_fails env) prepared (m\<lparr>cm_revisions := s\<rparr>) = (True, m1) \<and>
      m' = commit_transaction_config (rolled_back_config (clone_gateway_config (cm_cfg m)) archive) fc prepared v m1 \<and>
      cm_version m < v \<and> published = [cm_cfg m'])"
proof (cases "ao_get ops (te_archive_ctx env) (trim_space (pr_archive_id req)) t")
  case (Inl e)
  with assms(1,4) show ?thesis
    by (auto simp: rollback_service_name_def service_name_config_snapshot_def Let_def)
next
  case (Inr r)
  then have got: "ao_get ops (te_archive_ctx env) (trim_space (pr_archive_id req)) t = Inr (Some archive)"
    using assms(2)[OF Inr] by simp
  show ?thesis
  proof (cases "rollback_conflict (clone_gateway_config (cm_cfg m)) req archive")
    case (Some c)
    with assms(1,3,4) got show ?thesis
      by (simp add: rollback_service_name_def service_name_config_snapshot_def)
  next
    case None
    with assms(1,3,4) got show ?thesis
      by (auto simp: rollback_service_name_def service_name_config_snapshot_def prepare_transaction_config_def
          allocate_transaction_revision_def commit_transaction_config_def Let_def
          split: if_splits option.splits sum.splits prod.splits bool.splits)
        (rule exI, rule exI, rule exI, rule exI, rule conjI, rule exI, assumption, rule conjI, rule refl, simp)
  qed
qed

context archive_store
begin

text \<open>A rollback right after the promotion it undoes.\<close>

lemma rollback_of_promotion:
  assumes pr: "promote_service_name env allocate ops validate req (m, t) = (Inr r, (m1, t1), published)"
    and wf: "config_wf (cm_cfg m)"
    and same: "same_service_name_namespace (cm_cfg m1) (cm_file_cfg m1)"
    and caps: "m_tag_capacities (mget zero_model (gc_models (cm_cfg m)) (trim_space (pr_service_name req))) \<noteq> Slice []"
    and req': "trim_space (pr_service_name req') = trim_space (pr_service_name req)"
      "trim_space (pr_target_model req') = trim_space (pr_target_model req)" "trim_space (pr_archive_id req') = tx_archive_id r"
    and rb: "rollback_service_name env' allocate' ops req' (m1, t1) = (res, (m2, t2), published')"
  shows "if \<forall>tag p. map_of (gc_tag_policies (cm_cfg m)) tag = Some p \<longrightarrow> mentions_name (trim_space (pr_service_name req)) p \<longrightarrow>
        filter (\<lambda>n. n \<noteq> trim_space (pr_service_name req)) (tp_allowed_models p) \<noteq> []
    then (case res of Inl e \<Rightarrow> \<forall>c. e \<noteq> Conflict c
      | Inr _ \<Rightarrow> map_of (gc_models (cm_cfg m2)) = map_of (gc_models (clone_gateway_config (cm_cfg m))) \<and>
          map_of (gc_model_aliases (cm_cfg m2)) = map_of (gc_model_aliases (cm_cfg m)) \<and>
          map_of (gc_tag_policies (cm_cfg m2)) = map_of (gc_tag_policies (clone_gateway_config (cm_cfg m))) \<and>
          cm_version m1 < cm_version m2 \<and> published' = [cm_cfg m2])
    else \<exists>e. res = Inl e"
proof -
  let ?name = "trim_space (pr_service_name req)" and ?target = "trim_space (pr_target_model req)"
  let ?cfg = "cm_cfg m" and ?cur = "clone_gateway_config (cm_cfg m)"
  obtain prepared fc v s i mx where ok: "promotion_conflict ?cur ?name ?target = None"
    "ao_put ops (te_archive_ctx env) (archive_of ?cur ?name ?target i (te_now env)) t = (None, t1)"
    "persist_transaction_config (te_persist_fails env) prepared (m\<lparr>cm_revisions := s\<rparr>) = (True, mx)"
    "m1 = commit_transaction_config (promoted_config ?cur ?name ?target) fc prepared v mx" "tx_archive_id r = i"
    by (rule promoteE[OF pr]) blast
  let ?a = "archive_of ?cur ?name ?target i (te_now env)"
  note f1 = committed_fields[OF ok(3,4)]
  have pwf: "mwf (gc_tag_policies ?cfg)" using wf by (simp add: config_wf_def)
  have got: "ao_get ops (te_archive_ctx env') (trim_space (pr_archive_id req')) t1 = Inr x \<Longrightarrow> x = Some (kept ?a)" for x
    using get_after_put[OF ok(2)] req'(3) ok(5) by simp
  have ns: "same_service_name_namespace (clone_gateway_config (cm_cfg m1)) (clone_gateway_config (cm_file_cfg m1))"
    using same by (simp add: f1)
  obtain old where old: "map_of (gc_models ?cfg) ?name = Some old" "\<not> mhas (gc_model_aliases ?cfg) ?name"
    using ok(1) by (auto simp: promotion_conflict_def split: option.splits if_splits)
  have models1: "map_of (gc_models (clone_gateway_config (cm_cfg m1))) n =
      (if n = ?name then None else map_option clone_model (map_of (gc_models ?cfg) n))" for n
    by (simp add: f1(1) promoted_fields(2) option.map_comp comp_def)
  have aliases1: "map_of (gc_model_aliases (clone_gateway_config (cm_cfg m1))) = (map_of (gc_model_aliases ?cfg))(?name \<mapsto> ?target)"
    by (simp add: f1(1) promoted_fields(1))
  have policies1: "map_of (gc_tag_policies (clone_gateway_config (cm_cfg m1))) tag =
      map_option (\<lambda>p. if mentions_name ?name p then clone_policy (policy_without ?name (clone_policy p)) else clone_policy p)
        (map_of (gc_tag_policies ?cfg) tag)" for tag
    by (cases "map_of (gc_tag_policies ?cfg) tag") (simp_all add: f1(1) promoted_fields(3))
  have after: "list_all (\<lambda>(tag, expected). mget zero_policy (gc_tag_policies (clone_gateway_config (cm_cfg m1))) tag = expected)
        (sa_after_policies (kept ?a)) \<longleftrightarrow>
      (\<forall>tag p. map_of (gc_tag_policies ?cfg) tag = Some p \<longrightarrow> mentions_name ?name p \<longrightarrow>
        filter (\<lambda>n. n \<noteq> ?name) (tp_allowed_models p) \<noteq> [])"
  proof -
    have "(tag, e) \<in> set (sa_after_policies ?a) \<longleftrightarrow>
        (\<exists>p. map_of (gc_tag_policies ?cfg) tag = Some p \<and> mentions_name ?name p \<and> e = policy_without ?name (clone_policy p))" for tag e
      using archive_policies(2)[OF pwf, of ?name ?target i "te_now env" tag]
        map_of_eq_Some_iff[OF archive_policies(4)[OF pwf], of ?name ?target i "te_now env" tag e]
      by (auto split: option.splits if_splits)
    then have "list_all (\<lambda>(tag, expected). mget zero_policy (gc_tag_policies (clone_gateway_config (cm_cfg m1))) tag = expected)
        (sa_after_policies (kept ?a)) \<longleftrightarrow>
      (\<forall>tag p. map_of (gc_tag_policies ?cfg) tag = Some p \<longrightarrow> mentions_name ?name p \<longrightarrow>
        mget zero_policy (gc_tag_policies (clone_gateway_config (cm_cfg m1))) tag = policy_without ?name (clone_policy p))"
      unfolding list_all_iff kept_policies by fastforce
    moreover have "mget zero_policy (gc_tag_policies (clone_gateway_config (cm_cfg m1))) tag = policy_without ?name (clone_policy p)
        \<longleftrightarrow> filter (\<lambda>n. n \<noteq> ?name) (tp_allowed_models p) \<noteq> []"
      if "map_of (gc_tag_policies ?cfg) tag = Some p" "mentions_name ?name p" for tag p
      unfolding mget_def policies1 using that by (simp add: clone_without)
    ultimately show ?thesis by blast
  qed
  have conflict: "rollback_conflict (clone_gateway_config (cm_cfg m1)) req' (kept ?a) =
      (if \<forall>tag p. map_of (gc_tag_policies ?cfg) tag = Some p \<longrightarrow> mentions_name ?name p \<longrightarrow>
        filter (\<lambda>n. n \<noteq> ?name) (tp_allowed_models p) \<noteq> [] then None else Some PolicyChanged)"
    unfolding rollback_conflict_def after
    using req' models1[of ?name] aliases1 by (simp add: kept_names mhas_def mget_def)
  consider (conflict) c where "rollback_conflict (clone_gateway_config (cm_cfg m1)) req' (kept ?a) = Some c" "res = Inl (Conflict c)"
    | (failed) e where "res = Inl e" "\<forall>c. e \<noteq> Conflict c"
    | (restored) fc' prepared' v' s' m1' r' where "rollback_conflict (clone_gateway_config (cm_cfg m1)) req' (kept ?a) = None"
      "res = Inr r'" "persist_transaction_config (te_persist_fails env') prepared' (m1\<lparr>cm_revisions := s'\<rparr>) = (True, m1')"
      "m2 = commit_transaction_config (rolled_back_config (clone_gateway_config (cm_cfg m1)) (kept ?a)) fc' prepared' v' m1'"
      "cm_version m1 < v'" "published' = [cm_cfg m2]"
    using rollback_cases[OF rb got _ ns] by (auto simp: kept_names)
  then show ?thesis
  proof cases
    case (restored fc' prepared' v' s' m1' r')
    note f2 = committed_fields[OF restored(3,4)]
    have rest: "clone_model (restored_model (kept ?a)) = clone_model old"
      using kept_model[of ?a] caps old(1)
      by (simp add: mget_def clone_model_def) 
    have models: "map_of (gc_models (cm_cfg m2)) = map_of (gc_models ?cur)"
      using models1 old(1) rest
      by (auto simp: fun_eq_iff f2(1) rolled_back_config_def Let_def kept_names option.map_comp comp_def)
    have aliases: "map_of (gc_model_aliases (cm_cfg m2)) = map_of (gc_model_aliases ?cfg)"
      using aliases1 old(2)
      by (auto simp: fun_eq_iff f2(1) rolled_back_config_def Let_def kept_names mhas_def)
    have before: "map_of (rev (sa_before_policies ?a)) = map_of (sa_before_policies ?a)"
      by (rule map_of_rev_distinct[OF archive_policies(3)[OF pwf]])
    have policies: "map_of (gc_tag_policies (cm_cfg m2)) tag = map_of (gc_tag_policies ?cur) tag" for tag
      using policies1[of tag]
      by (auto simp: f2(1) rolled_back_config_def Let_def kept_policies map_of_fold_mput before map_add_def
          archive_policies(1)[OF pwf] split: option.splits if_splits)
    show ?thesis
      using conflict restored(1,2,5,6) models aliases policies f2(4) by (auto simp: fun_eq_iff split: if_splits)
  qed (use conflict in \<open>auto split: if_splits\<close>)
qed

end

section \<open>Properties of the two transactions\<close>


text \<open>
  The exception, a defect of the code: when the promoted name was the only allowed model of some tag
  policy, the archive remembers an empty list where the committed configuration has nil, the
  comparison of the two fails, and no rollback of that promotion ever succeeds.
\<close>

theorem sole_model_promotion_is_final:
  assumes "promote_service_name env allocate file_archives validate req (m, t) = (Inr r, (m1, t1), published)"
    and "config_wf (cm_cfg m)" and "same_service_name_namespace (cm_cfg m1) (cm_file_cfg m1)"
    and "m_tag_capacities (mget zero_model (gc_models (cm_cfg m)) (trim_space (pr_service_name req))) \<noteq> Slice []"
    and "trim_space (pr_service_name req') = trim_space (pr_service_name req)"
      "trim_space (pr_target_model req') = trim_space (pr_target_model req)" "trim_space (pr_archive_id req') = tx_archive_id r"
    and "rollback_service_name env' allocate' file_archives req' (m1, t1) = (res, (m2, t2), published')"
    and "map_of (gc_tag_policies (cm_cfg m)) tag = Some p" "tp_allowed_models p = [trim_space (pr_service_name req)]"
  shows "\<exists>e. res = Inl e \<and> same_memory m1 m2 \<and> published' = []"
proof -
  have "mentions_name (trim_space (pr_service_name req)) p \<and>
      filter (\<lambda>n. n \<noteq> trim_space (pr_service_name req)) (tp_allowed_models p) = []"
    using assms(10) by (simp add: mentions_name_def)
  with assms(9) have "\<not> (\<forall>tag p. map_of (gc_tag_policies (cm_cfg m)) tag = Some p \<longrightarrow>
      mentions_name (trim_space (pr_service_name req)) p \<longrightarrow>
      filter (\<lambda>n. n \<noteq> trim_space (pr_service_name req)) (tp_allowed_models p) \<noteq> [])" by blast
  with file_archives.rollback_of_promotion[OF assms(1-8)] obtain e where e: "res = Inl e" by (auto split: if_splits)
  from rollback_error[OF assms(8)[unfolded e]] e show ?thesis by blast
qed

section \<open>Runs of the manager\<close>

text \<open>The three operations that change a manager, in any order, with any environment.\<close>

inductive manager_step ::
  "('a \<Rightarrow> 's \<Rightarrow> ('r + int) \<times> 's) \<Rightarrow> ('c, 't, 'x) archive_ops \<Rightarrow> 's config_manager \<times> 't \<Rightarrow> 's config_manager \<times> 't \<Rightarrow> bool"
  for allocate ops where
  applies: "apply_config (env :: string config_env) allocate ctx outcome raw m = (res, m', published) \<Longrightarrow> manager_step allocate ops (m, t) (m', t)"
| promotes: "promote_service_name (tenv :: (string, 'a, 'c) transaction_env) allocate ops validate req st = (res', st', published) \<Longrightarrow> manager_step allocate ops st st'"
| rolls_back: "rollback_service_name (tenv :: (string, 'a, 'c) transaction_env) allocate ops req st = (res', st', published) \<Longrightarrow> manager_step allocate ops st st'"

lemma promote_revisions:
  "promote_service_name env allocate ops validate req (m, t) = (Inl e, (m', t'), published) \<Longrightarrow>
     cm_revisions m' = cm_revisions m \<or> (\<exists>r. allocate (te_allocate_ctx env) (cm_revisions m) = (r, cm_revisions m'))"
  by (auto simp: promote_service_name_def service_name_config_snapshot_def allocate_transaction_revision_def
      persist_transaction_config_def Let_def split: if_splits option.splits sum.splits prod.splits bool.splits)

lemma rollback_revisions:
  "rollback_service_name env allocate ops req (m, t) = (Inl e, (m', t'), published) \<Longrightarrow>
     cm_revisions m' = cm_revisions m \<or> (\<exists>r. allocate (te_allocate_ctx env) (cm_revisions m) = (r, cm_revisions m'))"
  by (auto simp: rollback_service_name_def service_name_config_snapshot_def allocate_transaction_revision_def
      persist_transaction_config_def Let_def split: if_splits option.splits sum.splits prod.splits bool.splits)

lemma rollback_success:
  assumes "rollback_service_name env allocate ops req (m, t) = (Inr r, (m', t'), published)"
  obtains archive fc prepared v s m1 where
    "allocate (te_allocate_ctx env) (cm_revisions m) = (Inr v, s)"
    "persist_transaction_config (te_persist_fails env) prepared (m\<lparr>cm_revisions := s\<rparr>) = (True, m1)"
    "m' = commit_transaction_config (rolled_back_config (clone_gateway_config (cm_cfg m)) archive) fc prepared v m1"
  using assms
  by (auto simp: rollback_service_name_def service_name_config_snapshot_def prepare_transaction_config_def
      allocate_transaction_revision_def Let_def
      split: if_splits option.splits sum.splits prod.splits bool.splits)

context revision_store
begin

text \<open>What every operation keeps: the version is handed out, never goes back, and names one configuration.\<close>

definition version_kept :: "'s config_manager \<Rightarrow> 's config_manager \<Rightarrow> bool" where
  "version_kept m m' \<longleftrightarrow> version_held m' \<and> cm_version m \<le> cm_version m' \<and> (cm_version m' = cm_version m \<longrightarrow> cm_cfg m' = cm_cfg m)"

lemma error_keeps_version:
  assumes "version_held m" "same_memory m m'"
    and "cm_revisions m' = cm_revisions m \<or> (\<exists>r. allocate c (cm_revisions m) = (r, cm_revisions m'))"
  shows "version_kept m m'"
proof -
  have "cm_version m \<le> current (cm_revisions m')"
    using assms(3)
  proof
    assume "\<exists>r. allocate c (cm_revisions m) = (r, cm_revisions m')"
    then obtain r where "allocate c (cm_revisions m) = (r, cm_revisions m')" ..
    with assms(1) allocate_above[of m c] allocate_keeps_held[of m c] show ?thesis by (cases r) force+
  qed (use assms(1) in \<open>simp add: version_held_def\<close>)
  with assms(2) show ?thesis by (simp add: version_kept_def same_memory_def version_held_def)
qed

lemma commit_keeps_version:
  assumes "version_held m" "allocate c (cm_revisions m) = (Inr v, s)"
    "persist_transaction_config fails prepared (m\<lparr>cm_revisions := s\<rparr>) = (True, m1)"
    "m' = commit_transaction_config next_cfg fc prepared v m1"
  shows "version_kept m m'"
  using allocate_above[OF assms(1,2)] committed_fields[OF assms(3,4)] by (simp add: version_kept_def version_held_def)

lemma manager_step_version:
  assumes "manager_step allocate ops st st'" "version_held (fst st)"
  shows "version_kept (fst st) (fst st')"
  using assms
proof (induction rule: manager_step.induct)
  case (applies env ctx outcome raw m res m' published t)
  then show ?case using apply_version[of m env ctx outcome raw res m' published] by (simp add: version_kept_def)
next
  case (promotes tenv validate req st res st' published)
  obtain m t m' t' where st: "st = (m, t)" "st' = (m', t')" by fastforce
  show ?case
  proof (cases res)
    case (Inl e)
    with promotes st show ?thesis
      using error_keeps_version promote_error[of tenv allocate ops validate req m t e m' t' published]
        promote_revisions[of tenv allocate ops validate req m t e m' t' published] by simp
  next
    case (Inr r)
    obtain prepared fc v s m1 next_cfg where "allocate (te_allocate_ctx tenv) (cm_revisions m) = (Inr v, s)"
        "persist_transaction_config (te_persist_fails tenv) prepared (m\<lparr>cm_revisions := s\<rparr>) = (True, m1)"
        "m' = commit_transaction_config next_cfg fc prepared v m1"
      by (rule promoteE[OF promotes(1)[unfolded st Inr]]) blast
    from commit_keeps_version[OF _ this] promotes st show ?thesis by simp
  qed
next
  case (rolls_back tenv req st res st' published)
  obtain m t m' t' where st: "st = (m, t)" "st' = (m', t')" by fastforce
  show ?case
  proof (cases res)
    case (Inl e)
    with rolls_back st show ?thesis
      using error_keeps_version rollback_error[of tenv allocate ops req m t e m' t' published]
        rollback_revisions[of tenv allocate ops req m t e m' t' published] by simp
  next
    case (Inr r)
    obtain archive fc prepared v s m1 where "allocate (te_allocate_ctx tenv) (cm_revisions m) = (Inr v, s)"
        "persist_transaction_config (te_persist_fails tenv) prepared (m\<lparr>cm_revisions := s\<rparr>) = (True, m1)"
        "m' = commit_transaction_config (rolled_back_config (clone_gateway_config (cm_cfg m)) archive) fc prepared v m1"
      by (rule rollback_success[OF rolls_back(1)[unfolded st Inr]]) blast
    from commit_keeps_version[OF _ this] rolls_back st show ?thesis by simp
  qed
qed

lemma manager_run_version:
  assumes "(manager_step allocate ops)\<^sup>*\<^sup>* st st'" "version_held (fst st)"
  shows "version_kept (fst st) (fst st')"
  using assms
proof (induction rule: rtranclp_induct)
  case base
  then show ?case by (simp add: version_kept_def)
next
  case (step y z)
  then have y: "version_kept (fst st) (fst y)" by blast
  then have "version_kept (fst y) (fst z)" using manager_step_version[OF step(2)] by (simp add: version_kept_def)
  with y show ?case by (auto simp: version_kept_def)
qed

end

text \<open>
  A version names one configuration. Over any sequence of applications, promotions and rollbacks, with any
  failures of the revision file, the archive file and the configuration file in between, the version an
  agent sees never goes back, and as long as it is the same so is the running configuration.
\<close>

theorem version_names_configuration:
  assumes "(manager_step file_allocate ops)\<^sup>*\<^sup>* (m, t) (m', t')" "cm_version m \<le> held_revision (cm_revisions m)"
  shows "cm_version m \<le> cm_version m' \<and> (cm_version m' = cm_version m \<longrightarrow> cm_cfg m' = cm_cfg m) \<and>
    cm_version m' \<le> held_revision (cm_revisions m')"
  using file_revisions.manager_run_version[OF assms(1)] assms(2)
  by (simp add: file_revisions.version_kept_def file_revisions.version_held_def)

section \<open>An example\<close>

definition promotable_config :: "tag_policy \<Rightarrow> gateway_config" where
  "promotable_config policy = base_config [(''a'', example_model\<lparr>m_disabled := True\<rparr>), (''b'', example_model)]
     [] [(''gpu'', policy)]"

definition sole_policy :: tag_policy where
  "sole_policy = example_policy\<lparr>tp_allowed := Slice [''a''], tp_warm_when_idle := []\<rparr>"

definition transaction_env_of :: "gateway_config \<Rightarrow> (string, allocation, archive_call) transaction_env" where
  "transaction_env_of cfg = \<lparr>te_config = codec_of cfg, te_encode_struct = (\<lambda>_. Inr \<lparr>yd_nodes = [], yd_root = None\<rparr>),
     te_allocate_ctx = plain_allocation, te_archive_ctx = \<lparr>ac_ctx_done = False, ac_fault = None\<rparr>,
     te_background = \<lparr>ac_ctx_done = False, ac_fault = None\<rparr>, te_new_id = Some ''id'', te_now = 1, te_persist_fails = False\<rparr>"

definition example_request :: promotion_request where
  "example_request = \<lparr>pr_service_name = ''a'', pr_target_model = ''b'', pr_archive_id = ''id''\<rparr>"

lemma example_trim [simp]: "trim_space ''a'' = ''a''" "trim_space ''b'' = ''b''" "trim_space ''id'' = ''id''"
    "trim_space ''/g.yaml'' = ''/g.yaml''" "trim_space ''/s.json'' = ''/s.json''"
  by code_simp+

text \<open>Transactions that meet no obstacle.\<close>

lemma promote_ok:
  fixes env :: "('e, 'a, 'c) transaction_env" and allocate :: "'a \<Rightarrow> 's \<Rightarrow> ('r + int) \<times> 's" and ops :: "('c, 't, 'x) archive_ops"
  assumes "same_service_name_namespace (clone_gateway_config (cm_cfg m)) (clone_gateway_config (cm_file_cfg m))"
    "trim_space (pr_service_name req) = name" "trim_space (pr_target_model req) = target" "name \<noteq> []" "target \<noteq> []"
    "promotion_conflict (clone_gateway_config (cm_cfg m)) name target = None" "validate (clone_gateway_config (cm_cfg m)) = None"
    "next_cfg = promoted_config (clone_gateway_config (cm_cfg m)) name target"
    "prepare_transaction_config (te_config env) (te_encode_struct env) (with_namespace (clone_gateway_config (cm_file_cfg m)) next_cfg) =
       (Inr (prepared, fc) :: ('e, 'r, 'x) transaction_error + string \<times> gateway_config)"
    "allocate (te_allocate_ctx env) (cm_revisions m) = (Inr v, s)" "cm_version m < v" "te_new_id env = Some i"
    "ao_put ops (te_archive_ctx env) (archive_of (clone_gateway_config (cm_cfg m)) name target i (te_now env)) t = (None, t')"
    "persist_transaction_config (te_persist_fails env) prepared (m\<lparr>cm_revisions := s\<rparr>) = (True, m1)"
  shows "promote_service_name env allocate ops validate req (m, t) =
    (Inr \<lparr>tx_action = ''promote'', tx_service_name = name, tx_target_model = target, tx_archive_id = i, tx_version = v\<rparr>,
     (commit_transaction_config next_cfg fc prepared v m1, t'), [clone_gateway_config next_cfg])"
  using assms by (simp add: promote_service_name_def service_name_config_snapshot_def allocate_transaction_revision_def Let_def)

lemma codec_prepares:
  "load_gateway (\<lambda>_. Inr cfg) ''linux'' ''p'' = Inr cfg \<Longrightarrow>
     prepare_transaction_config (te_config (transaction_env_of cfg)) (te_encode_struct (transaction_env_of cfg)) x = Inr (''p'', cfg)"
  by (simp add: prepare_transaction_config_def marshal_preserving_auto_max_def transaction_env_of_def codec_of_def
      yaml_mapping_value_def)

definition promoted_example :: "tag_policy \<Rightarrow> gateway_config" where
  "promoted_example policy = promoted_config (clone_gateway_config (promotable_config policy)) ''a'' ''b''"

definition archived_example :: "tag_policy \<Rightarrow> archive_file_store" where
  "archived_example policy = \<lparr>afs_path = ''/s.json'', afs_file = ArchiveDocument 1 (Slice [(''id'', archive_after_json
     (archive_of (clone_gateway_config (clone_gateway_config (promotable_config policy))) ''a'' ''b'' ''id'' 1))])\<rparr>"

definition promoted_manager :: "tag_policy \<Rightarrow> revision_file_store config_manager" where
  "promoted_manager policy = commit_transaction_config (promoted_example policy) (promoted_example policy) ''p'' 2
     ((example_manager (promotable_config policy))\<lparr>cm_revisions := \<lparr>rfs_file = RevisionDocument 1 2, rfs_temporaries = 0\<rparr>,
        cm_disk := Some ''p''\<rparr>)"

lemma promotable_wf: "config_wf (promotable_config policy)"
  by (simp add: promotable_config_def config_wf_def base_config_def mwf_def mkeys_def)

lemma same_namespace_refl:
  assumes "config_wf cfg" "\<And>n m. (n, m) \<in> set (gc_models cfg) \<Longrightarrow> models_equal m m"
  shows "same_service_name_namespace cfg cfg"
  using assms unfolding same_service_name_namespace_def config_wf_def nil_maps_equal_def
  by (auto intro!: maps_equal_refl)

lemma example_model_equal: "models_equal (clone_model (example_model\<lparr>m_disabled := b\<rparr>)) (clone_model (example_model\<lparr>m_disabled := b\<rparr>))"
  "models_equal (clone_model example_model) (clone_model example_model)"
  by (simp_all add: models_equal_def billing_equal_def nil_maps_equal_def maps_equal_def example_model_def zero_model_def
      zero_billing_def clone_model_def)

lemma promoted_wf: "config_wf (promoted_example policy)"
  by (simp add: promoted_example_def promoted_config_def promotable_config_def base_config_def clone_gateway_config_def
      config_wf_def mwf_def mkeys_def mdel_def AList.delete_eq mput_def)

lemma example_same:
  "same_service_name_namespace (clone_gateway_config (promotable_config policy)) (clone_gateway_config (promotable_config policy))"
  "same_service_name_namespace (clone_gateway_config (promoted_example policy)) (clone_gateway_config (promoted_example policy))"
proof -
  show "same_service_name_namespace (clone_gateway_config (promotable_config policy)) (clone_gateway_config (promotable_config policy))"
    by (rule same_namespace_refl, simp add: promotable_wf)
      (auto simp: clone_gateway_config_def promotable_config_def base_config_def example_model_equal)
  show "same_service_name_namespace (clone_gateway_config (promoted_example policy)) (clone_gateway_config (promoted_example policy))"
    by (rule same_namespace_refl, simp add: promoted_wf)
      (auto simp: clone_gateway_config_def promotable_config_def base_config_def example_model_equal
        promoted_example_def promoted_config_def mdel_def AList.delete_eq Let_def)
qed

lemma example_conflict: "promotion_conflict (clone_gateway_config (promotable_config policy)) ''a'' ''b'' = None"
  by (simp add: promotion_conflict_def promotable_config_def base_config_def mhas_def example_model_def zero_model_def)

lemma example_validates: "validate_gateway ''linux'' (promoted_example example_policy) = None"
  by code_simp

lemma sole_validates: "validate_gateway ''linux'' (promoted_example sole_policy) = None"
  by code_simp

lemma promotable_validates: "validate_gateway ''linux'' (promotable_config example_policy) = None"
  by code_simp

lemma example_loads:
  "load_gateway (\<lambda>_. Inr (promoted_example policy)) ''linux'' ''p'' =
     (case validate_gateway ''linux'' (promoted_example policy) of None \<Rightarrow> Inr (promoted_example policy) | Some e \<Rightarrow> Inl e)"
  "load_gateway (\<lambda>_. Inr (promotable_config policy)) ''linux'' ''p'' =
     (case validate_gateway ''linux'' (promotable_config policy) of None \<Rightarrow> Inr (promotable_config policy) | Some e \<Rightarrow> Inl e)"
proof -
  have "apply_gateway_token_defaults (apply_gateway_defaults (promotable_config policy)) = promotable_config policy"
    by (simp add: apply_gateway_defaults_def apply_gateway_token_defaults_def promotable_config_def
        base_config_def Let_def example_dial_trimmed)
  moreover have "apply_gateway_token_defaults (apply_gateway_defaults (promoted_example policy)) = promoted_example policy"
    by (simp add: apply_gateway_defaults_def apply_gateway_token_defaults_def promoted_example_def promoted_config_def
        clone_gateway_config_def promotable_config_def base_config_def Let_def example_dial_trimmed)
  ultimately show "load_gateway (\<lambda>_. Inr (promoted_example policy)) ''linux'' ''p'' =
     (case validate_gateway ''linux'' (promoted_example policy) of None \<Rightarrow> Inr (promoted_example policy) | Some e \<Rightarrow> Inl e)"
    "load_gateway (\<lambda>_. Inr (promotable_config policy)) ''linux'' ''p'' =
     (case validate_gateway ''linux'' (promotable_config policy) of None \<Rightarrow> Inr (promotable_config policy) | Some e \<Rightarrow> Inl e)"
    by (simp_all add: load_gateway_def split: option.splits)
qed

lemma example_put:
  "json_encodable (archive_of (clone_gateway_config (clone_gateway_config (promotable_config policy))) ''a'' ''b'' ''id'' 1)"
  by (simp add: json_encodable_def promotable_config_def base_config_def mget_def clone_gateway_config_def clone_model_def
      example_model_def zero_model_def zero_billing_def Let_def)

lemma example_promotion:
  assumes "validate_gateway ''linux'' (promoted_example policy) = None"
  shows "promote_service_name (transaction_env_of (promoted_example policy)) file_allocate file_archives (\<lambda>_. None) example_request
      (example_manager (promotable_config policy), \<lparr>afs_path = ''/s.json'', afs_file = NoArchiveFile\<rparr>) =
    (Inr \<lparr>tx_action = ''promote'', tx_service_name = ''a'', tx_target_model = ''b'', tx_archive_id = ''id'', tx_version = 2\<rparr>,
     (promoted_manager policy, archived_example policy), [clone_gateway_config (promoted_example policy)])"
proof -
  have put: "ao_put file_archives (te_archive_ctx (transaction_env_of (promoted_example policy)))
      (archive_of (clone_gateway_config (cm_cfg (example_manager (promotable_config policy)))) ''a'' ''b'' ''id''
        (te_now (transaction_env_of (promoted_example policy)))) \<lparr>afs_path = ''/s.json'', afs_file = NoArchiveFile\<rparr> =
      (None, archived_example policy)"
    using example_put[of policy]
    by (simp add: file_archives_def file_archive_put_def load_archives_def write_archives_def transaction_env_of_def
        example_manager_def archived_example_def mput_def)
  show ?thesis
    unfolding promoted_manager_def
    by (rule promote_ok[where v = 2 and s = "\<lparr>rfs_file = RevisionDocument 1 2, rfs_temporaries = 0\<rparr>", OF _ _ _ _ _ _ _ _ codec_prepares _ _ _ put])
      (use assms in \<open>simp_all add: example_manager_def example_same example_conflict example_request_def promoted_example_def[symmetric]
        example_loads transaction_env_of_def example_allocation persist_transaction_config_def\<close>)
qed

lemma rollback_ok:
  fixes env :: "('e, 'a, 'c) transaction_env" and allocate :: "'a \<Rightarrow> 's \<Rightarrow> ('r + int) \<times> 's" and ops :: "('c, 't, 'x) archive_ops"
  assumes "same_service_name_namespace (clone_gateway_config (cm_cfg m)) (clone_gateway_config (cm_file_cfg m))"
    "ao_get ops (te_archive_ctx env) (trim_space (pr_archive_id req)) t = Inr (Some archive)" "\<not> sa_rolled_back archive"
    "rollback_conflict (clone_gateway_config (cm_cfg m)) req archive = None"
    "next_cfg = rolled_back_config (clone_gateway_config (cm_cfg m)) archive"
    "prepare_transaction_config (te_config env) (te_encode_struct env) (with_namespace (clone_gateway_config (cm_file_cfg m)) next_cfg) =
       (Inr (prepared, fc) :: ('e, 'r, 'x) transaction_error + string \<times> gateway_config)"
    "allocate (te_allocate_ctx env) (cm_revisions m) = (Inr v, s)" "cm_version m < v"
    "persist_transaction_config (te_persist_fails env) prepared (m\<lparr>cm_revisions := s\<rparr>) = (True, m1)"
  shows "\<exists>r t' published. rollback_service_name env allocate ops req (m, t) =
    (Inr r, (commit_transaction_config next_cfg fc prepared v m1, t'), published)"
  using assms by (simp add: rollback_service_name_def service_name_config_snapshot_def allocate_transaction_revision_def Let_def)

definition archived_promotion :: service_name_archive where
  "archived_promotion = archive_after_json (archive_of (clone_gateway_config (clone_gateway_config (promotable_config example_policy))) ''a'' ''b'' ''id'' 1)"

lemma promoted_manager_cfg [simp]:
  "cm_cfg (promoted_manager policy) = clone_gateway_config (promoted_example policy)"
  "cm_file_cfg (promoted_manager policy) = clone_gateway_config (promoted_example policy)"
  "cm_version (promoted_manager policy) = 2" "cm_config_path (promoted_manager policy) = ''/g.yaml''"
  "cm_revisions (promoted_manager policy) = \<lparr>rfs_file = RevisionDocument 1 2, rfs_temporaries = 0\<rparr>"
  by (simp_all add: promoted_manager_def commit_transaction_config_def example_manager_def)

lemma example_policy_kept:
  assumes "map_of (gc_tag_policies (promotable_config example_policy)) tag = Some p"
  shows "\<exists>n \<in> set (tp_allowed_models p). n \<noteq> ''a''"
  using assms by (auto simp: promotable_config_def base_config_def example_policy_def split: if_splits)

lemma example_rollback_conflict:
  "rollback_conflict (clone_gateway_config (promoted_example example_policy)) example_request archived_promotion = None"
  by (simp add: rollback_conflict_def archived_promotion_def archive_after_json_def archive_of_def Let_def example_request_def
      mhas_def mget_def promoted_example_def promoted_fields promotable_config_def base_config_def clone_gateway_config_def
      mentions_name_def clone_policy_def clone_slice_def policy_without_def example_policy_def promoted_config_def mdel_def
      AList.delete_eq mput_def clone_model_def)

lemma example_rollback:
  "\<exists>r m2 t2 published. rollback_service_name (transaction_env_of (promotable_config example_policy)) file_allocate file_archives
     example_request (promoted_manager example_policy, archived_example example_policy) = (Inr r, (m2, t2), published)"
proof -
  have got: "ao_get file_archives (te_archive_ctx (transaction_env_of (promotable_config example_policy)))
      (trim_space (pr_archive_id example_request)) (archived_example example_policy) = Inr (Some archived_promotion)"
    by (simp add: file_archives_def file_archive_get_def transaction_env_of_def example_request_def archived_example_def
        load_archives_def archived_promotion_def)
  have ld: "load_gateway (\<lambda>_. Inr (promotable_config example_policy)) ''linux'' ''p'' = Inr (promotable_config example_policy)"
    by (simp add: example_loads promotable_validates)
  have kept: "\<not> sa_rolled_back archived_promotion" by (simp add: archived_promotion_def archive_after_json_def)
  have "\<exists>r t' published. rollback_service_name (transaction_env_of (promotable_config example_policy)) file_allocate file_archives
     example_request (promoted_manager example_policy, archived_example example_policy) =
     (Inr r, (commit_transaction_config (rolled_back_config (clone_gateway_config (promoted_example example_policy)) archived_promotion)
        (promotable_config example_policy) ''p'' 3 ((promoted_manager example_policy)\<lparr>cm_revisions :=
           \<lparr>rfs_file = RevisionDocument 1 3, rfs_temporaries = 0\<rparr>, cm_disk := Some ''p''\<rparr>), t'), published)"
    by (rule rollback_ok[OF _ got kept _ _ codec_prepares[OF ld], where v = 3
          and s = "\<lparr>rfs_file = RevisionDocument 1 3, rfs_temporaries = 0\<rparr>"])
      (simp_all add: example_same example_rollback_conflict transaction_env_of_def example_allocation persist_transaction_config_def)
  then show ?thesis by blast
qed

theorem promotion_hands_over_name_witness:
  "(\<exists>mdl. resolve_requested_model (cm_cfg (promoted_manager example_policy)) ''a'' = (''b'', Some mdl) \<and> \<not> m_disabled mdl) \<and>
   cm_version (example_manager (promotable_config example_policy)) < cm_version (promoted_manager example_policy)"
  using promotion_hands_over_name[OF example_promotion[OF example_validates]] by (simp add: example_request_def Let_def)


lemma sole_allowed: "tp_allowed_models sole_policy = [''a'']"
  by (simp add: sole_policy_def)

theorem sole_model_promotion_is_final_witness:
  "\<exists>e. fst (rollback_service_name (transaction_env_of (promotable_config sole_policy)) file_allocate file_archives
      example_request (promoted_manager sole_policy, archived_example sole_policy)) = Inl e"
proof -
  obtain res m2 t2 published where rb: "rollback_service_name (transaction_env_of (promotable_config sole_policy)) file_allocate
      file_archives example_request (promoted_manager sole_policy, archived_example sole_policy) = (res, (m2, t2), published)"
    by (metis surj_pair)
  have m: "cm_cfg (example_manager (promotable_config sole_policy)) = clone_gateway_config (promotable_config sole_policy)"
    by (simp add: example_manager_def)
  have caps: "m_tag_capacities (mget zero_model (gc_models (clone_gateway_config (promotable_config sole_policy))) ''a'') \<noteq> Slice []"
    by (simp add: mget_def promotable_config_def base_config_def example_model_def zero_model_def clone_model_def)
  have pol: "map_of (gc_tag_policies (clone_gateway_config (promotable_config sole_policy))) ''gpu'' = Some (clone_policy sole_policy)"
    by (simp add: promotable_config_def base_config_def)
  have "\<exists>e. res = Inl e \<and> same_memory (promoted_manager sole_policy) m2 \<and> published = []"
    by (rule sole_model_promotion_is_final[OF example_promotion[OF sole_validates] _ _ _ refl refl _ rb, of "''gpu''" "clone_policy sole_policy"])
      (use caps pol in \<open>simp_all add: m promotable_wf example_same example_request_def sole_allowed\<close>)
  with rb show ?thesis by auto
qed

theorem version_names_configuration_witness:
  "cm_version (example_manager (promotable_config example_policy)) \<le> cm_version (promoted_manager example_policy) \<and>
   cm_version (promoted_manager example_policy) \<le> held_revision (cm_revisions (promoted_manager example_policy))"
proof -
  have "(manager_step file_allocate file_archives)\<^sup>*\<^sup>*
      (example_manager (promotable_config example_policy), \<lparr>afs_path = ''/s.json'', afs_file = NoArchiveFile\<rparr>)
      (promoted_manager example_policy, archived_example example_policy)"
    by (rule r_into_rtranclp, rule promotes, rule example_promotion[OF example_validates])
  from version_names_configuration[OF this] show ?thesis
    by (simp add: example_manager_def held_revision_def load_revision_def revision_store_version_def)
qed

end
