(* ===== verification/TransportCrypto.thy ===== *)
theory TransportCrypto
  imports Protocol "HOL-Library.Word"
begin

text \<open>
  The sealed bootstrap of a managed transport (internal/transport/crypto.go): the gateway seals the tunnel's
  address and secrets for one agent and one generation, the agent opens them. HMAC, AES-GCM and the JSON codec
  are the fields of \<open>crypto_ops\<close>; key derivation, associated data, base64 and the checks are the code's own.
\<close>

type_synonym octets = "8 word list"

definition octets :: "string \<Rightarrow> octets" where
  "octets = map of_char"

section \<open>base64.RawURLEncoding\<close>

text \<open>
  Six bits per character, no padding. The decoder skips line breaks, refuses any other character that is not in the
  alphabet and a text that ends in a lone character, and ignores the unused low bits of the last character.
\<close>

definition url_alphabet :: string where
  "url_alphabet = ''ABCDEFGHIJKLMNOPQRSTUVWXYZabcdefghijklmnopqrstuvwxyz0123456789-_''"

definition sextet_char :: "nat \<Rightarrow> char" where
  "sextet_char n = url_alphabet ! n"

definition char_sextet :: "char \<Rightarrow> nat option" where
  "char_sextet c = index_of (\<lambda>d. d = c) url_alphabet"

fun base64_encode :: "octets \<Rightarrow> string" where
  "base64_encode [] = []"
| "base64_encode [a] = [sextet_char (unat a div 4), sextet_char (unat a mod 4 * 16)]"
| "base64_encode [a, b] =
     [sextet_char (unat a div 4), sextet_char (unat a mod 4 * 16 + unat b div 16), sextet_char (unat b mod 16 * 4)]"
| "base64_encode (a # b # c # rest) =
     sextet_char (unat a div 4) # sextet_char (unat a mod 4 * 16 + unat b div 16) #
     sextet_char (unat b mod 16 * 4 + unat c div 64) # sextet_char (unat c mod 64) # base64_encode rest"

fun base64_quads :: "nat list \<Rightarrow> octets option" where
  "base64_quads [] = Some []"
| "base64_quads [w] = None"
| "base64_quads [w, x] = Some [of_nat (w * 4 + x div 16)]"
| "base64_quads [w, x, y] = Some [of_nat (w * 4 + x div 16), of_nat (x mod 16 * 16 + y div 4)]"
| "base64_quads (w # x # y # z # rest) =
     map_option (\<lambda>bs. of_nat (w * 4 + x div 16) # of_nat (x mod 16 * 16 + y div 4) # of_nat (y mod 4 * 64 + z) # bs)
       (base64_quads rest)"

fun sextets :: "string \<Rightarrow> nat list option" where
  "sextets [] = Some []"
| "sextets (c # cs) =
     (case (char_sextet c, sextets cs) of (Some n, Some ns) \<Rightarrow> Some (n # ns) | _ \<Rightarrow> None)"

definition base64_decode :: "string \<Rightarrow> octets option" where
  "base64_decode s =
     (case sextets (filter (\<lambda>c. byte c \<noteq> 10 \<and> byte c \<noteq> 13) s) of
        None \<Rightarrow> None
      | Some ns \<Rightarrow> base64_quads ns)"

section \<open>Key derivation\<close>

record bootstrap =
  bs_type :: string
  bs_server_addr :: string
  bs_server_port :: int
  bs_auth_token :: string
  bs_port_start :: int
  bs_port_end :: int
  bs_lease_ttl_seconds :: int
  bs_llama_swap_token :: string

definition empty_bootstrap :: bootstrap where
  "empty_bootstrap = \<lparr>bs_type = [], bs_server_addr = [], bs_server_port = 0, bs_auth_token = [], bs_port_start = 0,
     bs_port_end = 0, bs_lease_ttl_seconds = 0, bs_llama_swap_token = []\<rparr>"

text \<open>
  HMAC-SHA256 of a message under a key; sealing and opening under key, nonce and associated data; JSON.
\<close>

record crypto_ops =
  co_hmac :: "octets \<Rightarrow> octets \<Rightarrow> octets"
  co_seal :: "octets \<Rightarrow> octets \<Rightarrow> octets \<Rightarrow> octets \<Rightarrow> octets"
  co_open :: "octets \<Rightarrow> octets \<Rightarrow> octets \<Rightarrow> octets \<Rightarrow> octets option"
  co_to_json :: "bootstrap \<Rightarrow> octets option"
  co_of_json :: "octets \<Rightarrow> bootstrap option"

definition bootstrap_key_length :: nat where
  "bootstrap_key_length = 32"

definition gcm_nonce_size :: nat where
  "gcm_nonce_size = 12"

definition gcm_overhead :: nat where
  "gcm_overhead = 16"

text \<open>
  The expansion loop of HKDF, from a given output, previous block and counter. Every block of a real HMAC adds 32
  bytes, so \<open>length\<close> rounds of fuel are more than enough.
\<close>

fun hkdf_expand ::
  "nat \<Rightarrow> (octets \<Rightarrow> octets) \<Rightarrow> octets \<Rightarrow> nat \<Rightarrow> octets \<Rightarrow> octets \<Rightarrow> 8 word \<Rightarrow> octets" where
  "hkdf_expand 0 mac info len out previous counter = out"
| "hkdf_expand (Suc fuel) mac info len out previous counter =
     (if length out < len
      then let block = mac (previous @ info @ [counter])
           in hkdf_expand fuel mac info len (out @ block) block (counter + 1)
      else out)"

definition hkdf_sha256 :: "(octets \<Rightarrow> octets \<Rightarrow> octets) \<Rightarrow> octets \<Rightarrow> octets \<Rightarrow> octets \<Rightarrow> nat \<Rightarrow> octets" where
  "hkdf_sha256 hmac input_key salt info len =
     (let prk = hmac salt input_key in take len (hkdf_expand len (hmac prk) info len [] [] 1))"

text \<open>\<open>binary.BigEndian.PutUint64\<close>.\<close>

definition big_endian :: "64 word \<Rightarrow> octets" where
  "big_endian w = map (\<lambda>i. ucast (drop_bit (8 * i) w)) [7, 6, 5, 4, 3, 2, 1, 0]"

definition bootstrap_key :: "crypto_ops \<Rightarrow> string \<Rightarrow> string \<Rightarrow> nat \<Rightarrow> octets" where
  "bootstrap_key ops agent_token agent_id generation =
     hkdf_sha256 (co_hmac ops) (octets agent_token) (big_endian (of_nat generation))
       (octets (''llmswap/transport-bootstrap/'' @ agent_id)) bootstrap_key_length"

text \<open>\<open>aes.NewCipher\<close> takes keys of 16, 24 and 32 bytes.\<close>

definition new_bootstrap_gcm :: "crypto_ops \<Rightarrow> string \<Rightarrow> string \<Rightarrow> nat \<Rightarrow> octets option" where
  "new_bootstrap_gcm ops agent_token agent_id generation =
     (let key = bootstrap_key ops agent_token agent_id generation
      in if length key \<in> {16, 24, 32} then Some key else None)"

definition bootstrap_aad :: "string \<Rightarrow> nat \<Rightarrow> string" where
  "bootstrap_aad agent_id generation = agent_id @ [char_of (10 :: nat)] @ itoa (int generation)"

section \<open>Sealing and opening\<close>

datatype seal_error = InvalidBootstrapInput | EncodeBootstrapFailed | InitialiseFailed | SealFailed

text \<open>\<open>nonce\<close> is what the random source gives, \<open>None\<close> its failure.\<close>

definition seal_bootstrap ::
  "crypto_ops \<Rightarrow> octets option \<Rightarrow> string \<Rightarrow> string \<Rightarrow> nat \<Rightarrow> bootstrap \<Rightarrow> seal_error + encrypted_transport_bootstrap" where
  "seal_bootstrap ops nonce agent_token agent_id generation payload =
     (if agent_token = [] \<or> agent_id = [] then Inl InvalidBootstrapInput
      else case co_to_json ops payload of
        None \<Rightarrow> Inl EncodeBootstrapFailed
      | Some plaintext \<Rightarrow>
         (case new_bootstrap_gcm ops agent_token agent_id generation of
            None \<Rightarrow> Inl InitialiseFailed
          | Some key \<Rightarrow>
             (case nonce of
                None \<Rightarrow> Inl SealFailed
              | Some n \<Rightarrow> Inr \<lparr>etb_generation = generation, etb_nonce = base64_encode n,
                  etb_ciphertext = base64_encode (co_seal ops key n plaintext (octets (bootstrap_aad agent_id generation)))\<rparr>)))"

datatype open_error = InvalidOpenInput | InvalidEncryptedBootstrap

definition open_bootstrap ::
  "crypto_ops \<Rightarrow> string \<Rightarrow> string \<Rightarrow> encrypted_transport_bootstrap \<Rightarrow> open_error + bootstrap" where
  "open_bootstrap ops agent_token agent_id envelope =
     (if agent_token = [] \<or> agent_id = [] then Inl InvalidOpenInput
      else case base64_decode (etb_nonce envelope) of
        None \<Rightarrow> Inl InvalidEncryptedBootstrap
      | Some nonce \<Rightarrow>
         (case base64_decode (etb_ciphertext envelope) of
            None \<Rightarrow> Inl InvalidEncryptedBootstrap
          | Some ciphertext \<Rightarrow>
             (case new_bootstrap_gcm ops agent_token agent_id (etb_generation envelope) of
                None \<Rightarrow> Inl InvalidEncryptedBootstrap
              | Some key \<Rightarrow>
                  if length nonce \<noteq> gcm_nonce_size \<or> length ciphertext < gcm_overhead then Inl InvalidEncryptedBootstrap
                  else case co_open ops key nonce ciphertext (octets (bootstrap_aad agent_id (etb_generation envelope))) of
                    None \<Rightarrow> Inl InvalidEncryptedBootstrap
                  | Some plaintext \<Rightarrow>
                     (case co_of_json ops plaintext of
                        None \<Rightarrow> Inl InvalidEncryptedBootstrap
                      | Some payload \<Rightarrow> Inr payload))))"

section \<open>Base64 reads back what it wrote\<close>

lemma length_alphabet: "length url_alphabet = 64"
  by (simp add: url_alphabet_def)

lemma alphabet_distinct: "distinct url_alphabet"
  by code_simp

lemma index_of_distinct: "distinct xs \<Longrightarrow> i < length xs \<Longrightarrow> index_of (\<lambda>d. d = xs ! i) xs = Some i"
  by (induction xs arbitrary: i) (auto simp: nth_Cons split: nat.splits)

lemma char_sextet_inverse [simp]: "n < 64 \<Longrightarrow> char_sextet (sextet_char n) = Some n"
  unfolding char_sextet_def sextet_char_def
  by (rule index_of_distinct) (simp_all add: alphabet_distinct length_alphabet)

lemma alphabet_printable: "\<forall>c \<in> set url_alphabet. byte c \<noteq> 10 \<and> byte c \<noteq> 13"
  by code_simp

lemma sextet_char_printable [simp]: "n < 64 \<Longrightarrow> byte (sextet_char n) \<noteq> 10" "n < 64 \<Longrightarrow> byte (sextet_char n) \<noteq> 13"
  using alphabet_printable nth_mem[of n url_alphabet] by (auto simp: sextet_char_def length_alphabet)

lemma octet_bound [simp]: "unat (a :: 8 word) < 256"
  using unsigned_less[of a] by simp

lemma octet_bits:
  fixes a :: "8 word"
  shows "unat a div 4 < 64" "unat a mod 4 * 16 < 64" "unat a div 16 < 16" "unat a mod 16 * 4 < 64" "unat a div 64 < 4"
  using octet_bound[of a] by linarith+

lemma octet_pair:
  fixes a b :: "8 word"
  shows "unat a mod 4 * 16 + unat b div 16 < 64" "unat a mod 16 * 4 + unat b div 64 < 64"
proof -
  have "unat a mod 4 < 4" "unat a mod 16 < 16" by simp_all
  then show "unat a mod 4 * 16 + unat b div 16 < 64" "unat a mod 16 * 4 + unat b div 64 < 64"
    using octet_bits(3,5)[of b] by linarith+
qed

lemma octet_rebuild:
  fixes a b c :: "8 word"
  shows "of_nat (unat a div 4 * 4 + (unat a mod 4 * 16 + unat b div 16) div 16) = a"
    "of_nat (unat a div 4 * 4 + unat a mod 4 * 16 div 16) = a"
    "of_nat ((unat a mod 4 * 16 + unat b div 16) mod 16 * 16 + (unat b mod 16 * 4 + unat c div 64) div 4) = b"
    "of_nat ((unat a mod 4 * 16 + unat b div 16) mod 16 * 16 + unat b mod 16 * 4 div 4) = b"
    "of_nat ((unat b mod 16 * 4 + unat c div 64) mod 4 * 64 + unat c mod 64) = c"
  using octet_bits(3)[of b] octet_bits(5)[of c]
  by (simp_all del: of_nat_add of_nat_mult add: div_mult_mod_eq)

lemma base64_roundtrip: "base64_decode (base64_encode bs) = Some bs"
proof -
  have "filter (\<lambda>c. byte c \<noteq> 10 \<and> byte c \<noteq> 13) (base64_encode bs) = base64_encode bs"
    by (induction bs rule: base64_encode.induct) (simp_all add: octet_bits octet_pair)
  moreover have "\<exists>ns. sextets (base64_encode bs) = Some ns \<and> base64_quads ns = Some bs"
    by (induction bs rule: base64_encode.induct)
      (auto simp add: octet_bits octet_pair octet_rebuild simp del: of_nat_add of_nat_mult)
  ultimately show ?thesis by (auto simp: base64_decode_def)
qed

section \<open>What was sealed can be opened\<close>

lemma hkdf_expand_length:
  assumes "\<And>m. length (mac m) = 32" "length out \<le> len" "len \<le> length out + 32 * fuel"
  shows "len \<le> length (hkdf_expand fuel mac info len out previous counter)"
  using assms(2,3)
proof (induction fuel arbitrary: out previous counter)
  case (Suc fuel)
  show ?case
  proof (cases "length out + 32 \<le> len")
    case True
    then show ?thesis using Suc.prems Suc.IH[of "out @ mac (previous @ info @ [counter])"] by (simp add: Let_def assms(1))
  next
    case False
    have "len \<le> length (hkdf_expand fuel mac info len (out @ b) b c)" if "length b = 32" for b c
      using that False by (cases fuel) (simp_all add: Let_def)
    then show ?thesis using Suc.prems by (simp add: Let_def assms(1))
  qed
qed simp

lemma bootstrap_key_size:
  assumes "\<And>k m. length (co_hmac ops k m) = 32"
  shows "new_bootstrap_gcm ops agent_token agent_id generation = Some (bootstrap_key ops agent_token agent_id generation)"
proof -
  have "32 \<le> length (hkdf_expand 32 (co_hmac ops k) info 32 [] [] 1)" for k info
    by (rule hkdf_expand_length) (simp_all add: assms)
  then show ?thesis
    by (simp add: new_bootstrap_gcm_def bootstrap_key_def hkdf_sha256_def bootstrap_key_length_def Let_def)
qed

lemma bootstrap_aad_inject: "bootstrap_aad a g = bootstrap_aad a' g' \<longleftrightarrow> a = a' \<and> g = g'"
proof
  let ?nl = "char_of (10 :: nat) :: char"
  have digit: "?nl \<notin> set (itoa (int n))" for n
    using nat_digits_digit[of ?nl n] by (auto simp: itoa_def)
  have before: "takeWhile (\<lambda>c. c \<noteq> ?nl) (rev (bootstrap_aad a g)) = rev (itoa (int g))" for a g
    using digit[of g] by (simp add: bootstrap_aad_def takeWhile_append takeWhile_eq_all_conv[THEN iffD2])
  assume "bootstrap_aad a g = bootstrap_aad a' g'"
  moreover from this have "itoa (int g) = itoa (int g')" using before[of a g] before[of a' g'] by simp
  ultimately show "a = a' \<and> g = g'" by (simp add: bootstrap_aad_def)
qed simp

lemma open_sealed:
  assumes "seal_bootstrap ops (Some nonce) agent_token agent_id generation payload = Inr envelope"
    "length nonce = gcm_nonce_size"
    "\<And>k m. length (co_hmac ops k m) = 32"
    "\<And>k n p a. co_open ops k n (co_seal ops k n p a) a = Some p"
    "\<And>k n p a. length (co_seal ops k n p a) = length p + gcm_overhead"
    "\<And>b j. co_to_json ops b = Some j \<Longrightarrow> co_of_json ops j = Some b"
  shows "open_bootstrap ops agent_token agent_id envelope = Inr payload"
  using assms
  by (auto simp: seal_bootstrap_def open_bootstrap_def bootstrap_key_size base64_roundtrip
      split: if_splits option.splits)

text \<open>
  The bootstrap that the gateway seals for an agent and a generation is what that agent opens, whatever
  the nonce, provided HMAC gives 32 bytes, opening inverts sealing and adds 16 bytes, and JSON reads back
  what it wrote.
\<close>

theorem seal_open_roundtrip:
  assumes "seal_bootstrap ops (Some nonce) agent_token agent_id generation payload = Inr envelope"
    "length nonce = gcm_nonce_size"
    "\<And>k m. length (co_hmac ops k m) = 32"
    "\<And>k n p a. co_open ops k n (co_seal ops k n p a) a = Some p"
    "\<And>k n p a. length (co_seal ops k n p a) = length p + gcm_overhead"
    "\<And>b j. co_to_json ops b = Some j \<Longrightarrow> co_of_json ops j = Some b"
  shows "open_bootstrap ops agent_token agent_id envelope = Inr payload"
  using assms by (rule open_sealed)

text \<open>An instance: no secrecy, but the sizes and the inverses of the real operations.\<close>

definition toy_crypto :: crypto_ops where
  "toy_crypto = \<lparr>co_hmac = (\<lambda>k m. replicate 32 0), co_seal = (\<lambda>k n p a. replicate 16 0 @ p),
     co_open = (\<lambda>k n c a. Some (drop 16 c)),
     co_to_json = (\<lambda>b. if b = empty_bootstrap then Some [] else None), co_of_json = (\<lambda>j. Some empty_bootstrap)\<rparr>"

theorem seal_open_roundtrip_witness:
  "\<exists>envelope. seal_bootstrap toy_crypto (Some (replicate 12 7)) ''t'' ''w'' 3 empty_bootstrap = Inr envelope \<and>
     open_bootstrap toy_crypto ''t'' ''w'' envelope = Inr empty_bootstrap"
proof -
  obtain envelope where s: "seal_bootstrap toy_crypto (Some (replicate 12 7)) ''t'' ''w'' 3 empty_bootstrap = Inr envelope"
    by (simp add: seal_bootstrap_def bootstrap_key_size toy_crypto_def)
  then have "open_bootstrap toy_crypto ''t'' ''w'' envelope = Inr empty_bootstrap"
    by (rule seal_open_roundtrip) (auto simp: toy_crypto_def gcm_nonce_size_def gcm_overhead_def split: if_splits)
  with s show ?thesis by blast
qed

end
