(* ===== verification/TransportManager.thy ===== *)
theory TransportManager
  imports TransportCrypto
begin

text \<open>
  The agent's side of a managed transport (internal/agent/transport_manager.go, frp_client.go): what the
  gateway's configuration asks for, the check of a granted lease, and the loop of \<open>TransportManager.Run\<close>. One round
  of the loop is one step; what the round meets outside (answers of the gateway, the tunnel client, timers, the
  context) is its input, and everything it does outside is appended to a log of actions. Heartbeats
  invalidate leases between rounds. A generation is an unsigned 64-bit number and stands as a \<open>nat\<close>.
\<close>

section \<open>What the gateway asks for\<close>

record transport_env =
  te_agent_id :: string
  te_tags :: "string list"
  te_agent_token :: string
  te_swap_port :: int
  te_has_gateway :: bool
  te_has_factory :: bool
  te_has_prepare :: bool
  te_poll_interval :: duration
  te_retry_min :: duration
  te_retry_max :: duration
  te_crypto :: crypto_ops
  te_sha256 :: "string \<Rightarrow> nat list"

record desired_transport =
  dt_managed :: bool
  dt_generation :: nat
  dt_bootstrap :: bootstrap

definition legacy_desired :: desired_transport where
  "legacy_desired = \<lparr>dt_managed = False, dt_generation = 0, dt_bootstrap = empty_bootstrap\<rparr>"

definition label_char :: "char \<Rightarrow> bool" where
  "label_char c \<longleftrightarrow> 97 \<le> byte c \<and> byte c \<le> 122 \<or> 65 \<le> byte c \<and> byte c \<le> 90 \<or> 48 \<le> byte c \<and> byte c \<le> 57 \<or> c = CHR ''-''"

definition valid_label :: "string \<Rightarrow> bool" where
  "valid_label l \<longleftrightarrow> l \<noteq> [] \<and> length l \<le> 63 \<and> hd l \<noteq> CHR ''-'' \<and> last l \<noteq> CHR ''-'' \<and> list_all label_char l"

definition valid_transport_server_addr :: "string \<Rightarrow> bool" where
  "valid_transport_server_addr addr =
     (if addr = [] \<or> contains_any addr ('' /[]'' @ [char_of (9 :: nat), char_of (13 :: nat), char_of (10 :: nat), char_of (92 :: nat)])
      then False
      else if parse_ip_ok addr then True
      else if CHR '':'' \<in> set addr \<or> length addr > 253 then False
      else list_all valid_label (split_on CHR ''.'' addr))"

definition normalize_transport_bootstrap :: "bootstrap \<Rightarrow> bootstrap option" where
  "normalize_transport_bootstrap b =
     (let addr = trim_space (bs_server_addr b)
      in if bs_type b \<noteq> ''frp_tcp'' \<or> \<not> valid_transport_server_addr addr \<or> bs_server_port b \<le> 0 \<or> bs_server_port b > 65535 \<or>
           trim_space (bs_auth_token b) = [] \<or> bs_port_start b \<le> 0 \<or> bs_port_start b > 65535 \<or>
           bs_port_end b < bs_port_start b \<or> bs_port_end b > 65535 \<or> bs_lease_ttl_seconds b \<le> 0 \<or>
           trim_space (bs_llama_swap_token b) = []
         then None
         else Some (b\<lparr>bs_server_addr := addr\<rparr>))"

text \<open>The configuration request fails when \<open>config\<close> is \<open>None\<close>.\<close>

definition fetch_desired :: "transport_env \<Rightarrow> agent_config_response option \<Rightarrow> desired_transport option" where
  "fetch_desired env config =
     (case config of
        None \<Rightarrow> None
      | Some response \<Rightarrow>
         (case acr_transport response of
            None \<Rightarrow> Some legacy_desired
          | Some envelope \<Rightarrow>
             (case open_bootstrap (te_crypto env) (te_agent_token env) (te_agent_id env) envelope of
                Inl _ \<Rightarrow> None
              | Inr b \<Rightarrow>
                  if etb_generation envelope = 0 \<or> te_swap_port env \<le> 0 \<or> te_swap_port env > 65535 then None
                  else (case normalize_transport_bootstrap b of
                          None \<Rightarrow> None
                        | Some n \<Rightarrow> Some \<lparr>dt_managed = True, dt_generation = etb_generation envelope, dt_bootstrap = n\<rparr>))))"

text \<open>A port is an int, so that the difference and the sum below do not wrap around.\<close>

definition valid_transport_lease :: "desired_transport \<Rightarrow> transport_lease_response \<Rightarrow> time \<Rightarrow> bool" where
  "valid_transport_lease desired lease now =
     (let b = dt_bootstrap desired
      in if tlr_generation lease \<noteq> dt_generation desired \<or> trim_space (tlr_lease_id lease) = [] \<or>
           trim_space (tlr_lease_id lease) \<noteq> tlr_lease_id lease \<or>
           tlr_slot lease < 0 \<or> tlr_slot lease > bs_port_end b - bs_port_start b \<or>
           tlr_remote_port lease < bs_port_start b \<or> tlr_remote_port lease > bs_port_end b \<or>
           tlr_expires_at lease = 0 \<or> \<not> now < tlr_expires_at lease
         then False
         else tlr_remote_port lease = bs_port_start b + tlr_slot lease)"

section \<open>The tunnel client's configuration\<close>

record frp_proxy_config =
  fpc_server_addr :: string
  fpc_server_port :: int
  fpc_auth_token :: string
  fpc_proxy_name :: string
  fpc_local_addr :: string
  fpc_remote_port :: int

definition name_char :: "char \<Rightarrow> bool" where
  "name_char c \<longleftrightarrow> 97 \<le> byte c \<and> byte c \<le> 122 \<or> 48 \<le> byte c \<and> byte c \<le> 57 \<or> c = CHR ''_'' \<or> c = CHR ''-''"

text \<open>The loop over the characters, with the text so far and whether a separator is pending.\<close>

fun sanitize_name :: "string \<Rightarrow> bool \<Rightarrow> string \<Rightarrow> string" where
  "sanitize_name out separator [] = out"
| "sanitize_name out separator (c # cs) =
     (if name_char c
      then sanitize_name (out @ (if separator \<and> out \<noteq> [] then ''-'' else []) @ [c]) False cs
      else sanitize_name out True cs)"

abbreviation trim_dashes_right :: "string \<Rightarrow> string" where
  "trim_dashes_right \<equiv> trim_right_char CHR ''-''"

definition trim_dashes :: "string \<Rightarrow> string" where
  "trim_dashes s = trim_dashes_right (trim_left_char CHR ''-'' s)"

definition proxy_name_limit :: nat where
  "proxy_name_limit = 64"

definition frp_proxy_name :: "(string \<Rightarrow> nat list) \<Rightarrow> string \<Rightarrow> nat \<Rightarrow> string" where
  "frp_proxy_name sha256 agent_id generation =
     (let or_agent = (\<lambda>s. if s = [] then ''agent'' else s);
          identity = or_agent (trim_dashes (sanitize_name [] False (to_lower (trim_space agent_id))));
          suffix = ''-'' @ hex_bytes (take 5 (sha256 agent_id)) @ ''-g'' @ itoa (int generation);
          limit = proxy_name_limit - length ''llmswap-'' - length suffix;
          identity = (if length identity > limit then trim_dashes_right (take limit identity) else identity)
      in ''llmswap-'' @ or_agent identity @ suffix)"

definition join_host_port :: "string \<Rightarrow> int \<Rightarrow> string" where
  "join_host_port host port =
     (if CHR '':'' \<in> set host then ''['' @ host @ '']:'' @ itoa port else host @ '':'' @ itoa port)"

definition transport_url :: "string \<Rightarrow> int \<Rightarrow> string" where
  "transport_url addr port = ''http://'' @ join_host_port addr port"

definition proxy_config :: "transport_env \<Rightarrow> desired_transport \<Rightarrow> transport_lease_response \<Rightarrow> frp_proxy_config" where
  "proxy_config env desired lease =
     (let b = dt_bootstrap desired
      in \<lparr>fpc_server_addr = bs_server_addr b, fpc_server_port = bs_server_port b, fpc_auth_token = bs_auth_token b,
          fpc_proxy_name = frp_proxy_name (te_sha256 env) (te_agent_id env) (dt_generation desired),
          fpc_local_addr = join_host_port ''127.0.0.1'' (te_swap_port env), fpc_remote_port = tlr_remote_port lease\<rparr>)"

section \<open>The manager's state\<close>

record transport_snapshot =
  ts_mode_resolved :: bool
  ts_managed :: bool
  ts_ready :: bool
  ts_llama_swap_url :: string
  ts_llama_swap_token :: string
  ts_lease_id :: string
  ts_slot :: int
  ts_generation :: nat

definition empty_snapshot :: transport_snapshot where
  "empty_snapshot = \<lparr>ts_mode_resolved = False, ts_managed = False, ts_ready = False, ts_llama_swap_url = [],
     ts_llama_swap_token = [], ts_lease_id = [], ts_slot = 0, ts_generation = 0\<rparr>"

type_synonym lease_identity = "string \<times> nat"

record active_transport =
  at_desired :: desired_transport
  at_lease :: transport_lease_response

record transport_replacement =
  rp_lease_id :: string
  rp_slot :: int
  rp_generation :: nat

text \<open>A wait ends when its time is over, or fails; then the context is done or it is not.\<close>

datatype wait_outcome = WaitElapsed | WaitFailed bool

datatype transport_action =
    Publishes transport_snapshot
  | FetchesConfig
  | Prepares string
  | RequestsLease transport_lease_request
  | ObtainsLease transport_lease_response
  | StartsClient frp_proxy_config
  | StopsClient bool
  | ReleasesLease lease_identity
  | Waits duration wait_outcome
  | Logs string

datatype loop_phase = Looping | Parked | Stopped

record transport_loop =
  tl_snapshot :: transport_snapshot
  tl_retry :: duration
  tl_active :: "active_transport option"
  tl_replacement :: "transport_replacement option"
  tl_legacy :: bool
  tl_phase :: loop_phase
  tl_invalidations :: "lease_identity list"
  tl_signal :: bool
  tl_log :: "transport_action list"

text \<open>The first nil check of \<open>Run\<close> is \<open>None\<close>; otherwise the loop starts.\<close>

definition poll_interval :: "transport_env \<Rightarrow> duration" where
  "poll_interval env = (if te_poll_interval env > 0 then te_poll_interval env else 30 * second)"

definition retry_min :: "transport_env \<Rightarrow> duration" where
  "retry_min env = (if te_retry_min env > 0 then te_retry_min env else second)"

text \<open>Doubling an int64, which wraps around.\<close>

definition double_int64 :: "duration \<Rightarrow> duration" where
  "double_int64 d = (2 * d - min_int64) mod 2 ^ 64 + min_int64"

definition next_retry :: "transport_env \<Rightarrow> duration \<Rightarrow> duration" where
  "next_retry env current =
     (let maximum = (if te_retry_max env \<le> 0 then 30 * second else te_retry_max env)
      in if current \<ge> maximum then maximum
         else let doubled = double_int64 current in if doubled > maximum then maximum else doubled)"

definition act :: "transport_action \<Rightarrow> transport_loop \<Rightarrow> transport_loop" where
  "act a m = m\<lparr>tl_log := tl_log m @ [a]\<rparr>"

definition publish :: "transport_snapshot \<Rightarrow> transport_loop \<Rightarrow> transport_loop" where
  "publish s m = (act (Publishes s) m)\<lparr>tl_snapshot := s\<rparr>"

definition clear_snapshot :: "transport_loop \<Rightarrow> transport_loop" where
  "clear_snapshot = publish empty_snapshot"

definition publish_legacy :: "transport_loop \<Rightarrow> transport_loop" where
  "publish_legacy = publish (empty_snapshot\<lparr>ts_mode_resolved := True\<rparr>)"

definition publish_managed_not_ready :: "transport_loop \<Rightarrow> transport_loop" where
  "publish_managed_not_ready = publish (empty_snapshot\<lparr>ts_mode_resolved := True, ts_managed := True\<rparr>)"

definition start_loop :: "transport_env \<Rightarrow> transport_loop option" where
  "start_loop env =
     (if \<not> te_has_gateway env \<or> \<not> te_has_factory env then None
      else Some (clear_snapshot \<lparr>tl_snapshot = empty_snapshot, tl_retry = retry_min env, tl_active = None,
        tl_replacement = None, tl_legacy = False, tl_phase = Looping, tl_invalidations = [], tl_signal = False, tl_log = []\<rparr>))"

section \<open>Heartbeats that invalidate a lease\<close>

definition invalidate_transport_lease :: "lease_identity \<Rightarrow> transport_loop \<Rightarrow> transport_loop" where
  "invalidate_transport_lease l m =
     (if trim_space (fst l) = [] \<or> snd l = 0 then m
      else m\<lparr>tl_invalidations := List.insert l (tl_invalidations m), tl_signal := True\<rparr>)"

definition take_invalidation_for :: "lease_identity \<Rightarrow> transport_loop \<Rightarrow> bool \<times> transport_loop" where
  "take_invalidation_for l m = (l \<in> set (tl_invalidations m), m\<lparr>tl_invalidations := []\<rparr>)"

section \<open>Stopping, releasing, waiting\<close>

text \<open>What ends the wait for a stopping client: both of its parts, or the timer.\<close>

datatype stop_event = WorkersDone | CloseDone | ShutdownTimeout

fun stop_wait :: "bool \<Rightarrow> bool \<Rightarrow> stop_event list \<Rightarrow> bool" where
  "stop_wait workers close_done [] = workers"
| "stop_wait workers close_done (ShutdownTimeout # es) = workers"
| "stop_wait workers close_done (WorkersDone # es) = (if close_done then True else stop_wait True close_done es)"
| "stop_wait workers close_done (CloseDone # es) = (if workers then True else stop_wait workers True es)"

definition stop_client :: "stop_event list \<Rightarrow> bool \<Rightarrow> transport_loop \<Rightarrow> bool \<times> transport_loop" where
  "stop_client events started m =
     (let m = clear_snapshot m; converged = stop_wait False False events
      in if \<not> started then (True, m) else (converged, act (StopsClient converged) m))"

definition release_exact :: "lease_identity \<Rightarrow> transport_loop \<Rightarrow> transport_loop" where
  "release_exact l = act (ReleasesLease l)"

definition lease_identity_of :: "transport_lease_response \<Rightarrow> lease_identity" where
  "lease_identity_of lease = (tlr_lease_id lease, tlr_generation lease)"

definition replacement_identity :: "transport_replacement \<Rightarrow> lease_identity" where
  "replacement_identity r = (rp_lease_id r, rp_generation r)"

definition release_replacement :: "transport_loop \<Rightarrow> transport_loop" where
  "release_replacement m =
     (case tl_replacement m of None \<Rightarrow> m | Some r \<Rightarrow> release_exact (replacement_identity r) m)"

definition replacement_of :: "transport_lease_response \<Rightarrow> transport_replacement" where
  "replacement_of lease = \<lparr>rp_lease_id = tlr_lease_id lease, rp_slot = tlr_slot lease, rp_generation = tlr_generation lease\<rparr>"

text \<open>\<open>waitRetryWithReplacement\<close>, then the longer delay; the loop returns when the wait fails.\<close>

definition wait_retry :: "transport_env \<Rightarrow> wait_outcome \<Rightarrow> transport_loop \<Rightarrow> transport_loop" where
  "wait_retry env outcome m0 =
     (let m = act (Waits (tl_retry m0) outcome) m0
      in case outcome of
           WaitElapsed \<Rightarrow> m\<lparr>tl_retry := next_retry env (tl_retry m)\<rparr>
         | WaitFailed ctx_done \<Rightarrow> (if ctx_done then release_replacement m else m)\<lparr>tl_phase := Stopped\<rparr>)"

definition park :: "transport_loop \<Rightarrow> transport_loop" where
  "park m = m\<lparr>tl_phase := Parked\<rparr>"

definition stop_loop :: "transport_loop \<Rightarrow> transport_loop" where
  "stop_loop m = m\<lparr>tl_phase := Stopped\<rparr>"

section \<open>Starting a client\<close>

text \<open>
  What happens to a client until it is ready: it cannot be made, the context ends first, its run ends first, it fails
  to become ready (because it stopped before, or otherwise), or it is ready, with its run over by then or not.
\<close>

datatype client_start = NotCreated | ContextEndsFirst | RunEndsFirst | ReadyFails bool | BecomesReady bool

datatype transport_start_result = StartBootstrapUnavailable | StartRegistrationFailed | StartReady | StartShutdown

definition ready_snapshot :: "desired_transport \<Rightarrow> transport_lease_response \<Rightarrow> transport_snapshot" where
  "ready_snapshot desired lease = \<lparr>ts_mode_resolved = True, ts_managed = True, ts_ready = True,
     ts_llama_swap_url = transport_url (bs_server_addr (dt_bootstrap desired)) (tlr_remote_port lease),
     ts_llama_swap_token = bs_llama_swap_token (dt_bootstrap desired), ts_lease_id = tlr_lease_id lease,
     ts_slot = tlr_slot lease, ts_generation = tlr_generation lease\<rparr>"

text \<open>\<open>start\<close>: whether there is a client, the result, and the manager.\<close>

definition start_client ::
  "transport_env \<Rightarrow> client_start \<Rightarrow> desired_transport \<Rightarrow> transport_lease_response \<Rightarrow> transport_loop \<Rightarrow>
   bool \<times> transport_start_result \<times> transport_loop" where
  "start_client env outcome desired lease m =
     (if outcome = NotCreated then (False, StartBootstrapUnavailable, m)
      else let m = act (StartsClient (proxy_config env desired lease)) m
           in case outcome of
                NotCreated \<Rightarrow> (False, StartBootstrapUnavailable, m)
              | ContextEndsFirst \<Rightarrow> (True, StartShutdown, m)
              | RunEndsFirst \<Rightarrow> (True, StartBootstrapUnavailable, m)
              | ReadyFails stopped_before \<Rightarrow>
                  (True, if stopped_before then StartBootstrapUnavailable else StartRegistrationFailed, m)
              | BecomesReady run_ended \<Rightarrow>
                  if run_ended then (True, StartRegistrationFailed, m)
                  else (True, StartReady, publish (ready_snapshot desired lease) m))"

section \<open>One round of the loop\<close>

datatype select_event = ContextDone | ClientExited | Signalled "lease_identity list" | PollFinished wait_outcome

text \<open>
  The input of a round: each field is read at one place of it. \<open>ri_config\<close> and \<open>ri_lease\<close> are \<open>None\<close> when the request
  fails. \<open>Signalled\<close> carries the identities invalidated after the signal was received and before it is examined.
\<close>

record round_input =
  ri_poll :: wait_outcome
  ri_config :: "agent_config_response option"
  ri_prepared :: bool
  ri_cancelled :: bool
  ri_lease :: "transport_lease_response option"
  ri_now :: time
  ri_start :: client_start
  ri_stop :: "stop_event list"
  ri_retry :: wait_outcome
  ri_event :: select_event

definition config_unavailable :: string where "config_unavailable = ''transport configuration unavailable''"
definition preparation_unavailable :: string where "preparation_unavailable = ''local llama-swap transport preparation unavailable''"
definition lease_unavailable :: string where "lease_unavailable = ''transport lease unavailable''"
definition client_unavailable :: string where "client_unavailable = ''transport client unavailable''"
definition client_stopped :: string where "client_stopped = ''transport client stopped''"

definition lease_request :: "transport_env \<Rightarrow> desired_transport \<Rightarrow> transport_replacement option \<Rightarrow> transport_lease_request" where
  "lease_request env desired replacement =
     (let req = \<lparr>tlq_agent_id = te_agent_id env, tlq_tags = te_tags env, tlq_generation = dt_generation desired,
                 tlq_lease_id = [], tlq_release = False, tlq_exclude_slots = []\<rparr>
      in case replacement of
           None \<Rightarrow> req
         | Some r \<Rightarrow> if rp_generation r = dt_generation desired
                    then req\<lparr>tlq_lease_id := rp_lease_id r, tlq_exclude_slots := [rp_slot r]\<rparr> else req)"

text \<open>A lease in hand: the client is started and the switch over its result.\<close>

definition run_lease ::
  "transport_env \<Rightarrow> round_input \<Rightarrow> desired_transport \<Rightarrow> transport_lease_response \<Rightarrow> transport_loop \<Rightarrow> transport_loop" where
  "run_lease env inp desired lease m0 =
     (let (started, result, m) = start_client env (ri_start inp) desired lease m0
      in case result of
           StartReady \<Rightarrow> m\<lparr>tl_active := Some \<lparr>at_desired = desired, at_lease = lease\<rparr>, tl_replacement := None,
                             tl_retry := retry_min env\<rparr>
         | StartShutdown \<Rightarrow>
             (case stop_client (ri_stop inp) started m of
                (True, m) \<Rightarrow> stop_loop (release_exact (lease_identity_of lease) m)
              | (False, m) \<Rightarrow> stop_loop m)
         | StartBootstrapUnavailable \<Rightarrow>
             (case stop_client (ri_stop inp) started m of
                (False, m) \<Rightarrow> park m
              | (True, m) \<Rightarrow>
                  wait_retry env (ri_retry inp) (act (Logs client_unavailable)
                    ((release_exact (lease_identity_of lease) (publish_managed_not_ready m))\<lparr>tl_replacement := None\<rparr>)))
         | StartRegistrationFailed \<Rightarrow>
             (case stop_client (ri_stop inp) started m of
                (False, m) \<Rightarrow> park m
              | (True, m) \<Rightarrow>
                  wait_retry env (ri_retry inp) (act (Logs client_unavailable)
                    ((publish_managed_not_ready m)\<lparr>tl_replacement := Some (replacement_of lease)\<rparr>))))"

text \<open>Asking for a lease, with the suspect one named when there is one of the same generation.\<close>

definition request_lease :: "transport_env \<Rightarrow> round_input \<Rightarrow> desired_transport \<Rightarrow> transport_loop \<Rightarrow> transport_loop" where
  "request_lease env inp desired m0 =
     (let m = act (RequestsLease (lease_request env desired (tl_replacement m0))) m0;
          retry = wait_retry env (ri_retry inp) (act (Logs lease_unavailable) m)
      in case ri_lease inp of
           None \<Rightarrow> retry
         | Some lease \<Rightarrow>
             if \<not> valid_transport_lease desired lease (ri_now inp) then retry
             else run_lease env inp desired lease (act (ObtainsLease lease) m))"

text \<open>The branch without an active transport; \<open>fetched\<close> is the configuration read for it.\<close>

definition connect_transport ::
  "transport_env \<Rightarrow> round_input \<Rightarrow> desired_transport option \<Rightarrow> transport_loop \<Rightarrow> transport_loop" where
  "connect_transport env inp fetched m0 =
     (case fetched of
        None \<Rightarrow> wait_retry env (ri_retry inp) (act (Logs config_unavailable) m0)
      | Some desired \<Rightarrow>
          if \<not> dt_managed desired
          then (publish_legacy ((release_replacement m0)\<lparr>tl_replacement := None\<rparr>))\<lparr>tl_legacy := True\<rparr>
          else
            (let m = publish_managed_not_ready m0;
                 prepared = te_has_prepare env \<and> ri_prepared inp;
                 m = (if te_has_prepare env then act (Prepares (bs_llama_swap_token (dt_bootstrap desired))) m else m)
             in if \<not> prepared then wait_retry env (ri_retry inp) (act (Logs preparation_unavailable) m)
                else case tl_replacement m of
                       None \<Rightarrow> request_lease env inp desired m
                     | Some r \<Rightarrow>
                         if rp_generation r = dt_generation desired then request_lease env inp desired m
                         else let m = (release_replacement m)\<lparr>tl_replacement := None\<rparr>
                              in if ri_cancelled inp then stop_loop m else request_lease env inp desired m))"

text \<open>A stop of the active transport for good: release its lease and go on without one.\<close>

definition drop_active :: "transport_env \<Rightarrow> round_input \<Rightarrow> active_transport \<Rightarrow> transport_loop \<Rightarrow> bool \<times> transport_loop" where
  "drop_active env inp a m0 =
     (case stop_client (ri_stop inp) True m0 of
        (False, m) \<Rightarrow> (False, park m)
      | (True, m) \<Rightarrow> (True, (release_exact (lease_identity_of (at_lease a)) m)\<lparr>tl_active := None, tl_replacement := None,
                             tl_retry := retry_min env\<rparr>))"

definition shut_down :: "round_input \<Rightarrow> active_transport \<Rightarrow> transport_loop \<Rightarrow> transport_loop" where
  "shut_down inp a m0 =
     (case stop_client (ri_stop inp) True m0 of
        (True, m) \<Rightarrow> stop_loop (release_exact (lease_identity_of (at_lease a)) m)
      | (False, m) \<Rightarrow> stop_loop m)"

definition examine_signal ::
  "transport_env \<Rightarrow> round_input \<Rightarrow> active_transport \<Rightarrow> lease_identity list \<Rightarrow> transport_loop \<Rightarrow> transport_loop" where
  "examine_signal env inp a late m0 =
     (let m = fold invalidate_transport_lease late (m0\<lparr>tl_signal := False\<rparr>);
          (found, m) = take_invalidation_for (lease_identity_of (at_lease a)) m
      in if \<not> found then m
         else case drop_active env inp a m of
                (False, m) \<Rightarrow> m
              | (True, m) \<Rightarrow> publish_managed_not_ready m)"

definition poll_active :: "transport_env \<Rightarrow> round_input \<Rightarrow> active_transport \<Rightarrow> transport_loop \<Rightarrow> transport_loop" where
  "poll_active env inp a m0 =
     (let m = act FetchesConfig m0
      in case fetch_desired env (ri_config inp) of
           None \<Rightarrow> act (Logs config_unavailable) m
         | Some desired \<Rightarrow>
             if \<not> dt_managed desired
             then (case drop_active env inp a m of
                     (False, m) \<Rightarrow> m
                   | (True, m) \<Rightarrow> (publish_legacy m)\<lparr>tl_legacy := True\<rparr>)
             else if at_desired a = desired then m
             else (case drop_active env inp a m of
                     (False, m) \<Rightarrow> m
                   | (True, m) \<Rightarrow> publish_managed_not_ready m))"

definition client_exited :: "transport_env \<Rightarrow> round_input \<Rightarrow> active_transport \<Rightarrow> transport_loop \<Rightarrow> transport_loop" where
  "client_exited env inp a m0 =
     (case stop_client (ri_stop inp) True m0 of
        (False, m) \<Rightarrow> park m
      | (True, m) \<Rightarrow>
          wait_retry env (ri_retry inp) (act (Logs client_stopped)
            (publish_managed_not_ready (m\<lparr>tl_replacement := Some (replacement_of (at_lease a)), tl_active := None\<rparr>))))"

definition run_active :: "transport_env \<Rightarrow> round_input \<Rightarrow> active_transport \<Rightarrow> transport_loop \<Rightarrow> transport_loop" where
  "run_active env inp a m =
     (case ri_event inp of
        ContextDone \<Rightarrow> shut_down inp a m
      | ClientExited \<Rightarrow> client_exited env inp a m
      | Signalled late \<Rightarrow> examine_signal env inp a late m
      | PollFinished outcome \<Rightarrow>
          (let m = act (Waits (poll_interval env) outcome) m
           in case outcome of
                WaitElapsed \<Rightarrow> poll_active env inp a m
              | WaitFailed ctx_done \<Rightarrow> if ctx_done then shut_down inp a m else m))"

text \<open>
  A round from the loop's head. A legacy manager polls until it is asked to manage a transport; the configuration
  read then is used at once (\<open>pendingDesired\<close>).
\<close>

definition legacy_round :: "transport_env \<Rightarrow> round_input \<Rightarrow> transport_loop \<Rightarrow> transport_loop" where
  "legacy_round env inp m0 =
     (let m = act (Waits (poll_interval env) (ri_poll inp)) m0
      in if ri_poll inp \<noteq> WaitElapsed then stop_loop (clear_snapshot m)
         else let m = act FetchesConfig m
              in case fetch_desired env (ri_config inp) of
                   None \<Rightarrow> act (Logs config_unavailable) m
                 | Some desired \<Rightarrow>
                     if \<not> dt_managed desired then m
                     else connect_transport env inp (Some desired) (publish_managed_not_ready (m\<lparr>tl_legacy := False\<rparr>)))"

definition transport_round :: "transport_env \<Rightarrow> round_input \<Rightarrow> transport_loop \<Rightarrow> transport_loop" where
  "transport_round env inp m =
     (if tl_phase m \<noteq> Looping then m
      else if tl_legacy m then legacy_round env inp m
      else case tl_active m of
             Some a \<Rightarrow> run_active env inp a m
           | None \<Rightarrow> connect_transport env inp (fetch_desired env (ri_config inp)) (act FetchesConfig m))"

text \<open>The manager's steps: a round, with a signal only when there is one, or an invalidation by a heartbeat.\<close>

inductive transport_step :: "transport_env \<Rightarrow> transport_loop \<Rightarrow> transport_loop \<Rightarrow> bool" for env where
  round_step: "(\<And>late. ri_event inp = Signalled late \<Longrightarrow> tl_signal m) \<Longrightarrow>
     transport_step env m (transport_round env inp m)"
| heartbeat_step: "transport_step env m (invalidate_transport_lease l m)"

inductive transport_reachable :: "transport_env \<Rightarrow> transport_loop \<Rightarrow> bool" for env where
  reach_start: "start_loop env = Some m \<Longrightarrow> transport_reachable env m"
| reach_step: "transport_reachable env m \<Longrightarrow> transport_step env m m' \<Longrightarrow> transport_reachable env m'"

end
