(* ===== verification/TransportManagerFacts.thy ===== *)
theory TransportManagerFacts
  imports TransportManager
begin

text \<open>
  What the transport manager promises, stated over its log of actions: an auditor reads the log and follows the
  client, the lease held and whether the published snapshot says ready, and refuses an action out of order. The
  loop's state always agrees with the auditor's.
\<close>

section \<open>The auditor\<close>

datatype client_status = NoClient | ClientRuns | ClientLost

record audit =
  au_client :: client_status
  au_held :: "lease_identity option"
  au_ready :: bool

fun audit_step :: "audit \<Rightarrow> transport_action \<Rightarrow> audit option" where
  "audit_step a (Publishes s) =
     (if ts_ready s \<and> \<not> (au_client a = ClientRuns \<and> au_held a = Some (ts_lease_id s, ts_generation s)) then None
      else Some (a\<lparr>au_ready := ts_ready s\<rparr>))"
| "audit_step a (RequestsLease r) =
     (if au_client a = NoClient \<and>
        au_held a = (if tlq_lease_id r = [] then None else Some (tlq_lease_id r, tlq_generation r)) then Some a else None)"
| "audit_step a (ObtainsLease l) =
     (if au_client a = NoClient then Some (a\<lparr>au_held := Some (lease_identity_of l)\<rparr>) else None)"
| "audit_step a (StartsClient c) =
     (if au_client a = NoClient \<and> au_held a \<noteq> None then Some (a\<lparr>au_client := ClientRuns\<rparr>) else None)"
| "audit_step a (StopsClient converged) =
     (if au_client a = ClientRuns \<and> \<not> au_ready a
      then Some (a\<lparr>au_client := if converged then NoClient else ClientLost\<rparr>) else None)"
| "audit_step a (ReleasesLease l) =
     (if au_client a = NoClient \<and> au_held a = Some l then Some (a\<lparr>au_held := None\<rparr>) else None)"
| "audit_step a _ = Some a"

fun audit_from :: "audit \<Rightarrow> transport_action list \<Rightarrow> audit option" where
  "audit_from a [] = Some a"
| "audit_from a (x # xs) = (case audit_step a x of None \<Rightarrow> None | Some a' \<Rightarrow> audit_from a' xs)"

definition audit_log :: "transport_action list \<Rightarrow> audit option" where
  "audit_log = audit_from \<lparr>au_client = NoClient, au_held = None, au_ready = False\<rparr>"

lemma audit_from_snoc:
  "audit_from a (xs @ [x]) = (case audit_from a xs of None \<Rightarrow> None | Some a' \<Rightarrow> audit_step a' x)"
  by (induction xs arbitrary: a) (auto split: option.splits)

section \<open>The loop agrees with the auditor\<close>

text \<open>The log is accepted, and ends with this client and lease and with what the snapshot says of readiness.\<close>

definition audited :: "client_status \<Rightarrow> lease_identity option \<Rightarrow> transport_loop \<Rightarrow> bool" where
  "audited c h m \<longleftrightarrow>
     audit_log (tl_log m) = Some \<lparr>au_client = c, au_held = h, au_ready = ts_ready (tl_snapshot m)\<rparr>"

definition serves :: "active_transport \<Rightarrow> transport_snapshot \<Rightarrow> bool" where
  "serves a s \<longleftrightarrow> s = ready_snapshot (at_desired a) (at_lease a) \<and> dt_managed (at_desired a) \<and>
     (\<exists>now. valid_transport_lease (at_desired a) (at_lease a) now)"

definition named :: "transport_loop \<Rightarrow> bool" where
  "named m \<longleftrightarrow> (case tl_replacement m of None \<Rightarrow> True | Some r \<Rightarrow> rp_lease_id r \<noteq> [])"

definition idle :: "transport_loop \<Rightarrow> bool" where
  "idle m \<longleftrightarrow> audited NoClient (map_option replacement_identity (tl_replacement m)) m \<and> named m \<and>
     \<not> ts_ready (tl_snapshot m) \<and> tl_active m = None"

definition loop_inv :: "transport_loop \<Rightarrow> bool" where
  "loop_inv m \<longleftrightarrow>
     (case tl_phase m of
        Looping \<Rightarrow>
          (case tl_active m of
             Some a \<Rightarrow> audited ClientRuns (Some (lease_identity_of (at_lease a))) m \<and> serves a (tl_snapshot m) \<and>
               tl_replacement m = None \<and> \<not> tl_legacy m
           | None \<Rightarrow> idle m \<and> (tl_legacy m \<longrightarrow> tl_replacement m = None))
      | Parked \<Rightarrow> (\<exists>h. audited ClientLost h m) \<and> \<not> ts_ready (tl_snapshot m)
      | Stopped \<Rightarrow> (\<exists>c h. audited c h m \<and> c \<noteq> ClientRuns \<and>
          (c = ClientLost \<or> h = None \<or> (\<exists>d. Waits d (WaitFailed False) \<in> set (tl_log m)))) \<and> \<not> ts_ready (tl_snapshot m))"

lemmas loop_ops = act_def publish_def clear_snapshot_def publish_legacy_def publish_managed_not_ready_def
  release_exact_def park_def stop_loop_def

lemma not_ready [simp]: "\<not> ts_ready empty_snapshot" "\<not> ts_ready (empty_snapshot\<lparr>ts_mode_resolved := b\<rparr>)"
  "\<not> ts_ready (empty_snapshot\<lparr>ts_mode_resolved := b, ts_managed := c\<rparr>)"
  by (simp_all add: empty_snapshot_def)

lemma audited_update [simp]:
  "audited c h (m\<lparr>tl_retry := d\<rparr>) = audited c h m" "audited c h (m\<lparr>tl_active := a\<rparr>) = audited c h m"
  "audited c h (m\<lparr>tl_replacement := r\<rparr>) = audited c h m" "audited c h (m\<lparr>tl_legacy := l\<rparr>) = audited c h m"
  "audited c h (m\<lparr>tl_phase := p\<rparr>) = audited c h m" "audited c h (m\<lparr>tl_invalidations := i\<rparr>) = audited c h m"
  "audited c h (m\<lparr>tl_signal := s\<rparr>) = audited c h m"
  by (simp_all add: audited_def)

lemma audited_act:
  assumes "audited c h m" "\<And>s. x \<noteq> Publishes s"
    "audit_step \<lparr>au_client = c, au_held = h, au_ready = ts_ready (tl_snapshot m)\<rparr> x =
       Some \<lparr>au_client = c', au_held = h', au_ready = ts_ready (tl_snapshot m)\<rparr>"
  shows "audited c' h' (act x m)"
  using assms by (simp add: audited_def act_def audit_log_def audit_from_snoc)

lemma audited_publish:
  assumes "audited c h m" "ts_ready s \<longrightarrow> c = ClientRuns \<and> h = Some (ts_lease_id s, ts_generation s)"
  shows "audited c h (publish s m)"
  using assms by (auto simp: audited_def publish_def act_def audit_log_def audit_from_snoc)

lemma act_fields [simp]:
  "tl_snapshot (act x m) = tl_snapshot m" "tl_active (act x m) = tl_active m" "tl_replacement (act x m) = tl_replacement m"
  "tl_legacy (act x m) = tl_legacy m" "tl_phase (act x m) = tl_phase m" "tl_retry (act x m) = tl_retry m"
  "set (tl_log (act x m)) = insert x (set (tl_log m))"
  by (simp_all add: act_def)

lemma publish_fields [simp]:
  "tl_snapshot (publish s m) = s" "tl_active (publish s m) = tl_active m" "tl_replacement (publish s m) = tl_replacement m"
  "tl_legacy (publish s m) = tl_legacy m" "tl_phase (publish s m) = tl_phase m" "tl_retry (publish s m) = tl_retry m"
  "set (tl_log (publish s m)) = insert (Publishes s) (set (tl_log m))"
  by (simp_all add: publish_def)

lemma publisher_fields [simp]:
  "tl_snapshot (clear_snapshot m) = empty_snapshot" "tl_snapshot (publish_legacy m) = empty_snapshot\<lparr>ts_mode_resolved := True\<rparr>"
  "tl_snapshot (publish_managed_not_ready m) = empty_snapshot\<lparr>ts_mode_resolved := True, ts_managed := True\<rparr>"
  "tl_active (clear_snapshot m) = tl_active m" "tl_active (publish_legacy m) = tl_active m"
  "tl_active (publish_managed_not_ready m) = tl_active m" "tl_replacement (clear_snapshot m) = tl_replacement m"
  "tl_replacement (publish_legacy m) = tl_replacement m" "tl_replacement (publish_managed_not_ready m) = tl_replacement m"
  "tl_legacy (clear_snapshot m) = tl_legacy m" "tl_legacy (publish_legacy m) = tl_legacy m"
  "tl_legacy (publish_managed_not_ready m) = tl_legacy m" "tl_phase (clear_snapshot m) = tl_phase m"
  "tl_phase (publish_legacy m) = tl_phase m" "tl_phase (publish_managed_not_ready m) = tl_phase m"
  by (simp_all add: clear_snapshot_def publish_legacy_def publish_managed_not_ready_def)

lemmas publishers = clear_snapshot_def publish_legacy_def publish_managed_not_ready_def

lemma audited_logs [simp]: "audited c h m \<Longrightarrow> audited c h (act (Logs s) m)"
  "audited c h m \<Longrightarrow> audited c h (act FetchesConfig m)" "audited c h m \<Longrightarrow> audited c h (act (Prepares s) m)"
  "audited c h m \<Longrightarrow> audited c h (act (Waits d w) m)"
  by (auto intro!: audited_act)

lemma audited_publishers [simp]:
  "audited c h m \<Longrightarrow> audited c h (clear_snapshot m)" "audited c h m \<Longrightarrow> audited c h (publish_legacy m)"
  "audited c h m \<Longrightarrow> audited c h (publish_managed_not_ready m)"
  by (auto simp: publishers intro!: audited_publish)

lemma audited_release [simp]: "audited NoClient (Some l) m \<Longrightarrow> audited NoClient None (release_exact l m)"
  by (auto simp: release_exact_def intro!: audited_act)

lemma release_fields [simp]:
  "tl_snapshot (release_exact l m) = tl_snapshot m" "tl_active (release_exact l m) = tl_active m"
  "tl_replacement (release_exact l m) = tl_replacement m" "tl_legacy (release_exact l m) = tl_legacy m"
  "tl_phase (release_exact l m) = tl_phase m"
  by (simp_all add: release_exact_def)

lemma named_update [simp]:
  "named (m\<lparr>tl_legacy := l\<rparr>) = named m" "named (m\<lparr>tl_phase := p\<rparr>) = named m" "named (m\<lparr>tl_retry := d\<rparr>) = named m"
  "named (m\<lparr>tl_active := a\<rparr>) = named m" "named (m\<lparr>tl_replacement := None\<rparr>)"
  by (simp_all add: named_def)

lemma stopped_clean: "audited NoClient None m \<Longrightarrow> \<not> ts_ready (tl_snapshot m) \<Longrightarrow> loop_inv (stop_loop m)"
  by (auto simp: loop_inv_def stop_loop_def)

text \<open>Stopping a client that runs: the snapshot is cleared first, and the client is gone or lost.\<close>

lemma stop_client_running:
  assumes "audited ClientRuns h m" "stop_client events True m = (converged, m')"
  shows "audited (if converged then NoClient else ClientLost) h m'" "tl_snapshot m' = empty_snapshot"
    "tl_active m' = tl_active m" "tl_replacement m' = tl_replacement m" "tl_legacy m' = tl_legacy m" "tl_phase m' = tl_phase m"
  using assms by (auto simp: stop_client_def Let_def intro!: audited_act)

lemma stop_client_none:
  "stop_client events False m = (converged, m') \<Longrightarrow> converged \<and> m' = clear_snapshot m"
  by (simp add: stop_client_def)

lemma release_replacement_idle:
  assumes "idle m"
  shows "audited NoClient None (release_replacement m)" "\<not> ts_ready (tl_snapshot (release_replacement m))"
    "tl_phase (release_replacement m) = tl_phase m" "tl_legacy (release_replacement m) = tl_legacy m"
    "tl_active (release_replacement m) = None"
  using assms by (auto simp: release_replacement_def idle_def split: option.splits)

lemma idle_keeps [simp]:
  "idle m \<Longrightarrow> idle (act (Logs s) m)" "idle m \<Longrightarrow> idle (act FetchesConfig m)" "idle m \<Longrightarrow> idle (act (Prepares s) m)"
  "idle m \<Longrightarrow> idle (act (Waits d w) m)" "idle m \<Longrightarrow> idle (publish_managed_not_ready m)" "idle m \<Longrightarrow> idle (publish_legacy m)"
  "idle m \<Longrightarrow> idle (clear_snapshot m)" "idle m \<Longrightarrow> idle (m\<lparr>tl_retry := r\<rparr>)" "idle m \<Longrightarrow> idle (m\<lparr>tl_legacy := l\<rparr>)"
  by (simp_all add: idle_def named_def)

lemma idle_released: "idle m \<Longrightarrow> idle ((release_replacement m)\<lparr>tl_replacement := None\<rparr>)"
  using release_replacement_idle[of m] by (simp add: idle_def named_def)

lemma idle_no_replacement: "audited NoClient None m \<Longrightarrow> \<not> ts_ready (tl_snapshot m) \<Longrightarrow> tl_active m = None \<Longrightarrow>
    idle (m\<lparr>tl_replacement := None\<rparr>)"
  by (simp add: idle_def named_def)

lemma wait_retry_inv:
  assumes "idle m" "tl_phase m = Looping" "\<not> tl_legacy m"
  shows "loop_inv (wait_retry env outcome m)"
proof -
  have i: "idle (act (Waits (tl_retry m) outcome) m)" using assms(1) by simp
  note r = release_replacement_idle[OF i]
  show ?thesis
  proof (cases outcome)
    case WaitElapsed
    with assms i show ?thesis by (simp add: wait_retry_def loop_inv_def Let_def idle_def named_def)
  next
    case (WaitFailed ctx_done)
    show ?thesis
    proof (cases ctx_done)
      case True
      with WaitFailed r show ?thesis by (auto simp: wait_retry_def loop_inv_def Let_def)
    next
      case False
      have "\<exists>c h. audited c h (act (Waits (tl_retry m) outcome) m) \<and> c \<noteq> ClientRuns" using i by (auto simp: idle_def)
      with WaitFailed False i show ?thesis by (auto simp: wait_retry_def loop_inv_def Let_def idle_def)
    qed
  qed
qed

lemma valid_lease_named: "valid_transport_lease d l now \<Longrightarrow> tlr_lease_id l \<noteq> []"
  by (auto simp: valid_transport_lease_def Let_def split: if_splits)

lemma replacement_identity_of [simp]: "replacement_identity (replacement_of l) = lease_identity_of l"
  by (simp add: replacement_identity_def replacement_of_def lease_identity_of_def)

lemma ready_snapshot_fields [simp]:
  "ts_ready (ready_snapshot d l)" "ts_lease_id (ready_snapshot d l) = tlr_lease_id l"
  "ts_generation (ready_snapshot d l) = tlr_generation l"
  by (simp_all add: ready_snapshot_def)

text \<open>After a client that failed has gone: idle again, with the lease given back or kept as suspect.\<close>

lemma idle_suspect:
  assumes "audited NoClient (Some (lease_identity_of l)) m" "\<not> ts_ready (tl_snapshot m)" "tl_active m = None"
    "tlr_lease_id l \<noteq> []"
  shows "idle (m\<lparr>tl_replacement := Some (replacement_of l)\<rparr>)"
  using assms by (simp add: idle_def named_def) (simp add: replacement_of_def)

lemma run_lease_inv:
  assumes a: "audited NoClient (Some (lease_identity_of lease)) m" and n: "\<not> ts_ready (tl_snapshot m)"
    and m: "tl_active m = None" "tl_phase m = Looping" "\<not> tl_legacy m"
    and v: "valid_transport_lease desired lease now" "dt_managed desired"
  shows "loop_inv (run_lease env inp desired lease m)"
proof -
  let ?h = "Some (lease_identity_of lease)"
  let ?r = "act (StartsClient (proxy_config env desired lease)) m"
  note named = valid_lease_named[OF v(1)]
  obtain started result m1 where s: "start_client env (ri_start inp) desired lease m = (started, result, m1)"
    by (metis surj_pair)
  have runs: "audited ClientRuns ?h ?r" using a by (auto intro!: audited_act)
  have fields: "tl_active m1 = None" "tl_phase m1 = Looping" "\<not> tl_legacy m1"
    using s m by (auto simp: start_client_def Let_def split: if_splits client_start.splits)
  have off: "\<not> started \<Longrightarrow> m1 = m" "result = StartReady \<Longrightarrow> started \<and> m1 = publish (ready_snapshot desired lease) ?r"
    "started \<Longrightarrow> result \<noteq> StartReady \<Longrightarrow> m1 = ?r" "\<not> started \<Longrightarrow> result = StartBootstrapUnavailable"
    using s by (auto simp: start_client_def Let_def split: if_splits client_start.splits)
  show ?thesis
  proof (cases "result = StartReady")
    case True
    with off have "audited ClientRuns ?h m1" "tl_snapshot m1 = ready_snapshot desired lease"
      using runs by (auto intro!: audited_publish simp: lease_identity_of_def)
    with True s fields v show ?thesis by (auto simp: run_lease_def loop_inv_def serves_def)
  next
    case False
    obtain conv m2 where st: "stop_client (ri_stop inp) started m1 = (conv, m2)" by (metis surj_pair)
    have m2: "audited (if conv then NoClient else ClientLost) ?h m2" "tl_snapshot m2 = empty_snapshot" "tl_active m2 = None"
      "tl_phase m2 = Looping" "\<not> tl_legacy m2"
    proof -
      consider "started" | "\<not> started" by blast
      then have "audited (if conv then NoClient else ClientLost) ?h m2 \<and> tl_snapshot m2 = empty_snapshot \<and> tl_active m2 = None \<and>
        tl_phase m2 = Looping \<and> \<not> tl_legacy m2"
      proof cases
        case 1
        with False off runs have "audited ClientRuns ?h m1" by simp
        from stop_client_running[OF this, of "ri_stop inp" conv m2] st 1 fields show ?thesis by simp
      next
        case 2
        with stop_client_none[of "ri_stop inp" m1 conv m2] st off a fields show ?thesis by auto
      qed
      then show "audited (if conv then NoClient else ClientLost) ?h m2" "tl_snapshot m2 = empty_snapshot" "tl_active m2 = None"
        "tl_phase m2 = Looping" "\<not> tl_legacy m2" by auto
    qed
    show ?thesis
    proof (cases conv)
      case False
      with m2 s st \<open>result \<noteq> StartReady\<close> show ?thesis
        by (cases result) (auto simp: run_lease_def loop_inv_def park_def stop_loop_def)
    next
      case True
      with m2 have a2: "audited NoClient ?h m2" by simp
      then have rel: "audited NoClient None (release_exact (lease_identity_of lease) (publish_managed_not_ready m2))"
        by simp
      have "idle ((release_exact (lease_identity_of lease) (publish_managed_not_ready m2))\<lparr>tl_replacement := None\<rparr>)"
        using rel m2 by (intro idle_no_replacement) simp_all
      moreover have "idle ((publish_managed_not_ready m2)\<lparr>tl_replacement := Some (replacement_of lease)\<rparr>)"
        using a2 m2 named by (intro idle_suspect) simp_all
      moreover have "loop_inv (stop_loop (release_exact (lease_identity_of lease) m2))"
        using a2 m2 by (intro stopped_clean) simp_all
      ultimately show ?thesis using True s st \<open>result \<noteq> StartReady\<close> m2
        by (cases result) (auto simp: run_lease_def intro!: wait_retry_inv)
    qed
  qed
qed

lemma request_lease_inv:
  assumes i: "idle m" and m: "tl_phase m = Looping" "\<not> tl_legacy m" and d: "dt_managed desired"
    and r: "\<And>r. tl_replacement m = Some r \<Longrightarrow> rp_generation r = dt_generation desired"
  shows "loop_inv (request_lease env inp desired m)"
proof -
  let ?m = "act (RequestsLease (lease_request env desired (tl_replacement m))) m"
  have h: "map_option replacement_identity (tl_replacement m) =
      (let q = lease_request env desired (tl_replacement m)
       in if tlq_lease_id q = [] then None else Some (tlq_lease_id q, tlq_generation q))"
    using i r by (auto simp: lease_request_def idle_def named_def replacement_identity_def Let_def split: option.splits)
  have "audited NoClient (map_option replacement_identity (tl_replacement m)) ?m"
  proof (rule audited_act)
    show "audited NoClient (map_option replacement_identity (tl_replacement m)) m" using i by (simp add: idle_def)
  qed (use h[unfolded Let_def] in \<open>simp_all only: audit_step.simps audit.select_convs simp_thms if_True transport_action.distinct\<close>)
  with i have i': "idle ?m" by (simp add: idle_def named_def)
  have "audited NoClient (Some (lease_identity_of lease)) (act (ObtainsLease lease) ?m)" for lease
    by (rule audited_act[where c = NoClient and h = "map_option replacement_identity (tl_replacement m)"])
      (use i' in \<open>simp_all add: idle_def\<close>)
  moreover have "tl_active m = None" "\<not> ts_ready (tl_snapshot m)" using i by (simp_all add: idle_def)
  ultimately show ?thesis using i' m d
    by (auto simp: request_lease_def Let_def intro!: run_lease_inv wait_retry_inv split: option.splits)
qed

lemma connect_inv:
  assumes i: "idle m" and m: "tl_phase m = Looping" "\<not> tl_legacy m"
  shows "loop_inv (connect_transport env inp fetched m)"
proof (cases fetched)
  case None
  with assms show ?thesis by (auto simp: connect_transport_def intro!: wait_retry_inv)
next
  case (Some desired)
  show ?thesis
  proof (cases "dt_managed desired")
    case False
    have "idle (publish_legacy ((release_replacement m)\<lparr>tl_replacement := None\<rparr>))" using idle_released[OF i] by simp
    moreover have "tl_phase (release_replacement m) = Looping" using release_replacement_idle[OF i] m by simp
    ultimately show ?thesis using Some False
      by (auto simp: connect_transport_def loop_inv_def) (auto simp: idle_def)
  next
    case True
    let ?p = "publish_managed_not_ready m"
    let ?q = "if te_has_prepare env then act (Prepares (bs_llama_swap_token (dt_bootstrap desired))) ?p else ?p"
    have q: "idle ?q" "tl_phase ?q = Looping" "\<not> tl_legacy ?q" "tl_replacement ?q = tl_replacement m"
      using i m by simp_all
    let ?rel = "(release_replacement ?q)\<lparr>tl_replacement := None\<rparr>"
    have rel: "idle ?rel" "tl_phase ?rel = Looping" "\<not> tl_legacy ?rel" "tl_replacement ?rel = None"
      using idle_released[OF q(1)] release_replacement_idle[OF q(1)] q by auto
    have stopped: "loop_inv (stop_loop ?rel)"
      using rel by (intro stopped_clean) (simp_all add: idle_def)
    have req: "loop_inv (request_lease env inp desired ?rel)" using rel True by (intro request_lease_inv) auto
    have eq: "connect_transport env inp fetched m =
      (if \<not> (te_has_prepare env \<and> ri_prepared inp) then wait_retry env (ri_retry inp) (act (Logs preparation_unavailable) ?q)
       else case tl_replacement ?q of
              None \<Rightarrow> request_lease env inp desired ?q
            | Some r \<Rightarrow> if rp_generation r = dt_generation desired then request_lease env inp desired ?q
                       else if ri_cancelled inp then stop_loop ?rel else request_lease env inp desired ?rel)"
      unfolding connect_transport_def Some option.case Let_def using True by (simp only: simp_thms if_False)
    have "loop_inv (wait_retry env (ri_retry inp) (act (Logs preparation_unavailable) ?q))"
      using q by (intro wait_retry_inv) simp_all
    moreover have "loop_inv (request_lease env inp desired ?q)"
      if "\<And>r. tl_replacement ?q = Some r \<Longrightarrow> rp_generation r = dt_generation desired"
      using q True that by (intro request_lease_inv) blast+
    ultimately show ?thesis unfolding eq using stopped req
      by (cases "tl_replacement ?q") auto
  qed
qed

section \<open>With an active transport\<close>

lemma loop_inv_signal [simp]:
  "loop_inv (m\<lparr>tl_invalidations := i\<rparr>) = loop_inv m" "loop_inv (m\<lparr>tl_signal := s\<rparr>) = loop_inv m"
  by (simp_all add: loop_inv_def idle_def named_def split: loop_phase.split option.split)

lemma invalidate_keeps [simp]:
  "loop_inv (invalidate_transport_lease l m) = loop_inv m" "tl_phase (invalidate_transport_lease l m) = tl_phase m"
  "tl_active (invalidate_transport_lease l m) = tl_active m" "tl_log (invalidate_transport_lease l m) = tl_log m"
  "tl_legacy (invalidate_transport_lease l m) = tl_legacy m" "tl_snapshot (invalidate_transport_lease l m) = tl_snapshot m"
  by (simp_all add: invalidate_transport_lease_def)

lemma fold_invalidate_keeps [simp]:
  "loop_inv (fold invalidate_transport_lease ls m) = loop_inv m"
  "tl_phase (fold invalidate_transport_lease ls m) = tl_phase m"
  "tl_active (fold invalidate_transport_lease ls m) = tl_active m"
  "tl_legacy (fold invalidate_transport_lease ls m) = tl_legacy m"
  by (induction ls arbitrary: m) simp_all

lemma active_running:
  assumes "loop_inv m" "tl_phase m = Looping" "tl_active m = Some a"
  shows "audited ClientRuns (Some (lease_identity_of (at_lease a))) m" "tlr_lease_id (at_lease a) \<noteq> []"
    "tl_replacement m = None" "\<not> tl_legacy m"
  using assms valid_lease_named by (auto simp: loop_inv_def serves_def)

lemma idle_inv: "idle m \<Longrightarrow> tl_phase m = Looping \<Longrightarrow> tl_replacement m = None \<or> \<not> tl_legacy m \<Longrightarrow> loop_inv m"
  by (auto simp: loop_inv_def idle_def)

lemma parked_inv: "audited ClientLost h m \<Longrightarrow> \<not> ts_ready (tl_snapshot m) \<Longrightarrow> loop_inv (park m)"
  "audited ClientLost h m \<Longrightarrow> \<not> ts_ready (tl_snapshot m) \<Longrightarrow> loop_inv (stop_loop m)"
  by (auto simp: loop_inv_def park_def stop_loop_def)

lemma drop_active_inv:
  assumes "loop_inv m" "tl_phase m = Looping" "tl_active m = Some a" "drop_active env inp a m = (ok, m')"
  shows "if ok then idle m' \<and> tl_phase m' = Looping \<and> tl_replacement m' = None \<and> \<not> tl_legacy m' else loop_inv m'"
proof -
  obtain conv m1 where s: "stop_client (ri_stop inp) True m = (conv, m1)" by (metis surj_pair)
  note r = stop_client_running[OF active_running(1)[OF assms(1-3)] s]
  show ?thesis
  proof (cases conv)
    case True
    with r(1) have "audited NoClient None (release_exact (lease_identity_of (at_lease a)) m1)" by simp
    with True r assms(2,4) s active_running(4)[OF assms(1-3)] show ?thesis
      by (auto simp: drop_active_def idle_def named_def)
  next
    case False
    with r s assms(4) show ?thesis by (auto simp: drop_active_def intro!: parked_inv)
  qed
qed

lemma shut_down_inv:
  assumes "loop_inv m" "tl_phase m = Looping" "tl_active m = Some a"
  shows "loop_inv (shut_down inp a m)"
proof -
  obtain conv m1 where s: "stop_client (ri_stop inp) True m = (conv, m1)" by (metis surj_pair)
  note r = stop_client_running[OF active_running(1)[OF assms] s]
  show ?thesis
  proof (cases conv)
    case True
    with r have "loop_inv (stop_loop (release_exact (lease_identity_of (at_lease a)) m1))" by (intro stopped_clean) simp_all
    with True s show ?thesis by (simp add: shut_down_def)
  next
    case False
    with r s show ?thesis by (auto simp: shut_down_def intro!: parked_inv)
  qed
qed

lemma client_exited_inv:
  assumes "loop_inv m" "tl_phase m = Looping" "tl_active m = Some a"
  shows "loop_inv (client_exited env inp a m)"
proof -
  obtain conv m1 where s: "stop_client (ri_stop inp) True m = (conv, m1)" by (metis surj_pair)
  note r = stop_client_running[OF active_running(1)[OF assms] s]
  show ?thesis
  proof (cases conv)
    case True
    have "idle (m1\<lparr>tl_active := None, tl_replacement := Some (replacement_of (at_lease a))\<rparr>)"
      using r True active_running(2)[OF assms] by (intro idle_suspect) simp_all
    moreover have "m1\<lparr>tl_active := None, tl_replacement := Some (replacement_of (at_lease a))\<rparr> =
        m1\<lparr>tl_replacement := Some (replacement_of (at_lease a)), tl_active := None\<rparr>" by simp
    ultimately show ?thesis using True s r assms(2) active_running(4)[OF assms]
      by (auto simp: client_exited_def intro!: wait_retry_inv)
  next
    case False
    with r s show ?thesis by (auto simp: client_exited_def intro!: parked_inv)
  qed
qed

lemma active_act:
  assumes "loop_inv m" "tl_phase m = Looping" "tl_active m = Some a"
  shows "loop_inv (act FetchesConfig m)" "loop_inv (act (Logs s) m)" "loop_inv (act (Waits d w) m)"
  using assms active_running[OF assms] by (simp_all add: loop_inv_def)

lemma examine_signal_inv:
  assumes "loop_inv m" "tl_phase m = Looping" "tl_active m = Some a"
  shows "loop_inv (examine_signal env inp a late m)"
proof -
  obtain found m1 where t: "take_invalidation_for (lease_identity_of (at_lease a))
      (fold invalidate_transport_lease late (m\<lparr>tl_signal := False\<rparr>)) = (found, m1)" by (metis surj_pair)
  then have m1: "loop_inv m1" "tl_phase m1 = Looping" "tl_active m1 = Some a"
    using assms by (auto simp: take_invalidation_for_def)
  obtain ok m2 where d: "drop_active env inp a m1 = (ok, m2)" by (metis surj_pair)
  from drop_active_inv[OF m1 d] show ?thesis using t d m1
    by (cases ok) (auto simp: examine_signal_def intro!: idle_inv)
qed

lemma poll_active_inv:
  assumes "loop_inv m" "tl_phase m = Looping" "tl_active m = Some a"
  shows "loop_inv (poll_active env inp a m)"
proof -
  let ?m = "act FetchesConfig m"
  have m: "loop_inv ?m" "tl_phase ?m = Looping" "tl_active ?m = Some a" using active_act[OF assms] assms by simp_all
  obtain ok m2 where d: "drop_active env inp a ?m = (ok, m2)" by (metis surj_pair)
  have legacy: "idle m2 \<Longrightarrow> tl_phase m2 = Looping \<Longrightarrow> tl_replacement m2 = None \<Longrightarrow> loop_inv ((publish_legacy m2)\<lparr>tl_legacy := True\<rparr>)"
    by (intro idle_inv) simp_all
  show ?thesis
  proof (cases "fetch_desired env (ri_config inp)")
    case None
    with active_act(2)[OF m] show ?thesis by (simp add: poll_active_def)
  next
    case (Some desired)
    with drop_active_inv[OF m d] d m legacy show ?thesis
      by (cases ok) (auto simp: poll_active_def Let_def idle_inv)
  qed
qed

lemma run_active_inv:
  assumes "loop_inv m" "tl_phase m = Looping" "tl_active m = Some a"
  shows "loop_inv (run_active env inp a m)"
proof (cases "ri_event inp")
  case (PollFinished outcome)
  let ?m = "act (Waits (poll_interval env) outcome) m"
  have "loop_inv ?m" "tl_phase ?m = Looping" "tl_active ?m = Some a" using active_act[OF assms] assms by simp_all
  with PollFinished show ?thesis
    by (auto simp: run_active_def Let_def poll_active_inv shut_down_inv split: wait_outcome.split)
qed (simp_all add: run_active_def shut_down_inv[OF assms] client_exited_inv[OF assms] examine_signal_inv[OF assms])

lemma legacy_round_inv:
  assumes "loop_inv m" "tl_phase m = Looping" "tl_legacy m"
  shows "loop_inv (legacy_round env inp m)"
proof -
  have i: "idle m" "tl_replacement m = None" "tl_active m = None"
    using assms by (auto simp: loop_inv_def idle_def split: option.splits)
  let ?m = "act (Waits (poll_interval env) (ri_poll inp)) m"
  have w: "idle ?m" using i by simp
  have "loop_inv (stop_loop (clear_snapshot ?m))" using w i by (intro stopped_clean) (simp_all add: idle_def)
  moreover have "loop_inv (act FetchesConfig ?m)" "loop_inv (act (Logs s) (act FetchesConfig ?m))" for s
    using w i assms by (auto intro!: idle_inv)
  moreover have "loop_inv (connect_transport env inp d (publish_managed_not_ready ((act FetchesConfig ?m)\<lparr>tl_legacy := False\<rparr>)))" for d
    using w assms by (intro connect_inv) simp_all
  ultimately show ?thesis by (auto simp: legacy_round_def Let_def split: option.split)
qed

lemma transport_round_inv:
  assumes "loop_inv m"
  shows "loop_inv (transport_round env inp m)"
proof (cases "tl_phase m = Looping \<and> \<not> tl_legacy m \<and> tl_active m = None")
  case True
  then have "idle (act FetchesConfig m)" using assms by (simp add: loop_inv_def)
  with True show ?thesis by (simp add: transport_round_def connect_inv)
next
  case False
  with assms show ?thesis
    by (auto simp: transport_round_def legacy_round_inv run_active_inv split: option.split)
qed

lemma start_inv: "start_loop env = Some m \<Longrightarrow> loop_inv m"
  by (auto simp: start_loop_def loop_inv_def idle_def named_def audited_def audit_log_def clear_snapshot_def publish_def
      act_def split: if_splits)

lemma reachable_inv: "transport_reachable env m \<Longrightarrow> loop_inv m"
  by (induction rule: transport_reachable.induct) (auto simp: start_inv transport_round_inv elim!: transport_step.cases)

section \<open>What the log shows\<close>

lemma audit_from_append:
  "audit_from a (xs @ ys) = (case audit_from a xs of None \<Rightarrow> None | Some a' \<Rightarrow> audit_from a' ys)"
  by (induction xs arbitrary: a) (auto split: option.splits)

lemma audit_step_client:
  assumes "audit_step a x = Some a'"
  shows "au_client a = ClientLost \<Longrightarrow> au_client a' = ClientLost"
    "au_client a' = ClientLost \<Longrightarrow> au_client a = ClientLost \<or> x = StopsClient False"
    "au_client a = ClientRuns \<Longrightarrow> au_client a' \<noteq> NoClient \<or> x = StopsClient True"
  using assms by (cases x; auto split: if_splits)+

lemma audit_lost:
  "audit_from a xs = Some a' \<Longrightarrow> au_client a' = ClientLost \<Longrightarrow> au_client a = ClientLost \<or> StopsClient False \<in> set xs"
proof (induction xs arbitrary: a)
  case (Cons x xs)
  then show ?case using audit_step_client(2)[of a x] by (auto split: option.splits)
qed simp

lemma audit_after_lost:
  assumes "audit_from a xs = Some a'" "au_client a = ClientLost" "x \<in> set xs"
  shows "(\<forall>r. x \<noteq> RequestsLease r) \<and> (\<forall>c. x \<noteq> StartsClient c) \<and> (\<forall>l. x \<noteq> ReleasesLease l)"
  using assms
proof (induction xs arbitrary: a)
  case (Cons y ys)
  then obtain b where b: "audit_step a y = Some b" "audit_from b ys = Some a'" by (auto split: option.splits)
  with Cons.prems audit_step_client(1)[OF b(1)] have "au_client b = ClientLost" by simp
  moreover have "(\<forall>r. y \<noteq> RequestsLease r) \<and> (\<forall>c. y \<noteq> StartsClient c) \<and> (\<forall>l. y \<noteq> ReleasesLease l)"
    using b(1) Cons.prems(2) by auto
  ultimately show ?case using Cons.IH[OF b(2)] Cons.prems(3) by auto
qed simp

lemma audit_runs_until_stopped:
  assumes "audit_from a xs = Some a'" "au_client a \<noteq> NoClient" "au_client a' = NoClient"
  shows "StopsClient True \<in> set xs"
  using assms
proof (induction xs arbitrary: a)
  case (Cons x xs)
  then obtain b where b: "audit_step a x = Some b" "audit_from b xs = Some a'" by (auto split: option.splits)
  show ?case
  proof (cases "au_client b = NoClient")
    case True
    then show ?thesis using audit_step_client[OF b(1)] Cons.prems(2) by (cases "au_client a") auto
  next
    case False
    with Cons.IH[OF b(2)] Cons.prems(3) show ?thesis by simp
  qed
qed simp

lemma reachable_audited:
  assumes "transport_reachable env m"
  obtains a where "audit_log (tl_log m) = Some a" "au_ready a = ts_ready (tl_snapshot m)"
  using reachable_inv[OF assms]
  by (auto simp: loop_inv_def idle_def audited_def split: loop_phase.splits option.splits)

text \<open>
  A snapshot that says ready is backed: whenever the published snapshot is ready, the manager is looping with
  an active transport, the snapshot is that transport's (address, token, lease, generation), its lease was checked
  against the configuration, and its port is the one of the lease's slot within the configured range.
\<close>

theorem ready_snapshot_backed:
  assumes "transport_reachable env m" "ts_ready (tl_snapshot m)"
  shows "tl_phase m = Looping \<and> (\<exists>a. tl_active m = Some a \<and>
    tl_snapshot m = ready_snapshot (at_desired a) (at_lease a) \<and> dt_managed (at_desired a) \<and>
    tlr_generation (at_lease a) = dt_generation (at_desired a) \<and>
    tlr_remote_port (at_lease a) = bs_port_start (dt_bootstrap (at_desired a)) + tlr_slot (at_lease a) \<and>
    tlr_remote_port (at_lease a) \<in> {bs_port_start (dt_bootstrap (at_desired a))..bs_port_end (dt_bootstrap (at_desired a))})"
  using reachable_inv[OF assms(1)] assms(2)
  by (auto simp: loop_inv_def idle_def serves_def valid_transport_lease_def Let_def
      split: loop_phase.splits option.splits if_splits)



section \<open>An example run\<close>

definition example_bootstrap :: bootstrap where
  "example_bootstrap = \<lparr>bs_type = ''frp_tcp'', bs_server_addr = ''10.0.0.1'', bs_server_port = 7000, bs_auth_token = ''s'',
     bs_port_start = 2000, bs_port_end = 2010, bs_lease_ttl_seconds = 180, bs_llama_swap_token = ''l''\<rparr>"

definition example_transport_env :: transport_env where
  "example_transport_env = \<lparr>te_agent_id = ''w'', te_tags = [''gpu''], te_agent_token = ''t'', te_swap_port = 6006,
     te_has_gateway = True, te_has_factory = True, te_has_prepare = True, te_poll_interval = 0, te_retry_min = 0,
     te_retry_max = 0, te_crypto = toy_crypto\<lparr>co_of_json := \<lambda>j. Some example_bootstrap\<rparr>,
     te_sha256 = \<lambda>s. replicate 32 0\<rparr>"

definition example_response :: agent_config_response where
  "example_response = \<lparr>acr_config_revision = 1, acr_desired_model_dirs = None, acr_oss = \<lparr>oss_base_url = []\<rparr>,
     acr_models = [], acr_tag_policy = \<lparr>atp_tag = [], atp_allowed_models = [], atp_warm_when_idle = [],
       atp_worker_defaults = \<lparr>wd_max_concurrency = 0, wd_max_queue = 0\<rparr>\<rparr>,
     acr_transport = Some \<lparr>etb_generation = 7, etb_nonce = ''AAAAAAAAAAAAAAAA'', etb_ciphertext = ''AAAAAAAAAAAAAAAAAAAAAA''\<rparr>\<rparr>"

definition example_lease :: transport_lease_response where
  "example_lease = \<lparr>tlr_lease_id = ''x'', tlr_slot = 3, tlr_remote_port = 2003, tlr_generation = 7, tlr_expires_at = 100\<rparr>"

definition example_round :: "client_start \<Rightarrow> select_event \<Rightarrow> round_input" where
  "example_round started event = \<lparr>ri_poll = WaitElapsed, ri_config = Some example_response, ri_prepared = True,
     ri_cancelled = False, ri_lease = Some example_lease, ri_now = 5, ri_start = started, ri_stop = [WorkersDone, CloseDone],
     ri_retry = WaitElapsed, ri_event = event\<rparr>"

lemma example_desired:
  "fetch_desired example_transport_env (Some example_response) =
     Some \<lparr>dt_managed = True, dt_generation = 7, dt_bootstrap = example_bootstrap\<rparr>"
proof -
  have "base64_decode ''AAAAAAAAAAAAAAAA'' = Some (replicate 12 0)" "base64_decode ''AAAAAAAAAAAAAAAAAAAAAA'' = Some (replicate 16 0)"
    by code_simp+
  moreover have "normalize_transport_bootstrap example_bootstrap = Some example_bootstrap" by code_simp
  moreover have "new_bootstrap_gcm (toy_crypto\<lparr>co_of_json := f\<rparr>) tok agent g = Some (bootstrap_key (toy_crypto\<lparr>co_of_json := f\<rparr>) tok agent g)"
    for f tok agent g by (rule bootstrap_key_size) (simp add: toy_crypto_def)
  ultimately show ?thesis
    by (simp add: fetch_desired_def open_bootstrap_def example_transport_env_def example_response_def gcm_nonce_size_def
        gcm_overhead_def)
      (simp add: toy_crypto_def)
qed

lemma example_lease_valid:
  "valid_transport_lease \<lparr>dt_managed = True, dt_generation = 7, dt_bootstrap = example_bootstrap\<rparr> example_lease 5"
proof -
  have "trim_space ''x'' = ''x''" by code_simp
  then show ?thesis by (simp add: valid_transport_lease_def example_bootstrap_def example_lease_def)
qed

text \<open>The loop after its start, after a failed registration, and with an active transport.\<close>

definition example_loop :: "round_input list \<Rightarrow> transport_loop" where
  "example_loop inps = fold (transport_round example_transport_env) inps (the (start_loop example_transport_env))"

lemma example_reachable:
  "list_all (\<lambda>i. \<forall>late. ri_event i \<noteq> Signalled late) inps \<Longrightarrow> transport_reachable example_transport_env (example_loop inps)"
proof (induction inps rule: rev_induct)
  case Nil
  show ?case by (rule reach_start) (simp add: example_loop_def start_loop_def example_transport_env_def)
next
  case (snoc i inps)
  then have "transport_step example_transport_env (example_loop inps) (transport_round example_transport_env i (example_loop inps))"
    by (intro round_step) simp
  moreover have "example_loop (inps @ [i]) = transport_round example_transport_env i (example_loop inps)"
    by (simp add: example_loop_def)
  ultimately show ?case using snoc reach_step by simp
qed

lemma example_env [simp]: "te_has_gateway example_transport_env" "te_has_factory example_transport_env"
  "te_has_prepare example_transport_env"
  by (simp_all add: example_transport_env_def)

abbreviation failing_round :: round_input where
  "failing_round \<equiv> example_round (ReadyFails False) ContextDone"

abbreviation ready_round :: round_input where
  "ready_round \<equiv> example_round (BecomesReady False) ContextDone"

lemmas round_defs = example_loop_def transport_round_def start_loop_def loop_ops connect_transport_def
  request_lease_def lease_request_def run_lease_def start_client_def stop_client_def wait_retry_def example_desired
  run_active_def shut_down_def example_lease_valid Let_def

lemma example_ready: "tl_active (example_loop [ready_round]) \<noteq> None" "ts_ready (tl_snapshot (example_loop [ready_round]))"
  by (simp_all add: round_defs example_round_def)

theorem ready_snapshot_backed_witness:
  "\<exists>a. tl_active (example_loop [ready_round]) = Some a \<and>
     tl_snapshot (example_loop [ready_round]) = ready_snapshot (at_desired a) (at_lease a)"
  using ready_snapshot_backed[OF example_reachable example_ready(2)] by (auto simp: example_round_def)

text \<open>A run that starts a client twice, cut at the two starts.\<close>

lemma example_lease_fields [simp]: "tlr_lease_id example_lease = ''x''" "tlr_slot example_lease = 3"
  "tlr_generation example_lease = 7"
  by (simp_all add: example_lease_def)

lemma example_two_starts:
  "\<exists>c. tl_log (example_loop [failing_round, ready_round]) ! 6 = StartsClient c"
  "\<exists>d. tl_log (example_loop [failing_round, ready_round]) ! 17 = StartsClient d"
  "length (tl_log (example_loop [failing_round, ready_round])) = 19"
  by (simp_all add: round_defs example_round_def replacement_of_def)

lemma cut_twice:
  assumes "i < j" "j < length xs"
  shows "xs = take i xs @ xs ! i # take (j - Suc i) (drop (Suc i) xs) @ xs ! j # drop (Suc j) xs"
proof -
  have "drop (Suc i) xs = take (j - Suc i) (drop (Suc i) xs) @ drop j xs"
    using assms by (metis Suc_leI append_take_drop_id drop_drop le_add_diff_inverse2)
  then show ?thesis using assms id_take_nth_drop[of i xs] Cons_nth_drop_Suc[of j xs] by simp
qed


lemma example_shutdown:
  "tl_phase (example_loop [ready_round, ready_round]) = Stopped"
  "StopsClient False \<notin> set (tl_log (example_loop [ready_round, ready_round]))"
  "Waits d (WaitFailed False) \<notin> set (tl_log (example_loop [ready_round, ready_round]))"
  by (simp_all add: round_defs example_round_def)


section \<open>The name of the tunnel\<close>

lemma length_nat_digits: "n < 10 ^ k \<Longrightarrow> 0 < k \<Longrightarrow> length (nat_digits n) \<le> k"
proof (induction k arbitrary: n)
  case (Suc k)
  show ?case
  proof (cases "n < 10")
    case True
    then show ?thesis by (subst nat_digits.simps) simp
  next
    case False
    with Suc.prems have "n div 10 < 10 ^ k" "0 < k"
      by (auto simp: less_mult_imp_div_less mult.commute) (cases k; simp)
    with Suc.IH[of "n div 10"] False show ?thesis by (subst nat_digits.simps) simp
  qed
qed simp

lemma hex_bytes_chars:
  assumes "\<And>b. b \<in> set bs \<Longrightarrow> b < 256" "c \<in> set (hex_bytes bs)"
  shows "name_char c" "c \<noteq> CHR ''g''"
proof -
  have "\<forall>n < 16. name_char (hex_digit n) \<and> hex_digit n \<noteq> CHR ''g''" by code_simp
  then have h: "n < 16 \<Longrightarrow> name_char (hex_digit n) \<and> hex_digit n \<noteq> CHR ''g''" for n by blast
  from assms obtain b where "b < 256" "c = hex_digit (b div 16) \<or> c = hex_digit (b mod 16)"
    by (auto simp: hex_bytes_def)
  moreover from this have "b div 16 < 16" "b mod 16 < 16" by simp_all
  ultimately show "name_char c" "c \<noteq> CHR ''g''" using h[of "b div 16"] h[of "b mod 16"] by auto
qed

lemma length_hex_bytes [simp]: "length (hex_bytes bs) = 2 * length bs"
  by (induction bs) (simp_all add: hex_bytes_def)

lemma digits_name: "c \<in> set (itoa (int n)) \<Longrightarrow> name_char c \<and> c \<noteq> CHR ''g''"
  using nat_digits_digit[of c n] by (auto simp: itoa_def name_char_def byte_def)

lemma sanitize_chars: "c \<in> set (sanitize_name out sep s) \<Longrightarrow> c \<in> set out \<or> name_char c"
proof (induction out sep s rule: sanitize_name.induct)
  case (2 out separator c' cs)
  have "name_char CHR ''-''" by (simp add: name_char_def)
  with 2 show ?case by (auto split: if_splits)
qed simp

lemma trim_dashes_subset: "set (trim_dashes_right s) \<subseteq> set s" "set (trim_dashes s) \<subseteq> set s"
  by (auto simp: trim_dashes_def trim_right_char_def trim_left_char_def dest!: set_dropWhileD)

text \<open>
  The name of a tunnel is one the tunnel server accepts and tells generations apart: it has at most 64
  characters, all of them lower-case letters, digits, underscores or dashes, and two generations of one agent
  have different names.
\<close>

theorem frp_proxy_name_bounded:
  assumes "length (sha256 agent_id) = 32" "\<And>b. b \<in> set (sha256 agent_id) \<Longrightarrow> b < 256" "g < 2 ^ 64"
  shows "length (frp_proxy_name sha256 agent_id g) \<le> 64 \<and> list_all name_char (frp_proxy_name sha256 agent_id g) \<and>
    (frp_proxy_name sha256 agent_id g = frp_proxy_name sha256 agent_id g' \<longrightarrow> g = g')"
proof -
  let ?hex = "hex_bytes (take 5 (sha256 agent_id))"
  define suffix where "suffix g = ''-'' @ ?hex @ ''-g'' @ itoa (int g)" for g
  define full where "full = (\<lambda>s. if s = [] then ''agent'' else s)
    (trim_dashes (sanitize_name [] False (to_lower (trim_space agent_id))))"
  define cut where "cut g = (let limit = 56 - length (suffix g)
     in if length full > limit then trim_dashes_right (take limit full) else full)" for g
  define ident where "ident g = (if cut g = [] then ''agent'' else cut g)" for g
  have name: "frp_proxy_name sha256 agent_id g = ''llmswap-'' @ ident g @ suffix g" for g
    by (simp add: frp_proxy_name_def suffix_def full_def cut_def ident_def proxy_name_limit_def Let_def)
  have five: "b < 256" if "b \<in> set (take 5 (sha256 agent_id))" for b
    using assms(2) in_set_takeD[OF that] by blast
  note hex = hex_bytes_chars[OF five]
  have "length (suffix g) \<le> 33"
    using length_nat_digits[of g 20] assms(1,3) by (simp add: suffix_def itoa_def)
  moreover have "length (cut g) \<le> 56 - length (suffix g)"
    by (auto simp: cut_def Let_def trim_right_char_def intro: order_trans[OF length_dropWhile_le])
  ultimately have len: "length (frp_proxy_name sha256 agent_id g) \<le> 64"
    by (auto simp: name ident_def)
  have agent: "list_all name_char ''agent''" "list_all name_char ''llmswap-''" by code_simp+
  have "list_all name_char full"
    using trim_dashes_subset(2) sanitize_chars[of _ "[]"] agent by (fastforce simp: full_def list_all_iff)
  then have "list_all name_char (cut g)"
    using trim_dashes_subset(1) by (fastforce simp: cut_def Let_def list_all_iff dest: in_set_takeD)
  then have "list_all name_char (ident g)" using agent by (simp add: ident_def)
  moreover have "list_all name_char (suffix g)"
    using hex(1) digits_name by (auto simp: suffix_def list_all_iff) (auto simp: name_char_def byte_def)
  ultimately have chars: "list_all name_char (frp_proxy_name sha256 agent_id g)" using agent by (simp add: name)
  have "takeWhile (\<lambda>c. c \<noteq> CHR ''g'') (rev (frp_proxy_name sha256 agent_id n)) = rev (itoa (int n))" for n
    using digits_name[of _ n] by (simp add: name suffix_def takeWhile_append takeWhile_eq_all_conv[THEN iffD2])
  then have "g = g'" if "frp_proxy_name sha256 agent_id g = frp_proxy_name sha256 agent_id g'"
    using that by (metis itoa_inject of_nat_eq_iff rev_is_rev_conv)
  with len chars show ?thesis by blast
qed

theorem frp_proxy_name_bounded_witness:
  "length (frp_proxy_name (\<lambda>s. replicate 32 171) ''Worker 1'' 7) \<le> 64 \<and>
   frp_proxy_name (\<lambda>s. replicate 32 171) ''Worker 1'' 7 \<noteq> frp_proxy_name (\<lambda>s. replicate 32 171) ''Worker 1'' 8"
proof -
  have "length (frp_proxy_name (\<lambda>s. replicate 32 171) ''Worker 1'' 7) \<le> 64 \<and>
    list_all name_char (frp_proxy_name (\<lambda>s. replicate 32 171) ''Worker 1'' 7) \<and>
    (frp_proxy_name (\<lambda>s. replicate 32 171) ''Worker 1'' 7 = frp_proxy_name (\<lambda>s. replicate 32 171) ''Worker 1'' 8 \<longrightarrow> (7 :: nat) = 8)"
    by (rule frp_proxy_name_bounded) auto
  then show ?thesis by simp
qed

end
