(* ===== verification/Render.thy ===== *)
theory Render
  imports Protocol
begin

text \<open>
  The llama-swap configuration that the agent writes (internal/agent/render.go): the command line of every allowed
  model, quoted for the shell. Encoding the result as YAML is the library's; the paths are those of a Unix host.
\<close>

section \<open>Quoting\<close>

abbreviation double_quote :: char where "double_quote \<equiv> CHR 0x22"
abbreviation single_quote :: char where "single_quote \<equiv> CHR 0x27"
abbreviation backslash :: char where "backslash \<equiv> CHR 0x5C"

text \<open>Text with a tilde for a double quote, a caret for a backslash and a back-tick for a single quote.\<close>

definition template :: "string \<Rightarrow> string" where
  "template = map (\<lambda>c. if c = CHR ''~'' then double_quote else if c = CHR ''^'' then backslash
     else if c = CHR 0x60 then single_quote else c)"

text \<open>\<open>strings.ReplaceAll\<close> of one character by a text.\<close>

definition replace_by :: "char \<Rightarrow> string \<Rightarrow> string \<Rightarrow> string" where
  "replace_by c new s = concat (map (\<lambda>d. if d = c then new else [d]) s)"

definition shell_arg :: "string \<Rightarrow> string" where
  "shell_arg value = single_quote # replace_by single_quote (template ''`~`~`'') value @ [single_quote]"

definition shell_join :: "string list \<Rightarrow> string" where
  "shell_join args = join_with '' '' (map shell_arg args)"

definition shell_command :: "string \<Rightarrow> string" where
  "shell_command cmd = ''/bin/sh -c '' @ single_quote # replace_by single_quote (template ''`~`~`'') cmd @ [single_quote]"

section \<open>Runtime arguments\<close>

record split_state =
  sp_out :: "string list"
  sp_current :: string
  sp_quote :: "char option"
  sp_escaped :: bool

definition split_step :: "split_state \<Rightarrow> char \<Rightarrow> split_state" where
  "split_step st c =
     (if sp_escaped st then st\<lparr>sp_current := sp_current st @ [c], sp_escaped := False\<rparr>
      else if c = backslash then st\<lparr>sp_escaped := True\<rparr>
      else case sp_quote st of
        Some q \<Rightarrow> if c = q then st\<lparr>sp_quote := None\<rparr> else st\<lparr>sp_current := sp_current st @ [c]\<rparr>
      | None \<Rightarrow>
          if c = single_quote \<or> c = double_quote then st\<lparr>sp_quote := Some c\<rparr>
          else if c = CHR '' '' \<or> c = CHR 0x09 \<or> c = CHR 0x0A \<or> c = CHR 0x0D
          then (if sp_current st \<noteq> [] then st\<lparr>sp_out := sp_out st @ [sp_current st], sp_current := []\<rparr> else st)
          else st\<lparr>sp_current := sp_current st @ [c]\<rparr>)"

definition split_start :: split_state where
  "split_start = \<lparr>sp_out = [], sp_current = [], sp_quote = None, sp_escaped = False\<rparr>"

definition split_finish :: "split_state \<Rightarrow> string list" where
  "split_finish st =
     (let current = sp_current st @ (if sp_escaped st then [backslash] else [])
      in if current \<noteq> [] then sp_out st @ [current] else sp_out st)"

definition split_runtime_arg :: "string \<Rightarrow> string list" where
  "split_runtime_arg value = split_finish (foldl split_step split_start (trim_space value))"

definition expand_runtime_args :: "string list \<Rightarrow> string list" where
  "expand_runtime_args args = concat (map split_runtime_arg args)"

section \<open>Commands\<close>

record model_command_spec =
  mc_shell :: string
  mc_argv :: "string list"

definition runtime_command :: "string \<Rightarrow> string list \<Rightarrow> model_command_spec" where
  "runtime_command binary args =
     (let argv = binary # args in \<lparr>mc_shell = ''PORT=${PORT} '' @ shell_join argv, mc_argv = argv\<rparr>)"

definition llama_cpp_model_path :: "string \<Rightarrow> artifact \<Rightarrow> string" where
  "llama_cpp_model_path model_path a =
     (if art_kind a \<noteq> ''file'' then model_path
      else let base = path_base (trim_space (art_object a))
           in if base = ''.'' \<or> base = ''/'' \<or> base = [] then model_path else path_join model_path base)"

datatype render_error = AllowedModelMissing string | UnsupportedRuntime string string

definition model_command :: "string \<Rightarrow> model \<Rightarrow> string \<Rightarrow> render_error + model_command_spec" where
  "model_command name m model_path =
     (if trim_space (m_run m) \<noteq> []
      then Inr \<lparr>mc_shell = replace_all ''{{model_path}}'' model_path (m_run m), mc_argv = []\<rparr>
      else let runtime = to_lower (trim_space (m_runtime m)); args = expand_runtime_args (elems (m_runtime_args m))
           in if runtime = ''vllm'' \<or> runtime = ''vllm-omni''
              then Inr (runtime_command ''/opt/llmswap/bin/vllm.server'' ([model_path, ''--served-model-name'', name] @ args))
              else if runtime = ''sglang''
              then Inr (runtime_command ''/opt/llmswap/bin/sglang.server'' ([model_path, ''--served-model-name'', name] @ args))
              else if runtime = ''llamacpp''
              then Inr (runtime_command ''/opt/llmswap/bin/llamacpp.server''
                     ([llama_cpp_model_path model_path (m_artifact m), ''--alias'', name] @ args))
              else Inl (UnsupportedRuntime name (m_runtime m)))"

definition runtime_log_path :: string where
  "runtime_log_path = ''/opt/llmswap/logs/model-runtime.log''"

text \<open>\<open>filepath.Dir\<close> of it.\<close>

definition log_dir :: string where
  "log_dir = ''/opt/llmswap/logs''"

definition raw_shell_script :: "string \<Rightarrow> string \<Rightarrow> string" where
  "raw_shell_script model_name cmd =
     (template ''mkdir -p '' @ log_dir @ template ''; LLMSWAP_MODEL_CMD='' @ shell_arg cmd @
       template ''; LLMSWAP_MODEL_PORT=~${PORT:-}~; if [ -z ~$LLMSWAP_MODEL_PORT~ ]; '' @
       template ''then LLMSWAP_MODEL_PORT=$(printf ~%s^n~ ~$LLMSWAP_MODEL_CMD~ | sed -n `s/.*PORT=^([0-9][0-9]*^).*/^1/p` | head -n1); '' @
       template ''fi; { printf ~===== start time=%s model=%s port=%s =====^n~ ~$(date -Is)~ '' @
       shell_arg model_name @ template '' ~$LLMSWAP_MODEL_PORT~; printf ~cmd: %s^n~ ~$LLMSWAP_MODEL_CMD~; '' @
       cmd @ template ''; rc=$?; printf ~===== exit time=%s model=%s status=%s =====^n~ ~$(date -Is)~ '' @
       shell_arg model_name @ template '' ~$rc~; exit ~$rc~; } >> '' @ runtime_log_path @ template '' 2>&1'')"

definition logged_raw_shell_command :: "string \<Rightarrow> string \<Rightarrow> string" where
  "logged_raw_shell_command model_name cmd = shell_command (raw_shell_script model_name cmd)"

definition argv_script :: string where
  "argv_script =
     (template ''model_name=$1; shift; mkdir -p '' @ log_dir @ template ''; LLMSWAP_MODEL_PORT=~${PORT}~; '' @
       template ''{ printf ~===== start time=%s model=%s port=%s =====^n~ ~$(date -Is)~ ~$model_name~ ~$LLMSWAP_MODEL_PORT~; '' @
       template ''printf ~cmd: PORT=%s~ ~$LLMSWAP_MODEL_PORT~; printf ~ %s~ ~$@~; printf ~^n~; '' @
       template ''PORT=~${PORT}~ ~$@~; rc=$?; '' @
       template ''printf ~===== exit time=%s model=%s status=%s =====^n~ ~$(date -Is)~ ~$model_name~ ~$rc~; '' @
       template ''exit ~$rc~; } >> '' @ runtime_log_path @ template '' 2>&1'')"

definition logged_argv_command :: "string \<Rightarrow> string list \<Rightarrow> string" where
  "logged_argv_command model_name argv =
     shell_join ([''/bin/sh'', ''-c'', argv_script, ''llmswap-model'', model_name] @ argv)"

definition logged_shell_command :: "string \<Rightarrow> model_command_spec \<Rightarrow> string" where
  "logged_shell_command model_name cmd =
     (if mc_argv cmd \<noteq> [] then logged_argv_command model_name (mc_argv cmd)
      else logged_raw_shell_command model_name (mc_shell cmd))"

definition default_runtime_check_endpoint :: "string \<Rightarrow> string" where
  "default_runtime_check_endpoint runtime =
     (if to_lower (trim_space runtime) = ''sglang'' then ''/model_info'' else [])"

section \<open>The configuration\<close>

record llama_swap_model =
  ls_cmd :: string
  ls_cmd_stop :: string
  ls_check_endpoint :: string
  ls_ttl :: int

record llama_swap_config =
  lsc_health_check_timeout :: int
  lsc_start_port :: int
  lsc_global_ttl :: int
  lsc_api_keys :: "string list"
  lsc_performance_enable :: bool
  lsc_performance_every :: string
  lsc_models :: "(string, llama_swap_model) gomap"

definition render_model :: "string \<Rightarrow> string \<Rightarrow> model \<Rightarrow> render_error + llama_swap_model" where
  "render_model model_root name m =
     (case model_command name m (path_join model_root (resolved_model_dir name m)) of
        Inl e \<Rightarrow> Inl e
      | Inr cmd \<Rightarrow> Inr \<lparr>ls_cmd = logged_shell_command name cmd,
          ls_cmd_stop = (if m_cmd_stop m \<noteq> [] then shell_command (m_cmd_stop m) else []),
          ls_check_endpoint = (if m_check_endpoint m \<noteq> [] then m_check_endpoint m
                               else default_runtime_check_endpoint (m_runtime m)),
          ls_ttl = m_ttl m\<rparr>)"

fun render_models ::
  "(string, model) gomap \<Rightarrow> string \<Rightarrow> string list \<Rightarrow> (string, llama_swap_model) gomap \<Rightarrow>
   render_error + (string, llama_swap_model) gomap" where
  "render_models models model_root [] out = Inr out"
| "render_models models model_root (name # names) out =
     (case map_of models name of
        None \<Rightarrow> Inl (AllowedModelMissing name)
      | Some m \<Rightarrow>
         (case render_model model_root name m of
            Inl e \<Rightarrow> Inl e
          | Inr rendered \<Rightarrow> render_models models model_root names (mput name rendered out)))"

definition render_llama_swap_config ::
  "agent_config_response \<Rightarrow> string \<Rightarrow> string \<Rightarrow> render_error + llama_swap_config" where
  "render_llama_swap_config resp model_root token =
     (case render_models (acr_models resp) model_root (atp_allowed_models (acr_tag_policy resp)) [] of
        Inl e \<Rightarrow> Inl e
      | Inr models \<Rightarrow> Inr \<lparr>lsc_health_check_timeout = 900, lsc_start_port = 10001, lsc_global_ttl = 0,
          lsc_api_keys = (if token \<noteq> [] then [token] else []), lsc_performance_enable = True,
          lsc_performance_every = ''5s'', lsc_models = models\<rparr>)"

end
