(* ===== verification/RenderFacts.thy ===== *)
theory RenderFacts
  imports Render ConfigFacts
begin

text \<open>
  The rendered commands, read by a shell. \<open>sh_words\<close> splits a command line of literal words into words as a POSIX shell
  does and refuses a line with anything a shell would expand or treat as an operator; so a line it accepts
  starts exactly the program and the arguments it gives.
\<close>

section \<open>Reading a command line\<close>

datatype sh_mode = Plain | InSingle | InDouble

definition sh_special :: "char \<Rightarrow> bool" where
  "sh_special c \<longleftrightarrow> c \<in> set ''$`;&|<>()*?[]#~=%!{}'' \<or> c = backslash \<or> c = CHR 0x0A"

fun sh_lex :: "sh_mode \<Rightarrow> string \<Rightarrow> bool \<Rightarrow> string \<Rightarrow> string list option" where
  "sh_lex Plain word started [] = Some (if started then [word] else [])"
| "sh_lex Plain word started (c # cs) =
     (if c = CHR '' '' \<or> c = CHR 0x09
      then (if started then map_option (\<lambda>ws. word # ws) (sh_lex Plain [] False cs) else sh_lex Plain [] False cs)
      else if c = single_quote then sh_lex InSingle word True cs
      else if c = double_quote then sh_lex InDouble word True cs
      else if sh_special c then None
      else sh_lex Plain (word @ [c]) True cs)"
| "sh_lex InSingle word started [] = None"
| "sh_lex InSingle word started (c # cs) =
     (if c = single_quote then sh_lex Plain word started cs else sh_lex InSingle (word @ [c]) started cs)"
| "sh_lex InDouble word started [] = None"
| "sh_lex InDouble word started (c # cs) =
     (if c = double_quote then sh_lex Plain word started cs
      else if c = CHR ''$'' \<or> c = CHR 0x60 \<or> c = backslash then None
      else sh_lex InDouble (word @ [c]) started cs)"

definition sh_words :: "string \<Rightarrow> string list option" where
  "sh_words = sh_lex Plain [] False"

lemma quoted_quote: "template ''`~`~`'' = [single_quote, double_quote, single_quote, double_quote, single_quote]"
  by (simp add: template_def)

lemma sh_lex_quoted:
  "sh_lex InSingle word True (replace_by single_quote (template ''`~`~`'') v @ single_quote # rest) =
     sh_lex Plain (word @ v) True rest"
  by (induction v arbitrary: word) (simp_all add: replace_by_def quoted_quote)

lemma sh_lex_arg: "sh_lex Plain word started (shell_arg v @ rest) = sh_lex Plain (word @ v) True rest"
  by (simp add: shell_arg_def sh_lex_quoted)

lemma join_with_Cons: "join_with sep (x # xs) = x @ concat (map (\<lambda>y. sep @ y) xs)"
  by (induction xs arbitrary: x) simp_all

lemma shell_join_Cons: "shell_join (a # args) = shell_arg a @ concat (map (\<lambda>b. CHR '' '' # shell_arg b) args)"
  by (simp add: shell_join_def join_with_Cons o_def)

lemma sh_words_join: "sh_words (shell_join args) = Some args"
proof (cases args)
  case (Cons a rest)
  have "sh_lex Plain word True (concat (map (\<lambda>b. CHR '' '' # shell_arg b) bs)) = Some (word # bs)" for word bs
    by (induction bs arbitrary: word) (simp_all add: sh_lex_arg)
  with Cons show ?thesis by (simp add: sh_words_def shell_join_Cons sh_lex_arg)
qed (simp add: sh_words_def shell_join_def)

lemma sh_words_command: "sh_words (shell_command s) = Some [''/bin/sh'', ''-c'', s]"
proof -
  have "shell_command s = ''/bin/sh -c '' @ shell_arg s @ []" by (simp add: shell_command_def shell_arg_def)
  moreover have "sh_lex Plain [] False (''/bin/sh -c '' @ shell_arg s @ []) = Some [''/bin/sh'', ''-c'', s]"
    using sh_lex_arg[of "[]" False s "[]"] by (simp add: sh_special_def)
  ultimately show ?thesis unfolding sh_words_def by (simp only:)
qed

section \<open>What is rendered\<close>

lemma render_models_result:
  "render_models models base names out = Inr result \<Longrightarrow> map_of result n =
     (if n \<in> set names then (case map_of models n of None \<Rightarrow> None
        | Some m \<Rightarrow> (case render_model base n m of Inl e \<Rightarrow> None | Inr r \<Rightarrow> Some r)) else map_of out n)"
  by (induction models base names out rule: render_models.induct) (auto split: option.splits sum.splits)

lemma render_models_defined:
  "render_models models base names out = Inr result \<Longrightarrow> n \<in> set names \<Longrightarrow>
     \<exists>m r. map_of models n = Some m \<and> render_model base n m = Inr r"
  by (induction models base names out rule: render_models.induct) (auto split: option.splits sum.splits)

lemma render_models_ok:
  "(\<And>n. n \<in> set names \<Longrightarrow> \<exists>m r. map_of models n = Some m \<and> render_model base n m = Inr r) \<Longrightarrow>
     \<exists>result. render_models models base names out = Inr result"
proof (induction names arbitrary: out)
  case (Cons n names)
  then obtain m r where "map_of models n = Some m" "render_model base n m = Inr r" by (meson list.set_intros(1))
  with Cons.IH[of "mput n r out"] Cons.prems show ?case by simp
qed simp

lemma rendered_model:
  assumes "render_llama_swap_config resp base token = Inr out"
  shows "map_of (lsc_models out) n =
    (if n \<in> set (atp_allowed_models (acr_tag_policy resp)) then (case map_of (acr_models resp) n of None \<Rightarrow> None
       | Some m \<Rightarrow> (case render_model base n m of Inl e \<Rightarrow> None | Inr r \<Rightarrow> Some r)) else None)"
    and "n \<in> set (atp_allowed_models (acr_tag_policy resp)) \<Longrightarrow>
      \<exists>m r. map_of (acr_models resp) n = Some m \<and> render_model base n m = Inr r"
  using assms render_models_result[of "acr_models resp" base "atp_allowed_models (acr_tag_policy resp)" "[]" _ n]
    render_models_defined[of "acr_models resp" base "atp_allowed_models (acr_tag_policy resp)" "[]" _ n]
  by (auto simp: render_llama_swap_config_def split: sum.splits)

text \<open>The program and its arguments that a model with a runtime is to be started with.\<close>

definition runtime_words :: "string \<Rightarrow> string \<Rightarrow> model \<Rightarrow> string list option" where
  "runtime_words base name m =
     (let path = path_join base (resolved_model_dir name m); args = expand_runtime_args (elems (m_runtime_args m));
          runtime = to_lower (trim_space (m_runtime m))
      in if runtime \<in> {''vllm'', ''vllm-omni''}
         then Some ([''/opt/llmswap/bin/vllm.server'', path, ''--served-model-name'', name] @ args)
         else if runtime = ''sglang''
         then Some ([''/opt/llmswap/bin/sglang.server'', path, ''--served-model-name'', name] @ args)
         else if runtime = ''llamacpp''
         then Some ([''/opt/llmswap/bin/llamacpp.server'', llama_cpp_model_path path (m_artifact m), ''--alias'', name] @ args)
         else None)"

lemma model_command_runtime:
  assumes "trim_space (m_run m) = []" "model_command name m (path_join base (resolved_model_dir name m)) = Inr cmd"
  shows "runtime_words base name m = Some (mc_argv cmd) \<and> mc_argv cmd \<noteq> []"
  using assms by (auto simp: model_command_def runtime_words_def runtime_command_def Let_def split: if_splits)


text \<open>
  C37. Whatever configuration the gateway accepts, the agent can render: when the models of a response are those of
  the accepted configuration, rendering the allowed ones that it defines succeeds, with one entry per allowed
  model.
\<close>

theorem accepted_config_renders:
  assumes "load_gateway decode goos raw = Inr cfg"
    "\<And>n. n \<in> set (atp_allowed_models (acr_tag_policy resp)) \<Longrightarrow>
      map_of (acr_models resp) n = map_of (gc_models cfg) n \<and> mhas (gc_models cfg) n"
  shows "\<exists>out. render_llama_swap_config resp base token = Inr out \<and>
    set (mkeys (lsc_models out)) = set (atp_allowed_models (acr_tag_policy resp))"
proof -
  obtain cfg0 where v: "validate_gateway goos cfg = None" using load_gateway_Inr[OF assms(1)] by metis
  have rendered: "\<exists>m r. map_of (acr_models resp) n = Some m \<and> render_model base n m = Inr r"
    if n: "n \<in> set (atp_allowed_models (acr_tag_policy resp))" for n
  proof -
    obtain m where m: "map_of (acr_models resp) n = Some m" "map_of (gc_models cfg) n = Some m"
      using assms(2)[OF n] by (auto simp: mhas_def)
    have "validate_model n m = None" using validate_gateway_None(4)[OF v] map_of_in_set[OF m(2)] by blast
    then have "trim_space (m_run m) \<noteq> [] \<or> trim_space (m_runtime m) \<noteq> [] \<and> valid_model_runtime (m_runtime m)"
      by (auto simp: validate_model_def)
    then have "\<exists>cmd. model_command n m (path_join base (resolved_model_dir n m)) = Inr cmd"
      by (auto simp: model_command_def valid_model_runtime_def Let_def)
    with m(1) show ?thesis by (auto simp: render_model_def)
  qed
  then obtain result where "render_models (acr_models resp) base (atp_allowed_models (acr_tag_policy resp)) [] = Inr result"
    using render_models_ok[of "atp_allowed_models (acr_tag_policy resp)" "acr_models resp" base "[]"] by blast
  then obtain out where out: "render_llama_swap_config resp base token = Inr out"
    by (simp add: render_llama_swap_config_def)
  have "set (mkeys (lsc_models out)) = set (atp_allowed_models (acr_tag_policy resp))"
    using rendered_model(1)[OF out] rendered by (auto simp: set_mkeys dom_def split: if_splits) fastforce
  with out show ?thesis by blast
qed

section \<open>Splitting what was quoted\<close>

lemma split_quoted:
  assumes "backslash \<notin> set v"
  shows "foldl split_step \<lparr>sp_out = out, sp_current = cur, sp_quote = Some single_quote, sp_escaped = False\<rparr>
      (replace_by single_quote (template ''`~`~`'') v) =
    \<lparr>sp_out = out, sp_current = cur @ v, sp_quote = Some single_quote, sp_escaped = False\<rparr>"
  using assms
  by (induction v arbitrary: cur) (auto simp: replace_by_def quoted_quote split_step_def)

lemma split_arg:
  assumes "backslash \<notin> set v"
  shows "foldl split_step \<lparr>sp_out = out, sp_current = cur, sp_quote = None, sp_escaped = False\<rparr> (shell_arg v) =
    \<lparr>sp_out = out, sp_current = cur @ v, sp_quote = None, sp_escaped = False\<rparr>"
  using split_quoted[OF assms, of out cur] by (simp add: shell_arg_def) (simp add: split_step_def)

lemma split_join:
  assumes "\<forall>v \<in> set args. backslash \<notin> set v"
  shows "split_finish (foldl split_step \<lparr>sp_out = out, sp_current = cur, sp_quote = None, sp_escaped = False\<rparr>
      (concat (map (\<lambda>b. CHR '' '' # shell_arg b) args))) = out @ filter (\<lambda>v. v \<noteq> []) (cur # args)"
  using assms
proof (induction args arbitrary: out cur)
  case (Cons a args)
  have "split_step \<lparr>sp_out = out, sp_current = cur, sp_quote = None, sp_escaped = False\<rparr> CHR '' '' =
      \<lparr>sp_out = out @ filter (\<lambda>v. v \<noteq> []) [cur], sp_current = [], sp_quote = None, sp_escaped = False\<rparr>"
    by (simp add: split_step_def)
  with Cons show ?case by (simp add: split_arg)
qed (simp add: split_finish_def)

lemma trim_runes_none:
  assumes "\<forall>r \<in> set rs. r \<noteq> [] \<longrightarrow> hd r \<noteq> byte c"
  shows "trim_runes rs (c # s) = c # s"
proof -
  have "\<not> bytes_at r (c # s)" if "r \<in> set rs" "r \<noteq> []" for r
    using assms that by (cases r) (auto simp: bytes_at_def)
  then have "find (\<lambda>r. r \<noteq> [] \<and> c # s \<noteq> [] \<and> bytes_at r (c # s)) rs = None" by (auto simp: find_None_iff)
  then show ?thesis by (subst trim_runes.simps) simp
qed

lemma shell_arg_ends: "\<exists>s. shell_arg v = single_quote # s" "\<exists>s. shell_arg v = s @ [single_quote]"
  by (auto simp: shell_arg_def)

lemma shell_join_ends:
  assumes "args \<noteq> []"
  shows "\<exists>s. shell_join args = single_quote # s" "\<exists>s. shell_join args = s @ [single_quote]"
proof -
  obtain a rest where args: "args = a # rest" using assms by (cases args) auto
  show "\<exists>s. shell_join args = single_quote # s"
    using shell_arg_ends(1)[of a] by (auto simp: args shell_join_Cons)
  show "\<exists>s. shell_join args = s @ [single_quote]"
  proof (cases rest rule: rev_cases)
    case Nil
    then show ?thesis using shell_arg_ends(2)[of a] by (simp add: args shell_join_Cons)
  next
    case (snoc bs b)
    obtain s where "shell_arg b = s @ [single_quote]" using shell_arg_ends(2)[of b] by blast
    with snoc show ?thesis by (simp add: args shell_join_Cons)
  qed
qed

lemma trim_quoted: "trim_space (shell_join args) = shell_join args"
proof (cases "args = []")
  case False
  obtain s t where s: "shell_join args = single_quote # s" and t: "shell_join args = t @ [single_quote]"
    using shell_join_ends[OF False] by blast
  have r: "\<forall>r \<in> set space_runes. r \<noteq> [] \<longrightarrow> hd r \<noteq> byte single_quote" by code_simp
  have l: "\<forall>r \<in> set (map rev space_runes). r \<noteq> [] \<longrightarrow> hd r \<noteq> byte single_quote" by code_simp
  have "trim_runes space_runes (shell_join args) = shell_join args" using trim_runes_none[OF r] s by simp
  moreover have "rev (shell_join args) = single_quote # rev t" using t by simp
  ultimately show ?thesis using trim_runes_none[OF l, of "rev t"] by (simp add: trim_space_def t)
qed (simp add: shell_join_def)

text \<open>
  Splitting a runtime argument is the inverse of quoting: arguments quoted for the shell and joined come back
  one by one, if none holds a backslash, except that an empty argument is lost.
\<close>

theorem split_inverts_quoting:
  assumes "\<forall>v \<in> set args. backslash \<notin> set v"
  shows "split_runtime_arg (shell_join args) = filter (\<lambda>v. v \<noteq> []) args"
proof (cases args)
  case (Cons a rest)
  have "split_finish (foldl split_step split_start (shell_join args)) = filter (\<lambda>v. v \<noteq> []) args"
    using assms Cons split_join[of rest "[]" a] by (simp add: shell_join_Cons split_start_def split_arg)
  then show ?thesis by (simp add: split_runtime_arg_def trim_quoted)
qed (simp add: split_runtime_arg_def shell_join_def split_start_def split_finish_def)

section \<open>Examples\<close>

definition hostile_model :: model where
  "hostile_model = example_model\<lparr>m_runtime_args := Slice [''--x '' @ shell_arg ''$(reboot); `id`''], m_cmd_stop := ''kill $PID''\<rparr>"

definition render_response :: "model \<Rightarrow> string list \<Rightarrow> agent_config_response" where
  "render_response m allowed = \<lparr>acr_config_revision = 1, acr_desired_model_dirs = None, acr_oss = \<lparr>oss_base_url = []\<rparr>,
     acr_models = [(''a'', m), (''b'', m)], acr_tag_policy = \<lparr>atp_tag = [], atp_allowed_models = allowed,
       atp_warm_when_idle = [], atp_worker_defaults = \<lparr>wd_max_concurrency = 0, wd_max_queue = 0\<rparr>\<rparr>, acr_transport = None\<rparr>"

lemma example_runtime: "to_lower (trim_space ''vllm'') = ''vllm''"
  by code_simp


theorem accepted_config_renders_witness:
  "\<exists>out. render_llama_swap_config (render_response example_model [''b'']) ''/models'' ''t'' = Inr out \<and>
     set (mkeys (lsc_models out)) = {''b''}"
  using accepted_config_renders[OF example_config_loads, of "render_response example_model [''b'']"]
  by (simp add: render_response_def example_config_def base_config_def mhas_def)

theorem split_inverts_quoting_witness:
  "split_runtime_arg (shell_join [''--json'', ''{\"a\": 1}'', [], ''it'' @ single_quote # ''s'']) =
     [''--json'', ''{\"a\": 1}'', ''it'' @ single_quote # ''s'']"
  using split_inverts_quoting[of "[''--json'', ''{\"a\": 1}'', [], ''it'' @ single_quote # ''s'']"] by simp

end
