(* ===== verification/Artifacts.thy ===== *)
theory Artifacts
  imports Protocol "HOL-Library.Word"
begin

unbundle bit_operations_syntax

text \<open>
  Installing model artifacts on a worker (internal/agent/artifacts.go). Several agents and several cycles of one agent
  may install below one model root: locks serialise the short critical sections, and a fence file per model
  directory holds the configuration revision that wins. An install is a job that takes one step per critical
  section, so other jobs run between its steps. The HTTP exchanges, the bytes of the tar reader and SHA-256
  are inputs; what goes wrong with the file system is an input too.
\<close>

section \<open>CRC-64\<close>

text \<open>\<open>hash/crc64\<close> with the ECMA polynomial, table entry by table entry, and its decimal form.\<close>

definition crc64_shift :: "64 word \<Rightarrow> 64 word" where
  "crc64_shift c = (if c AND 1 = 1 then drop_bit 1 c XOR 0xC96C5795D7870F42 else drop_bit 1 c)"

definition crc64_table :: "64 word \<Rightarrow> 64 word" where
  "crc64_table i = (crc64_shift ^^ 8) i"

definition crc64_update :: "64 word \<Rightarrow> char \<Rightarrow> 64 word" where
  "crc64_update c b = crc64_table ((c XOR of_nat (byte b)) AND 0xFF) XOR drop_bit 8 c"

definition crc64_ecma :: "string \<Rightarrow> string" where
  "crc64_ecma bytes = nat_digits (unat (NOT (foldl crc64_update (NOT 0) bytes)))"

section \<open>Names\<close>

type_synonym sha256 = "string \<Rightarrow> nat list"

definition artifact_lock_name :: "sha256 \<Rightarrow> artifact \<Rightarrow> string" where
  "artifact_lock_name sha a =
     hex_bytes (sha (art_kind a @ [CHR 0x00] @ art_object a @ [CHR 0x00] @ art_crc64ecma a))"

abbreviation artifact_fingerprint :: "sha256 \<Rightarrow> artifact \<Rightarrow> string" where
  "artifact_fingerprint \<equiv> artifact_lock_name"

definition removed_artifact_fingerprint :: "sha256 \<Rightarrow> string" where
  "removed_artifact_fingerprint sha = hex_bytes (sha ''removed'')"

definition model_dir_lock_name_for_os :: "sha256 \<Rightarrow> string \<Rightarrow> string \<Rightarrow> string" where
  "model_dir_lock_name_for_os sha dir goos = ''model-dir-'' @ hex_bytes (sha (model_dir_identity_for_os dir goos))"

definition artifact_url :: "string \<Rightarrow> string \<Rightarrow> string" where
  "artifact_url base object = trim_right_char CHR ''/'' base @ ''/'' @ trim_left_char CHR ''/'' object"

text \<open>The base name of an object, when it has one; files are named relative to the model root.\<close>

definition base_filename :: "artifact \<Rightarrow> string option" where
  "base_filename a =
     (let f = path_base (art_object a) in if f = ''.'' \<or> f = ''/'' \<or> f = [] then None else Some f)"

definition source_path :: "sha256 \<Rightarrow> artifact \<Rightarrow> string" where
  "source_path sha a = ''.locks/'' @ artifact_lock_name sha a @ ''.source''"

section \<open>The model root\<close>

record install_fence =
  fence_revision :: int
  fence_fingerprint :: string

datatype fence_file = NoFence | FenceUnreadable | FenceNotJSON | FenceFile install_fence

record marker =
  mk_model :: string
  mk_object :: string
  mk_kind :: string
  mk_crc64ecma :: string
  mk_installed_path :: string
  mk_installed_at :: time

datatype marker_file = NoMarker | MarkerUnreadable | MarkerNotJSON | MarkerFile marker

text \<open>A tree maps the components of a relative path to a directory or a file with its mode, if one was set.\<close>

datatype tree_node = DirNode | FileNode "int option" string

type_synonym file_tree = "(string list, tree_node) gomap"

record installed_dir =
  id_marker :: marker_file
  id_tree :: file_tree

datatype source_file = SourceAbsent | SourceUnreadable | SourceBytes string

record model_root =
  mr_fences :: "(string, fence_file) gomap"
  mr_dirs :: "(string, installed_dir) gomap"
  mr_sources :: "(string, source_file) gomap"

definition fence_of :: "model_root \<Rightarrow> string \<Rightarrow> fence_file" where
  "fence_of r lock = mget NoFence (mr_fences r) lock"

definition marker_of :: "model_root \<Rightarrow> string \<Rightarrow> marker_file" where
  "marker_of r dir = (case map_of (mr_dirs r) dir of None \<Rightarrow> NoMarker | Some d \<Rightarrow> id_marker d)"

definition source_of :: "model_root \<Rightarrow> string \<Rightarrow> source_file" where
  "source_of r name = mget SourceAbsent (mr_sources r) name"

section \<open>Errors\<close>

datatype install_error =
    InstallContextDone
  | ModelRootFailed
  | LockFailed
  | FenceReadFailed
  | FenceDecodeFailed
  | FenceFingerprintEmpty
  | FenceWriteFailed
  | InstallSuperseded install_fence install_fence
  | MarkerReadFailed
  | MarkerDecodeFailed
  | NoBaseFilename string
  | SourceReadFailed
  | HeadFailed
  | HeadStatus int
  | HeadWithoutCRC
  | HeadCRCMismatch string
  | GetFailed
  | GetStatus int
  | DownloadedCRCMismatch string
  | PersistSourceFailed
  | StageFailed
  | UnsupportedKind string
  | TarReadFailed
  | TarEntryEscapes string
  | TarEntryUnsupported string
  | TarEntryFailed string
  | FlattenFailed
  | MarkerWriteFailed
  | ReplaceFailed

section \<open>Markers and fences\<close>

definition marker_matches :: "model_root \<Rightarrow> string \<Rightarrow> string \<Rightarrow> artifact \<Rightarrow> install_error + bool" where
  "marker_matches r dir model a =
     (case marker_of r dir of
        NoMarker \<Rightarrow> Inr False
      | MarkerUnreadable \<Rightarrow> Inl MarkerReadFailed
      | MarkerNotJSON \<Rightarrow> Inl MarkerDecodeFailed
      | MarkerFile m \<Rightarrow> Inr (mk_model m = model \<and> mk_object m = art_object a \<and> mk_kind m = art_kind a \<and>
          mk_crc64ecma m = art_crc64ecma a))"

definition artifact_fence_should_advance :: "install_fence \<Rightarrow> install_fence \<Rightarrow> bool" where
  "artifact_fence_should_advance current desired =
     (if fence_revision desired > fence_revision current then True
      else fence_revision desired = 0 \<and> fence_revision current = 0 \<and>
        fence_fingerprint desired \<noteq> fence_fingerprint current)"

definition artifact_fences_equal :: "install_fence \<Rightarrow> install_fence \<Rightarrow> bool" where
  "artifact_fences_equal a b \<longleftrightarrow> fence_revision a = fence_revision b \<and> fence_fingerprint a = fence_fingerprint b"

definition read_artifact_install_fence :: "model_root \<Rightarrow> string \<Rightarrow> install_error + install_fence option" where
  "read_artifact_install_fence r lock =
     (case fence_of r lock of
        NoFence \<Rightarrow> Inr None
      | FenceUnreadable \<Rightarrow> Inl FenceReadFailed
      | FenceNotJSON \<Rightarrow> Inl FenceDecodeFailed
      | FenceFile f \<Rightarrow> if fence_fingerprint f = [] then Inl FenceFingerprintEmpty else Inr (Some f))"

text \<open>The file is written beside and renamed at the end, so that a failure leaves the old fence.\<close>

definition write_artifact_install_fence ::
  "bool \<Rightarrow> string \<Rightarrow> install_fence \<Rightarrow> model_root \<Rightarrow> install_error option \<times> model_root" where
  "write_artifact_install_fence fails lock f r =
     (if fails then (Some FenceWriteFailed, r) else (None, r\<lparr>mr_fences := mput lock (FenceFile f) (mr_fences r)\<rparr>))"

text \<open>The winner and whether it is the desired fence; \<open>lock_fails\<close> covers a context that ends while waiting.\<close>

definition publish_artifact_install_fence ::
  "bool \<Rightarrow> bool \<Rightarrow> string \<Rightarrow> install_fence \<Rightarrow> model_root \<Rightarrow> (install_error + install_fence \<times> bool) \<times> model_root" where
  "publish_artifact_install_fence lock_fails write_fails lock desired r =
     (if lock_fails then (Inl LockFailed, r)
      else case read_artifact_install_fence r lock of
        Inl e \<Rightarrow> (Inl e, r)
      | Inr current \<Rightarrow>
         (case current of
            Some c \<Rightarrow>
              if \<not> artifact_fence_should_advance c desired then (Inr (c, artifact_fences_equal c desired), r)
              else (case write_artifact_install_fence write_fails lock desired r of
                      (Some e, r') \<Rightarrow> (Inl e, r') | (None, r') \<Rightarrow> (Inr (desired, True), r'))
          | None \<Rightarrow>
              (case write_artifact_install_fence write_fails lock desired r of
                 (Some e, r') \<Rightarrow> (Inl e, r') | (None, r') \<Rightarrow> (Inr (desired, True), r'))))"

section \<open>Where the bytes come from\<close>

text \<open>The error of a read, or whether the file exists with this checksum.\<close>

definition source_has_crc :: "source_file \<Rightarrow> string \<Rightarrow> install_error + bool" where
  "source_has_crc f crc =
     (case f of SourceAbsent \<Rightarrow> Inr False | SourceUnreadable \<Rightarrow> Inl SourceReadFailed
      | SourceBytes b \<Rightarrow> Inr (crc64_ecma b = crc))"

text \<open>A source that is there, under its own name or the plain one that older agents left in the model root.\<close>

definition local_artifact_source :: "sha256 \<Rightarrow> artifact \<Rightarrow> model_root \<Rightarrow> install_error + string option" where
  "local_artifact_source sha a r =
     (case base_filename a of
        None \<Rightarrow> Inl (NoBaseFilename (art_object a))
      | Some filename \<Rightarrow>
         (case source_has_crc (source_of r (source_path sha a)) (art_crc64ecma a) of
            Inl e \<Rightarrow> Inl e
          | Inr True \<Rightarrow> Inr (Some (source_path sha a))
          | Inr False \<Rightarrow>
             (case source_has_crc (source_of r filename) (art_crc64ecma a) of
                Inl e \<Rightarrow> Inl e
              | Inr True \<Rightarrow> Inr (Some filename)
              | Inr False \<Rightarrow> Inr None)))"

text \<open>The answer to a HEAD with its checksum header, and to a GET with its body.\<close>

datatype http_head = HeadError | HeadResponse int string
datatype http_get = GetError | GetResponse int string

definition check_remote_crc :: "http_head \<Rightarrow> string \<Rightarrow> install_error option" where
  "check_remote_crc answer want =
     (case answer of
        HeadError \<Rightarrow> Some HeadFailed
      | HeadResponse status header \<Rightarrow>
          if status < 200 \<or> status \<ge> 300 then Some (HeadStatus status)
          else let got = trim_space header
               in if got = [] then Some HeadWithoutCRC else if got \<noteq> want then Some (HeadCRCMismatch got) else None)"

definition download_artifact :: "http_get \<Rightarrow> install_error + string" where
  "download_artifact answer =
     (case answer of
        GetError \<Rightarrow> Inl GetFailed
      | GetResponse status body \<Rightarrow> if status < 200 \<or> status \<ge> 300 then Inl (GetStatus status) else Inr body)"

section \<open>Unpacking an archive\<close>

datatype tar_type = TarDir | TarReg | TarOther

record tar_entry =
  tar_name :: string
  tar_type :: tar_type
  tar_mode :: int
  tar_body :: string

definition path_comps :: "string \<Rightarrow> string list" where
  "path_comps s = filter (\<lambda>e. e \<noteq> []) (split_on CHR ''/'' s)"

fun strip_common :: "'a list \<Rightarrow> 'a list \<Rightarrow> 'a list \<times> 'a list" where
  "strip_common (x # xs) (y # ys) = (if x = y then strip_common xs ys else (x # xs, y # ys))"
| "strip_common xs ys = (xs, ys)"

text \<open>\<open>filepath.Rel\<close>.\<close>

definition filepath_rel :: "string \<Rightarrow> string \<Rightarrow> string option" where
  "filepath_rel base target =
     (let b = path_clean base; t = path_clean target; b' = (if b = ''.'' then [] else b)
      in if b = t then Some ''.''
         else if is_abs_path b' \<noteq> is_abs_path t then None
         else let (bs, ts) = strip_common (path_comps b') (path_comps t)
              in if bs \<noteq> [] \<and> hd bs = ''..'' then None
                 else Some (join_with ''/'' (map (\<lambda>_. ''..'') bs @ ts)))"

definition mkdir_step :: "file_tree option \<Rightarrow> string list \<Rightarrow> file_tree option" where
  "mkdir_step tree p =
     (case tree of
        None \<Rightarrow> None
      | Some t \<Rightarrow> (case map_of t p of None \<Rightarrow> Some (mput p DirNode t) | Some DirNode \<Rightarrow> Some t | Some (FileNode m b) \<Rightarrow> None))"

definition mkdir_all :: "string list \<Rightarrow> file_tree \<Rightarrow> file_tree option" where
  "mkdir_all comps tree = foldl mkdir_step (Some tree) (map (\<lambda>n. take n comps) [1..<Suc (length comps)])"

text \<open>The octal modes 111, 755 and 644 in decimal.\<close>

definition sanitized_file_mode :: "int \<Rightarrow> int" where
  "sanitized_file_mode mode = (if mode AND 73 \<noteq> 0 then 493 else 420)"

definition extract_tar_entry :: "string \<Rightarrow> tar_entry \<Rightarrow> file_tree \<Rightarrow> install_error + file_tree" where
  "extract_tar_entry dest e tree =
     (let name = tar_name e; clean_name = path_clean name
      in if clean_name = ''.'' then Inr tree
         else if is_abs_path name \<or> clean_name = ''..'' \<or> has_prefix clean_name ''../'' then Inl (TarEntryEscapes name)
         else case filepath_rel dest (path_join dest clean_name) of
           None \<Rightarrow> Inl (TarEntryFailed name)
         | Some rel \<Rightarrow>
             if rel = ''..'' \<or> has_prefix rel ''../'' then Inl (TarEntryEscapes name)
             else let comps = path_comps rel
                  in case tar_type e of
                       TarDir \<Rightarrow> (case mkdir_all comps tree of None \<Rightarrow> Inl (TarEntryFailed name) | Some t \<Rightarrow> Inr t)
                     | TarReg \<Rightarrow>
                         (case mkdir_all (butlast comps) tree of
                            None \<Rightarrow> Inl (TarEntryFailed name)
                          | Some t \<Rightarrow> if map_of t comps \<noteq> None then Inl (TarEntryFailed name)
                                     else Inr (mput comps (FileNode (Some (sanitized_file_mode (tar_mode e))) (tar_body e)) t))
                     | TarOther \<Rightarrow> Inl (TarEntryUnsupported name))"

fun extract_tar :: "string \<Rightarrow> tar_entry list \<Rightarrow> file_tree \<Rightarrow> install_error + file_tree" where
  "extract_tar dest [] tree = Inr tree"
| "extract_tar dest (e # es) tree =
     (case extract_tar_entry dest e tree of Inl err \<Rightarrow> Inl err | Inr t \<Rightarrow> extract_tar dest es t)"

definition marker_name :: string where
  "marker_name = ''.llm-agent-artifact.json''"

text \<open>\<open>os.ReadDir\<close> of the top: names in order.\<close>

definition top_entries :: "file_tree \<Rightarrow> string list" where
  "top_entries tree = sort (map hd (filter (\<lambda>k. length k = 1) (mkeys tree)))"

text \<open>
  A single top-level directory gives way to its content, unless something in it has the directory's own name:
  then that rename fails.
\<close>

definition flatten_single_top_level_dir :: "file_tree \<Rightarrow> install_error + file_tree" where
  "flatten_single_top_level_dir tree =
     (case filter (\<lambda>n. n \<noteq> marker_name) (top_entries tree) of
        [d] \<Rightarrow>
          if map_of tree [d] \<noteq> Some DirNode then Inr tree
          else if mhas tree [d, d] then Inl FlattenFailed
          else Inr (map (\<lambda>(k, n). (tl k, n)) (filter (\<lambda>(k, n). hd k = d \<and> 1 < length k) tree))
      | _ \<Rightarrow> Inr tree)"

section \<open>Replacing the model directory\<close>

text \<open>
  Where the replacement fails, if it does: nothing has changed yet; the old directory is aside and the new one
  does not come in, and then the old one comes back or it does not; or the old one cannot be deleted afterwards.
\<close>

datatype replace_fault = NothingFails | FailsBefore | MoveInFails bool | CleanupFails

definition replace_dir :: "replace_fault \<Rightarrow> string \<Rightarrow> installed_dir \<Rightarrow> model_root \<Rightarrow> bool \<times> model_root" where
  "replace_dir fault dir new r =
     (let existed = mhas (mr_dirs r) dir; moved_in = r\<lparr>mr_dirs := mput dir new (mr_dirs r)\<rparr>
      in case fault of
           NothingFails \<Rightarrow> (True, moved_in)
         | FailsBefore \<Rightarrow> (False, r)
         | MoveInFails restored \<Rightarrow>
             (False, if existed \<and> \<not> restored then r\<lparr>mr_dirs := mdel dir (mr_dirs r)\<rparr> else r)
         | CleanupFails \<Rightarrow> (\<not> existed, moved_in))"

definition write_marker ::
  "bool \<Rightarrow> string \<Rightarrow> string \<Rightarrow> artifact \<Rightarrow> time \<Rightarrow> file_tree \<Rightarrow> installed_dir option" where
  "write_marker fails installed_path model a now tree =
     (if fails \<or> map_of tree [marker_name] = Some DirNode then None
      else Some \<lparr>id_marker = MarkerFile \<lparr>mk_model = model, mk_object = art_object a, mk_kind = art_kind a,
             mk_crc64ecma = art_crc64ecma a, mk_installed_path = installed_path, mk_installed_at = now\<rparr>,
           id_tree = mdel [marker_name] tree\<rparr>)"

section \<open>An install\<close>

text \<open>What one step of a job meets; each field is read in the steps that need it.\<close>

record job_input =
  ji_cancelled :: bool
  ji_root_fails :: bool
  ji_lock_fails :: bool
  ji_write_fails :: bool
  ji_head :: "string \<Rightarrow> http_head"
  ji_get :: "string \<Rightarrow> http_get"
  ji_stage_fails :: bool
  ji_stage_dir :: string
  ji_tar :: "string \<Rightarrow> tar_entry list \<times> bool"
  ji_now :: time
  ji_replace :: replace_fault

record install_env =
  ie_sha :: sha256
  ie_goos :: string
  ie_oss_base :: string
  ie_model_root :: string

text \<open>The result of an install is an error or whether it replaced the directory.\<close>

datatype job_phase =
    Publishing | Checking | Fetching | Staging string | Committing file_tree | Finished "install_error + bool"

record install_job =
  ij_model :: string
  ij_dir :: string
  ij_revision :: int
  ij_artifact :: artifact
  ij_phase :: job_phase

definition job_fence :: "install_env \<Rightarrow> install_job \<Rightarrow> install_fence" where
  "job_fence env j = \<lparr>fence_revision = ij_revision j, fence_fingerprint = artifact_fingerprint (ie_sha env) (ij_artifact j)\<rparr>"

definition job_lock :: "install_env \<Rightarrow> install_job \<Rightarrow> string" where
  "job_lock env j = model_dir_lock_name_for_os (ie_sha env) (ij_dir j) (ie_goos env)"

definition finish :: "install_error + bool \<Rightarrow> install_job \<Rightarrow> install_job" where
  "finish res j = j\<lparr>ij_phase := Finished res\<rparr>"

definition publish_step :: "install_env \<Rightarrow> job_input \<Rightarrow> install_job \<Rightarrow> model_root \<Rightarrow> install_job \<times> model_root" where
  "publish_step env inp j r =
     (if ji_cancelled inp then (finish (Inl InstallContextDone) j, r)
      else if ji_root_fails inp then (finish (Inl ModelRootFailed) j, r)
      else case publish_artifact_install_fence (ji_lock_fails inp) (ji_write_fails inp) (job_lock env j) (job_fence env j) r of
        (Inl e, r') \<Rightarrow> (finish (Inl e) j, r')
      | (Inr (winner, current), r') \<Rightarrow>
          if \<not> current then (finish (Inl (InstallSuperseded (job_fence env j) winner)) j, r')
          else (j\<lparr>ij_phase := Checking\<rparr>, r'))"

definition check_step :: "install_job \<Rightarrow> model_root \<Rightarrow> install_job" where
  "check_step j r =
     (case marker_matches r (ij_dir j) (ij_model j) (ij_artifact j) of
        Inl e \<Rightarrow> finish (Inl e) j
      | Inr True \<Rightarrow> finish (Inr False) j
      | Inr False \<Rightarrow> j\<lparr>ij_phase := Fetching\<rparr>)"

text \<open>\<open>prepareArtifactSource\<close>, below the lock of the artifact.\<close>

definition fetch_step :: "install_env \<Rightarrow> job_input \<Rightarrow> install_job \<Rightarrow> model_root \<Rightarrow> install_job \<times> model_root" where
  "fetch_step env inp j r =
     (let a = ij_artifact j; url = artifact_url (ie_oss_base env) (art_object a)
      in if ji_lock_fails inp then (finish (Inl LockFailed) j, r)
         else case marker_matches r (ij_dir j) (ij_model j) a of
           Inl e \<Rightarrow> (finish (Inl e) j, r)
         | Inr True \<Rightarrow> (finish (Inr False) j, r)
         | Inr False \<Rightarrow>
            (case local_artifact_source (ie_sha env) a r of
               Inl e \<Rightarrow> (finish (Inl e) j, r)
             | Inr (Some path) \<Rightarrow> (j\<lparr>ij_phase := Staging path\<rparr>, r)
             | Inr None \<Rightarrow>
                (case check_remote_crc (ji_head inp url) (art_crc64ecma a) of
                   Some e \<Rightarrow> (finish (Inl e) j, r)
                 | None \<Rightarrow>
                    (case download_artifact (ji_get inp url) of
                       Inl e \<Rightarrow> (finish (Inl e) j, r)
                     | Inr body \<Rightarrow>
                         if crc64_ecma body \<noteq> art_crc64ecma a then (finish (Inl (DownloadedCRCMismatch (crc64_ecma body))) j, r)
                         else if ji_cancelled inp then (finish (Inl InstallContextDone) j, r)
                         else if ji_write_fails inp then (finish (Inl PersistSourceFailed) j, r)
                         else (j\<lparr>ij_phase := Staging (source_path (ie_sha env) a)\<rparr>,
                               r\<lparr>mr_sources := mput (source_path (ie_sha env) a) (SourceBytes body) (mr_sources r)\<rparr>)))))"

definition stage_file :: "artifact \<Rightarrow> string \<Rightarrow> install_error + file_tree" where
  "stage_file a body =
     (case base_filename a of
        None \<Rightarrow> Inl (NoBaseFilename (art_object a))
      | Some filename \<Rightarrow> Inr [([filename], FileNode None body)])"

definition stage_tar_gz :: "string \<Rightarrow> tar_entry list \<times> bool \<Rightarrow> install_error + file_tree" where
  "stage_tar_gz dest archive =
     (case extract_tar dest (fst archive) [] of
        Inl e \<Rightarrow> Inl e
      | Inr tree \<Rightarrow> if \<not> snd archive then Inl TarReadFailed else flatten_single_top_level_dir tree)"

text \<open>A source that cannot be read, a context that ends and a full disk fail the stage alike.\<close>

definition stage_artifact :: "job_input \<Rightarrow> artifact \<Rightarrow> source_file \<Rightarrow> install_error + file_tree" where
  "stage_artifact inp a source =
     (if art_kind a \<noteq> ''file'' \<and> art_kind a \<noteq> ''tar_gz'' then Inl (UnsupportedKind (art_kind a))
      else if ji_stage_fails inp then Inl StageFailed
      else case source of
        SourceBytes body \<Rightarrow> if art_kind a = ''file'' then stage_file a body else stage_tar_gz (ji_stage_dir inp) (ji_tar inp body)
      | _ \<Rightarrow> Inl StageFailed)"

definition stage_step :: "job_input \<Rightarrow> string \<Rightarrow> install_job \<Rightarrow> model_root \<Rightarrow> install_job" where
  "stage_step inp path j r =
     (case stage_artifact inp (ij_artifact j) (source_of r path) of
        Inl e \<Rightarrow> finish (Inl e) j
      | Inr tree \<Rightarrow> j\<lparr>ij_phase := Committing tree\<rparr>)"

text \<open>\<open>commitStagedArtifact\<close>, below the lock of the directory.\<close>

definition commit_step ::
  "install_env \<Rightarrow> job_input \<Rightarrow> file_tree \<Rightarrow> install_job \<Rightarrow> model_root \<Rightarrow> install_job \<times> model_root" where
  "commit_step env inp tree j r =
     (if ji_lock_fails inp then (finish (Inl LockFailed) j, r)
      else case read_artifact_install_fence r (job_lock env j) of
        Inl e \<Rightarrow> (finish (Inl e) j, r)
      | Inr winner \<Rightarrow>
          (let w = (case winner of None \<Rightarrow> \<lparr>fence_revision = 0, fence_fingerprint = []\<rparr> | Some f \<Rightarrow> f)
           in if winner = None \<or> \<not> artifact_fences_equal w (job_fence env j)
              then (finish (Inl (InstallSuperseded (job_fence env j) w)) j, r)
              else case marker_matches r (ij_dir j) (ij_model j) (ij_artifact j) of
                Inl e \<Rightarrow> (finish (Inl e) j, r)
              | Inr True \<Rightarrow> (finish (Inr False) j, r)
              | Inr False \<Rightarrow>
                  if ji_cancelled inp then (finish (Inl InstallContextDone) j, r)
                  else (case write_marker (ji_write_fails inp) (path_join (ie_model_root env) (ij_dir j)) (ij_model j)
                          (ij_artifact j) (ji_now inp) tree of
                          None \<Rightarrow> (finish (Inl MarkerWriteFailed) j, r)
                        | Some new \<Rightarrow>
                            (case replace_dir (ji_replace inp) (ij_dir j) new r of
                               (True, r') \<Rightarrow> (finish (Inr True) j, r')
                             | (False, r') \<Rightarrow> (finish (Inl ReplaceFailed) j, r')))))"

definition job_step :: "install_env \<Rightarrow> job_input \<Rightarrow> install_job \<Rightarrow> model_root \<Rightarrow> install_job \<times> model_root" where
  "job_step env inp j r =
     (case ij_phase j of
        Publishing \<Rightarrow> publish_step env inp j r
      | Checking \<Rightarrow> (check_step j r, r)
      | Fetching \<Rightarrow> fetch_step env inp j r
      | Staging path \<Rightarrow> (stage_step inp path j r, r)
      | Committing tree \<Rightarrow> commit_step env inp tree j r
      | Finished res \<Rightarrow> (j, r))"

text \<open>\<open>installArtifactWithProgressAtRevision\<close> is a job from its first phase; five steps finish it.\<close>

definition new_job :: "string \<Rightarrow> string \<Rightarrow> int \<Rightarrow> artifact \<Rightarrow> install_job" where
  "new_job model dir revision a =
     \<lparr>ij_model = model, ij_dir = dir, ij_revision = revision, ij_artifact = a, ij_phase = Publishing\<rparr>"

fun run_job :: "install_env \<Rightarrow> job_input list \<Rightarrow> install_job \<times> model_root \<Rightarrow> install_job \<times> model_root" where
  "run_job env [] st = st"
| "run_job env (inp # inps) (j, r) = run_job env inps (job_step env inp j r)"

section \<open>Many jobs on one root\<close>

text \<open>
  Several agents and cycles on one model root: a job starts, a job takes a step, or a fence is published for a
  directory (the agent does so for models it no longer wants).
\<close>

record install_system =
  is_root :: model_root
  is_jobs :: "install_job list"

inductive install_system_step :: "install_env \<Rightarrow> install_system \<Rightarrow> install_system \<Rightarrow> bool" for env where
  start_job: "install_system_step env s (s\<lparr>is_jobs := is_jobs s @ [new_job model dir revision a]\<rparr>)"
| step_job: "i < length (is_jobs s) \<Longrightarrow> job_step env inp (is_jobs s ! i) (is_root s) = (j, r) \<Longrightarrow>
     install_system_step env s (s\<lparr>is_jobs := (is_jobs s)[i := j], is_root := r\<rparr>)"
| publish_fence: "publish_artifact_install_fence lock_fails write_fails
       (model_dir_lock_name_for_os (ie_sha env) dir (ie_goos env)) fence (is_root s) = (res, r) \<Longrightarrow>
     install_system_step env s (s\<lparr>is_root := r\<rparr>)"

end
