(* ===== verification/PathFacts.thy ===== *)
theory PathFacts
  imports GoStd
begin

text \<open>
  Slash-separated paths as lists of components: what \<open>path.Clean\<close>, \<open>filepath.Join\<close> and \<open>path.Base\<close> make of them.
  An entry name that stays below a directory is the list of its cleaned components.
\<close>

section \<open>Splitting and joining\<close>

lemma split_on_free: "w \<in> set (split_on sep s) \<Longrightarrow> sep \<notin> set w"
  by (induction sep s arbitrary: w rule: split_on.induct) (auto split: if_splits list.splits)

lemma split_on_not_Nil [simp]: "split_on sep s \<noteq> []"
  by (induction sep s rule: split_on.induct) (auto split: list.splits)

lemma split_on_single [simp]: "sep \<notin> set s \<Longrightarrow> split_on sep s = [s]"
  by (induction sep s rule: split_on.induct) auto

lemma split_on_append: "split_on sep (s @ sep # t) = split_on sep s @ split_on sep t"
  by (induction sep s rule: split_on.induct) (auto split: list.split)

lemma split_on_join:
  "xs \<noteq> [] \<Longrightarrow> \<forall>x \<in> set xs. sep \<notin> set x \<Longrightarrow> split_on sep (join_with [sep] xs) = xs"
  by (induction "[sep]" xs rule: join_with.induct) (auto simp: split_on_append)

section \<open>Cleaned components\<close>

definition plain_comp :: "string \<Rightarrow> bool" where
  "plain_comp c \<longleftrightarrow> c \<noteq> [] \<and> c \<noteq> ''.'' \<and> c \<noteq> ''..'' \<and> CHR ''/'' \<notin> set c"

text \<open>A cleaned list is plain up to leading \<open>..\<close>, and has none of these when it is rooted.\<close>

definition clean_list :: "bool \<Rightarrow> string list \<Rightarrow> bool" where
  "clean_list rooted es \<longleftrightarrow> (\<exists>n ps. es = replicate n ''..'' @ ps \<and> (\<forall>p \<in> set ps. plain_comp p) \<and> (rooted \<longrightarrow> n = 0))"

lemma clean_listI: "es = replicate n ''..'' @ ps \<Longrightarrow> \<forall>p \<in> set ps. plain_comp p \<Longrightarrow> rooted \<longrightarrow> n = 0 \<Longrightarrow> clean_list rooted es"
  unfolding clean_list_def by blast

lemma clean_listE:
  assumes "clean_list rooted es"
  obtains n ps where "es = replicate n ''..'' @ ps" "\<forall>p \<in> set ps. plain_comp p" "rooted \<longrightarrow> n = 0"
  using assms unfolding clean_list_def by blast

lemma clean_list_Nil [simp]: "clean_list rooted []"
  by (rule clean_listI[of _ 0 "[]"]) simp_all

lemma clean_list_snoc:
  assumes "clean_list rooted es" "plain_comp c"
  shows "clean_list rooted (es @ [c])"
  using assms(1)
proof (rule clean_listE)
  fix n ps assume "es = replicate n ''..'' @ ps" "\<forall>p \<in> set ps. plain_comp p" "rooted \<longrightarrow> n = 0"
  with assms(2) show ?thesis by (intro clean_listI[of _ n "ps @ [c]"]) simp_all
qed

lemma clean_list_butlast: "clean_list rooted (es @ [c]) \<Longrightarrow> clean_list rooted es"
  unfolding clean_list_def
proof (elim exE conjE)
  fix n ps assume a: "es @ [c] = replicate n ''..'' @ ps" "\<forall>p \<in> set ps. plain_comp p" "rooted \<longrightarrow> n = 0"
  show "\<exists>n ps. es = replicate n ''..'' @ ps \<and> (\<forall>p \<in> set ps. plain_comp p) \<and> (rooted \<longrightarrow> n = 0)"
  proof (cases ps rule: rev_cases)
    case Nil
    then have "es = replicate (n - 1) ''..''" using a(1) by (cases n) (auto simp flip: replicate_append_same)
    with a(3) show ?thesis by (intro exI[of _ "n - 1"] exI[of _ "[]"]) auto
  next
    case (snoc qs q)
    with a show ?thesis by (intro exI[of _ n] exI[of _ qs]) auto
  qed
qed

lemma not_plain_dots [simp]: "\<not> plain_comp ''..''" "\<not> plain_comp ''.''" "\<not> plain_comp []"
  by (simp_all add: plain_comp_def)

lemma clean_list_dots:
  assumes "clean_list False es" "es = [] \<or> last es = ''..''"
  shows "clean_list False (es @ [''..''])"
  using assms(1)
proof (rule clean_listE)
  fix n ps assume es: "es = replicate n ''..'' @ ps" "\<forall>p \<in> set ps. plain_comp p"
  have "ps = []"
  proof (cases ps rule: rev_cases)
    case (snoc qs q)
    with es assms(2) have "q = ''..''" by simp
    with es(2) snoc show ?thesis by simp
  qed
  with es show ?thesis by (intro clean_listI[of _ "Suc n" "[]"]) (simp_all add: replicate_append_same)
qed

lemma clean_elems_clean:
  "clean_list rooted (rev kept) \<Longrightarrow> \<forall>e \<in> set es. CHR ''/'' \<notin> set e \<Longrightarrow> clean_list rooted (clean_elems rooted kept es)"
proof (induction rooted kept es rule: clean_elems.induct)
  case (2 rooted kept e es)
  show ?case
  proof (cases "e = [] \<or> e = ''.''")
    case True
    with 2 show ?thesis by simp
  next
    case skip: False
    show ?thesis
    proof (cases "e = ''..''")
      case dots: True
      show ?thesis
      proof (cases kept)
        case Nil
        with 2 skip dots clean_list_dots[of "[]"] show ?thesis by (cases rooted) simp_all
      next
        case (Cons k ks)
        have "clean_list rooted (rev ks)" using 2(5) Cons clean_list_butlast[of rooted "rev ks" k] by simp
        moreover have "clean_list rooted (rev (e # kept))" if "k = ''..''"
        proof (cases rooted)
          case True
          then have "plain_comp k" using 2(5) Cons by (auto simp: clean_list_def)
          with that show ?thesis by (simp add: plain_comp_def)
        next
          case False
          with 2(5) Cons dots that clean_list_dots[of "rev kept"] show ?thesis by (simp add: last_rev)
        qed
        ultimately show ?thesis using 2 skip dots Cons by (cases "k = ''..''") simp_all
      qed
    next
      case False
      with 2 skip show ?thesis by (simp add: clean_list_snoc plain_comp_def)
    qed
  qed
qed simp

lemma clean_elems_append_plain:
  "\<forall>p \<in> set ps. plain_comp p \<Longrightarrow> clean_elems rooted kept (es @ ps) = clean_elems rooted kept es @ ps"
proof (induction rooted kept es rule: clean_elems.induct)
  case (1 rooted kept)
  then show ?case by (induction ps arbitrary: kept) (auto simp: plain_comp_def)
qed (auto split: list.split)

lemma clean_elems_id:
  assumes "clean_list rooted es"
  shows "clean_elems rooted [] es = es"
proof -
  obtain n ps where es: "es = replicate n ''..'' @ ps" "\<forall>p \<in> set ps. plain_comp p" "rooted \<longrightarrow> n = 0"
    using assms by (auto simp: clean_list_def)
  have "clean_elems False (replicate m ''..'') (replicate k ''..'') = replicate (m + k) ''..''" for m k
  proof (induction k arbitrary: m)
    case (Suc k)
    have "clean_elems False (replicate m ''..'') (replicate (Suc k) ''..'') = clean_elems False (replicate (Suc m) ''..'') (replicate k ''..'')"
      by (cases m) simp_all
    also have "\<dots> = replicate (Suc m + k) ''..''" by (rule Suc)
    finally show ?case by simp
  qed simp
  from this[of 0 n] have "clean_elems rooted [] (replicate n ''..'') = replicate n ''..''"
    using es(3) by (cases rooted) simp_all
  with clean_elems_append_plain[OF es(2)] es(1) show ?thesis by metis
qed

lemma clean_list_comp:
  assumes "clean_list rooted es" "e \<in> set es"
  shows "e \<noteq> [] \<and> CHR ''/'' \<notin> set e"
  using assms(1)
proof (rule clean_listE)
  fix n ps assume es: "es = replicate n ''..'' @ ps" "\<forall>p \<in> set ps. plain_comp p"
  then have "e = ''..'' \<or> e \<in> set ps" using assms(2) by (metis Un_iff in_set_replicate set_append)
  then show ?thesis
  proof
    assume "e \<in> set ps"
    with es(2) have "plain_comp e" by blast
    then show ?thesis by (simp add: plain_comp_def)
  qed simp
qed

lemma clean_list_plain: "clean_list rooted es \<Longrightarrow> es = [] \<or> hd es \<noteq> ''..'' \<Longrightarrow> \<forall>e \<in> set es. plain_comp e"
proof -
  assume c: "clean_list rooted es" and h: "es = [] \<or> hd es \<noteq> ''..''"
  obtain n ps where es: "es = replicate n ''..'' @ ps" "\<forall>p \<in> set ps. plain_comp p" using c by (auto simp: clean_list_def)
  then have "n = 0" using h by (cases n) auto
  with es show ?thesis by simp
qed

section \<open>Paths\<close>

definition clean_comps :: "string \<Rightarrow> string list" where
  "clean_comps p = clean_elems (is_abs_path p) [] (split_on CHR ''/'' p)"

definition path_of :: "bool \<Rightarrow> string list \<Rightarrow> string" where
  "path_of rooted es = (if rooted then CHR ''/'' # join_with ''/'' es else if es = [] then ''.'' else join_with ''/'' es)"

lemma clean_comps_clean [simp]: "clean_list (is_abs_path p) (clean_comps p)"
  by (simp add: clean_comps_def clean_elems_clean split_on_free)

lemma join_empty: "\<forall>e \<in> set es. e \<noteq> [] \<Longrightarrow> join_with sep es = [] \<longleftrightarrow> es = []"
  by (induction sep es rule: join_with.induct) auto

lemma path_clean_of: "path_clean p = path_of (is_abs_path p) (clean_comps p)"
  using clean_list_comp[OF clean_comps_clean[of p]] join_empty[of "clean_comps p" "''/''"]
  unfolding path_clean_def path_of_def Let_def clean_comps_def[symmetric] by auto


lemma split_path_of_rel:
  assumes "\<forall>e \<in> set es. e \<noteq> [] \<and> CHR ''/'' \<notin> set e" "es \<noteq> []"
  shows "split_on CHR ''/'' (path_of False es) = es" "\<not> is_abs_path (path_of False es)"
proof -
  show "split_on CHR ''/'' (path_of False es) = es" using assms by (simp add: path_of_def split_on_join)
  obtain e es' where "es = e # es'" using assms(2) by (cases es) auto
  then show "\<not> is_abs_path (path_of False es)"
    using assms(1) by (cases es'; cases e) (auto simp: path_of_def is_abs_path_def)
qed

lemma clean_comps_of:
  assumes "clean_list rooted es"
  shows "clean_comps (path_of rooted es) = es" "is_abs_path (path_of rooted es) = rooted"
proof -
  have c: "\<forall>e \<in> set es. e \<noteq> [] \<and> CHR ''/'' \<notin> set e" using clean_list_comp[OF assms] by auto
  show a: "is_abs_path (path_of rooted es) = rooted"
    using split_path_of_rel(2)[OF c] by (cases rooted; cases es) (simp_all add: path_of_def is_abs_path_def)
  show "clean_comps (path_of rooted es) = es"
  proof (cases rooted)
    case True
    then have "split_on CHR ''/'' (path_of rooted es) = [] # (if es = [] then [[]] else es)"
      using c by (simp add: path_of_def split_on_join)
    then show ?thesis using a True clean_elems_id[OF assms] by (auto simp: clean_comps_def)
  next
    case False
    show ?thesis
    proof (cases "es = []")
      case True
      with False show ?thesis by (simp add: clean_comps_def path_of_def is_abs_path_def)
    next
      case ne: False
      with False show ?thesis using a split_path_of_rel(1)[OF c] clean_elems_id[OF assms] by (simp add: clean_comps_def)
    qed
  qed
qed

lemma path_clean_clean [simp]: "path_clean (path_clean p) = path_clean p"
  by (simp add: path_clean_of clean_comps_of)

text \<open>The components that \<open>path_comps\<close> reads are those of the clean path.\<close>

lemma path_of_nonempty_comps:
  assumes "clean_list rooted es" "es \<noteq> [] \<or> rooted"
  shows "filter (\<lambda>e. e \<noteq> []) (split_on CHR ''/'' (path_of rooted es)) = es"
proof -
  have c: "\<forall>e \<in> set es. e \<noteq> [] \<and> CHR ''/'' \<notin> set e" using clean_list_comp[OF assms(1)] by auto
  then have f: "filter (\<lambda>e. e \<noteq> []) es = es" by (simp add: filter_id_conv)
  show ?thesis
  proof (cases "es = []")
    case True
    with assms(2) show ?thesis by (simp add: path_of_def)
  next
    case False
    with c f show ?thesis by (cases rooted) (simp_all add: path_of_def split_on_join)
  qed
qed

text \<open>Joining a directory with a clean relative path of plain components puts the components at the end.\<close>

lemma clean_comps_join:
  assumes "\<forall>p \<in> set ps. plain_comp p" "ps \<noteq> []"
  shows "path_join dir (path_of False ps) = path_of (is_abs_path dir) (clean_comps dir @ ps)"
    "clean_list (is_abs_path dir) (clean_comps dir @ ps)"
proof -
  have c: "\<forall>p \<in> set ps. p \<noteq> [] \<and> CHR ''/'' \<notin> set p" using assms(1) by (simp add: plain_comp_def)
  have sp: "split_on CHR ''/'' (path_of False ps) = ps" by (rule split_path_of_rel(1)[OF c assms(2)])
  have ne: "path_of False ps \<noteq> []" using join_empty[of ps "''/''"] c assms(2) by (simp add: path_of_def)
  show l: "clean_list (is_abs_path dir) (clean_comps dir @ ps)"
    using clean_comps_clean[of dir] assms(1) unfolding clean_list_def by fastforce
  show "path_join dir (path_of False ps) = path_of (is_abs_path dir) (clean_comps dir @ ps)"
  proof (cases "dir = []")
    case True
    have "clean_list False ps" using assms(1) by (auto simp: clean_list_def intro!: exI[of _ 0])
    then have "path_clean (path_of False ps) = path_of False ps"
      using clean_comps_of[of False ps] by (simp add: path_clean_of)
    with True ne show ?thesis
      by (simp add: path_join_def clean_comps_def is_abs_path_def)
  next
    case False
    then have "path_join dir (path_of False ps) = path_clean (dir @ CHR ''/'' # path_of False ps)"
      using ne by (simp add: path_join_def)
    moreover have "is_abs_path (dir @ CHR ''/'' # path_of False ps) = is_abs_path dir"
      using False by (simp add: is_abs_path_def)
    moreover have "clean_comps (dir @ CHR ''/'' # path_of False ps) = clean_comps dir @ ps"
      using calculation(2) assms(1) by (simp add: clean_comps_def split_on_append sp clean_elems_append_plain)
    ultimately show ?thesis by (simp add: path_clean_of)
  qed
qed

section \<open>Base names\<close>

lemma path_base_free: "path_base p \<noteq> ''/'' \<Longrightarrow> CHR ''/'' \<notin> set (path_base p)"
proof (cases "rev (dropWhile (\<lambda>c. c = CHR ''/'') (rev p))")
  case (Cons c q)
  then have "path_base p = last (split_on CHR ''/'' (c # q)) \<or> path_base p = ''.''"
    by (simp add: path_base_def del: split_on.simps)
  moreover have "CHR ''/'' \<notin> set (last (split_on CHR ''/'' (c # q)))"
    by (rule split_on_free[OF last_in_set[OF split_on_not_Nil]])
  moreover have "CHR ''/'' \<notin> set ''.''" by simp
  ultimately show ?thesis by metis
next
  case Nil
  then have "path_base p = ''/'' \<or> path_base p = ''.''"
    by (simp add: path_base_def del: rev_is_Nil_conv dropWhile_eq_Nil_conv)
  moreover assume "path_base p \<noteq> ''/''"
  ultimately show ?thesis by simp
qed

end
