(* ===== verification/ArtifactsFacts.thy ===== *)
theory ArtifactsFacts
  imports Artifacts PathFacts
begin

text \<open>
  What installing promises: a directory with a marker holds what was built from bytes with the marker's checksum, a
  superseded install never replaces a directory, an undisturbed install completes and a second one changes nothing,
  and no archive writes outside the staging directory.
\<close>

section \<open>Fences only move on\<close>

text \<open>The order in which fences of one directory replace each other; only unversioned ones may alternate.\<close>

definition fence_le :: "install_fence \<Rightarrow> install_fence \<Rightarrow> bool" where
  "fence_le f g \<longleftrightarrow> g = f \<or> fence_revision f < fence_revision g \<or> fence_revision f = 0 \<and> fence_revision g = 0"

lemma fence_le_refl [simp]: "fence_le f f"
  by (simp add: fence_le_def)

lemma fence_le_trans: "fence_le f g \<Longrightarrow> fence_le g h \<Longrightarrow> fence_le f h"
  by (auto simp: fence_le_def)

lemma fence_le_revision: "fence_le f g \<Longrightarrow> fence_revision f \<le> fence_revision g"
  by (auto simp: fence_le_def)

lemma advance_le: "artifact_fence_should_advance f g \<Longrightarrow> fence_le f g"
  by (auto simp: artifact_fence_should_advance_def fence_le_def split: if_splits)

lemma publish_fence_le:
  assumes "publish_artifact_install_fence lk wr lock desired r = (res, r')" "fence_of r l = FenceFile f"
  shows "\<exists>g. fence_of r' l = FenceFile g \<and> fence_le f g"
  using assms
  by (auto simp: publish_artifact_install_fence_def write_artifact_install_fence_def read_artifact_install_fence_def
      fence_of_def advance_le split: if_splits fence_file.splits)

lemma publish_keeps [simp]:
  assumes "publish_artifact_install_fence lk wr lock desired r = (res, r')"
  shows "mr_dirs r' = mr_dirs r" "mr_sources r' = mr_sources r"
  using assms
  by (auto simp: publish_artifact_install_fence_def write_artifact_install_fence_def
      split: if_splits sum.splits option.splits)

lemma replace_dir_fields [simp]:
  "mr_fences (snd (replace_dir fault dir new r)) = mr_fences r" "mr_sources (snd (replace_dir fault dir new r)) = mr_sources r"
  by (simp_all add: replace_dir_def Let_def split: replace_fault.split)

lemma replace_dir_keeps:
  "replace_dir fault dir new r = (ok, r') \<Longrightarrow> mr_fences r' = mr_fences r \<and> mr_sources r' = mr_sources r"
  using replace_dir_fields[of fault dir new r] by simp

text \<open>What a commit can do to the root: nothing, or a replacement of the job's directory below its own fence.\<close>

lemma commit_step_cases:
  assumes "commit_step env inp tree j r = (j', r')"
  obtains (unchanged) res where "j' = finish res j" "res \<noteq> Inr True" "r' = r"
  | (replaced) ok new f where "fence_of r (job_lock env j) = FenceFile f" "artifact_fences_equal f (job_fence env j)"
      "write_marker (ji_write_fails inp) (path_join (ie_model_root env) (ij_dir j)) (ij_model j) (ij_artifact j) (ji_now inp) tree = Some new"
      "replace_dir (ji_replace inp) (ij_dir j) new r = (ok, r')" "j' = finish (if ok then Inr True else Inl ReplaceFailed) j"
proof (cases "ji_lock_fails inp")
  case True
  with assms unchanged show ?thesis by (auto simp: commit_step_def)
next
  case nolock: False
  show ?thesis
  proof (cases "read_artifact_install_fence r (job_lock env j)")
    case (Inl e)
    with nolock assms unchanged show ?thesis by (auto simp: commit_step_def)
  next
    case (Inr winner)
    let ?w = "case winner of None \<Rightarrow> \<lparr>fence_revision = 0, fence_fingerprint = []\<rparr> | Some f \<Rightarrow> f"
    show ?thesis
    proof (cases "winner = None \<or> \<not> artifact_fences_equal ?w (job_fence env j)")
      case True
      with Inr nolock assms have "j' = finish (Inl (InstallSuperseded (job_fence env j) ?w)) j" "r' = r"
        by (simp_all add: commit_step_def Let_def)
      with unchanged show ?thesis by auto
    next
      case False
      then obtain f where f: "winner = Some f" "artifact_fences_equal f (job_fence env j)" by auto
      have fence: "fence_of r (job_lock env j) = FenceFile f"
        using Inr f by (auto simp: read_artifact_install_fence_def split: fence_file.splits if_splits)
      have step: "commit_step env inp tree j r =
        (case marker_matches r (ij_dir j) (ij_model j) (ij_artifact j) of
           Inl e \<Rightarrow> (finish (Inl e) j, r)
         | Inr True \<Rightarrow> (finish (Inr False) j, r)
         | Inr False \<Rightarrow>
             if ji_cancelled inp then (finish (Inl InstallContextDone) j, r)
             else (case write_marker (ji_write_fails inp) (path_join (ie_model_root env) (ij_dir j)) (ij_model j)
                     (ij_artifact j) (ji_now inp) tree of
                     None \<Rightarrow> (finish (Inl MarkerWriteFailed) j, r)
                   | Some new \<Rightarrow>
                       (case replace_dir (ji_replace inp) (ij_dir j) new r of
                          (True, r') \<Rightarrow> (finish (Inr True) j, r')
                        | (False, r') \<Rightarrow> (finish (Inl ReplaceFailed) j, r'))))"
        using Inr f nolock by (simp add: commit_step_def Let_def)
      show ?thesis
      proof (cases "marker_matches r (ij_dir j) (ij_model j) (ij_artifact j) = Inr False \<and> \<not> ji_cancelled inp")
        case False
        then have "\<exists>res. j' = finish res j \<and> res \<noteq> Inr True \<and> r' = r"
          using step assms by (auto split: sum.splits bool.splits if_splits)
        with unchanged show ?thesis by auto
      next
        case True
        show ?thesis
        proof (cases "write_marker (ji_write_fails inp) (path_join (ie_model_root env) (ij_dir j)) (ij_model j)
            (ij_artifact j) (ji_now inp) tree")
          case None
          with True step assms unchanged show ?thesis by auto
        next
          case (Some new)
          obtain ok r1 where "replace_dir (ji_replace inp) (ij_dir j) new r = (ok, r1)" by (metis surj_pair)
          with True step assms Some show ?thesis by (cases ok) (auto intro!: replaced[OF fence f(2) Some])
        qed
      qed
    qed
  qed
qed

section \<open>Steps of a job\<close>

text \<open>A job keeps what it is about, whatever its step does.\<close>

definition same_job :: "install_job \<Rightarrow> install_job \<Rightarrow> bool" where
  "same_job j k \<longleftrightarrow> ij_model k = ij_model j \<and> ij_dir k = ij_dir j \<and> ij_revision k = ij_revision j \<and> ij_artifact k = ij_artifact j"

lemma same_job_refl [simp]: "same_job j j"
  by (simp add: same_job_def)

lemma same_job_finish [simp]: "same_job j (finish res j)"
  by (simp add: same_job_def finish_def)

lemma same_job_phase [simp]: "same_job j (j\<lparr>ij_phase := p\<rparr>)"
  by (simp add: same_job_def)

lemma publish_step_same [simp]: "same_job j (fst (publish_step env inp j r))"
  by (simp add: publish_step_def split: prod.splits sum.splits)

lemma check_step_same [simp]: "same_job j (check_step j r)"
  by (simp add: check_step_def split: sum.splits bool.splits)

lemma fetch_step_same [simp]: "same_job j (fst (fetch_step env inp j r))"
  by (simp add: fetch_step_def Let_def split: sum.splits bool.splits option.splits)

lemma stage_step_same [simp]: "same_job j (stage_step inp path j r)"
  by (simp add: stage_step_def split: sum.splits)

lemma commit_step_same [simp]: "same_job j (fst (commit_step env inp tree j r))"
proof -
  obtain j' r' where c: "commit_step env inp tree j r = (j', r')" by (metis surj_pair)
  then have "same_job j j'" by (cases rule: commit_step_cases) simp_all
  with c show ?thesis by simp
qed

lemma job_step_same: "same_job j (fst (job_step env inp j r))"
  by (simp add: job_step_def split: job_phase.split)

lemma fetch_step_keeps [simp]:
  "mr_dirs (snd (fetch_step env inp j r)) = mr_dirs r" "mr_fences (snd (fetch_step env inp j r)) = mr_fences r"
  by (simp_all add: fetch_step_def Let_def split: sum.splits bool.splits option.splits)

lemma publish_step_keeps [simp]:
  "mr_dirs (snd (publish_step env inp j r)) = mr_dirs r" "mr_sources (snd (publish_step env inp j r)) = mr_sources r"
  by (auto simp: publish_step_def split: prod.splits sum.splits)

lemma commit_step_keeps [simp]:
  "mr_fences (snd (commit_step env inp tree j r)) = mr_fences r" "mr_sources (snd (commit_step env inp tree j r)) = mr_sources r"
proof -
  obtain j' r' where c: "commit_step env inp tree j r = (j', r')" by (metis surj_pair)
  then have "mr_fences r' = mr_fences r \<and> mr_sources r' = mr_sources r"
    by (cases rule: commit_step_cases) (auto dest: replace_dir_keeps)
  with c show "mr_fences (snd (commit_step env inp tree j r)) = mr_fences r" "mr_sources (snd (commit_step env inp tree j r)) = mr_sources r"
    by simp_all
qed

lemma job_step_fence_le:
  assumes "fence_of r l = FenceFile f"
  shows "\<exists>g. fence_of (snd (job_step env inp j r)) l = FenceFile g \<and> fence_le f g"
proof (cases "ij_phase j = Publishing")
  case True
  obtain res r' where p: "publish_artifact_install_fence (ji_lock_fails inp) (ji_write_fails inp) (job_lock env j) (job_fence env j) r = (res, r')"
    by (metis surj_pair)
  have "snd (publish_step env inp j r) = (if ji_cancelled inp \<or> ji_root_fails inp then r else r')"
    using p by (auto simp: publish_step_def split: sum.splits)
  with True publish_fence_le[OF p assms] assms show ?thesis by (auto simp: job_step_def)
next
  case False
  then have "mr_fences (snd (job_step env inp j r)) = mr_fences r"
    by (simp add: job_step_def split: job_phase.split)
  with assms show ?thesis by (simp add: fence_of_def)
qed

lemma system_step_fence_le:
  assumes "install_system_step env s t" "fence_of (is_root s) l = FenceFile f"
  shows "\<exists>g. fence_of (is_root t) l = FenceFile g \<and> fence_le f g"
  using assms
proof (cases rule: install_system_step.cases)
  case (step_job i inp j r)
  with job_step_fence_le[OF assms(2), of env inp "is_jobs s ! i"] show ?thesis by simp
qed (auto dest: publish_fence_le)

lemma system_steps_fence_le:
  assumes "(install_system_step env)\<^sup>*\<^sup>* s t" "fence_of (is_root s) l = FenceFile f"
  shows "\<exists>g. fence_of (is_root t) l = FenceFile g \<and> fence_le f g"
  using assms
proof (induction rule: rtranclp_induct)
  case (step t u)
  then obtain g where "fence_of (is_root t) l = FenceFile g" "fence_le f g" by auto
  with system_step_fence_le[OF step(2)] fence_le_trans show ?case by blast
qed auto

text \<open>Only a commit changes a directory, and only the job's own.\<close>

lemma job_step_dirs:
  assumes "mr_dirs (snd (job_step env inp j r)) \<noteq> mr_dirs r"
  obtains tree ok new f where "ij_phase j = Committing tree" "fence_of r (job_lock env j) = FenceFile f"
    "artifact_fences_equal f (job_fence env j)"
    "write_marker (ji_write_fails inp) (path_join (ie_model_root env) (ij_dir j)) (ij_model j) (ij_artifact j) (ji_now inp) tree = Some new"
    "replace_dir (ji_replace inp) (ij_dir j) new r = (ok, snd (job_step env inp j r))"
proof -
  obtain tree where t: "ij_phase j = Committing tree"
    using assms by (cases "ij_phase j") (auto simp: job_step_def)
  obtain j' r' where c: "commit_step env inp tree j r = (j', r')" by (metis surj_pair)
  then have "snd (job_step env inp j r) = r'" using t by (simp add: job_step_def)
  with c t assms that show thesis by (cases rule: commit_step_cases) auto
qed

text \<open>
  C15. Once a fence with a revision is published for a directory, no install of an older configuration replaces that
  directory, however its steps interleave with those of other installs and agents.
\<close>

theorem superseded_install_never_commits:
  assumes "fence_of (is_root s) lock = FenceFile f" "(install_system_step env)\<^sup>*\<^sup>* s t"
    and "i < length (is_jobs t)" "job_lock env (is_jobs t ! i) = lock" "ij_revision (is_jobs t ! i) < fence_revision f"
  shows "mr_dirs (snd (job_step env inp (is_jobs t ! i) (is_root t))) = mr_dirs (is_root t)"
proof (rule ccontr)
  assume "\<not> ?thesis"
  then obtain g where g: "fence_of (is_root t) lock = FenceFile g" "artifact_fences_equal g (job_fence env (is_jobs t ! i))"
    using assms(4) by (auto elim: job_step_dirs)
  moreover have "fence_revision f \<le> fence_revision g"
    using system_steps_fence_le[OF assms(2,1)] g(1) fence_le_revision by auto
  ultimately show False using assms(5) by (simp add: artifact_fences_equal_def job_fence_def)
qed

section \<open>Directories hold verified content\<close>

lemma base_filename_free: "base_filename a = Some f \<Longrightarrow> CHR ''/'' \<notin> set f"
  using path_base_free[of "art_object a"] by (auto simp: base_filename_def Let_def split: if_splits)

lemma source_path_slash: "CHR ''/'' \<in> set (source_path sha a)"
  by (simp add: source_path_def)

text \<open>The tree is what the installer makes of bytes that have the artifact's checksum.\<close>

definition built_from :: "artifact \<Rightarrow> file_tree \<Rightarrow> bool" where
  "built_from a tree \<longleftrightarrow> (\<exists>inp body. crc64_ecma body = art_crc64ecma a \<and> stage_artifact inp a (SourceBytes body) = Inr tree)"

definition marker_artifact :: "marker \<Rightarrow> artifact" where
  "marker_artifact m = \<lparr>art_object = mk_object m, art_kind = mk_kind m, art_crc64ecma = mk_crc64ecma m\<rparr>"

definition dir_sound :: "installed_dir \<Rightarrow> bool" where
  "dir_sound d \<longleftrightarrow> (\<forall>m. id_marker d = MarkerFile m \<longrightarrow>
     (\<exists>tree. built_from (marker_artifact m) tree \<and> id_tree d = mdel [marker_name] tree))"

definition root_sound :: "model_root \<Rightarrow> bool" where
  "root_sound r \<longleftrightarrow> (\<forall>(dir, d) \<in> set (mr_dirs r). dir_sound d)"

definition source_sound :: "install_env \<Rightarrow> model_root \<Rightarrow> artifact \<Rightarrow> string \<Rightarrow> bool" where
  "source_sound env r a p \<longleftrightarrow> (p = source_path (ie_sha env) a \<or> CHR ''/'' \<notin> set p) \<and>
     (\<exists>b. source_of r p = SourceBytes b \<and> crc64_ecma b = art_crc64ecma a)"

definition job_sound :: "install_env \<Rightarrow> model_root \<Rightarrow> install_job \<Rightarrow> bool" where
  "job_sound env r j \<longleftrightarrow>
     (case ij_phase j of
        Staging p \<Rightarrow> source_sound env r (ij_artifact j) p
      | Committing tree \<Rightarrow> built_from (ij_artifact j) tree
      | _ \<Rightarrow> True)"

text \<open>No two of the artifacts share a lock name unless they share the checksum: SHA-256 does not collide on them.\<close>

definition names_tell_checksums :: "sha256 \<Rightarrow> artifact set \<Rightarrow> bool" where
  "names_tell_checksums sha A \<longleftrightarrow>
     (\<forall>a \<in> A. \<forall>b \<in> A. artifact_lock_name sha a = artifact_lock_name sha b \<longrightarrow> art_crc64ecma a = art_crc64ecma b)"

lemma names_tell_mono: "names_tell_checksums sha B \<Longrightarrow> A \<subseteq> B \<Longrightarrow> names_tell_checksums sha A"
  by (auto simp: names_tell_checksums_def)

lemma job_sound_finish [simp]: "job_sound env r (finish res j)"
  by (simp add: job_sound_def finish_def)

lemma local_source_sound:
  assumes "local_artifact_source (ie_sha env) a r = Inr (Some p)"
  shows "source_sound env r a p"
  using assms base_filename_free
  by (auto simp: local_artifact_source_def source_has_crc_def source_sound_def
      split: option.splits sum.splits bool.splits source_file.splits)

text \<open>A fetch leaves the sources as they are, or stores bytes with the right checksum in the artifact's own file.\<close>

lemma fetch_step_sources:
  assumes "fetch_step env inp j r = (j', r')"
  obtains "mr_sources r' = mr_sources r"
  | body where "crc64_ecma body = art_crc64ecma (ij_artifact j)"
      "mr_sources r' = mput (source_path (ie_sha env) (ij_artifact j)) (SourceBytes body) (mr_sources r)"
  using assms
  by (auto simp: fetch_step_def Let_def split: sum.splits bool.splits option.splits if_splits)

lemma fetch_step_sound:
  assumes "fetch_step env inp j r = (j', r')"
  shows "job_sound env r' j'"
  using assms local_source_sound
  by (auto simp: fetch_step_def Let_def job_sound_def source_sound_def source_of_def finish_def
      split: sum.splits bool.splits option.splits if_splits)

lemma stage_step_sound:
  assumes "source_sound env r (ij_artifact j) p"
  shows "job_sound env r (stage_step inp p j r)"
proof -
  obtain b where "source_of r p = SourceBytes b" "crc64_ecma b = art_crc64ecma (ij_artifact j)"
    using assms by (auto simp: source_sound_def)
  then show ?thesis
    by (auto simp: stage_step_def job_sound_def built_from_def finish_def split: sum.splits)
qed

lemma written_dir_sound:
  assumes "built_from a tree" "write_marker fails path model a now tree = Some new"
  shows "dir_sound new"
proof -
  have "marker_artifact \<lparr>mk_model = model, mk_object = art_object a, mk_kind = art_kind a, mk_crc64ecma = art_crc64ecma a,
      mk_installed_path = path, mk_installed_at = now\<rparr> = a"
    by (simp add: marker_artifact_def)
  with assms show ?thesis by (auto simp: write_marker_def dir_sound_def split: if_splits)
qed

lemma replace_dir_sound:
  assumes "root_sound r" "dir_sound new" "replace_dir fault dir new r = (ok, r')"
  shows "root_sound r'"
  using assms set_mput_subset[of dir new "mr_dirs r"] set_mdel_subset[of dir "mr_dirs r"]
  by (fastforce simp: replace_dir_def Let_def root_sound_def split: replace_fault.splits if_splits)

text \<open>What one step of a job keeps: the job's own claim on its content, the claims of the others and the directories.\<close>

lemma job_step_sound:
  assumes "root_sound r" "job_sound env r j"
  shows "root_sound (snd (job_step env inp j r))" "job_sound env (snd (job_step env inp j r)) (fst (job_step env inp j r))"
proof -
  obtain j' r' where st: "job_step env inp j r = (j', r')" by (metis surj_pair)
  have "root_sound r' \<and> job_sound env r' j'"
  proof (cases "ij_phase j")
    case Publishing
    have "root_sound (snd (publish_step env inp j r))" using assms by (simp add: root_sound_def)
    moreover have "job_sound env r1 (fst (publish_step env inp j r))" for r1
      by (simp add: publish_step_def job_sound_def finish_def split: prod.split sum.split)
    moreover have "publish_step env inp j r = (j', r')" using Publishing st by (simp add: job_step_def)
    ultimately show ?thesis by (metis fst_conv snd_conv)
  next
    case Checking
    have "job_sound env r (check_step j r)"
      by (simp add: check_step_def job_sound_def finish_def split: sum.split bool.split)
    with Checking st assms show ?thesis by (auto simp: job_step_def)
  next
    case Fetching
    then have f: "fetch_step env inp j r = (j', r')" using st by (simp add: job_step_def)
    moreover have "mr_dirs r' = mr_dirs r" using f fetch_step_keeps(1)[of env inp j r] by simp
    ultimately show ?thesis using assms fetch_step_sound by (simp add: root_sound_def)
  next
    case (Staging p)
    with st assms stage_step_sound show ?thesis by (auto simp: job_step_def job_sound_def)
  next
    case (Committing tree)
    then have c: "commit_step env inp tree j r = (j', r')" "built_from (ij_artifact j) tree"
      using st assms by (auto simp: job_step_def job_sound_def)
    from c(1) show ?thesis
    proof (cases rule: commit_step_cases)
      case (replaced ok new f)
      with replace_dir_sound[OF assms(1) written_dir_sound[OF c(2)]] show ?thesis by auto
    qed (use assms in auto)
  next
    case (Finished res)
    with st assms show ?thesis by (auto simp: job_step_def)
  qed
  with st show "root_sound (snd (job_step env inp j r))" "job_sound env (snd (job_step env inp j r)) (fst (job_step env inp j r))"
    by simp_all
qed

lemma other_job_sound:
  assumes "job_sound env r k" and "names_tell_checksums (ie_sha env) A" "ij_artifact j \<in> A" "ij_artifact k \<in> A"
  shows "job_sound env (snd (job_step env inp j r)) k"
proof (cases "ij_phase j = Fetching")
  case False
  then have "mr_sources (snd (job_step env inp j r)) = mr_sources r"
    by (simp add: job_step_def split: job_phase.split)
  with assms(1) show ?thesis by (cases "ij_phase k") (simp_all add: job_sound_def source_sound_def source_of_def)
next
  case True
  then have st: "job_step env inp j r = fetch_step env inp j r" by (simp add: job_step_def)
  obtain j' r' where f: "fetch_step env inp j r = (j', r')" by (metis surj_pair)
  show ?thesis
  proof (cases "ij_phase k")
    case (Staging p)
    then have k: "source_sound env r (ij_artifact k) p" using assms(1) by (simp add: job_sound_def)
    from f have "source_sound env r' (ij_artifact k) p"
    proof (cases rule: fetch_step_sources)
      case 1
      with k show ?thesis by (simp add: source_sound_def source_of_def)
    next
      case (2 body)
      show ?thesis
      proof (cases "p = source_path (ie_sha env) (ij_artifact j)")
        case True
        then have "p = source_path (ie_sha env) (ij_artifact k)" using k source_path_slash by (auto simp: source_sound_def)
        with True have "artifact_lock_name (ie_sha env) (ij_artifact j) = artifact_lock_name (ie_sha env) (ij_artifact k)"
          by (simp add: source_path_def)
        with assms(2-4) have "art_crc64ecma (ij_artifact j) = art_crc64ecma (ij_artifact k)"
          unfolding names_tell_checksums_def by blast
        with 2 True \<open>p = source_path (ie_sha env) (ij_artifact k)\<close> show ?thesis
          by (simp add: source_sound_def source_of_def)
      next
        case False
        with 2 k show ?thesis by (simp add: source_sound_def source_of_def)
      qed
    qed
    with Staging st f show ?thesis by (simp add: job_sound_def)
  qed (use assms(1) in \<open>simp_all add: job_sound_def\<close>)
qed

text \<open>The invariant of a model root with its jobs.\<close>

definition system_sound :: "install_env \<Rightarrow> install_system \<Rightarrow> bool" where
  "system_sound env s \<longleftrightarrow> root_sound (is_root s) \<and> (\<forall>j \<in> set (is_jobs s). job_sound env (is_root s) j)"

abbreviation system_artifacts :: "install_system \<Rightarrow> artifact set" where
  "system_artifacts s \<equiv> ij_artifact ` set (is_jobs s)"

lemma system_artifacts_grow:
  assumes "install_system_step env s t"
  shows "system_artifacts s \<subseteq> system_artifacts t"
  using assms
proof (cases rule: install_system_step.cases)
  case (step_job i inp j r)
  then have "ij_artifact j = ij_artifact (is_jobs s ! i)"
    using job_step_same[of "is_jobs s ! i" env inp "is_root s"] by (simp add: same_job_def)
  then have "map ij_artifact (is_jobs t) = map ij_artifact (is_jobs s)"
    using step_job by (simp add: map_update_same)
  then show ?thesis by (metis list.set_map subset_refl)
qed auto

lemma job_sound_sources: "mr_sources r' = mr_sources r \<Longrightarrow> job_sound env r' j = job_sound env r j"
  by (cases "ij_phase j") (simp_all add: job_sound_def source_sound_def source_of_def)

lemma system_step_sound:
  assumes "install_system_step env s t" "system_sound env s" "names_tell_checksums (ie_sha env) (system_artifacts t)"
  shows "system_sound env t"
  using assms(1)
proof (cases rule: install_system_step.cases)
  case (start_job model dir revision a)
  with assms(2) show ?thesis by (auto simp: system_sound_def new_job_def job_sound_def)
next
  case (step_job i inp j r)
  let ?j = "is_jobs s ! i"
  have j: "?j \<in> set (is_jobs s)" using step_job by simp
  have names: "names_tell_checksums (ie_sha env) (system_artifacts s)"
    using assms(1,3) names_tell_mono system_artifacts_grow by metis
  have js: "root_sound r" "job_sound env r j"
    using job_step_sound[of "is_root s" env ?j inp] assms(2) j step_job by (simp_all add: system_sound_def)
  moreover have "job_sound env r k" if "k \<in> set (is_jobs s)" for k
    using other_job_sound[OF _ names, of "is_root s" k ?j inp] assms(2) that j step_job
    by (simp add: system_sound_def)
  ultimately show ?thesis
    using step_job set_update_subset_insert[of "is_jobs s" i j] by (auto simp: system_sound_def)
next
  case (publish_fence lock_fails write_fails dir fence res r)
  then have "mr_dirs r = mr_dirs (is_root s)" "mr_sources r = mr_sources (is_root s)" using publish_keeps by metis+
  moreover from this(2) have "job_sound env r j = job_sound env (is_root s) j" for j by (rule job_sound_sources)
  ultimately show ?thesis using assms(2) publish_fence by (simp add: system_sound_def root_sound_def)
qed

lemma system_steps_sound:
  assumes "(install_system_step env)\<^sup>*\<^sup>* s t" "system_sound env s" "names_tell_checksums (ie_sha env) (system_artifacts t)"
  shows "system_sound env t"
  using assms
proof (induction rule: rtranclp_induct)
  case (step t u)
  then show ?case using system_step_sound names_tell_mono system_artifacts_grow by metis
qed


section \<open>Archives stay inside\<close>

lemma strip_common_append [simp]: "strip_common xs (xs @ ys) = ([], ys)"
proof (induction xs)
  case Nil
  show ?case by (cases ys) simp_all
qed simp

lemma rel_of_join:
  assumes "\<forall>p \<in> set ps. plain_comp p" "ps \<noteq> []"
  shows "filepath_rel dest (path_join dest (path_of False ps)) = Some (path_of False ps)"
proof -
  let ?a = "is_abs_path dest" and ?d = "clean_comps dest"
  note j = clean_comps_join[OF assms, of dest]
  have base: "clean_list ?a ?d" "path_clean dest = path_of ?a ?d" by (simp_all add: path_clean_of)
  have t: "path_clean (path_of ?a (?d @ ps)) = path_of ?a (?d @ ps)" "is_abs_path (path_of ?a (?d @ ps)) = ?a"
    "path_comps (path_of ?a (?d @ ps)) = ?d @ ps"
    using clean_comps_of[OF j(2)] path_of_nonempty_comps[OF j(2)] assms(2) by (simp_all add: path_clean_of path_comps_def)
  have ne: "path_of ?a ?d \<noteq> path_of ?a (?d @ ps)"
  proof
    assume "path_of ?a ?d = path_of ?a (?d @ ps)"
    then have "?d = ?d @ ps" using clean_comps_of(1)[OF base(1)] clean_comps_of(1)[OF j(2)] by metis
    with assms(2) show False by simp
  qed
  let ?b = "if path_of ?a ?d = ''.'' then [] else path_of ?a ?d"
  have b: "is_abs_path ?b = ?a" "path_comps ?b = ?d"
  proof -
    have "is_abs_path ?b = ?a \<and> path_comps ?b = ?d"
    proof (cases "path_of ?a ?d = ''.''")
      case True
      then have "\<not> ?a" "?d = []"
        using clean_comps_of[OF base(1)] by (auto simp: clean_comps_def is_abs_path_def)
      with True show ?thesis by (simp add: path_comps_def is_abs_path_def)
    next
      case False
      have "path_of False [] = ''.''" by (simp add: path_of_def)
      with False have "?d \<noteq> [] \<or> ?a" by metis
      with False show ?thesis
        using clean_comps_of(2)[OF base(1)] path_of_nonempty_comps[OF base(1)] by (simp add: path_comps_def)
    qed
    then show "is_abs_path ?b = ?a" "path_comps ?b = ?d" by blast+
  qed
  show ?thesis
    unfolding filepath_rel_def Let_def base(2) j(1) t(1) b t(2) t(3)
    using ne assms(2) by (simp add: path_of_def)
qed

text \<open>The keys of a tree: the components of relative paths.\<close>

definition inside :: "file_tree \<Rightarrow> bool" where
  "inside tree \<longleftrightarrow> (\<forall>(p, n) \<in> set tree. p \<noteq> [] \<and> (\<forall>c \<in> set p. plain_comp c))"

lemma inside_mput: "inside tree \<Longrightarrow> p \<noteq> [] \<Longrightarrow> \<forall>c \<in> set p. plain_comp c \<Longrightarrow> inside (mput p n tree)"
  using set_mput_subset[of p n tree] by (fastforce simp: inside_def)

lemma inside_mdel [simp]: "inside tree \<Longrightarrow> inside (mdel p tree)"
  using set_mdel_subset[of p tree] by (auto simp: inside_def)

lemma mkdir_steps_inside:
  assumes "foldl mkdir_step (Some tree) ps = Some t" "inside tree" "\<forall>p \<in> set ps. p \<noteq> [] \<and> (\<forall>c \<in> set p. plain_comp c)"
  shows "inside t"
  using assms
proof (induction ps arbitrary: tree)
  case (Cons p ps)
  have none: "foldl mkdir_step None qs = None" for qs by (induction qs) (simp_all add: mkdir_step_def)
  obtain t1 where t1: "mkdir_step (Some tree) p = Some t1" using Cons(2) none by (cases "mkdir_step (Some tree) p") auto
  then have "inside t1"
    using Cons(3,4) inside_mput by (auto simp: mkdir_step_def split: option.splits tree_node.splits)
  with Cons t1 show ?case by simp
qed simp

lemma mkdir_all_inside:
  assumes "mkdir_all comps tree = Some t" "inside tree" "\<forall>c \<in> set comps. plain_comp c"
  shows "inside t"
proof (rule mkdir_steps_inside[OF assms(1)[unfolded mkdir_all_def] assms(2)])
  show "\<forall>p \<in> set (map (\<lambda>n. take n comps) [1..<Suc (length comps)]). p \<noteq> [] \<and> (\<forall>c \<in> set p. plain_comp c)"
    using assms(3) in_set_takeD by fastforce
qed

lemma extract_tar_entry_inside:
  assumes "extract_tar_entry dest e tree = Inr t" "inside tree"
  shows "inside t"
proof (cases "path_clean (tar_name e) = ''.''")
  case True
  with assms show ?thesis by (simp add: extract_tar_entry_def)
next
  case False
  let ?ps = "clean_comps (tar_name e)"
  have rel: "\<not> is_abs_path (tar_name e)" "path_clean (tar_name e) \<noteq> ''..''" "\<not> has_prefix (path_clean (tar_name e)) ''../''"
    using assms(1) False by (auto simp: extract_tar_entry_def Let_def split: if_splits)
  have cl: "path_clean (tar_name e) = path_of False ?ps" "clean_list False ?ps"
    using rel(1) clean_comps_clean[of "tar_name e"] by (simp_all add: path_clean_of)
  have ne: "?ps \<noteq> []" using False cl by (auto simp: path_of_def)
  have "hd ?ps \<noteq> ''..''"
  proof
    assume "hd ?ps = ''..''"
    then obtain qs where "?ps = ''..'' # qs" using ne by (metis list.collapse)
    then show False using rel(2,3) cl(1) by (cases qs) (auto simp: path_of_def has_prefix_def)
  qed
  then have plain: "\<forall>p \<in> set ?ps. plain_comp p" using clean_list_plain[OF cl(2)] by blast
  have comps: "path_comps (path_of False ?ps) = ?ps"
    using path_of_nonempty_comps[OF cl(2)] ne by (simp add: path_comps_def)
  have dirs: "inside t'" if "mkdir_all (butlast ?ps) tree = Some t'" for t'
    using mkdir_all_inside[OF that assms(2)] plain in_set_butlastD by fast
  show ?thesis
    using assms False rel_of_join[OF plain ne, of dest] cl(1) comps plain ne mkdir_all_inside[OF _ assms(2) plain] dirs inside_mput
    by (auto simp: extract_tar_entry_def Let_def split: tar_type.splits option.splits if_splits)
qed

lemma extract_tar_inside: "extract_tar dest es tree = Inr t \<Longrightarrow> inside tree \<Longrightarrow> inside t"
proof (induction es arbitrary: tree)
  case (Cons e es)
  then show ?case by (auto split: sum.splits dest: extract_tar_entry_inside)
qed simp

lemma flatten_inside:
  assumes "flatten_single_top_level_dir tree = Inr t" "inside tree"
  shows "inside t"
proof -
  have "t = tree \<or> (\<exists>d. t = map (\<lambda>(k, n). (tl k, n)) (filter (\<lambda>(k, n). hd k = d \<and> 1 < length k) tree))"
    using assms(1) by (auto simp: flatten_single_top_level_dir_def split: list.splits if_splits)
  moreover have "tl k \<noteq> [] \<and> (\<forall>c \<in> set (tl k). plain_comp c)" if "(k, n) \<in> set tree" "1 < length k" for k n
    using that assms(2) by (cases k) (auto simp: inside_def)
  ultimately show ?thesis using assms(2) by (fastforce simp: inside_def)
qed

text \<open>
  C26. Whatever the entry names of an archive are, every file and directory that unpacking it creates lies below the
  staging directory: its path is a non-empty list of components, none of them empty, \<open>.\<close>, \<open>..\<close> or with a slash.
\<close>

theorem unpacked_stays_inside:
  assumes "stage_tar_gz dest archive = Inr tree" "(p, n) \<in> set tree"
  shows "p \<noteq> [] \<and> (\<forall>c \<in> set p. c \<noteq> [] \<and> c \<noteq> ''.'' \<and> c \<noteq> ''..'' \<and> CHR ''/'' \<notin> set c)"
proof -
  have "inside tree"
    using assms(1) extract_tar_inside[of dest "fst archive" "[]"] flatten_inside
    by (auto simp: stage_tar_gz_def inside_def[of "[]"] split: sum.splits if_splits)
  with assms(2) show ?thesis by (auto simp: inside_def plain_comp_def)
qed

section \<open>An undisturbed install\<close>

definition calm :: "job_input \<Rightarrow> bool" where
  "calm inp \<longleftrightarrow> \<not> ji_cancelled inp \<and> \<not> ji_root_fails inp \<and> \<not> ji_lock_fails inp \<and> \<not> ji_write_fails inp \<and>
     \<not> ji_stage_fails inp \<and> ji_replace inp = NothingFails"

text \<open>The directory's fence does not stand in the way of the job.\<close>

definition may_publish :: "install_env \<Rightarrow> install_job \<Rightarrow> model_root \<Rightarrow> bool" where
  "may_publish env j r \<longleftrightarrow> fence_fingerprint (job_fence env j) \<noteq> [] \<and>
     (case fence_of r (job_lock env j) of
        NoFence \<Rightarrow> True
      | FenceFile f \<Rightarrow> fence_fingerprint f \<noteq> [] \<and>
          (artifact_fence_should_advance f (job_fence env j) \<or> artifact_fences_equal f (job_fence env j))
      | _ \<Rightarrow> False)"

lemma publish_calm:
  assumes "calm inp" "may_publish env j r"
  obtains r1 where "publish_step env inp j r = (j\<lparr>ij_phase := Checking\<rparr>, r1)"
    "fence_of r1 (job_lock env j) = FenceFile (job_fence env j)" "mr_dirs r1 = mr_dirs r" "mr_sources r1 = mr_sources r"
proof -
  let ?f = "job_fence env j" and ?l = "job_lock env j"
  let ?r = "r\<lparr>mr_fences := mput ?l (FenceFile ?f) (mr_fences r)\<rparr>"
  have wr: "write_artifact_install_fence False ?l ?f r = (None, ?r)" by (simp add: write_artifact_install_fence_def)
  have "publish_artifact_install_fence False False ?l ?f r = (Inr (?f, True), ?r) \<or>
    publish_artifact_install_fence False False ?l ?f r = (Inr (?f, True), r) \<and> fence_of r ?l = FenceFile ?f"
  proof (cases "fence_of r ?l")
    case NoFence
    with wr show ?thesis by (simp add: publish_artifact_install_fence_def read_artifact_install_fence_def)
  next
    case (FenceFile f)
    then have f: "read_artifact_install_fence r ?l = Inr (Some f)"
      "artifact_fence_should_advance f ?f \<or> artifact_fences_equal f ?f"
      using assms(2) by (simp_all add: may_publish_def read_artifact_install_fence_def)
    have "artifact_fences_equal f ?f \<Longrightarrow> f = ?f" by (simp add: artifact_fences_equal_def)
    with f wr FenceFile show ?thesis by (auto simp: publish_artifact_install_fence_def)
  qed (use assms in \<open>simp_all add: may_publish_def\<close>)
  then obtain r1 where r1: "publish_artifact_install_fence False False ?l ?f r = (Inr (?f, True), r1)"
    "fence_of r1 ?l = FenceFile ?f" by (auto simp: fence_of_def)
  have "publish_step env inp j r = (j\<lparr>ij_phase := Checking\<rparr>, r1)"
    using assms(1) r1(1) by (simp add: publish_step_def calm_def)
  with r1 publish_keeps[OF r1(1)] that show thesis by blast
qed

lemma marker_of_dirs: "mr_dirs r1 = mr_dirs r \<Longrightarrow> marker_matches r1 d m a = marker_matches r d m a"
  by (simp add: marker_matches_def marker_of_def)

lemma source_of_sources: "mr_sources r1 = mr_sources r \<Longrightarrow> source_of r1 = source_of r"
  by (simp add: source_of_def fun_eq_iff)

lemma local_source_sources:
  "mr_sources r1 = mr_sources r \<Longrightarrow> local_artifact_source sha a r1 = local_artifact_source sha a r"
  unfolding local_artifact_source_def by (drule source_of_sources) (erule ssubst, rule refl)

lemma finish_phase [simp]: "finish res (j\<lparr>ij_phase := p\<rparr>) = finish res j"
  by (simp add: finish_def)

lemma job_lock_phase [simp]: "job_lock env (j\<lparr>ij_phase := p\<rparr>) = job_lock env j"
  by (simp add: job_lock_def)

lemma job_fence_phase [simp]: "job_fence env (j\<lparr>ij_phase := p\<rparr>) = job_fence env j"
  by (simp add: job_fence_def)

text \<open>The bytes of the artifact come from the store, and they are the right ones.\<close>

definition served :: "install_env \<Rightarrow> job_input \<Rightarrow> artifact \<Rightarrow> string \<Rightarrow> bool" where
  "served env inp a body \<longleftrightarrow> check_remote_crc (ji_head inp (artifact_url (ie_oss_base env) (art_object a))) (art_crc64ecma a) = None \<and>
     download_artifact (ji_get inp (artifact_url (ie_oss_base env) (art_object a))) = Inr body \<and> crc64_ecma body = art_crc64ecma a"

lemma fetch_calm:
  assumes "calm inp" "marker_matches r (ij_dir j) (ij_model j) (ij_artifact j) = Inr False"
    and "local_artifact_source (ie_sha env) (ij_artifact j) r = Inr None" "served env inp (ij_artifact j) body"
  shows "fetch_step env inp j r = (j\<lparr>ij_phase := Staging (source_path (ie_sha env) (ij_artifact j))\<rparr>,
    r\<lparr>mr_sources := mput (source_path (ie_sha env) (ij_artifact j)) (SourceBytes body) (mr_sources r)\<rparr>)"
  using assms by (simp add: fetch_step_def calm_def served_def Let_def)

lemma written_marker:
  assumes "map_of tree [marker_name] \<noteq> Some DirNode"
  obtains new m where "write_marker False path model a now tree = Some new" "id_marker new = MarkerFile m"
    "mk_model m = model" "marker_artifact m = a"
  using assms by (simp add: write_marker_def marker_artifact_def)

lemma commit_calm:
  assumes "calm inp" "fence_of r (job_lock env j) = FenceFile (job_fence env j)" "fence_fingerprint (job_fence env j) \<noteq> []"
    and "marker_matches r (ij_dir j) (ij_model j) (ij_artifact j) = Inr False" "map_of tree [marker_name] \<noteq> Some DirNode"
  obtains r' where "commit_step env inp tree j r = (finish (Inr True) j, r')"
    "marker_matches r' (ij_dir j) (ij_model j) (ij_artifact j) = Inr True" "mr_fences r' = mr_fences r"
    "\<exists>new m. mr_dirs r' = mput (ij_dir j) new (mr_dirs r) \<and> id_marker new = MarkerFile m"
proof -
  obtain new m where new: "write_marker False (path_join (ie_model_root env) (ij_dir j)) (ij_model j) (ij_artifact j) (ji_now inp) tree = Some new"
    "id_marker new = MarkerFile m" "mk_model m = ij_model j" "marker_artifact m = ij_artifact j"
    using written_marker[OF assms(5)] by blast
  let ?r = "r\<lparr>mr_dirs := mput (ij_dir j) new (mr_dirs r)\<rparr>"
  have "artifact_fences_equal (job_fence env j) (job_fence env j)" by (simp add: artifact_fences_equal_def)
  then have "commit_step env inp tree j r = (finish (Inr True) j, ?r)"
    using assms new(1) by (simp add: calm_def commit_step_def read_artifact_install_fence_def replace_dir_def Let_def)
  moreover have "marker_matches ?r (ij_dir j) (ij_model j) (ij_artifact j) = Inr True"
    using new(2,3) by (simp add: marker_matches_def marker_of_def marker_artifact_def flip: new(4))
  moreover have "\<exists>d m. mr_dirs ?r = mput (ij_dir j) d (mr_dirs r) \<and> id_marker d = MarkerFile m" using new(2) by auto
  ultimately show thesis using that by simp
qed

abbreviation five_steps :: "install_env \<Rightarrow> job_input \<Rightarrow> install_job \<times> model_root \<Rightarrow> install_job \<times> model_root" where
  "five_steps env inp \<equiv> run_job env (replicate 5 inp)"

lemma five_steps_step:
  "five_steps env inp st = (let s = (\<lambda>(j, r). job_step env inp j r) in s (s (s (s (s st)))))"
  by (cases st) (simp add: eval_nat_numeral Let_def split: prod.split)

lemma calm_run:
  assumes "calm inp" "may_publish env j r" "ij_phase j = Publishing"
    and "marker_matches r (ij_dir j) (ij_model j) (ij_artifact j) = Inr False"
    and "local_artifact_source (ie_sha env) (ij_artifact j) r = Inr None" "served env inp (ij_artifact j) body"
    and "stage_artifact inp (ij_artifact j) (SourceBytes body) = Inr tree" "map_of tree [marker_name] \<noteq> Some DirNode"
  obtains r' where "five_steps env inp (j, r) = (finish (Inr True) j, r')"
    "marker_matches r' (ij_dir j) (ij_model j) (ij_artifact j) = Inr True"
    "fence_of r' (job_lock env j) = FenceFile (job_fence env j)"
    "\<exists>new m. mr_dirs r' = mput (ij_dir j) new (mr_dirs r) \<and> id_marker new = MarkerFile m"
proof -
  let ?p = "source_path (ie_sha env) (ij_artifact j)"
  obtain r1 where r1: "publish_step env inp j r = (j\<lparr>ij_phase := Checking\<rparr>, r1)"
    "fence_of r1 (job_lock env j) = FenceFile (job_fence env j)" "mr_dirs r1 = mr_dirs r" "mr_sources r1 = mr_sources r"
    using publish_calm[OF assms(1,2)] by blast
  have m1: "marker_matches r1 (ij_dir j) (ij_model j) (ij_artifact j) = Inr False"
    "local_artifact_source (ie_sha env) (ij_artifact j) r1 = Inr None"
    using assms(4,5) marker_of_dirs[OF r1(3)] local_source_sources[OF r1(4)] by simp_all
  let ?r2 = "r1\<lparr>mr_sources := mput ?p (SourceBytes body) (mr_sources r1)\<rparr>"
  have s2: "check_step (j\<lparr>ij_phase := Checking\<rparr>) r1 = j\<lparr>ij_phase := Fetching\<rparr>" using m1(1) by (simp add: check_step_def)
  have s3: "fetch_step env inp (j\<lparr>ij_phase := Fetching\<rparr>) r1 = (j\<lparr>ij_phase := Staging ?p\<rparr>, ?r2)"
    using fetch_calm[OF assms(1), of r1 "j\<lparr>ij_phase := Fetching\<rparr>" env body] m1 assms(6) by simp
  have s4: "stage_step inp ?p (j\<lparr>ij_phase := Staging ?p\<rparr>) ?r2 = j\<lparr>ij_phase := Committing tree\<rparr>"
    using assms(7) by (simp add: stage_step_def source_of_def)
  have "fence_fingerprint (job_fence env j) \<noteq> []" using assms(2) by (simp add: may_publish_def)
  moreover have "marker_matches ?r2 (ij_dir j) (ij_model j) (ij_artifact j) = Inr False" using m1(1) marker_of_dirs[of ?r2 r1] by simp
  ultimately obtain r' where r': "commit_step env inp tree (j\<lparr>ij_phase := Committing tree\<rparr>) ?r2 = (finish (Inr True) j, r')"
    "marker_matches r' (ij_dir j) (ij_model j) (ij_artifact j) = Inr True" "mr_fences r' = mr_fences r1"
    "\<exists>new m. mr_dirs r' = mput (ij_dir j) new (mr_dirs r) \<and> id_marker new = MarkerFile m"
    using commit_calm[OF assms(1), of ?r2 env "j\<lparr>ij_phase := Committing tree\<rparr>" tree] r1(2,3) assms(8) by (auto simp: fence_of_def)
  have "five_steps env inp (j, r) = (finish (Inr True) j, r')"
    using r1(1) s2 s3 s4 r'(1) assms(3) by (simp add: five_steps_step job_step_def)
  with r' r1(2) that show thesis by (simp add: fence_of_def)
qed

lemma calm_rerun:
  assumes "calm inp" "fence_of r (job_lock env j) = FenceFile (job_fence env j)" "fence_fingerprint (job_fence env j) \<noteq> []"
    and "ij_phase j = Publishing" "marker_matches r (ij_dir j) (ij_model j) (ij_artifact j) = Inr True"
  shows "five_steps env inp (j, r) = (finish (Inr False) j, r)"
proof -
  have "publish_step env inp j r = (j\<lparr>ij_phase := Checking\<rparr>, r)"
    using assms by (simp add: publish_step_def calm_def publish_artifact_install_fence_def read_artifact_install_fence_def
        artifact_fence_should_advance_def artifact_fences_equal_def)
  moreover have "check_step (j\<lparr>ij_phase := Checking\<rparr>) r = finish (Inr False) j" using assms(5) by (simp add: check_step_def)
  ultimately show ?thesis using assms(4) by (simp add: five_steps_step job_step_def finish_def)
qed


section \<open>Examples\<close>

definition wit_env :: install_env where
  "wit_env = \<lparr>ie_sha = (\<lambda>s. [length s mod 256]), ie_goos = ''linux'', ie_oss_base = ''http://oss/'', ie_model_root = ''/models''\<rparr>"

definition wit_artifact :: artifact where
  "wit_artifact = \<lparr>art_object = ''a/w.bin'', art_kind = ''file'', art_crc64ecma = crc64_ecma ''x''\<rparr>"

definition wit_input :: job_input where
  "wit_input = \<lparr>ji_cancelled = False, ji_root_fails = False, ji_lock_fails = False, ji_write_fails = False,
     ji_head = (\<lambda>url. HeadResponse 200 (crc64_ecma ''x'')), ji_get = (\<lambda>url. GetResponse 200 ''x''), ji_stage_fails = False,
     ji_stage_dir = ''/models/.stage'', ji_tar = (\<lambda>body. ([], True)), ji_now = 5, ji_replace = NothingFails\<rparr>"

definition wit_root :: model_root where
  "wit_root = \<lparr>mr_fences = [], mr_dirs = [], mr_sources = []\<rparr>"

text \<open>A job that runs alone is a run of the system.\<close>

lemma run_job_reachable:
  "(install_system_step env)\<^sup>*\<^sup>* \<lparr>is_root = r, is_jobs = [j]\<rparr>
     \<lparr>is_root = snd (run_job env inps (j, r)), is_jobs = [fst (run_job env inps (j, r))]\<rparr>"
proof (induction inps arbitrary: j r)
  case (Cons inp inps)
  obtain j' r' where st: "job_step env inp j r = (j', r')" by (metis surj_pair)
  then have "install_system_step env \<lparr>is_root = r, is_jobs = [j]\<rparr> \<lparr>is_root = r', is_jobs = [j']\<rparr>"
    using step_job[where i = 0 and s = "\<lparr>is_root = r, is_jobs = [j]\<rparr>" and inp = inp and env = env] by simp
  with Cons.IH[where j = j' and r = r'] st show ?case by (simp add: converse_rtranclp_into_rtranclp)
qed simp

lemma new_job_reachable:
  "(install_system_step env)\<^sup>*\<^sup>* \<lparr>is_root = r, is_jobs = []\<rparr>
     \<lparr>is_root = snd (run_job env inps (new_job model dir revision a, r)), is_jobs = [fst (run_job env inps (new_job model dir revision a, r))]\<rparr>"
proof -
  have "install_system_step env \<lparr>is_root = r, is_jobs = []\<rparr> \<lparr>is_root = r, is_jobs = [new_job model dir revision a]\<rparr>"
    using start_job[where s = "\<lparr>is_root = r, is_jobs = []\<rparr>" and env = env] by simp
  then show ?thesis using run_job_reachable by (rule converse_rtranclp_into_rtranclp)
qed

text \<open>Trimming leaves a decimal number as it is.\<close>

lemma trim_runes_id: "\<forall>r \<in> set rs. r \<noteq> [] \<longrightarrow> hd r \<noteq> byte (hd s) \<Longrightarrow> trim_runes rs s = s"
proof -
  assume a: "\<forall>r \<in> set rs. r \<noteq> [] \<longrightarrow> hd r \<noteq> byte (hd s)"
  have "\<not> bytes_at r s" if "r \<in> set rs" "r \<noteq> []" "s \<noteq> []" for r
  proof -
    obtain b bs c cs where "r = b # bs" "s = c # cs" using \<open>r \<noteq> []\<close> \<open>s \<noteq> []\<close> by (metis list.exhaust)
    with a that(1) show ?thesis by (auto simp: bytes_at_def)
  qed
  then have "find (\<lambda>r. r \<noteq> [] \<and> s \<noteq> [] \<and> bytes_at r s) rs = None" by (auto simp: find_None_iff)
  then show ?thesis by (subst trim_runes.simps) simp
qed

lemma nat_digits_not_Nil [simp]: "nat_digits n \<noteq> []"
  by (subst nat_digits.simps) simp

lemma trim_space_digits [simp]: "trim_space (nat_digits n) = nat_digits n"
proof -
  have d: "48 \<le> byte (hd (nat_digits n)) \<and> byte (hd (nat_digits n)) \<le> 57"
    "48 \<le> byte (hd (rev (nat_digits n))) \<and> byte (hd (rev (nat_digits n))) \<le> 57"
    by (rule nat_digits_digit[of _ n]; simp add: hd_rev)+
  have "trim_runes space_runes (nat_digits n) = nat_digits n"
    by (rule trim_runes_id) (use d(1) in \<open>auto simp: space_runes_def\<close>)
  moreover have "trim_runes (map rev space_runes) (rev (nat_digits n)) = rev (nat_digits n)"
    by (rule trim_runes_id) (use d(2) in \<open>auto simp: space_runes_def\<close>)
  ultimately show ?thesis by (simp add: trim_space_def)
qed

definition wit_job :: install_job where
  "wit_job = new_job ''m'' ''m'' 3 wit_artifact"

definition wit_tree :: file_tree where
  "wit_tree = [([''w.bin''], FileNode None ''x'')]"

lemma wit_simple [simp]:
  "calm wit_input" "\<not> ji_stage_fails wit_input" "base_filename wit_artifact = Some ''w.bin''" "served wit_env wit_input wit_artifact ''x''"
  "stage_artifact inp wit_artifact (SourceBytes ''x'') = (if ji_stage_fails inp then Inl StageFailed else Inr wit_tree)"
proof -
  show "calm wit_input" "\<not> ji_stage_fails wit_input" by (simp_all add: calm_def wit_input_def)
  have "path_base ''a/w.bin'' = ''w.bin''" by code_simp
  then show b: "base_filename wit_artifact = Some ''w.bin''" by (simp add: base_filename_def wit_artifact_def Let_def)
  have "check_remote_crc (HeadResponse 200 (crc64_ecma ''x'')) (crc64_ecma ''x'') = None"
    by (simp add: check_remote_crc_def crc64_ecma_def)
  then show "served wit_env wit_input wit_artifact ''x''"
    by (simp add: served_def wit_input_def wit_artifact_def download_artifact_def)
  show "stage_artifact inp wit_artifact (SourceBytes ''x'') = (if ji_stage_fails inp then Inl StageFailed else Inr wit_tree)"
    using b by (simp add: stage_artifact_def stage_file_def wit_tree_def) (simp add: wit_artifact_def)
qed

lemma wit_root_simple [simp]:
  "may_publish wit_env (new_job ''m'' ''m'' n wit_artifact) wit_root" "marker_matches wit_root ''m'' ''m'' wit_artifact = Inr False"
  "local_artifact_source (ie_sha wit_env) wit_artifact wit_root = Inr None" "map_of wit_tree [marker_name] \<noteq> Some DirNode"
  by (simp_all add: may_publish_def fence_of_def wit_root_def job_fence_def artifact_lock_name_def wit_env_def hex_bytes_def
      marker_matches_def marker_of_def local_artifact_source_def source_of_def source_has_crc_def wit_tree_def)


text \<open>The system after that install.\<close>

definition wit_system :: install_system where
  "wit_system = \<lparr>is_root = snd (run_job wit_env (replicate 5 wit_input) (wit_job, wit_root)),
     is_jobs = [fst (run_job wit_env (replicate 5 wit_input) (wit_job, wit_root))]\<rparr>"

lemma wit_system_reachable: "(install_system_step wit_env)\<^sup>*\<^sup>* \<lparr>is_root = wit_root, is_jobs = []\<rparr> wit_system"
  unfolding wit_system_def wit_job_def by (rule new_job_reachable)

lemma wit_system_simple:
  "fence_of (is_root wit_system) (job_lock wit_env wit_job) = FenceFile (job_fence wit_env wit_job)"
  "system_artifacts wit_system = {wit_artifact}" "\<exists>d m. mr_dirs (is_root wit_system) = [(''m'', d)] \<and> id_marker d = MarkerFile m"
proof -
  have j: "ij_dir wit_job = ''m''" "ij_model wit_job = ''m''" "ij_artifact wit_job = wit_artifact" "ij_phase wit_job = Publishing"
    by (simp_all add: wit_job_def new_job_def)
  obtain r' where r': "five_steps wit_env wit_input (wit_job, wit_root) = (finish (Inr True) wit_job, r')"
    "fence_of r' (job_lock wit_env wit_job) = FenceFile (job_fence wit_env wit_job)"
    "\<exists>new m. mr_dirs r' = mput ''m'' new (mr_dirs wit_root) \<and> id_marker new = MarkerFile m"
    using calm_run[where inp = wit_input and env = wit_env and j = wit_job and r = wit_root and body = "''x''" and tree = wit_tree] j
    by (metis wit_job_def wit_root_simple wit_simple)
  then show "fence_of (is_root wit_system) (job_lock wit_env wit_job) = FenceFile (job_fence wit_env wit_job)"
    "\<exists>d m. mr_dirs (is_root wit_system) = [(''m'', d)] \<and> id_marker d = MarkerFile m"
    "system_artifacts wit_system = {wit_artifact}"
    using j by (auto simp: wit_system_def wit_root_def mput_def finish_def)
qed


theorem superseded_install_never_commits_witness:
  "mr_dirs (snd (job_step wit_env wit_input (wit_job\<lparr>ij_revision := 2, ij_phase := Committing []\<rparr>) (is_root wit_system)))
     = mr_dirs (is_root wit_system)"
  using superseded_install_never_commits[where s = "wit_system\<lparr>is_jobs := [wit_job\<lparr>ij_revision := 2, ij_phase := Committing []\<rparr>]\<rparr>"
      and t = "wit_system\<lparr>is_jobs := [wit_job\<lparr>ij_revision := 2, ij_phase := Committing []\<rparr>]\<rparr>" and env = wit_env
      and i = 0 and lock = "job_lock wit_env wit_job" and f = "job_fence wit_env wit_job" and inp = wit_input]
    wit_system_simple(1)
  by (simp add: wit_job_def new_job_def job_lock_def job_fence_def)

text \<open>An archive whose entries try to leave the directory: one is refused, the others are put below it.\<close>

definition wit_entry :: "string \<Rightarrow> tar_entry" where
  "wit_entry name = \<lparr>tar_name = name, tar_type = TarReg, tar_mode = 0, tar_body = ''x''\<rparr>"

theorem unpacked_stays_inside_witness:
  "stage_tar_gz ''/models/.stage'' ([wit_entry ''a/../b//./c''], True) = Inr [([''c''], FileNode (Some 420) ''x'')] \<and> ''c'' \<noteq> ''..''"
proof -
  have st: "stage_tar_gz ''/models/.stage'' ([wit_entry ''a/../b//./c''], True) = Inr [([''c''], FileNode (Some 420) ''x'')]"
    by code_simp
  with unpacked_stays_inside[OF st, of "[''c'']"] show ?thesis by simp
qed

text \<open>
  An archive whose only top-level directory holds an entry with the directory's own name cannot be installed:
  unpacking succeeds, but moving the content up renames that entry onto the directory that still holds it.
\<close>

theorem nested_same_name_refused:
  "stage_tar_gz ''/models/.stage'' ([wit_entry ''w/w'', wit_entry ''w/config.json''], True) = Inl FlattenFailed"
  by code_simp

end
