(* ===== verification/AgentInstalls.thy ===== *)
theory AgentInstalls
  imports Artifacts
begin

text \<open>
  How the agent schedules artifact installs (internal/agent/reconcile.go: \<open>artifactInstallKey\<close> to
  \<open>installAllowedArtifactsAsync\<close>, \<open>installAllowedArtifacts\<close>, \<open>configWithReadyArtifacts\<close>). A cycle publishes the
  fences of the wanted artifacts, cancels installs that are no longer wanted and starts at most one; an install runs as
  a goroutine between the cycles and hands its result over a channel. The order in which Go visits the map of installs
  is the order of the association list. Lock and write failures of a publication are inputs, by model.
\<close>

section \<open>Keys and entries\<close>

record artifact_install_key =
  ak_revision :: int
  ak_model :: string
  ak_model_dir :: string
  ak_object :: string
  ak_kind :: string
  ak_crc64ecma :: string

definition artifact_key :: "string \<Rightarrow> string \<Rightarrow> artifact \<Rightarrow> int \<Rightarrow> artifact_install_key" where
  "artifact_key model dir a revision =
     \<lparr>ak_revision = revision, ak_model = model, ak_model_dir = dir, ak_object = art_object a, ak_kind = art_kind a,
      ak_crc64ecma = art_crc64ecma a\<rparr>"

definition key_fence :: "sha256 \<Rightarrow> artifact_install_key \<Rightarrow> install_fence" where
  "key_fence sha k =
     \<lparr>fence_revision = ak_revision k,
      fence_fingerprint = artifact_fingerprint sha \<lparr>art_object = ak_object k, art_kind = ak_kind k, art_crc64ecma = ak_crc64ecma k\<rparr>\<rparr>"

record artifact_install_state =
  st_key :: artifact_install_key
  st_running :: bool
  st_err :: "install_error option"

record artifact_install_result =
  res_model :: string
  res_key :: artifact_install_key
  res_err :: "install_error option"

type_synonym installs = "(string, artifact_install_state) gomap"

text \<open>A result counts only for the entry that still has its key.\<close>

definition apply_install_result :: "artifact_install_result \<Rightarrow> installs \<Rightarrow> installs" where
  "apply_install_result res m =
     (case map_of m (res_model res) of
        None \<Rightarrow> m
      | Some st \<Rightarrow>
          if st_key st \<noteq> res_key res then m
          else mput (res_model res) (st\<lparr>st_running := False, st_err := res_err res\<rparr>) m)"

definition drain_install_results :: "artifact_install_result list \<Rightarrow> installs \<Rightarrow> installs" where
  "drain_install_results results m = fold apply_install_result results m"

section \<open>Starting and cancelling installs\<close>

datatype cycle_install_error =
    RemovalFenceFailed string install_error
  | ModelMissing string
  | FenceFailed string install_error
  | MarkerFailed string install_error
  | InstallFailed string install_error
  | CompletedWithoutMarker string

text \<open>An install that has been started: its goroutine's key and whether its context was cancelled, with the cause.\<close>

record install_run =
  run_key :: artifact_install_key
  run_work :: install_job
  run_cause :: "(install_fence \<times> install_fence) option"

text \<open>What a cycle changes; \<open>ic_cancelled\<close> are the models whose \<open>cancel\<close> it calls, with the cause.\<close>

record install_cycle =
  ic_installs :: installs
  ic_root :: model_root
  ic_status :: "(string, string) gomap"
  ic_errors :: "cycle_install_error list"
  ic_cancelled :: "(string \<times> install_fence \<times> install_fence) list"
  ic_started :: "install_run list"
  ic_installing :: bool

record publish_faults =
  pf_lock_fails :: bool
  pf_write_fails :: bool

record install_faults =
  if_removed :: "string \<Rightarrow> publish_faults"
  if_allowed :: "string \<Rightarrow> publish_faults"

definition publish_for ::
  "install_env \<Rightarrow> publish_faults \<Rightarrow> string \<Rightarrow> install_fence \<Rightarrow> model_root \<Rightarrow> (install_error + install_fence \<times> bool) \<times> model_root" where
  "publish_for env pf dir fence r =
     publish_artifact_install_fence (pf_lock_fails pf) (pf_write_fails pf)
       (model_dir_lock_name_for_os (ie_sha env) dir (ie_goos env)) fence r"

definition add_error :: "cycle_install_error \<Rightarrow> install_cycle \<Rightarrow> install_cycle" where
  "add_error e c = c\<lparr>ic_errors := ic_errors c @ [e]\<rparr>"

definition set_status :: "string \<Rightarrow> string \<Rightarrow> install_cycle \<Rightarrow> install_cycle" where
  "set_status model s c = c\<lparr>ic_status := mput model s (ic_status c)\<rparr>"

definition cancel_install :: "string \<Rightarrow> install_fence \<Rightarrow> install_fence \<Rightarrow> install_cycle \<Rightarrow> install_cycle" where
  "cancel_install model own winner c = c\<lparr>ic_cancelled := ic_cancelled c @ [(model, own, winner)]\<rparr>"

definition set_installing :: "install_cycle \<Rightarrow> install_cycle" where
  "set_installing c = c\<lparr>ic_installing := True\<rparr>"

definition drop_install :: "string \<Rightarrow> install_cycle \<Rightarrow> install_cycle" where
  "drop_install model c = c\<lparr>ic_installs := mdel model (ic_installs c)\<rparr>"

definition dir_identity :: "install_env \<Rightarrow> string \<Rightarrow> string" where
  "dir_identity env dir = model_dir_identity_for_os dir (ie_goos env)"

text \<open>The fences the configuration wants, by directory; a later model of the same directory wins.\<close>

definition desired_fences :: "install_env \<Rightarrow> agent_config_response \<Rightarrow> (string, install_fence) gomap" where
  "desired_fences env cfg =
     fold (\<lambda>name m.
         case map_of (acr_models cfg) name of
           None \<Rightarrow> m
         | Some md \<Rightarrow> mput (dir_identity env (resolved_model_dir name md))
             \<lparr>fence_revision = acr_config_revision cfg, fence_fingerprint = artifact_fingerprint (ie_sha env) (m_artifact md)\<rparr> m)
       (atp_allowed_models (acr_tag_policy cfg)) []"

text \<open>
  An install of a model that is not allowed any more: its entry goes when it has ended, else it is cancelled, below the
  fence of whoever wants its directory now, or below a tombstone when the gateway lists the wanted directories and
  this one is not among them.
\<close>

definition removed_fence :: "install_env \<Rightarrow> agent_config_response \<Rightarrow> artifact_install_key \<Rightarrow> install_fence \<times> bool" where
  "removed_fence env cfg key =
     (let identity = dir_identity env (ak_model_dir key)
      in case map_of (desired_fences env cfg) identity of
           Some winner \<Rightarrow> (winner, True)
         | None \<Rightarrow>
            (case acr_desired_model_dirs cfg of
               None \<Rightarrow> (key_fence (ie_sha env) key, False)
             | Some dirs \<Rightarrow>
                 if identity \<in> set (map (dir_identity env) dirs) then (key_fence (ie_sha env) key, False)
                 else (\<lparr>fence_revision = acr_config_revision cfg, fence_fingerprint = removed_artifact_fingerprint (ie_sha env)\<rparr>, True)))"

definition sweep_install ::
  "install_env \<Rightarrow> agent_config_response \<Rightarrow> install_faults \<Rightarrow> string \<times> artifact_install_state \<Rightarrow> install_cycle \<Rightarrow> install_cycle" where
  "sweep_install env cfg faults entry c =
     (let (model, st) = entry
      in if model \<in> set (atp_allowed_models (acr_tag_policy cfg)) then c
         else if \<not> st_running st then drop_install model c
         else
           (let (winner, publishes) = removed_fence env cfg (st_key st);
                (c', winner') =
                  (if \<not> publishes then (c, winner)
                   else case publish_for env (if_removed faults model) (ak_model_dir (st_key st)) winner (ic_root c) of
                     (Inl e, r) \<Rightarrow> (add_error (RemovalFenceFailed model e) (c\<lparr>ic_root := r\<rparr>), winner)
                   | (Inr (published, current), r) \<Rightarrow> (c\<lparr>ic_root := r\<rparr>, published))
            in set_installing (cancel_install model (key_fence (ie_sha env) (st_key st)) winner' c')))"

definition cancel_if_other :: "install_env \<Rightarrow> string \<Rightarrow> artifact_install_key \<Rightarrow> install_fence \<Rightarrow> install_cycle \<Rightarrow> install_cycle" where
  "cancel_if_other env model key winner c =
     (case map_of (ic_installs c) model of
        Some st \<Rightarrow> if st_running st \<and> st_key st \<noteq> key then cancel_install model (key_fence (ie_sha env) (st_key st)) winner c else c
      | None \<Rightarrow> c)"

definition drop_if_idle :: "string \<Rightarrow> install_cycle \<Rightarrow> install_cycle" where
  "drop_if_idle model c =
     (case map_of (ic_installs c) model of
        Some st \<Rightarrow> if \<not> st_running st then drop_install model c else c
      | None \<Rightarrow> c)"

text \<open>Starting an install, unless one is running or has just been started; \<open>others\<close> says that one was running before the loop.\<close>

definition start_install ::
  "bool \<Rightarrow> string \<Rightarrow> string \<Rightarrow> artifact \<Rightarrow> artifact_install_key \<Rightarrow> install_cycle \<Rightarrow> install_cycle" where
  "start_install others model dir a key c =
     (if others \<or> ic_started c \<noteq> [] then set_installing (set_status model ''pending'' c)
      else set_installing (set_status model ''installing''
        (c\<lparr>ic_installs := mput model \<lparr>st_key = key, st_running = True, st_err = None\<rparr> (ic_installs c),
           ic_started := ic_started c @ [\<lparr>run_key = key, run_work = new_job model dir (ak_revision key) a, run_cause = None\<rparr>]\<rparr>)))"

text \<open>The part of the loop over the allowed models after the marker has been read and does not match.\<close>

definition schedule_install ::
  "install_env \<Rightarrow> bool \<Rightarrow> string \<Rightarrow> string \<Rightarrow> artifact \<Rightarrow> artifact_install_key \<Rightarrow> install_fence \<Rightarrow> bool \<Rightarrow> install_cycle \<Rightarrow> install_cycle" where
  "schedule_install env others model dir a key winner current c =
     (case map_of (ic_installs c) model of
        Some st \<Rightarrow>
          if st_running st \<and> (st_key st \<noteq> key \<or> \<not> current)
          then set_installing (set_status model ''pending'' (cancel_install model (key_fence (ie_sha env) (st_key st)) winner c))
          else if \<not> current then set_installing (set_status model ''pending'' c)
          else if st_running st then set_installing (set_status model ''installing'' c)
          else if st_key st = key
          then drop_install model (set_status model ''error''
                 (add_error (case st_err st of Some e \<Rightarrow> InstallFailed model e | None \<Rightarrow> CompletedWithoutMarker model) c))
          else start_install others model dir a key c
      | None \<Rightarrow>
          if \<not> current then set_installing (set_status model ''pending'' c)
          else start_install others model dir a key c)"

text \<open>The body of the loop over the allowed models.\<close>

definition install_allowed ::
  "install_env \<Rightarrow> agent_config_response \<Rightarrow> install_faults \<Rightarrow> bool \<Rightarrow> string \<Rightarrow> install_cycle \<Rightarrow> install_cycle" where
  "install_allowed env cfg faults others model c =
     (case map_of (acr_models cfg) model of
        None \<Rightarrow> add_error (ModelMissing model) (set_status model ''missing'' c)
      | Some md \<Rightarrow>
         (let dir = resolved_model_dir model md; a = m_artifact md; key = artifact_key model dir a (acr_config_revision cfg)
          in case publish_for env (if_allowed faults model) dir (key_fence (ie_sha env) key) (ic_root c) of
               (Inl e, r) \<Rightarrow> add_error (FenceFailed model e) (set_status model ''error'' (c\<lparr>ic_root := r\<rparr>))
             | (Inr (winner, current), r) \<Rightarrow>
                (let c = c\<lparr>ic_root := r\<rparr>
                 in case marker_matches r dir model a of
                      Inl e \<Rightarrow> add_error (MarkerFailed model e) (set_status model ''error'' c)
                    | Inr found \<Rightarrow>
                        if found \<and> current
                        then drop_if_idle model (set_status model ''ready'' (cancel_if_other env model key winner c))
                        else schedule_install env others model dir a key winner current c)))"

definition some_running :: "installs \<Rightarrow> bool" where
  "some_running m \<longleftrightarrow> (\<exists>(model, st) \<in> set m. st_running st)"

definition swept ::
  "install_env \<Rightarrow> agent_config_response \<Rightarrow> install_faults \<Rightarrow> installs \<Rightarrow> model_root \<Rightarrow> install_cycle" where
  "swept env cfg faults m r =
     fold (sweep_install env cfg faults) m
       \<lparr>ic_installs = m, ic_root = r, ic_status = [], ic_errors = [], ic_cancelled = [], ic_started = [], ic_installing = False\<rparr>"

definition install_allowed_artifacts_async ::
  "install_env \<Rightarrow> agent_config_response \<Rightarrow> install_faults \<Rightarrow> installs \<Rightarrow> model_root \<Rightarrow> install_cycle" where
  "install_allowed_artifacts_async env cfg faults m r =
     (let c = swept env cfg faults m r
      in fold (install_allowed env cfg faults (some_running (ic_installs c))) (atp_allowed_models (acr_tag_policy cfg)) c)"

section \<open>Installing within the cycle\<close>

text \<open>
  \<open>installAllowedArtifacts\<close> runs each install to its end before the next: five steps of a job, with the inputs of
  that model. It gathers the statuses, the errors and the installs that were superseded, with both fences.
\<close>

fun install_allowed_artifacts ::
  "install_env \<Rightarrow> agent_config_response \<Rightarrow> (string \<Rightarrow> job_input list) \<Rightarrow> string list \<Rightarrow>
   (string, string) gomap \<times> cycle_install_error list \<times> (string \<times> artifact \<times> install_fence \<times> install_fence) list \<times> model_root \<Rightarrow>
   (string, string) gomap \<times> cycle_install_error list \<times> (string \<times> artifact \<times> install_fence \<times> install_fence) list \<times> model_root" where
  "install_allowed_artifacts env cfg inputs [] st = st"
| "install_allowed_artifacts env cfg inputs (model # models) (status, errs, cancelled, r) =
     install_allowed_artifacts env cfg inputs models
       (case map_of (acr_models cfg) model of
          None \<Rightarrow> (mput model ''missing'' status, errs @ [ModelMissing model], cancelled, r)
        | Some md \<Rightarrow>
           (case run_job env (inputs model) (new_job model (resolved_model_dir model md) (acr_config_revision cfg) (m_artifact md), r) of
              (j, r') \<Rightarrow>
                (case ij_phase j of
                   Finished (Inr _) \<Rightarrow> (mput model ''ready'' status, errs, cancelled, r')
                 | Finished (Inl (InstallSuperseded own winner)) \<Rightarrow>
                     (mput model ''pending'' status, errs, cancelled @ [(model, m_artifact md, own, winner)], r')
                 | Finished (Inl e) \<Rightarrow> (mput model ''error'' status, errs @ [InstallFailed model e], cancelled, r')
                 | _ \<Rightarrow> (status, errs, cancelled, r'))))"

section \<open>The models whose artifacts are ready\<close>

definition config_with_ready_artifacts :: "agent_config_response \<Rightarrow> (string, string) gomap \<Rightarrow> agent_config_response" where
  "config_with_ready_artifacts cfg status =
     (let ready = filter (\<lambda>n. mget [] status n = ''ready'' \<and> mhas (acr_models cfg) n) (atp_allowed_models (acr_tag_policy cfg))
      in cfg\<lparr>acr_tag_policy := (acr_tag_policy cfg)\<lparr>atp_allowed_models := ready\<rparr>,
             acr_models := fold (\<lambda>n m. mput n (the (map_of (acr_models cfg) n)) m) ready []\<rparr>)"

section \<open>Installs as goroutines\<close>

text \<open>
  The agent with the installs it has started: entries, live goroutines, results that wait in the channel, the model
  root. Between the cycles goroutines take steps, in any order, and other agents may change the root.
\<close>

record agent_installs =
  ag_installs :: installs
  ag_runs :: "install_run list"
  ag_done :: "artifact_install_result list"
  ag_disk :: model_root

text \<open>\<open>cancel\<close> of an entry reaches the goroutine that was started with it; a cause that is set stays.\<close>

definition cancel_run :: "string \<times> install_fence \<times> install_fence \<Rightarrow> install_run \<Rightarrow> install_run" where
  "cancel_run c run =
     (if ak_model (run_key run) = fst c \<and> run_cause run = None then run\<lparr>run_cause := Some (snd c)\<rparr> else run)"

definition after_cycle :: "install_cycle \<Rightarrow> agent_installs \<Rightarrow> agent_installs" where
  "after_cycle c s = s\<lparr>ag_installs := ic_installs c, ag_disk := ic_root c, ag_done := [],
     ag_runs := map (fold cancel_run (ic_cancelled c)) (ag_runs s) @ ic_started c\<rparr>"

text \<open>The goroutine's error: an install that was superseded or whose context was cancelled with that cause ends without one.\<close>

definition run_result :: "install_run \<Rightarrow> install_error + bool \<Rightarrow> artifact_install_result" where
  "run_result run outcome =
     \<lparr>res_model = ak_model (run_key run), res_key = run_key run,
      res_err = (case outcome of
          Inl (InstallSuperseded own winner) \<Rightarrow> None
        | Inl e \<Rightarrow> (if run_cause run \<noteq> None then None else Some e)
        | Inr _ \<Rightarrow> None)\<rparr>"

inductive agent_install_step :: "install_env \<Rightarrow> agent_installs \<Rightarrow> agent_installs \<Rightarrow> bool" for env where
  install_cycle: "c = install_allowed_artifacts_async env cfg faults (drain_install_results (ag_done s) (ag_installs s)) (ag_disk s) \<Longrightarrow>
     agent_install_step env s (after_cycle c s)"
| deliver: "agent_install_step env s (s\<lparr>ag_installs := drain_install_results (ag_done s) (ag_installs s), ag_done := []\<rparr>)"
| work: "i < length (ag_runs s) \<Longrightarrow> run = ag_runs s ! i \<Longrightarrow> run_cause run \<noteq> None \<longrightarrow> ji_cancelled inp \<Longrightarrow>
     job_step env inp (run_work run) (ag_disk s) = (j, r) \<Longrightarrow>
     agent_install_step env s (s\<lparr>ag_runs := (ag_runs s)[i := run\<lparr>run_work := j\<rparr>], ag_disk := r\<rparr>)"
| finish_run: "i < length (ag_runs s) \<Longrightarrow> run = ag_runs s ! i \<Longrightarrow> ij_phase (run_work run) = Finished outcome \<Longrightarrow>
     agent_install_step env s (s\<lparr>ag_runs := take i (ag_runs s) @ drop (Suc i) (ag_runs s), ag_done := ag_done s @ [run_result run outcome]\<rparr>)"
| elsewhere: "agent_install_step env s (s\<lparr>ag_disk := r\<rparr>)"

definition fresh_agent :: "model_root \<Rightarrow> agent_installs" where
  "fresh_agent r = \<lparr>ag_installs = [], ag_runs = [], ag_done = [], ag_disk = r\<rparr>"

end
