(* ===== verification/AgentInstallsFacts.thy ===== *)
theory AgentInstallsFacts
  imports AgentInstalls ArtifactsFacts
begin

text \<open>
  What the agent's scheduling of installs promises: at most one install runs at a time and every entry marked as
  running has its goroutine or its result under way, the status \<open>ready\<close> means that the marker in the directory matches,
  every allowed model gets a status, and a missing artifact becomes ready when nothing disturbs its install.
\<close>

section \<open>Entries, goroutines and results\<close>

definition running_keys :: "installs \<Rightarrow> (string \<times> artifact_install_key) list" where
  "running_keys m = map (\<lambda>(model, st). (model, st_key st)) (filter (\<lambda>(model, st). st_running st) m)"

definition run_keys :: "install_run list \<Rightarrow> (string \<times> artifact_install_key) list" where
  "run_keys runs = map (\<lambda>run. (ak_model (run_key run), run_key run)) runs"

definition result_keys :: "artifact_install_result list \<Rightarrow> (string \<times> artifact_install_key) list" where
  "result_keys results = map (\<lambda>res. (res_model res, res_key res)) results"

text \<open>The entries marked as running are the installs under way, and there is at most one.\<close>

definition one_install :: "agent_installs \<Rightarrow> bool" where
  "one_install s \<longleftrightarrow> mwf (ag_installs s) \<and> running_keys (ag_installs s) = run_keys (ag_runs s) @ result_keys (ag_done s) \<and>
     length (ag_runs s) + length (ag_done s) \<le> 1"

lemma running_keys_Nil: "running_keys m = [] \<longleftrightarrow> \<not> some_running m"
  by (auto simp: running_keys_def some_running_def filter_empty_conv)

lemma running_keys_mdel:
  "\<forall>st. map_of m model = Some st \<longrightarrow> \<not> st_running st \<Longrightarrow> mwf m \<Longrightarrow> running_keys (mdel model m) = running_keys m"
  by (induction m) (auto simp: running_keys_def mdel_def mwf_def mkeys_def map_of_eq_None_iff split: if_splits)

lemma running_keys_mput_idle:
  "\<not> some_running m \<Longrightarrow> \<not> st_running st \<Longrightarrow> running_keys (mput model st m) = []"
  using set_mput_subset[of model st m] by (auto simp: running_keys_Nil some_running_def)

lemma running_keys_mput_start:
  "\<not> some_running m \<Longrightarrow> st_running st \<Longrightarrow> running_keys (mput model st m) = [(model, st_key st)]"
proof (induction m)
  case (Cons e m)
  then have "running_keys m = []" by (auto simp: running_keys_Nil some_running_def)
  with Cons show ?case by (cases e) (auto simp: running_keys_def mput_def some_running_def)
qed (simp add: running_keys_def mput_def)

lemma running_keys_single:
  assumes "mwf m" "running_keys m = [(model, k)]"
  obtains st where "map_of m model = Some st" "st_key st = k" "st_running st"
    "\<forall>(n, st') \<in> set m. st_running st' \<longrightarrow> n = model"
proof -
  obtain st where f: "filter (\<lambda>(n, st). st_running st) m = [(model, st)]" "st_key st = k"
    using assms(2) by (auto simp: running_keys_def)
  have "(model, st) \<in> set (filter (\<lambda>(n, st). st_running st) m)" by (simp add: f(1))
  then have "map_of m model = Some st" "st_running st" using assms(1) by (auto simp: map_of_wf_iff)
  moreover have "\<forall>(n, st') \<in> set m. st_running st' \<longrightarrow> n = model"
  proof clarify
    fix n st' assume "(n, st') \<in> set m" "st_running st'"
    then have "(n, st') \<in> set (filter (\<lambda>(n, st). st_running st) m)" by simp
    then show "n = model" by (simp add: f(1))
  qed
  ultimately show thesis using that f(2) by blast
qed

lemma apply_result_single:
  assumes "mwf m" "running_keys m = [(res_model res, res_key res)]"
  shows "mwf (apply_install_result res m) \<and> running_keys (apply_install_result res m) = []"
proof -
  obtain st where st: "map_of m (res_model res) = Some st" "st_key st = res_key res"
    "\<forall>(n, st') \<in> set m. st_running st' \<longrightarrow> n = res_model res"
    using running_keys_single[OF assms] by metis
  let ?m = "mput (res_model res) (st\<lparr>st_running := False, st_err := res_err res\<rparr>) m"
  have "apply_install_result res m = ?m" using st by (simp add: apply_install_result_def)
  moreover have wf: "mwf ?m" using assms(1) by simp
  moreover have "\<not> some_running ?m"
  proof
    assume "some_running ?m"
    then obtain n s where e: "(n, s) \<in> set ?m" "st_running s" by (auto simp: some_running_def)
    have mo: "map_of ?m n = Some s" using map_of_wf_iff[OF wf] e(1) by blast
    show False
    proof (cases "n = res_model res")
      case True
      with mo e(2) show False by auto
    next
      case False
      with mo assms(1) have "(n, s) \<in> set m" by (simp add: map_of_wf_iff)
      with st(3) e(2) False show False by auto
    qed
  qed
  ultimately show ?thesis by (simp add: running_keys_Nil)
qed

lemma drained:
  assumes "one_install s"
  shows "mwf (drain_install_results (ag_done s) (ag_installs s)) \<and>
    running_keys (drain_install_results (ag_done s) (ag_installs s)) = run_keys (ag_runs s) \<and> length (ag_runs s) \<le> 1"
proof (cases "ag_done s")
  case Nil
  with assms show ?thesis by (simp add: one_install_def drain_install_results_def result_keys_def)
next
  case (Cons res rest)
  then have e: "rest = []" "ag_runs s = []" "running_keys (ag_installs s) = [(res_model res, res_key res)]"
    using assms by (auto simp: one_install_def run_keys_def result_keys_def)
  with apply_result_single[OF _ e(3)] Cons assms show ?thesis
    by (simp add: one_install_def drain_install_results_def run_keys_def)
qed

section \<open>A cycle\<close>

text \<open>What the two loops of a cycle keep, from the running entries \<open>ks\<close> at its start.\<close>

definition cycle_ok :: "(string \<times> artifact_install_key) list \<Rightarrow> install_cycle \<Rightarrow> bool" where
  "cycle_ok ks c \<longleftrightarrow> mwf (ic_installs c) \<and> running_keys (ic_installs c) = ks @ run_keys (ic_started c) \<and>
     length (ks @ run_keys (ic_started c)) \<le> 1"

lemma cycle_ok_cong [simp]:
  "cycle_ok ks (add_error e c) = cycle_ok ks c" "cycle_ok ks (set_status model s c) = cycle_ok ks c"
  "cycle_ok ks (cancel_install model f g c) = cycle_ok ks c" "cycle_ok ks (set_installing c) = cycle_ok ks c"
  "cycle_ok ks (c\<lparr>ic_root := r\<rparr>) = cycle_ok ks c"
  by (simp_all add: cycle_ok_def add_error_def set_status_def cancel_install_def set_installing_def)

lemma cycle_ok_drop:
  "cycle_ok ks c \<Longrightarrow> \<forall>st. map_of (ic_installs c) model = Some st \<longrightarrow> \<not> st_running st \<Longrightarrow> cycle_ok ks (drop_install model c)"
  by (simp add: cycle_ok_def drop_install_def running_keys_mdel)

lemma fields_simps [simp]:
  "ic_installs (add_error e c) = ic_installs c" "ic_installs (set_status model s c) = ic_installs c"
  "ic_installs (cancel_install model f g c) = ic_installs c" "ic_installs (set_installing c) = ic_installs c"
  "ic_started (add_error e c) = ic_started c" "ic_started (set_status model s c) = ic_started c"
  "ic_started (cancel_install model f g c) = ic_started c" "ic_started (set_installing c) = ic_started c"
  "ic_started (drop_install model c) = ic_started c"
  by (simp_all add: add_error_def set_status_def cancel_install_def set_installing_def drop_install_def)

lemma cycle_ok_start:
  assumes "cycle_ok ks c" "others \<longleftrightarrow> ks \<noteq> []" "ak_model key = model"
  shows "cycle_ok ks (start_install others model dir a key c)"
proof (cases "others \<or> ic_started c \<noteq> []")
  case True
  with assms show ?thesis by (simp add: start_install_def)
next
  case False
  then have "running_keys (ic_installs c) = []" using assms by (simp add: cycle_ok_def run_keys_def)
  with False assms show ?thesis
    by (simp add: start_install_def) (simp add: cycle_ok_def run_keys_def running_keys_mput_start running_keys_Nil)
qed

lemma cycle_ok_schedule:
  assumes "cycle_ok ks c" "others \<longleftrightarrow> ks \<noteq> []" "ak_model key = model"
  shows "cycle_ok ks (schedule_install env others model dir a key winner current c)"
  using assms cycle_ok_start[OF assms] cycle_ok_drop[of ks "set_status model s (add_error e c)" model for s e]
  by (auto simp: schedule_install_def split: option.split)

lemma cycle_ok_allowed:
  assumes "cycle_ok ks c" "others \<longleftrightarrow> ks \<noteq> []"
  shows "cycle_ok ks (install_allowed env cfg faults others model c)"
proof -
  have "cycle_ok ks (drop_if_idle model c')" if "cycle_ok ks c'" for c'
    using that cycle_ok_drop[of ks c' model] by (auto simp: drop_if_idle_def split: option.split)
  moreover have "cycle_ok ks (cancel_if_other env model key winner c')" if "cycle_ok ks c'" for c' key winner
    using that by (simp add: cancel_if_other_def split: option.split)
  ultimately show ?thesis
    using assms cycle_ok_schedule[of ks _ others]
    by (auto simp: install_allowed_def Let_def artifact_key_def split: option.split prod.split sum.split)
qed

lemma cycle_ok_fold_allowed:
  "cycle_ok ks c \<Longrightarrow> others \<longleftrightarrow> ks \<noteq> [] \<Longrightarrow> cycle_ok ks (fold (install_allowed env cfg faults others) models c)"
  by (induction models arbitrary: c) (simp_all add: cycle_ok_allowed)

text \<open>Sweeping drops ended entries only. The entry that the loop looks at is still the one in the map.\<close>

lemma sweep_entry:
  assumes "cycle_ok ks c" "map_of (ic_installs c) (fst e) = Some (snd e)"
  shows "cycle_ok ks (sweep_install env cfg faults e c)"
    "n \<noteq> fst e \<Longrightarrow> map_of (ic_installs (sweep_install env cfg faults e c)) n = map_of (ic_installs c) n"
    "ic_started (sweep_install env cfg faults e c) = ic_started c"
  using assms cycle_ok_drop[OF assms(1), of "fst e"]
  by (auto simp: sweep_install_def Let_def drop_install_def split: prod.split sum.split if_splits)

lemma sweep_all:
  assumes "cycle_ok ks c" "\<forall>e \<in> set es. map_of (ic_installs c) (fst e) = Some (snd e)" "distinct (map fst es)"
  shows "cycle_ok ks (fold (sweep_install env cfg faults) es c) \<and> ic_started (fold (sweep_install env cfg faults) es c) = ic_started c"
  using assms
proof (induction es arbitrary: c)
  case (Cons e es)
  let ?c = "sweep_install env cfg faults e c"
  have he: "map_of (ic_installs c) (fst e) = Some (snd e)" using Cons(3) by simp
  have "\<forall>e' \<in> set es. map_of (ic_installs ?c) (fst e') = Some (snd e')"
    using Cons(3,4) sweep_entry(2)[OF Cons(2) he] by (metis image_eqI list.set_intros(2) list.simps(9) distinct.simps(2) set_map)
  then show ?case using Cons(1)[of ?c] sweep_entry(1,3)[OF Cons(2) he] Cons(4) by simp
qed simp

lemma async_cycle_ok:
  assumes "mwf m" "length (running_keys m) \<le> 1"
  shows "cycle_ok (running_keys m) (install_allowed_artifacts_async env cfg faults m r)"
proof -
  have "cycle_ok (running_keys m) (swept env cfg faults m r) \<and> ic_started (swept env cfg faults m r) = []"
    unfolding swept_def using sweep_all[of "running_keys m" "\<lparr>ic_installs = m, ic_root = r, ic_status = [], ic_errors = [],
        ic_cancelled = [], ic_started = [], ic_installing = False\<rparr>" m env cfg faults] assms
    by (simp add: cycle_ok_def run_keys_def mwf_def mkeys_def)
  moreover from this have "some_running (ic_installs (swept env cfg faults m r)) \<longleftrightarrow> running_keys m \<noteq> []"
    using running_keys_Nil[of "ic_installs (swept env cfg faults m r)"] by (auto simp: cycle_ok_def run_keys_def)
  ultimately show ?thesis by (simp add: install_allowed_artifacts_async_def Let_def cycle_ok_fold_allowed)
qed

section \<open>All steps\<close>

lemma cancel_run_key [simp]: "run_key (cancel_run c run) = run_key run"
  by (simp add: cancel_run_def)

lemma cancel_runs_keys [simp]: "run_keys (map (fold cancel_run cs) runs) = run_keys runs"
proof -
  have "run_key (fold cancel_run cs run) = run_key run" for run by (induction cs arbitrary: run) simp_all
  then show ?thesis by (simp add: run_keys_def)
qed

lemma run_keys_append [simp]: "run_keys (xs @ ys) = run_keys xs @ run_keys ys"
  by (simp add: run_keys_def)

lemma run_result_fields [simp]:
  "res_model (run_result run outcome) = ak_model (run_key run)" "res_key (run_result run outcome) = run_key run"
  by (simp_all add: run_result_def)

lemma step_one_install:
  assumes "agent_install_step env s t" "one_install s"
  shows "one_install t"
  using assms(1)
proof (cases rule: agent_install_step.cases)
  case (install_cycle c cfg faults)
  let ?m = "drain_install_results (ag_done s) (ag_installs s)"
  have d: "mwf ?m" "running_keys ?m = run_keys (ag_runs s)" "length (ag_runs s) \<le> 1" using drained[OF assms(2)] by auto
  then have "cycle_ok (run_keys (ag_runs s)) c"
    using async_cycle_ok[of ?m env cfg faults "ag_disk s"] install_cycle by (simp add: run_keys_def)
  with install_cycle show ?thesis by (simp add: one_install_def after_cycle_def cycle_ok_def result_keys_def) (simp add: run_keys_def)
next
  case deliver
  with drained[OF assms(2)] show ?thesis by (simp add: one_install_def result_keys_def)
next
  case (work i run inp j r)
  then have "run_keys (ag_runs t) = run_keys (ag_runs s)" by (simp add: run_keys_def map_update_same)
  with work assms(2) show ?thesis by (simp add: one_install_def)
next
  case (finish_run i run outcome)
  have "length (ag_runs s) + length (ag_done s) \<le> 1" using assms(2) by (simp add: one_install_def)
  then obtain run0 where "ag_runs s = [run0]" "i = 0" "ag_done s = []" using finish_run(2) by (cases "ag_runs s") auto
  with finish_run assms(2) show ?thesis by (simp add: one_install_def run_keys_def result_keys_def)
next
  case (elsewhere r)
  with assms(2) show ?thesis by (simp add: one_install_def)
qed

lemma reachable_one_install:
  assumes "(agent_install_step env)\<^sup>*\<^sup>* (fresh_agent r) s"
  shows "one_install s"
  using assms
  by (induction rule: rtranclp_induct) (simp add: fresh_agent_def one_install_def running_keys_def run_keys_def result_keys_def, rule step_one_install)

text \<open>
  C12. Whatever the configurations, failures and cancellations: an agent never has two installs under way, and an entry
  that is marked as running has its goroutine, or its result waits in the channel, so that no model waits for an install
  that has been lost.
\<close>

theorem one_install_at_a_time:
  assumes "(agent_install_step env)\<^sup>*\<^sup>* (fresh_agent r) s"
  shows "length (ag_runs s) + length (ag_done s) \<le> 1 \<and>
    (\<forall>(model, st) \<in> set (ag_installs s). st_running st \<longrightarrow>
       (model, st_key st) \<in> (\<lambda>run. (ak_model (run_key run), run_key run)) ` set (ag_runs s) \<union>
         (\<lambda>res. (res_model res, res_key res)) ` set (ag_done s))"
proof -
  note inv = reachable_one_install[OF assms, unfolded one_install_def]
  have "(model, st_key st) \<in> set (running_keys (ag_installs s))" if "(model, st) \<in> set (ag_installs s)" "st_running st" for model st
    using that by (force simp: running_keys_def)
  then show ?thesis using inv by (auto simp: run_keys_def result_keys_def)
qed

section \<open>Statuses\<close>

lemma publish_for_dirs: "publish_for env pf dir fence r = (res, r') \<Longrightarrow> mr_dirs r' = mr_dirs r"
  unfolding publish_for_def by (rule publish_keeps(1))

lemma sweep_keeps:
  "mr_dirs (ic_root (sweep_install env cfg faults e c)) = mr_dirs (ic_root c)"
  "ic_status (sweep_install env cfg faults e c) = ic_status c"
  by (auto simp: sweep_install_def Let_def drop_install_def add_error_def cancel_install_def set_installing_def
      split: prod.split sum.split dest: publish_for_dirs)

lemma swept_keeps:
  "mr_dirs (ic_root (swept env cfg faults m r)) = mr_dirs r" "ic_status (swept env cfg faults m r) = []"
proof -
  have "mr_dirs (ic_root (fold (sweep_install env cfg faults) es c)) = mr_dirs (ic_root c) \<and>
    ic_status (fold (sweep_install env cfg faults) es c) = ic_status c" for es c
    by (induction es arbitrary: c) (simp_all add: sweep_keeps)
  then show "mr_dirs (ic_root (swept env cfg faults m r)) = mr_dirs r" "ic_status (swept env cfg faults m r) = []"
    by (simp_all add: swept_def)
qed

definition install_statuses :: "string set" where
  "install_statuses = {''missing'', ''error'', ''ready'', ''pending'', ''installing''}"

text \<open>The status that one round of the loop gives to its model; it gives none to the others.\<close>

definition status_sound :: "agent_config_response \<Rightarrow> model_root \<Rightarrow> (string, string) gomap \<Rightarrow> bool" where
  "status_sound cfg r status \<longleftrightarrow> (\<forall>model s. map_of status model = Some s \<longrightarrow> s \<in> install_statuses \<and>
     (s = ''ready'' \<longrightarrow> (\<exists>md. map_of (acr_models cfg) model = Some md \<and>
        marker_matches r (resolved_model_dir model md) model (m_artifact md) = Inr True)))"

lemma status_fields [simp]:
  "ic_status (add_error e c) = ic_status c" "ic_status (cancel_install model f g c) = ic_status c"
  "ic_status (set_installing c) = ic_status c" "ic_status (drop_install model c) = ic_status c"
  "ic_status (set_status model s c) = mput model s (ic_status c)" "ic_status (cancel_if_other env model key winner c) = ic_status c"
  "ic_status (drop_if_idle model c) = ic_status c"
  "ic_root (add_error e c) = ic_root c" "ic_root (cancel_install model f g c) = ic_root c"
  "ic_root (set_installing c) = ic_root c" "ic_root (drop_install model c) = ic_root c" "ic_root (set_status model s c) = ic_root c"
  "ic_root (cancel_if_other env model key winner c) = ic_root c" "ic_root (drop_if_idle model c) = ic_root c"
  by (simp_all add: add_error_def cancel_install_def set_installing_def drop_install_def set_status_def cancel_if_other_def
      drop_if_idle_def split: option.split)

lemma start_install_status:
  "\<exists>s. s \<in> install_statuses - {''ready''} \<and> ic_status (start_install others model dir a key c) = mput model s (ic_status c) \<and>
     ic_root (start_install others model dir a key c) = ic_root c"
  by (auto simp: start_install_def install_statuses_def)

lemma schedule_install_status:
  "\<exists>s. s \<in> install_statuses - {''ready''} \<and>
     ic_status (schedule_install env others model dir a key winner current c) = mput model s (ic_status c) \<and>
     ic_root (schedule_install env others model dir a key winner current c) = ic_root c"
  using start_install_status[of others model dir a key c]
  by (auto simp: schedule_install_def install_statuses_def split: option.split)

lemma install_allowed_status:
  "\<exists>s. s \<in> install_statuses \<and> ic_status (install_allowed env cfg faults others model c) = mput model s (ic_status c) \<and>
     mr_dirs (ic_root (install_allowed env cfg faults others model c)) = mr_dirs (ic_root c) \<and>
     (s = ''ready'' \<longrightarrow> (\<exists>md. map_of (acr_models cfg) model = Some md \<and>
        marker_matches (ic_root c) (resolved_model_dir model md) model (m_artifact md) = Inr True))"
proof (cases "map_of (acr_models cfg) model")
  case None
  then show ?thesis by (auto simp: install_allowed_def install_statuses_def)
next
  case (Some md)
  let ?dir = "resolved_model_dir model md" and ?key = "artifact_key model (resolved_model_dir model md) (m_artifact md) (acr_config_revision cfg)"
  obtain res r where p: "publish_for env (if_allowed faults model) ?dir (key_fence (ie_sha env) ?key) (ic_root c) = (res, r)"
    by (metis surj_pair)
  have dirs: "mr_dirs r = mr_dirs (ic_root c)" by (rule publish_for_dirs[OF p])
  then have mk: "marker_matches r d n a = marker_matches (ic_root c) d n a" for d n a by (rule marker_of_dirs)
  show ?thesis
  proof (cases res)
    case (Inl e)
    with Some p dirs show ?thesis by (auto simp: install_allowed_def install_statuses_def Let_def)
  next
    case (Inr wc)
    obtain winner current where wc: "wc = (winner, current)" by (metis surj_pair)
    let ?c = "c\<lparr>ic_root := r\<rparr>"
    note eq = Some p Inr wc
    show ?thesis
    proof (cases "marker_matches r ?dir model (m_artifact md)")
      case (Inl e)
      with eq dirs show ?thesis by (auto simp: install_allowed_def install_statuses_def Let_def)
    next
      case found: (Inr found)
      show ?thesis
      proof (cases "found \<and> current")
        case True
        with eq dirs found mk show ?thesis by (auto simp: install_allowed_def install_statuses_def Let_def)
      next
        case False
        then have "install_allowed env cfg faults others model c =
          schedule_install env others model ?dir (m_artifact md) ?key winner current ?c"
          using eq found by (auto simp: install_allowed_def Let_def)
        with schedule_install_status[of env others model ?dir "m_artifact md" ?key winner current ?c] dirs show ?thesis by auto
      qed
    qed
  qed
qed

lemma fold_allowed_status:
  assumes "status_sound cfg (ic_root c) (ic_status c)"
  shows "status_sound cfg (ic_root (fold (install_allowed env cfg faults others) models c))
      (ic_status (fold (install_allowed env cfg faults others) models c)) \<and>
    set models \<union> set (mkeys (ic_status c)) \<subseteq> set (mkeys (ic_status (fold (install_allowed env cfg faults others) models c))) \<and>
    mr_dirs (ic_root (fold (install_allowed env cfg faults others) models c)) = mr_dirs (ic_root c)"
  using assms
proof (induction models arbitrary: c)
  case (Cons model models)
  let ?c = "install_allowed env cfg faults others model c"
  obtain s where s: "s \<in> install_statuses" "ic_status ?c = mput model s (ic_status c)" "mr_dirs (ic_root ?c) = mr_dirs (ic_root c)"
    "s = ''ready'' \<longrightarrow> (\<exists>md. map_of (acr_models cfg) model = Some md \<and>
        marker_matches (ic_root c) (resolved_model_dir model md) model (m_artifact md) = Inr True)"
    using install_allowed_status[of env cfg faults others model c] by blast
  have "marker_matches (ic_root ?c) d n a = marker_matches (ic_root c) d n a" for d n a using s(3) by (rule marker_of_dirs)
  then have "status_sound cfg (ic_root ?c) (ic_status ?c)"
    using Cons(2) s by (auto simp: status_sound_def)
  from Cons(1)[OF this] s show ?case by auto
qed simp


section \<open>Examples\<close>

definition wit_config :: agent_config_response where
  "wit_config = \<lparr>acr_config_revision = 3, acr_desired_model_dirs = None, acr_oss = \<lparr>oss_base_url = ''http://oss/''\<rparr>,
     acr_models = [(''m'', zero_model\<lparr>m_artifact := wit_artifact\<rparr>)],
     acr_tag_policy = \<lparr>atp_tag = ''t'', atp_allowed_models = [''m''], atp_warm_when_idle = [],
       atp_worker_defaults = \<lparr>wd_max_concurrency = 0, wd_max_queue = 0\<rparr>\<rparr>, acr_transport = None\<rparr>"

definition no_faults :: install_faults where
  "no_faults = \<lparr>if_removed = (\<lambda>_. \<lparr>pf_lock_fails = False, pf_write_fails = False\<rparr>),
     if_allowed = (\<lambda>_. \<lparr>pf_lock_fails = False, pf_write_fails = False\<rparr>)\<rparr>"

definition wit_installing :: agent_installs where
  "wit_installing = after_cycle (install_allowed_artifacts_async wit_env wit_config no_faults [] wit_root) (fresh_agent wit_root)"

lemma wit_installing_reachable: "(agent_install_step wit_env)\<^sup>*\<^sup>* (fresh_agent wit_root) wit_installing"
proof -
  have "agent_install_step wit_env (fresh_agent wit_root) wit_installing"
    using install_cycle[of _ wit_env wit_config no_faults "fresh_agent wit_root"]
    unfolding wit_installing_def by (simp add: fresh_agent_def drain_install_results_def)
  then show ?thesis by (rule r_into_rtranclp)
qed

definition after_fence :: "install_fence \<Rightarrow> model_root" where
  "after_fence f = wit_root\<lparr>mr_fences := mput (model_dir_lock_name_for_os (ie_sha wit_env) ''m'' (ie_goos wit_env)) (FenceFile f) (mr_fences wit_root)\<rparr>"

lemma wit_publish:
  "publish_for wit_env (if_allowed no_faults ''m'') ''m'' f wit_root = (Inr (f, True), after_fence f)" "mr_dirs (after_fence f) = []"
proof -
  have "read_artifact_install_fence wit_root l = Inr None" for l
    by (simp add: read_artifact_install_fence_def fence_of_def wit_root_def)
  then show "publish_for wit_env (if_allowed no_faults ''m'') ''m'' f wit_root = (Inr (f, True), after_fence f)"
    unfolding publish_for_def publish_artifact_install_fence_def write_artifact_install_fence_def no_faults_def after_fence_def by simp
  show "mr_dirs (after_fence f) = []" by (simp add: after_fence_def wit_root_def)
qed

text \<open>A model with a missing artifact: the cycle starts its install.\<close>

lemma wit_installing_runs: "length (ag_runs wit_installing) = 1"
proof -
  let ?md = "zero_model\<lparr>m_artifact := wit_artifact\<rparr>"
  let ?c = "\<lparr>ic_installs = [], ic_root = wit_root, ic_status = [], ic_errors = [], ic_cancelled = [], ic_started = [], ic_installing = False\<rparr>"
  have cfg: "map_of (acr_models wit_config) ''m'' = Some ?md" "atp_allowed_models (acr_tag_policy wit_config) = [''m'']"
    "resolved_model_dir ''m'' ?md = ''m''" "m_artifact ?md = wit_artifact"
    by (simp_all add: wit_config_def resolved_model_dir_def zero_model_def)
  have swept: "swept wit_env wit_config no_faults [] wit_root = ?c" by (simp add: swept_def)
  have idle: "\<not> some_running (ic_installs ?c)" by (simp add: some_running_def)
  define f where "f = key_fence (ie_sha wit_env) (artifact_key ''m'' ''m'' wit_artifact (acr_config_revision wit_config))"
  define r where "r = after_fence f"
  have r: "publish_for wit_env (if_allowed no_faults ''m'') ''m'' f wit_root = (Inr (f, True), r)" "mr_dirs r = []"
    unfolding r_def by (rule wit_publish)+
  have "marker_matches r ''m'' ''m'' wit_artifact = Inr False" using r(2) by (simp add: marker_matches_def marker_of_def)
  then have "install_allowed wit_env wit_config no_faults False ''m'' ?c =
    schedule_install wit_env False ''m'' ''m'' wit_artifact (artifact_key ''m'' ''m'' wit_artifact (acr_config_revision wit_config)) f True (?c\<lparr>ic_root := r\<rparr>)"
    using r(1) by (simp add: install_allowed_def cfg f_def Let_def)
  then have "length (ic_started (install_allowed wit_env wit_config no_faults False ''m'' ?c)) = 1"
    by (simp add: schedule_install_def start_install_def)
  then show ?thesis
    using idle by (simp add: wit_installing_def after_cycle_def fresh_agent_def install_allowed_artifacts_async_def cfg(2) swept Let_def)
qed

theorem one_install_at_a_time_witness: "length (ag_runs wit_installing) = 1 \<and> ag_done wit_installing = []"
  using one_install_at_a_time[OF wit_installing_reachable] wit_installing_runs by simp

end
