(* ===== verification/AgentEndpoints.thy ===== *)
theory AgentEndpoints
  imports ConfigManager Workers Leases TransportManager
begin

text \<open>
  The gateway's endpoints for its agents (internal/gateway/server.go: \<open>handleAgentConfig\<close>, \<open>handleTransportLease\<close>,
  \<open>handleAgentHeartbeat\<close> and what they call; the ring of recent events is \<open>recordAgentEvent\<close> of ui.go). A handler is a
  function of the decoded request and the server's state; a reply is an error with its status, no content, or a value
  that is encoded as JSON. The lease store's save, the digest of a transport configuration, the cryptography and the
  random sources are arguments.
\<close>

section \<open>The server\<close>

datatype 'a reply = HttpError int string | NoContent | Replied 'a

text \<open>An event as the gateway keeps it.\<close>

record ui_event =
  ue_received_at :: time
  ue_worker_id :: string
  ue_time :: time
  ue_event :: string
  ue_model :: string
  ue_from_state :: string
  ue_to_state :: string
  ue_object :: string
  ue_kind :: string
  ue_downloaded_bytes :: int
  ue_total_bytes :: int
  ue_percent :: go_float
  ue_duration_ms :: int
  ue_error :: string

text \<open>
  \<open>gw_leases\<close> is \<open>None\<close> when the lease manager did not start. \<open>gw_stored\<close> are the events handed to the records store and
  the event log, whose failures are only logged.
\<close>

record ('c, 'l) gateway_server =
  gw_manager :: "'c config_manager"
  gw_leases :: "'l lease_manager option"
  gw_workers :: registry
  gw_recent_events :: "ui_event list"
  gw_stored :: "ui_event list"

record ('l, 'e) gateway_env =
  ge_save :: "('l, 'e) lease_save"
  ge_lease_ids :: "nat \<Rightarrow> string option"
  ge_digest :: "transport_generation_input \<Rightarrow> nat list option"
  ge_crypto :: crypto_ops
  ge_nonce :: "octets option"
  ge_goos :: string

section \<open>The configuration of an agent\<close>

text \<open>The tag among the comma-separated ones that has a policy, when there is exactly one.\<close>

definition matched_tag_policy :: "gateway_config \<Rightarrow> string \<Rightarrow> (string \<times> tag_policy) option" where
  "matched_tag_policy cfg tags_param =
     (case remdups (filter (\<lambda>tag. tag \<noteq> [] \<and> mhas (gc_tag_policies cfg) tag) (map trim_space (split_on CHR '','' tags_param))) of
        [tag] \<Rightarrow> map_option (Pair tag) (map_of (gc_tag_policies cfg) tag)
      | _ \<Rightarrow> None)"

definition desired_model_dirs :: "string \<Rightarrow> gateway_config \<Rightarrow> string list" where
  "desired_model_dirs goos cfg =
     (let names = concat (map (\<lambda>(tag, policy). tp_allowed_models policy) (gc_tag_policies cfg));
          dirs = List.map_filter (\<lambda>name. map_option (resolved_model_dir name) (map_of (gc_models cfg) name)) names;
          by_identity = fold (\<lambda>dir m. let identity = model_dir_identity_for_os dir goos
                                   in if mhas m identity then m else mput identity dir m) dirs []
      in sort (map snd by_identity))"

definition agent_policy :: "string \<Rightarrow> tag_policy \<Rightarrow> agent_tag_policy" where
  "agent_policy tag policy =
     \<lparr>atp_tag = tag, atp_allowed_models = tp_allowed_models policy, atp_warm_when_idle = tp_warm_when_idle policy,
      atp_worker_defaults = tp_worker_defaults policy\<rparr>"

definition gateway_bootstrap :: "gateway_config \<Rightarrow> bootstrap" where
  "gateway_bootstrap cfg =
     (let frp = tr_frp (gc_transport cfg)
      in \<lparr>bs_type = tr_type (gc_transport cfg), bs_server_addr = frp_server_addr frp, bs_server_port = frp_server_port frp,
          bs_auth_token = frp_auth_token frp, bs_port_start = frp_port_start frp, bs_port_end = frp_port_end frp,
          bs_lease_ttl_seconds = frp_lease_ttl_seconds frp, bs_llama_swap_token = tok_llama_swap (gc_tokens cfg)\<rparr>)"

definition agent_config_of :: "string \<Rightarrow> gateway_config \<Rightarrow> int \<Rightarrow> string \<Rightarrow> tag_policy \<Rightarrow> agent_config_response" where
  "agent_config_of goos cfg revision tag policy =
     \<lparr>acr_config_revision = revision, acr_desired_model_dirs = Some (desired_model_dirs goos cfg), acr_oss = gc_oss cfg,
      acr_models = fold (\<lambda>name m. case map_of (gc_models cfg) name of None \<Rightarrow> m | Some md \<Rightarrow> mput name md m) (tp_allowed_models policy) [],
      acr_tag_policy = agent_policy tag policy, acr_transport = None\<rparr>"

text \<open>The sealed transport of a configuration, nothing for a direct one.\<close>

definition agent_transport ::
  "('l, 'e) gateway_env \<Rightarrow> bool \<Rightarrow> gateway_config \<Rightarrow> string \<Rightarrow> (int \<times> string) + encrypted_transport_bootstrap option" where
  "agent_transport env leases_unavailable cfg agent_id =
     (if tr_type (gc_transport cfg) \<noteq> ''frp_tcp'' then Inr None
      else if leases_unavailable then Inl (503, ''transport unavailable'')
      else if agent_id = [] then Inl (400, ''agent_id is required'')
      else case transport_config_generation (ge_digest env) cfg of
        None \<Rightarrow> Inl (503, ''transport unavailable'')
      | Some generation \<Rightarrow>
         (case seal_bootstrap (ge_crypto env) (ge_nonce env) (tok_agent (gc_tokens cfg)) agent_id generation (gateway_bootstrap cfg) of
            Inl _ \<Rightarrow> Inl (503, ''transport unavailable'')
          | Inr envelope \<Rightarrow> Inr (Some envelope)))"

definition handle_agent_config ::
  "('l, 'e) gateway_env \<Rightarrow> string \<Rightarrow> string \<Rightarrow> ('c, 'l) gateway_server \<Rightarrow> agent_config_response reply" where
  "handle_agent_config env tags_param agent_param s =
     (let (cfg0, revision) = manager_snapshot (gw_manager s);
          cfg = active_gateway_config cfg0
      in case matched_tag_policy cfg tags_param of
           None \<Rightarrow> HttpError 400 ''exactly one configured tag must match''
         | Some (tag, policy) \<Rightarrow>
            (case agent_transport env (gw_leases s = None) cfg (trim_space agent_param) of
               Inl (status, message) \<Rightarrow> HttpError status message
             | Inr transport \<Rightarrow> Replied ((agent_config_of (ge_goos env) cfg revision tag policy)\<lparr>acr_transport := transport\<rparr>)))"

section \<open>Leases\<close>

text \<open>A product of two int64 wraps around.\<close>

definition wrap_int64 :: "int \<Rightarrow> int" where
  "wrap_int64 x = (x - min_int64) mod 2 ^ 64 + min_int64"

definition lease_policy_of :: "gateway_config \<Rightarrow> transport_lease_policy" where
  "lease_policy_of cfg =
     (let frp = tr_frp (gc_transport cfg)
      in \<lparr>lp_port_start = frp_port_start frp, lp_port_end = frp_port_end frp,
          lp_ttl = wrap_int64 (frp_lease_ttl_seconds frp * second)\<rparr>)"

text \<open>Whether the text of an error starts with \<open>invalid\<close>; a failed save starts with \<open>save\<close>, an identifier with \<open>generate\<close>.\<close>

fun invalid_lease_error :: "'e lease_error \<Rightarrow> bool" where
  "invalid_lease_error (PolicyError e) = True"
| "invalid_lease_error InvalidLeaseRequest = True"
| "invalid_lease_error (InvalidExcludedSlot slot) = True"
| "invalid_lease_error e = False"

definition lease_error_reply :: "'e lease_error \<Rightarrow> 'a reply" where
  "lease_error_reply e =
     (if e = LeaseConflict then HttpError 409 ''transport lease conflict''
      else if e = LeaseCapacity then HttpError 503 ''transport unavailable''
      else if invalid_lease_error e then HttpError 400 ''invalid transport lease request''
      else HttpError 503 ''transport unavailable'')"

definition lease_reply :: "transport_lease \<Rightarrow> transport_lease_response" where
  "lease_reply l = \<lparr>tlr_lease_id = tl_lease_id l, tlr_slot = tl_slot l, tlr_remote_port = tl_remote_port l,
     tlr_generation = tl_generation l, tlr_expires_at = tl_expires_at l\<rparr>"

text \<open>\<open>request\<close> is \<open>None\<close> when the body is not a request.\<close>

definition handle_transport_lease ::
  "('l, 'e) gateway_env \<Rightarrow> time \<Rightarrow> transport_lease_request option \<Rightarrow> ('c, 'l) gateway_server \<Rightarrow>
   transport_lease_response reply \<times> ('c, 'l) gateway_server" where
  "handle_transport_lease env now request s =
     (case gw_leases s of
        None \<Rightarrow> (HttpError 503 ''transport unavailable'', s)
      | Some leases \<Rightarrow>
     (case request of
        None \<Rightarrow> (HttpError 400 ''invalid transport lease request'', s)
      | Some rq \<Rightarrow>
         (let agent_id = trim_space (tlq_agent_id rq)
          in if agent_id = [] \<or> tlq_generation rq = 0 then (HttpError 400 ''invalid transport lease request'', s)
             else if tlq_release rq then
               (if trim_space (tlq_lease_id rq) = [] then (HttpError 400 ''invalid transport lease request'', s)
                else case release_lease (ge_save env) agent_id (tlq_lease_id rq) (tlq_generation rq) now leases of
                  (Inl e, l) \<Rightarrow> (HttpError 503 ''transport unavailable'', s\<lparr>gw_leases := Some l\<rparr>)
                | (Inr released, l) \<Rightarrow>
                    (if released then NoContent else HttpError 409 ''transport lease conflict'', s\<lparr>gw_leases := Some l\<rparr>))
             else
               (let cfg = fst (manager_snapshot (gw_manager s))
                in if tr_type (gc_transport cfg) \<noteq> ''frp_tcp'' then (HttpError 400 ''transport lease unavailable'', s)
                   else if matched_tag_policy (active_gateway_config cfg) (join_with '','' (tlq_tags rq)) = None
                   then (HttpError 400 ''invalid transport lease request'', s)
                   else case transport_config_generation (ge_digest env) cfg of
                     None \<Rightarrow> (HttpError 503 ''transport unavailable'', s)
                   | Some generation \<Rightarrow>
                       if tlq_generation rq \<noteq> generation then (HttpError 409 ''transport lease generation conflict'', s)
                       else case acquire_lease (ge_save env) (ge_lease_ids env) (lease_policy_of cfg)
                           \<lparr>lr_agent_id = agent_id, lr_generation = tlq_generation rq, lr_current_lease_id = tlq_lease_id rq,
                            lr_excluded_slots = tlq_exclude_slots rq\<rparr> now leases of
                         (Inl e, l) \<Rightarrow> (lease_error_reply e, s\<lparr>gw_leases := Some l\<rparr>)
                       | (Inr lease, l) \<Rightarrow> (Replied (lease_reply lease), s\<lparr>gw_leases := Some l\<rparr>)))))"

section \<open>Heartbeats\<close>

text \<open>\<open>url.URL.String\<close> of a scheme and a host: the characters that a host may not hold are escaped.\<close>

definition host_char :: "char \<Rightarrow> bool" where
  "host_char c \<longleftrightarrow> label_char c \<or> c \<in> set ''_.~!$&()*+,;=:[]<>'' \<or> byte c = 39 \<or> byte c = 34"

definition escape_host :: "string \<Rightarrow> string" where
  "escape_host host =
     concat (map (\<lambda>c. if host_char c then [c] else CHR ''%'' # map (\<lambda>n. ''0123456789ABCDEF'' ! n) [byte c div 16, byte c mod 16]) host)"

definition expected_frp_llama_swap_url :: "string \<Rightarrow> int \<Rightarrow> string" where
  "expected_frp_llama_swap_url server_addr remote_port =
     ''http://'' @ escape_host (join_host_port (trim_space server_addr) remote_port)"

definition gateway_frp_dial_addr :: "frp_tcp_config \<Rightarrow> string" where
  "gateway_frp_dial_addr frp =
     (let dial = trim_space (frp_dial_addr frp) in if dial \<noteq> [] then dial else trim_space (frp_server_addr frp))"

definition ui_event_limit :: nat where
  "ui_event_limit = 100"

definition ui_event_of :: "string \<Rightarrow> agent_event \<Rightarrow> time \<Rightarrow> ui_event" where
  "ui_event_of worker_id e received_at =
     \<lparr>ue_received_at = received_at, ue_worker_id = worker_id, ue_time = ev_time e, ue_event = ev_event e, ue_model = ev_model e,
      ue_from_state = ev_from_state e, ue_to_state = ev_to_state e, ue_object = ev_object e, ue_kind = ev_kind e,
      ue_downloaded_bytes = ev_downloaded_bytes e, ue_total_bytes = ev_total_bytes e, ue_percent = ev_percent e,
      ue_duration_ms = ev_duration_ms e, ue_error = ev_error e\<rparr>"

text \<open>An event without a name is not kept; the ring holds the latest ones.\<close>

definition record_agent_event ::
  "string \<Rightarrow> time \<Rightarrow> agent_event \<Rightarrow> ('c, 'l) gateway_server \<Rightarrow> ('c, 'l) gateway_server" where
  "record_agent_event worker_id now e s =
     (if ev_event e = [] then s
      else let cached = ui_event_of worker_id e now;
               events = gw_recent_events s @ [cached]
           in s\<lparr>gw_recent_events := (if length events > ui_event_limit then drop (length events - ui_event_limit) events else events),
                gw_stored := gw_stored s @ [cached]\<rparr>)"

definition keep_heartbeat ::
  "heartbeat_request \<Rightarrow> time \<Rightarrow> ('c, 'l) gateway_server \<Rightarrow> heartbeat_response reply \<times> ('c, 'l) gateway_server" where
  "keep_heartbeat hb now s =
     (case upsert_heartbeat hb now (gw_workers s) of
        (resp, workers) \<Rightarrow>
          (Replied resp, fold (record_agent_event (hb_agent_id hb) now) (hb_events hb) (s\<lparr>gw_workers := workers\<rparr>)))"

text \<open>
  The check of the lease under a managed transport: the URL that the gateway dials, and the lease renewed. Looking the
  lease up fails with \<open>LeaseNotFound\<close> only.
\<close>

definition admit_lease ::
  "('l, 'e) gateway_env \<Rightarrow> gateway_config \<Rightarrow> nat \<Rightarrow> heartbeat_request \<Rightarrow> time \<Rightarrow> 'l lease_manager \<Rightarrow>
   ((int \<times> string) + string) \<times> 'l lease_manager" where
  "admit_lease env cfg generation hb now leases =
     (if hb_llama_swap_url hb = [] \<or> hb_transport_lease_id hb = [] \<or> hb_transport_generation hb \<noteq> generation
      then (Inl (409, ''transport lease conflict''), leases)
      else case (lookup_current (hb_agent_id hb) (hb_transport_lease_id hb) (hb_transport_generation hb) now leases
                   :: 'e lease_error + transport_lease) of
        Inl e \<Rightarrow> (Inl (409, ''transport lease conflict''), leases)
      | Inr lease \<Rightarrow>
          if hb_llama_swap_url hb \<noteq> expected_frp_llama_swap_url (frp_server_addr (tr_frp (gc_transport cfg))) (tl_remote_port lease)
          then (Inl (409, ''transport lease conflict''), leases)
          else case renew_lease (ge_save env) (lease_policy_of cfg) (hb_agent_id hb) (hb_transport_lease_id hb)
              (hb_transport_generation hb) now leases of
            (Inl e, l) \<Rightarrow> (Inl (if e = LeaseNotFound then (409, ''transport lease conflict'') else (503, ''transport unavailable'')), l)
          | (Inr renewed, l) \<Rightarrow>
              (Inr (expected_frp_llama_swap_url (gateway_frp_dial_addr (tr_frp (gc_transport cfg))) (tl_remote_port lease)), l))"

definition handle_agent_heartbeat ::
  "('l, 'e) gateway_env \<Rightarrow> time \<Rightarrow> heartbeat_request option \<Rightarrow> ('c, 'l) gateway_server \<Rightarrow>
   heartbeat_response reply \<times> ('c, 'l) gateway_server" where
  "handle_agent_heartbeat env now request s =
     (case request of
        None \<Rightarrow> (HttpError 400 ''invalid json'', s)
      | Some hb \<Rightarrow>
          if trim_space (hb_agent_id hb) = [] then (HttpError 400 ''agent_id is required'', s)
          else
           (let cfg = fst (manager_snapshot (gw_manager s))
            in if tr_type (gc_transport cfg) \<noteq> ''frp_tcp'' then keep_heartbeat hb now s
               else case gw_leases s of
                 None \<Rightarrow> (HttpError 503 ''transport unavailable'', s)
               | Some leases \<Rightarrow>
                   if matched_tag_policy (active_gateway_config cfg) (join_with '','' (hb_tags hb)) = None
                   then (HttpError 400 ''invalid agent heartbeat'', s)
                   else case transport_config_generation (ge_digest env) cfg of
                     None \<Rightarrow> (HttpError 503 ''transport unavailable'', s)
                   | Some generation \<Rightarrow>
                       if hb_llama_swap_url hb = [] \<and> hb_transport_lease_id hb = [] \<and> hb_transport_generation hb = 0
                       then keep_heartbeat hb now s
                       else case admit_lease env cfg generation hb now leases of
                         (Inl (status, message), l) \<Rightarrow> (HttpError status message, s\<lparr>gw_leases := Some l\<rparr>)
                       | (Inr url, l) \<Rightarrow> keep_heartbeat (hb\<lparr>hb_llama_swap_url := url\<rparr>) now (s\<lparr>gw_leases := Some l\<rparr>)))"

end
