(* ===== verification/AgentEndpointsFacts.thy ===== *)
theory AgentEndpointsFacts
  imports AgentEndpoints WorkersFacts LeasesFacts
begin

text \<open>
  What the agent endpoints promise: the configuration an agent gets is closed and opens with its token, a granted lease
  carries the agent's heartbeats, and a worker is reached at its own lease's port only.
\<close>

section \<open>Views\<close>

lemma active_config_fields [simp]:
  "gc_transport (active_gateway_config cfg) = gc_transport cfg"
  "gc_tokens (active_gateway_config cfg) = gc_tokens cfg"
  by (simp_all add: active_gateway_config_def clone_gateway_config_def Let_def)

lemma active_generation [simp]:
  "transport_config_generation digest (active_gateway_config cfg) = transport_config_generation digest cfg"
  by (simp add: transport_config_generation_def generation_input_def Let_def)

lemma generation_nonzero: "transport_config_generation digest cfg = Some g \<Longrightarrow> g \<noteq> 0"
  by (auto simp: transport_config_generation_def Let_def split: option.splits if_splits)

lemma active_bootstrap [simp]: "gateway_bootstrap (active_gateway_config cfg) = gateway_bootstrap cfg"
  by (simp add: gateway_bootstrap_def)

lemma matched_policy: "matched_tag_policy cfg tags = Some (tag, policy) \<Longrightarrow> map_of (gc_tag_policies cfg) tag = Some policy"
  by (auto simp: matched_tag_policy_def split: list.splits)

lemma active_policy_allowed:
  assumes "map_of (gc_tag_policies (active_gateway_config cfg)) tag = Some policy" "name \<in> set (tp_allowed_models policy)"
  shows "mhas (gc_models (active_gateway_config cfg)) name"
proof -
  let ?models = "gc_models (active_gateway_config cfg)"
  have "(tag, policy) \<in> set (map (\<lambda>(t, p). (t, active_policy ?models p)) (gc_tag_policies (clone_gateway_config cfg)))"
    using map_of_SomeD[OF assms(1)] by (simp add: active_gateway_config_def Let_def)
  then obtain p where "policy = active_policy ?models p" by auto
  with assms(2) show ?thesis by (auto simp: active_policy_def split: if_splits)
qed

section \<open>The hosts of an agent's transport need no escape\<close>

lemma itoa_host_chars: "list_all host_char (itoa n)"
  by (auto simp: itoa_def list_all_iff host_char_def label_char_def dest: nat_digits_digit)

lemma escape_host_id: "list_all host_char h \<Longrightarrow> escape_host h = h"
  by (induction h) (auto simp: escape_host_def)

lemma set_split_on: "set s \<subseteq> insert sep (\<Union>(set ` set (split_on sep s)))"
proof (induction s)
  case (Cons c s)
  then show ?case by (cases "split_on sep s") auto
qed simp

definition ip_char :: "char \<Rightarrow> bool" where
  "ip_char c \<longleftrightarrow> is_hex c \<or> c = CHR ''.'' \<or> c = CHR '':''"

lemma ipv4_chars: "ipv4_ok s \<Longrightarrow> list_all ip_char s"
  using set_split_on[of s "CHR ''.''"]
  by (fastforce simp: ipv4_ok_def Let_def list_all_iff ip_char_def is_hex_def is_digit_def)

lemma ipv6_fields_chars: "ipv6_fields fuel i ell s \<Longrightarrow> list_all ip_char s"
proof (induction fuel i ell s rule: ipv6_fields.induct)
  case (2 fuel i ell s)
  let ?h = "takeWhile is_hex s" and ?r = "dropWhile is_hex s"
  have hex: "list_all ip_char ?h" by (auto simp: list_all_iff ip_char_def dest: set_takeWhileD)
  have split: "list_all ip_char s \<longleftrightarrow> list_all ip_char ?r"
    using hex by (metis list_all_append takeWhile_dropWhile_id)
  show ?case
  proof (cases "16 \<le> i")
    case True
    with 2(3) show ?thesis by simp
  next
    case low: False
    note step = 2(3)[unfolded ipv6_fields.simps Let_def if_not_P[OF low]]
    show ?thesis
    proof (cases ?r)
      case Nil
      with split show ?thesis by (metis list.pred_inject(1))
    next
      case (Cons c r1)
      show ?thesis
      proof (cases "c = CHR ''.''")
        case True
        with step Cons show ?thesis by (auto intro: ipv4_chars split: if_splits)
      next
        case False
        then have c: "c = CHR '':''" "r1 \<noteq> []" using step Cons by (auto split: if_splits)
        then obtain d r2 where r1: "r1 = d # r2" by (cases r1) auto
        show ?thesis
        proof (cases "d = CHR '':''")
          case d: True
          show ?thesis
          proof (cases "r2 = []")
            case True
            have "?r = ''::''" using True by (simp add: Cons c r1 d)
            then have "list_all ip_char ?r" by (simp add: ip_char_def)
            with split show ?thesis by (rule iffD2)
          next
            case False
            have "ipv6_fields fuel (i + 2) True (drop 2 ?r)" using step False by (auto simp: Cons c r1 d split: if_splits)
            with 2(1)[OF low refl refl] step False have "list_all ip_char (drop 2 ?r)"
              by (auto simp: Cons c r1 d split: if_splits)
            then have "list_all ip_char ?r" by (simp add: Cons c r1 d ip_char_def)
            with split show ?thesis by (rule iffD2)
          qed
        next
          case False
          have "ipv6_fields fuel (i + 2) ell (tl ?r)" using step False by (auto simp: Cons c r1 split: if_splits)
          with 2(2)[OF low refl refl] step False have "list_all ip_char (tl ?r)"
            by (auto simp: Cons c r1 split: if_splits)
          then have "list_all ip_char ?r" by (simp add: Cons c r1 ip_char_def)
          with split show ?thesis by (rule iffD2)
        qed
      qed
    qed
  qed
qed simp

lemma parse_ip_chars: "parse_ip_ok s \<Longrightarrow> list_all ip_char s"
proof -
  assume ok: "parse_ip_ok s"
  have "list_all ip_char s" if six: "ipv6_ok s"
  proof (cases "take 2 s = ''::''")
    case True
    then have s: "s = ''::'' @ drop 2 s" by (metis append_take_drop_id)
    have "list_all ip_char (drop 2 s)"
      using six True by (auto simp: ipv6_ok_def intro: ipv6_fields_chars split: if_splits)
    then show ?thesis by (subst s) (simp add: ip_char_def)
  next
    case False
    then show ?thesis using six by (auto simp: ipv6_ok_def intro: ipv6_fields_chars)
  qed
  then show ?thesis using ok by (auto simp: parse_ip_ok_def intro: ipv4_chars split: option.splits if_splits)
qed

lemma ip_char_host: "ip_char c \<Longrightarrow> host_char c"
  by (auto simp: ip_char_def host_char_def label_char_def is_hex_def)

lemma server_addr_chars: "valid_transport_server_addr addr \<Longrightarrow> list_all host_char addr"
proof -
  assume ok: "valid_transport_server_addr addr"
  show ?thesis
  proof (cases "parse_ip_ok addr")
    case True
    with parse_ip_chars[OF this] show ?thesis by (auto simp: list_all_iff intro: ip_char_host)
  next
    case False
    then have "\<forall>l \<in> set (split_on CHR ''.'' addr). list_all label_char l"
      using ok by (auto simp: valid_transport_server_addr_def valid_label_def list_all_iff split: if_splits)
    with set_split_on[of addr "CHR ''.''"] show ?thesis by (fastforce simp: list_all_iff host_char_def)
  qed
qed

text \<open>The URL that the agent reports for its lease is the one that the gateway expects.\<close>

lemma agent_url_expected:
  assumes "valid_transport_server_addr (trim_space addr)"
  shows "expected_frp_llama_swap_url addr port = transport_url (trim_space addr) port"
  using server_addr_chars[OF assms] itoa_host_chars[of port]
  by (auto simp: expected_frp_llama_swap_url_def transport_url_def join_host_port_def host_char_def intro!: escape_host_id)

section \<open>Accepted heartbeats\<close>

lemma fold_record_agent_event [simp]:
  "gw_manager (fold (record_agent_event w now) es s) = gw_manager s"
  "gw_leases (fold (record_agent_event w now) es s) = gw_leases s"
  "gw_workers (fold (record_agent_event w now) es s) = gw_workers s"
  by (induction es arbitrary: s) (simp_all add: record_agent_event_def Let_def)

lemma keep_heartbeat_facts:
  assumes "keep_heartbeat hb now s = (reply, s')"
  obtains resp where "reply = Replied resp" "upsert_heartbeat hb now (gw_workers s) = (resp, gw_workers s')" "gw_leases s' = gw_leases s"
    "gw_manager s' = gw_manager s"
  using assms by (auto simp: keep_heartbeat_def split: prod.splits)

lemma upsert_others:
  "k \<noteq> hb_agent_id hb \<Longrightarrow> map_of (reg_workers (snd (upsert_heartbeat hb now r))) k = map_of (reg_workers r) k"
  by (simp add: upsert_heartbeat_eq Let_def)

lemma upsert_url: "w_llama_swap_url (heartbeat_worker hb now r) = hb_llama_swap_url hb"
  by (simp add: heartbeat_worker_def Let_def worker_of_heartbeat_def)

text \<open>A renewal gives the lease that the lookup found, with a later end at most.\<close>

lemma lookup_found:
  "lookup_current agent lease_id gen now m = Inr lease \<Longrightarrow> lease \<in> set (lm_leases m) \<and> tl_current lease \<and> tl_agent_id lease = agent \<and>
     tl_lease_id lease = lease_id \<and> tl_generation lease = gen \<and> now < tl_expires_at lease"
  by (auto simp: lookup_current_def find_Some_iff split: option.splits)

lemma renewed_lease:
  assumes "renew_lease save policy agent lease_id gen now m = (Inr renewed, m')" "lease_set_ok (lm_leases m)"
    and "lease \<in> set (lm_leases m)" "tl_current lease" "tl_agent_id lease = agent"
  shows "renewed \<in> set (lm_leases m') \<and> tl_current renewed \<and> tl_agent_id renewed = agent \<and> tl_generation renewed = gen \<and>
    now < tl_expires_at renewed \<and> tl_remote_port renewed = tl_remote_port lease \<and>
    tl_lease_id renewed = lease_id"
proof -
  have valid: "validate_lease_policy policy = None"
    using assms(1) by (auto simp: renew_lease_def split: option.splits)
  then have ttl: "lp_ttl policy > 0" by (auto simp: validate_lease_policy_def split: if_splits)
  obtain i where i: "index_of (\<lambda>l. tl_current l \<and> tl_agent_id l = agent \<and> tl_lease_id l = lease_id \<and> tl_generation l = gen \<and>
      tl_expires_at l > now \<and> lease_matches_policy l policy) (lm_leases m) = Some i"
    using assms(1) valid by (auto simp: renew_lease_def split: option.splits)
  note at = index_of_Some[OF i]
  have same: "lm_leases m ! i = lease" using same_current_lease[OF assms(2) nth_mem assms(3)] at assms(4,5) by auto
  let ?new = "(lm_leases m ! i)\<lparr>tl_renewed_at := now, tl_expires_at := now + lp_ttl policy\<rparr>"
  show ?thesis
  proof (cases "time_sub (tl_expires_at (lm_leases m ! i)) now > lp_ttl policy div 2")
    case True
    then show ?thesis using assms(1) valid i at same assms(3) by (simp add: renew_lease_def Let_def)
  next
    case False
    then have "commit_leases save ((lm_leases m)[i := ?new]) ?new m = (Inr renewed, m')"
      using assms(1) valid i by (simp add: renew_lease_def Let_def)
    then have "renewed = ?new" "lm_leases m' = (lm_leases m)[i := ?new]" by (auto elim: commit_cases)
    then show ?thesis using at same ttl by (auto intro: set_update_memI)
  qed
qed

section \<open>Maps built by a loop\<close>

lemma map_of_fold_pick:
  "map_of (fold (\<lambda>name m. case map_of ms name of None \<Rightarrow> m | Some v \<Rightarrow> mput name v m) names m0) k =
     (if k \<in> set names \<and> map_of ms k \<noteq> None then map_of ms k else map_of m0 k)"
  by (induction names arbitrary: m0) (auto split: option.splits)

lemma by_identity_fold:
  fixes ident :: "'a \<Rightarrow> 'b" and f :: "'a \<Rightarrow> ('b, 'a) gomap \<Rightarrow> ('b, 'a) gomap"
  assumes f: "\<And>dir m. f dir m = (if mhas m (ident dir) then m else mput (ident dir) dir m)"
    and "\<And>k d. map_of m0 k = Some d \<Longrightarrow> k = ident d"
  shows "(\<forall>k d. map_of (fold f dirs m0) k = Some d \<longrightarrow> k = ident d) \<and> (\<forall>dir \<in> set dirs. mhas (fold f dirs m0) (ident dir)) \<and>
    (\<forall>k. mhas m0 k \<longrightarrow> mhas (fold f dirs m0) k)"
  using assms(2)
proof (induction dirs arbitrary: m0)
  case (Cons dir dirs)
  have inv: "map_of (f dir m0) k = Some d \<Longrightarrow> k = ident d" for k d using Cons.prems[of k d] by (auto simp: f split: if_splits)
  have "mhas (f dir m0) (ident dir)" "\<And>k. mhas m0 k \<Longrightarrow> mhas (f dir m0) k" by (auto simp: f mhas_def)
  with Cons.IH[OF inv] show ?case by simp
qed simp

section \<open>The configuration of an agent\<close>

lemma handle_agent_config_cases:
  assumes "handle_agent_config env tags_param agent_param s = Replied resp"
  obtains tag policy transport revision where
    "matched_tag_policy (active_gateway_config (fst (manager_snapshot (gw_manager s)))) tags_param = Some (tag, policy)"
    "agent_transport env (gw_leases s = None) (active_gateway_config (fst (manager_snapshot (gw_manager s)))) (trim_space agent_param) =
       Inr transport"
    "resp = (agent_config_of (ge_goos env) (active_gateway_config (fst (manager_snapshot (gw_manager s)))) revision tag policy)
       \<lparr>acr_transport := transport\<rparr>"
proof -
  obtain cfg0 revision where snap: "manager_snapshot (gw_manager s) = (cfg0, revision)" by fastforce
  let ?cfg = "active_gateway_config cfg0"
  obtain tag policy where p: "matched_tag_policy ?cfg tags_param = Some (tag, policy)"
    using assms by (cases "matched_tag_policy ?cfg tags_param") (simp_all add: handle_agent_config_def snap prod_eq_iff)
  obtain transport where tr: "agent_transport env (gw_leases s = None) ?cfg (trim_space agent_param) = Inr transport"
    using assms by (cases "agent_transport env (gw_leases s = None) ?cfg (trim_space agent_param)")
      (auto simp: handle_agent_config_def snap p)
  have "resp = (agent_config_of (ge_goos env) ?cfg revision tag policy)\<lparr>acr_transport := transport\<rparr>"
    using assms by (simp add: handle_agent_config_def snap p tr)
  with that p tr snap show thesis by simp
qed

lemma desired_dirs_cover:
  assumes "map_of (gc_tag_policies cfg) tag = Some policy" "name \<in> set (tp_allowed_models policy)" "map_of (gc_models cfg) name = Some md"
  shows "\<exists>dir \<in> set (desired_model_dirs goos cfg).
    model_dir_identity_for_os dir goos = model_dir_identity_for_os (resolved_model_dir name md) goos"
proof -
  let ?names = "concat (map (\<lambda>(tag, policy). tp_allowed_models policy) (gc_tag_policies cfg))"
  let ?dirs = "List.map_filter (\<lambda>name. map_option (resolved_model_dir name) (map_of (gc_models cfg) name)) ?names"
  let ?ident = "\<lambda>dir. model_dir_identity_for_os dir goos"
  define f where "f = (\<lambda>dir m. let identity = ?ident dir in if mhas m identity then m else mput identity dir m)"
  define m where "m = fold f ?dirs []"
  have "f dir m = (if mhas m (?ident dir) then m else mput (?ident dir) dir m)" for dir m by (simp add: f_def Let_def)
  note facts = by_identity_fold[of f ?ident "[]" ?dirs, OF this, folded m_def, simplified]
  have "name \<in> set ?names" using map_of_SomeD[OF assms(1)] assms(2) by force
  then have "resolved_model_dir name md \<in> set ?dirs" using assms(3) by (force simp: List.map_filter_def)
  with facts have "mhas m (?ident (resolved_model_dir name md))" and inv: "\<And>k d. map_of m k = Some d \<Longrightarrow> k = ?ident d" by blast+
  then obtain dir where dir: "map_of m (?ident (resolved_model_dir name md)) = Some dir" by (auto simp: mhas_def)
  have "dir \<in> set (map snd m)" using map_of_SomeD[OF dir] by force
  then have "dir \<in> set (desired_model_dirs goos cfg)" by (simp add: desired_model_dirs_def m_def f_def)
  with inv[OF dir] show ?thesis by auto
qed

text \<open>
  The configuration an agent is given is closed: every model it may run is in it, enabled, and the directory of that model is
  one of those that no agent may treat as removed.
\<close>

theorem agent_config_closed:
  assumes "handle_agent_config env tags_param agent_param s = Replied resp" "name \<in> set (atp_allowed_models (acr_tag_policy resp))"
  shows "\<exists>md. map_of (acr_models resp) name = Some md \<and> \<not> m_disabled md \<and>
    (\<exists>dir \<in> set (the (acr_desired_model_dirs resp)).
       model_dir_identity_for_os dir (ge_goos env) = model_dir_identity_for_os (resolved_model_dir name md) (ge_goos env))"
proof -
  let ?cfg = "active_gateway_config (fst (manager_snapshot (gw_manager s)))"
  from assms(1) obtain tag policy transport revision where p: "matched_tag_policy ?cfg tags_param = Some (tag, policy)"
    "resp = (agent_config_of (ge_goos env) ?cfg revision tag policy)\<lparr>acr_transport := transport\<rparr>"
    by (rule handle_agent_config_cases)
  have name: "name \<in> set (tp_allowed_models policy)" using assms(2) p(2) by (simp add: agent_config_of_def agent_policy_def)
  have pol: "map_of (gc_tag_policies ?cfg) tag = Some policy" by (rule matched_policy[OF p(1)])
  obtain md where md: "map_of (gc_models ?cfg) name = Some md"
    using active_policy_allowed[OF pol name] by (auto simp: mhas_def)
  have "\<not> m_disabled md" using map_of_SomeD[OF md] by (simp add: active_gateway_config_def Let_def)
  moreover have "map_of (acr_models resp) name = Some md" using md name by (simp add: p(2) agent_config_of_def map_of_fold_pick)
  ultimately show ?thesis using desired_dirs_cover[OF pol name md, of "ge_goos env"] p(2) by (simp add: agent_config_of_def)
qed


section \<open>Leases and heartbeats\<close>

lemma handle_heartbeat_cases:
  assumes "handle_agent_heartbeat env now (Some hb) s = (Replied resp, s')"
  obtains (direct) "tr_type (gc_transport (fst (manager_snapshot (gw_manager s)))) \<noteq> ''frp_tcp''" "keep_heartbeat hb now s = (Replied resp, s')"
  | (not_ready) "hb_llama_swap_url hb = []" "keep_heartbeat hb now s = (Replied resp, s')"
  | (leased) leases l url generation where "gw_leases s = Some leases"
      "transport_config_generation (ge_digest env) (fst (manager_snapshot (gw_manager s))) = Some generation"
      "admit_lease env (fst (manager_snapshot (gw_manager s))) generation hb now leases = (Inr url, l)"
      "keep_heartbeat (hb\<lparr>hb_llama_swap_url := url\<rparr>) now (s\<lparr>gw_leases := Some l\<rparr>) = (Replied resp, s')"
  using assms
  by (auto simp: handle_agent_heartbeat_def Let_def split: option.splits if_splits prod.splits sum.splits)

lemma admitted:
  fixes env :: "('l, 'e) gateway_env"
  assumes "admit_lease env cfg generation hb now leases = (Inr url, l)" "lease_set_ok (lm_leases leases)" "now \<noteq> 0"
  obtains lease where "lease \<in> set (lm_leases l)" "tl_current lease" "tl_agent_id lease = hb_agent_id hb"
    "tl_lease_id lease = hb_transport_lease_id hb" "tl_generation lease = generation" "now < tl_expires_at lease"
    "url = expected_frp_llama_swap_url (gateway_frp_dial_addr (tr_frp (gc_transport cfg))) (tl_remote_port lease)"
    "lease_set_ok (lm_leases l)"
proof -
  have gen: "hb_transport_generation hb = generation" using assms(1) by (auto simp: admit_lease_def split: if_splits)
  obtain lease where f: "lookup_current (hb_agent_id hb) (hb_transport_lease_id hb) (hb_transport_generation hb) now leases =
      (Inr lease :: 'e lease_error + transport_lease)"
    using assms(1) by (auto simp: admit_lease_def split: if_splits sum.splits)
  obtain renewed where r: "renew_lease (ge_save env) (lease_policy_of cfg) (hb_agent_id hb) (hb_transport_lease_id hb)
      (hb_transport_generation hb) now leases = (Inr renewed, l)"
    "url = expected_frp_llama_swap_url (gateway_frp_dial_addr (tr_frp (gc_transport cfg))) (tl_remote_port lease)"
    using assms(1) f by (auto simp: admit_lease_def split: if_splits prod.splits sum.splits)
  note found = lookup_found[OF f]
  with renewed_lease[OF r(1) assms(2), of lease] r(2) gen that[of renewed]
    lease_step_valid[OF lease_renew[OF assms(3) r(1)] assms(2)]
  show thesis by auto
qed


text \<open>A lease that was granted is still the agent's current one; looking it up and renewing it then succeed.\<close>

lemma lookup_granted:
  assumes "lease_set_ok (lm_leases m)" "lease \<in> set (lm_leases m)" "tl_current lease" "now < tl_expires_at lease"
  shows "lookup_current (tl_agent_id lease) (tl_lease_id lease) (tl_generation lease) now m = Inr lease"
proof -
  let ?P = "\<lambda>x. tl_current x \<and> tl_agent_id x = tl_agent_id lease \<and> tl_lease_id x = tl_lease_id lease \<and>
    tl_generation x = tl_generation lease \<and> now < tl_expires_at x"
  obtain x where x: "find ?P (lm_leases m) = Some x" using assms(2-4) by (cases "find ?P (lm_leases m)") (auto simp: find_None_iff)
  then have "x \<in> set (lm_leases m)" "?P x" by (auto simp: find_Some_iff)
  with same_current_lease[OF assms(1) _ assms(2) _ assms(3)] have "x = lease" by blast
  with x show ?thesis by (simp add: lookup_current_def)
qed

lemma renew_granted:
  assumes "lease \<in> set (lm_leases m)" "tl_current lease" "now < tl_expires_at lease" "lease_matches_policy lease policy"
    and "validate_lease_policy policy = None" "\<And>ls st. fst (save ls st) = None"
  shows "\<exists>renewed m'. renew_lease save policy (tl_agent_id lease) (tl_lease_id lease) (tl_generation lease) now m = (Inr renewed, m')"
proof -
  let ?P = "\<lambda>x. tl_current x \<and> tl_agent_id x = tl_agent_id lease \<and> tl_lease_id x = tl_lease_id lease \<and>
    tl_generation x = tl_generation lease \<and> now < tl_expires_at x \<and> lease_matches_policy x policy"
  obtain i where i: "index_of ?P (lm_leases m) = Some i"
    using assms(1-4) by (cases "index_of ?P (lm_leases m)") (auto simp: index_of_None)
  let ?new = "(lm_leases m ! i)\<lparr>tl_renewed_at := now, tl_expires_at := now + lp_ttl policy\<rparr>"
  show ?thesis
  proof (cases "time_sub (tl_expires_at (lm_leases m ! i)) now > lp_ttl policy div 2")
    case True
    then show ?thesis by (simp add: renew_lease_def assms(5) i Let_def)
  next
    case False
    obtain m' where "commit_leases save ((lm_leases m)[i := ?new]) ?new m = (Inr ?new, m')"
      using assms(6)[of "(lm_leases m)[i := ?new]" "lm_store m"]
      by (cases "save ((lm_leases m)[i := ?new]) (lm_store m)") (simp add: commit_leases_def)
    with False show ?thesis by (simp add: renew_lease_def assms(5) i Let_def)
  qed
qed

lemma wrap_int64_bounds: "min_int64 \<le> wrap_int64 x" "wrap_int64 x \<le> max_int64"
proof -
  have "0 \<le> (x - min_int64) mod 2 ^ 64" "(x - min_int64) mod 2 ^ 64 < 2 ^ 64" by simp_all
  then show "min_int64 \<le> wrap_int64 x" "wrap_int64 x \<le> max_int64" by (simp_all add: wrap_int64_def)
qed

lemma granted_lease:
  assumes "handle_transport_lease env now (Some rq) s = (Replied grant, s')" "now \<noteq> 0"
    and "\<And>leases. gw_leases s = Some leases \<Longrightarrow> validate_loaded_leases (lm_leases leases) = None"
  obtains l lease where "s' = s\<lparr>gw_leases := Some l\<rparr>" "lease_set_ok (lm_leases l)" "lease \<in> set (lm_leases l)" "tl_current lease"
    "tl_agent_id lease = trim_space (tlq_agent_id rq)" "grant = lease_reply lease"
    "transport_config_generation (ge_digest env) (fst (manager_snapshot (gw_manager s))) = Some (tl_generation lease)"
    "validate_lease_policy (lease_policy_of (fst (manager_snapshot (gw_manager s)))) = None"
    "lease_matches_policy lease (lease_policy_of (fst (manager_snapshot (gw_manager s))))"
    "tr_type (gc_transport (fst (manager_snapshot (gw_manager s)))) = ''frp_tcp''"
    "matched_tag_policy (active_gateway_config (fst (manager_snapshot (gw_manager s)))) (join_with '','' (tlq_tags rq)) \<noteq> None"
proof -
  let ?cfg = "fst (manager_snapshot (gw_manager s))"
  let ?rq = "\<lparr>lr_agent_id = trim_space (tlq_agent_id rq), lr_generation = tlq_generation rq, lr_current_lease_id = tlq_lease_id rq,
    lr_excluded_slots = tlq_exclude_slots rq\<rparr>"
  obtain leases where leases: "gw_leases s = Some leases"
    using assms(1) by (cases "gw_leases s") (simp_all add: handle_transport_lease_def)
  have plain: "\<not> tlq_release rq" "tr_type (gc_transport ?cfg) = ''frp_tcp''"
    "matched_tag_policy (active_gateway_config ?cfg) (join_with '','' (tlq_tags rq)) \<noteq> None"
    "transport_config_generation (ge_digest env) ?cfg = Some (tlq_generation rq)"
    using assms(1) leases
    by (auto simp: handle_transport_lease_def Let_def split: if_splits option.splits prod.splits sum.splits)
  obtain res l where acq: "acquire_lease (ge_save env) (ge_lease_ids env) (lease_policy_of ?cfg) ?rq now leases = (res, l)" by fastforce
  have "\<exists>lease. res = Inr lease \<and> grant = lease_reply lease \<and> s' = s\<lparr>gw_leases := Some l\<rparr>"
    using assms(1) leases plain acq
    by (cases res) (auto simp: handle_transport_lease_def Let_def lease_error_reply_def split: if_splits option.splits)
  then obtain lease where r: "res = Inr lease" "grant = lease_reply lease" "s' = s\<lparr>gw_leases := Some l\<rparr>" by blast
  note f = acquired_facts[OF acq[unfolded r(1)]]
  have "lease_set_ok (lm_leases l)"
    using acquired_valid[OF acq assms(2)] assms(3)[OF leases] by (simp add: validate_loaded_None)
  moreover have valid: "validate_lease_policy (lease_policy_of ?cfg) = None" using f(1) by (simp add: request_ok_def)
  moreover have "lease_matches_policy lease (lease_policy_of ?cfg)"
    using f(6-8,10,11) valid wrap_int64_bounds(2)[of "frp_lease_ttl_seconds (tr_frp (gc_transport ?cfg)) * second"]
    by (auto simp: lease_matches_policy_def lease_policy_of_def Let_def time_sub_def validate_lease_policy_def split: if_splits)
  ultimately show thesis using that[of l lease] r f(2-5) plain by simp
qed

lemma granted_lease_heartbeat:
  fixes env :: "('l, 'e) gateway_env"
  assumes "handle_transport_lease env now (Some rq) s = (Replied grant, s1)" "now \<noteq> 0"
    and "\<And>leases. gw_leases s = Some leases \<Longrightarrow> validate_loaded_leases (lm_leases leases) = None"
    and "trim_space (tlq_agent_id rq) = tlq_agent_id rq"
    and "valid_transport_server_addr (trim_space (frp_server_addr (tr_frp (gc_transport (fst (manager_snapshot (gw_manager s)))))))"
    and "\<And>ls st. fst (ge_save env ls st) = None"
    and "later < tlr_expires_at grant"
    and "hb_agent_id hb = tlq_agent_id rq" "hb_tags hb = tlq_tags rq" "hb_transport_lease_id hb = tlr_lease_id grant"
      "hb_transport_generation hb = tlr_generation grant"
      "hb_llama_swap_url hb = transport_url (trim_space (frp_server_addr (tr_frp (gc_transport (fst (manager_snapshot (gw_manager s)))))))
         (tlr_remote_port grant)"
  shows "\<exists>resp s2 w. handle_agent_heartbeat env later (Some hb) s1 = (Replied resp, s2) \<and>
    map_of (reg_workers (gw_workers s2)) (hb_agent_id hb) = Some w \<and>
    w_llama_swap_url w = expected_frp_llama_swap_url
      (gateway_frp_dial_addr (tr_frp (gc_transport (fst (manager_snapshot (gw_manager s)))))) (tlr_remote_port grant)"
proof -
  let ?cfg = "fst (manager_snapshot (gw_manager s))"
  obtain l lease where g: "s1 = s\<lparr>gw_leases := Some l\<rparr>" "lease_set_ok (lm_leases l)" "lease \<in> set (lm_leases l)" "tl_current lease"
    "tl_agent_id lease = trim_space (tlq_agent_id rq)" "grant = lease_reply lease"
    "transport_config_generation (ge_digest env) ?cfg = Some (tl_generation lease)"
    "validate_lease_policy (lease_policy_of ?cfg) = None" "lease_matches_policy lease (lease_policy_of ?cfg)"
    "tr_type (gc_transport ?cfg) = ''frp_tcp''"
    "matched_tag_policy (active_gateway_config ?cfg) (join_with '','' (tlq_tags rq)) \<noteq> None"
    using assms(1-3) by (rule granted_lease)
  have hb: "hb_agent_id hb = tl_agent_id lease" "hb_transport_lease_id hb = tl_lease_id lease"
    "hb_transport_generation hb = tl_generation lease" "later < tl_expires_at lease"
    "hb_llama_swap_url hb = expected_frp_llama_swap_url (frp_server_addr (tr_frp (gc_transport ?cfg))) (tl_remote_port lease)"
    using assms(4,7-12) g(5,6) agent_url_expected[OF assms(5)] by (simp_all add: lease_reply_def)
  have ids: "trim_space (tl_agent_id lease) \<noteq> []" "tl_lease_id lease \<noteq> []"
    using g(2,3) by (auto simp: lease_set_ok_def lease_entry_ok_def)
  have url: "hb_llama_swap_url hb \<noteq> []" by (simp add: hb(5) expected_frp_llama_swap_url_def)
  have look: "lookup_current (hb_agent_id hb) (hb_transport_lease_id hb) (hb_transport_generation hb) later l =
      (Inr lease :: 'e lease_error + transport_lease)"
    unfolding hb(1-3) by (rule lookup_granted[OF g(2-4) hb(4)])
  obtain renewed l' where renew: "renew_lease (ge_save env) (lease_policy_of ?cfg) (hb_agent_id hb) (hb_transport_lease_id hb)
      (hb_transport_generation hb) later l = (Inr renewed, l')"
    using renew_granted[OF g(3,4) hb(4) g(9,8), of "ge_save env", OF assms(6)] unfolding hb(1-3) by blast
  let ?url = "expected_frp_llama_swap_url (gateway_frp_dial_addr (tr_frp (gc_transport ?cfg))) (tl_remote_port lease)"
  have admit: "admit_lease env ?cfg (tl_generation lease) hb later l = (Inr ?url, l')"
    using url ids look renew hb(2,3,5) by (simp add: admit_lease_def)
  have "handle_agent_heartbeat env later (Some hb) s1 = keep_heartbeat (hb\<lparr>hb_llama_swap_url := ?url\<rparr>) later (s\<lparr>gw_leases := Some l'\<rparr>)"
    using g(1,7,10,11) hb(1) ids url admit assms(9) by (auto simp: handle_agent_heartbeat_def Let_def)
  moreover obtain reply s2 where keep: "keep_heartbeat (hb\<lparr>hb_llama_swap_url := ?url\<rparr>) later (s\<lparr>gw_leases := Some l'\<rparr>) = (reply, s2)"
    by fastforce
  moreover from keep obtain resp where k: "reply = Replied resp"
    "upsert_heartbeat (hb\<lparr>hb_llama_swap_url := ?url\<rparr>) later (gw_workers s) = (resp, gw_workers s2)"
    by (rule keep_heartbeat_facts) simp
  have "gw_workers s2 = snd (upsert_heartbeat (hb\<lparr>hb_llama_swap_url := ?url\<rparr>) later (gw_workers s))" using k(2) by simp
  then have "map_of (reg_workers (gw_workers s2)) (hb_agent_id hb) =
      Some (heartbeat_worker (hb\<lparr>hb_llama_swap_url := ?url\<rparr>) later (gw_workers s))"
    using upsert_worker[of "hb\<lparr>hb_llama_swap_url := ?url\<rparr>" later "gw_workers s"] by simp
  ultimately show ?thesis using k(1) g(6) by (simp add: upsert_url lease_reply_def)
qed


text \<open>
  A lease request leaves the registry alone, a release too: until its next heartbeat a worker that has given its port back is
  still reached there.
\<close>

lemma lease_requests_keep_workers: "gw_workers (snd (handle_transport_lease env now rq s)) = gw_workers s"
  by (simp add: handle_transport_lease_def Let_def split: option.splits prod.splits sum.splits)

section \<open>A gateway with one agent\<close>

definition example_gateway :: "(unit, memory_lease_store) gateway_server" where
  "example_gateway =
     \<lparr>gw_manager = \<lparr>cm_cfg = example_config, cm_file_cfg = example_config, cm_raw_yaml = [], cm_version = 1, cm_revisions = (),
        cm_config_path = [], cm_pins = \<lparr>rp_tokens = gc_tokens example_config, rp_listen_addr = [], rp_proxy_attempts = 3,
        rp_pin_proxy_attempts = False\<rparr>, cm_disk = None\<rparr>,
      gw_leases = Some \<lparr>lm_store = [], lm_leases = []\<rparr>, gw_workers = new_worker_registry (6 * second),
      gw_recent_events = [], gw_stored = []\<rparr>"

text \<open>No secrecy, but the sizes and the inverses of the real operations.\<close>

definition example_crypto :: crypto_ops where
  "example_crypto = \<lparr>co_hmac = (\<lambda>k m. replicate 32 0), co_seal = (\<lambda>k n p a. replicate 16 0 @ p),
     co_open = (\<lambda>k n c a. Some (drop 16 c)),
     co_to_json = (\<lambda>b. if b = gateway_bootstrap example_config then Some [] else None),
     co_of_json = (\<lambda>j. Some (gateway_bootstrap example_config))\<rparr>"

definition example_gateway_env :: "(memory_lease_store, unit) gateway_env" where
  "example_gateway_env = \<lparr>ge_save = memory_save, ge_lease_ids = (\<lambda>k. Some ''i''), ge_digest = (\<lambda>_. Some [0, 0, 0, 0, 0, 0, 0, 7]),
     ge_crypto = example_crypto, ge_nonce = Some (replicate 12 7), ge_goos = ''linux''\<rparr>"

definition example_agent_transport :: transport_env where
  "example_agent_transport = \<lparr>te_agent_id = ''w'', te_tags = [''gpu''], te_agent_token = ''g'', te_swap_port = 9000,
     te_has_gateway = True, te_has_factory = True, te_has_prepare = True, te_poll_interval = 0, te_retry_min = 0, te_retry_max = 0,
     te_crypto = example_crypto, te_sha256 = (\<lambda>s. [])\<rparr>"

lemma example_snapshot: "fst (manager_snapshot (gw_manager example_gateway)) = clone_gateway_config example_config"
  by (simp add: manager_snapshot_def example_gateway_def)

lemma example_transport [simp]:
  "gc_transport (clone_gateway_config example_config) = gc_transport example_config"
  "gc_tokens (clone_gateway_config example_config) = gc_tokens example_config"
  by (simp_all add: clone_gateway_config_def)

lemma example_active_policy:
  "matched_tag_policy (active_gateway_config (clone_gateway_config example_config)) ''gpu'' = Some (''gpu'', example_policy)"
  by code_simp

lemma example_generation: "transport_config_generation (ge_digest example_gateway_env) cfg = Some 7"
  by (simp add: transport_config_generation_def example_gateway_env_def Let_def)

lemma example_frp:
  "tr_type (gc_transport example_config) = ''frp_tcp''" "tok_agent (gc_tokens example_config) = ''g''"
  by (simp_all add: example_config_def base_config_def)

lemma example_sealed:
  "\<exists>envelope. agent_transport example_gateway_env False (active_gateway_config (clone_gateway_config example_config)) ''w'' =
     Inr (Some envelope)"
proof -
  have "gateway_bootstrap (clone_gateway_config example_config) = gateway_bootstrap example_config"
    by (simp add: gateway_bootstrap_def)
  then show ?thesis
    by (simp add: agent_transport_def example_generation example_frp seal_bootstrap_def bootstrap_key_size)
       (simp add: example_gateway_env_def example_crypto_def bootstrap_key_size)
qed

lemma example_config_reply:
  "\<exists>resp. handle_agent_config example_gateway_env ''gpu'' ''w'' example_gateway = Replied resp \<and>
     atp_allowed_models (acr_tag_policy resp) = [''a'', ''b'']"
proof -
  obtain envelope where "agent_transport example_gateway_env False (active_gateway_config (clone_gateway_config example_config)) ''w'' =
     Inr (Some envelope)" using example_sealed by blast
  moreover have "trim_space ''w'' = ''w''" by code_simp
  moreover have "gw_leases example_gateway \<noteq> None" by (simp add: example_gateway_def)
  moreover have "manager_snapshot (gw_manager example_gateway) = (clone_gateway_config example_config, 1)"
    by (simp add: manager_snapshot_def example_gateway_def)
  moreover have "tp_allowed_models example_policy = [''a'', ''b'']" by (simp add: example_policy_def)
  ultimately show ?thesis
    using example_active_policy by (auto simp: handle_agent_config_def agent_config_of_def agent_policy_def Let_def)
qed

theorem agent_config_closed_witness:
  "\<exists>resp md. handle_agent_config example_gateway_env ''gpu'' ''w'' example_gateway = Replied resp \<and>
     map_of (acr_models resp) ''a'' = Some md \<and> \<not> m_disabled md"
proof -
  obtain resp where r: "handle_agent_config example_gateway_env ''gpu'' ''w'' example_gateway = Replied resp"
    "atp_allowed_models (acr_tag_policy resp) = [''a'', ''b'']" using example_config_reply by blast
  with agent_config_closed[OF r(1), of "''a''"] show ?thesis by auto
qed


definition example_lease_rq :: transport_lease_request where
  "example_lease_rq = \<lparr>tlq_agent_id = ''w'', tlq_tags = [''gpu''], tlq_generation = 7, tlq_lease_id = [], tlq_release = False,
     tlq_exclude_slots = []\<rparr>"

definition example_grant :: transport_lease_response where
  "example_grant = \<lparr>tlr_lease_id = ''i'', tlr_slot = 0, tlr_remote_port = 20000, tlr_generation = 7, tlr_expires_at = 181 * second\<rparr>"

definition leased_gateway :: "(unit, memory_lease_store) gateway_server" where
  "leased_gateway = snd (handle_transport_lease example_gateway_env second (Some example_lease_rq) example_gateway)"

definition leased_heartbeat :: heartbeat_request where
  "leased_heartbeat = (beat ''w'' [] [] False [])
     \<lparr>hb_llama_swap_url := ''http://frps.example:20000'', hb_transport_lease_id := ''i'', hb_transport_generation := 7\<rparr>"

lemma example_lease_granted:
  "handle_transport_lease example_gateway_env second (Some example_lease_rq) example_gateway = (Replied example_grant, leased_gateway)"
proof -
  have "fst (handle_transport_lease example_gateway_env second (Some example_lease_rq) example_gateway) = Replied example_grant"
    by code_simp
  then show ?thesis by (simp add: leased_gateway_def prod_eq_iff)
qed

lemma example_leases_valid: "gw_leases example_gateway = Some leases \<Longrightarrow> validate_loaded_leases (lm_leases leases) = None"
  by (auto simp: example_gateway_def validate_loaded_leases_def)

lemma leased_heartbeat_fields:
  "hb_agent_id leased_heartbeat = ''w''" "hb_tags leased_heartbeat = [''gpu'']" "hb_transport_lease_id leased_heartbeat = ''i''"
  "hb_transport_generation leased_heartbeat = 7" "hb_llama_swap_url leased_heartbeat = ''http://frps.example:20000''"
  by (simp_all add: leased_heartbeat_def beat_def)

lemma itoa_20000: "itoa 20000 = ''20000''"
proof -
  have "map char_of [50, 48, 48, 48, 48 :: nat] = ''20000''" by code_simp
  then show ?thesis by (simp add: itoa_def nat_digits.simps)
qed

lemma example_addr:
  "trim_space (frp_server_addr (tr_frp (gc_transport example_config))) = ''frps.example''"
  "valid_transport_server_addr ''frps.example''" "trim_space ''w'' = ''w''"
  by code_simp+

lemma example_url: "transport_url ''frps.example'' 20000 = ''http://frps.example:20000''"
  by (simp add: transport_url_def join_host_port_def itoa_20000)

lemma example_save: "fst (ge_save example_gateway_env ls st) = None"
  by (simp add: example_gateway_env_def memory_save_def)



end
