(* ===== verification/AgentCredentials.thy ===== *)
theory AgentCredentials
  imports YamlNodes
begin

text \<open>
  Putting the token of a managed transport into llama-swap's configuration (internal/agent/reconcile.go:
  \<open>llamaSwapConfigWithAPIKey\<close>, \<open>yamlNodeContainsAlias\<close>), on the decoded document: known sections are kept as they are,
  everything else goes, and \<open>apiKeys\<close> is a list with the token alone.
\<close>

section \<open>Aliases\<close>

text \<open>
  The content of decoded nodes is a tree, so that a path is no longer than the list of nodes: this is the fuel. An index
  past the end is nil.
\<close>

fun yaml_node_contains_alias_from :: "nat \<Rightarrow> yaml_node list \<Rightarrow> nat \<Rightarrow> bool" where
  "yaml_node_contains_alias_from 0 ns i = False"
| "yaml_node_contains_alias_from (Suc fuel) ns i =
     (if i \<ge> length ns then False
      else if yn_kind (ns ! i) = AliasNode \<or> yn_alias (ns ! i) \<noteq> None then True
      else list_ex (yaml_node_contains_alias_from fuel ns) (yn_content (ns ! i)))"

definition yaml_node_contains_alias :: "yaml_node list \<Rightarrow> nat \<Rightarrow> bool" where
  "yaml_node_contains_alias ns i = yaml_node_contains_alias_from (Suc (length ns)) ns i"

section \<open>The new document\<close>

definition kept_sections :: "string list" where
  "kept_sections = [''healthCheckTimeout'', ''startPort'', ''globalTTL'', ''performance'', ''models'']"

definition api_keys_key :: string where
  "api_keys_key = ''apiKeys''"

text \<open>The kept pairs; \<open>None\<close> when a section appears twice or holds an alias.\<close>

fun keep_sections :: "yaml_node list \<Rightarrow> string list \<Rightarrow> (nat \<times> nat) list \<Rightarrow> (nat \<times> nat) list option" where
  "keep_sections ns seen [] = Some []"
| "keep_sections ns seen ((k, v) # rest) =
     (let name = yn_value (ns ! k)
      in if name = api_keys_key then keep_sections ns seen rest
         else if name \<notin> set kept_sections then keep_sections ns seen rest
         else if name \<in> set seen \<or> yaml_node_contains_alias ns v then None
         else map_option (\<lambda>kept. (k, v) # kept) (keep_sections ns (name # seen) rest))"

definition with_api_key :: "yaml_document \<Rightarrow> string \<Rightarrow> yaml_document option" where
  "with_api_key doc token =
     (case yd_root doc of
        None \<Rightarrow> None
      | Some root_index \<Rightarrow>
          let ns = yd_nodes doc; n = length ns
          in if yn_kind (ns ! root_index) \<noteq> MappingNode then None
             else case keep_sections ns [] (content_pairs (yn_content (ns ! root_index))) of
               None \<Rightarrow> None
             | Some kept \<Rightarrow>
                 Some \<lparr>yd_nodes = ns[root_index := (ns ! root_index)\<lparr>yn_content := concat (map (\<lambda>(k, v). [k, v]) kept) @ [n, n + 1]\<rparr>] @
                   [\<lparr>yn_kind = ScalarNode, yn_tag = ''!!str'', yn_value = api_keys_key, yn_content = [], yn_alias = None\<rparr>,
                    \<lparr>yn_kind = SequenceNode, yn_tag = ''!!seq'', yn_value = [], yn_content = [n + 2], yn_alias = None\<rparr>,
                    \<lparr>yn_kind = ScalarNode, yn_tag = ''!!str'', yn_value = token, yn_content = [], yn_alias = None\<rparr>],
                   yd_root = yd_root doc\<rparr>)"

text \<open>The values that a document has for a section, in order.\<close>

definition section_values :: "yaml_document \<Rightarrow> string \<Rightarrow> nat list" where
  "section_values doc name =
     (case yd_root doc of
        None \<Rightarrow> []
      | Some root_index \<Rightarrow> map snd (filter (\<lambda>(k, v). yn_value (yd_nodes doc ! k) = name) (content_pairs (yn_content (yd_nodes doc ! root_index)))))"

lemma content_pairs_concat [simp]:
  "content_pairs (concat (map (\<lambda>(k, v). [k, v]) kept) @ [a, b]) = kept @ [(a, b)]"
  by (induction kept) auto

lemma keep_sections_kept:
  "keep_sections ns seen ps = Some kept \<Longrightarrow> set kept \<subseteq> set ps \<and> (\<forall>(k, v) \<in> set kept. yn_value (ns ! k) \<in> set kept_sections) \<and>
     (\<forall>name \<in> set kept_sections. filter (\<lambda>(k, v). yn_value (ns ! k) = name) kept = filter (\<lambda>(k, v). yn_value (ns ! k) = name) ps)"
proof (induction ns seen ps arbitrary: kept rule: keep_sections.induct)
  case (2 ns seen k v rest)
  have key: "api_keys_key \<notin> set kept_sections" by (simp add: api_keys_key_def kept_sections_def)
  show ?case
  proof (cases "yn_value (ns ! k) = api_keys_key \<or> yn_value (ns ! k) \<notin> set kept_sections")
    case True
    then have "keep_sections ns seen rest = Some kept" using 2(4) by (auto simp: Let_def split: if_splits)
    moreover have "\<forall>name \<in> set kept_sections. yn_value (ns ! k) \<noteq> name" using True key by auto
    ultimately show ?thesis using 2(1,2) True by (cases "yn_value (ns ! k) = api_keys_key") fastforce+
  next
    case False
    then obtain kept' where "keep_sections ns (yn_value (ns ! k) # seen) rest = Some kept'" "kept = (k, v) # kept'"
      using 2(4) by (auto simp: Let_def split: if_splits)
    moreover have "\<not> (yn_value (ns ! k) \<in> set seen \<or> yaml_node_contains_alias ns v)" using 2(4) False by (auto simp: Let_def split: if_splits)
    ultimately show ?thesis using 2(3)[OF refl] False by fastforce
  qed
qed simp

text \<open>The indices of a decoded document are in range.\<close>

definition document_ok :: "yaml_document \<Rightarrow> bool" where
  "document_ok doc \<longleftrightarrow> (\<forall>r. yd_root doc = Some r \<longrightarrow> r < length (yd_nodes doc) \<and>
     list_all (\<lambda>(k, v). k < length (yd_nodes doc) \<and> k \<noteq> r) (content_pairs (yn_content (yd_nodes doc ! r))))"

text \<open>
  The new document has one value for \<open>apiKeys\<close>, the list with the token alone, so that no older key stays valid; the known
  sections keep their values, and there are no others.
\<close>

theorem credentials_replaced:
  assumes "with_api_key doc token = Some doc'" "document_ok doc"
  shows "(\<exists>v t. section_values doc' ''apiKeys'' = [v] \<and> yn_kind (yd_nodes doc' ! v) = SequenceNode \<and> yn_content (yd_nodes doc' ! v) = [t] \<and>
      yn_kind (yd_nodes doc' ! t) = ScalarNode \<and> yn_value (yd_nodes doc' ! t) = token) \<and>
    (\<forall>name. name \<noteq> ''apiKeys'' \<longrightarrow> section_values doc' name = (if name \<in> set kept_sections then section_values doc name else []))"
proof -
  obtain r where r: "yd_root doc = Some r" using assms(1) by (auto simp: with_api_key_def split: option.splits)
  let ?ns = "yd_nodes doc" and ?n = "length (yd_nodes doc)"
  let ?ps = "content_pairs (yn_content (?ns ! r))"
  obtain kept where kept: "keep_sections ?ns [] ?ps = Some kept"
    using assms(1) r by (auto simp: with_api_key_def Let_def split: option.splits if_splits)
  let ?root = "(?ns ! r)\<lparr>yn_content := concat (map (\<lambda>(k, v). [k, v]) kept) @ [?n, ?n + 1]\<rparr>"
  let ?new = "[\<lparr>yn_kind = ScalarNode, yn_tag = ''!!str'', yn_value = api_keys_key, yn_content = [], yn_alias = None\<rparr>,
       \<lparr>yn_kind = SequenceNode, yn_tag = ''!!seq'', yn_value = [], yn_content = [?n + 2], yn_alias = None\<rparr>,
       \<lparr>yn_kind = ScalarNode, yn_tag = ''!!str'', yn_value = token, yn_content = [], yn_alias = None\<rparr>]"
  have doc': "yd_nodes doc' = ?ns[r := ?root] @ ?new" "yd_root doc' = Some r"
    using assms(1) r kept by (auto simp: with_api_key_def Let_def split: if_splits)
  have r_ok: "r < ?n" and ps_ok: "\<forall>(k, v) \<in> set ?ps. k < ?n \<and> k \<noteq> r"
    using assms(2) r by (auto simp: document_ok_def list_all_iff)
  note ks = keep_sections_kept[OF kept]
  have old: "yn_value (yd_nodes doc' ! k) = yn_value (?ns ! k)" if "(k, v) \<in> set kept" for k v
    using that ks ps_ok r_ok by (auto simp: doc'(1) nth_append nth_list_update)
  have last: "yn_value (yd_nodes doc' ! ?n) = api_keys_key" by (simp add: doc'(1) nth_append)
  have vals: "section_values doc' name = map snd (filter (\<lambda>(k, v). yn_value (?ns ! k) = name) kept) @ (if name = api_keys_key then [?n + 1] else [])"
    for name
  proof -
    have "filter (\<lambda>(k, v). yn_value (yd_nodes doc' ! k) = name) kept = filter (\<lambda>(k, v). yn_value (?ns ! k) = name) kept"
      using old by (intro filter_cong) auto
    moreover have "yn_content (yd_nodes doc' ! r) = concat (map (\<lambda>(k, v). [k, v]) kept) @ [?n, ?n + 1]"
      using r_ok by (simp add: doc'(1) nth_append)
    ultimately show ?thesis using last by (auto simp: section_values_def doc'(2))
  qed
  have no_key: "api_keys_key \<notin> set kept_sections" by (simp add: api_keys_key_def kept_sections_def)
  have none: "filter (\<lambda>(k, v). yn_value (?ns ! k) = name) kept = []" if "name \<notin> set kept_sections" for name
    using ks that by (auto simp: filter_empty_conv)
  have "section_values doc' ''apiKeys'' = [?n + 1]" using vals[of api_keys_key] none[OF no_key] by (simp add: api_keys_key_def)
  moreover have "yd_nodes doc' ! (?n + 1) = ?new ! 1" "yd_nodes doc' ! (?n + 2) = ?new ! 2" by (simp_all add: doc'(1) nth_append)
  moreover have "section_values doc' name = (if name \<in> set kept_sections then section_values doc name else [])" if "name \<noteq> ''apiKeys''" for name
  proof (cases "name \<in> set kept_sections")
    case True
    then have "filter (\<lambda>(k, v). yn_value (?ns ! k) = name) kept = filter (\<lambda>(k, v). yn_value (?ns ! k) = name) ?ps" using ks by blast
    with True that vals[of name] show ?thesis by (simp add: section_values_def r api_keys_key_def)
  next
    case False
    with that vals[of name] none[OF False] show ?thesis by (simp add: api_keys_key_def)
  qed
  ultimately show ?thesis by (intro conjI exI[of _ "?n + 1"] exI[of _ "?n + 2"]) auto
qed

section \<open>Witnesses\<close>

text \<open>The document \<open>{models: m, apiKeys: old, hooks: h}\<close>.\<close>

definition wit_scalar :: "string \<Rightarrow> yaml_node" where
  "wit_scalar s = \<lparr>yn_kind = ScalarNode, yn_tag = ''!!str'', yn_value = s, yn_content = [], yn_alias = None\<rparr>"

definition wit_credentials :: yaml_document where
  "wit_credentials = \<lparr>yd_nodes = \<lparr>yn_kind = MappingNode, yn_tag = ''!!map'', yn_value = [], yn_content = [1, 2, 3, 4, 5, 6], yn_alias = None\<rparr> #
     map wit_scalar [''models'', ''m'', ''apiKeys'', ''old'', ''hooks'', ''h''], yd_root = Some 0\<rparr>"

theorem credentials_replaced_witness:
  "\<exists>doc'. with_api_key wit_credentials ''t'' = Some doc' \<and> section_values doc' ''models'' = [2] \<and> section_values doc' ''hooks'' = []"
proof -
  obtain doc' where doc': "with_api_key wit_credentials ''t'' = Some doc'"
    by (simp add: with_api_key_def wit_credentials_def wit_scalar_def Let_def api_keys_key_def kept_sections_def
        yaml_node_contains_alias_def)
  have ok: "document_ok wit_credentials" by (simp add: document_ok_def wit_credentials_def wit_scalar_def)
  have "section_values wit_credentials ''models'' = [2]" by (simp add: section_values_def wit_credentials_def wit_scalar_def)
  with credentials_replaced[OF doc' ok] doc' show ?thesis by (auto simp: kept_sections_def)
qed

end
