(* ===== verification/AgentCycle.thy ===== *)
theory AgentCycle
  imports AgentInstalls AgentCredentials TransportManager Render
begin

text \<open>
  The reconcile cycle of the agent (internal/agent/reconcile.go): it fetches the configuration, schedules installs,
  asks llama-swap what is running, writes llama-swap's configuration, reports to the gateway and restarts llama-swap
  when the gateway allows it. A marker file beside the configuration records that a restart is due, so that it
  survives the agent. The answers of the gateway and of llama-swap, the service manager and what goes wrong with files
  are the input of a cycle; what the cycle does outside is appended to a log. The YAML codec and the texts of
  errors are parameters.
\<close>

section \<open>State\<close>

datatype agent_action =
    WritesConfig string
  | MarksPending
  | SendsHeartbeat heartbeat_request
  | RestartsService bool
  | VerifiesRestart bool
  | ClearsPending
  | InvalidatesLease string nat

record agent_state =
  as_needs_restart :: bool
  as_events :: "agent_event list"
  as_last_running :: "(string, string) gomap"
  as_last_transport :: string
  as_config :: "string option"
  as_pending :: bool
  as_installs :: agent_installs
  as_log :: "agent_action list"

datatype cycle_error =
    GatewayMissing
  | PendingStatFailed
  | ConfigFetchFailed
  | InstallTrouble cycle_install_error
  | RunningModelsFailed
  | GPUDevicesFailed
  | RenderFailed render_error
  | EncodeFailed
  | ConfigReadFailed
  | ConfigStageFailed
  | MarkPendingFailed
  | ConfigRenameFailed
  | HeartbeatFailed bool
  | RestartFailed
  | HealthFailed
  | VerifyRunningFailed
  | ClearPendingFailed

record agent_env =
  ae_agent_id :: string
  ae_tags :: "string list"
  ae_llama_swap_url :: string
  ae_llama_swap_token :: string
  ae_has_transport_state :: bool
  ae_can_invalidate :: bool
  ae_has_gateway :: bool
  ae_has_running_models :: bool
  ae_has_health :: bool
  ae_has_gpu :: bool
  ae_install :: install_env
  ae_encode :: "llama_swap_config \<Rightarrow> string option"
  ae_decode :: "string \<Rightarrow> llama_swap_config option"
  ae_yaml_decode :: "string \<Rightarrow> yaml_document option"
  ae_yaml_encode :: "yaml_document \<Rightarrow> string option"
  ae_error_text :: "cycle_error list \<Rightarrow> string"
  ae_build :: build_info

definition log_action :: "agent_action \<Rightarrow> agent_state \<Rightarrow> agent_state" where
  "log_action a st = st\<lparr>as_log := as_log st @ [a]\<rparr>"

section \<open>Events\<close>

definition agent_event_buffer_limit :: nat where
  "agent_event_buffer_limit = 256"

definition agent_event_heartbeat_limit :: int where
  "agent_event_heartbeat_limit = 64"

definition event :: "string \<Rightarrow> agent_event" where
  "event name = \<lparr>ev_time = 0, ev_event = name, ev_model = [], ev_from_state = [], ev_to_state = [], ev_object = [],
     ev_kind = [], ev_crc64ecma = [], ev_downloaded_bytes = 0, ev_total_bytes = 0, ev_percent = Finite 0, ev_duration_ms = 0, ev_error = []\<rparr>"

text \<open>The buffer of events: an event without a name is not recorded, and the oldest ones go when the buffer is full.\<close>

definition push_event :: "time \<Rightarrow> agent_event \<Rightarrow> agent_event list \<Rightarrow> agent_event list" where
  "push_event now e es =
     (if ev_event e = [] then es
      else let e = (if ev_time e = 0 then e\<lparr>ev_time := now\<rparr> else e);
               es = es @ [e]
           in if length es > agent_event_buffer_limit then drop (length es - agent_event_buffer_limit) es else es)"

definition record_event :: "time \<Rightarrow> agent_event \<Rightarrow> agent_state \<Rightarrow> agent_state" where
  "record_event now e st = st\<lparr>as_events := push_event now e (as_events st)\<rparr>"

definition snapshot_events :: "int \<Rightarrow> agent_event list \<Rightarrow> agent_event list" where
  "snapshot_events limit es =
     (let limit = (if limit \<le> 0 \<or> limit > int (length es) then int (length es) else limit) in take (nat limit) es)"

definition drop_reported :: "nat \<Rightarrow> agent_event list \<Rightarrow> agent_event list" where
  "drop_reported count es = (if count = 0 then es else if count \<ge> length es then [] else drop count es)"

section \<open>The transport of a cycle\<close>

record reconcile_transport =
  rt_ready :: bool
  rt_llama_swap_url :: string
  rt_llama_swap_token :: string
  rt_lease_id :: string
  rt_generation :: nat

definition no_transport :: reconcile_transport where
  "no_transport = \<lparr>rt_ready = False, rt_llama_swap_url = [], rt_llama_swap_token = [], rt_lease_id = [], rt_generation = 0\<rparr>"

definition direct_transport :: "agent_env \<Rightarrow> reconcile_transport" where
  "direct_transport env = \<lparr>rt_ready = True, rt_llama_swap_url = ae_llama_swap_url env,
     rt_llama_swap_token = ae_llama_swap_token env, rt_lease_id = [], rt_generation = 0\<rparr>"

definition transport_state_name :: "transport_snapshot \<Rightarrow> string" where
  "transport_state_name s =
     (if \<not> ts_mode_resolved s then ''unresolved''
      else if \<not> ts_managed s then ''legacy_direct''
      else if ts_ready s then ''ready'' else ''not_ready'')"

definition transport_for_cycle ::
  "agent_env \<Rightarrow> transport_snapshot \<Rightarrow> time \<Rightarrow> agent_state \<Rightarrow> reconcile_transport \<times> agent_state" where
  "transport_for_cycle env s now st =
     (if \<not> ae_has_transport_state env then (direct_transport env, st)
      else
       (let state = transport_state_name s; previous = as_last_transport st;
            st = (if previous \<noteq> state
                  then record_event now ((event ''transport_state_changed'')\<lparr>ev_from_state := previous, ev_to_state := state\<rparr>)
                         (st\<lparr>as_last_transport := state\<rparr>)
                  else st)
        in (if \<not> ts_mode_resolved s then no_transport
            else if \<not> ts_managed s then direct_transport env
            else if \<not> ts_ready s then no_transport
            else \<lparr>rt_ready = True, rt_llama_swap_url = ts_llama_swap_url s, rt_llama_swap_token = ts_llama_swap_token s,
                   rt_lease_id = ts_lease_id s, rt_generation = ts_generation s\<rparr>, st)))"

section \<open>Running models\<close>

definition running_model_state_requires_config_restart :: "string \<Rightarrow> bool" where
  "running_model_state_requires_config_restart state \<longleftrightarrow>
     to_lower (trim_space state) \<in> {[], ''active'', ''loaded'', ''loading'', ''ready'', ''running'', ''starting''}"

fun restart_relevant_from :: "string list \<Rightarrow> running_model list \<Rightarrow> string list" where
  "restart_relevant_from seen [] = []"
| "restart_relevant_from seen (r # rs) =
     (if rm_model r = [] \<or> \<not> running_model_state_requires_config_restart (rm_state r) \<or> rm_model r \<in> set seen
      then restart_relevant_from seen rs
      else rm_model r # restart_relevant_from (rm_model r # seen) rs)"

definition restart_relevant_running_model_names :: "running_model list \<Rightarrow> string list" where
  "restart_relevant_running_model_names rs = restart_relevant_from [] rs"

definition has_restart_relevant_running_model :: "running_model list \<Rightarrow> bool" where
  "has_restart_relevant_running_model rs \<longleftrightarrow> restart_relevant_running_model_names rs \<noteq> []"

text \<open>The events of a change: models that appeared or changed, then those that are gone.\<close>

definition current_states :: "running_model list \<Rightarrow> (string, string) gomap" where
  "current_states rs = fold (\<lambda>r m. if rm_model r = [] then m else mput (rm_model r) (rm_state r) m) rs []"

definition change_events :: "(string, string) gomap \<Rightarrow> (string, string) gomap \<Rightarrow> agent_event list" where
  "change_events previous current =
     List.map_filter (\<lambda>(model, state).
        case map_of previous model of
          None \<Rightarrow> Some ((event ''model_loaded'')\<lparr>ev_model := model, ev_to_state := state\<rparr>)
        | Some old \<Rightarrow>
            if old \<noteq> state then Some ((event ''model_state_changed'')\<lparr>ev_model := model, ev_from_state := old, ev_to_state := state\<rparr>)
            else None) current @
     List.map_filter (\<lambda>(model, old).
        if mhas current model then None
        else Some ((event ''model_unloaded'')\<lparr>ev_model := model, ev_from_state := old\<rparr>)) previous"

definition observe_running_model_changes :: "running_model list \<Rightarrow> time \<Rightarrow> agent_state \<Rightarrow> agent_state" where
  "observe_running_model_changes rs now st =
     fold (record_event now) (change_events (as_last_running st) (current_states rs))
       (st\<lparr>as_last_running := current_states rs\<rparr>)"

definition restart_blocked_by_unready_replacement ::
  "agent_config_response \<Rightarrow> (string, string) gomap \<Rightarrow> running_model list \<Rightarrow> bool" where
  "restart_blocked_by_unready_replacement cfg status rs \<longleftrightarrow>
     (\<exists>model \<in> set (restart_relevant_running_model_names rs).
        mhas (acr_models cfg) model \<and> model \<in> set (atp_allowed_models (acr_tag_policy cfg)) \<and>
        \<not> equal_fold (trim_space (mget [] status model)) ''ready'')"

section \<open>The configuration file\<close>

text \<open>
  What goes wrong with one call: reading the old content, making the new file beside it, writing the marker (which may
  be there all the same), renaming.
\<close>

datatype mark_outcome = Marked | MarkFailed bool

record write_faults =
  wf_read_fails :: bool
  wf_stage_fails :: bool
  wf_mark :: mark_outcome
  wf_rename_fails :: bool

datatype config_read = ConfigAbsent | ConfigUnreadable | ConfigBytes string

definition read_config :: "bool \<Rightarrow> agent_state \<Rightarrow> config_read" where
  "read_config fails st = (if fails then ConfigUnreadable else case as_config st of None \<Rightarrow> ConfigAbsent | Some c \<Rightarrow> ConfigBytes c)"

definition mark_pending_restart :: "write_faults \<Rightarrow> agent_state \<Rightarrow> cycle_error option \<times> agent_state" where
  "mark_pending_restart wfs st =
     (case wf_mark wfs of
        Marked \<Rightarrow> (None, log_action MarksPending (st\<lparr>as_pending := True\<rparr>))
      | MarkFailed there \<Rightarrow> (Some MarkPendingFailed, st\<lparr>as_pending := as_pending st \<or> there\<rparr>))"

definition put_config :: "string \<Rightarrow> agent_state \<Rightarrow> agent_state" where
  "put_config content st = log_action (WritesConfig content) (st\<lparr>as_config := Some content\<rparr>)"

definition write_config_if_changed_without_marking_pending ::
  "write_faults \<Rightarrow> string \<Rightarrow> agent_state \<Rightarrow> (bool \<times> cycle_error option) \<times> agent_state" where
  "write_config_if_changed_without_marking_pending wfs content st =
     (if read_config (wf_read_fails wfs) st = ConfigBytes content then ((False, None), st)
      else if read_config (wf_read_fails wfs) st = ConfigUnreadable then ((False, Some ConfigReadFailed), st)
      else if wf_stage_fails wfs then ((False, Some ConfigStageFailed), st)
      else if wf_rename_fails wfs then ((False, Some ConfigRenameFailed), st)
      else ((True, None), put_config content st))"

definition write_config_if_changed_and_mark_pending ::
  "write_faults \<Rightarrow> string \<Rightarrow> agent_state \<Rightarrow> (bool \<times> cycle_error option) \<times> agent_state" where
  "write_config_if_changed_and_mark_pending wfs content st =
     (if read_config (wf_read_fails wfs) st = ConfigBytes content then ((False, None), st)
      else if read_config (wf_read_fails wfs) st = ConfigUnreadable then ((False, Some ConfigReadFailed), st)
      else if wf_stage_fails wfs then ((False, Some ConfigStageFailed), st)
      else case mark_pending_restart wfs st of
        (Some e, st) \<Rightarrow> ((False, Some e), st)
      | (None, st) \<Rightarrow>
          if wf_rename_fails wfs then ((False, Some ConfigRenameFailed), st)
          else ((True, None), put_config content st))"

text \<open>The running models whose entry differs between two configurations, in the order llama-swap reports them.\<close>

fun changed_running ::
  "(string, llama_swap_model) gomap \<Rightarrow> (string, llama_swap_model) gomap \<Rightarrow> string list \<Rightarrow> running_model list \<Rightarrow> string list" where
  "changed_running old new seen [] = []"
| "changed_running old new seen (r # rs) =
     (if rm_model r = [] \<or> \<not> running_model_state_requires_config_restart (rm_state r) \<or> rm_model r \<in> set seen
      then changed_running old new seen rs
      else if map_of old (rm_model r) \<noteq> map_of new (rm_model r)
      then rm_model r # changed_running old new (rm_model r # seen) rs
      else changed_running old new seen rs)"

definition loaded_model_config_changed_models ::
  "(string \<Rightarrow> llama_swap_config option) \<Rightarrow> string \<Rightarrow> string \<Rightarrow> running_model list \<Rightarrow> string list" where
  "loaded_model_config_changed_models decode old new rs =
     (if rs = [] then []
      else case decode old of
        None \<Rightarrow> restart_relevant_running_model_names rs
      | Some oc \<Rightarrow>
         (case decode new of
            None \<Rightarrow> restart_relevant_running_model_names rs
          | Some nc \<Rightarrow> changed_running (lsc_models oc) (lsc_models nc) [] rs))"

definition llama_swap_config_changed_models ::
  "(string \<Rightarrow> llama_swap_config option) \<Rightarrow> string \<Rightarrow> string \<Rightarrow> string list" where
  "llama_swap_config_changed_models decode old new =
     (case decode old of
        None \<Rightarrow> []
      | Some oc \<Rightarrow>
         (case decode new of
            None \<Rightarrow> []
          | Some nc \<Rightarrow>
              sort (filter (\<lambda>m. map_of (lsc_models oc) m \<noteq> map_of (lsc_models nc) m)
                (remdups (mkeys (lsc_models oc) @ mkeys (lsc_models nc))))))"

text \<open>
  With a running model whose entry changes, the file waits for the gateway's permission: only the marker is written.
  Without one it is written at once; the first file is written with the marker.
\<close>

definition write_config_if_changed_and_mark_pending_for_running_models ::
  "(string \<Rightarrow> llama_swap_config option) \<Rightarrow> write_faults \<Rightarrow> string \<Rightarrow> running_model list \<Rightarrow> agent_state \<Rightarrow>
   (bool \<times> string list \<times> cycle_error option) \<times> agent_state" where
  "write_config_if_changed_and_mark_pending_for_running_models decode wfs content rs st =
     (case read_config (wf_read_fails wfs) st of
        ConfigUnreadable \<Rightarrow> ((False, [], Some ConfigReadFailed), st)
      | ConfigAbsent \<Rightarrow>
         (case write_config_if_changed_and_mark_pending wfs content st of
            ((changed, e), st) \<Rightarrow> if \<not> changed then ((False, [], e), st) else ((True, [[]], e), st))
      | ConfigBytes old \<Rightarrow>
          if old = content then ((False, [], None), st)
          else
           (let affected = loaded_model_config_changed_models decode old content rs
            in if has_restart_relevant_running_model rs
               then (if affected = [] then ((False, [], None), st)
                     else case mark_pending_restart wfs st of
                       (Some e, st) \<Rightarrow> ((False, [], Some e), st)
                     | (None, st) \<Rightarrow> ((False, affected, None), st))
               else if affected \<noteq> []
               then (case write_config_if_changed_and_mark_pending wfs content st of ((changed, e), st) \<Rightarrow> ((changed, affected, e), st))
               else (case write_config_if_changed_without_marking_pending wfs content st of ((changed, e), st) \<Rightarrow> ((changed, [], e), st))))"

definition deferred_config_changed_models ::
  "(string \<Rightarrow> llama_swap_config option) \<Rightarrow> bool \<Rightarrow> string \<Rightarrow> running_model list \<Rightarrow> agent_state \<Rightarrow> string list \<times> cycle_error option" where
  "deferred_config_changed_models decode read_fails content rs st =
     (if \<not> has_restart_relevant_running_model rs then ([], None)
      else case read_config read_fails st of
        ConfigUnreadable \<Rightarrow> ([], Some ConfigReadFailed)
      | ConfigAbsent \<Rightarrow> ([], None)
      | ConfigBytes old \<Rightarrow>
          if old = content then ([], None)
          else (filter (\<lambda>m. m \<notin> set (restart_relevant_running_model_names rs))
                  (llama_swap_config_changed_models decode old content), None))"

definition mark_artifact_status :: "string list \<Rightarrow> string \<Rightarrow> (string, string) gomap \<Rightarrow> (string, string) gomap" where
  "mark_artifact_status models v status =
     fold (\<lambda>m s. if equal_fold (mget [] s m) ''ready'' then mput m v s else s) models status"

section \<open>Heartbeats\<close>

definition build_heartbeat ::
  "agent_env \<Rightarrow> string \<Rightarrow> agent_config_response \<Rightarrow> bool \<Rightarrow> (string, string) gomap \<Rightarrow> heartbeat_request" where
  "build_heartbeat env url cfg needs_restart status =
     \<lparr>hb_agent_id = ae_agent_id env, hb_tags = ae_tags env, hb_llama_swap_url = url, hb_running_models = [], hb_gpu_devices = [],
      hb_artifacts = fold (\<lambda>m a. if mhas a m then a else mput m ''missing'' a) (atp_allowed_models (acr_tag_policy cfg)) status,
      hb_capacity = atp_worker_defaults (acr_tag_policy cfg), hb_needs_restart = needs_restart, hb_restart_models = [],
      hb_agent_build = ae_build env, hb_transport_lease_id = [], hb_transport_generation = 0, hb_last_error = [], hb_events = []\<rparr>"

definition build_heartbeat_for_transport ::
  "agent_env \<Rightarrow> reconcile_transport \<Rightarrow> agent_config_response \<Rightarrow> bool \<Rightarrow> (string, string) gomap \<Rightarrow> heartbeat_request" where
  "build_heartbeat_for_transport env tr cfg needs_restart status =
     (build_heartbeat env (rt_llama_swap_url tr) cfg needs_restart status)
       \<lparr>hb_transport_lease_id := rt_lease_id tr, hb_transport_generation := rt_generation tr\<rparr>"

text \<open>A heartbeat fails, with or without a lease conflict, or the gateway answers.\<close>

datatype heartbeat_answer = HeartbeatFails bool | HeartbeatAnswer heartbeat_response

definition invalidate_on_conflict :: "agent_env \<Rightarrow> bool \<Rightarrow> reconcile_transport \<Rightarrow> agent_state \<Rightarrow> agent_state" where
  "invalidate_on_conflict env conflict tr st =
     (if \<not> conflict \<or> rt_lease_id tr = [] \<or> rt_generation tr = 0 \<or> \<not> ae_can_invalidate env then st
      else log_action (InvalidatesLease (rt_lease_id tr) (rt_generation tr)) st)"

section \<open>A cycle\<close>

record cycle_input =
  ci_stat_fails :: bool
  ci_config :: "agent_config_response option"
  ci_transport :: transport_snapshot
  ci_now :: time
  ci_install :: install_faults
  ci_jobs :: "string \<Rightarrow> job_input list"
  ci_running :: "running_model list option"
  ci_gpu :: "gpu_device list option"
  ci_write :: write_faults
  ci_stale_read_fails :: bool
  ci_meanwhile :: "agent_event list"
  ci_heartbeat :: heartbeat_answer
  ci_final_write :: write_faults
  ci_restart_ok :: bool
  ci_health_ok :: bool
  ci_verify_ok :: bool
  ci_clear_ok :: bool

definition fetch_running_models :: "agent_env \<Rightarrow> cycle_input \<Rightarrow> running_model list option" where
  "fetch_running_models env inp = (if \<not> ae_has_running_models env then Some [] else ci_running inp)"

definition fetch_gpu_devices :: "agent_env \<Rightarrow> cycle_input \<Rightarrow> gpu_device list option" where
  "fetch_gpu_devices env inp = (if \<not> ae_has_gpu env then Some [] else ci_gpu inp)"

text \<open>\<open>verifyRestart\<close>: the health endpoint, then the running models.\<close>

definition verify_restart :: "agent_env \<Rightarrow> cycle_input \<Rightarrow> cycle_error option" where
  "verify_restart env inp =
     (if ae_has_health env \<and> \<not> ci_health_ok inp then Some HealthFailed
      else if ae_has_running_models env \<and> \<not> ci_verify_ok inp then Some VerifyRunningFailed
      else None)"

definition load_pending :: "cycle_input \<Rightarrow> agent_state \<Rightarrow> cycle_error list \<times> agent_state" where
  "load_pending inp st =
     (if ci_stat_fails inp then ([PendingStatFailed], st)
      else ([], if as_pending st then st\<lparr>as_needs_restart := True\<rparr> else st))"

text \<open>The configuration of a cycle: its errors, the statuses, the models to restart and the content that waits.\<close>

record config_outcome =
  co_errors :: "cycle_error list"
  co_status :: "(string, string) gomap"
  co_restart_models :: "string list"
  co_pending :: string

definition apply_config_content ::
  "agent_env \<Rightarrow> cycle_input \<Rightarrow> bool \<Rightarrow> string \<Rightarrow> running_model list \<Rightarrow> (string, string) gomap \<Rightarrow> agent_state \<Rightarrow>
   config_outcome \<times> agent_state" where
  "apply_config_content env inp logs content rs status st =
     (case write_config_if_changed_and_mark_pending_for_running_models (ae_decode env) (ci_write inp) content rs st of
        ((changed, affected, werr), st) \<Rightarrow>
          (let st = (if logs \<and> changed then record_event (ci_now inp) (event ''llama_swap_config_changed'') st else st);
               (stale, serr) = deferred_config_changed_models (ae_decode env) (ci_stale_read_fails inp) content rs st;
               status = mark_artifact_status stale ''stale_config'' status;
               errs = (case werr of None \<Rightarrow> [] | Some e \<Rightarrow> [e]) @ (case serr of None \<Rightarrow> [] | Some e \<Rightarrow> [e])
           in if affected = [] then (\<lparr>co_errors = errs, co_status = status, co_restart_models = [], co_pending = []\<rparr>, st)
              else (\<lparr>co_errors = errs, co_status = status, co_restart_models = affected, co_pending = content\<rparr>,
                    st\<lparr>as_needs_restart := True\<rparr>)))"

definition update_config ::
  "agent_env \<Rightarrow> cycle_input \<Rightarrow> bool \<Rightarrow> agent_config_response \<Rightarrow> reconcile_transport \<Rightarrow> (string, string) gomap \<Rightarrow>
   running_model list \<Rightarrow> bool \<Rightarrow> agent_state \<Rightarrow> config_outcome \<times> agent_state" where
  "update_config env inp logs cfg tr status rs known st =
     (let ready = config_with_ready_artifacts cfg status;
          none = \<lparr>co_errors = [], co_status = status, co_restart_models = [], co_pending = []\<rparr>
      in if rt_ready tr \<and> atp_allowed_models (acr_tag_policy ready) \<noteq> [] \<and>
            \<not> restart_blocked_by_unready_replacement cfg status rs \<and> known
         then (case render_llama_swap_config ready (ie_model_root (ae_install env)) (rt_llama_swap_token tr) of
                 Inl e \<Rightarrow> (none\<lparr>co_errors := [RenderFailed e]\<rparr>, st)
               | Inr lsc \<Rightarrow>
                  (case ae_encode env lsc of
                     None \<Rightarrow> (none\<lparr>co_errors := [EncodeFailed]\<rparr>, st)
                   | Some content \<Rightarrow> apply_config_content env inp logs content rs status st))
         else (none, st))"

text \<open>The restart that the gateway has allowed; it stops at the first error and then remains due.\<close>

definition log_event :: "cycle_input \<Rightarrow> bool \<Rightarrow> string \<Rightarrow> agent_state \<Rightarrow> agent_state" where
  "log_event inp logs name st = (if logs then record_event (ci_now inp) (event name) st else st)"

definition restart_failed ::
  "agent_env \<Rightarrow> cycle_input \<Rightarrow> bool \<Rightarrow> cycle_error \<Rightarrow> agent_state \<Rightarrow> cycle_error list \<times> agent_state" where
  "restart_failed env inp logs e st =
     ([e], if logs then record_event (ci_now inp) ((event ''llama_swap_restart_error'')\<lparr>ev_error := ae_error_text env [e]\<rparr>) st else st)"

definition restart_now :: "agent_env \<Rightarrow> cycle_input \<Rightarrow> bool \<Rightarrow> agent_state \<Rightarrow> cycle_error list \<times> agent_state" where
  "restart_now env inp logs st =
     (let st = log_event inp logs ''llama_swap_restart_start'' st;
          st = log_action (RestartsService (ci_restart_ok inp)) st
      in if \<not> ci_restart_ok inp then restart_failed env inp logs RestartFailed st
         else
          (let st = log_action (VerifiesRestart (verify_restart env inp = None)) st
           in case verify_restart env inp of
                Some e \<Rightarrow> restart_failed env inp logs e st
              | None \<Rightarrow>
                  if \<not> ci_clear_ok inp then restart_failed env inp logs ClearPendingFailed st
                  else ([], (log_event inp logs ''llama_swap_restart_done'' (log_action ClearsPending (st\<lparr>as_pending := False\<rparr>)))
                              \<lparr>as_needs_restart := False\<rparr>)))"

definition allowed_restart ::
  "agent_env \<Rightarrow> cycle_input \<Rightarrow> bool \<Rightarrow> string \<Rightarrow> agent_state \<Rightarrow> cycle_error list \<times> agent_state" where
  "allowed_restart env inp logs pending st =
     (if pending = [] then restart_now env inp logs st
      else case write_config_if_changed_without_marking_pending (ci_final_write inp) pending st of
        ((changed, Some e), st) \<Rightarrow> restart_failed env inp logs e st
      | ((changed, None), st) \<Rightarrow>
          restart_now env inp logs (if changed then log_event inp logs ''llama_swap_config_changed'' st else st))"

text \<open>What a cycle reports, and what it may do with the answer.\<close>

record cycle_report =
  cr_heartbeat :: heartbeat_request
  cr_pending :: string
  cr_errors :: "cycle_error list"

text \<open>From the statuses of the installs to the heartbeat.\<close>

definition prepare_report ::
  "agent_env \<Rightarrow> cycle_input \<Rightarrow> bool \<Rightarrow> agent_config_response \<Rightarrow> reconcile_transport \<Rightarrow> (string, string) gomap \<Rightarrow>
   cycle_error list \<Rightarrow> agent_state \<Rightarrow> cycle_report \<times> agent_state" where
  "prepare_report env inp logs cfg tr status errs st =
     (let fetched = (if rt_ready tr then fetch_running_models env inp else None);
          rs = (case fetched of None \<Rightarrow> [] | Some rs \<Rightarrow> rs);
          known = (fetched \<noteq> None);
          st = (if known then observe_running_model_changes rs (ci_now inp) st else st);
          gpus = (case fetch_gpu_devices env inp of None \<Rightarrow> [] | Some ds \<Rightarrow> ds);
          (co, st) = update_config env inp logs cfg tr status rs known st;
          errs = errs @ (if rt_ready tr \<and> \<not> known then [RunningModelsFailed] else []) @
                 (if fetch_gpu_devices env inp = None then [GPUDevicesFailed] else []) @ co_errors co;
          needs = (rt_ready tr \<and> as_needs_restart st \<and> \<not> restart_blocked_by_unready_replacement cfg status rs \<and> known)
      in (\<lparr>cr_heartbeat = (build_heartbeat_for_transport env tr cfg needs (co_status co))
             \<lparr>hb_restart_models := (if needs then co_restart_models co else []), hb_running_models := rs, hb_gpu_devices := gpus,
              hb_events := snapshot_events agent_event_heartbeat_limit (as_events st),
              hb_last_error := (if errs = [] then [] else ae_error_text env errs)\<rparr>,
           cr_pending = co_pending co, cr_errors = errs\<rparr>, st))"

text \<open>
  Sending the heartbeat and acting on the answer. \<open>ci_meanwhile\<close> are the events that goroutines record between the
  snapshot for the heartbeat and the answer.
\<close>

definition send_report ::
  "agent_env \<Rightarrow> cycle_input \<Rightarrow> bool \<Rightarrow> reconcile_transport \<Rightarrow> cycle_report \<Rightarrow> agent_state \<Rightarrow>
   heartbeat_response option \<times> cycle_error list \<times> agent_state" where
  "send_report env inp logs tr rep st =
     (let hb = cr_heartbeat rep; errs = cr_errors rep;
          st = fold (record_event (ci_now inp)) (ci_meanwhile inp) (log_action (SendsHeartbeat hb) st)
      in case ci_heartbeat inp of
           HeartbeatFails conflict \<Rightarrow> (None, errs @ [HeartbeatFailed conflict], invalidate_on_conflict env conflict tr st)
         | HeartbeatAnswer resp \<Rightarrow>
            (let st = st\<lparr>as_events := drop_reported (length (hb_events hb)) (as_events st)\<rparr>
             in if hr_restart_allowed resp \<and> hb_needs_restart hb
                then (case allowed_restart env inp logs (cr_pending rep) st of (rerrs, st) \<Rightarrow> (Some resp, errs @ rerrs, st))
                else (Some resp, errs, st)))"

definition cycle_after_installs ::
  "agent_env \<Rightarrow> cycle_input \<Rightarrow> bool \<Rightarrow> agent_config_response \<Rightarrow> reconcile_transport \<Rightarrow> (string, string) gomap \<Rightarrow>
   cycle_error list \<Rightarrow> agent_state \<Rightarrow> heartbeat_response option \<times> cycle_error list \<times> agent_state" where
  "cycle_after_installs env inp logs cfg tr status errs st =
     (case prepare_report env inp logs cfg tr status errs st of (rep, st) \<Rightarrow> send_report env inp logs tr rep st)"

text \<open>A missing gateway or configuration ends the cycle; the answer is then empty.\<close>

definition reconcile_run_once ::
  "agent_env \<Rightarrow> cycle_input \<Rightarrow> agent_state \<Rightarrow> heartbeat_response option \<times> cycle_error list \<times> agent_state" where
  "reconcile_run_once env inp st =
     (if \<not> ae_has_gateway env then (None, [GatewayMissing], st)
      else case load_pending inp st of
        (errs, st) \<Rightarrow>
         (case ci_config inp of
            None \<Rightarrow> (None, [ConfigFetchFailed], st)
          | Some cfg \<Rightarrow>
             (let (tr, st) = transport_for_cycle env (ci_transport inp) (ci_now inp) st;
                  g = as_installs st;
                  c = install_allowed_artifacts_async (ae_install env) cfg (ci_install inp)
                        (drain_install_results (ag_done g) (ag_installs g)) (ag_disk g)
              in cycle_after_installs env inp True cfg tr (ic_status c) (errs @ map InstallTrouble (ic_errors c))
                   (st\<lparr>as_installs := after_cycle c g\<rparr>))))"

definition install_cancelled_event :: "string \<times> artifact \<times> install_fence \<times> install_fence \<Rightarrow> agent_event" where
  "install_cancelled_event c =
     (case c of (model, a, own, winner) \<Rightarrow>
        (event ''artifact_install_cancelled'')\<lparr>ev_model := model, ev_object := art_object a, ev_kind := art_kind a,
          ev_crc64ecma := art_crc64ecma a, ev_from_state := fence_fingerprint own, ev_to_state := fence_fingerprint winner\<rparr>)"

definition reconcile ::
  "agent_env \<Rightarrow> cycle_input \<Rightarrow> agent_state \<Rightarrow> heartbeat_response option \<times> cycle_error list \<times> agent_state" where
  "reconcile env inp st =
     (if \<not> ae_has_gateway env then (None, [GatewayMissing], st)
      else case load_pending inp st of
        (errs, st) \<Rightarrow>
         (case ci_config inp of
            None \<Rightarrow> (None, [ConfigFetchFailed], st)
          | Some cfg \<Rightarrow>
             (let (tr, st) = transport_for_cycle env (ci_transport inp) (ci_now inp) st;
                  g = as_installs st;
                  (status, ierrs, cancelled, r) = install_allowed_artifacts (ae_install env) cfg (ci_jobs inp)
                    (atp_allowed_models (acr_tag_policy cfg)) ([], [], [], ag_disk g)
              in cycle_after_installs env inp False cfg tr status (errs @ map InstallTrouble ierrs)
                   (fold (record_event (ci_now inp)) (map install_cancelled_event cancelled) (st\<lparr>as_installs := g\<lparr>ag_disk := r\<rparr>\<rparr>)))))"

section \<open>Preparing a managed transport\<close>

text \<open>
  Before a tunnel is registered llama-swap must enforce the token of the transport: its endpoint refuses a probe with
  another token as unauthorized, and accepts this one.
\<close>

datatype token_answer = TokenAccepted | TokenStatus int | TokenError

datatype prepare_error =
    TokenRequired
  | VerifierRequired
  | PrepareConfigFailed
  | RestartAuthorizationUnavailable
  | RestartNotAuthorized
  | AuthorizedRestartFailed
  | VerifyAfterRestartFailed

definition token_probe :: "string \<Rightarrow> string" where
  "token_probe token =
     (let probe = ''llmswap-intentionally-invalid-token'' in if probe = token then probe @ ''-probe'' else probe)"

text \<open>The endpoint answers a token; \<open>None\<close> when it enforces the configured one.\<close>

datatype enforcement_error = TokenNotEnforced | ProbeInconclusive | TokenRejected

definition verify_token_enforcement :: "(string \<Rightarrow> token_answer) \<Rightarrow> string \<Rightarrow> enforcement_error option" where
  "verify_token_enforcement endpoint token =
     (case endpoint (token_probe token) of
        TokenAccepted \<Rightarrow> Some TokenNotEnforced
      | TokenError \<Rightarrow> Some ProbeInconclusive
      | TokenStatus status \<Rightarrow>
          if status \<noteq> 401 \<and> status \<noteq> 403 then Some ProbeInconclusive
          else if endpoint token \<noteq> TokenAccepted then Some TokenRejected else None)"

record prepare_input =
  pi_has_verifier :: bool
  pi_read_fails :: bool
  pi_write :: write_faults
  pi_endpoint :: "string \<Rightarrow> token_answer"
  pi_config :: "agent_config_response option"
  pi_heartbeat :: heartbeat_answer
  pi_restart_ok :: bool
  pi_endpoint_after :: "string \<Rightarrow> token_answer"

text \<open>The content with the token: a rendered empty configuration when there is no file.\<close>

definition zero_config_response :: agent_config_response where
  "zero_config_response = \<lparr>acr_config_revision = 0, acr_desired_model_dirs = None, acr_oss = \<lparr>oss_base_url = []\<rparr>, acr_models = [],
     acr_tag_policy = \<lparr>atp_tag = [], atp_allowed_models = [], atp_warm_when_idle = [],
       atp_worker_defaults = \<lparr>wd_max_concurrency = 0, wd_max_queue = 0\<rparr>\<rparr>, acr_transport = None\<rparr>"

definition llama_swap_config_with_api_key :: "agent_env \<Rightarrow> bool \<Rightarrow> string \<Rightarrow> agent_state \<Rightarrow> string option" where
  "llama_swap_config_with_api_key env read_fails token st =
     (case read_config read_fails st of
        ConfigAbsent \<Rightarrow>
          (case render_llama_swap_config zero_config_response (ie_model_root (ae_install env)) token of
             Inl e \<Rightarrow> None | Inr lsc \<Rightarrow> ae_encode env lsc)
      | ConfigUnreadable \<Rightarrow> None
      | ConfigBytes content \<Rightarrow>
          (case ae_yaml_decode env content of
             None \<Rightarrow> None
           | Some doc \<Rightarrow> (case with_api_key doc token of None \<Rightarrow> None | Some doc' \<Rightarrow> ae_yaml_encode env doc')))"

definition prepare_managed_transport ::
  "agent_env \<Rightarrow> prepare_input \<Rightarrow> string \<Rightarrow> agent_state \<Rightarrow> prepare_error option \<times> agent_state" where
  "prepare_managed_transport env inp token st =
     (if trim_space token = [] then (Some TokenRequired, st)
      else if \<not> pi_has_verifier inp then (Some VerifierRequired, st)
      else case llama_swap_config_with_api_key env (pi_read_fails inp) token st of
        None \<Rightarrow> (Some PrepareConfigFailed, st)
      | Some content \<Rightarrow>
         (case write_config_if_changed_without_marking_pending (pi_write inp) content st of
            ((changed, Some e), st) \<Rightarrow> (Some PrepareConfigFailed, st)
          | ((changed, None), st) \<Rightarrow>
              if verify_token_enforcement (pi_endpoint inp) token = None then (None, st)
              else if \<not> ae_has_gateway env then (Some RestartAuthorizationUnavailable, st)
              else case pi_config inp of
                None \<Rightarrow> (Some RestartAuthorizationUnavailable, st)
              | Some cfg \<Rightarrow>
                 (let st = log_action (SendsHeartbeat (build_heartbeat env [] cfg True [])) st
                  in case pi_heartbeat inp of
                       HeartbeatFails conflict \<Rightarrow> (Some RestartAuthorizationUnavailable, st)
                     | HeartbeatAnswer resp \<Rightarrow>
                         if \<not> hr_restart_allowed resp then (Some RestartNotAuthorized, st)
                         else
                          (let st = log_action (RestartsService (pi_restart_ok inp)) st
                           in if \<not> pi_restart_ok inp then (Some AuthorizedRestartFailed, st)
                              else if verify_token_enforcement (pi_endpoint_after inp) token \<noteq> None
                              then (Some VerifyAfterRestartFailed, st)
                              else (None, st)))))"

end
