(* ===== verification/AgentCycleFacts.thy ===== *)
theory AgentCycleFacts
  imports AgentCycle
begin

text \<open>
  What a cycle of the agent promises: llama-swap restarts only with the gateway's permission; a configuration that
  changes a running model waits for it, and the gateway is told which models it concerns; a restart that is due stays on
  record until it is verified; the events that are reported describe the change of the running models.
\<close>

section \<open>What the parts change\<close>

lemma record_event_simps [simp]:
  "as_needs_restart (record_event now e st) = as_needs_restart st" "as_config (record_event now e st) = as_config st"
  "as_pending (record_event now e st) = as_pending st" "as_log (record_event now e st) = as_log st"
  "as_installs (record_event now e st) = as_installs st"
  by (simp_all add: record_event_def)

lemma fold_record_event_simps [simp]:
  "as_needs_restart (fold (record_event now) es st) = as_needs_restart st" "as_config (fold (record_event now) es st) = as_config st"
  "as_pending (fold (record_event now) es st) = as_pending st" "as_log (fold (record_event now) es st) = as_log st"
  by (induction es arbitrary: st) simp_all

lemma log_event_simps [simp]:
  "as_needs_restart (log_event inp logs name st) = as_needs_restart st" "as_config (log_event inp logs name st) = as_config st"
  "as_pending (log_event inp logs name st) = as_pending st" "as_log (log_event inp logs name st) = as_log st"
  by (simp_all add: log_event_def)

lemma restart_failed_simps [simp]:
  "fst (restart_failed env inp logs e st) = [e]"
  "as_needs_restart (snd (restart_failed env inp logs e st)) = as_needs_restart st"
  "as_config (snd (restart_failed env inp logs e st)) = as_config st"
  "as_pending (snd (restart_failed env inp logs e st)) = as_pending st"
  "as_log (snd (restart_failed env inp logs e st)) = as_log st"
  by (simp_all add: restart_failed_def)

lemma restart_failedD:
  assumes "restart_failed env inp logs e st = (errs, st')"
  shows "as_config st' = as_config st" "as_log st' = as_log st" "as_needs_restart st' = as_needs_restart st" "as_pending st' = as_pending st"
  using restart_failed_simps(2-5)[of env inp logs e st] by (simp_all add: assms)

lemma log_action_simps [simp]:
  "as_needs_restart (log_action a st) = as_needs_restart st" "as_config (log_action a st) = as_config st"
  "as_pending (log_action a st) = as_pending st" "as_log (log_action a st) = as_log st @ [a]"
  "as_events (log_action a st) = as_events st"
  by (simp_all add: log_action_def)

lemma observe_simps [simp]:
  "as_needs_restart (observe_running_model_changes rs now st) = as_needs_restart st"
  "as_config (observe_running_model_changes rs now st) = as_config st"
  "as_pending (observe_running_model_changes rs now st) = as_pending st"
  "as_log (observe_running_model_changes rs now st) = as_log st"
  by (simp_all add: observe_running_model_changes_def)

lemma invalidate_simps [simp]:
  "as_needs_restart (invalidate_on_conflict env c tr st) = as_needs_restart st"
  "as_config (invalidate_on_conflict env c tr st) = as_config st" "as_pending (invalidate_on_conflict env c tr st) = as_pending st"
  by (simp_all add: invalidate_on_conflict_def)

text \<open>A state with another file, marker or log; everything else is of no concern to the proofs below.\<close>

definition same_disk :: "agent_state \<Rightarrow> agent_state \<Rightarrow> bool" where
  "same_disk s t \<longleftrightarrow> as_config t = as_config s \<and> as_pending t = as_pending s \<and> as_needs_restart t = as_needs_restart s \<and> as_log t = as_log s"

lemma same_disk_refl [simp]: "same_disk s s"
  by (simp add: same_disk_def)

section \<open>Writing the file\<close>

text \<open>A write does nothing to the file, or puts the content; it never takes the marker away.\<close>

lemma write_without_mark:
  assumes "write_config_if_changed_without_marking_pending wfs content st = ((changed, e), st')"
  obtains "\<not> changed" "st' = st" | "changed" "e = None" "st' = put_config content st" "as_config st \<noteq> Some content"
  using assms
  by (auto simp: write_config_if_changed_without_marking_pending_def read_config_def split: if_splits option.splits)

definition marked :: "agent_state \<Rightarrow> agent_state" where
  "marked st = log_action MarksPending (st\<lparr>as_pending := True\<rparr>)"

lemma mark_cases:
  assumes "mark_pending_restart wfs st = (e, st')"
  obtains "e = None" "st' = marked st" | there where "e = Some MarkPendingFailed" "st' = st\<lparr>as_pending := as_pending st \<or> there\<rparr>"
  using assms by (auto simp: mark_pending_restart_def marked_def split: mark_outcome.splits)

lemma write_with_mark:
  assumes "write_config_if_changed_and_mark_pending wfs content st = ((changed, e), st')"
  obtains there where "\<not> changed" "st' = st\<lparr>as_pending := as_pending st \<or> there\<rparr>" | "\<not> changed" "st' = marked st"
  | "changed" "e = None" "st' = put_config content (marked st)"
proof (cases "st' = st")
  case True
  then have "st' = st\<lparr>as_pending := as_pending st \<or> False\<rparr>" by simp
  moreover have "\<not> changed"
    using assms True by (auto simp: write_config_if_changed_and_mark_pending_def put_config_def log_action_def mark_pending_restart_def
        split: if_splits prod.splits option.splits mark_outcome.splits dest!: arg_cong[of _ _ as_log])
  ultimately show thesis using that(1) by blast
next
  case False
  obtain m st1 where m: "mark_pending_restart wfs st = (m, st1)" by (metis surj_pair)
  from False assms m have "(case m of Some e' \<Rightarrow> ((False, Some e'), st1) | None \<Rightarrow>
      if wf_rename_fails wfs then ((False, Some ConfigRenameFailed), st1) else ((True, None), put_config content st1)) = ((changed, e), st')"
    by (auto simp: write_config_if_changed_and_mark_pending_def split: if_splits)
  with m that show thesis by (elim mark_cases) (auto split: if_splits)
qed

section \<open>Running models whose entry changes\<close>

definition relevant_models :: "running_model list \<Rightarrow> string set" where
  "relevant_models rs = {rm_model r | r. r \<in> set rs \<and> rm_model r \<noteq> [] \<and> running_model_state_requires_config_restart (rm_state r)}"

lemma set_restart_relevant_from: "set (restart_relevant_from seen rs) = relevant_models rs - set seen"
  by (induction seen rs rule: restart_relevant_from.induct) (auto simp: relevant_models_def)

lemma set_restart_relevant [simp]: "set (restart_relevant_running_model_names rs) = relevant_models rs"
  by (simp add: restart_relevant_running_model_names_def set_restart_relevant_from)

lemma has_relevant_iff: "has_restart_relevant_running_model rs \<longleftrightarrow> relevant_models rs \<noteq> {}"
  by (metis has_restart_relevant_running_model_def set_empty set_restart_relevant)

lemma set_changed_running:
  "set (changed_running old new seen rs) = {m \<in> relevant_models rs. map_of old m \<noteq> map_of new m} - set seen"
  by (induction old new seen rs rule: changed_running.induct) (auto simp: relevant_models_def)

text \<open>The models that a new content concerns: those whose entry differs, or all running ones when a file cannot be read.\<close>

lemma set_loaded_changed:
  "set (loaded_model_config_changed_models decode old new rs) =
     {m \<in> relevant_models rs. decode old = None \<or> decode new = None \<or>
        map_of (lsc_models (the (decode old))) m \<noteq> map_of (lsc_models (the (decode new))) m}"
  by (auto simp: loaded_model_config_changed_models_def set_changed_running relevant_models_def split: option.splits)

lemma nothing_loaded_nothing_changed:
  "\<not> has_restart_relevant_running_model rs \<Longrightarrow> loaded_model_config_changed_models decode old new rs = []"
  using set_loaded_changed[of decode old new rs] by (simp add: has_relevant_iff)

section \<open>The new configuration of a cycle\<close>

text \<open>
  What becomes of the state when a content is applied: the file changes only if there was none or nothing relevant is
  running, models to restart are returned with the marker in place, and they are those that the content concerns.
\<close>

definition applied :: "agent_env \<Rightarrow> running_model list \<Rightarrow> string list \<Rightarrow> string \<Rightarrow> agent_state \<Rightarrow> agent_state \<Rightarrow> bool" where
  "applied env rs affected content st st' \<longleftrightarrow>
     as_needs_restart st' = as_needs_restart st \<and> (as_pending st \<longrightarrow> as_pending st') \<and> (affected \<noteq> [] \<longrightarrow> as_pending st') \<and>
     (as_config st' = as_config st \<or> as_config st' = Some content \<and> (as_config st = None \<or> relevant_models rs = {})) \<and>
     (\<forall>old. as_config st = Some old \<longrightarrow> affected \<noteq> [] \<longrightarrow> affected = loaded_model_config_changed_models (ae_decode env) old content rs) \<and>
     (\<exists>new. as_log st' = as_log st @ new \<and> set new \<subseteq> {MarksPending, WritesConfig content})"

lemma put_config_simps [simp]:
  "as_config (put_config c st) = Some c" "as_pending (put_config c st) = as_pending st"
  "as_needs_restart (put_config c st) = as_needs_restart st" "as_log (put_config c st) = as_log st @ [WritesConfig c]"
  by (simp_all add: put_config_def)

lemma marked_simps [simp]:
  "as_config (marked st) = as_config st" "as_pending (marked st)" "as_needs_restart (marked st) = as_needs_restart st"
  "as_log (marked st) = as_log st @ [MarksPending]"
  by (simp_all add: marked_def)

lemma write_for_running_applied:
  assumes "write_config_if_changed_and_mark_pending_for_running_models (ae_decode env) wfs content rs st = ((changed, affected, e), st')"
  shows "applied env rs affected content st st'"
proof (cases "read_config (wf_read_fails wfs) st")
  case ConfigUnreadable
  with assms show ?thesis
    by (simp add: write_config_if_changed_and_mark_pending_for_running_models_def applied_def)
next
  case ConfigAbsent
  then have none: "as_config st = None" by (auto simp: read_config_def split: if_splits option.splits)
  obtain ch e1 st1 where w: "write_config_if_changed_and_mark_pending wfs content st = ((ch, e1), st1)" by (metis surj_pair)
  then have "applied env rs (if ch then [[]] else []) content st st1"
    using none by (elim write_with_mark) (simp_all add: applied_def)
  with assms ConfigAbsent w show ?thesis
    by (auto simp: write_config_if_changed_and_mark_pending_for_running_models_def split: if_splits)
next
  case (ConfigBytes old)
  then have old: "as_config st = Some old" by (auto simp: read_config_def split: if_splits option.splits)
  let ?a = "loaded_model_config_changed_models (ae_decode env) old content rs"
  note def = assms[unfolded write_config_if_changed_and_mark_pending_for_running_models_def ConfigBytes config_read.case Let_def]
  show ?thesis
  proof (cases "old = content")
    case True
    with def show ?thesis by (simp add: applied_def)
  next
    case new: False
    show ?thesis
    proof (cases "has_restart_relevant_running_model rs")
      case True
      obtain m st1 where m: "mark_pending_restart wfs st = (m, st1)" by (metis surj_pair)
      show ?thesis
      proof (cases "?a = []")
        case empty: True
        with def new True show ?thesis by (simp add: applied_def)
      next
        case False
        with def new True m have "affected = (if m = None then ?a else []) \<and> st' = st1" by (auto split: option.splits)
        with m old show ?thesis by (elim mark_cases) (auto simp: applied_def)
      qed
    next
      case False
      then have empty: "?a = []" by (rule nothing_loaded_nothing_changed)
      obtain ch e1 st1 where w: "write_config_if_changed_without_marking_pending wfs content st = ((ch, e1), st1)" by (metis surj_pair)
      with def new False empty have "affected = [] \<and> st' = st1" by simp
      with w False show ?thesis by (elim write_without_mark) (simp_all add: applied_def has_relevant_iff)
    qed
  qed
qed

text \<open>The same for a whole update, which may also raise the flag; \<open>co\<close> then carries the content that waits.\<close>

definition updated :: "agent_env \<Rightarrow> running_model list \<Rightarrow> bool \<Rightarrow> config_outcome \<Rightarrow> agent_state \<Rightarrow> agent_state \<Rightarrow> bool" where
  "updated env rs known co st st' \<longleftrightarrow>
     (as_needs_restart st' \<longrightarrow> as_needs_restart st \<or> as_pending st') \<and> (as_pending st \<longrightarrow> as_pending st') \<and>
     (as_config st' = as_config st \<or> known \<and> (as_config st = None \<or> relevant_models rs = {})) \<and>
     (co_pending co \<noteq> [] \<longrightarrow> known \<and>
        (\<forall>old. as_config st = Some old \<longrightarrow> co_restart_models co = loaded_model_config_changed_models (ae_decode env) old (co_pending co) rs)) \<and>
     (\<exists>new. as_log st' = as_log st @ new \<and> set new \<subseteq> {MarksPending} \<union> range WritesConfig)"

lemma apply_config_updated:
  assumes "apply_config_content env inp logs content rs status st = (co, st')"
  shows "updated env rs True co st st'"
proof -
  obtain changed affected e st1 where w:
    "write_config_if_changed_and_mark_pending_for_running_models (ae_decode env) (ci_write inp) content rs st = ((changed, affected, e), st1)"
    by (metis surj_pair)
  define st2 where "st2 = (if logs \<and> changed then record_event (ci_now inp) (event ''llama_swap_config_changed'') st1 else st1)"
  have same: "as_needs_restart st2 = as_needs_restart st1" "as_pending st2 = as_pending st1" "as_config st2 = as_config st1"
    "as_log st2 = as_log st1" by (simp_all add: st2_def)
  have co: "co_restart_models co = affected" "co_pending co = (if affected = [] then [] else content)"
    "st' = (if affected = [] then st2 else st2\<lparr>as_needs_restart := True\<rparr>)"
    using assms w unfolding st2_def
    by (auto simp: apply_config_content_def Let_def split: prod.splits if_splits)
  note ap = write_for_running_applied[OF w, unfolded applied_def]
  from ap obtain new where new: "as_log st1 = as_log st @ new" "set new \<subseteq> {MarksPending, WritesConfig content}" by blast
  then have "\<exists>new. as_log st' = as_log st @ new \<and> set new \<subseteq> {MarksPending} \<union> range WritesConfig"
    using co(3) same(4) by (intro exI[of _ new]) auto
  with ap co same show ?thesis unfolding updated_def by auto
qed

lemma update_config_updated:
  assumes "update_config env inp logs cfg tr status rs known st = (co, st')"
  shows "updated env rs known co st st'"
proof -
  have none: "updated env rs known \<lparr>co_errors = es, co_status = status, co_restart_models = [], co_pending = []\<rparr> st st" for es
    by (simp add: updated_def)
  show ?thesis
    using assms none apply_config_updated[of env inp logs _ rs status st co st']
    by (auto simp: update_config_def Let_def split: if_splits sum.splits option.splits)
qed

section \<open>Report and answer\<close>

lemma prepare_report_cases:
  assumes "prepare_report env inp logs cfg tr status errs st = (rep, st')"
  obtains known co st0 where
    "updated env (hb_running_models (cr_heartbeat rep)) known co st0 st'" "same_disk st st0"
    "known \<longrightarrow> fetch_running_models env inp = Some (hb_running_models (cr_heartbeat rep))"
    "hb_needs_restart (cr_heartbeat rep) \<longrightarrow> as_needs_restart st' \<and> hb_restart_models (cr_heartbeat rep) = co_restart_models co"
    "cr_pending rep = co_pending co" "hb_agent_id (cr_heartbeat rep) = ae_agent_id env"
    "hb_events (cr_heartbeat rep) = snapshot_events agent_event_heartbeat_limit (as_events st')"
proof -
  define fetched where "fetched = (if rt_ready tr then fetch_running_models env inp else None)"
  define rs where "rs = (case fetched of None \<Rightarrow> [] | Some rs \<Rightarrow> rs)"
  define st0 where "st0 = (if fetched \<noteq> None then observe_running_model_changes rs (ci_now inp) st else st)"
  obtain co st1 where u: "update_config env inp logs cfg tr status rs (fetched \<noteq> None) st0 = (co, st1)" by (metis surj_pair)
  note def = assms[unfolded prepare_report_def Let_def, folded fetched_def, folded rs_def, folded st0_def, unfolded u, simplified]
  have rep: "st' = st1" "hb_running_models (cr_heartbeat rep) = rs" "cr_pending rep = co_pending co"
    "hb_agent_id (cr_heartbeat rep) = ae_agent_id env"
    "hb_events (cr_heartbeat rep) = snapshot_events agent_event_heartbeat_limit (as_events st')"
    "hb_needs_restart (cr_heartbeat rep) \<longrightarrow> as_needs_restart st' \<and> hb_restart_models (cr_heartbeat rep) = co_restart_models co"
    using def by (auto simp: build_heartbeat_for_transport_def build_heartbeat_def)
  have "same_disk st st0" by (simp add: st0_def same_disk_def)
  moreover have "fetched \<noteq> None \<longrightarrow> fetch_running_models env inp = Some rs"
    by (auto simp: fetched_def rs_def split: if_splits)
  ultimately show thesis using that[OF _ _ _ rep(6,3,4,5)] update_config_updated[OF u] rep(1,2) by simp
qed

text \<open>The actions after a permission: perhaps the file, then the restart as far as it gets.\<close>

definition restart_actions :: "agent_action list set" where
  "restart_actions = {[], [RestartsService False], [RestartsService True, VerifiesRestart False],
     [RestartsService True, VerifiesRestart True], [RestartsService True, VerifiesRestart True, ClearsPending]}"

definition restart_effect :: "agent_action list \<Rightarrow> agent_state \<Rightarrow> agent_state \<Rightarrow> bool" where
  "restart_effect acts st st' \<longleftrightarrow> acts \<in> restart_actions \<and>
     (if ClearsPending \<in> set acts then \<not> as_needs_restart st' \<and> \<not> as_pending st'
      else as_needs_restart st' = as_needs_restart st \<and> as_pending st' = as_pending st)"

lemma restart_now_facts:
  assumes "restart_now env inp logs st = (errs, st')"
  shows "as_config st' = as_config st \<and> (\<exists>acts. as_log st' = as_log st @ acts \<and> restart_effect acts st st')"
proof -
  define acts where "acts = (if \<not> ci_restart_ok inp then [RestartsService False]
    else if verify_restart env inp \<noteq> None then [RestartsService True, VerifiesRestart False]
    else if \<not> ci_clear_ok inp then [RestartsService True, VerifiesRestart True]
    else [RestartsService True, VerifiesRestart True, ClearsPending])"
  have "as_config st' = as_config st" "as_log st' = as_log st @ acts"
    "ClearsPending \<in> set acts \<Longrightarrow> \<not> as_needs_restart st' \<and> \<not> as_pending st'"
    "ClearsPending \<notin> set acts \<Longrightarrow> as_needs_restart st' = as_needs_restart st \<and> as_pending st' = as_pending st"
    using assms
    by (auto simp: restart_now_def restart_failed_def acts_def Let_def log_action_def split: if_splits option.splits)
  moreover have "acts \<in> restart_actions" by (simp add: acts_def restart_actions_def)
  ultimately show ?thesis by (intro conjI exI[of _ acts]) (simp_all add: restart_effect_def)
qed

lemma allowed_restart_facts:
  assumes "allowed_restart env inp logs pending st = (errs, st')"
  shows "(as_config st' = as_config st \<or> pending \<noteq> [] \<and> as_config st' = Some pending) \<and>
    (\<exists>w acts. as_log st' = as_log st @ w @ acts \<and> set w \<subseteq> range WritesConfig \<and> restart_effect acts st st')"
proof (cases "pending = []")
  case True
  then have "restart_now env inp logs st = (errs, st')" using assms by (simp add: allowed_restart_def)
  from restart_now_facts[OF this] obtain acts where "as_config st' = as_config st" "as_log st' = as_log st @ acts"
    "restart_effect acts st st'" by blast
  then show ?thesis by (intro conjI exI[of _ "[]"] exI[of _ acts]) simp_all
next
  case False
  obtain changed e st1 where w: "write_config_if_changed_without_marking_pending (ci_final_write inp) pending st = ((changed, e), st1)"
    by (metis surj_pair)
  obtain ws where st1: "as_needs_restart st1 = as_needs_restart st" "as_pending st1 = as_pending st"
    "as_config st1 = as_config st \<or> as_config st1 = Some pending" "as_log st1 = as_log st @ ws" "set ws \<subseteq> range WritesConfig"
    using w
  proof (cases rule: write_without_mark)
    case 1
    with that[of "[]"] show thesis by simp
  next
    case 2
    with that[of "[WritesConfig pending]"] show thesis by simp
  qed
  show ?thesis
  proof (cases e)
    case (Some x)
    then have "as_config st' = as_config st1" "as_log st' = as_log st1" "as_needs_restart st' = as_needs_restart st1"
      "as_pending st' = as_pending st1"
      using assms w False by (auto simp: allowed_restart_def dest: restart_failedD)
    with st1 False show ?thesis
      by (intro conjI exI[of _ ws] exI[of _ "[]"]) (simp_all add: restart_effect_def restart_actions_def)
  next
    case None
    define st2 where "st2 = (if changed then log_event inp logs ''llama_swap_config_changed'' st1 else st1)"
    have same: "as_config st2 = as_config st1" "as_log st2 = as_log st1" "as_needs_restart st2 = as_needs_restart st1"
      "as_pending st2 = as_pending st1" by (simp_all add: st2_def)
    have "restart_now env inp logs st2 = (errs, st')" using assms w False None by (simp add: allowed_restart_def st2_def)
    from restart_now_facts[OF this] obtain acts where "as_log st' = as_log st2 @ acts" "as_config st' = as_config st2"
      "restart_effect acts st2 st'" by blast
    with same st1 False show ?thesis by (intro conjI exI[of _ ws] exI[of _ acts]) (auto simp: restart_effect_def)
  qed
qed

text \<open>What follows the heartbeat.\<close>

lemma send_report_cases:
  assumes "send_report env inp logs tr rep st = (resp, errs, st')"
  obtains
    (quiet) more where "as_log st' = as_log st @ SendsHeartbeat (cr_heartbeat rep) # more" "\<exists>l g. set more \<subseteq> {InvalidatesLease l g}"
      "as_config st' = as_config st" "as_needs_restart st' = as_needs_restart st" "as_pending st' = as_pending st"
  | (allowed) r w acts where "ci_heartbeat inp = HeartbeatAnswer r" "hr_restart_allowed r" "hb_needs_restart (cr_heartbeat rep)"
      "as_log st' = as_log st @ SendsHeartbeat (cr_heartbeat rep) # w @ acts" "set w \<subseteq> range WritesConfig"
      "as_config st' = as_config st \<or> cr_pending rep \<noteq> [] \<and> as_config st' = Some (cr_pending rep)"
      "restart_effect acts st st'"
proof -
  define st1 where "st1 = fold (record_event (ci_now inp)) (ci_meanwhile inp) (log_action (SendsHeartbeat (cr_heartbeat rep)) st)"
  have s1: "as_config st1 = as_config st" "as_needs_restart st1 = as_needs_restart st" "as_pending st1 = as_pending st"
    "as_log st1 = as_log st @ [SendsHeartbeat (cr_heartbeat rep)]" by (simp_all add: st1_def)
  show thesis
  proof (cases "ci_heartbeat inp")
    case (HeartbeatFails conflict)
    then have st': "st' = invalidate_on_conflict env conflict tr st1" using assms by (simp add: send_report_def Let_def st1_def)
    then obtain more where "as_log st' = as_log st1 @ more" "set more \<subseteq> {InvalidatesLease (rt_lease_id tr) (rt_generation tr)}"
      by (auto simp: invalidate_on_conflict_def split: if_splits)
    with st' s1 quiet show thesis by auto
  next
    case (HeartbeatAnswer r)
    define st2 where "st2 = st1\<lparr>as_events := drop_reported (length (hb_events (cr_heartbeat rep))) (as_events st1)\<rparr>"
    have s2: "as_config st2 = as_config st" "as_needs_restart st2 = as_needs_restart st" "as_pending st2 = as_pending st"
      "as_log st2 = as_log st @ [SendsHeartbeat (cr_heartbeat rep)]" using s1 by (simp_all add: st2_def)
    show thesis
    proof (cases "hr_restart_allowed r \<and> hb_needs_restart (cr_heartbeat rep)")
      case False
      with HeartbeatAnswer assms have "st' = st2" by (auto simp: send_report_def Let_def st1_def st2_def)
      with s2 quiet[of "[]"] show thesis by simp
    next
      case True
      obtain e st3 where a: "allowed_restart env inp logs (cr_pending rep) st2 = (e, st3)" by (metis surj_pair)
      have "st' = st3"
        using HeartbeatAnswer assms True a unfolding st2_def st1_def by (simp add: send_report_def Let_def)
      with allowed_restart_facts[OF a] s2 obtain w acts where
        "as_log st' = as_log st @ SendsHeartbeat (cr_heartbeat rep) # w @ acts" "set w \<subseteq> range WritesConfig"
        "as_config st' = as_config st \<or> cr_pending rep \<noteq> [] \<and> as_config st' = Some (cr_pending rep)" "restart_effect acts st st'"
        by (auto simp: restart_effect_def)
      with HeartbeatAnswer True allowed show thesis by blast
    qed
  qed
qed

section \<open>Cycles\<close>

definition cycle_run :: "agent_env \<Rightarrow> cycle_input \<Rightarrow> agent_state \<Rightarrow> agent_state \<Rightarrow> bool" where
  "cycle_run env inp st st' \<longleftrightarrow> (\<exists>resp errs. reconcile_run_once env inp st = (resp, errs, st') \<or> reconcile env inp st = (resp, errs, st'))"

text \<open>The same file, marker and log, and the flag raised only by the marker.\<close>

definition started :: "agent_state \<Rightarrow> agent_state \<Rightarrow> bool" where
  "started s t \<longleftrightarrow> as_config t = as_config s \<and> as_pending t = as_pending s \<and> as_log t = as_log s \<and>
     (as_needs_restart t \<longrightarrow> as_needs_restart s \<or> as_pending s)"

lemma transport_for_cycle_same: "transport_for_cycle env s now st = (tr, st') \<Longrightarrow> same_disk st st'"
  by (auto simp: transport_for_cycle_def Let_def same_disk_def split: if_splits)

lemma load_pending_started: "load_pending inp st = (errs, st') \<Longrightarrow> started st st'"
  by (auto simp: load_pending_def started_def split: if_splits)

lemma started_same: "started s t \<Longrightarrow> same_disk t u \<Longrightarrow> started s u"
  by (simp add: started_def same_disk_def)

lemma same_disk_installs [simp]: "same_disk s (t\<lparr>as_installs := g\<rparr>) = same_disk s t"
  by (simp add: same_disk_def)

lemma same_disk_events [simp]: "same_disk s (fold (record_event now) es t) = same_disk s t"
  by (simp add: same_disk_def)

lemma cycle_cases:
  assumes "cycle_run env inp st st'"
  obtains (early) "started st st'"
  | (full) logs cfg tr status errs0 st0 rep st1 resp errs where "started st st0"
      "prepare_report env inp logs cfg tr status errs0 st0 = (rep, st1)" "send_report env inp logs tr rep st1 = (resp, errs, st')"
proof -
  have full: thesis if "started st s0" "cycle_after_installs env inp logs cfg tr status errs0 s0 = (resp, errs, st')"
    for s0 logs cfg tr status errs0 resp errs
  proof -
    obtain rep s1 where "prepare_report env inp logs cfg tr status errs0 s0 = (rep, s1)" by (metis surj_pair)
    with that full show thesis by (simp add: cycle_after_installs_def)
  qed
  obtain perrs sp where load: "load_pending inp st = (perrs, sp)" by (metis surj_pair)
  note sp = load_pending_started[OF load]
  obtain resp errs where c: "reconcile_run_once env inp st = (resp, errs, st') \<or> reconcile env inp st = (resp, errs, st')"
    using assms by (auto simp: cycle_run_def)
  show thesis
  proof (cases "ae_has_gateway env \<and> ci_config inp \<noteq> None")
    case False
    with c load have "st' = st \<or> st' = sp" by (auto simp: reconcile_run_once_def reconcile_def split: if_splits)
    moreover have "started st st" by (simp add: started_def)
    ultimately show thesis using early sp by auto
  next
    case True
    then obtain cfg where cfg: "ci_config inp = Some cfg" "ae_has_gateway env" by auto
    obtain tr s1 where tr: "transport_for_cycle env (ci_transport inp) (ci_now inp) sp = (tr, s1)" by (metis surj_pair)
    have s1: "started st s1" using started_same[OF sp transport_for_cycle_same[OF tr]] .
    from c show thesis
    proof
      assume "reconcile_run_once env inp st = (resp, errs, st')"
      then obtain g status errs0 where "cycle_after_installs env inp True cfg tr status errs0 (s1\<lparr>as_installs := g\<rparr>) = (resp, errs, st')"
        using cfg load tr by (auto simp: reconcile_run_once_def Let_def)
      moreover have "started st (s1\<lparr>as_installs := g\<rparr>)" using s1 by (simp add: started_def)
      ultimately show thesis using full by blast
    next
      assume r: "reconcile env inp st = (resp, errs, st')"
      obtain status ierrs cancelled rt where ins: "install_allowed_artifacts (ae_install env) cfg (ci_jobs inp)
        (atp_allowed_models (acr_tag_policy cfg)) ([], [], [], ag_disk (as_installs s1)) = (status, ierrs, cancelled, rt)" by (metis surj_pair)
      let ?s = "fold (record_event (ci_now inp)) (map install_cancelled_event cancelled) (s1\<lparr>as_installs := (as_installs s1)\<lparr>ag_disk := rt\<rparr>\<rparr>)"
      have "cycle_after_installs env inp False cfg tr status (perrs @ map InstallTrouble ierrs) ?s = (resp, errs, st')"
        using r cfg load tr ins by (simp add: reconcile_def Let_def)
      moreover have "started st ?s" using s1 by (simp add: started_def)
      ultimately show thesis using full by blast
    qed
  qed
qed

text \<open>The actions before a heartbeat of a cycle.\<close>

definition before_report :: "agent_action list \<Rightarrow> bool" where
  "before_report acts \<longleftrightarrow> set acts \<subseteq> {MarksPending} \<union> range WritesConfig"

text \<open>
  The shape of a cycle: what it writes before the heartbeat, the heartbeat, and then nothing but an invalidated lease, or a
  restart that the gateway has allowed.
\<close>

lemma cycle_log:
  assumes "cycle_run env inp st st'"
  obtains (early) "started st st'"
  | (quiet) hb pre more where "as_log st' = as_log st @ pre @ SendsHeartbeat hb # more" "before_report pre"
      "\<exists>l g. set more \<subseteq> {InvalidatesLease l g}" "as_pending st \<longrightarrow> as_pending st'"
      "as_needs_restart st' \<longrightarrow> as_needs_restart st \<or> as_pending st'" "hb_agent_id hb = ae_agent_id env"
      "as_config st' = as_config st \<or> fetch_running_models env inp = Some (hb_running_models hb) \<and>
         (as_config st = None \<or> relevant_models (hb_running_models hb) = {})"
  | (allowed) hb pre r w acts where "as_log st' = as_log st @ pre @ SendsHeartbeat hb # w @ acts" "before_report pre"
      "set w \<subseteq> range WritesConfig" "acts \<in> restart_actions" "hb_agent_id hb = ae_agent_id env"
      "ci_heartbeat inp = HeartbeatAnswer r" "hr_restart_allowed r" "hb_needs_restart hb"
      "as_pending st \<longrightarrow> as_pending st' \<or> ClearsPending \<in> set acts"
      "as_needs_restart st' \<longrightarrow> as_needs_restart st \<and> \<not> as_pending st \<or> as_pending st'"
      "\<forall>old new. as_config st = Some old \<longrightarrow> as_config st' = Some new \<longrightarrow> new \<noteq> old \<longrightarrow>
         fetch_running_models env inp = Some (hb_running_models hb) \<and>
         (relevant_models (hb_running_models hb) = {} \<or>
          hb_restart_models hb = loaded_model_config_changed_models (ae_decode env) old new (hb_running_models hb))"
  using assms
proof (cases rule: cycle_cases)
  case early
  with that(1) show thesis by blast
next
  case (full logs cfg tr status errs0 st0 rep st1 resp errs)
  let ?hb = "cr_heartbeat rep"
  from full(2) obtain known co st00 where p: "updated env (hb_running_models ?hb) known co st00 st1" "same_disk st0 st00"
    "known \<longrightarrow> fetch_running_models env inp = Some (hb_running_models ?hb)"
    "hb_needs_restart ?hb \<longrightarrow> as_needs_restart st1 \<and> hb_restart_models ?hb = co_restart_models co"
    "cr_pending rep = co_pending co" "hb_agent_id ?hb = ae_agent_id env" by (rule prepare_report_cases) blast
  have st00: "as_config st00 = as_config st" "as_pending st00 = as_pending st" "as_log st00 = as_log st"
    "as_needs_restart st00 \<longrightarrow> as_needs_restart st \<or> as_pending st"
    using full(1) p(2) by (auto simp: started_def same_disk_def)
  note u = p(1)[unfolded updated_def st00(1-3)]
  then obtain pre where pre: "as_log st1 = as_log st @ pre" "before_report pre" by (auto simp: before_report_def)
  from full(3) show thesis
  proof (cases rule: send_report_cases)
    case (quiet more)
    show thesis
    proof (rule that(2)[of pre ?hb more])
      show "as_log st' = as_log st @ pre @ SendsHeartbeat ?hb # more" using quiet(1) pre(1) by simp
      show "as_config st' = as_config st \<or> fetch_running_models env inp = Some (hb_running_models ?hb) \<and>
         (as_config st = None \<or> relevant_models (hb_running_models ?hb) = {})" using u quiet(3) p(3) by auto
    qed (use pre quiet u st00 p(6) in auto)
  next
    case (allowed r w acts)
    show thesis
    proof (rule that(3)[of pre ?hb w acts r])
      show "as_log st' = as_log st @ pre @ SendsHeartbeat ?hb # w @ acts" using allowed(4) pre(1) by simp
      show "as_pending st \<longrightarrow> as_pending st' \<or> ClearsPending \<in> set acts"
        using u allowed(7) by (auto simp: restart_effect_def split: if_splits)
      show "as_needs_restart st' \<longrightarrow> as_needs_restart st \<and> \<not> as_pending st \<or> as_pending st'"
        using u allowed(7) st00 by (auto simp: restart_effect_def split: if_splits)
      show "\<forall>old new. as_config st = Some old \<longrightarrow> as_config st' = Some new \<longrightarrow> new \<noteq> old \<longrightarrow>
         fetch_running_models env inp = Some (hb_running_models ?hb) \<and>
         (relevant_models (hb_running_models ?hb) = {} \<or>
          hb_restart_models ?hb = loaded_model_config_changed_models (ae_decode env) old new (hb_running_models ?hb))"
        using u allowed(3,6) p(3,4,5) by auto
      show "acts \<in> restart_actions" using allowed(7) by (simp add: restart_effect_def)
    qed (use allowed pre p(6) in auto)
  qed
qed

section \<open>Claims about a cycle\<close>

text \<open>
  C11. While a model is running, a cycle changes llama-swap's configuration file only with the gateway's permission for this
  very heartbeat, which names exactly the running models whose entry changes (all of them when a file cannot be read).
\<close>

theorem running_models_keep_their_config:
  assumes "cycle_run env inp st st'" "as_config st = Some old" "as_config st' = Some new" "new \<noteq> old"
    and "fetch_running_models env inp = Some rs" "relevant_models rs \<noteq> {}"
  shows "\<exists>hb pre post r. as_log st' = as_log st @ pre @ SendsHeartbeat hb # post \<and> hb_needs_restart hb \<and>
    ci_heartbeat inp = HeartbeatAnswer r \<and> hr_restart_allowed r \<and>
    set (hb_restart_models hb) = {m \<in> relevant_models rs. ae_decode env old = None \<or> ae_decode env new = None \<or>
      map_of (lsc_models (the (ae_decode env old))) m \<noteq> map_of (lsc_models (the (ae_decode env new))) m}"
  using assms(1)
proof (cases rule: cycle_log)
  case early
  with assms show ?thesis by (simp add: started_def)
next
  case (quiet hb pre more)
  with assms show ?thesis by auto
next
  case (allowed hb pre r w acts)
  with assms(2-6) have "hb_running_models hb = rs"
    "hb_restart_models hb = loaded_model_config_changed_models (ae_decode env) old new rs" by auto
  with allowed set_loaded_changed[of "ae_decode env" old new rs] show ?thesis
    by (intro exI[of _ hb] exI[of _ pre] exI[of _ "w @ acts"] exI[of _ r]) simp
qed

text \<open>
  The agent over time: cycles, the preparation of a tunnel, and crashes, after which a new process knows only the files.
\<close>

inductive agent_step :: "agent_env \<Rightarrow> agent_state \<Rightarrow> agent_state \<Rightarrow> bool" for env where
  agent_cycle: "cycle_run env inp st st' \<Longrightarrow> agent_step env st st'"
| agent_prepare: "prepare_managed_transport env pinp token st = (res, st') \<Longrightarrow> agent_step env st st'"
| agent_crash: "agent_step env st (st\<lparr>as_needs_restart := False, as_events := [], as_last_running := [], as_last_transport := [],
     as_installs := fresh_agent (ag_disk (as_installs st))\<rparr>)"

definition new_agent :: "string option \<Rightarrow> bool \<Rightarrow> model_root \<Rightarrow> agent_state" where
  "new_agent config pending r = \<lparr>as_needs_restart = False, as_events = [], as_last_running = [], as_last_transport = [],
     as_config = config, as_pending = pending, as_installs = fresh_agent r, as_log = []\<rparr>"

lemma prepare_keeps:
  assumes "prepare_managed_transport env inp token st = (res, st')"
  shows "as_needs_restart st' = as_needs_restart st \<and> as_pending st' = as_pending st"
proof (cases "llama_swap_config_with_api_key env (pi_read_fails inp) token st")
  case None
  with assms show ?thesis by (auto simp: prepare_managed_transport_def split: if_splits)
next
  case (Some content)
  obtain changed e st1 where w: "write_config_if_changed_without_marking_pending (pi_write inp) content st = ((changed, e), st1)"
    by (metis surj_pair)
  then have "as_needs_restart st1 = as_needs_restart st \<and> as_pending st1 = as_pending st"
    by (cases rule: write_without_mark) simp_all
  with assms Some w show ?thesis
    by (auto simp: prepare_managed_transport_def Let_def split: if_splits option.splits heartbeat_answer.splits)
qed

lemma agent_step_durable:
  assumes "agent_step env st st'" "as_needs_restart st \<longrightarrow> as_pending st"
  shows "as_needs_restart st' \<longrightarrow> as_pending st'"
  using assms(1)
proof (cases rule: agent_step.cases)
  case (agent_cycle inp)
  then show ?thesis
  proof (cases rule: cycle_log)
    case early
    with assms(2) show ?thesis by (auto simp: started_def)
  next
    case (quiet hb pre more)
    with assms(2) show ?thesis by auto
  next
    case (allowed hb pre r w acts)
    with assms(2) show ?thesis by auto
  qed
next
  case (agent_prepare pinp token res)
  with prepare_keeps assms(2) show ?thesis by metis
next
  case agent_crash
  then show ?thesis by simp
qed

lemma pending_stays:
  assumes "agent_step env st st'" "as_pending st"
  shows "as_pending st' \<or> (\<exists>pre. as_log st' = as_log st @ pre @ [RestartsService True, VerifiesRestart True, ClearsPending])"
  using assms(1)
proof (cases rule: agent_step.cases)
  case (agent_cycle inp)
  then show ?thesis
  proof (cases rule: cycle_log)
    case early
    with assms(2) show ?thesis by (simp add: started_def)
  next
    case (quiet hb pre more)
    with assms(2) show ?thesis by simp
  next
    case (allowed hb pre r w acts)
    have "acts = [RestartsService True, VerifiesRestart True, ClearsPending]" if "ClearsPending \<in> set acts"
      using allowed(4) that by (auto simp: restart_actions_def)
    with allowed(1,9) assms(2) show ?thesis by (auto intro!: exI[of _ "pre @ SendsHeartbeat hb # w"])
  qed
next
  case (agent_prepare pinp token res)
  with prepare_keeps assms(2) show ?thesis by metis
next
  case agent_crash
  with assms(2) show ?thesis by simp
qed


text \<open>
  C14. A transport is prepared with success only when llama-swap, before or after a restart that the gateway allowed, refuses the
  probe as unauthorized and accepts the token, and when the file holds the content that was made with that token.
\<close>

theorem prepared_transport_enforces_token:
  assumes "prepare_managed_transport env inp token st = (None, st')"
  shows "\<exists>endpoint \<in> {pi_endpoint inp, pi_endpoint_after inp}. token_probe token \<noteq> token \<and> trim_space token \<noteq> [] \<and>
    endpoint (token_probe token) \<in> {TokenStatus 401, TokenStatus 403} \<and> endpoint token = TokenAccepted \<and>
    llama_swap_config_with_api_key env (pi_read_fails inp) token st = as_config st' \<and> as_config st' \<noteq> None \<and>
    (endpoint \<noteq> pi_endpoint inp \<longrightarrow> (\<exists>r. pi_heartbeat inp = HeartbeatAnswer r \<and> hr_restart_allowed r))"
proof -
  have enforced: "endpoint (token_probe token) \<in> {TokenStatus 401, TokenStatus 403} \<and> endpoint token = TokenAccepted"
    if "verify_token_enforcement endpoint token = None" for endpoint
    using that by (auto simp: verify_token_enforcement_def split: token_answer.splits if_splits)
  have probe: "token_probe token \<noteq> token" by (auto simp: token_probe_def Let_def)
  have pre: "trim_space token \<noteq> []" "pi_has_verifier inp" using assms by (auto simp: prepare_managed_transport_def split: if_splits)
  obtain content where c: "llama_swap_config_with_api_key env (pi_read_fails inp) token st = Some content"
    using assms by (auto simp: prepare_managed_transport_def split: if_splits option.splits)
  obtain changed e st1 where w: "write_config_if_changed_without_marking_pending (pi_write inp) content st = ((changed, e), st1)"
    by (metis surj_pair)
  have e: "e = None" using assms pre c w by (auto simp: prepare_managed_transport_def split: if_splits option.splits)
  with w have put: "as_config st1 = Some content"
    by (auto simp: write_config_if_changed_without_marking_pending_def read_config_def split: if_splits option.splits)
  show ?thesis
  proof (cases "verify_token_enforcement (pi_endpoint inp) token = None")
    case True
    then have "st' = st1" using assms pre c w e by (simp add: prepare_managed_transport_def)
    with True enforced probe pre c put show ?thesis by auto
  next
    case False
    then have "verify_token_enforcement (pi_endpoint_after inp) token = None \<and> as_config st' = Some content \<and>
      (\<exists>r. pi_heartbeat inp = HeartbeatAnswer r \<and> hr_restart_allowed r)"
      using assms pre c w e put
      by (auto simp: prepare_managed_transport_def Let_def split: if_splits option.splits heartbeat_answer.splits)
    with enforced probe pre c show ?thesis by auto
  qed
qed

section \<open>Events\<close>

text \<open>How a reader of the events keeps the states of the running models.\<close>

definition apply_change :: "agent_event \<Rightarrow> (string \<Rightarrow> string option) \<Rightarrow> (string \<Rightarrow> string option)" where
  "apply_change e m = (if ev_event e = ''model_unloaded'' then m(ev_model e := None) else m(ev_model e := Some (ev_to_state e)))"

lemma mwf_current_states [simp]: "mwf (current_states rs)"
proof -
  have "mwf (fold (\<lambda>r m. if rm_model r = [] then m else mput (rm_model r) (rm_state r) m) rs m)" if "mwf m" for m
    using that by (induction rs arbitrary: m) simp_all
  then show ?thesis by (simp add: current_states_def)
qed

lemma event_fields [simp]:
  "ev_event (event name) = name" "ev_event (e\<lparr>ev_model := m\<rparr>) = ev_event e" "ev_event (e\<lparr>ev_from_state := m\<rparr>) = ev_event e"
  "ev_event (e\<lparr>ev_to_state := m\<rparr>) = ev_event e"
  by (simp_all add: event_def)

lemma apply_change_events [simp]:
  "apply_change ((event ''model_loaded'')\<lparr>ev_model := m, ev_to_state := s\<rparr>) f = f(m := Some s)"
  "apply_change ((event ''model_state_changed'')\<lparr>ev_model := m, ev_from_state := t, ev_to_state := s\<rparr>) f = f(m := Some s)"
  "apply_change ((event ''model_unloaded'')\<lparr>ev_model := m, ev_from_state := t\<rparr>) f = f(m := None)"
  by (simp_all add: apply_change_def)

lemma apply_loaded:
  assumes "mwf current"
  shows "fold apply_change (List.map_filter (\<lambda>(model, state).
        case map_of previous model of
          None \<Rightarrow> Some ((event ''model_loaded'')\<lparr>ev_model := model, ev_to_state := state\<rparr>)
        | Some old \<Rightarrow>
            if old \<noteq> state then Some ((event ''model_state_changed'')\<lparr>ev_model := model, ev_from_state := old, ev_to_state := state\<rparr>)
            else None) current) f k =
    (case map_of current k of None \<Rightarrow> f k | Some state \<Rightarrow> if map_of previous k = Some state then f k else Some state)"
  using assms
proof (induction current arbitrary: f k)
  case (Cons e current)
  obtain model state where e: "e = (model, state)" by (metis surj_pair)
  have fresh: "map_of current model = None" "mwf current"
    using Cons(2) e by (auto simp: mwf_def mkeys_def map_of_eq_None_iff)
  show ?case
    using fresh(1) by (auto simp: e map_filter_simps Cons(1)[OF fresh(2)] split: option.split)
qed (simp add: map_filter_simps)

lemma apply_unloaded:
  "fold apply_change (List.map_filter (\<lambda>(model, old). if mhas current model then None
        else Some ((event ''model_unloaded'')\<lparr>ev_model := model, ev_from_state := old\<rparr>)) previous) f k =
    (if k \<in> set (map fst previous) \<and> \<not> mhas current k then None else f k)"
  by (induction previous arbitrary: f) (auto simp: map_filter_simps simp del: set_map)


definition stamp :: "time \<Rightarrow> agent_event \<Rightarrow> agent_event" where
  "stamp now e = (if ev_time e = 0 then e\<lparr>ev_time := now\<rparr> else e)"

lemma push_within_limit:
  "length es + length later \<le> agent_event_buffer_limit \<Longrightarrow> \<forall>e \<in> set later. ev_event e \<noteq> [] \<Longrightarrow>
     fold (push_event now) later es = es @ map (stamp now) later"
  by (induction later arbitrary: es) (auto simp: push_event_def stamp_def Let_def)

text \<open>As long as the buffer does not overflow, every event is reported once, in order.\<close>

lemma events_reported_once:
  assumes "length es + length later \<le> agent_event_buffer_limit" "\<forall>e \<in> set later. ev_event e \<noteq> []"
  shows "snapshot_events limit es @ drop_reported (length (snapshot_events limit es)) (fold (push_event now) later es) =
    es @ map (stamp now) later"
proof -
  obtain n where "snapshot_events limit es = take n es" by (auto simp: snapshot_events_def Let_def)
  then show ?thesis using push_within_limit[OF assms, of now] by (auto simp: drop_reported_def min_def)
qed

text \<open>
  An overflow while a heartbeat is under way makes \<open>dropReportedEvents\<close> drop events that were never reported: it
  counts from the front of a buffer that has moved on.
\<close>

lemma overflow_drops_unreported:
  assumes "length es = agent_event_buffer_limit" "ev_event e \<noteq> []"
  shows "drop_reported (length (snapshot_events agent_event_heartbeat_limit es)) (push_event now e es) = drop 65 es @ [stamp now e]"
  using assms
  by (simp add: push_event_def stamp_def snapshot_events_def drop_reported_def agent_event_buffer_limit_def agent_event_heartbeat_limit_def
      Let_def eval_nat_numeral)

section \<open>Examples\<close>

text \<open>A worker that runs \<open>m\<close> and is given another command for it; \<open>ok\<close> says whether its restart succeeds.\<close>

definition wit_cycle_model :: model where
  "wit_cycle_model = zero_model\<lparr>m_artifact := \<lparr>art_object = ''o'', art_kind = ''file'', art_crc64ecma = ''1''\<rparr>, m_runtime := ''vllm''\<rparr>"

definition wit_entry_a :: llama_swap_model where
  "wit_entry_a = \<lparr>ls_cmd = ''a'', ls_cmd_stop = [], ls_check_endpoint = [], ls_ttl = 0\<rparr>"

definition wit_lsc :: "(string, llama_swap_model) gomap \<Rightarrow> llama_swap_config" where
  "wit_lsc ms = \<lparr>lsc_health_check_timeout = 900, lsc_start_port = 10001, lsc_global_ttl = 0, lsc_api_keys = [],
     lsc_performance_enable = True, lsc_performance_every = ''5s'', lsc_models = ms\<rparr>"

definition wit_agent_env :: agent_env where
  "wit_agent_env = \<lparr>ae_agent_id = ''w'', ae_tags = [''t''], ae_llama_swap_url = ''u'', ae_llama_swap_token = [],
     ae_has_transport_state = False, ae_can_invalidate = False, ae_has_gateway = True, ae_has_running_models = True,
     ae_has_health = False, ae_has_gpu = False,
     ae_install = \<lparr>ie_sha = (\<lambda>s. [length s mod 256]), ie_goos = ''linux'', ie_oss_base = [], ie_model_root = ''/models''\<rparr>,
     ae_encode = (\<lambda>c. Some ''v2''),
     ae_decode = (\<lambda>s. if s = ''v1'' then Some (wit_lsc [(''m'', wit_entry_a)]) else Some (wit_lsc [])),
     ae_yaml_decode = (\<lambda>s. Some \<lparr>yd_nodes = [\<lparr>yn_kind = MappingNode, yn_tag = ''!!map'', yn_value = [], yn_content = [], yn_alias = None\<rparr>], yd_root = Some 0\<rparr>),
     ae_yaml_encode = (\<lambda>d. Some ''k''),
     ae_error_text = (\<lambda>es. ''error''),
     ae_build = \<lparr>bi_version = [], bi_commit = [], bi_build_time = [], bi_protocol_version = 3\<rparr>\<rparr>"

definition wit_agent_config :: agent_config_response where
  "wit_agent_config = \<lparr>acr_config_revision = 1, acr_desired_model_dirs = None, acr_oss = \<lparr>oss_base_url = []\<rparr>,
     acr_models = [(''m'', wit_cycle_model)],
     acr_tag_policy = \<lparr>atp_tag = ''t'', atp_allowed_models = [''m''], atp_warm_when_idle = [],
       atp_worker_defaults = \<lparr>wd_max_concurrency = 0, wd_max_queue = 0\<rparr>\<rparr>, acr_transport = None\<rparr>"

definition calm_writes :: write_faults where
  "calm_writes = \<lparr>wf_read_fails = False, wf_stage_fails = False, wf_mark = Marked, wf_rename_fails = False\<rparr>"

definition calm_publish :: install_faults where
  "calm_publish = \<lparr>if_removed = (\<lambda>_. \<lparr>pf_lock_fails = False, pf_write_fails = False\<rparr>), if_allowed = (\<lambda>_. \<lparr>pf_lock_fails = False, pf_write_fails = False\<rparr>)\<rparr>"

definition wit_running :: "running_model list" where
  "wit_running = [\<lparr>rm_model = ''m'', rm_state = ''ready'', rm_protected_until = 0\<rparr>]"

definition wit_cycle_input :: "bool \<Rightarrow> cycle_input" where
  "wit_cycle_input ok = \<lparr>ci_stat_fails = False, ci_config = Some wit_agent_config, ci_transport = empty_snapshot, ci_now = 7,
     ci_install = calm_publish,
     ci_jobs = (\<lambda>_. []), ci_running = Some wit_running, ci_gpu = None,
     ci_write = calm_writes, ci_stale_read_fails = False, ci_meanwhile = [],
     ci_heartbeat = HeartbeatAnswer \<lparr>hr_worker_state = ''draining'', hr_restart_allowed = True\<rparr>, ci_final_write = calm_writes,
     ci_restart_ok = ok, ci_health_ok = True, ci_verify_ok = True, ci_clear_ok = True\<rparr>"

definition wit_disk :: model_root where
  "wit_disk = \<lparr>mr_fences = [], mr_dirs = [(''m'', \<lparr>id_marker = MarkerFile \<lparr>mk_model = ''m'', mk_object = ''o'', mk_kind = ''file'',
     mk_crc64ecma = ''1'', mk_installed_path = ''/models/m'', mk_installed_at = 1\<rparr>, id_tree = []\<rparr>)], mr_sources = []\<rparr>"

definition wit_agent :: agent_state where
  "wit_agent = new_agent (Some ''v1'') False wit_disk"



lemma wit_cycle_facts:
  "ic_status (install_allowed_artifacts_async (ae_install wit_agent_env) wit_agent_config calm_publish [] wit_disk) = [(''m'', ''ready'')]"
  "config_with_ready_artifacts wit_agent_config [(''m'', ''ready'')] = wit_agent_config"
  "\<not> restart_blocked_by_unready_replacement wit_agent_config [(''m'', ''ready'')] wit_running"
  "loaded_model_config_changed_models (ae_decode wit_agent_env) ''v1'' ''v2'' wit_running = [''m'']"
  "has_restart_relevant_running_model wit_running" "restart_relevant_running_model_names wit_running = [''m'']"
  by (code_simp+)

lemma wit_render: "\<exists>c. render_llama_swap_config wit_agent_config ''/models'' [] = Inr c"
proof -
  have run: "m_run wit_cycle_model = []" "m_runtime wit_cycle_model = ''vllm''"
    by (simp_all add: wit_cycle_model_def zero_model_def)
  have "to_lower (trim_space ''vllm'') = ''vllm''" by code_simp
  then have "\<exists>cmd. model_command ''m'' wit_cycle_model p = Inr cmd" for p
    by (simp add: model_command_def run Let_def)
  then obtain rendered where "render_model ''/models'' ''m'' wit_cycle_model = Inr rendered"
    unfolding render_model_def by (metis sum.case(2))
  then show ?thesis by (simp add: render_llama_swap_config_def wit_agent_config_def)
qed


lemma wit_env_fields:
  "ae_has_gateway wit_agent_env" "\<not> ae_has_transport_state wit_agent_env" "ae_has_running_models wit_agent_env" "\<not> ae_has_gpu wit_agent_env"
  "\<not> ae_has_health wit_agent_env" "ae_llama_swap_token wit_agent_env = []" "ae_encode wit_agent_env c = Some ''v2''"
  "ie_model_root (ae_install wit_agent_env) = ''/models''"
  by (simp_all add: wit_agent_env_def)

lemma wit_input_fields:
  "ci_config (wit_cycle_input ok) = Some wit_agent_config" "ci_running (wit_cycle_input ok) = Some wit_running" "ci_write (wit_cycle_input ok) = calm_writes"
  "\<not> ci_stat_fails (wit_cycle_input ok)" "ci_final_write (wit_cycle_input ok) = calm_writes" "ci_meanwhile (wit_cycle_input ok) = []"
  "ci_heartbeat (wit_cycle_input ok) = HeartbeatAnswer \<lparr>hr_worker_state = ''draining'', hr_restart_allowed = True\<rparr>"
  "ci_restart_ok (wit_cycle_input ok) = ok" "ci_install (wit_cycle_input ok) = calm_publish" "ci_verify_ok (wit_cycle_input ok)" "ci_clear_ok (wit_cycle_input ok)"
  by (simp_all add: wit_cycle_input_def)

lemma wit_policy: "atp_allowed_models (acr_tag_policy wit_agent_config) = [''m'']"
  by (simp add: wit_agent_config_def)

definition wit_after :: "bool \<Rightarrow> agent_state" where
  "wit_after ok = snd (snd (reconcile_run_once wit_agent_env (wit_cycle_input ok) wit_agent))"

lemma wit_after_run: "cycle_run wit_agent_env (wit_cycle_input ok) wit_agent (wit_after ok)"
  unfolding cycle_run_def wit_after_def by (metis prod.collapse)

lemma wit_cycle_result:
  "as_config (wit_after ok) = Some ''v2''" "as_needs_restart (wit_after ok) \<longleftrightarrow> \<not> ok" "RestartsService ok \<in> set (as_log (wit_after ok))"
proof -
  obtain c where c: "render_llama_swap_config wit_agent_config ''/models'' [] = Inr c" using wit_render by blast
  let ?g = "as_installs wit_agent"
  have st: "load_pending (wit_cycle_input ok) wit_agent = ([], wit_agent)" by (simp add: load_pending_def wit_agent_def new_agent_def wit_cycle_input_def)
  have g: "drain_install_results (ag_done ?g) (ag_installs ?g) = []" "ag_disk ?g = wit_disk"
    by (simp_all add: wit_agent_def new_agent_def fresh_agent_def drain_install_results_def)
  have cfg: "as_config wit_agent = Some ''v1''" by (simp add: wit_agent_def new_agent_def)
  show "as_config (wit_after ok) = Some ''v2''" "as_needs_restart (wit_after ok) \<longleftrightarrow> \<not> ok"
    "RestartsService ok \<in> set (as_log (wit_after ok))"
    by (simp_all add: wit_after_def reconcile_run_once_def st transport_for_cycle_def wit_env_fields wit_input_fields wit_cycle_facts g c cfg wit_policy
      cycle_after_installs_def prepare_report_def fetch_running_models_def fetch_gpu_devices_def direct_transport_def update_config_def
      apply_config_content_def write_config_if_changed_and_mark_pending_for_running_models_def read_config_def calm_writes_def
      mark_pending_restart_def send_report_def build_heartbeat_for_transport_def build_heartbeat_def allowed_restart_def Let_def
      write_config_if_changed_without_marking_pending_def restart_now_def restart_failed_def verify_restart_def prod.case_eq_if)
qed

theorem running_models_keep_their_config_witness:
  "\<exists>hb pre post. as_log (wit_after True) = pre @ SendsHeartbeat hb # post \<and> set (hb_restart_models hb) = {''m''}"
proof -
  have rel: "relevant_models wit_running = {''m''}"
    using wit_cycle_facts(6) set_restart_relevant[of wit_running] by simp
  have "{m \<in> relevant_models wit_running. ae_decode wit_agent_env ''v1'' = None \<or> ae_decode wit_agent_env ''v2'' = None \<or>
      map_of (lsc_models (the (ae_decode wit_agent_env ''v1''))) m \<noteq> map_of (lsc_models (the (ae_decode wit_agent_env ''v2''))) m} = {''m''}"
    using set_loaded_changed[of "ae_decode wit_agent_env" "''v1''" "''v2''" wit_running] wit_cycle_facts(4) by simp
  with running_models_keep_their_config[OF wit_after_run[of True], of "''v1''" "''v2''" wit_running] wit_cycle_result(1)[of True] rel
  show ?thesis by (auto simp: wit_agent_def new_agent_def fetch_running_models_def wit_env_fields wit_input_fields)
qed


definition wit_prepare :: prepare_input where
  "wit_prepare = \<lparr>pi_has_verifier = True, pi_read_fails = False, pi_write = calm_writes, pi_endpoint = (\<lambda>t. TokenAccepted),
     pi_config = Some wit_agent_config, pi_heartbeat = HeartbeatAnswer \<lparr>hr_worker_state = [], hr_restart_allowed = True\<rparr>,
     pi_restart_ok = True, pi_endpoint_after = (\<lambda>t. if t = ''s'' then TokenAccepted else TokenStatus 401)\<rparr>"

theorem prepared_transport_enforces_token_witness:
  "\<exists>st'. prepare_managed_transport wit_agent_env wit_prepare ''s'' wit_agent = (None, st') \<and> as_config st' = Some ''k''"
proof -
  have t: "trim_space ''s'' = ''s''" by code_simp
  have probe: "token_probe ''s'' = ''llmswap-intentionally-invalid-token''" by code_simp
  have before: "verify_token_enforcement (pi_endpoint wit_prepare) ''s'' = Some TokenNotEnforced"
    by (simp add: verify_token_enforcement_def wit_prepare_def)
  have after: "verify_token_enforcement (pi_endpoint_after wit_prepare) ''s'' = None"
    by (simp add: verify_token_enforcement_def wit_prepare_def probe)
  have fields: "pi_has_verifier wit_prepare" "llama_swap_config_with_api_key wit_agent_env (pi_read_fails wit_prepare) ''s'' wit_agent = Some ''k''" "pi_config wit_prepare = Some wit_agent_config"
    "pi_heartbeat wit_prepare = HeartbeatAnswer \<lparr>hr_worker_state = [], hr_restart_allowed = True\<rparr>" "pi_restart_ok wit_prepare"
    by (simp_all add: wit_prepare_def llama_swap_config_with_api_key_def read_config_def wit_agent_def new_agent_def wit_agent_env_def)
       code_simp
  have "write_config_if_changed_without_marking_pending (pi_write wit_prepare) ''k'' wit_agent = ((True, None), put_config ''k'' wit_agent)"
    by (simp add: wit_prepare_def calm_writes_def write_config_if_changed_without_marking_pending_def read_config_def wit_agent_def new_agent_def)
  then obtain st' where st': "prepare_managed_transport wit_agent_env wit_prepare ''s'' wit_agent = (None, st')"
    using t before after fields by (simp add: prepare_managed_transport_def wit_env_fields Let_def)
  with prepared_transport_enforces_token[OF st'] fields(2) have "as_config st' = Some ''k''" by auto
  with st' show ?thesis by blast
qed

end
