(* ===== verification/RestartFacts.thy ===== *)
theory RestartFacts
  imports AgentEndpointsFacts AgentCycleFacts
begin

text \<open>
  The restart of a worker, from the agent's cycle over the heartbeat endpoint to the gateway's registry: no request runs on the
  worker when its llama-swap is restarted, and none is let in before the agent's next heartbeat.
\<close>

section \<open>A worker that may restart stays out of service\<close>

definition out_of_service :: "string \<Rightarrow> registry \<Rightarrow> bool" where
  "out_of_service k r \<longleftrightarrow> mget 0 (reg_active r) k = 0 \<and>
     (\<forall>w. map_of (reg_workers r) k = Some w \<longrightarrow> w_state w = WorkerDraining \<and> w_needs_restart w)"

lemma out_of_service_refuses: "out_of_service k r \<Longrightarrow> acquire k t r = (False, r) \<and> \<not> healthy r k t"
  by (cases "map_of (reg_workers r) k")
     (auto simp: out_of_service_def acquire_draining healthy_draining, simp_all add: acquire_def healthy_def)

lemma out_of_service_step:
  assumes "out_of_service k r" "reg_active r' = reg_active r"
    and "\<And>w. map_of (reg_workers r') k = Some w \<Longrightarrow>
      \<exists>w0. map_of (reg_workers r) k = Some w0 \<and> w_needs_restart w = w_needs_restart w0 \<and> (w_state w = w_state w0 \<or> w_state w = WorkerDraining)"
  shows "out_of_service k r'"
  using assms unfolding out_of_service_def by fastforce

lemma other_steps_keep_out:
  assumes "registry_step (\<lambda>hb. hb_agent_id hb \<noteq> k) r r'" "out_of_service k r"
  shows "out_of_service k r'"
  using assms
proof (induction rule: registry_step.induct)
  case (step_heartbeat hb r now)
  then show ?case by (simp add: out_of_service_def upsert_others)
next
  case (step_drain r w)
  show ?case
  proof (rule out_of_service_step[OF step_drain])
    fix y assume y: "map_of (reg_workers (snd (drain w r))) k = Some y"
    show "\<exists>w0. map_of (reg_workers r) k = Some w0 \<and> w_needs_restart y = w_needs_restart w0 \<and>
        (w_state y = w_state w0 \<or> w_state y = WorkerDraining)"
      using y by (cases "map_of (reg_workers r) w") (auto simp: drain_def Let_def split: if_splits)
  qed simp
next
  case (step_undrain r w)
  show ?case
  proof (cases "map_of (reg_workers r) w")
    case (Some x)
    show ?thesis
    proof (rule out_of_service_step[OF step_undrain])
      fix y assume y: "map_of (reg_workers (snd (undrain w r))) k = Some y"
      show "\<exists>w0. map_of (reg_workers r) k = Some w0 \<and> w_needs_restart y = w_needs_restart w0 \<and>
          (w_state y = w_state w0 \<or> w_state y = WorkerDraining)"
        using y Some step_undrain by (simp add: undrain_def Let_def out_of_service_def split: if_splits)
    qed simp
  next
    case None
    with step_undrain show ?thesis by (simp add: undrain_def)
  qed
next
  case (step_snapshot r now)
  then show ?case by (simp add: out_of_service_def snapshot_state prune_offline_fields)
next
  case (step_acquire r w now)
  show ?case
  proof (cases "w = k")
    case True
    with out_of_service_refuses[OF step_acquire, of now] step_acquire show ?thesis by simp
  next
    case False
    with step_acquire show ?thesis by (simp add: out_of_service_def acquire_def split: option.splits)
  qed
next
  case (step_release r w)
  then show ?case by (auto simp: out_of_service_def release_active_def)
next
  case (step_scrape_success r w)
  show ?case
  proof (rule out_of_service_step[OF step_scrape_success])
    fix y assume y: "map_of (reg_workers (record_scrape_success w r)) k = Some y"
    show "\<exists>w0. map_of (reg_workers r) k = Some w0 \<and> w_needs_restart y = w_needs_restart w0 \<and>
        (w_state y = w_state w0 \<or> w_state y = WorkerDraining)"
      using y by (cases "map_of (reg_workers r) w") (auto simp: record_scrape_success_def Let_def split: if_splits)
  qed simp
next
  case (step_scrape_failure r w now)
  show ?case
  proof (rule out_of_service_step[OF step_scrape_failure])
    fix y assume y: "map_of (reg_workers (record_scrape_failure w now r)) k = Some y"
    show "\<exists>w0. map_of (reg_workers r) k = Some w0 \<and> w_needs_restart y = w_needs_restart w0 \<and>
        (w_state y = w_state w0 \<or> w_state y = WorkerDraining)"
      using y by (cases "map_of (reg_workers r) w") (auto simp: record_scrape_failure_def Let_def split: if_splits)
  qed simp
next
  case (step_reverse_failure r w now)
  show ?case
  proof (rule out_of_service_step[OF step_reverse_failure])
    fix y assume y: "map_of (reg_workers (snd (record_reverse_failure w now r))) k = Some y"
    show "\<exists>w0. map_of (reg_workers r) k = Some w0 \<and> w_needs_restart y = w_needs_restart w0 \<and>
        (w_state y = w_state w0 \<or> w_state y = WorkerDraining)"
      using y by (cases "map_of (reg_workers r) w") (auto simp: record_reverse_failure_def Let_def split: if_splits)
  qed simp
qed

lemma stays_out_of_service:
  "(registry_step (\<lambda>hb. hb_agent_id hb \<noteq> k))\<^sup>*\<^sup>* r r' \<Longrightarrow> out_of_service k r \<Longrightarrow> out_of_service k r'"
  by (induction rule: rtranclp_induct) (blast intro: other_steps_keep_out)+

lemma accepted_upserts:
  assumes "handle_agent_heartbeat genv now (Some hb) s = (Replied resp, s')"
  shows "\<exists>url. upsert_heartbeat (hb\<lparr>hb_llama_swap_url := url\<rparr>) now (gw_workers s) = (resp, gw_workers s')"
  using assms
proof (cases rule: handle_heartbeat_cases)
  case direct
  from direct(2) have "upsert_heartbeat hb now (gw_workers s) = (resp, gw_workers s')" by (rule keep_heartbeat_facts) simp
  then show ?thesis by (intro exI[of _ "hb_llama_swap_url hb"]) simp
next
  case not_ready
  from not_ready(2) have "upsert_heartbeat hb now (gw_workers s) = (resp, gw_workers s')" by (rule keep_heartbeat_facts) simp
  then show ?thesis by (intro exI[of _ "hb_llama_swap_url hb"]) simp
next
  case (leased leases l url generation)
  from leased(4) have "upsert_heartbeat (hb\<lparr>hb_llama_swap_url := url\<rparr>) now (gw_workers s) = (resp, gw_workers s')"
    by (rule keep_heartbeat_facts) simp
  then show ?thesis by blast
qed

lemma permission_takes_out_of_service:
  assumes "handle_agent_heartbeat genv now (Some hb) s = (Replied resp, s')" "hr_restart_allowed resp"
  shows "out_of_service (hb_agent_id hb) (gw_workers s') \<and>
    (\<forall>x \<in> set (restart_scopes (hb_restart_models hb)). holder_of (gw_workers s') x = hb_agent_id hb)"
proof -
  obtain url where u: "upsert_heartbeat (hb\<lparr>hb_llama_swap_url := url\<rparr>) now (gw_workers s) = (resp, gw_workers s')"
    using accepted_upserts[OF assms(1)] by blast
  have "trim_space (hb_agent_id hb) \<noteq> []" using assms(1) by (auto simp: handle_agent_heartbeat_def)
  then have "hb_agent_id (hb\<lparr>hb_llama_swap_url := url\<rparr>) \<noteq> []" by (auto simp: trim_space_def)
  with restart_allowed_facts[OF u assms(2)] show ?thesis by (auto simp: out_of_service_def)
qed


section \<open>A concrete restart\<close>

definition direct_gateway :: "(unit, memory_lease_store) gateway_server" where
  "direct_gateway = example_gateway\<lparr>gw_manager := (gw_manager example_gateway)
     \<lparr>cm_cfg := example_config\<lparr>gc_transport := (gc_transport example_config)\<lparr>tr_type := []\<rparr>\<rparr>\<rparr>\<rparr>"

lemma fresh_permission:
  "hb_needs_restart hb \<Longrightarrow> fst (upsert_heartbeat hb now (new_worker_registry d)) =
     \<lparr>hr_worker_state = ''draining'', hr_restart_allowed = True\<rparr>"
  by (simp add: upsert_heartbeat_def new_worker_registry_def release_expired_restart_holder_def restart_decision_def
      restart_blocked_by_other_def holder_of_def Let_def)

lemma direct_gateway_permits:
  assumes "hb_agent_id hb = ''w''" "hb_needs_restart hb"
  shows "fst (handle_agent_heartbeat example_gateway_env now (Some hb) direct_gateway) =
    Replied \<lparr>hr_worker_state = ''draining'', hr_restart_allowed = True\<rparr>"
proof -
  have "tr_type (gc_transport (fst (manager_snapshot (gw_manager direct_gateway)))) = []"
    by (simp add: direct_gateway_def manager_snapshot_def clone_gateway_config_def)
  moreover have "gw_workers direct_gateway = new_worker_registry (6 * second)" by (simp add: direct_gateway_def example_gateway_def)
  moreover have "trim_space ''w'' \<noteq> []" by code_simp
  ultimately show ?thesis using assms fresh_permission[OF assms(2), of now "6 * second"]
    by (auto simp: handle_agent_heartbeat_def keep_heartbeat_def split: prod.splits)
qed


end
