(* ===== verification/Accounting.thy ===== *)
theory Accounting
  imports GoStd "HOL-Library.Multiset" "HOL-Library.Word"
begin

text \<open>
  The book of requests in flight (internal/gateway/accounting.go): one record per acquisition under an ownership key, and how many
  there are per model, tag and worker. The closure \<open>Acquire\<close> returns runs \<open>release\<close> of its key at most once.
\<close>

section \<open>The book\<close>

record request_accounting =
  ra_request_id :: string
  ra_model :: string
  ra_tag :: string
  ra_worker_id :: string

record accounting =
  ac_next_request :: "64 word"
  ac_requests :: "(64 word, request_accounting) gomap"
  ac_models :: "(string, int) gomap"
  ac_tags :: "(string, int) gomap"
  ac_workers :: "(string, int) gomap"

definition new_accounting :: accounting where
  "new_accounting = \<lparr>ac_next_request = 0, ac_requests = [], ac_models = [], ac_tags = [], ac_workers = []\<rparr>"

definition increment_count :: "string \<Rightarrow> (string, int) gomap \<Rightarrow> (string, int) gomap" where
  "increment_count key counts = mput key (mget 0 counts key + 1) counts"

definition decrement_count :: "string \<Rightarrow> (string, int) gomap \<Rightarrow> (string, int) gomap" where
  "decrement_count key counts =
     (if mget 0 counts key \<le> 1 then mdel key counts else mput key (mget 0 counts key - 1) counts)"

definition accounting_acquire ::
  "string \<Rightarrow> string \<Rightarrow> string \<Rightarrow> string \<Rightarrow> accounting \<Rightarrow> 64 word \<times> accounting" where
  "accounting_acquire request_id model tag worker_id a =
     (let key = ac_next_request a + 1;
          entry = \<lparr>ra_request_id = request_id, ra_model = model, ra_tag = tag, ra_worker_id = worker_id\<rparr>
      in (key, a\<lparr>ac_next_request := key, ac_requests := mput key entry (ac_requests a),
                 ac_models := increment_count model (ac_models a), ac_tags := increment_count tag (ac_tags a),
                 ac_workers := increment_count worker_id (ac_workers a)\<rparr>))"

definition accounting_release :: "64 word \<Rightarrow> accounting \<Rightarrow> accounting" where
  "accounting_release key a =
     (case map_of (ac_requests a) key of
        None \<Rightarrow> a
      | Some entry \<Rightarrow> a\<lparr>ac_requests := mdel key (ac_requests a),
          ac_models := decrement_count (ra_model entry) (ac_models a), ac_tags := decrement_count (ra_tag entry) (ac_tags a),
          ac_workers := decrement_count (ra_worker_id entry) (ac_workers a)\<rparr>)"

definition accounting_model_active :: "accounting \<Rightarrow> string \<Rightarrow> int" where
  "accounting_model_active a model = mget 0 (ac_models a) model"

definition accounting_tag_active :: "accounting \<Rightarrow> string \<Rightarrow> int" where
  "accounting_tag_active a tag = mget 0 (ac_tags a) tag"

definition accounting_worker_active :: "accounting \<Rightarrow> string \<Rightarrow> int" where
  "accounting_worker_active a worker_id = mget 0 (ac_workers a) worker_id"

section \<open>The snapshot by request\<close>

text \<open>
  The key of a record in the snapshot: its request id when that is its own, otherwise a name made from the ownership key, and in
  any case with a number added while the name is taken. The search ends because the snapshot is finite.
\<close>

definition numbered_key :: "string \<Rightarrow> nat \<Rightarrow> string" where
  "numbered_key base n = base @ '':'' @ itoa (int n)"

lemma numbered_key_inject [simp]: "numbered_key base m = numbered_key base n \<longleftrightarrow> m = n"
  by (simp add: numbered_key_def)

lemma fewer_taken:
  assumes "mhas out (numbered_key base n)"
  shows "card {m. Suc n \<le> m \<and> mhas out (numbered_key base m)} < card {m. n \<le> m \<and> mhas out (numbered_key base m)}"
proof (rule psubset_card_mono)
  let ?S = "{m. n \<le> m \<and> mhas out (numbered_key base m)}"
  have "numbered_key base ` ?S \<subseteq> set (mkeys out)" by (auto simp: mhas_iff)
  then have "finite (numbered_key base ` ?S)" using finite_subset by blast
  then show "finite ?S" by (rule finite_imageD) (simp add: inj_on_def)
  have "n \<in> ?S" "n \<notin> {m. Suc n \<le> m \<and> mhas out (numbered_key base m)}" using assms by simp_all
  moreover have "{m. Suc n \<le> m \<and> mhas out (numbered_key base m)} \<subseteq> ?S" by auto
  ultimately show "{m. Suc n \<le> m \<and> mhas out (numbered_key base m)} \<subset> ?S" by blast
qed

function free_key :: "string \<Rightarrow> (string, 'v) gomap \<Rightarrow> nat \<Rightarrow> string" where
  "free_key base out n = (if mhas out (numbered_key base n) then free_key base out (Suc n) else numbered_key base n)"
  by pat_completeness auto
termination
  by (relation "measure (\<lambda>(base, out, n). card {m. n \<le> m \<and> mhas out (numbered_key base m)})") (simp_all add: fewer_taken)

declare free_key.simps [simp del]

definition synthetic_request_key :: "64 word \<Rightarrow> string" where
  "synthetic_request_key key = ''__acquire:'' @ itoa (uint key)"

definition snapshot_key :: "accounting \<Rightarrow> 64 word \<Rightarrow> request_accounting \<Rightarrow> (string, 'v) gomap \<Rightarrow> string" where
  "snapshot_key a key entry out =
     (let same = length (filter (\<lambda>(k, e). ra_request_id e = ra_request_id entry) (ac_requests a));
          base = (if ra_request_id entry = [] \<or> same > 1 then synthetic_request_key key else ra_request_id entry)
      in if mhas out base then free_key base out 2 else base)"

definition add_request :: "accounting \<Rightarrow> 64 word \<times> request_accounting \<Rightarrow> (string, request_accounting) gomap \<Rightarrow>
  (string, request_accounting) gomap" where
  "add_request a item out = (case item of (key, entry) \<Rightarrow> mput (snapshot_key a key entry out) entry out)"

definition request_snapshot :: "accounting \<Rightarrow> (string, request_accounting) gomap" where
  "request_snapshot a = fold (add_request a) (ac_requests a) []"

section \<open>Every record is in the snapshot\<close>

lemma free_key_free: "\<not> mhas out (free_key base out n)"
  by (induction base out n rule: free_key.induct) (subst free_key.simps, simp)

lemma snapshot_key_free: "\<not> mhas out (snapshot_key a key entry out)"
  by (simp add: snapshot_key_def Let_def free_key_free)

lemma mset_mput_new: "\<not> mhas m k \<Longrightarrow> mset (mput k v m) = add_mset (k, v) (mset m)"
  unfolding mput_def mhas_def by (induction m) (auto split: if_splits)

lemma snapshot_values:
  "image_mset snd (mset (fold (add_request a) items out)) = image_mset snd (mset items) + image_mset snd (mset out)"
  by (induction items arbitrary: out) (auto simp: add_request_def mset_mput_new snapshot_key_free)

lemma snapshot_mwf: "mwf out \<Longrightarrow> mwf (fold (add_request a) items out)"
  by (induction items arbitrary: out) (auto simp: add_request_def mwf_mput)

text \<open>
  The snapshot of the requests in flight loses none and invents none, whatever request ids the clients chose (the same id several
  times, no id at all, or one that looks like a generated name), and no two records share a key.
\<close>

theorem request_snapshot_complete:
  "image_mset snd (mset (request_snapshot a)) = image_mset snd (mset (ac_requests a)) \<and> mwf (request_snapshot a)"
  by (simp add: request_snapshot_def snapshot_values snapshot_mwf)

section \<open>The counts\<close>

text \<open>The states after \<open>n\<close> acquisitions; a key is not given twice before the counter wraps.\<close>

inductive accounting_reachable :: "nat \<Rightarrow> accounting \<Rightarrow> bool" where
  book_start: "accounting_reachable 0 new_accounting"
| book_acquire: "\<lbrakk>accounting_reachable n a; accounting_acquire request_id model tag worker_id a = (key, a')\<rbrakk> \<Longrightarrow>
    accounting_reachable (Suc n) a'"
| book_release: "accounting_reachable n a \<Longrightarrow> accounting_reachable n (accounting_release key a)"

definition tally :: "('a \<Rightarrow> string) \<Rightarrow> 'a list \<Rightarrow> string \<Rightarrow> int" where
  "tally f xs k = int (length (filter (\<lambda>x. f x = k) xs))"

definition counts_are :: "('a \<Rightarrow> string) \<Rightarrow> 'a list \<Rightarrow> (string, int) gomap \<Rightarrow> bool" where
  "counts_are f xs counts \<longleftrightarrow> (\<forall>k. mget 0 counts k = tally f xs k) \<and> (\<forall>k. mhas counts k \<longrightarrow> 0 < mget 0 counts k) \<and> mwf counts"

lemma tally_nonneg [simp]: "0 \<le> tally f xs k" by (simp add: tally_def)

lemma counts_are_new: "counts_are f [] []"
  by (simp add: counts_are_def tally_def mhas_def)

lemma counts_are_increment:
  assumes "counts_are f xs counts" "mset ys = add_mset x (mset xs)"
  shows "counts_are f ys (increment_count (f x) counts)"
proof -
  have "tally f ys k = tally f xs k + (if f x = k then 1 else 0)" for k
  proof -
    have "size (filter_mset (\<lambda>x. f x = k) (mset ys)) = size (filter_mset (\<lambda>x. f x = k) (add_mset x (mset xs)))" using assms(2) by simp
    then show ?thesis by (simp add: tally_def flip: mset_filter split: if_splits)
  qed
  moreover have "0 \<le> mget 0 counts k" for k using assms(1) by (simp add: counts_are_def)
  ultimately show ?thesis using assms(1)
    by (auto simp: counts_are_def increment_count_def mget_mput mwf_mput mhas_def map_of_mput add_nonneg_pos split: if_splits)
qed

lemma counts_are_decrement:
  assumes "counts_are f xs counts" "mset xs = add_mset x (mset ys)"
  shows "counts_are f ys (decrement_count (f x) counts)"
proof -
  have t: "tally f xs k = tally f ys k + (if f x = k then 1 else 0)" for k
  proof -
    have "size (filter_mset (\<lambda>x. f x = k) (mset xs)) = size (filter_mset (\<lambda>x. f x = k) (add_mset x (mset ys)))" using assms(2) by simp
    then show ?thesis by (simp add: tally_def flip: mset_filter split: if_splits)
  qed
  have m: "mget 0 counts k = tally f ys k + (if f x = k then 1 else 0)" for k using assms(1) t by (simp add: counts_are_def)
  have w: "mwf counts" and p: "mhas counts k \<Longrightarrow> 0 < mget 0 counts k" for k using assms(1) by (auto simp: counts_are_def)
  show ?thesis
  proof (cases "mget 0 counts (f x) \<le> 1")
    case True
    then have z: "tally f ys (f x) = 0" using m[of "f x"] tally_nonneg[of f ys "f x"] by simp
    have "0 < mget 0 (mdel (f x) counts) k" if h: "mhas (mdel (f x) counts) k" for k
    proof -
      have "k \<noteq> f x" "mhas counts k" using h by (auto simp: mhas_def split: if_splits)
      with p[of k] show ?thesis by (simp add: mget_mdel)
    qed
    then show ?thesis using True m w z by (simp add: counts_are_def decrement_count_def mget_mdel)
  next
    case False
    have "0 < mget 0 (mput (f x) (mget 0 counts (f x) - 1) counts) k" if h: "mhas (mput (f x) (mget 0 counts (f x) - 1) counts) k" for k
    proof (cases "k = f x")
      case True
      then show ?thesis using False by (simp add: mget_mput)
    next
      case ne: False
      then have "mhas counts k" using h by (simp add: mhas_def)
      with p[of k] ne show ?thesis by (simp add: mget_mput)
    qed
    then show ?thesis using False m w by (simp add: counts_are_def decrement_count_def mget_mput)
  qed
qed

definition book_ok :: "nat \<Rightarrow> accounting \<Rightarrow> bool" where
  "book_ok n a \<longleftrightarrow> ac_next_request a = of_nat n \<and> mwf (ac_requests a) \<and>
     (\<forall>k \<in> fst ` set (ac_requests a). \<exists>i \<le> n. 0 < i \<and> k = of_nat i) \<and>
     counts_are (ra_model \<circ> snd) (ac_requests a) (ac_models a) \<and> counts_are (ra_tag \<circ> snd) (ac_requests a) (ac_tags a) \<and>
     counts_are (ra_worker_id \<circ> snd) (ac_requests a) (ac_workers a)"

lemma mset_mdel: "mwf m \<Longrightarrow> map_of m k = Some v \<Longrightarrow> mset m = add_mset (k, v) (mset (mdel k m))"
proof (induction m)
  case (Cons x m)
  obtain k' v' where x: "x = (k', v')" by fastforce
  show ?case
  proof (cases "k' = k")
    case True
    then have "k \<notin> fst ` set m" using Cons.prems(1) x by (simp add: mwf_def mkeys_def)
    then have "AList.delete k m = m" by (simp add: delete_idem)
    then show ?thesis using True x Cons.prems(2) by (simp add: mdel_def)
  next
    case False
    then show ?thesis using x Cons by (auto simp: mdel_def mwf_def mkeys_def)
  qed
qed simp

lemma reachable_book_ok: "accounting_reachable n a \<Longrightarrow> n < 2 ^ 64 \<Longrightarrow> book_ok n a"
proof (induction rule: accounting_reachable.induct)
  case book_start
  show ?case by (simp add: book_ok_def new_accounting_def counts_are_new)
next
  case (book_acquire n a request_id model tag worker_id key a')
  then have ok: "book_ok n a" by simp
  have key: "key = of_nat (Suc n)" using book_acquire.hyps(2) ok by (auto simp: accounting_acquire_def Let_def book_ok_def)
  have "(of_nat (Suc n) :: 64 word) \<noteq> of_nat i" if "i \<le> n" for i
  proof
    assume "(of_nat (Suc n) :: 64 word) = of_nat i"
    then have "unat (of_nat (Suc n) :: 64 word) = unat (of_nat i :: 64 word)" by simp
    then have "Suc n mod 2 ^ 64 = i mod 2 ^ 64" by (simp only: unat_of_nat) simp
    with book_acquire.prems that show False by simp
  qed
  then have new: "\<not> mhas (ac_requests a) key" using ok key by (force simp: book_ok_def mhas_iff mkeys_def)
  note m = mset_mput_new[OF new]
  have "0 < Suc n" by simp
  let ?e = "\<lparr>ra_request_id = request_id, ra_model = model, ra_tag = tag, ra_worker_id = worker_id\<rparr>"
  have a': "a' = a\<lparr>ac_next_request := key, ac_requests := mput key ?e (ac_requests a), ac_models := increment_count model (ac_models a),
      ac_tags := increment_count tag (ac_tags a), ac_workers := increment_count worker_id (ac_workers a)\<rparr>"
    using book_acquire.hyps(2) by (auto simp: accounting_acquire_def Let_def)
  have "fst ` set (mput key ?e (ac_requests a)) = insert key (fst ` set (ac_requests a))"
    using set_mkeys_mput[of key ?e "ac_requests a"] by (simp add: mkeys_def)
  then have "\<forall>k \<in> fst ` set (mput key ?e (ac_requests a)). \<exists>i \<le> Suc n. 0 < i \<and> k = of_nat i"
    using ok key unfolding book_ok_def by (metis insertE le_SucI order_refl zero_less_Suc)
  moreover have "counts_are (ra_model \<circ> snd) (mput key ?e (ac_requests a)) (increment_count model (ac_models a))"
    "counts_are (ra_tag \<circ> snd) (mput key ?e (ac_requests a)) (increment_count tag (ac_tags a))"
    "counts_are (ra_worker_id \<circ> snd) (mput key ?e (ac_requests a)) (increment_count worker_id (ac_workers a))"
    using counts_are_increment[OF _ m[of ?e], of "ra_model \<circ> snd" "ac_models a"] counts_are_increment[OF _ m[of ?e], of "ra_tag \<circ> snd" "ac_tags a"]
      counts_are_increment[OF _ m[of ?e], of "ra_worker_id \<circ> snd" "ac_workers a"] ok by (simp_all add: book_ok_def)
  ultimately show ?case using ok key by (simp add: a' book_ok_def)
next
  case (book_release n a key)
  then have ok: "book_ok n a" by simp
  show ?case
  proof (cases "map_of (ac_requests a) key")
    case None
    then show ?thesis using ok by (simp add: accounting_release_def)
  next
    case (Some e)
    then have m: "mset (ac_requests a) = add_mset (key, e) (mset (mdel key (ac_requests a)))" using ok mset_mdel by (auto simp: book_ok_def)
    have "set (ac_requests a) = insert (key, e) (set (mdel key (ac_requests a)))" using arg_cong[OF m, of set_mset] by simp
    then have "\<forall>k \<in> fst ` set (mdel key (ac_requests a)). \<exists>i \<le> n. 0 < i \<and> k = of_nat i" using ok by (simp add: book_ok_def)
    then show ?thesis using ok Some
      counts_are_decrement[OF _ m, of "ra_model \<circ> snd" "ac_models a"] counts_are_decrement[OF _ m, of "ra_tag \<circ> snd" "ac_tags a"]
      counts_are_decrement[OF _ m, of "ra_worker_id \<circ> snd" "ac_workers a"]
      by (simp add: accounting_release_def book_ok_def)
  qed
qed

text \<open>
  What the book says of a worker, a model or a tag is the number of its records, and an entry that drops to zero is gone.
\<close>

theorem book_counts_records:
  assumes "accounting_reachable n a" "n < 2 ^ 64"
  shows "accounting_worker_active a w = tally (ra_worker_id \<circ> snd) (ac_requests a) w \<and>
    accounting_model_active a m = tally (ra_model \<circ> snd) (ac_requests a) m \<and>
    accounting_tag_active a t = tally (ra_tag \<circ> snd) (ac_requests a) t \<and>
    (mhas (ac_workers a) w \<longleftrightarrow> 0 < accounting_worker_active a w)"
proof -
  note ok = reachable_book_ok[OF assms]
  then have "mhas (ac_workers a) w \<longleftrightarrow> 0 < mget 0 (ac_workers a) w"
    by (auto simp: book_ok_def counts_are_def mhas_def mget_def split: option.splits)
  with ok show ?thesis
    by (simp add: book_ok_def counts_are_def accounting_worker_active_def accounting_model_active_def accounting_tag_active_def)
qed

definition example_book :: accounting where
  "example_book = snd (accounting_acquire ''r'' ''m'' ''gpu'' ''w'' (snd (accounting_acquire ''r'' ''m'' ''gpu'' ''v'' new_accounting)))"

lemma example_book_reachable: "accounting_reachable 2 (accounting_release 1 example_book)"
proof -
  have "accounting_reachable (Suc (Suc 0)) example_book"
    unfolding example_book_def by (rule book_acquire[OF book_acquire[OF book_start]]) (rule prod.collapse[symmetric])+
  then show ?thesis by (simp add: book_release numeral_2_eq_2)
qed

theorem book_counts_records_witness:
  "accounting_worker_active (accounting_release 1 example_book) ''w'' = 1 \<and>
   accounting_worker_active (accounting_release 1 example_book) ''v'' = 0"
proof -
  have "ac_requests (accounting_release 1 example_book) =
      [(2, \<lparr>ra_request_id = ''r'', ra_model = ''m'', ra_tag = ''gpu'', ra_worker_id = ''w''\<rparr>)]"
    by (simp add: example_book_def accounting_release_def accounting_acquire_def new_accounting_def Let_def mput_def mdel_def
      increment_count_def)
  then show ?thesis using book_counts_records[OF example_book_reachable, of "''w''" "''m''" "''gpu''"]
    book_counts_records[OF example_book_reachable, of "''v''" "''m''" "''gpu''"] by (simp add: tally_def)
qed

end
