(* ===== verification/RequestBodies.thy ===== *)
theory RequestBodies
  imports Access
begin

text \<open>
  What the gateway reads from and writes into the bodies it forwards: the model of a request (ExtractModel of
  internal/gateway/llamaswap_client.go), the rewriting of an alias (internal/gateway/model_alias.go), the changes for SGLang
  models (internal/gateway/proxy.go) and the fields of the request log (internal/gateway/request_log_parse.go).
  A body is its bytes. The codec is a parameter: \<open>bo_parse\<close> gives the first JSON value of a text with the members of an object in
  document order, repetitions included, and numbers as they are written (\<open>UseNumber\<close>); \<open>bo_marshal\<close> is \<open>json.Marshal\<close>,
  \<open>bo_float\<close> and \<open>bo_trunc\<close> are the conversions of a number to float64 and of that to int.
\<close>

section \<open>Values\<close>

datatype json =
    JNull
  | JBool bool
  | JNumber string
  | JString string
  | JArray "json list"
  | JObject "(string \<times> json) list"

record body_ops =
  bo_parse :: "string \<Rightarrow> json option"
  bo_marshal :: "json \<Rightarrow> string option"
  bo_float :: "string \<Rightarrow> go_float option"
  bo_trunc :: "go_float \<Rightarrow> int"

text \<open>A Go map holds the last value of a repeated member. \<open>any_value\<close> is what is stored into an \<open>any\<close>.\<close>

definition members :: "(string \<times> 'v) list \<Rightarrow> (string, 'v) gomap" where
  "members kvs = fold (\<lambda>(k, v). mput k v) kvs []"

fun any_value :: "json \<Rightarrow> json" where
  "any_value (JArray vs) = JArray (map any_value vs)"
| "any_value (JObject kvs) = JObject (members (map (\<lambda>(k, v). (k, any_value v)) kvs))"
| "any_value v = v"

text \<open>Decoding into \<open>map[string]any\<close>: \<open>null\<close> leaves the nil map, and any other value that is not an object is an error.\<close>

definition decode_object :: "body_ops \<Rightarrow> string \<Rightarrow> (string, json) gomap option" where
  "decode_object ops body =
     (case bo_parse ops body of
        Some (JObject kvs) \<Rightarrow> (case any_value (JObject kvs) of JObject m \<Rightarrow> Some m | _ \<Rightarrow> None)
      | Some JNull \<Rightarrow> Some []
      | _ \<Rightarrow> None)"

text \<open>Type assertions; a member that is missing is the nil interface.\<close>

fun as_string :: "json \<Rightarrow> string" where
  "as_string (JString s) = s"
| "as_string v = []"

fun as_array :: "json \<Rightarrow> json list option" where
  "as_array (JArray vs) = Some vs"
| "as_array v = None"

fun as_object :: "json \<Rightarrow> (string, json) gomap option" where
  "as_object (JObject m) = Some m"
| "as_object v = None"

definition contains_text :: "string \<Rightarrow> string \<Rightarrow> bool" where
  "contains_text s sub = list_ex (\<lambda>i. has_prefix (drop i s) sub) [0..<Suc (length s)]"

section \<open>The model of a request\<close>

text \<open>
  Decoding into a struct: a member whose name is \<open>model\<close> up to case sets the field, the last one in the document wins, \<open>null\<close> leaves
  the field alone and any other type is an error in the end.
\<close>

fun model_member :: "string \<times> json \<Rightarrow> string option \<Rightarrow> string option" where
  "model_member (k, v) field =
     (if \<not> equal_fold k ''model'' then field
      else case v of JNull \<Rightarrow> field | JString s \<Rightarrow> map_option (\<lambda>x. s) field | _ \<Rightarrow> None)"

definition extract_model :: "body_ops \<Rightarrow> string \<Rightarrow> string" where
  "extract_model ops body =
     (case bo_parse ops body of
        Some (JObject kvs) \<Rightarrow> (case fold model_member kvs (Some []) of Some s \<Rightarrow> trim_space s | None \<Rightarrow> [])
      | _ \<Rightarrow> [])"

definition rewrite_request_model :: "body_ops \<Rightarrow> string \<Rightarrow> string \<Rightarrow> string option" where
  "rewrite_request_model ops body resolved =
     (case decode_object ops body of
        None \<Rightarrow> None
      | Some payload \<Rightarrow> bo_marshal ops (JObject (mput ''model'' (JString resolved) payload)))"

section \<open>SGLang models\<close>

definition is_sglang_model :: "model \<Rightarrow> bool" where
  "is_sglang_model m = contains_text (to_lower (m_run m)) ''sglang''"

fun json_number_is_zero :: "body_ops \<Rightarrow> json \<Rightarrow> bool" where
  "json_number_is_zero ops (JNumber n) = (bo_float ops n = Some (Finite 0))"
| "json_number_is_zero ops v = False"

definition normalize_top_k :: "body_ops \<Rightarrow> (string, json) gomap \<Rightarrow> bool \<times> (string, json) gomap" where
  "normalize_top_k ops payload =
     (case map_of payload ''top_k'' of
        None \<Rightarrow> (False, payload)
      | Some raw \<Rightarrow>
          if json_number_is_zero ops raw then (True, mput ''top_k'' (JNumber ''-1'') payload) else (False, payload))"

definition media_part_type :: "string \<Rightarrow> string option" where
  "media_part_type t =
     (if t = ''image'' then Some ''image_url'' else if t = ''video'' then Some ''video_url''
      else if t = ''audio'' then Some ''audio_url'' else None)"

definition normalize_transformers_media_part :: "(string, json) gomap \<Rightarrow> bool \<times> (string, json) gomap" where
  "normalize_transformers_media_part part =
     (let url = as_string (mget JNull part ''url'')
      in if url = [] then (False, part)
         else case media_part_type (as_string (mget JNull part ''type'')) of
                None \<Rightarrow> (False, part)
              | Some t \<Rightarrow> (True, mdel ''url''
                  (mput t (JObject [(''url'', JString url)]) (mput ''type'' (JString t) part))))"

definition normalize_part :: "json \<Rightarrow> bool \<times> json" where
  "normalize_part raw =
     (case as_object raw of
        None \<Rightarrow> (False, raw)
      | Some part \<Rightarrow> (let (changed, part') = normalize_transformers_media_part part in (changed, JObject part')))"

definition normalize_message :: "json \<Rightarrow> bool \<times> json" where
  "normalize_message raw =
     (case as_object raw of
        None \<Rightarrow> (False, raw)
      | Some message \<Rightarrow>
          (case as_array (mget JNull message ''content'') of
             None \<Rightarrow> (False, raw)
           | Some content \<Rightarrow>
               (let parts = map normalize_part content
                in (list_ex fst parts, JObject (mput ''content'' (JArray (map snd parts)) message)))))"

definition normalize_transformers_media_parts :: "(string, json) gomap \<Rightarrow> bool \<times> (string, json) gomap" where
  "normalize_transformers_media_parts payload =
     (case as_array (mget JNull payload ''messages'') of
        None \<Rightarrow> (False, payload)
      | Some messages \<Rightarrow>
          (let ms = map normalize_message messages
           in (list_ex fst ms, mput ''messages'' (JArray (map snd ms)) payload)))"

definition normalize_proxy_request_body :: "body_ops \<Rightarrow> string \<Rightarrow> model \<Rightarrow> string" where
  "normalize_proxy_request_body ops body model =
     (if \<not> is_sglang_model model then body
      else case decode_object ops body of
             None \<Rightarrow> body
           | Some payload \<Rightarrow>
               (let (top_k, payload) = normalize_top_k ops payload;
                    (media, payload) = normalize_transformers_media_parts payload
                in if \<not> (media \<or> top_k) then body
                   else case bo_marshal ops (JObject payload) of None \<Rightarrow> body | Some s \<Rightarrow> s))"

section \<open>The request log\<close>

text \<open>\<open>json.Number.Int64\<close>.\<close>

definition parse_int64 :: "string \<Rightarrow> int option" where
  "parse_int64 s =
     (let neg = has_prefix s ''-''; digits = (if neg \<or> has_prefix s ''+'' then tl s else s);
          n = (if neg then - int (decimal digits) else int (decimal digits))
      in if digits = [] \<or> \<not> list_all is_digit digits \<or> n < min_int64 \<or> max_int64 < n then None else Some n)"

fun int_from_any :: "body_ops \<Rightarrow> json \<Rightarrow> int" where
  "int_from_any ops (JNumber s) =
     (case parse_int64 s of
        Some n \<Rightarrow> n
      | None \<Rightarrow> (case bo_float ops s of Some x \<Rightarrow> bo_trunc ops x | None \<Rightarrow> 0))"
| "int_from_any ops v = 0"

fun float_ptr_from_any :: "body_ops \<Rightarrow> json \<Rightarrow> go_float option" where
  "float_ptr_from_any ops (JNumber s) = bo_float ops s"
| "float_ptr_from_any ops v = None"

fun string_from_any :: "body_ops \<Rightarrow> json \<Rightarrow> string" where
  "string_from_any ops (JString s) = s"
| "string_from_any ops (JNumber s) = s"
| "string_from_any ops JNull = []"
| "string_from_any ops v = (case bo_marshal ops v of Some s \<Rightarrow> s | None \<Rightarrow> [])"

definition zero_log_entry :: request_log_entry where
  "zero_log_entry = \<lparr>rl_time = 0, rl_request_id = [], rl_model = [], rl_requested_model = [], rl_worker_id = [], rl_tag = [],
     rl_status_code = 0, rl_duration_ms = 0, rl_stream = False, rl_request_bytes = 0, rl_response_bytes = 0,
     rl_message_count = 0, rl_image_count = 0, rl_video_count = 0, rl_audio_count = 0, rl_max_tokens = 0,
     rl_temperature = None, rl_top_p = None, rl_top_k = None, rl_prompt_tokens = 0, rl_completion_tokens = 0,
     rl_total_tokens = 0, rl_cache_tokens = 0, rl_reasoning_tokens = 0, rl_finish_reason = [], rl_error_type = [],
     rl_error_code = [], rl_error_message = [], rl_retry_count = 0, rl_upstream_url = [], rl_request_headers = [],
     rl_cost_by_token_rmb = Finite 0, rl_cost_by_request_rmb = Finite 0, rl_billing_per_request_usd = Finite 0,
     rl_billing_input_per_million_usd = Finite 0, rl_billing_output_per_million_usd = Finite 0,
     rl_billing_cached_input_per_million_usd = Finite 0, rl_model_used_cost_usd = Finite 0, rl_cost_calculated_at = None\<rparr>"

text \<open>The parts of the messages whose content is a list of objects, by the type of the part.\<close>

definition message_parts :: "json \<Rightarrow> (string, json) gomap list" where
  "message_parts raw =
     (case as_object raw of
        None \<Rightarrow> []
      | Some message \<Rightarrow>
          (case as_array (mget JNull message ''content'') of
             None \<Rightarrow> []
           | Some content \<Rightarrow> List.map_filter as_object content))"

definition count_parts :: "string list \<Rightarrow> json list \<Rightarrow> int" where
  "count_parts types messages =
     int (length (filter (\<lambda>part. mget JNull part ''type'' \<in> JString ` set types) (concat (map message_parts messages))))"

definition request_log_entry_from_body :: "body_ops \<Rightarrow> string \<Rightarrow> string \<Rightarrow> string \<Rightarrow> request_log_entry" where
  "request_log_entry_from_body ops request_id model body =
     (let entry = zero_log_entry\<lparr>rl_request_id := request_id, rl_model := model, rl_request_bytes := int (length body)\<rparr>
      in case decode_object ops body of
           None \<Rightarrow> entry
         | Some payload \<Rightarrow>
             (let entry = entry\<lparr>rl_stream := (mget JNull payload ''stream'' = JBool True),
                    rl_max_tokens := int_from_any ops (mget JNull payload ''max_tokens''),
                    rl_temperature := float_ptr_from_any ops (mget JNull payload ''temperature''),
                    rl_top_p := float_ptr_from_any ops (mget JNull payload ''top_p''),
                    rl_top_k := float_ptr_from_any ops (mget JNull payload ''top_k'')\<rparr>
              in case as_array (mget JNull payload ''messages'') of
                   None \<Rightarrow> entry
                 | Some messages \<Rightarrow> entry\<lparr>rl_message_count := int (length messages),
                     rl_image_count := count_parts [''image'', ''image_url''] messages,
                     rl_video_count := count_parts [''video'', ''video_url''] messages,
                     rl_audio_count := count_parts [''audio'', ''audio_url''] messages\<rparr>))"

text \<open>
  \<open>http.Header\<close>: the values by canonical name. \<open>canonical_header\<close> is \<open>textproto.CanonicalMIMEHeaderKey\<close>: a name of token
  characters gets capitals after hyphens, any other name is left as it is.
\<close>

type_synonym http_header = "(string, string list) gomap"

definition token_char :: "char \<Rightarrow> bool" where
  "token_char c \<longleftrightarrow> is_digit c \<or> (65 \<le> byte c \<and> byte c \<le> 90) \<or> (97 \<le> byte c \<and> byte c \<le> 122) \<or>
     c \<in> set ''!#$%&*+-.^_|~'' \<or> byte c = 39 \<or> byte c = 96"

definition ascii_upper :: "char \<Rightarrow> char" where
  "ascii_upper c = (if 97 \<le> byte c \<and> byte c \<le> 122 then char_of (byte c - 32) else c)"

fun capitalize_words :: "bool \<Rightarrow> string \<Rightarrow> string" where
  "capitalize_words first [] = []"
| "capitalize_words first (c # cs) =
     (if first then ascii_upper c else ascii_lower c) # capitalize_words (c = CHR ''-'') cs"

definition canonical_header :: "string \<Rightarrow> string" where
  "canonical_header name = (if list_all token_char name then capitalize_words True name else name)"

definition header_values :: "http_header \<Rightarrow> string \<Rightarrow> string list" where
  "header_values h name = mget [] h (canonical_header name)"

definition header_get :: "http_header \<Rightarrow> string \<Rightarrow> string" where
  "header_get h name = (case header_values h name of [] \<Rightarrow> [] | v # vs \<Rightarrow> v)"

definition header_set :: "string \<Rightarrow> string \<Rightarrow> http_header \<Rightarrow> http_header" where
  "header_set name v h = mput (canonical_header name) [v] h"

definition header_add :: "string \<Rightarrow> string \<Rightarrow> http_header \<Rightarrow> http_header" where
  "header_add name v h = mput (canonical_header name) (header_values h name @ [v]) h"

definition header_del :: "string \<Rightarrow> http_header \<Rightarrow> http_header" where
  "header_del name h = mdel (canonical_header name) h"

definition skip_request_header_log :: "string \<Rightarrow> bool" where
  "skip_request_header_log lower_name \<longleftrightarrow>
     lower_name \<in> {''x-request-id'', ''request-id'', ''x-api-key'', ''x-goog-api-key''} \<or>
     list_ex (contains_text lower_name) [''authorization'', ''credential'', ''password'', ''secret'', ''token'']"

definition request_x_headers_for_log :: "http_header \<Rightarrow> (string, string) gomap" where
  "request_x_headers_for_log header =
     (let lowers = map (\<lambda>(name, vs). to_lower (trim_space name)) header;
          names = sort (filter (\<lambda>n. has_prefix n ''x-'' \<and> \<not> skip_request_header_log n) lowers);
          copied = (\<lambda>n. filter (\<lambda>v. v \<noteq> []) (map trim_space (header_values header n)))
      in fold (\<lambda>n out. if copied n \<noteq> [] then mput n (join_with '', '' (copied n)) out else out) names [])"

definition first_positive_int :: "int \<Rightarrow> int \<Rightarrow> int" where
  "first_positive_int current next_value = (if next_value > 0 then next_value else current)"

definition parse_usage :: "body_ops \<Rightarrow> (string, json) gomap \<Rightarrow> request_log_entry \<Rightarrow> request_log_entry" where
  "parse_usage ops usage entry =
     (let number = (\<lambda>m name. int_from_any ops (mget JNull m name));
          entry = entry\<lparr>rl_prompt_tokens := first_positive_int (rl_prompt_tokens entry) (number usage ''prompt_tokens''),
            rl_completion_tokens := first_positive_int (rl_completion_tokens entry) (number usage ''completion_tokens''),
            rl_total_tokens := first_positive_int (rl_total_tokens entry) (number usage ''total_tokens''),
            rl_reasoning_tokens := first_positive_int (rl_reasoning_tokens entry) (number usage ''reasoning_tokens''),
            rl_cache_tokens := first_positive_int (rl_cache_tokens entry) (number usage ''cache_tokens'')\<rparr>
      in case as_object (mget JNull usage ''prompt_tokens_details'') of
           None \<Rightarrow> entry
         | Some details \<Rightarrow>
             entry\<lparr>rl_cache_tokens := first_positive_int (rl_cache_tokens entry) (number details ''cached_tokens'')\<rparr>)"

definition first_finish_reason :: "json list \<Rightarrow> string option" where
  "first_finish_reason choices =
     find (\<lambda>s. s \<noteq> []) (map (\<lambda>c. as_string (mget JNull c ''finish_reason'')) (List.map_filter as_object choices))"

definition parse_openai_response_object :: "body_ops \<Rightarrow> (string, json) gomap \<Rightarrow> request_log_entry \<Rightarrow> request_log_entry" where
  "parse_openai_response_object ops payload entry =
     (let entry = (case as_object (mget JNull payload ''usage'') of None \<Rightarrow> entry | Some usage \<Rightarrow> parse_usage ops usage entry);
          entry = (case as_array (mget JNull payload ''choices'') of
                     None \<Rightarrow> entry
                   | Some choices \<Rightarrow>
                       (case first_finish_reason choices of None \<Rightarrow> entry | Some s \<Rightarrow> entry\<lparr>rl_finish_reason := s\<rparr>))
      in case as_object (mget JNull payload ''error'') of
           None \<Rightarrow> entry
         | Some e \<Rightarrow> entry\<lparr>rl_error_type := string_from_any ops (mget JNull e ''type''),
             rl_error_code := string_from_any ops (mget JNull e ''code''),
             rl_error_message := string_from_any ops (mget JNull e ''message'')\<rparr>)"

text \<open>One line of a stream of server-sent events.\<close>

definition parse_stream_line :: "body_ops \<Rightarrow> string \<Rightarrow> request_log_entry \<Rightarrow> request_log_entry" where
  "parse_stream_line ops raw entry =
     (let line = trim_space raw
      in if \<not> has_prefix line ''data:'' then entry
         else
           let data = trim_space (drop (length ''data:'') line)
           in if data = [] \<or> data = ''[DONE]'' then entry
              else case decode_object ops data of
                     None \<Rightarrow> entry
                   | Some payload \<Rightarrow> parse_openai_response_object ops payload entry)"

definition parse_openai_stream_log :: "body_ops \<Rightarrow> string \<Rightarrow> request_log_entry \<Rightarrow> request_log_entry" where
  "parse_openai_stream_log ops body entry = fold (parse_stream_line ops) (split_on (CHR 0x0A) body) entry"

definition parse_openai_response_log :: "body_ops \<Rightarrow> string \<Rightarrow> request_log_entry \<Rightarrow> request_log_entry" where
  "parse_openai_response_log ops body entry =
     (let trimmed = trim_space body
      in if contains_text trimmed ''data:'' then parse_openai_stream_log ops trimmed entry
         else case decode_object ops trimmed of
                None \<Rightarrow> entry
              | Some payload \<Rightarrow> parse_openai_response_object ops payload entry)"

definition merge_request_log_entry :: "request_log_entry \<Rightarrow> request_log_entry \<Rightarrow> request_log_entry" where
  "merge_request_log_entry base extra =
     base\<lparr>rl_response_bytes := rl_response_bytes extra, rl_prompt_tokens := rl_prompt_tokens extra,
       rl_completion_tokens := rl_completion_tokens extra, rl_total_tokens := rl_total_tokens extra,
       rl_cache_tokens := rl_cache_tokens extra, rl_reasoning_tokens := rl_reasoning_tokens extra,
       rl_finish_reason := rl_finish_reason extra, rl_error_type := rl_error_type extra,
       rl_error_code := rl_error_code extra, rl_error_message := rl_error_message extra,
       rl_upstream_url := rl_upstream_url extra\<rparr>"

end
