(* ===== verification/Upstream.thy ===== *)
theory Upstream
  imports RequestBodies
begin

text \<open>
  One hop to a worker (internal/gateway/proxy.go): the URL of the upstream request, the headers that are passed on in either
  direction, which failures are worth another worker, and the copying of a body. \<open>net/url\<close> is a parameter: \<open>uo_parse\<close> is
  \<open>url.Parse\<close>, with the text of its \<open>url.Error\<close>, \<open>uo_string\<close> is \<open>URL.String\<close> and \<open>uo_quote\<close> is \<open>strconv.Quote\<close>.
\<close>

section \<open>URLs\<close>

record url =
  url_scheme :: string
  url_user :: string
  url_host :: string
  url_path :: string
  url_raw_query :: string
  url_fragment :: string

record url_ops =
  uo_parse :: "string \<Rightarrow> string + url"
  uo_string :: "url \<Rightarrow> string"
  uo_quote :: "string \<Rightarrow> string"

definition has_suffix :: "string \<Rightarrow> string \<Rightarrow> bool" where
  "has_suffix s suffix = has_prefix (rev s) (rev suffix)"

definition single_joining_slash :: "string \<Rightarrow> string \<Rightarrow> string" where
  "single_joining_slash a b =
     (let aslash = has_suffix a ''/''; bslash = has_prefix b ''/''
      in if aslash \<and> bslash then a @ tl b else if \<not> aslash \<and> \<not> bslash then a @ ''/'' @ b else a @ b)"

text \<open>An error of a call to a worker: what \<open>errors.Is\<close> and \<open>errors.As\<close> find in it.\<close>

record call_error =
  ce_canceled :: bool
  ce_http_status :: bool
  ce_url_error :: bool
  ce_net_error :: bool
  ce_text :: string

definition url_error :: "string \<Rightarrow> call_error" where
  "url_error text = \<lparr>ce_canceled = False, ce_http_status = False, ce_url_error = True, ce_net_error = True, ce_text = text\<rparr>"

text \<open>Both errors are a \<open>url.Error\<close>: the base does not parse, or it has no scheme or no host.\<close>

definition upstream_request_url :: "url_ops \<Rightarrow> string \<Rightarrow> url \<Rightarrow> call_error + string" where
  "upstream_request_url ops base_url request_url =
     (case uo_parse ops (trim_right_char (CHR ''/'') base_url) of
        Inl text \<Rightarrow> Inl (url_error text)
      | Inr base \<Rightarrow>
          if url_scheme base = [] \<or> url_host base = []
          then Inl (url_error (''parse '' @ uo_quote ops base_url @ '': missing upstream base url''))
          else Inr (uo_string ops (base\<lparr>url_path := single_joining_slash (url_path base) (url_path request_url),
                 url_raw_query := url_raw_query request_url, url_fragment := []\<rparr>)))"

section \<open>Headers\<close>

definition hop_by_hop_header :: "string \<Rightarrow> bool" where
  "hop_by_hop_header name \<longleftrightarrow> to_lower name \<in> {''connection'', ''keep-alive'', ''proxy-authenticate'', ''proxy-authorization'',
     ''te'', ''trailer'', ''transfer-encoding'', ''upgrade''}"

definition connection_header_names :: "http_header \<Rightarrow> string list" where
  "connection_header_names h =
     filter (\<lambda>n. n \<noteq> [])
       (concat (map (\<lambda>v. map (\<lambda>n. to_lower (trim_space n)) (split_on (CHR '','') v)) (header_values h ''Connection'')))"

definition add_values :: "string \<Rightarrow> string list \<Rightarrow> http_header \<Rightarrow> http_header" where
  "add_values key values dst = fold (header_add key) values dst"

definition copy_request_headers :: "http_header \<Rightarrow> http_header \<Rightarrow> http_header" where
  "copy_request_headers dst src =
     fold (\<lambda>(key, values) dst.
         if hop_by_hop_header key \<or> to_lower key \<in> set (connection_header_names src) then dst else add_values key values dst)
       src dst"

definition copy_response_headers :: "http_header \<Rightarrow> http_header \<Rightarrow> http_header" where
  "copy_response_headers dst src =
     fold (\<lambda>(key, values) dst.
         if hop_by_hop_header key \<or> to_lower key \<in> set (connection_header_names src) then dst else add_values key values dst)
       src dst"

definition request_id_from_header :: "http_header \<Rightarrow> string" where
  "request_id_from_header h = trim_space (header_get h ''X-Request-Id'')"

text \<open>\<open>ensureRequestID\<close>; \<open>fresh\<close> is the text of \<open>nextRequestID\<close>.\<close>

definition ensure_request_id :: "string \<Rightarrow> http_header \<Rightarrow> string \<times> http_header" where
  "ensure_request_id fresh h =
     (let request_id = request_id_from_header h
      in if request_id = [] then (fresh, header_set ''X-Request-Id'' fresh h) else (request_id, h))"

text \<open>\<open>nextRequestID\<close>, from the clock and the counter after it was incremented.\<close>

definition next_request_id :: "int \<Rightarrow> nat \<Rightarrow> string" where
  "next_request_id nanos sequence = ''req-'' @ itoa nanos @ ''-'' @ itoa (int sequence)"

definition upstream_headers :: "http_header \<Rightarrow> string \<Rightarrow> string \<Rightarrow> string \<Rightarrow> http_header" where
  "upstream_headers client model worker_id token =
     (let h = copy_request_headers [] client;
          h = header_set ''X-Request-Id'' (request_id_from_header client) h;
          h = header_set ''X-Gateway-Model'' model h;
          h = header_set ''X-Gateway-Worker'' worker_id h
      in if token \<noteq> [] then header_set ''Authorization'' (''Bearer '' @ token) h else header_del ''Authorization'' h)"

section \<open>Failures\<close>

record proxy_dispatch_failure =
  df_status :: int
  df_code :: string
  df_message :: string
  df_cooldown_eligible :: bool

definition worker_unavailable_failure :: "bool \<Rightarrow> proxy_dispatch_failure" where
  "worker_unavailable_failure eligible =
     \<lparr>df_status = 503, df_code = ''worker_unavailable'', df_message = ''selected worker is unavailable'', df_cooldown_eligible = eligible\<rparr>"

text \<open>\<open>http.StatusText\<close> for the statuses the proxy tries again after.\<close>

definition retry_status_text :: "int \<Rightarrow> string" where
  "retry_status_text status =
     (if status = 404 then ''Not Found'' else if status = 429 then ''Too Many Requests'' else if status = 502 then ''Bad Gateway''
      else if status = 503 then ''Service Unavailable'' else if status = 504 then ''Gateway Timeout'' else [])"

definition upstream_retry_exhausted_failure :: "int \<Rightarrow> proxy_dispatch_failure" where
  "upstream_retry_exhausted_failure status =
     \<lparr>df_status = status, df_code = ''upstream_retry_exhausted'',
      df_message = (if retry_status_text status \<noteq> []
        then ''upstream returned '' @ retry_status_text status @ '' after exhausting proxy attempts''
        else ''upstream returned a retryable status after exhausting proxy attempts''),
      df_cooldown_eligible = True\<rparr>"

definition retryable_upstream_status :: "int \<Rightarrow> bool" where
  "retryable_upstream_status status \<longleftrightarrow> status \<in> {429, 502, 503, 504}"

definition retryable_platform_404 :: "http_header \<Rightarrow> string \<Rightarrow> bool" where
  "retryable_platform_404 header body =
     (let media_type = takeWhile (\<lambda>c. c \<noteq> CHR '';'') (to_lower (trim_space (header_get header ''Content-Type'')));
          lower = to_lower (trim_space body)
      in trim_space media_type = ''text/html'' \<or> has_prefix lower ''<!doctype html>'' \<or> has_prefix lower ''<html'')"

definition is_reverse_access_failure :: "call_error \<Rightarrow> bool" where
  "is_reverse_access_failure e = (if ce_canceled e \<or> ce_http_status e then False else ce_url_error e \<or> ce_net_error e)"

definition retryable_proxy_error :: "call_error \<Rightarrow> bool \<Rightarrow> bool" where
  "retryable_proxy_error e client_gone = (\<not> client_gone)"

section \<open>Copying a body\<close>

text \<open>
  The reads of a body, each with whether the client took the bytes, and whether they end with \<open>io.EOF\<close> or with an error: what
  was captured, what was handed to the client, and whether the copy is complete.
\<close>

fun copy_response_body :: "(string \<times> bool) list \<Rightarrow> bool \<Rightarrow> string \<times> string list \<times> bool" where
  "copy_response_body [] eof = ([], [], eof)"
| "copy_response_body ((chunk, taken) # reads) eof =
     (if chunk = [] then copy_response_body reads eof
      else if \<not> taken then (chunk, [chunk], False)
      else let (captured, writes, complete) = copy_response_body reads eof
           in (chunk @ captured, chunk # writes, complete))"

section \<open>What is passed on\<close>

lemma to_lower_token: "list_all token_char s \<Longrightarrow> to_lower s = map ascii_lower s"
proof (induction s)
  case (Cons c s)
  then have "byte c < 128" by (auto simp: token_char_def is_digit_def byte_def)
  then have "\<not> bytes_at [0xE2, 0x84, 0xAA] (c # s)" "\<not> bytes_at [0xC4, 0xB0] (c # s)" by (auto simp: bytes_at_def)
  with Cons show ?case by simp
qed simp

end
