(* ===== verification/Proxy.thy ===== *)
theory Proxy
  imports AgentEndpoints QueueLimits Placement Accounting Upstream
begin

text \<open>
  The way of a request through the gateway (handleModelProxy of internal/gateway/proxy.go with modelCapacity of
  internal/gateway/model_capacity.go): the places it takes at the queue limiter, the worker it is given, the calls it makes, and
  the response. \<open>proxy_shared\<close> is the state all requests share. Other requests, heartbeats and control actions run between
  the steps of this one: each point where the handler waits or calls out has a function of its input that says what they did.
  \<open>rs_log\<close> lists what the handler does. Prometheus counters and log lines, which nothing reads back, are left out, and so are the
  records store and the request log file, whose failures are only logged: the entry they are given is in the log.
\<close>

section \<open>State\<close>

record ('c, 'l) proxy_shared =
  px_server :: "('c, 'l) gateway_server"
  px_limiter :: queue_limiter
  px_cooldowns :: replica_cooldowns
  px_access :: access_tracker
  px_pressure :: pressure_tracker
  px_recent_requests :: "request_log_entry list"
  px_accounting :: accounting

datatype proxy_action =
    TakesPlace string
  | GivesPlace string
  | TakesWorker string
  | GivesWorker string
  | Dispatches string string http_header string
  | WritesHeader int http_header
  | WritesBody string
  | WritesError int string string
  | RecordsRequest request_log_entry

record ('c, 'l) request_state =
  rs_shared :: "('c, 'l) proxy_shared"
  rs_log :: "proxy_action list"

type_synonym ('c, 'l) others = "('c, 'l) proxy_shared \<Rightarrow> ('c, 'l) proxy_shared"

text \<open>The arithmetic of float64 is a parameter; \<open>fo_of_int\<close> is the conversion of an int.\<close>

record float_ops =
  fo_of_int :: "int \<Rightarrow> go_float"
  fo_add :: "go_float \<Rightarrow> go_float \<Rightarrow> go_float"
  fo_mul :: "go_float \<Rightarrow> go_float \<Rightarrow> go_float"
  fo_div :: "go_float \<Rightarrow> go_float \<Rightarrow> go_float"

record proxy_env =
  pe_body :: body_ops
  pe_url :: url_ops
  pe_float :: float_ops
  pe_attempts :: int

definition on_shared :: "('c, 'l) others \<Rightarrow> ('c, 'l) request_state \<Rightarrow> ('c, 'l) request_state" where
  "on_shared f st = st\<lparr>rs_shared := f (rs_shared st)\<rparr>"

definition acts :: "proxy_action list \<Rightarrow> ('c, 'l) request_state \<Rightarrow> ('c, 'l) request_state" where
  "acts as st = st\<lparr>rs_log := rs_log st @ as\<rparr>"

definition px_workers :: "('c, 'l) proxy_shared \<Rightarrow> registry" where
  "px_workers s = gw_workers (px_server s)"

definition put_workers :: "registry \<Rightarrow> ('c, 'l) others" where
  "put_workers r s = s\<lparr>px_server := (px_server s)\<lparr>gw_workers := r\<rparr>\<rparr>"

definition current_config :: "('c, 'l) proxy_shared \<Rightarrow> gateway_config" where
  "current_config s = fst (manager_snapshot (gw_manager (px_server s)))"

section \<open>Capacity and replicas\<close>

definition selected_worker_tag :: "gateway_config \<Rightarrow> worker \<Rightarrow> string \<Rightarrow> string" where
  "selected_worker_tag cfg w model =
     (case find (\<lambda>tag. case tag_policy_of cfg tag of None \<Rightarrow> False | Some policy \<Rightarrow> allowed_model policy model) (w_tags w) of
        Some tag \<Rightarrow> tag
      | None \<Rightarrow> (case w_tags w of [] \<Rightarrow> [] | tag # tags \<Rightarrow> tag))"

text \<open>The capacity one worker adds to a model, or \<open>continue\<close>.\<close>

definition worker_capacity :: "gateway_config \<Rightarrow> registry \<Rightarrow> string \<Rightarrow> time \<Rightarrow> worker \<Rightarrow> worker_defaults option" where
  "worker_capacity cfg r model now w =
     (if \<not> healthy r (w_id w) now \<or> \<not> worker_allows_model cfg w model \<or> \<not> artifact_ready w model \<or> \<not> running_model_ready w model
      then None
      else let tag = selected_worker_tag cfg w model
           in if tag_policy_of cfg tag = None then None else Some (model_tag_capacity cfg model tag))"

definition model_capacity_of :: "string \<Rightarrow> time \<Rightarrow> ('c, 'l) proxy_shared \<Rightarrow> worker_defaults \<times> ('c, 'l) proxy_shared" where
  "model_capacity_of model now s =
     (let cfg = active_gateway_config (current_config s)
      in if \<not> mhas (gc_models cfg) model then (\<lparr>wd_max_concurrency = 0, wd_max_queue = 0\<rparr>, s)
         else
           let (workers, r) = snapshot now (px_workers s);
               cs = List.map_filter (worker_capacity cfg r model now) workers
           in (\<lparr>wd_max_concurrency = sum_list (map wd_max_concurrency cs), wd_max_queue = sum_list (map wd_max_queue cs)\<rparr>,
               put_workers r s))"

record queue_replica_stats =
  qr_ready_replicas :: int
  qr_occupied_replicas :: int
  qr_max_loaded :: int

definition replica_stats_from_decision :: "schedule_decision \<Rightarrow> queue_replica_stats" where
  "replica_stats_from_decision d =
     \<lparr>qr_ready_replicas = pd_ready_replicas d, qr_occupied_replicas = pd_occupied_replicas d, qr_max_loaded = pd_max_loaded d\<rparr>"

definition replica_stats :: "string \<Rightarrow> time \<Rightarrow> ('c, 'l) proxy_shared \<Rightarrow> queue_replica_stats \<times> ('c, 'l) proxy_shared" where
  "replica_stats model now s =
     (let cfg = active_gateway_config (current_config s);
          (workers, r) = snapshot now (px_workers s);
          able = filter (\<lambda>w. healthy r (w_id w) now \<and> worker_allows_model cfg w model \<and> artifact_ready w model) workers
      in (\<lparr>qr_ready_replicas = int (length (filter (\<lambda>w. running_model_ready w model) able)),
           qr_occupied_replicas = int (length (filter (\<lambda>w. running_model_state w model \<noteq> None) able)),
           qr_max_loaded = (case map_of (gc_models cfg) model of None \<Rightarrow> 0 | Some m \<Rightarrow> effective_max_loaded_cfg m)\<rparr>,
          put_workers r s))"

section \<open>Places\<close>

definition observe_queue ::
  "time \<Rightarrow> string \<Rightarrow> queue_acquire_stats \<Rightarrow> queue_replica_stats \<Rightarrow> ('c, 'l) proxy_shared \<Rightarrow> ('c, 'l) proxy_shared" where
  "observe_queue now model stats replicas s =
     s\<lparr>px_pressure := record_queue now
         \<lparr>qo_time = now, qo_model = model, qo_result = queue_result_string (qs_result stats), qo_wait_ms = qs_wait_ms stats,
          qo_ready_replicas = qr_ready_replicas replicas, qo_occupied_replicas = qr_occupied_replicas replicas,
          qo_active_before = qs_active_before stats, qo_queued_before = qs_queued_before stats\<rparr> (px_pressure s)\<rparr>"

text \<open>
  What happens to a request that has to wait: what the others do meanwhile, and whether it is the end of its context (the client
  is gone or the queue timeout has passed) that wakes it.
\<close>

record ('c, 'l) limit_input =
  li_others :: "('c, 'l) others"
  li_context_ended :: bool
  li_start :: time
  li_now :: time

text \<open>A place, whose release closure does nothing when there is no limit; a refusal; or a request that still waits.\<close>

datatype limit_result = Place "string option" | NoPlace queue_error | Waits

definition end_of_wait ::
  "('c, 'l) limit_input \<Rightarrow> string \<Rightarrow> queue_acquire_stats \<Rightarrow> nat \<Rightarrow> ('c, 'l) proxy_shared \<Rightarrow>
   (limit_result \<times> queue_acquire_stats) \<times> ('c, 'l) proxy_shared" where
  "end_of_wait inp key stats w s =
     (let s = li_others inp s
      in if li_context_ended inp then
           (case acquire_done key w stats (li_start inp) (li_now inp) (px_limiter s) of
              (Some (Inl (e, stats)), l) \<Rightarrow> ((NoPlace e, stats), s\<lparr>px_limiter := l\<rparr>)
            | (Some (Inr stats), l) \<Rightarrow> ((Place (Some key), stats), s\<lparr>px_limiter := l\<rparr>)
            | (None, l) \<Rightarrow> ((Waits, stats), s\<lparr>px_limiter := l\<rparr>))
         else if w \<in> set (ql_closed (px_limiter s)) then
           ((Place (Some key), acquire_ready stats (li_start inp) (li_now inp)), s)
         else ((Waits, stats), s))"

definition acquire_with_stats ::
  "('c, 'l) limit_input \<Rightarrow> string \<Rightarrow> int \<Rightarrow> int \<Rightarrow> ('c, 'l) proxy_shared \<Rightarrow>
   (limit_result \<times> queue_acquire_stats) \<times> ('c, 'l) proxy_shared" where
  "acquire_with_stats inp key max_active max_queue s =
     (case acquire_begin key max_active max_queue (px_limiter s) of
        (Unlimited stats, l) \<Rightarrow> ((Place None, stats), s\<lparr>px_limiter := l\<rparr>)
      | (Admitted stats, l) \<Rightarrow> ((Place (Some key), stats), s\<lparr>px_limiter := l\<rparr>)
      | (Rejected stats e, l) \<Rightarrow> ((NoPlace e, stats), s\<lparr>px_limiter := l\<rparr>)
      | (Waiting stats w, l) \<Rightarrow> end_of_wait inp key stats w (s\<lparr>px_limiter := l\<rparr>))"

fun refused :: "limit_result \<Rightarrow> bool" where
  "refused (NoPlace e) = True"
| "refused r = False"

fun takes_place :: "limit_result \<Rightarrow> proxy_action list" where
  "takes_place (Place (Some key)) = [TakesPlace key]"
| "takes_place r = []"

definition acquire_observed_limit ::
  "('c, 'l) limit_input \<Rightarrow> string \<Rightarrow> string \<Rightarrow> int \<Rightarrow> int \<Rightarrow> queue_replica_stats \<Rightarrow> ('c, 'l) request_state \<Rightarrow>
   limit_result \<times> ('c, 'l) request_state" where
  "acquire_observed_limit inp model key max_active max_queue replicas st =
     (case acquire_with_stats inp key max_active max_queue (rs_shared st) of
        ((result, stats), s) \<Rightarrow>
          (let s = (if result \<noteq> Waits \<and> (max_active > 0 \<or> refused result \<or> qs_waited stats)
                    then observe_queue (li_now inp) model stats replicas s else s)
           in (result, acts (takes_place result) (st\<lparr>rs_shared := s\<rparr>))))"

fun release_place :: "string option \<Rightarrow> ('c, 'l) request_state \<Rightarrow> ('c, 'l) request_state" where
  "release_place None st = st"
| "release_place (Some key) st =
     acts [GivesPlace key] (on_shared (\<lambda>s. s\<lparr>px_limiter := release_slot key (px_limiter s)\<rparr>) st)"

definition write_queue_error :: "queue_error \<Rightarrow> ('c, 'l) request_state \<Rightarrow> ('c, 'l) request_state" where
  "write_queue_error e st =
     acts [WritesError 429 ''queue_full'' (if e = ErrQueueTimeout then ''request waited longer than the configured queue timeout''
       else ''request queue is full'')] st"

section \<open>One attempt\<close>

definition record_gateway_worker_event :: "string \<Rightarrow> time \<Rightarrow> agent_event \<Rightarrow> ('c, 'l) others" where
  "record_gateway_worker_event worker_id now e s = s\<lparr>px_server := record_agent_event worker_id now e (px_server s)\<rparr>"

definition gateway_event :: "string \<Rightarrow> string \<Rightarrow> string \<Rightarrow> agent_event" where
  "gateway_event name model err =
     \<lparr>ev_time = 0, ev_event = name, ev_model = model, ev_from_state = [], ev_to_state = [], ev_object = [], ev_kind = [],
      ev_crc64ecma = [], ev_downloaded_bytes = 0, ev_total_bytes = 0, ev_percent = Finite 0, ev_duration_ms = 0, ev_error = err\<rparr>"

definition record_reverse_access_failure ::
  "string \<Rightarrow> call_error \<Rightarrow> time \<Rightarrow> ('c, 'l) proxy_shared \<Rightarrow> bool \<times> ('c, 'l) proxy_shared" where
  "record_reverse_access_failure worker_id e now s =
     (if worker_id = [] then (False, s)
      else case record_reverse_failure worker_id now (px_workers s) of
             (True, r) \<Rightarrow> (True, record_gateway_worker_event worker_id now
                (gateway_event ''gateway_worker_reverse_access_unavailable'' [] (ce_text e)) (put_workers r s))
           | (False, r) \<Rightarrow> (False, put_workers r s))"

definition record_reverse_access_result ::
  "string \<Rightarrow> call_error option \<Rightarrow> time \<Rightarrow> ('c, 'l) proxy_shared \<Rightarrow> bool \<times> ('c, 'l) proxy_shared" where
  "record_reverse_access_result worker_id err now s =
     (case err of
        None \<Rightarrow> (False, put_workers (record_scrape_success worker_id (px_workers s)) s)
      | Some e \<Rightarrow>
          if \<not> is_reverse_access_failure e then (False, s) else record_reverse_access_failure worker_id e now s)"

definition record_scrape_result :: "string \<Rightarrow> call_error option \<Rightarrow> time \<Rightarrow> ('c, 'l) others" where
  "record_scrape_result worker_id err now s =
     (case err of
        None \<Rightarrow> put_workers (record_scrape_success worker_id (px_workers s)) s
      | Some e \<Rightarrow>
          if is_reverse_access_failure e then snd (record_reverse_access_failure worker_id e now s)
          else put_workers (record_scrape_failure worker_id now (px_workers s)) s)"

text \<open>The request could not be built, the call failed, or the worker answered with a status, headers and a body.\<close>

datatype upstream_result =
    NoUpstreamRequest
  | CallFails call_error
  | Answers int http_header "(string \<times> bool) list" bool

record ('c, 'l) attempt_input =
  ai_result :: upstream_result
  ai_others :: "('c, 'l) others"
  ai_gone :: bool
  ai_now :: time

record attempt_outcome =
  ao_retry :: bool
  ao_failure :: "proxy_dispatch_failure option"
  ao_error :: bool
  ao_status :: int
  ao_entry :: request_log_entry

definition retry_with :: "proxy_dispatch_failure \<Rightarrow> bool \<Rightarrow> int \<Rightarrow> request_log_entry \<Rightarrow> attempt_outcome" where
  "retry_with failure err status entry =
     \<lparr>ao_retry = True, ao_failure = Some failure, ao_error = err, ao_status = status, ao_entry = entry\<rparr>"

definition finish_with :: "bool \<Rightarrow> int \<Rightarrow> request_log_entry \<Rightarrow> attempt_outcome" where
  "finish_with err status entry = \<lparr>ao_retry = False, ao_failure = None, ao_error = err, ao_status = status, ao_entry = entry\<rparr>"

definition passed_response :: "body_ops \<Rightarrow> string \<Rightarrow> request_log_entry \<Rightarrow> request_log_entry" where
  "passed_response ops body entry =
     parse_openai_response_log ops body (entry\<lparr>rl_response_bytes := int (length body)\<rparr>)"

text \<open>After the answer of the worker has arrived; \<open>response_header\<close> is the header of the response so far.\<close>

definition pass_answer ::
  "body_ops \<Rightarrow> http_header \<Rightarrow> request_log_entry \<Rightarrow> int \<Rightarrow> http_header \<Rightarrow> (string \<times> bool) list \<Rightarrow> bool \<Rightarrow>
   ('c, 'l) request_state \<Rightarrow> attempt_outcome \<times> ('c, 'l) request_state" where
  "pass_answer ops response_header entry status header reads eof st =
     (if retryable_upstream_status status
      then (retry_with (upstream_retry_exhausted_failure status) False status entry, st)
      else if status = 404 then
        (let body = concat (map fst reads)
         in if \<not> eof then (finish_with True status entry, st)
            else if retryable_platform_404 header body
            then (retry_with (upstream_retry_exhausted_failure status) False status entry, st)
            else (finish_with False status (passed_response ops body entry),
                  acts [WritesHeader status (copy_response_headers response_header header), WritesBody body] st))
      else
        (let (body, writes, complete) = copy_response_body reads eof;
             st = acts (WritesHeader status (copy_response_headers response_header header) # map WritesBody writes) st
         in (finish_with False status (if complete then passed_response ops body entry else entry), st)))"

definition proxy_attempt ::
  "proxy_env \<Rightarrow> ('c, 'l) attempt_input \<Rightarrow> http_header \<Rightarrow> url \<Rightarrow> http_header \<Rightarrow> string \<Rightarrow> string \<Rightarrow> worker \<Rightarrow> string \<Rightarrow>
   ('c, 'l) request_state \<Rightarrow> attempt_outcome \<times> ('c, 'l) request_state" where
  "proxy_attempt env inp client request_url response_header body model w token st =
     (case upstream_request_url (pe_url env) (w_llama_swap_url w) request_url of
        Inl e \<Rightarrow>
          (case record_reverse_access_result (w_id w) (Some e) (ai_now inp) (rs_shared st) of
             (marked, s) \<Rightarrow> (retry_with (worker_unavailable_failure marked) True 0 zero_log_entry, st\<lparr>rs_shared := s\<rparr>))
      | Inr target \<Rightarrow>
          let entry = zero_log_entry\<lparr>rl_upstream_url := target\<rparr>;
              sent = acts [Dispatches (w_id w) target (upstream_headers client model (w_id w) token) body] (on_shared (ai_others inp) st)
          in (case ai_result inp of
                NoUpstreamRequest \<Rightarrow> (retry_with (worker_unavailable_failure True) True 0 entry, st)
              | CallFails e \<Rightarrow>
                  (case record_reverse_access_result (w_id w) (Some e) (ai_now inp) (rs_shared sent) of
                     (marked, s) \<Rightarrow>
                       (if retryable_proxy_error e (ai_gone inp)
                        then retry_with (worker_unavailable_failure marked) True 0 entry else finish_with True 0 entry,
                        sent\<lparr>rs_shared := s\<rparr>))
              | Answers status header reads eof \<Rightarrow>
                  pass_answer (pe_body env) response_header entry status header reads eof
                    (on_shared (\<lambda>s. snd (record_reverse_access_result (w_id w) None (ai_now inp) s)) sent)))"

section \<open>The record of a request\<close>

definition calculate_configured_usage_cost :: "float_ops \<Rightarrow> model_billing \<Rightarrow> int \<Rightarrow> int \<Rightarrow> int \<Rightarrow> go_float" where
  "calculate_configured_usage_cost ops pricing prompt completion cached =
     (let part = (\<lambda>tokens price. fo_div ops (fo_mul ops (fo_of_int ops tokens) price) (fo_of_int ops 1000000));
          token_cost = fo_add ops (fo_add ops (part (max (prompt - cached) 0) (mb_input_per_million_usd pricing))
            (part completion (mb_output_per_million_usd pricing))) (part cached (mb_cached_input_per_million_usd pricing))
      in case mb_per_request_usd pricing of
           Finite q \<Rightarrow> if q > 0 then Finite q else token_cost
         | PosInf \<Rightarrow> PosInf
         | _ \<Rightarrow> token_cost)"

definition with_request_billing_snapshot ::
  "float_ops \<Rightarrow> gateway_config \<Rightarrow> time \<Rightarrow> request_log_entry \<Rightarrow> request_log_entry" where
  "with_request_billing_snapshot ops cfg now e =
     (if rl_model e = [] then e
      else let pricing = (case map_of (gc_models cfg) (rl_model e) of Some m \<Rightarrow> m_billing m | None \<Rightarrow> zero_billing)
           in e\<lparr>rl_billing_per_request_usd := mb_per_request_usd pricing,
                rl_billing_input_per_million_usd := mb_input_per_million_usd pricing,
                rl_billing_output_per_million_usd := mb_output_per_million_usd pricing,
                rl_billing_cached_input_per_million_usd := mb_cached_input_per_million_usd pricing,
                rl_model_used_cost_usd := calculate_configured_usage_cost ops pricing (rl_prompt_tokens e)
                  (rl_completion_tokens e) (rl_cache_tokens e),
                rl_cost_calculated_at := Some now\<rparr>)"

definition record_recent_request :: "request_log_entry \<Rightarrow> ('c, 'l) others" where
  "record_recent_request e s =
     (if rl_model e = [] then s
      else let recent = px_recent_requests s @ [e]
           in s\<lparr>px_recent_requests := (if length recent > ui_event_limit then drop (length recent - ui_event_limit) recent else recent)\<rparr>)"

definition record_request_stats ::
  "float_ops \<Rightarrow> time \<Rightarrow> request_log_entry \<Rightarrow> ('c, 'l) request_state \<Rightarrow> ('c, 'l) request_state" where
  "record_request_stats ops now e st =
     (let e = with_request_billing_snapshot ops (current_config (rs_shared st)) now e
      in acts [RecordsRequest e]
           (on_shared (\<lambda>s. (record_recent_request e (s\<lparr>px_access := record_access_request now e (px_access s)\<rparr>))
              \<lparr>px_pressure := record_pressure_request now
                 \<lparr>ro_time = rl_time e, ro_model = rl_model e, ro_worker_id = rl_worker_id e, ro_total_tokens = rl_total_tokens e,
                  ro_duration_ms = rl_duration_ms e, ro_status_code = rl_status_code e\<rparr> (px_pressure s)\<rparr>) st))"

section \<open>Cooldowns\<close>

definition mark_replica_cooldown :: "string \<Rightarrow> worker \<Rightarrow> proxy_dispatch_failure \<Rightarrow> time \<Rightarrow> ('c, 'l) others" where
  "mark_replica_cooldown model w failure now s =
     (if \<not> df_cooldown_eligible failure then s
      else s\<lparr>px_cooldowns := snd (mark_cooldown (w_id w) model (df_code failure) now now (px_cooldowns s))\<rparr>)"

definition clear_replica_cooldown :: "string \<Rightarrow> worker \<Rightarrow> time \<Rightarrow> ('c, 'l) others" where
  "clear_replica_cooldown model w now s = s\<lparr>px_cooldowns := snd (clear_cooldown (w_id w) model now now (px_cooldowns s))\<rparr>"

section \<open>One round of the dispatch loop\<close>

text \<open>What stays the same for a request, once its body is read.\<close>

record proxy_request =
  rq_config :: gateway_config
  rq_id :: string
  rq_model :: string
  rq_body :: string
  rq_headers :: http_header
  rq_url :: url
  rq_base_entry :: request_log_entry
  rq_start :: time

record loop_state =
  lo_exclude :: "(string, bool) gomap"
  lo_attempts :: nat
  lo_failure :: "proxy_dispatch_failure option"
  lo_queue_error :: "queue_error option"

datatype proxy_exit = ClientGone | Responded | Blocked

text \<open>\<open>Stop\<close> is the \<open>break\<close> after the scheduler found no worker.\<close>

datatype round_end = Again loop_state | Stop schedule_decision | Returns proxy_exit

record ('c, 'l) round_input =
  ri_gone :: bool
  ri_others :: "('c, 'l) others"
  ri_now :: time
  ri_tag :: "('c, 'l) limit_input"
  ri_worker :: "('c, 'l) limit_input"
  ri_before_acquire :: "('c, 'l) others"
  ri_acquired_at :: time
  ri_attempt :: "('c, 'l) attempt_input"
  ri_gone_after :: bool
  ri_done_at :: time

text \<open>The release closure of a dispatch runs its parts backwards and once.\<close>

definition release_dispatch ::
  "string option \<Rightarrow> string option \<Rightarrow> string \<Rightarrow> 64 word \<Rightarrow> ('c, 'l) request_state \<Rightarrow> ('c, 'l) request_state" where
  "release_dispatch tag_place worker_place worker_id key st =
     acts [GivesWorker worker_id]
       (on_shared (\<lambda>s. put_workers (release_active worker_id (px_workers s)) s)
         (on_shared (\<lambda>s. s\<lparr>px_accounting := accounting_release key (px_accounting s)\<rparr>)
           (release_place worker_place (release_place tag_place st))))"

definition response_header :: "proxy_request \<Rightarrow> http_header" where
  "response_header rq = header_set ''X-Request-Id'' (rq_id rq) []"

definition request_entry :: "proxy_request \<Rightarrow> string \<Rightarrow> string \<Rightarrow> nat \<Rightarrow> int \<Rightarrow> time \<Rightarrow> request_log_entry \<Rightarrow> request_log_entry" where
  "request_entry rq worker_id tag attempts status now response_entry =
     (merge_request_log_entry (rq_base_entry rq) response_entry)
       \<lparr>rl_time := now, rl_worker_id := worker_id, rl_tag := tag, rl_status_code := status,
        rl_duration_ms := time_sub now (rq_start rq) div 1000000, rl_retry_count := int attempts - 1\<rparr>"

text \<open>The end of a request that a worker answered, or whose call failed for good.\<close>

definition conclude ::
  "proxy_env \<Rightarrow> proxy_request \<Rightarrow> worker \<Rightarrow> string \<Rightarrow> nat \<Rightarrow> time \<Rightarrow> attempt_outcome \<Rightarrow>
   ('c, 'l) request_state \<Rightarrow> ('c, 'l) request_state" where
  "conclude env rq w tag attempts now out st =
     (let st = (if ao_error out then acts [WritesError 502 ''upstream_error'' ''upstream request failed''] st else st);
          status = (if ao_error out then 502 else ao_status out);
          entry = request_entry rq (w_id w) tag attempts status now (ao_entry out);
          st = (if 0 < status \<and> status < 500 then on_shared (clear_replica_cooldown (rq_model rq) w now) st else st)
      in record_request_stats (pe_float env) now entry st)"

definition dispatch_round ::
  "proxy_env \<Rightarrow> proxy_request \<Rightarrow> ('c, 'l) round_input \<Rightarrow> loop_state \<Rightarrow> worker \<Rightarrow> string \<Rightarrow> string option \<Rightarrow> string option \<Rightarrow>
   ('c, 'l) request_state \<Rightarrow> round_end \<times> ('c, 'l) request_state" where
  "dispatch_round env rq inp lo w tag tag_place worker_place st =
     (let (key, book) = accounting_acquire (rq_id rq) (rq_model rq) tag (w_id w) (px_accounting (rs_shared st));
          st = on_shared (\<lambda>s. s\<lparr>px_accounting := book\<rparr>) st;
          attempts = Suc (lo_attempts lo);
          (out, st) = proxy_attempt env (ri_attempt inp) (rq_headers rq) (rq_url rq) (response_header rq) (rq_body rq)
            (rq_model rq) w (tok_llama_swap (gc_tokens (rq_config rq))) st;
          st = release_dispatch tag_place worker_place (w_id w) key st;
          lo = lo\<lparr>lo_attempts := attempts,
                 lo_failure := (if ao_failure out \<noteq> None then ao_failure out else lo_failure lo)\<rparr>
      in if ao_error out \<and> ri_gone_after inp then (Returns ClientGone, st)
         else if ao_retry out then
           (Again lo, case ao_failure out of None \<Rightarrow> st
              | Some failure \<Rightarrow> on_shared (mark_replica_cooldown (rq_model rq) w failure (ri_done_at inp)) st)
         else (Returns Responded, conclude env rq w tag attempts (ri_done_at inp) out st))"

text \<open>A place was refused after the scheduler had chosen: a full queue is left for another worker.\<close>

definition refuse_round :: "queue_error \<Rightarrow> loop_state \<Rightarrow> ('c, 'l) request_state \<Rightarrow> round_end \<times> ('c, 'l) request_state" where
  "refuse_round e lo st =
     (if e = ErrQueueFull then (Again (lo\<lparr>lo_queue_error := Some e\<rparr>), st) else (Returns Responded, write_queue_error e st))"

definition schedule_round ::
  "proxy_request \<Rightarrow> time \<Rightarrow> (string, bool) gomap \<Rightarrow> ('c, 'l) proxy_shared \<Rightarrow>
   (schedule_decision \<times> placement_error option) \<times> ('c, 'l) proxy_shared" where
  "schedule_round rq now exclude s =
     (let (cooling, cooldowns) = snapshot_cooldowns now now (px_cooldowns s);
          p = \<lparr>pl_config = rq_config rq, pl_workers = Some (px_workers s), pl_access = Some (px_access s),
               pl_pressure = None, pl_cooldowns = cooling\<rparr>;
          (decision, p) = pick_decision (rq_model rq) now exclude p;
          s = s\<lparr>px_cooldowns := cooldowns\<rparr>
      in (decision, case pl_workers p of Some r \<Rightarrow> put_workers r s | None \<Rightarrow> s))"

definition worker_round ::
  "proxy_env \<Rightarrow> proxy_request \<Rightarrow> ('c, 'l) round_input \<Rightarrow> loop_state \<Rightarrow> worker \<Rightarrow> schedule_decision \<Rightarrow>
   ('c, 'l) request_state \<Rightarrow> round_end \<times> ('c, 'l) request_state" where
  "worker_round env rq inp lo w decision st =
     (let cfg = rq_config rq; model = rq_model rq; replicas = replica_stats_from_decision decision;
          tag = selected_worker_tag cfg w model;
          (max_concurrency, max_queue) =
            (case tag_policy_of cfg tag of Some p \<Rightarrow> (tp_max_concurrency p, tp_max_queue p) | None \<Rightarrow> (0, 0))
      in case acquire_observed_limit (ri_tag inp) model (''tag:'' @ tag) max_concurrency max_queue replicas st of
           (NoPlace e, st) \<Rightarrow> refuse_round e lo st
         | (Waits, st) \<Rightarrow> (Returns Blocked, st)
         | (Place tag_place, st) \<Rightarrow>
             let capacity = model_tag_capacity cfg model tag
             in case acquire_observed_limit (ri_worker inp) model (worker_model_limit_key (w_id w) model)
                  (wd_max_concurrency capacity) (wd_max_queue capacity) replicas st of
                  (NoPlace e, st) \<Rightarrow> refuse_round e lo (release_place tag_place st)
                | (Waits, st) \<Rightarrow> (Returns Blocked, st)
                | (Place worker_place, st) \<Rightarrow>
                    let st = on_shared (ri_before_acquire inp) st
                    in case acquire (w_id w) (ri_acquired_at inp) (px_workers (rs_shared st)) of
                         (False, r) \<Rightarrow> (Again lo, release_place tag_place (release_place worker_place (on_shared (put_workers r) st)))
                       | (True, r) \<Rightarrow>
                           dispatch_round env rq inp lo w tag tag_place worker_place
                             (acts [TakesWorker (w_id w)] (on_shared (put_workers r) st)))"

definition proxy_round ::
  "proxy_env \<Rightarrow> proxy_request \<Rightarrow> ('c, 'l) round_input \<Rightarrow> loop_state \<Rightarrow> ('c, 'l) request_state \<Rightarrow>
   round_end \<times> ('c, 'l) request_state" where
  "proxy_round env rq inp lo st =
     (if ri_gone inp then (Returns ClientGone, st)
      else
        let st = on_shared (ri_others inp) st;
            ((decision, err), s) = schedule_round rq (ri_now inp) (lo_exclude lo) (rs_shared st);
            st = st\<lparr>rs_shared := s\<rparr>
        in case (err, pd_worker decision) of
             (None, Some w) \<Rightarrow> worker_round env rq inp (lo\<lparr>lo_exclude := mput (w_id w) True (lo_exclude lo)\<rparr>) w decision st
           | _ \<Rightarrow> (Stop decision, st))"

section \<open>The loop and the handler\<close>

record ('c, 'l) final_input =
  fi_gone :: bool
  fi_now :: time

definition observe_no_ready :: "time \<Rightarrow> string \<Rightarrow> schedule_decision \<Rightarrow> ('c, 'l) others" where
  "observe_no_ready now model d s =
     (if pd_max_loaded d \<le> 0 \<or> pd_ready_replicas d > 0 then s
      else observe_queue now model ((initial_stats 0 0)\<lparr>qs_result := QueueResultNoReady\<rparr>) (replica_stats_from_decision d) s)"

definition after_loop ::
  "string \<Rightarrow> ('c, 'l) final_input \<Rightarrow> loop_state \<Rightarrow> schedule_decision option \<Rightarrow> ('c, 'l) request_state \<Rightarrow>
   proxy_exit \<times> ('c, 'l) request_state" where
  "after_loop model fin lo unscheduled st =
     (if fi_gone fin then (ClientGone, st)
      else (Responded,
        case lo_failure lo of
          Some f \<Rightarrow> acts [WritesError (df_status f) (df_code f) (df_message f)] st
        | None \<Rightarrow>
            (case lo_queue_error lo of
               Some e \<Rightarrow> write_queue_error e st
             | None \<Rightarrow>
                 acts [WritesError 503 ''no_healthy_worker'' ''no healthy worker is available for the requested model'']
                   (case unscheduled of None \<Rightarrow> st | Some d \<Rightarrow> on_shared (observe_no_ready (fi_now fin) model d) st))))"

text \<open>One input per round; \<open>None\<close> when they are used up and the loop has not ended.\<close>

fun proxy_loop ::
  "proxy_env \<Rightarrow> proxy_request \<Rightarrow> ('c, 'l) final_input \<Rightarrow> ('c, 'l) round_input list \<Rightarrow> loop_state \<Rightarrow> ('c, 'l) request_state \<Rightarrow>
   proxy_exit option \<times> ('c, 'l) request_state" where
  "proxy_loop env rq fin inps lo st =
     (if \<not> int (lo_attempts lo) < pe_attempts env then map_prod Some id (after_loop (rq_model rq) fin lo None st)
      else case inps of
             [] \<Rightarrow> (None, st)
           | inp # rest \<Rightarrow>
               (case proxy_round env rq inp lo st of
                  (Again lo, st) \<Rightarrow> proxy_loop env rq fin rest lo st
                | (Stop d, st) \<Rightarrow> map_prod Some id (after_loop (rq_model rq) fin lo (Some d) st)
                | (Returns e, st) \<Rightarrow> (Some e, st)))"

declare proxy_loop.simps [simp del]

definition first_round :: loop_state where
  "first_round = \<lparr>lo_exclude = [], lo_attempts = 0, lo_failure = None, lo_queue_error = None\<rparr>"

record ('c, 'l) proxy_input =
  pi_body :: "string option"
  pi_headers :: http_header
  pi_url :: url
  pi_fresh_id :: string
  pi_start :: time
  pi_capacity_at :: time
  pi_limit :: "('c, 'l) limit_input"
  pi_rounds :: "('c, 'l) round_input list"
  pi_final :: "('c, 'l) final_input"

text \<open>What is known of the request before it waits for anything, or the error that answers it.\<close>

definition read_request ::
  "proxy_env \<Rightarrow> gateway_config \<Rightarrow> ('c, 'l) proxy_input \<Rightarrow> (int \<times> string \<times> string) + (proxy_request \<times> model)" where
  "read_request env cfg inp =
     (case ensure_request_id (pi_fresh_id inp) (pi_headers inp) of
        (request_id, headers) \<Rightarrow>
          (case pi_body inp of
             None \<Rightarrow> Inl (400, ''invalid_request'', ''failed to read request body'')
           | Some body \<Rightarrow>
               let requested = extract_model (pe_body env) body
               in if requested = [] then Inl (400, ''missing_model'', ''request body must include a non-empty model'')
                  else case resolve_requested_model cfg requested of
                         (model, None) \<Rightarrow> Inl (404, ''model_not_available'', ''model is not available'')
                       | (model, Some model_cfg) \<Rightarrow>
                           (case (if requested = model then Some body else rewrite_request_model (pe_body env) body model) of
                              None \<Rightarrow> Inl (400, ''invalid_request'', ''failed to rewrite request model'')
                            | Some body \<Rightarrow>
                                let body = normalize_proxy_request_body (pe_body env) body model_cfg;
                                    entry = request_log_entry_from_body (pe_body env) request_id model body;
                                    entry = (if requested = model then entry else entry\<lparr>rl_requested_model := requested\<rparr>)
                                in Inr (\<lparr>rq_config = cfg, rq_id = request_id, rq_model = model, rq_body = body,
                                      rq_headers = headers, rq_url = pi_url inp,
                                      rq_base_entry = entry\<lparr>rl_request_headers := request_x_headers_for_log headers\<rparr>,
                                      rq_start = pi_start inp\<rparr>, model_cfg))))"

definition handle_model_proxy ::
  "proxy_env \<Rightarrow> ('c, 'l) proxy_input \<Rightarrow> ('c, 'l) request_state \<Rightarrow> proxy_exit option \<times> ('c, 'l) request_state" where
  "handle_model_proxy env inp st =
     (case read_request env (active_gateway_config (current_config (rs_shared st))) inp of
        Inl (status, code, message) \<Rightarrow> (Some Responded, acts [WritesError status code message] st)
      | Inr (rq, model_cfg) \<Rightarrow>
          let (capacity, s) = model_capacity_of (rq_model rq) (pi_capacity_at inp) (rs_shared st);
              (replicas, s) = replica_stats (rq_model rq) (pi_capacity_at inp) s
          in case acquire_observed_limit (pi_limit inp) (rq_model rq) (''model:'' @ rq_model rq)
                 (effective_capacity (wd_max_concurrency capacity) (m_max_concurrency model_cfg))
                 (effective_capacity (wd_max_queue capacity) (m_max_queue model_cfg)) replicas (st\<lparr>rs_shared := s\<rparr>) of
               (NoPlace e, st) \<Rightarrow> (Some Responded, write_queue_error e st)
             | (Waits, st) \<Rightarrow> (Some Blocked, st)
             | (Place model_place, st) \<Rightarrow>
                 (case proxy_loop env rq (pi_final inp) (pi_rounds inp) first_round st of
                    (Some e, st) \<Rightarrow> (Some e, if e = Blocked then st else release_place model_place st)
                  | (None, st) \<Rightarrow> (None, st)))"

end
