(* ===== verification/ProxyFacts.thy ===== *)
theory ProxyFacts
  imports Proxy PlacementFacts
begin

text \<open>
  The request path. \<open>audit_log\<close> is the protocol of a request as an automaton over its log: it holds the places taken and not yet
  given back, the worker the request is counted on, and whether a response has begun. A request is sent to a worker only while it
  is counted on it, nothing is given back that was not taken, and a response begins once.
\<close>

section \<open>The protocol of a request\<close>

record audit =
  au_places :: "string multiset"
  au_worker :: "string option"
  au_responded :: bool

definition audit_start :: audit where
  "audit_start = \<lparr>au_places = {#}, au_worker = None, au_responded = False\<rparr>"

fun audit_action :: "proxy_action \<Rightarrow> audit \<Rightarrow> audit option" where
  "audit_action (TakesPlace k) a = Some (a\<lparr>au_places := add_mset k (au_places a)\<rparr>)"
| "audit_action (GivesPlace k) a = (if k \<in># au_places a then Some (a\<lparr>au_places := au_places a - {#k#}\<rparr>) else None)"
| "audit_action (TakesWorker w) a = (if au_worker a = None then Some (a\<lparr>au_worker := Some w\<rparr>) else None)"
| "audit_action (GivesWorker w) a = (if au_worker a = Some w then Some (a\<lparr>au_worker := None\<rparr>) else None)"
| "audit_action (Dispatches w u h b) a = (if au_worker a = Some w \<and> \<not> au_responded a then Some a else None)"
| "audit_action (WritesHeader status h) a = (if au_responded a then None else Some (a\<lparr>au_responded := True\<rparr>))"
| "audit_action (WritesBody b) a = (if au_responded a then Some a else None)"
| "audit_action (WritesError status code message) a = (if au_responded a then None else Some (a\<lparr>au_responded := True\<rparr>))"
| "audit_action (RecordsRequest e) a = (if au_responded a then Some a else None)"

fun audit_log :: "proxy_action list \<Rightarrow> audit \<Rightarrow> audit option" where
  "audit_log [] a = Some a"
| "audit_log (x # xs) a = (case audit_action x a of None \<Rightarrow> None | Some b \<Rightarrow> audit_log xs b)"

lemma audit_log_append: "audit_log (xs @ ys) a = (case audit_log xs a of None \<Rightarrow> None | Some b \<Rightarrow> audit_log ys b)"
  by (induction xs arbitrary: a) (auto split: option.splits)

text \<open>\<open>follows st a st' b\<close>: what was done from \<open>st\<close> to \<open>st'\<close> takes the automaton from \<open>a\<close> to \<open>b\<close>.\<close>

definition follows :: "('c, 'l) request_state \<Rightarrow> audit \<Rightarrow> ('c, 'l) request_state \<Rightarrow> audit \<Rightarrow> bool" where
  "follows st a st' b \<longleftrightarrow> (\<exists>new. rs_log st' = rs_log st @ new \<and> audit_log new a = Some b)"

lemma log_simps [simp]:
  "rs_log (acts as st) = rs_log st @ as" "rs_log (on_shared f st) = rs_log st" "rs_log (st\<lparr>rs_shared := s\<rparr>) = rs_log st"
  by (simp_all add: acts_def on_shared_def)

lemma follows_refl [simp]: "follows st a st a"
  by (simp add: follows_def)

lemma follows_same: "rs_log st' = rs_log st \<Longrightarrow> follows st a st' a"
  by (simp add: follows_def)

lemma follows_log: "rs_log st' = rs_log st @ as \<Longrightarrow> audit_log as a = Some b \<Longrightarrow> follows st a st' b"
  by (auto simp: follows_def)

lemma follows_trans: "follows st a st' b \<Longrightarrow> follows st' b st'' c \<Longrightarrow> follows st a st'' c"
  unfolding follows_def by (metis append_assoc audit_log_append option.simps(5))

lemma follows_shared [simp]:
  "follows st a (on_shared f st') b = follows st a st' b" "follows st a (st'\<lparr>rs_shared := s\<rparr>) b = follows st a st' b"
  "follows (on_shared f st) a st' b = follows st a st' b" "follows (st\<lparr>rs_shared := s\<rparr>) a st' b = follows st a st' b"
  by (simp_all add: follows_def)

definition place_of :: "string option \<Rightarrow> string multiset" where
  "place_of p = (case p of None \<Rightarrow> {#} | Some k \<Rightarrow> {#k#})"

lemma place_of_simps [simp]: "place_of None = {#}" "place_of (Some k) = {#k#}"
  by (simp_all add: place_of_def)

fun place_taken :: "limit_result \<Rightarrow> string multiset" where
  "place_taken (Place p) = place_of p"
| "place_taken r = {#}"

lemma acquire_limit_log:
  "acquire_observed_limit inp model key ma mq replicas st = (r, st') \<Longrightarrow> rs_log st' = rs_log st @ takes_place r"
  by (auto simp: acquire_observed_limit_def Let_def split: prod.splits)

lemma acquire_limit_follows:
  assumes "acquire_observed_limit inp model key ma mq replicas st = (r, st')"
  shows "follows st a st' (a\<lparr>au_places := place_taken r + au_places a\<rparr>)"
  by (rule follows_log[OF acquire_limit_log[OF assms]]) (cases r rule: takes_place.cases; simp)

lemma release_place_follows:
  "follows st \<lparr>au_places = place_of p + ps, au_worker = w, au_responded = b\<rparr> (release_place p st)
     \<lparr>au_places = ps, au_worker = w, au_responded = b\<rparr>"
  by (cases p) (auto intro!: follows_log)

lemma not_responded [simp]: "\<not> au_responded a \<Longrightarrow> a\<lparr>au_responded := False\<rparr> = a"
  by (cases a) simp

section \<open>An attempt keeps the protocol\<close>

lemma audit_bodies: "au_responded a \<Longrightarrow> audit_log (map WritesBody ws) a = Some a"
  by (induction ws) auto

lemma pass_answer_follows:
  assumes "pass_answer ops rh entry status header reads eof st = (out, st')" "\<not> au_responded a"
  shows "follows st a st' (a\<lparr>au_responded := \<not> ao_retry out \<and> \<not> ao_error out\<rparr>) \<and> (ao_retry out \<longrightarrow> \<not> ao_error out)"
  using assms
  by (auto simp: pass_answer_def Let_def retry_with_def finish_with_def audit_bodies split: if_splits prod.splits
    intro!: follows_log)

lemma attempt_follows:
  assumes "proxy_attempt env inp client u rh body model w token st = (out, st')" "au_worker a = Some (w_id w)" "\<not> au_responded a"
  shows "follows st a st' (a\<lparr>au_responded := \<not> ao_retry out \<and> \<not> ao_error out\<rparr>)"
proof (cases "upstream_request_url (pe_url env) (w_llama_swap_url w) u")
  case (Inl e)
  then show ?thesis using assms by (auto simp: proxy_attempt_def retry_with_def split: prod.splits intro!: follows_same)
next
  case (Inr target)
  let ?sent = "acts [Dispatches (w_id w) target (upstream_headers client model (w_id w) token) body] (on_shared (ai_others inp) st)"
  have sent: "follows st a ?sent a"
    by (rule follows_log[where as = "[Dispatches (w_id w) target (upstream_headers client model (w_id w) token) body]"])
      (use assms(2,3) in \<open>simp_all\<close>)
  show ?thesis
  proof (cases "ai_result inp")
    case NoUpstreamRequest
    then show ?thesis using assms Inr by (auto simp: proxy_attempt_def retry_with_def intro!: follows_same)
  next
    case (CallFails e)
    then show ?thesis using assms Inr sent
      by (auto simp: proxy_attempt_def Let_def retry_with_def finish_with_def split: prod.splits if_splits)
  next
    case (Answers status header reads eof)
    then have "pass_answer (pe_body env) rh (zero_log_entry\<lparr>rl_upstream_url := target\<rparr>) status header reads eof
        (on_shared (\<lambda>s. snd (record_reverse_access_result (w_id w) None (ai_now inp) s)) ?sent) = (out, st')"
      using assms(1) Inr by (simp add: proxy_attempt_def Let_def)
    from pass_answer_follows[OF this assms(3)] sent show ?thesis by (auto intro: follows_trans)
  qed
qed

section \<open>A round keeps the protocol\<close>

text \<open>What a round that began with the places \<open>ps\<close> leaves behind.\<close>

fun after_round :: "round_end \<Rightarrow> string multiset \<Rightarrow> audit \<Rightarrow> bool" where
  "after_round (Returns Blocked) ps b \<longleftrightarrow> ps \<subseteq># au_places b \<and> au_worker b = None \<and> \<not> au_responded b"
| "after_round (Returns Responded) ps b \<longleftrightarrow> b = \<lparr>au_places = ps, au_worker = None, au_responded = True\<rparr>"
| "after_round r ps b \<longleftrightarrow> b = \<lparr>au_places = ps, au_worker = None, au_responded = False\<rparr>"

lemma release_dispatch_follows:
  "follows st \<lparr>au_places = place_of tag + (place_of wk + ps), au_worker = Some w, au_responded = b\<rparr>
     (release_dispatch tag wk w key st) \<lparr>au_places = ps, au_worker = None, au_responded = b\<rparr>"
proof -
  let ?st = "release_place wk (release_place tag st)"
  have "follows st \<lparr>au_places = place_of tag + (place_of wk + ps), au_worker = Some w, au_responded = b\<rparr>
      ?st \<lparr>au_places = ps, au_worker = Some w, au_responded = b\<rparr>"
    by (rule follows_trans[OF release_place_follows release_place_follows])
  moreover have "follows ?st \<lparr>au_places = ps, au_worker = Some w, au_responded = b\<rparr>
      (release_dispatch tag wk w key st) \<lparr>au_places = ps, au_worker = None, au_responded = b\<rparr>"
    by (rule follows_log[where as = "[GivesWorker w]"]) (simp_all add: release_dispatch_def)
  ultimately show ?thesis by (rule follows_trans)
qed

lemma record_stats_log: "\<exists>e. rs_log (record_request_stats ops now entry st) = rs_log st @ [RecordsRequest e]"
  by (simp add: record_request_stats_def Let_def)

lemma conclude_follows:
  "follows st \<lparr>au_places = ps, au_worker = None, au_responded = \<not> ao_error out\<rparr> (conclude env rq w tag n now out st)
     \<lparr>au_places = ps, au_worker = None, au_responded = True\<rparr>"
  using record_stats_log unfolding conclude_def Let_def
  by (cases "ao_error out") (auto simp: record_request_stats_def Let_def intro!: follows_log)

lemma dispatch_round_follows:
  assumes "dispatch_round env rq inp lo w tag tp wp st = (e, st')"
  shows "\<exists>b. follows st \<lparr>au_places = place_of tp + (place_of wp + ps), au_worker = Some (w_id w), au_responded = False\<rparr> st' b \<and>
    after_round e ps b"
proof -
  let ?a = "\<lparr>au_places = place_of tp + (place_of wp + ps), au_worker = Some (w_id w), au_responded = False\<rparr>"
  obtain key book where acc: "accounting_acquire (rq_id rq) (rq_model rq) tag (w_id w) (px_accounting (rs_shared st)) = (key, book)"
    by fastforce
  let ?st1 = "on_shared (\<lambda>s. s\<lparr>px_accounting := book\<rparr>) st"
  obtain out st2 where at: "proxy_attempt env (ri_attempt inp) (rq_headers rq) (rq_url rq) (response_header rq) (rq_body rq)
      (rq_model rq) w (tok_llama_swap (gc_tokens (rq_config rq))) ?st1 = (out, st2)" by fastforce
  let ?st3 = "release_dispatch tp wp (w_id w) key st2"
  let ?r = "\<not> ao_retry out \<and> \<not> ao_error out"
  have "follows ?st1 ?a st2 (?a\<lparr>au_responded := ?r\<rparr>)" by (rule attempt_follows[OF at]) simp_all
  then have "follows st ?a st2 \<lparr>au_places = place_of tp + (place_of wp + ps), au_worker = Some (w_id w), au_responded = ?r\<rparr>" by simp
  from follows_trans[OF this release_dispatch_follows]
  have st3: "follows st ?a ?st3 \<lparr>au_places = ps, au_worker = None, au_responded = ?r\<rparr>" .
  note eq = assms[unfolded dispatch_round_def acc Let_def prod.case at]
  consider "ao_error out" "ri_gone_after inp" "e = Returns ClientGone" "st' = ?st3"
    | "ao_retry out" "\<exists>lo'. e = Again lo'" "rs_log st' = rs_log ?st3"
    | "\<not> ao_retry out" "e = Returns Responded" "st' = conclude env rq w tag (Suc (lo_attempts lo)) (ri_done_at inp) out ?st3"
    using eq by (auto split: if_splits option.splits)
  then show ?thesis
  proof cases
    case 1
    with st3 show ?thesis by auto
  next
    case 2
    with st3 have "follows st ?a st' \<lparr>au_places = ps, au_worker = None, au_responded = False\<rparr>"
      using follows_trans[OF _ follows_same] by simp
    with 2 show ?thesis by auto
  next
    case 3
    with st3 have "follows st ?a ?st3 \<lparr>au_places = ps, au_worker = None, au_responded = \<not> ao_error out\<rparr>" by simp
    from follows_trans[OF this conclude_follows] 3 show ?thesis by auto
  qed
qed

lemma refuse_round_follows:
  assumes "refuse_round e lo st = (r, st')"
  shows "\<exists>b. follows st \<lparr>au_places = ps, au_worker = None, au_responded = False\<rparr> st' b \<and> after_round r ps b"
  using assms by (auto simp: refuse_round_def write_queue_error_def split: if_splits intro!: exI conjI follows_log)

lemma worker_round_follows:
  assumes "worker_round env rq inp lo w d st = (e, st')"
  shows "\<exists>b. follows st \<lparr>au_places = ps, au_worker = None, au_responded = False\<rparr> st' b \<and> after_round e ps b"
proof -
  let ?a = "\<lambda>q. \<lparr>au_places = q, au_worker = None, au_responded = False\<rparr>"
  let ?tag = "selected_worker_tag (rq_config rq) w (rq_model rq)"
  obtain mc mq where pol: "(case tag_policy_of (rq_config rq) ?tag of Some p \<Rightarrow> (tp_max_concurrency p, tp_max_queue p) | None \<Rightarrow> (0, 0)) =
    (mc, mq)" by fastforce
  let ?cap = "model_tag_capacity (rq_config rq) (rq_model rq) ?tag"
  let ?reps = "replica_stats_from_decision d"
  obtain r1 st1 where q1: "acquire_observed_limit (ri_tag inp) (rq_model rq) (''tag:'' @ ?tag) mc mq ?reps st = (r1, st1)" by fastforce
  note eq1 = assms[unfolded worker_round_def Let_def pol prod.case q1]
  have f1: "follows st (?a ps) st1 (?a (place_taken r1 + ps))" using acquire_limit_follows[OF q1, of "?a ps"] by simp
  show ?thesis
  proof (cases r1)
    case (NoPlace x)
    with eq1 f1 show ?thesis using follows_trans refuse_round_follows[of x lo st1 e st' ps] by auto blast
  next
    case Waits
    with eq1 f1 show ?thesis by auto
  next
    case (Place tp)
    obtain r2 st2 where q2: "acquire_observed_limit (ri_worker inp) (rq_model rq) (worker_model_limit_key (w_id w) (rq_model rq))
        (wd_max_concurrency ?cap) (wd_max_queue ?cap) ?reps st1 = (r2, st2)" by fastforce
    note eq2 = eq1[unfolded Place limit_result.case q2 prod.case]
    have f2: "follows st (?a ps) st2 (?a (place_taken r2 + (place_of tp + ps)))"
      using follows_trans[OF f1 acquire_limit_follows[OF q2]] Place by simp
    show ?thesis
    proof (cases r2)
      case (NoPlace x)
      then have "follows st (?a ps) (release_place tp st2) (?a ps)" using f2 by (auto intro: follows_trans release_place_follows)
      with eq2 NoPlace show ?thesis using follows_trans refuse_round_follows[of x lo "release_place tp st2" e st' ps] by auto blast
    next
      case Waits
      with eq2 f2 show ?thesis by auto
    next
      case wp: (Place wp)
      let ?st3 = "on_shared (ri_before_acquire inp) st2"
      obtain ok r where acq: "acquire (w_id w) (ri_acquired_at inp) (px_workers (rs_shared ?st3)) = (ok, r)" by fastforce
      note eq3 = eq2[unfolded wp limit_result.case acq prod.case]
      have f3: "follows st (?a ps) (on_shared (put_workers r) ?st3) (?a (place_of tp + (place_of wp + ps)))"
        using f2 wp by (simp add: ac_simps)
      show ?thesis
      proof (cases ok)
        case False
        have "follows st (?a ps) (release_place tp (release_place wp (on_shared (put_workers r) ?st3))) (?a ps)"
          using follows_trans[OF f3[unfolded add.left_commute[of "place_of tp"]] follows_trans[OF release_place_follows release_place_follows]] .
        with eq3 False show ?thesis by auto
      next
        case True
        let ?st4 = "acts [TakesWorker (w_id w)] (on_shared (put_workers r) ?st3)"
        have "follows (on_shared (put_workers r) ?st3) (?a (place_of tp + (place_of wp + ps))) ?st4
            \<lparr>au_places = place_of tp + (place_of wp + ps), au_worker = Some (w_id w), au_responded = False\<rparr>"
          by (rule follows_log[where as = "[TakesWorker (w_id w)]"]) simp_all
        from follows_trans[OF f3 this] dispatch_round_follows[of env rq inp lo w ?tag tp wp ?st4 e st' ps] eq3 True
        show ?thesis using follows_trans by auto blast
      qed
    qed
  qed
qed

lemma round_follows:
  assumes "proxy_round env rq inp lo st = (e, st')"
  shows "\<exists>b. follows st \<lparr>au_places = ps, au_worker = None, au_responded = False\<rparr> st' b \<and> after_round e ps b"
proof (cases "ri_gone inp")
  case True
  then show ?thesis using assms by (auto simp: proxy_round_def)
next
  case False
  obtain d err s where q: "schedule_round rq (ri_now inp) (lo_exclude lo) (rs_shared (on_shared (ri_others inp) st)) = ((d, err), s)"
    by (metis surj_pair)
  note eq = assms[unfolded proxy_round_def Let_def q prod.case]
  show ?thesis
  proof (cases "err = None \<and> pd_worker d \<noteq> None")
    case True
    then obtain w where "pd_worker d = Some w" by auto
    with eq False True worker_round_follows[of env rq inp "lo\<lparr>lo_exclude := mput (w_id w) True (lo_exclude lo)\<rparr>" w d
        "(on_shared (ri_others inp) st)\<lparr>rs_shared := s\<rparr>" e st' ps]
    show ?thesis by simp
  next
    case no: False
    then have "e = Stop d" "st' = (on_shared (ri_others inp) st)\<lparr>rs_shared := s\<rparr>"
      using eq False by (cases err; cases "pd_worker d"; auto)+
    then show ?thesis by simp
  qed
qed

section \<open>The whole request\<close>

fun after_exit :: "proxy_exit option \<Rightarrow> string multiset \<Rightarrow> audit \<Rightarrow> bool" where
  "after_exit (Some Responded) ps b \<longleftrightarrow> b = \<lparr>au_places = ps, au_worker = None, au_responded = True\<rparr>"
| "after_exit (Some Blocked) ps b \<longleftrightarrow> ps \<subseteq># au_places b \<and> au_worker b = None \<and> \<not> au_responded b"
| "after_exit e ps b \<longleftrightarrow> b = \<lparr>au_places = ps, au_worker = None, au_responded = False\<rparr>"

lemma after_loop_follows:
  assumes "after_loop model fin lo d st = (e, st')"
  shows "\<exists>b. follows st \<lparr>au_places = ps, au_worker = None, au_responded = False\<rparr> st' b \<and> after_exit (Some e) ps b"
proof (cases "fi_gone fin")
  case True
  then show ?thesis using assms by (auto simp: after_loop_def)
next
  case False
  then have "\<exists>status code message. rs_log st' = rs_log st @ [WritesError status code message]" "e = Responded"
    using assms by (auto simp: after_loop_def write_queue_error_def split: option.splits)
  then show ?thesis by (auto intro!: follows_log)
qed

lemma loop_follows:
  assumes "proxy_loop env rq fin inps lo st = (e, st')"
  shows "\<exists>b. follows st \<lparr>au_places = ps, au_worker = None, au_responded = False\<rparr> st' b \<and> after_exit e ps b"
  using assms
proof (induction env rq fin inps lo st arbitrary: e st' rule: proxy_loop.induct)
  case (1 env rq fin inps lo st)
  let ?a = "\<lparr>au_places = ps, au_worker = None, au_responded = False\<rparr>"
  note eq = "1.prems"[unfolded proxy_loop.simps[of env rq fin inps lo st]]
  show ?case
  proof (cases "int (lo_attempts lo) < pe_attempts env")
    case False
    obtain x y where "after_loop (rq_model rq) fin lo None st = (x, y)" by fastforce
    with eq False after_loop_follows[OF this] show ?thesis by auto
  next
    case True
    show ?thesis
    proof (cases inps)
      case Nil
      with eq True show ?thesis by auto
    next
      case (Cons inp rest)
      obtain r st1 where q: "proxy_round env rq inp lo st = (r, st1)" by fastforce
      note eq1 = eq[unfolded Cons list.case q prod.case] and step = round_follows[OF q, of ps]
      show ?thesis
      proof (cases r)
        case (Again lo')
        then have "proxy_loop env rq fin rest lo' st1 = (e, st')" using eq1 True by simp
        from "1.IH"[OF _ Cons q[symmetric] Again this] True step Again show ?thesis by (auto intro: follows_trans)
      next
        case (Stop d)
        obtain x y where y: "after_loop (rq_model rq) fin lo (Some d) st1 = (x, y)" by fastforce
        from after_loop_follows[OF y, of ps] eq1 True Stop y step show ?thesis by (auto intro: follows_trans)
      next
        case (Returns x)
        with eq1 True step show ?thesis by (cases x) auto
      qed
    qed
  qed
qed

text \<open>
  C2. Every request follows the protocol: it is sent to a worker only while it is counted on it, it gives back only what it took,
  and its response begins once. A request that is over has given back every place it took at the limiter and is counted on no
  worker, whatever happened to it; it has been answered unless its client was gone before a response began.
\<close>

theorem request_gives_back_what_it_takes:
  assumes "handle_model_proxy env inp st = (exit, st')"
  shows "\<exists>new b. rs_log st' = rs_log st @ new \<and> audit_log new audit_start = Some b \<and> au_worker b = None \<and>
    (exit = Some Responded \<or> exit = Some ClientGone \<longrightarrow> au_places b = {#}) \<and> (au_responded b \<longleftrightarrow> exit = Some Responded)"
proof (cases "read_request env (active_gateway_config (current_config (rs_shared st))) inp")
  case (Inl x)
  then show ?thesis using assms by (cases x) (auto simp: handle_model_proxy_def audit_start_def)
next
  case (Inr x)
  obtain rq model_cfg where x: "x = (rq, model_cfg)" by fastforce
  obtain cap s1 where c: "model_capacity_of (rq_model rq) (pi_capacity_at inp) (rs_shared st) = (cap, s1)" by fastforce
  obtain reps s2 where r: "replica_stats (rq_model rq) (pi_capacity_at inp) s1 = (reps, s2)" by fastforce
  obtain res st1 where q: "acquire_observed_limit (pi_limit inp) (rq_model rq) (''model:'' @ rq_model rq)
      (effective_capacity (wd_max_concurrency cap) (m_max_concurrency model_cfg))
      (effective_capacity (wd_max_queue cap) (m_max_queue model_cfg)) reps (st\<lparr>rs_shared := s2\<rparr>) = (res, st1)" by fastforce
  note eq = assms[unfolded handle_model_proxy_def Inr x sum.case prod.case Let_def c r q]
  have f1: "follows st audit_start st1 (audit_start\<lparr>au_places := place_taken res\<rparr>)"
    using acquire_limit_follows[OF q, of audit_start] by (simp add: audit_start_def)
  have "\<exists>b. follows st audit_start st' b \<and> au_worker b = None \<and>
    (exit = Some Responded \<or> exit = Some ClientGone \<longrightarrow> au_places b = {#}) \<and> (au_responded b \<longleftrightarrow> exit = Some Responded)"
  proof (cases res)
    case (NoPlace e)
    have "follows st1 audit_start (write_queue_error e st1) (audit_start\<lparr>au_responded := True\<rparr>)"
      by (auto simp: write_queue_error_def audit_start_def intro!: follows_log)
    with f1 have "follows st audit_start (write_queue_error e st1) (audit_start\<lparr>au_responded := True\<rparr>)"
      using NoPlace by (auto simp: audit_start_def intro: follows_trans)
    with eq NoPlace show ?thesis by (auto simp: audit_start_def)
  next
    case Waits
    with eq f1 show ?thesis by (auto simp: audit_start_def)
  next
    case (Place p)
    obtain e st2 where l: "proxy_loop env rq (pi_final inp) (pi_rounds inp) first_round st1 = (e, st2)" by fastforce
    obtain b where b: "follows st1 (audit_start\<lparr>au_places := place_of p\<rparr>) st2 b" "after_exit e (place_of p) b"
      using loop_follows[OF l, of "place_of p"] by (auto simp: audit_start_def)
    have f2: "follows st audit_start st2 b" using follows_trans[OF f1] b(1) Place by simp
    have rel: "follows st2 \<lparr>au_places = place_of p, au_worker = None, au_responded = r\<rparr> (release_place p st2)
        \<lparr>au_places = {#}, au_worker = None, au_responded = r\<rparr>" for r
      using release_place_follows[where ps = "{#}"] by simp
    note eq2 = eq[unfolded Place limit_result.case l prod.case]
    consider "e = None" | "e = Some Blocked" | "e = Some ClientGone" | "e = Some Responded"
      by (cases e) (auto intro: proxy_exit.exhaust)
    then show ?thesis
    proof cases
      case 1
      with eq2 f2 b(2) show ?thesis by auto
    next
      case 2
      with eq2 f2 b(2) show ?thesis by auto
    next
      case 3
      with b(2) f2 rel have "follows st audit_start (release_place p st2) \<lparr>au_places = {#}, au_worker = None, au_responded = False\<rparr>"
        by (auto intro: follows_trans)
      with eq2 3 show ?thesis by auto
    next
      case 4
      with b(2) f2 rel have "follows st audit_start (release_place p st2) \<lparr>au_places = {#}, au_worker = None, au_responded = True\<rparr>"
        by (auto intro: follows_trans)
      with eq2 4 show ?thesis by auto
    qed
  qed
  then show ?thesis by (auto simp: follows_def)
qed

end
