(* ===== verification/ProxyTries.thy ===== *)
theory ProxyTries
  imports ProxyFacts ConfigFacts
begin

text \<open>
  Which workers a request is sent to: each at most once, at most as many as the configuration allows, and the loop that looks for
  one ends.
\<close>

section \<open>Which workers are tried\<close>

lemma scheduled_worker:
  assumes "schedule_round rq now exclude s = ((d, None), s')" "pd_worker d = Some w"
  shows "\<not> mget False exclude (w_id w) \<and> w \<in> set (fst (snapshot now (px_workers s))) \<and>
    px_workers s' = snd (snapshot now (px_workers s))"
proof -
  obtain cooling cds where c: "snapshot_cooldowns now now (px_cooldowns s) = (cooling, cds)" by fastforce
  let ?p = "\<lparr>pl_config = rq_config rq, pl_workers = Some (px_workers s), pl_access = Some (px_access s),
    pl_pressure = None, pl_cooldowns = cooling\<rparr>"
  obtain d0 err0 p0 where k: "pick_ready_worker (rq_model rq) now exclude ?p = ((d0, err0), p0)" by (metis surj_pair)
  obtain ws r where sn: "snapshot now (px_workers s) = (ws, r)" by fastforce
  have e: "err0 = None" "pd_worker d0 = Some w" "s' = (case pl_workers p0 of Some r \<Rightarrow> put_workers r (s\<lparr>px_cooldowns := cds\<rparr>) | None \<Rightarrow> s\<lparr>px_cooldowns := cds\<rparr>)"
    using assms k by (auto simp: schedule_round_def c Let_def pick_decision_def split: if_splits)
  obtain cfg where m: "map_of (gc_models (rq_config rq)) (rq_model rq) = Some cfg"
    using k e(1) by (cases "map_of (gc_models (rq_config rq)) (rq_model rq)") (auto simp: pick_ready_worker_def)
  have m': "map_of (gc_models (pl_config ?p)) (rq_model rq) = Some cfg" and pw: "pl_workers ?p = Some (px_workers s)"
    using m by simp_all
  from pw m' sn k show ?thesis
  proof (cases rule: pick_ready_worker_cases)
    case Zero
    with e show ?thesis by simp
  next
    case (Candidates scale rc)
    let ?cs = "List.map_filter (ready_candidate p0 (rq_model rq) now exclude (active_snapshot r) scale rc) ws"
    let ?c = "hd (sort_key (\<lambda>c. (- sp_score c, w_id (sp_worker c))) ?cs)"
    have ne: "?cs \<noteq> []" and hd: "w = sp_worker ?c" using Candidates(3) e(1,2) by (auto simp: decided_def Let_def split: if_splits)
    have "?c \<in> set ?cs" by (rule hd_sort_key_in[OF ne])
    then obtain v where v: "v \<in> set ws" "ready_candidate p0 (rq_model rq) now exclude (active_snapshot r) scale rc v = Some ?c"
      by (auto simp: map_filter_def)
    have can: "can_serve p0 (rq_model rq) now exclude v" "w = v" using ready_candidate_iff(1)[OF v(2)] hd by simp_all
    have "px_workers s' = r" unfolding e(3) Candidates(1) by (simp add: put_workers_def px_workers_def)
    with can v(1) show ?thesis by (simp add: can_serve_def sn)
  qed
qed

fun dispatched :: "proxy_action list \<Rightarrow> string list" where
  "dispatched [] = []"
| "dispatched (Dispatches w u h b # as) = w # dispatched as"
| "dispatched (a # as) = dispatched as"

lemma dispatched_append [simp]: "dispatched (xs @ ys) = dispatched xs @ dispatched ys"
  by (induction xs rule: dispatched.induct) auto

lemma dispatched_bodies [simp]: "dispatched (map WritesBody ws) = []"
  by (induction ws) auto

lemma dispatched_takes [simp]: "dispatched (takes_place r) = []"
  by (cases r rule: takes_place.cases) auto

text \<open>\<open>sends st st' ws\<close>: from \<open>st\<close> to \<open>st'\<close> the request was sent to the workers \<open>ws\<close>.\<close>

definition sends :: "('c, 'l) request_state \<Rightarrow> ('c, 'l) request_state \<Rightarrow> string list \<Rightarrow> bool" where
  "sends st st' ws \<longleftrightarrow> (\<exists>new. rs_log st' = rs_log st @ new \<and> dispatched new = ws)"

lemma sends_log: "rs_log st' = rs_log st @ as \<Longrightarrow> dispatched as = ws \<Longrightarrow> sends st st' ws"
  by (auto simp: sends_def)

lemma sends_trans: "sends st st' us \<Longrightarrow> sends st' st'' vs \<Longrightarrow> sends st st'' (us @ vs)"
  by (auto simp: sends_def)

lemma sends_none: "sends st st' [] \<Longrightarrow> sends st' st'' vs \<Longrightarrow> sends st st'' vs"
  using sends_trans by fastforce

lemma sends_then_none: "sends st st' us \<Longrightarrow> sends st' st'' [] \<Longrightarrow> sends st st'' us"
  using sends_trans by fastforce

lemma sends_shared [simp]:
  "sends st (on_shared f st') ws = sends st st' ws" "sends st (st'\<lparr>rs_shared := s\<rparr>) ws = sends st st' ws"
  "sends (on_shared f st) st' ws = sends st st' ws" "sends (st\<lparr>rs_shared := s\<rparr>) st' ws = sends st st' ws"
  "sends st st []"
  by (simp_all add: sends_def)

lemma release_place_sends: "sends st (release_place p st) []"
  by (cases p) (auto intro: sends_log)

lemma release_dispatch_sends: "sends st (release_dispatch tp wp w key st) []"
proof -
  have "sends st (release_place wp (release_place tp st)) []" by (rule sends_none[OF release_place_sends release_place_sends])
  moreover have "sends (release_place wp (release_place tp st)) (release_dispatch tp wp w key st) []"
    by (rule sends_log[where as = "[GivesWorker w]"]) (simp_all add: release_dispatch_def)
  ultimately show ?thesis by (rule sends_none)
qed

lemma acquire_limit_sends: "acquire_observed_limit inp model key ma mq replicas st = (r, st') \<Longrightarrow> sends st st' []"
  by (rule sends_log[OF acquire_limit_log]) simp_all

lemma pass_answer_sends: "pass_answer ops rh entry status header reads eof st = (out, st') \<Longrightarrow> sends st st' []"
  by (auto simp: pass_answer_def Let_def split: if_splits prod.splits intro!: sends_log)

lemma attempt_sends:
  assumes "proxy_attempt env inp client u rh body model w token st = (out, st')"
  shows "sends st st' [] \<or> sends st st' [w_id w]"
proof (cases "upstream_request_url (pe_url env) (w_llama_swap_url w) u")
  case (Inl e)
  then show ?thesis using assms by (auto simp: proxy_attempt_def split: prod.splits)
next
  case (Inr target)
  let ?sent = "acts [Dispatches (w_id w) target (upstream_headers client model (w_id w) token) body] (on_shared (ai_others inp) st)"
  have sent: "sends st ?sent [w_id w]"
    by (rule sends_log[where as = "[Dispatches (w_id w) target (upstream_headers client model (w_id w) token) body]"]) simp_all
  show ?thesis
  proof (cases "ai_result inp")
    case NoUpstreamRequest
    then show ?thesis using assms Inr by (auto simp: proxy_attempt_def Let_def)
  next
    case (CallFails e)
    then show ?thesis using assms Inr sent by (auto simp: proxy_attempt_def Let_def split: prod.splits if_splits)
  next
    case (Answers status header reads eof)
    then have "pass_answer (pe_body env) rh (zero_log_entry\<lparr>rl_upstream_url := target\<rparr>) status header reads eof
        (on_shared (\<lambda>s. snd (record_reverse_access_result (w_id w) None (ai_now inp) s)) ?sent) = (out, st')"
      using assms Inr by (simp add: proxy_attempt_def Let_def)
    from pass_answer_sends[OF this] sent show ?thesis by (auto intro: sends_then_none)
  qed
qed

lemma conclude_sends: "sends st (conclude env rq w tag n now out st) []"
  unfolding conclude_def record_request_stats_def Let_def
  by (auto intro!: sends_log)

text \<open>The next state of the loop: the worker of the round is excluded, and an attempt is counted when it was sent anything.\<close>

definition round_tries :: "loop_state \<Rightarrow> string \<Rightarrow> string list \<Rightarrow> round_end \<Rightarrow> bool" where
  "round_tries lo w ws e \<longleftrightarrow> ws \<in> {[], [w]} \<and>
     (\<forall>lo'. e = Again lo' \<longrightarrow> lo_exclude lo' = lo_exclude lo \<and> lo_attempts lo + length ws \<le> lo_attempts lo' \<and>
        lo_attempts lo' \<le> Suc (lo_attempts lo))"

lemma dispatch_round_tries:
  assumes "dispatch_round env rq inp lo w tag tp wp st = (e, st')"
  shows "\<exists>ws. sends st st' ws \<and> round_tries lo (w_id w) ws e"
proof -
  obtain key book where acc: "accounting_acquire (rq_id rq) (rq_model rq) tag (w_id w) (px_accounting (rs_shared st)) = (key, book)"
    by fastforce
  let ?st1 = "on_shared (\<lambda>s. s\<lparr>px_accounting := book\<rparr>) st"
  obtain out st2 where at: "proxy_attempt env (ri_attempt inp) (rq_headers rq) (rq_url rq) (response_header rq) (rq_body rq)
      (rq_model rq) w (tok_llama_swap (gc_tokens (rq_config rq))) ?st1 = (out, st2)" by fastforce
  let ?st3 = "release_dispatch tp wp (w_id w) key st2"
  note eq = assms[unfolded dispatch_round_def acc Let_def prod.case at]
  obtain ws where ws: "sends st st2 ws" "ws \<in> {[], [w_id w]}" using attempt_sends[OF at] by auto
  then have s3: "sends st ?st3 ws" by (auto intro: sends_then_none release_dispatch_sends)
  have "sends ?st3 st' []" using eq by (auto split: if_splits option.splits intro: conclude_sends)
  then have "sends st st' ws" using s3 by (rule sends_then_none[rotated])
  moreover have "round_tries lo (w_id w) ws e"
    using eq ws(2) by (auto simp: round_tries_def split: if_splits option.splits)
  ultimately show ?thesis by blast
qed

lemma refuse_round_tries:
  "refuse_round x lo st = (e, st') \<Longrightarrow> sends st st' [] \<and> round_tries lo w [] e"
  by (auto simp: refuse_round_def write_queue_error_def round_tries_def split: if_splits intro!: sends_log)

lemma worker_round_tries:
  assumes "worker_round env rq inp lo w d st = (e, st')"
  shows "\<exists>ws. sends st st' ws \<and> round_tries lo (w_id w) ws e"
proof -
  let ?tag = "selected_worker_tag (rq_config rq) w (rq_model rq)"
  obtain mc mq where pol: "(case tag_policy_of (rq_config rq) ?tag of Some p \<Rightarrow> (tp_max_concurrency p, tp_max_queue p) | None \<Rightarrow> (0, 0)) =
    (mc, mq)" by fastforce
  let ?cap = "model_tag_capacity (rq_config rq) (rq_model rq) ?tag"
  let ?reps = "replica_stats_from_decision d"
  obtain r1 st1 where q1: "acquire_observed_limit (ri_tag inp) (rq_model rq) (''tag:'' @ ?tag) mc mq ?reps st = (r1, st1)" by fastforce
  note eq1 = assms[unfolded worker_round_def Let_def pol prod.case q1]
  note f1 = acquire_limit_sends[OF q1]
  show ?thesis
  proof (cases r1)
    case (NoPlace x)
    with eq1 f1 refuse_round_tries[of x lo st1 e st' "w_id w"] show ?thesis by (auto intro: sends_none)
  next
    case Waits
    with eq1 f1 show ?thesis by (auto simp: round_tries_def)
  next
    case (Place tp)
    obtain r2 st2 where q2: "acquire_observed_limit (ri_worker inp) (rq_model rq) (worker_model_limit_key (w_id w) (rq_model rq))
        (wd_max_concurrency ?cap) (wd_max_queue ?cap) ?reps st1 = (r2, st2)" by fastforce
    note eq2 = eq1[unfolded Place limit_result.case q2 prod.case]
    have f2: "sends st st2 []" using sends_none[OF f1 acquire_limit_sends[OF q2]] .
    show ?thesis
    proof (cases r2)
      case (NoPlace x)
      with eq2 have "sends (release_place tp st2) st' [] \<and> round_tries lo (w_id w) [] e" by (auto dest: refuse_round_tries)
      with f2 show ?thesis using release_place_sends by (blast intro: sends_none)
    next
      case Waits
      with eq2 f2 show ?thesis by (auto simp: round_tries_def)
    next
      case wp: (Place wp)
      let ?st3 = "on_shared (ri_before_acquire inp) st2"
      obtain ok r where acq: "acquire (w_id w) (ri_acquired_at inp) (px_workers (rs_shared ?st3)) = (ok, r)" by fastforce
      note eq3 = eq2[unfolded wp limit_result.case acq prod.case]
      have f3: "sends st (on_shared (put_workers r) ?st3) []" using f2 by simp
      show ?thesis
      proof (cases ok)
        case False
        let ?freed = "release_place tp (release_place wp (on_shared (put_workers r) ?st3))"
        have "sends st ?freed []" using sends_none[OF f3 sends_none[OF release_place_sends release_place_sends]] .
        with eq3 False show ?thesis by (auto simp: round_tries_def)
      next
        case True
        let ?st4 = "acts [TakesWorker (w_id w)] (on_shared (put_workers r) ?st3)"
        have "sends (on_shared (put_workers r) ?st3) ?st4 []" by (rule sends_log[where as = "[TakesWorker (w_id w)]"]) simp_all
        with f3 have "sends st ?st4 []" by (rule sends_none)
        with dispatch_round_tries[of env rq inp lo w ?tag tp wp ?st4 e st'] eq3 True show ?thesis by (auto intro: sends_none)
      qed
    qed
  qed
qed

lemma round_tries_new:
  assumes "proxy_round env rq inp lo st = (e, st')"
  shows "sends st st' [] \<and> (\<forall>lo'. e \<noteq> Again lo') \<or>
    (\<exists>w ws. sends st st' ws \<and> \<not> mget False (lo_exclude lo) w \<and> round_tries (lo\<lparr>lo_exclude := mput w True (lo_exclude lo)\<rparr>) w ws e)"
proof (cases "ri_gone inp")
  case True
  then show ?thesis using assms by (auto simp: proxy_round_def)
next
  case False
  obtain d err s where q: "schedule_round rq (ri_now inp) (lo_exclude lo) (rs_shared (on_shared (ri_others inp) st)) = ((d, err), s)"
    by (metis surj_pair)
  note eq = assms[unfolded proxy_round_def Let_def q prod.case]
  show ?thesis
  proof (cases "err = None \<and> pd_worker d \<noteq> None")
    case True
    then obtain w where w: "pd_worker d = Some w" by auto
    let ?lo = "lo\<lparr>lo_exclude := mput (w_id w) True (lo_exclude lo)\<rparr>"
    have "worker_round env rq inp ?lo w d ((on_shared (ri_others inp) st)\<lparr>rs_shared := s\<rparr>) = (e, st')"
      using eq False True w by simp
    from worker_round_tries[OF this] scheduled_worker[of rq "ri_now inp" "lo_exclude lo" "rs_shared (on_shared (ri_others inp) st)" d s w]
      q True w show ?thesis by auto
  next
    case no: False
    then have "e = Stop d" "st' = (on_shared (ri_others inp) st)\<lparr>rs_shared := s\<rparr>"
      using eq False by (cases err; cases "pd_worker d"; auto)+
    then show ?thesis by simp
  qed
qed

lemma after_loop_sends: "after_loop model fin lo d st = (e, st') \<Longrightarrow> sends st st' []"
  by (auto simp: after_loop_def write_queue_error_def split: if_splits option.splits intro!: sends_log)

lemma loop_tries:
  assumes "proxy_loop env rq fin inps lo st = (e, st')" "int (lo_attempts lo) \<le> max 0 (pe_attempts env)"
  shows "\<exists>ws. sends st st' ws \<and> distinct ws \<and> (\<forall>w \<in> set ws. \<not> mget False (lo_exclude lo) w) \<and>
    int (lo_attempts lo + length ws) \<le> max 0 (pe_attempts env)"
  using assms
proof (induction env rq fin inps lo st arbitrary: e st' rule: proxy_loop.induct)
  case (1 env rq fin inps lo st)
  note eq = "1.prems"(1)[unfolded proxy_loop.simps[of env rq fin inps lo st]]
  have none: "?case" if "sends st st' []" using that "1.prems"(2) by (intro exI[of _ "[]"]) simp
  show ?case
  proof (cases "int (lo_attempts lo) < pe_attempts env")
    case False
    then obtain x where "after_loop (rq_model rq) fin lo None st = (x, st')" using eq by (auto simp: map_prod_def split: prod.splits)
    then show ?thesis by (rule none[OF after_loop_sends])
  next
    case True
    show ?thesis
    proof (cases inps)
      case Nil
      with eq True none show ?thesis by auto
    next
      case (Cons inp rest)
      obtain r st1 where q: "proxy_round env rq inp lo st = (r, st1)" by fastforce
      note eq1 = eq[unfolded Cons list.case q prod.case]
      have stop: "sends st1 st' []" if "\<forall>lo'. r \<noteq> Again lo'"
        using that eq1 True by (cases r) (auto simp: map_prod_def split: prod.splits intro: after_loop_sends)
      from round_tries_new[OF q] show ?thesis
      proof
        assume "sends st st1 [] \<and> (\<forall>lo'. r \<noteq> Again lo')"
        with stop have "sends st st' []" by (auto intro: sends_none)
        then show ?thesis by (rule none)
      next
        let ?lo = "\<lambda>w. lo\<lparr>lo_exclude := mput w True (lo_exclude lo)\<rparr>"
        assume "\<exists>w ws. sends st st1 ws \<and> \<not> mget False (lo_exclude lo) w \<and> round_tries (?lo w) w ws r"
        then obtain w ws where w: "sends st st1 ws" "\<not> mget False (lo_exclude lo) w" "round_tries (?lo w) w ws r" by blast
        then have ws: "ws \<in> {[], [w]}" by (simp add: round_tries_def)
        show ?thesis
        proof (cases r)
          case (Again lo')
          then have l: "proxy_loop env rq fin rest lo' st1 = (e, st')" using eq1 True by simp
          from w(3) Again have lo': "lo_exclude lo' = mput w True (lo_exclude lo)" "lo_attempts lo + length ws \<le> lo_attempts lo'"
            "lo_attempts lo' \<le> Suc (lo_attempts lo)" by (auto simp: round_tries_def)
          with True have "int (lo_attempts lo') \<le> max 0 (pe_attempts env)" by simp
          from "1.IH"[OF _ Cons q[symmetric] Again l this] True obtain vs where
            vs: "sends st1 st' vs" "distinct vs" "\<forall>v \<in> set vs. \<not> mget False (lo_exclude lo') v"
              "int (lo_attempts lo' + length vs) \<le> max 0 (pe_attempts env)" by auto
          have "w \<notin> set vs" and "\<forall>v \<in> set vs. \<not> mget False (lo_exclude lo) v"
            using vs(3) by (auto simp: lo' mget_mput split: if_splits)
          with vs ws w lo' show ?thesis by (intro exI[of _ "ws @ vs"]) (auto intro: sends_trans)
        next
          case (Stop d)
          with w ws stop True show ?thesis by (intro exI[of _ ws]) (auto intro: sends_then_none)
        next
          case (Returns x)
          with w ws stop True show ?thesis by (intro exI[of _ ws]) (auto intro: sends_then_none)
        qed
      qed
    qed
  qed
qed

text \<open>A run of the handler that came to the loop.\<close>

lemma handle_cases:
  assumes "handle_model_proxy env inp st = (exit, st')"
  obtains (early) "exit = Some Responded \<or> exit = Some Blocked" "sends st st' []"
  | (loop) rq model_cfg s2 st1 p st2 where
      "read_request env (active_gateway_config (current_config (rs_shared st))) inp = Inr (rq, model_cfg)"
      "s2 = snd (replica_stats (rq_model rq) (pi_capacity_at inp) (snd (model_capacity_of (rq_model rq) (pi_capacity_at inp) (rs_shared st))))"
      "\<exists>ma mq reps. acquire_observed_limit (pi_limit inp) (rq_model rq) (''model:'' @ rq_model rq) ma mq reps (st\<lparr>rs_shared := s2\<rparr>) =
         (Place p, st1)"
      "proxy_loop env rq (pi_final inp) (pi_rounds inp) first_round st1 = (exit, st2)"
      "st' = (if exit = None \<or> exit = Some Blocked then st2 else release_place p st2)"
proof (cases "read_request env (active_gateway_config (current_config (rs_shared st))) inp")
  case (Inl x)
  have "sends st (acts [WritesError a b c] st) []" for a b c
    by (rule sends_log[where as = "[WritesError a b c]"]) simp_all
  then show thesis using assms early Inl by (cases x) (auto simp: handle_model_proxy_def)
next
  case (Inr x)
  obtain rq model_cfg where x: "x = (rq, model_cfg)" by fastforce
  obtain cap s1 where c: "model_capacity_of (rq_model rq) (pi_capacity_at inp) (rs_shared st) = (cap, s1)" by fastforce
  obtain reps s2 where r: "replica_stats (rq_model rq) (pi_capacity_at inp) s1 = (reps, s2)" by fastforce
  obtain res st1 where q: "acquire_observed_limit (pi_limit inp) (rq_model rq) (''model:'' @ rq_model rq)
      (effective_capacity (wd_max_concurrency cap) (m_max_concurrency model_cfg))
      (effective_capacity (wd_max_queue cap) (m_max_queue model_cfg)) reps (st\<lparr>rs_shared := s2\<rparr>) = (res, st1)" by fastforce
  note eq = assms[unfolded handle_model_proxy_def Inr x sum.case prod.case Let_def c r q]
  have "sends st st1 []" using acquire_limit_sends[OF q] by simp
  moreover have "sends st1 (write_queue_error e st1) []" for e by (auto simp: write_queue_error_def intro!: sends_log)
  ultimately have e: "sends st (write_queue_error e st1) []" for e by (blast intro: sends_none)
  show thesis
  proof (cases res)
    case (Place p)
    obtain e st2 where l: "proxy_loop env rq (pi_final inp) (pi_rounds inp) first_round st1 = (e, st2)" by fastforce
    show thesis
    proof (rule loop)
      show "read_request env (active_gateway_config (current_config (rs_shared st))) inp = Inr (rq, model_cfg)" using Inr x by simp
      show "s2 = snd (replica_stats (rq_model rq) (pi_capacity_at inp) (snd (model_capacity_of (rq_model rq) (pi_capacity_at inp) (rs_shared st))))"
        by (simp add: c r)
      show "\<exists>ma mq reps. acquire_observed_limit (pi_limit inp) (rq_model rq) (''model:'' @ rq_model rq) ma mq reps (st\<lparr>rs_shared := s2\<rparr>) =
         (Place p, st1)" using q Place by blast
      have "(exit, st') = (e, if e = None \<or> e = Some Blocked then st2 else release_place p st2)"
        using eq[unfolded Place limit_result.case l prod.case] by (cases e) (auto split: if_splits)
      then have "exit = e" "st' = (if exit = None \<or> exit = Some Blocked then st2 else release_place p st2)" by simp_all
      then show "proxy_loop env rq (pi_final inp) (pi_rounds inp) first_round st1 = (exit, st2)"
        "st' = (if exit = None \<or> exit = Some Blocked then st2 else release_place p st2)" using l by simp_all
    qed
  next
    case (NoPlace x)
    with eq e[of x] show thesis by (intro early) auto
  next
    case Waits
    with eq \<open>sends st st1 []\<close> show thesis by (intro early) auto
  qed
qed

text \<open>
  A request is sent to a worker at most once, and to at most \<open>proxy_attempts\<close> workers.
\<close>

theorem workers_tried_once:
  assumes "handle_model_proxy env inp st = (exit, st')"
  shows "\<exists>new. rs_log st' = rs_log st @ new \<and> distinct (dispatched new) \<and> int (length (dispatched new)) \<le> max 0 (pe_attempts env)"
  using assms
proof (cases rule: handle_cases)
  case early
  then show ?thesis by (auto simp: sends_def)
next
  case (loop rq model_cfg s2 st1 p st2)
  obtain ws where ws: "sends st1 st2 ws" "distinct ws" "int (length ws) \<le> max 0 (pe_attempts env)"
    using loop_tries[OF loop(4)] by (auto simp: first_round_def)
  have "sends st st1 []" using loop(3) acquire_limit_sends by fastforce
  then have "sends st st2 ws" using ws(1) by (rule sends_none)
  then have "sends st st' ws" using loop(5) by (auto intro: sends_then_none release_place_sends)
  with ws show ?thesis by (auto simp: sends_def)
qed

section \<open>The loop ends\<close>

text \<open>
  \<open>known s\<close>: the ids of the workers in the registry. The others may register workers and forget them, as long as all ids they ever
  use are in \<open>W\<close>.
\<close>

definition reg_ids :: "registry \<Rightarrow> string set" where
  "reg_ids r = {x. \<exists>k w. map_of (reg_workers r) k = Some w \<and> w_id w = x}"

definition known :: "('c, 'l) proxy_shared \<Rightarrow> string set" where
  "known s = reg_ids (px_workers s)"

definition ids_in :: "string set \<Rightarrow> ('c, 'l) others \<Rightarrow> bool" where
  "ids_in W f \<longleftrightarrow> (\<forall>s. known s \<subseteq> W \<longrightarrow> known (f s) \<subseteq> W)"

definition round_ids_in :: "string set \<Rightarrow> ('c, 'l) round_input \<Rightarrow> bool" where
  "round_ids_in W inp \<longleftrightarrow> ids_in W (ri_others inp) \<and> ids_in W (li_others (ri_tag inp)) \<and> ids_in W (li_others (ri_worker inp)) \<and>
     ids_in W (ri_before_acquire inp) \<and> ids_in W (ai_others (ri_attempt inp))"

lemma known_cong: "gw_workers (px_server s') = gw_workers (px_server s) \<Longrightarrow> known s' = known s"
  by (simp add: known_def px_workers_def)

lemma known_put [simp]: "known (put_workers r s) = reg_ids r"
  by (simp add: known_def put_workers_def px_workers_def)

lemma workers_put [simp]: "px_workers (put_workers r s) = r"
  by (simp add: put_workers_def px_workers_def)

lemma snapshot_known: "reg_ids (snd (snapshot now r)) \<subseteq> reg_ids r"
  by (auto simp: reg_ids_def snapshot_state prune_offline_fields(1) split: if_splits)

lemma snapshot_in: "w \<in> set (fst (snapshot now r)) \<Longrightarrow> w_id w \<in> reg_ids r"
  by (auto simp: snapshot_def Let_def map_filter_def reg_ids_def prune_offline_fields(1) split: if_splits) blast

lemma same_id_known:
  assumes "map_of (reg_workers r) k = Some w" "w_id v = w_id w" "reg_workers r' = mput k v (reg_workers r)"
  shows "reg_ids r' \<subseteq> reg_ids r"
  using assms by (auto simp: reg_ids_def split: if_splits)

lemma scrape_success_known: "reg_ids (record_scrape_success k r) \<subseteq> reg_ids r"
proof (cases "map_of (reg_workers r) k")
  case (Some w)
  then show ?thesis by (intro same_id_known[OF Some, of "w\<lparr>w_scrape_failures := 0, w_scrape_backoff_until := 0\<rparr>"])
      (simp_all add: record_scrape_success_def)
qed (simp add: record_scrape_success_def)

lemma reverse_failure_known:
  assumes "record_reverse_failure k now r = (b, r')"
  shows "reg_ids r' \<subseteq> reg_ids r"
proof (cases "map_of (reg_workers r) k")
  case None
  then show ?thesis using assms by (simp add: record_reverse_failure_def)
next
  case (Some w)
  let ?v = "w\<lparr>w_scrape_failures := w_scrape_failures w + 1\<rparr>"
  have "reg_workers r' \<in> {mput k ?v (reg_workers r), mput k (?v\<lparr>w_scrape_backoff_until := now + scrape_failure_backoff\<rparr>) (reg_workers r)}"
    using assms Some by (auto simp: record_reverse_failure_def Let_def split: if_splits)
  then show ?thesis
    using same_id_known[OF Some, of ?v r'] same_id_known[OF Some, of "?v\<lparr>w_scrape_backoff_until := now + scrape_failure_backoff\<rparr>" r']
    by auto
qed

lemma reverse_result_known:
  assumes "record_reverse_access_result k err now s = (b, s')"
  shows "known s' \<subseteq> known s"
proof -
  have "known (put_workers (record_scrape_success k (px_workers s)) s) \<subseteq> known s"
    using scrape_success_known by (simp add: known_def)
  moreover have "known s1 \<subseteq> known s" if "record_reverse_access_failure k e now s = (c, s1)" for e c s1
  proof -
    obtain m r where q: "record_reverse_failure k now (px_workers s) = (m, r)" by fastforce
    have "known (record_gateway_worker_event k now ev (put_workers r s)) = known (put_workers r s)" for ev
      by (rule known_cong) (simp add: record_gateway_worker_event_def record_agent_event_def Let_def)
    moreover have "known (put_workers r s) \<subseteq> known s" using reverse_failure_known[OF q] by (simp add: known_def)
    ultimately show ?thesis using that q by (auto simp: record_reverse_access_failure_def split: if_splits bool.splits)
  qed
  ultimately show ?thesis using assms by (auto simp: record_reverse_access_result_def split: option.splits if_splits)
qed

lemma acquire_limit_known:
  assumes "acquire_observed_limit inp model key ma mq replicas st = (r, st')" "ids_in W (li_others inp)" "known (rs_shared st) \<subseteq> W"
  shows "known (rs_shared st') \<subseteq> W"
proof -
  obtain result stats s where q: "acquire_with_stats inp key ma mq (rs_shared st) = ((result, stats), s)" by (metis surj_pair)
  have l: "known (s\<lparr>px_limiter := l\<rparr>) = known s" for l and s :: "('a, 'b) proxy_shared" by (rule known_cong) simp
  have ob: "known (observe_queue now model stats replicas s) = known s" for now and s :: "('a, 'b) proxy_shared"
    by (rule known_cong) (simp add: observe_queue_def)
  have w: "known (li_others inp (rs_shared st\<lparr>px_limiter := l\<rparr>)) \<subseteq> W" for l using assms(2,3) l by (simp add: ids_in_def)
  have "known s = known (rs_shared st) \<or> (\<exists>l. known s = known (li_others inp (rs_shared st\<lparr>px_limiter := l\<rparr>)))"
    using q by (auto simp: l acquire_with_stats_def end_of_wait_def Let_def
      split: acquire_outcome.splits prod.splits option.splits sum.splits if_splits)
  then have "known s \<subseteq> W" using w assms(3) by auto
  then show ?thesis using assms(1) q ob by (auto simp: acquire_observed_limit_def Let_def acts_def split: if_splits)
qed

lemma known_fields [simp]:
  "known (s\<lparr>px_limiter := l\<rparr>) = known s" "known (s\<lparr>px_accounting := b\<rparr>) = known s" "known (s\<lparr>px_cooldowns := c\<rparr>) = known s"
  "known (s\<lparr>px_access := a\<rparr>) = known s" "known (s\<lparr>px_pressure := p\<rparr>) = known s" "known (s\<lparr>px_recent_requests := q\<rparr>) = known s"
  by (rule known_cong; simp)+

lemma shared_simps [simp]:
  "rs_shared (acts as st) = rs_shared st" "rs_shared (on_shared f st) = f (rs_shared st)"
  by (simp_all add: acts_def on_shared_def)

lemma release_place_known [simp]: "known (rs_shared (release_place p st)) = known (rs_shared st)"
  by (cases p) simp_all

lemma reg_ids_cong: "reg_workers r' = reg_workers r \<Longrightarrow> reg_ids r' = reg_ids r"
  by (simp add: reg_ids_def)

lemma release_active_ids [simp]: "reg_ids (release_active w r) = reg_ids r"
  by (simp add: reg_ids_def release_active_def)

lemma release_dispatch_known [simp]: "known (rs_shared (release_dispatch tp wp w key st)) = known (rs_shared st)"
proof -
  have "reg_ids (px_workers s) = known s" for s :: "('a, 'b) proxy_shared" by (simp add: known_def)
  then show ?thesis by (simp add: release_dispatch_def)
qed

lemma acquire_ids: "acquire w now r = (ok, r') \<Longrightarrow> reg_ids r' = reg_ids r"
  by (rule reg_ids_cong) (auto simp: acquire_def split: option.splits if_splits)

lemma pass_answer_shared: "pass_answer ops rh entry status header reads eof st = (out, st') \<Longrightarrow> rs_shared st' = rs_shared st"
  by (auto simp: pass_answer_def Let_def split: if_splits prod.splits)

lemma attempt_known:
  assumes "proxy_attempt env inp client u rh body model w token st = (out, st')" "ids_in W (ai_others inp)" "known (rs_shared st) \<subseteq> W"
  shows "known (rs_shared st') \<subseteq> W"
proof (cases "upstream_request_url (pe_url env) (w_llama_swap_url w) u")
  case (Inl e)
  obtain b s where q: "record_reverse_access_result (w_id w) (Some e) (ai_now inp) (rs_shared st) = (b, s)" by fastforce
  show ?thesis using assms(1,3) Inl q reverse_result_known[OF q] by (auto simp: proxy_attempt_def)
next
  case (Inr target)
  let ?sent = "acts [Dispatches (w_id w) target (upstream_headers client model (w_id w) token) body] (on_shared (ai_others inp) st)"
  have sent: "known (rs_shared ?sent) \<subseteq> W" using assms(2,3) by (simp add: ids_in_def)
  show ?thesis
  proof (cases "ai_result inp")
    case NoUpstreamRequest
    then show ?thesis using assms Inr by (auto simp: proxy_attempt_def Let_def)
  next
    case (CallFails e)
    obtain b s where q: "record_reverse_access_result (w_id w) (Some e) (ai_now inp) (rs_shared ?sent) = (b, s)" by fastforce
    have "rs_shared st' = s" using assms(1) Inr CallFails q by (simp add: proxy_attempt_def Let_def split: if_splits) auto
    then show ?thesis using sent reverse_result_known[OF q] by blast
  next
    case (Answers status header reads eof)
    then have "pass_answer (pe_body env) rh (zero_log_entry\<lparr>rl_upstream_url := target\<rparr>) status header reads eof
        (on_shared (\<lambda>s. snd (record_reverse_access_result (w_id w) None (ai_now inp) s)) ?sent) = (out, st')"
      using assms(1) Inr by (simp add: proxy_attempt_def Let_def)
    from pass_answer_shared[OF this] sent show ?thesis using reverse_result_known[OF prod.collapse[symmetric]] by fastforce
  qed
qed

lemma conclude_known [simp]: "known (rs_shared (conclude env rq w tag n now out st)) = known (rs_shared st)"
  by (simp add: conclude_def record_request_stats_def clear_replica_cooldown_def record_recent_request_def Let_def)

lemma dispatch_round_known:
  assumes "dispatch_round env rq inp lo w tag tp wp st = (e, st')" "ids_in W (ai_others (ri_attempt inp))" "known (rs_shared st) \<subseteq> W"
  shows "known (rs_shared st') \<subseteq> W"
proof -
  obtain key book where acc: "accounting_acquire (rq_id rq) (rq_model rq) tag (w_id w) (px_accounting (rs_shared st)) = (key, book)"
    by fastforce
  let ?st1 = "on_shared (\<lambda>s. s\<lparr>px_accounting := book\<rparr>) st"
  obtain out st2 where at: "proxy_attempt env (ri_attempt inp) (rq_headers rq) (rq_url rq) (response_header rq) (rq_body rq)
      (rq_model rq) w (tok_llama_swap (gc_tokens (rq_config rq))) ?st1 = (out, st2)" by fastforce
  note eq = assms(1)[unfolded dispatch_round_def acc Let_def prod.case at]
  have "known (rs_shared st2) \<subseteq> W" using attempt_known[OF at assms(2)] assms(3) by simp
  then show ?thesis using eq by (auto simp: mark_replica_cooldown_def split: if_splits option.splits)
qed

lemma refuse_round_known: "refuse_round x lo st = (e, st') \<Longrightarrow> rs_shared st' = rs_shared st"
  by (auto simp: refuse_round_def write_queue_error_def split: if_splits)

lemma worker_round_known:
  assumes "worker_round env rq inp lo w d st = (e, st')" "round_ids_in W inp" "known (rs_shared st) \<subseteq> W"
  shows "known (rs_shared st') \<subseteq> W"
proof -
  let ?tag = "selected_worker_tag (rq_config rq) w (rq_model rq)"
  obtain mc mq where pol: "(case tag_policy_of (rq_config rq) ?tag of Some p \<Rightarrow> (tp_max_concurrency p, tp_max_queue p) | None \<Rightarrow> (0, 0)) =
    (mc, mq)" by fastforce
  let ?cap = "model_tag_capacity (rq_config rq) (rq_model rq) ?tag"
  let ?reps = "replica_stats_from_decision d"
  obtain r1 st1 where q1: "acquire_observed_limit (ri_tag inp) (rq_model rq) (''tag:'' @ ?tag) mc mq ?reps st = (r1, st1)" by fastforce
  obtain r2 st2 where q2: "acquire_observed_limit (ri_worker inp) (rq_model rq) (worker_model_limit_key (w_id w) (rq_model rq))
        (wd_max_concurrency ?cap) (wd_max_queue ?cap) ?reps st1 = (r2, st2)" by fastforce
  obtain ok r where acq: "acquire (w_id w) (ri_acquired_at inp) (px_workers (ri_before_acquire inp (rs_shared st2))) = (ok, r)" by fastforce
  note eq = assms(1)[unfolded worker_round_def Let_def pol prod.case q1 q2]
  have k1: "known (rs_shared st1) \<subseteq> W" using acquire_limit_known[OF q1] assms(2,3) by (simp add: round_ids_in_def)
  have k2: "known (rs_shared st2) \<subseteq> W" using acquire_limit_known[OF q2] assms(2) k1 by (simp add: round_ids_in_def)
  have k3: "reg_ids r \<subseteq> W" using k2 assms(2) acquire_ids[OF acq] by (simp add: round_ids_in_def ids_in_def known_def)
  show ?thesis
  proof (cases r1)
    case (Place tp)
    note eq1 = eq[unfolded Place limit_result.case q2 prod.case]
    show ?thesis
    proof (cases r2)
      case wp: (Place wp)
      note eq2 = eq1[unfolded wp limit_result.case]
      show ?thesis
      proof (cases ok)
        case True
        then have "dispatch_round env rq inp lo w ?tag tp wp
            (acts [TakesWorker (w_id w)] (on_shared (put_workers r) (on_shared (ri_before_acquire inp) st2))) = (e, st')"
          using eq2 acq by simp
        from dispatch_round_known[OF this] assms(2) k3 show ?thesis by (simp add: round_ids_in_def)
      qed (use eq2 acq k3 in auto)
    qed (use eq1 k2 refuse_round_known in \<open>fastforce+\<close>)
  qed (use eq k1 refuse_round_known in \<open>fastforce+\<close>)
qed

lemma pick_decision_pool:
  assumes "pl_workers p = Some r"
  shows "pl_workers (snd (pick_decision m now exclude p)) \<in> {Some r, Some (snd (snapshot now r))}"
proof -
  obtain ws r' where sn: "snapshot now r = (ws, r')" by fastforce
  obtain d err p' where k: "pick_ready_worker m now exclude p = ((d, err), p')" by (metis surj_pair)
  have "pl_workers p' \<in> {Some r, Some r'}"
  proof (cases "map_of (gc_models (pl_config p)) m")
    case None
    then show ?thesis using k assms by (auto simp: pick_ready_worker_def)
  next
    case (Some cfg)
    from assms Some sn k show ?thesis by (cases rule: pick_ready_worker_cases) simp_all
  qed
  then show ?thesis using sn k by (simp add: pick_decision_def Let_def)
qed

lemma schedule_round_known:
  assumes "schedule_round rq now exclude s = (d, s')"
  shows "known s' \<subseteq> known s"
proof -
  obtain cooling cds where c: "snapshot_cooldowns now now (px_cooldowns s) = (cooling, cds)" by fastforce
  let ?p = "\<lparr>pl_config = rq_config rq, pl_workers = Some (px_workers s), pl_access = Some (px_access s),
    pl_pressure = None, pl_cooldowns = cooling\<rparr>"
  obtain x p' where q: "pick_decision (rq_model rq) now exclude ?p = (x, p')" by fastforce
  have s': "s' = (case pl_workers p' of Some r \<Rightarrow> put_workers r (s\<lparr>px_cooldowns := cds\<rparr>) | None \<Rightarrow> s\<lparr>px_cooldowns := cds\<rparr>)"
    using assms by (simp add: schedule_round_def c q Let_def)
  have "pl_workers p' \<in> {Some (px_workers s), Some (snd (snapshot now (px_workers s)))}"
    using pick_decision_pool[of ?p "px_workers s" "rq_model rq" now exclude] q by simp
  then show ?thesis using snapshot_known[of now "px_workers s"] by (auto simp: s' known_def)
qed

lemma round_known:
  assumes "proxy_round env rq inp lo st = (e, st')" "round_ids_in W inp" "known (rs_shared st) \<subseteq> W"
  shows "known (rs_shared st') \<subseteq> W \<and>
    (\<forall>lo'. e = Again lo' \<longrightarrow> (\<exists>w \<in> W. \<not> mget False (lo_exclude lo) w \<and> lo_exclude lo' = mput w True (lo_exclude lo)))"
proof (cases "ri_gone inp")
  case True
  then show ?thesis using assms by (auto simp: proxy_round_def)
next
  case False
  obtain d err s where q: "schedule_round rq (ri_now inp) (lo_exclude lo) (rs_shared (on_shared (ri_others inp) st)) = ((d, err), s)"
    by (metis surj_pair)
  note eq = assms(1)[unfolded proxy_round_def Let_def q prod.case]
  have k0: "known (ri_others inp (rs_shared st)) \<subseteq> W" using assms(2,3) by (simp add: round_ids_in_def ids_in_def)
  have k: "known s \<subseteq> W" using schedule_round_known[OF q] k0 by simp
  show ?thesis
  proof (cases "err = None \<and> pd_worker d \<noteq> None")
    case True
    then obtain w where w: "pd_worker d = Some w" by auto
    let ?lo = "lo\<lparr>lo_exclude := mput (w_id w) True (lo_exclude lo)\<rparr>"
    have r: "worker_round env rq inp ?lo w d ((on_shared (ri_others inp) st)\<lparr>rs_shared := s\<rparr>) = (e, st')"
      using eq False True w by simp
    from scheduled_worker[of rq "ri_now inp" "lo_exclude lo" "rs_shared (on_shared (ri_others inp) st)" d s w] q True w
    have new: "\<not> mget False (lo_exclude lo) (w_id w)" "w_id w \<in> W"
      using snapshot_in k0 by (auto simp: known_def)
    from worker_round_tries[OF r] new worker_round_known[OF r assms(2)] k show ?thesis by (auto simp: round_tries_def)
  next
    case no: False
    then have "e = Stop d" "st' = (on_shared (ri_others inp) st)\<lparr>rs_shared := s\<rparr>"
      using eq False by (cases err; cases "pd_worker d"; auto)+
    then show ?thesis using k by simp
  qed
qed

definition untried :: "string set \<Rightarrow> loop_state \<Rightarrow> string set" where
  "untried W lo = {w \<in> W. \<not> mget False (lo_exclude lo) w}"

lemma loop_ends:
  assumes "finite W" "\<forall>inp \<in> set inps. round_ids_in W inp" "known (rs_shared st) \<subseteq> W" "card (untried W lo) < length inps"
  shows "fst (proxy_loop env rq fin inps lo st) \<noteq> None"
  using assms(2-)
proof (induction inps arbitrary: lo st)
  case (Cons inp rest)
  show ?case
  proof (cases "int (lo_attempts lo) < pe_attempts env")
    case True
    obtain r st1 where q: "proxy_round env rq inp lo st = (r, st1)" by fastforce
    have k: "known (rs_shared st1) \<subseteq> W" and new: "\<forall>lo'. r = Again lo' \<longrightarrow>
        (\<exists>w \<in> W. \<not> mget False (lo_exclude lo) w \<and> lo_exclude lo' = mput w True (lo_exclude lo))"
      using round_known[OF q] Cons.prems by auto
    show ?thesis
    proof (cases r)
      case (Again lo')
      with new obtain w where "w \<in> W" "\<not> mget False (lo_exclude lo) w" "lo_exclude lo' = mput w True (lo_exclude lo)" by auto
      then have w: "w \<in> untried W lo" "untried W lo' = untried W lo - {w}" by (auto simp: untried_def mget_mput split: if_splits)
      have "finite (untried W lo)" using assms(1) by (simp add: untried_def)
      then have "card (untried W lo') < card (untried W lo)" using w by (metis card_Diff1_less)
      then have "fst (proxy_loop env rq fin rest lo' st1) \<noteq> None" using Cons.IH[of st1 lo'] Cons.prems k by simp
      then show ?thesis using True q Again by (simp add: proxy_loop.simps[of env rq fin "inp # rest"])
    qed (use True q in \<open>simp_all add: proxy_loop.simps[of env rq fin "inp # rest"] map_prod_def split: prod.splits\<close>)
  qed (simp add: proxy_loop.simps[of env rq fin "inp # rest"] map_prod_def split: prod.splits)
qed simp

text \<open>
  C3. The dispatch loop ends although it does not count the rounds in which a worker refuses: if all workers that are ever registered
  while the request runs have their ids in a finite set, the request is over (or waits in a queue) after one round more than the set
  has elements, whatever the workers, the queues and the other requests do.
\<close>

theorem dispatch_loop_ends:
  assumes "finite W" "known (rs_shared st) \<subseteq> W" "ids_in W (li_others (pi_limit inp))"
    and "\<forall>r \<in> set (pi_rounds inp). round_ids_in W r" "card W < length (pi_rounds inp)"
  shows "fst (handle_model_proxy env inp st) \<noteq> None"
proof -
  obtain exit st' where h: "handle_model_proxy env inp st = (exit, st')" by fastforce
  then show ?thesis
  proof (cases rule: handle_cases)
    case early
    with h show ?thesis by auto
  next
    case (loop rq model_cfg s2 st1 p st2)
    have "known s2 \<subseteq> known (rs_shared st)"
    proof -
      have "known (snd (model_capacity_of m t s)) \<subseteq> known s \<and> known (snd (replica_stats m t s)) \<subseteq> known s"
        for m t and s :: "('a, 'b) proxy_shared"
      proof -
        obtain ws r where "snapshot t (px_workers s) = (ws, r)" by fastforce
        with snapshot_known[of t "px_workers s"] show ?thesis
          by (simp add: model_capacity_of_def replica_stats_def Let_def known_def)
      qed
      then show ?thesis unfolding loop(2) by blast
    qed
    then have "known (rs_shared (st\<lparr>rs_shared := s2\<rparr>)) \<subseteq> W" using assms(2) by simp
    then have "known (rs_shared st1) \<subseteq> W" using loop(3) acquire_limit_known assms(3) by blast
    moreover have "untried W first_round = W" by (simp add: untried_def first_round_def)
    ultimately show ?thesis using loop_ends[OF assms(1,4), of st1 first_round env rq "pi_final inp"] assms(5) loop(4) h by simp
  qed
qed

section \<open>Two concrete requests\<close>

definition limited_config :: gateway_config where
  "limited_config = example_config\<lparr>gc_models := [(''a'', example_model\<lparr>m_max_loaded := 2, m_max_concurrency := 4\<rparr>)]\<rparr>"

definition example_shared :: "registry \<Rightarrow> (unit, unit) proxy_shared" where
  "example_shared r =
     \<lparr>px_server = \<lparr>gw_manager = \<lparr>cm_cfg = limited_config, cm_file_cfg = limited_config, cm_raw_yaml = [], cm_version = 1,
        cm_revisions = (), cm_config_path = [], cm_pins = \<lparr>rp_tokens = gc_tokens limited_config, rp_listen_addr = [],
        rp_proxy_attempts = 3, rp_pin_proxy_attempts = False\<rparr>, cm_disk = None\<rparr>,
        gw_leases = None, gw_workers = r, gw_recent_events = [], gw_stored = []\<rparr>,
      px_limiter = new_queue_limiter, px_cooldowns = new_replica_cooldowns 0, px_access = new_access_tracker,
      px_pressure = new_pressure_tracker 0, px_recent_requests = [], px_accounting = new_accounting\<rparr>"

definition example_request_state :: "registry \<Rightarrow> (unit, unit) request_state" where
  "example_request_state r = \<lparr>rs_shared = example_shared r, rs_log = []\<rparr>"

definition example_proxy_env :: proxy_env where
  "example_proxy_env =
     \<lparr>pe_body = \<lparr>bo_parse = (\<lambda>s. Some (JObject [(''model'', JString s)])), bo_marshal = (\<lambda>j. Some []),
        bo_float = (\<lambda>s. None), bo_trunc = (\<lambda>x. 0)\<rparr>,
      pe_url = \<lparr>uo_parse = (\<lambda>s. Inr \<lparr>url_scheme = ''http'', url_user = [], url_host = s, url_path = [], url_raw_query = [],
        url_fragment = []\<rparr>), uo_string = (\<lambda>u. ''http://'' @ url_host u @ url_path u), uo_quote = id\<rparr>,
      pe_float = \<lparr>fo_of_int = (\<lambda>i. Finite (of_int i)), fo_add = (\<lambda>a b. a), fo_mul = (\<lambda>a b. a), fo_div = (\<lambda>a b. a)\<rparr>,
      pe_attempts = 2\<rparr>"

definition example_limit :: "(unit, unit) limit_input" where
  "example_limit = \<lparr>li_others = id, li_context_ended = False, li_start = 3 * second, li_now = 3 * second\<rparr>"

definition example_round :: "upstream_result \<Rightarrow> (unit, unit) round_input" where
  "example_round result =
     \<lparr>ri_gone = False, ri_others = id, ri_now = 3 * second, ri_tag = example_limit, ri_worker = example_limit,
      ri_before_acquire = id, ri_acquired_at = 3 * second,
      ri_attempt = \<lparr>ai_result = result, ai_others = id, ai_gone = False, ai_now = 3 * second\<rparr>,
      ri_gone_after = False, ri_done_at = 3 * second\<rparr>"

definition example_proxy_input :: "(unit, unit) proxy_input" where
  "example_proxy_input =
     \<lparr>pi_body = Some ''a'', pi_headers = [], pi_url = \<lparr>url_scheme = [], url_user = [], url_host = [], url_path = ''/v1'',
        url_raw_query = [], url_fragment = []\<rparr>, pi_fresh_id = ''r'', pi_start = 3 * second, pi_capacity_at = 3 * second,
      pi_limit = example_limit, pi_rounds = [example_round (Answers 503 [] [] True), example_round (Answers 200 [] [(''ok'', True)] True),
        example_round NoUpstreamRequest], pi_final = \<lparr>fi_gone = False, fi_now = 3 * second\<rparr>\<rparr>"

lemma example_current: "current_config (example_shared r) = clone_gateway_config limited_config"
  by (simp add: current_config_def example_shared_def manager_snapshot_def)

lemma example_resolved:
  "\<exists>mc. resolve_requested_model (active_gateway_config (clone_gateway_config limited_config)) ''a'' = (''a'', Some mc) \<and>
     m_max_concurrency mc = 4 \<and> \<not> is_sglang_model mc"
proof -
  have "case resolve_requested_model (active_gateway_config (clone_gateway_config limited_config)) ''a'' of
      (m, Some mc) \<Rightarrow> m = ''a'' \<and> m_max_concurrency mc = 4 \<and> \<not> is_sglang_model mc | (m, None) \<Rightarrow> False"
    by code_simp
  then show ?thesis by (auto split: prod.splits option.splits)
qed

lemma example_read:
  "\<exists>rq mc. read_request example_proxy_env (active_gateway_config (clone_gateway_config limited_config)) example_proxy_input = Inr (rq, mc) \<and>
     rq_model rq = ''a'' \<and> rq_config rq = active_gateway_config (clone_gateway_config limited_config) \<and> m_max_concurrency mc = 4"
proof -
  obtain id h where id: "ensure_request_id ''r'' [] = (id, h)" by fastforce
  have m: "extract_model (pe_body example_proxy_env) ''a'' = ''a''" by code_simp
  have i: "pi_body example_proxy_input = Some ''a''" "pi_headers example_proxy_input = []" "pi_fresh_id example_proxy_input = ''r''"
    by (simp_all add: example_proxy_input_def)
  obtain mc where r: "resolve_requested_model (active_gateway_config (clone_gateway_config limited_config)) ''a'' = (''a'', Some mc)"
    "m_max_concurrency mc = 4" "\<not> is_sglang_model mc" using example_resolved by blast
  then show ?thesis by (simp add: read_request_def i id m normalize_proxy_request_body_def Let_def)
qed

definition no_workers :: registry where
  "no_workers = new_worker_registry (6 * second)"

lemma empty_snapshot_new: "snapshot now no_workers = ([], no_workers)"
  by (simp add: no_workers_def snapshot_def prune_offline_def offline_ids_def new_worker_registry_def map_filter_def Let_def)

lemma no_workers_no_round:
  assumes "\<not> ri_gone inp" "fst (snapshot (ri_now inp) (px_workers (ri_others inp (rs_shared st)))) = []"
  shows "\<exists>d st'. proxy_round env rq inp lo st = (Stop d, st')"
proof -
  obtain d err s where q: "schedule_round rq (ri_now inp) (lo_exclude lo) (rs_shared (on_shared (ri_others inp) st)) = ((d, err), s)"
    by (metis surj_pair)
  have "err \<noteq> None \<or> pd_worker d = None"
  proof (rule ccontr)
    assume "\<not> (err \<noteq> None \<or> pd_worker d = None)"
    then obtain w where "err = None" "pd_worker d = Some w" by auto
    with scheduled_worker[of rq "ri_now inp" "lo_exclude lo" "rs_shared (on_shared (ri_others inp) st)" d s w] q assms(2)
    show False by simp
  qed
  then show ?thesis using assms(1) q by (cases err; cases "pd_worker d"; simp add: proxy_round_def Let_def)
qed

text \<open>Without workers the request takes its place for the model, is answered 503 and gives the place back.\<close>

lemma unserved_request:
  "fst (handle_model_proxy example_proxy_env example_proxy_input (example_request_state no_workers)) = Some Responded"
proof -
  let ?r = no_workers
  let ?s = "example_shared ?r"
  obtain rq mc where rq: "read_request example_proxy_env (active_gateway_config (clone_gateway_config limited_config)) example_proxy_input = Inr (rq, mc)"
    "rq_model rq = ''a''" "m_max_concurrency mc = 4" using example_read by blast
  have w: "px_workers ?s = ?r" and p: "put_workers ?r ?s = ?s" by (simp_all add: px_workers_def put_workers_def example_shared_def)
  obtain cap where c: "model_capacity_of ''a'' 3000000000 ?s = (cap, ?s)" "wd_max_concurrency cap = 0"
    by (cases "mhas (gc_models (active_gateway_config (current_config ?s))) ''a''")
      (simp_all add: model_capacity_of_def w p empty_snapshot_new map_filter_def Let_def)
  obtain reps where r: "replica_stats ''a'' 3000000000 ?s = (reps, ?s)"
    by (simp add: replica_stats_def w p empty_snapshot_new Let_def)
  have at: "pi_capacity_at example_proxy_input = 3000000000" by (simp add: example_proxy_input_def)
  have cap: "effective_capacity 0 4 = 4" by (simp add: effective_capacity_def)
  obtain st1 where q: "acquire_observed_limit (pi_limit example_proxy_input) ''a'' (''model:'' @ ''a'') 4
      (effective_capacity (wd_max_queue cap) (m_max_queue mc)) reps ((example_request_state ?r)\<lparr>rs_shared := ?s\<rparr>) = (Place (Some ''model:a''), st1)"
    and w1: "px_workers (rs_shared st1) = ?r"
    by (simp add: acquire_observed_limit_def acquire_with_stats_def acquire_begin_def state_locked_def new_queue_limiter_def
      example_shared_def idle_limit_state_def initial_stats_def put_limit_state_def observe_queue_def px_workers_def acts_def Let_def)
  obtain r1 rest where rounds: "pi_rounds example_proxy_input = r1 # rest" "\<not> ri_gone r1" "ri_others r1 = id"
    by (simp add: example_proxy_input_def example_round_def)
  obtain d st2 where round: "proxy_round example_proxy_env rq r1 first_round st1 = (Stop d, st2)"
    using no_workers_no_round[of r1 st1 example_proxy_env rq first_round] rounds(2,3) w1 by (auto simp: empty_snapshot_new)
  have "\<exists>st3. proxy_loop example_proxy_env rq (pi_final example_proxy_input) (r1 # rest) first_round st1 = (Some Responded, st3)"
  proof -
    have a: "lo_attempts first_round = 0" "lo_failure first_round = None" "lo_queue_error first_round = None"
      by (simp_all add: first_round_def)
    have e: "pe_attempts example_proxy_env = 2" by (simp add: example_proxy_env_def)
    have f: "\<not> fi_gone (pi_final example_proxy_input)" by (simp add: example_proxy_input_def)
    show ?thesis by (simp add: proxy_loop.simps[of _ _ _ "r1 # rest"] round a e f after_loop_def)
  qed
  then obtain st3 where "proxy_loop example_proxy_env rq (pi_final example_proxy_input) (r1 # rest) first_round st1 = (Some Responded, st3)" ..
  moreover have "rs_shared (example_request_state no_workers) = ?s" by (simp add: example_request_state_def)
  ultimately show ?thesis using q by (simp add: handle_model_proxy_def example_current rq c r at cap rounds(1))
qed

theorem request_gives_back_what_it_takes_witness:
  "\<exists>new b. rs_log (snd (handle_model_proxy example_proxy_env example_proxy_input (example_request_state no_workers))) = new \<and>
     audit_log new audit_start = Some b \<and> au_worker b = None \<and> au_places b = {#} \<and> au_responded b"
  using request_gives_back_what_it_takes[OF prod.collapse[symmetric], of example_proxy_env example_proxy_input
      "example_request_state no_workers"] unserved_request
  by (auto simp: example_request_state_def)

theorem workers_tried_once_witness:
  "distinct (dispatched (rs_log (snd (handle_model_proxy example_proxy_env example_proxy_input (example_request_state two_workers))))) \<and>
   length (dispatched (rs_log (snd (handle_model_proxy example_proxy_env example_proxy_input (example_request_state two_workers))))) \<le> 2"
  using workers_tried_once[OF prod.collapse[symmetric], of example_proxy_env example_proxy_input "example_request_state two_workers"]
  by (auto simp: example_request_state_def example_proxy_env_def)

theorem dispatch_loop_ends_witness:
  "fst (handle_model_proxy example_proxy_env example_proxy_input (example_request_state two_workers)) \<noteq> None"
proof (rule dispatch_loop_ends)
  have "list_all (\<lambda>(k, w). w_id w \<in> set [''v'', ''w'']) (reg_workers two_workers)" by code_simp
  then have "map_of (reg_workers two_workers) k = Some w \<Longrightarrow> w_id w \<in> {''v'', ''w''}" for k w
    using map_of_SomeD by (fastforce simp: list_all_iff)
  then show "known (rs_shared (example_request_state two_workers)) \<subseteq> {''v'', ''w''}"
    by (auto simp: known_def reg_ids_def example_request_state_def example_shared_def px_workers_def)
qed (auto simp: example_proxy_input_def example_round_def example_limit_def round_ids_in_def ids_in_def)

end
