(* ===== verification/ControlLoop.thy ===== *)
theory ControlLoop
  imports Proxy Planning
begin

text \<open>
  The control loop of the gateway (internal/gateway/reconcile.go) and the calls it makes to llama-swap
  (internal/gateway/llamaswap_client.go). A pass unloads the replicas a model has above its ceiling and then carries the plan out:
  unloads in order, the warm-ups concurrently, their results in the order they arrive. The \<open>n\<close>-th call of a pass has the \<open>n\<close>-th input:
  what other requests and heartbeats do meanwhile, and the answer. Log lines and Prometheus counters are left out.
\<close>

section \<open>Calls to llama-swap\<close>

text \<open>\<open>url.PathEscape\<close>.\<close>

definition path_char :: "char \<Rightarrow> bool" where
  "path_char c \<longleftrightarrow> is_digit c \<or> (65 \<le> byte c \<and> byte c \<le> 90) \<or> (97 \<le> byte c \<and> byte c \<le> 122) \<or> c \<in> set ''-_.~$&+=:@''"

definition path_escape :: "string \<Rightarrow> string" where
  "path_escape s =
     concat (map (\<lambda>c. if path_char c then [c] else CHR ''%'' # map (\<lambda>n. ''0123456789ABCDEF'' ! n) [byte c div 16, byte c mod 16]) s)"

definition unload_endpoint :: "string \<Rightarrow> string \<Rightarrow> string" where
  "unload_endpoint base_url model = trim_right_char (CHR ''/'') base_url @ ''/api/models/unload/'' @ path_escape model"

definition load_endpoint :: "string \<Rightarrow> string \<Rightarrow> string" where
  "load_endpoint base_url model = trim_right_char (CHR ''/'') base_url @ ''/upstream/'' @ path_escape model @ ''/v1/models''"

definition unload_all_endpoint :: "string \<Rightarrow> string" where
  "unload_all_endpoint base_url = trim_right_char (CHR ''/'') base_url @ ''/api/models/unload''"

text \<open>The call failed, or the answer: its code, its status line and its body.\<close>

datatype call_answer = CallFailed call_error | Answered int string string

definition http_status_error :: "string \<Rightarrow> string \<Rightarrow> call_error" where
  "http_status_error status body =
     \<lparr>ce_canceled = False, ce_http_status = True, ce_url_error = False, ce_net_error = False,
      ce_text = (if body = [] then ''llama-swap returned '' @ status else ''llama-swap returned '' @ status @ '': '' @ body)\<rparr>"

fun client_result :: "call_answer \<Rightarrow> call_error option" where
  "client_result (CallFailed e) = Some e"
| "client_result (Answered code status body) = (if code \<ge> 300 then Some (http_status_error status body) else None)"

section \<open>State of a pass\<close>

text \<open>A call: the worker, the model, the endpoint and whether it succeeded.\<close>

datatype control_event =
    UnloadCall string string string bool
  | LoadCall string string string bool

record ('c, 'l) control_state =
  cs_shared :: "('c, 'l) proxy_shared"
  cs_log :: "control_event list"
  cs_calls :: nat
  cs_errors :: "call_error list"

record ('c, 'l) call_input =
  cl_others :: "('c, 'l) others"
  cl_answer :: call_answer
  cl_now :: time

definition on_state :: "('c, 'l) others \<Rightarrow> ('c, 'l) control_state \<Rightarrow> ('c, 'l) control_state" where
  "on_state f st = st\<lparr>cs_shared := f (cs_shared st)\<rparr>"

definition worker_call ::
  "(nat \<Rightarrow> ('c, 'l) call_input) \<Rightarrow> (bool \<Rightarrow> control_event) \<Rightarrow> ('c, 'l) control_state \<Rightarrow> call_error option \<times> ('c, 'l) control_state" where
  "worker_call inp event st =
     (let i = inp (cs_calls st); err = client_result (cl_answer i)
      in (err, (on_state (cl_others i) st)\<lparr>cs_calls := Suc (cs_calls st), cs_log := cs_log st @ [event (err = None)],
             cs_errors := cs_errors st @ (case err of Some e \<Rightarrow> [e] | None \<Rightarrow> [])\<rparr>))"

definition unload_call ::
  "(nat \<Rightarrow> ('c, 'l) call_input) \<Rightarrow> worker \<Rightarrow> string \<Rightarrow> ('c, 'l) control_state \<Rightarrow> call_error option \<times> ('c, 'l) control_state" where
  "unload_call inp w m st = worker_call inp (UnloadCall (w_id w) m (unload_endpoint (w_llama_swap_url w) m)) st"

definition load_call ::
  "(nat \<Rightarrow> ('c, 'l) call_input) \<Rightarrow> worker \<Rightarrow> string \<Rightarrow> ('c, 'l) control_state \<Rightarrow> call_error option \<times> ('c, 'l) control_state" where
  "load_call inp w m st = worker_call inp (LoadCall (w_id w) m (load_endpoint (w_llama_swap_url w) m)) st"

text \<open>What follows a call: whether the worker could be reached, and an event.\<close>

definition note_result ::
  "string \<Rightarrow> string \<Rightarrow> string \<Rightarrow> string \<Rightarrow> call_error option \<Rightarrow> time \<Rightarrow> ('c, 'l) others" where
  "note_result failed done_event worker_id m err now s =
     (let s = snd (record_reverse_access_result worker_id err now s)
      in record_gateway_worker_event worker_id now
           (case err of Some e \<Rightarrow> gateway_event failed m (ce_text e) | None \<Rightarrow> gateway_event done_event m []) s)"

definition unload_worker ::
  "(nat \<Rightarrow> ('c, 'l) call_input) \<Rightarrow> worker \<Rightarrow> string \<Rightarrow> ('c, 'l) control_state \<Rightarrow> bool \<times> ('c, 'l) control_state" where
  "unload_worker inp w m st =
     (let now = cl_now (inp (cs_calls st)); (err, st) = unload_call inp w m st
      in (err = None, on_state (note_result ''gateway_model_unload_error'' ''gateway_model_unload_done'' (w_id w) m err now) st))"

section \<open>Replicas above the ceiling\<close>

definition loaded_workers_for_model :: "worker list \<Rightarrow> string \<Rightarrow> time \<Rightarrow> registry \<Rightarrow> worker list" where
  "loaded_workers_for_model workers m now r = filter (\<lambda>w. healthy r (w_id w) now \<and> running_model_ready w m) workers"

definition less_recently_accessed :: "access_tracker \<Rightarrow> string \<Rightarrow> worker list \<Rightarrow> worker list" where
  "less_recently_accessed a m workers = sort_key (\<lambda>w. (worker_model_last_access a (w_id w) m, w_id w)) workers"

fun unload_excess ::
  "(nat \<Rightarrow> ('c, 'l) call_input) \<Rightarrow> (string, int) gomap \<Rightarrow> string \<Rightarrow> worker list \<Rightarrow> int \<Rightarrow> ('c, 'l) control_state \<Rightarrow>
   ('c, 'l) control_state" where
  "unload_excess inp active m [] excess st = st"
| "unload_excess inp active m (w # ws) excess st =
     (if \<not> excess > 0 then st
      else if mget 0 active (w_id w) > 0 then unload_excess inp active m ws excess st
      else case unload_worker inp w m st of
             (True, st) \<Rightarrow> unload_excess inp active m ws (excess - 1) st
           | (False, st) \<Rightarrow> unload_excess inp active m ws excess st)"

definition unload_above_ceiling ::
  "(nat \<Rightarrow> ('c, 'l) call_input) \<Rightarrow> time \<Rightarrow> (string, int) gomap \<Rightarrow> worker list \<Rightarrow> string \<times> model \<Rightarrow> ('c, 'l) control_state \<Rightarrow>
   ('c, 'l) control_state" where
  "unload_above_ceiling inp now active workers item st =
     (case item of (m, model) \<Rightarrow>
       let max_loaded = effective_max_loaded_cfg model
       in if max_loaded \<le> 0 \<and> \<not> m_max_loaded_set model then st
          else
            let loaded = loaded_workers_for_model workers m now (px_workers (cs_shared st))
            in if int (length loaded) \<le> max_loaded then st
               else unload_excess inp active m (less_recently_accessed (px_access (cs_shared st)) m loaded)
                      (int (length loaded) - max_loaded) st)"

section \<open>Carrying out the plan\<close>

definition planned_actions ::
  "gateway_config \<Rightarrow> cooldown_snapshot \<Rightarrow> time \<Rightarrow> ('c, 'l) control_state \<Rightarrow> control_action list \<times> ('c, 'l) control_state" where
  "planned_actions cfg cooling now st =
     (let s = cs_shared st;
          p = \<lparr>pl_config = cfg, pl_workers = Some (px_workers s), pl_access = Some (px_access s), pl_pressure = Some (px_pressure s),
               pl_cooldowns = cooling\<rparr>;
          (actions, p) = plan_control_actions now p;
          s = (case pl_workers p of Some r \<Rightarrow> put_workers r s | None \<Rightarrow> s);
          s = (case pl_pressure p of Some t \<Rightarrow> s\<lparr>px_pressure := t\<rparr> | None \<Rightarrow> s)
      in (actions, st\<lparr>cs_shared := s\<rparr>))"

definition start_action ::
  "(nat \<Rightarrow> ('c, 'l) call_input) \<Rightarrow> time \<Rightarrow> control_action \<Rightarrow> control_action list \<times> ('c, 'l) control_state \<Rightarrow>
   control_action list \<times> ('c, 'l) control_state" where
  "start_action inp clock a acc =
     (case acc of (warms, st) \<Rightarrow>
       if mget 0 (reg_active (px_workers (cs_shared st))) (w_id (ca_worker a)) > 0 then (warms, st)
       else case ca_type a of
              ControlActionUnload \<Rightarrow> (warms, snd (unload_worker inp (ca_worker a) (ca_model a) st))
            | ControlActionWarm \<Rightarrow> (warms @ [a], on_state (record_gateway_worker_event (w_id (ca_worker a)) clock
                (gateway_event ''gateway_model_warm_start'' (ca_model a) [])) st))"

definition finish_warm ::
  "(nat \<Rightarrow> ('c, 'l) call_input) \<Rightarrow> control_action \<Rightarrow> ('c, 'l) control_state \<Rightarrow> ('c, 'l) control_state" where
  "finish_warm inp a st =
     (let now = cl_now (inp (cs_calls st)); wid = w_id (ca_worker a);
          (err, st) = load_call inp (ca_worker a) (ca_model a) st
      in on_state (\<lambda>s.
           (let s = snd (record_reverse_access_result wid err now s);
                s = (if err = None then s
                     else s\<lparr>px_cooldowns := snd (mark_cooldown wid (ca_model a) ''control_warm_failed'' now now (px_cooldowns s))\<rparr>)
            in record_gateway_worker_event wid now
                 (case err of Some e \<Rightarrow> gateway_event ''gateway_model_warm_error'' (ca_model a) (ce_text e)
                  | None \<Rightarrow> gateway_event ''gateway_model_warm_done'' (ca_model a) []) s)) st)"

text \<open>\<open>Reconcile\<close>. \<open>arrivals\<close> puts the results of the warm-ups into the order in which they are received.\<close>

definition reconcile_loaded ::
  "(nat \<Rightarrow> ('c, 'l) call_input) \<Rightarrow> (control_action list \<Rightarrow> control_action list) \<Rightarrow> gateway_config \<Rightarrow> cooldown_snapshot \<Rightarrow> time \<Rightarrow>
   ('c, 'l) control_state \<Rightarrow> ('c, 'l) control_state" where
  "reconcile_loaded inp arrivals cfg cooling now st =
     (let active = active_snapshot (px_workers (cs_shared st));
          (workers, r) = snapshot now (px_workers (cs_shared st));
          st = on_state (put_workers r) st;
          st = fold (unload_above_ceiling inp now active workers) (gc_models cfg) st;
          (actions, st) = planned_actions cfg cooling now st;
          (warms, st) = fold (start_action inp now) actions ([], st)
      in fold (finish_warm inp) (arrivals warms) st)"

text \<open>One turn of \<open>RunLoadedReconciler\<close>, with the configuration and the cooldowns of that moment.\<close>

definition control_pass ::
  "(nat \<Rightarrow> ('c, 'l) call_input) \<Rightarrow> (control_action list \<Rightarrow> control_action list) \<Rightarrow> time \<Rightarrow> ('c, 'l) control_state \<Rightarrow>
   ('c, 'l) control_state" where
  "control_pass inp arrivals now st =
     (let cfg = active_gateway_config (current_config (cs_shared st));
          (cooling, c) = snapshot_cooldowns now now (px_cooldowns (cs_shared st))
      in reconcile_loaded inp arrivals cfg cooling now (on_state (\<lambda>s. s\<lparr>px_cooldowns := c\<rparr>) st))"

end
