(* ===== verification/ControlLoopFacts.thy ===== *)
theory ControlLoopFacts
  imports ControlLoop ProxyTries PlanningFacts
begin

text \<open>
  The control loop: a worker with requests in flight is told nothing, a pass leaves a model the replicas its ceiling allows, and what a
  plan counts is what the workers last reported.
\<close>

section \<open>The calls of a pass\<close>

fun called_worker :: "control_event \<Rightarrow> string" where
  "called_worker (UnloadCall w m e ok) = w"
| "called_worker (LoadCall w m e ok) = w"

fun succeeded :: "control_event \<Rightarrow> bool" where
  "succeeded (UnloadCall w m e ok) = ok"
| "succeeded (LoadCall w m e ok) = ok"

lemma state_simps [simp]:
  "cs_log (on_state f st) = cs_log st" "cs_calls (on_state f st) = cs_calls st" "cs_shared (on_state f st) = f (cs_shared st)"
  by (simp_all add: on_state_def)

lemma unload_worker_log:
  assumes "unload_worker inp w m st = (ok, st')"
  shows "cs_log st' = cs_log st @ [UnloadCall (w_id w) m (unload_endpoint (w_llama_swap_url w) m) ok]"
  using assms by (auto simp: unload_worker_def unload_call_def worker_call_def Let_def)

section \<open>Unloading above the ceiling\<close>

definition idle_in :: "(string, int) gomap \<Rightarrow> worker list \<Rightarrow> worker list" where
  "idle_in active ws = filter (\<lambda>w. \<not> mget 0 active (w_id w) > 0) ws"

lemma idle_in_simps [simp]:
  "idle_in active [] = []" "idle_in active (w # ws) = (if mget 0 active (w_id w) > 0 then idle_in active ws else w # idle_in active ws)"
  by (simp_all add: idle_in_def)

text \<open>The calls go to the first idle ones; there are at most as many successes as wanted, and fewer only when all idle ones were called.\<close>

definition excess_calls :: "worker list \<Rightarrow> int \<Rightarrow> control_event list \<Rightarrow> bool" where
  "excess_calls idle excess calls \<longleftrightarrow>
     (\<exists>k. map called_worker calls = take k (map w_id idle) \<and> int (length (filter succeeded calls)) \<le> max 0 excess \<and>
        (int (length (filter succeeded calls)) < max 0 excess \<longrightarrow> length idle \<le> k))"

lemma excess_calls_none: "excess_calls idle excess [] \<longleftrightarrow> excess \<le> 0 \<or> idle = []"
  by (cases idle) (auto simp: excess_calls_def intro: exI[of _ 0])

lemma excess_calls_Cons:
  assumes "excess_calls idle (excess - (if succeeded c then 1 else 0)) calls" "0 < excess" "called_worker c = w_id w"
  shows "excess_calls (w # idle) excess (c # calls)"
proof -
  obtain k where k: "map called_worker calls = take k (map w_id idle)"
    "int (length (filter succeeded calls)) \<le> max 0 (excess - (if succeeded c then 1 else 0))"
    "int (length (filter succeeded calls)) < max 0 (excess - (if succeeded c then 1 else 0)) \<longrightarrow> length idle \<le> k"
    using assms(1) unfolding excess_calls_def by blast
  show ?thesis unfolding excess_calls_def
    by (rule exI[of _ "Suc k"]) (use k assms(2,3) in \<open>auto simp: max_def split: if_splits\<close>)
qed

lemma unload_excess_calls:
  "\<exists>calls. cs_log (unload_excess inp active m ws excess st) = cs_log st @ calls \<and> excess_calls (idle_in active ws) excess calls"
proof (induction inp active m ws excess st rule: unload_excess.induct)
  case (1 inp active m excess st)
  show ?case by (simp add: excess_calls_none)
next
  case (2 inp active m w ws excess st)
  show ?case
  proof (cases "excess > 0")
    case False
    then show ?thesis by (simp add: excess_calls_none)
  next
    case pos: True
    show ?thesis
    proof (cases "mget 0 active (w_id w) > 0")
      case True
      with 2(1) pos show ?thesis by simp
    next
      case False
      obtain ok st1 where u: "unload_worker inp w m st = (ok, st1)" by fastforce
      let ?c = "UnloadCall (w_id w) m (unload_endpoint (w_llama_swap_url w) m) ok"
      have "\<exists>calls. cs_log (unload_excess inp active m (w # ws) excess st) = cs_log st1 @ calls \<and>
          excess_calls (idle_in active ws) (excess - (if ok then 1 else 0)) calls"
        using 2(2,3)[of ok st1] pos False u by (cases ok) simp_all
      then obtain calls where calls: "cs_log (unload_excess inp active m (w # ws) excess st) = cs_log st1 @ calls"
        "excess_calls (idle_in active ws) (excess - (if succeeded ?c then 1 else 0)) calls" by auto
      show ?thesis
        by (rule exI[of _ "?c # calls"])
          (use calls(1) False excess_calls_Cons[OF calls(2) pos] unload_worker_log[OF u] in simp)
    qed
  qed
qed


section \<open>Workers in use are left alone\<close>

text \<open>A worker that serves a request and has been heard of lately.\<close>

definition in_use_reg :: "time \<Rightarrow> string \<Rightarrow> registry \<Rightarrow> bool" where
  "in_use_reg now wid r \<longleftrightarrow> mget 0 (reg_active r) wid > 0 \<and>
     (\<forall>e \<in> set (reg_workers r). fst e = wid \<longrightarrow> time_sub now (w_last_heartbeat (snd e)) \<le> worker_offline_retention)"

definition in_use :: "time \<Rightarrow> string \<Rightarrow> ('c, 'l) proxy_shared \<Rightarrow> bool" where
  "in_use now wid s = in_use_reg now wid (px_workers s)"

lemma in_use_shared [simp]:
  "in_use now wid (put_workers r s) = in_use_reg now wid r"
  "in_use now wid (s\<lparr>px_cooldowns := c\<rparr>) = in_use now wid s"
  "in_use now wid (s\<lparr>px_pressure := p\<rparr>) = in_use now wid s"
  "in_use now wid (record_gateway_worker_event k t e s) = in_use now wid s"
  by (simp_all add: in_use_def px_workers_def put_workers_def record_gateway_worker_event_def record_agent_event_def Let_def)

lemma in_use_not_offline: "in_use_reg now wid r \<Longrightarrow> wid \<notin> set (offline_ids now r)"
  by (force simp: in_use_reg_def offline_ids_def)

lemma forgotten_workers_subset: "set (reg_workers (fold forget_worker ids r)) \<subseteq> set (reg_workers r)"
proof (induction ids arbitrary: r)
  case (Cons i ids)
  have "set (reg_workers (forget_worker i r)) \<subseteq> set (reg_workers r)" using set_mdel_subset by simp
  with Cons[of "forget_worker i r"] show ?case by simp
qed simp

lemma in_use_prune: "in_use_reg now wid r \<Longrightarrow> in_use_reg now wid (prune_offline now r)"
  using in_use_not_offline[of now wid r] forgotten_workers_subset[of "offline_ids now r" r]
  by (auto simp: in_use_reg_def prune_offline_fields)

lemma in_use_put:
  "in_use_reg now wid r \<Longrightarrow> map_of (reg_workers r) k = Some w \<Longrightarrow> w_last_heartbeat v = w_last_heartbeat w \<Longrightarrow>
   in_use_reg now wid (r\<lparr>reg_workers := mput k v (reg_workers r)\<rparr>)"
  using set_mput_subset[of k v "reg_workers r"] map_of_SomeD[of "reg_workers r" k w] by (force simp: in_use_reg_def)

lemma in_use_success: "in_use_reg now wid r \<Longrightarrow> in_use_reg now wid (record_scrape_success k r)"
  by (simp add: record_scrape_success_def in_use_put split: option.split)

lemma in_use_failure: "in_use_reg now wid r \<Longrightarrow> in_use_reg now wid (snd (record_reverse_failure k t r))"
  by (simp add: record_reverse_failure_def Let_def in_use_put split: option.split)

lemma in_use_result:
  assumes "in_use now wid s"
  shows "in_use now wid (snd (record_reverse_access_result k err t s))"
  using assms in_use_success[of now wid "px_workers s" k] in_use_failure[of now wid "px_workers s" k t]
  by (auto simp: record_reverse_access_result_def record_reverse_access_failure_def in_use_def[of now wid s]
      split: option.splits bool.splits prod.splits)

text \<open>What a pass keeps: the worker is in use, and no call has gone to it.\<close>

definition spares :: "time \<Rightarrow> string \<Rightarrow> control_event list \<Rightarrow> ('c, 'l) control_state \<Rightarrow> bool" where
  "spares now wid before st \<longleftrightarrow> in_use now wid (cs_shared st) \<and>
     (\<exists>calls. cs_log st = before @ calls \<and> wid \<notin> called_worker ` set calls)"

lemma spares_shared:
  "spares now wid before st \<Longrightarrow> (in_use now wid (cs_shared st) \<Longrightarrow> in_use now wid (f (cs_shared st))) \<Longrightarrow>
   spares now wid before (on_state f st)"
  by (simp add: spares_def)

definition polite :: "time \<Rightarrow> string \<Rightarrow> (nat \<Rightarrow> ('c, 'l) call_input) \<Rightarrow> bool" where
  "polite now wid inp \<longleftrightarrow> (\<forall>n s. in_use now wid s \<longrightarrow> in_use now wid (cl_others (inp n) s))"

lemma spares_call:
  assumes "spares now wid before st" "polite now wid inp" "called_worker (e True) \<noteq> wid" "called_worker (e False) \<noteq> wid"
  shows "spares now wid before (snd (worker_call inp e st))"
proof -
  let ?ok = "client_result (cl_answer (inp (cs_calls st))) = None"
  obtain calls where "cs_log st = before @ calls" "wid \<notin> called_worker ` set calls" using assms(1) by (auto simp: spares_def)
  moreover have "called_worker (e ?ok) \<noteq> wid" using assms(3,4) by (cases "client_result (cl_answer (inp (cs_calls st)))") simp_all
  moreover have "cs_log (snd (worker_call inp e st)) = cs_log st @ [e ?ok]" by (simp add: worker_call_def Let_def)
  moreover have "in_use now wid (cs_shared (snd (worker_call inp e st)))"
    using assms(1,2) by (simp add: worker_call_def Let_def spares_def polite_def)
  ultimately show ?thesis unfolding spares_def by (intro conjI exI[of _ "calls @ [e ?ok]"]) simp_all
qed

lemma in_use_note_result [simp]: "in_use now wid s \<Longrightarrow> in_use now wid (note_result f d k m err t s)"
  by (simp add: note_result_def Let_def in_use_result)

lemma spares_unload_worker:
  assumes "spares now wid before st" "polite now wid inp" "w_id w \<noteq> wid"
  shows "spares now wid before (snd (unload_worker inp w m st))"
  using spares_call[OF assms(1,2), of "UnloadCall (w_id w) m (unload_endpoint (w_llama_swap_url w) m)"] assms(3)
  by (auto simp: unload_worker_def unload_call_def Let_def intro: spares_shared split: prod.split)

lemma spares_unload_excess:
  "spares now wid before st \<Longrightarrow> polite now wid inp \<Longrightarrow> mget 0 active wid > 0 \<Longrightarrow>
   spares now wid before (unload_excess inp active m ws excess st)"
proof (induction inp active m ws excess st rule: unload_excess.induct)
  case (2 inp active m w ws excess st)
  have *: "spares now wid before (snd (unload_worker inp w m st))" if "\<not> mget 0 active (w_id w) > 0"
    by (rule spares_unload_worker[OF 2(4,5)]) (use that 2(6) in auto)
  show ?case using 2 * by (auto split: prod.split bool.split)
qed simp

lemma spares_above_ceiling:
  "spares now wid before st \<Longrightarrow> polite now wid inp \<Longrightarrow> mget 0 active wid > 0 \<Longrightarrow>
   spares now wid before (unload_above_ceiling inp t active ws item st)"
  by (auto simp: unload_above_ceiling_def Let_def spares_unload_excess split: prod.split)

lemma fold_spares:
  "(\<And>x s. x \<in> set xs \<Longrightarrow> spares now wid before s \<Longrightarrow> spares now wid before (f x s)) \<Longrightarrow> spares now wid before s \<Longrightarrow>
   spares now wid before (fold f xs s)"
  by (induction xs arbitrary: s) auto

lemma spares_finish_warm:
  assumes "spares now wid before st" "polite now wid inp" "w_id (ca_worker a) \<noteq> wid"
  shows "spares now wid before (finish_warm inp a st)"
  using spares_call[OF assms(1,2), of "LoadCall (w_id (ca_worker a)) (ca_model a) (load_endpoint (w_llama_swap_url (ca_worker a)) (ca_model a))"]
    assms(3)
  by (auto simp: finish_warm_def load_call_def Let_def in_use_result intro!: spares_shared split: prod.split)

definition start_ok :: "time \<Rightarrow> string \<Rightarrow> control_event list \<Rightarrow> control_action list \<times> ('c, 'l) control_state \<Rightarrow> bool" where
  "start_ok now wid before acc \<longleftrightarrow> spares now wid before (snd acc) \<and> (\<forall>a \<in> set (fst acc). w_id (ca_worker a) \<noteq> wid)"

lemma start_ok_step:
  assumes "start_ok now wid before acc" "polite now wid inp"
  shows "start_ok now wid before (start_action inp t a acc)"
proof (cases acc)
  case (Pair warms st)
  have st: "spares now wid before st" using assms(1) Pair by (simp add: start_ok_def)
  have other: "w_id (ca_worker a) \<noteq> wid" if "\<not> mget 0 (reg_active (px_workers (cs_shared st))) (w_id (ca_worker a)) > 0"
    using that st by (auto simp: spares_def in_use_def in_use_reg_def)
  show ?thesis
    using assms(1) Pair other spares_unload_worker[OF st assms(2)] spares_shared[OF st]
    by (auto simp: start_action_def start_ok_def split: control_action_type.split)
qed

lemma start_ok_fold: "start_ok now wid before acc \<Longrightarrow> polite now wid inp \<Longrightarrow> start_ok now wid before (fold (start_action inp t) as acc)"
  by (induction as arbitrary: acc) (auto simp: start_ok_step)

lemma plan_warm_workers: "pl_workers (snd (plan_warm_models now ws a l ms t q)) = pl_workers q"
proof (induction ms arbitrary: t q)
  case (Cons m ms)
  show ?case unfolding plan_warm_models.simps Let_def
    by (simp add: Cons split: prod.split option.split)
qed simp

lemma plan_workers:
  assumes "pl_workers p = Some r"
  shows "pl_workers (snd (plan_control_actions now p)) = Some (prune_offline now r)"
proof -
  obtain ws r' where snap: "snapshot now r = (ws, r')" by fastforce
  then have r': "r' = prune_offline now r" by (metis snapshot_state snd_conv)
  have warm: "pl_workers (snd (plan_warm_action now ws a l q)) = pl_workers q" for ws a l q
    by (simp add: plan_warm_action_def plan_warm_workers split: option.split)
  let ?p = "p\<lparr>pl_workers := Some r'\<rparr>"
  let ?act = "active_snapshot r'" and ?load = "running_model_counts ?p ws now"
  obtain a q where w: "plan_warm_action now ws ?act ?load ?p = (a, q)" by fastforce
  with warm[of ws ?act ?load ?p] have "pl_workers q = Some r'" by simp
  then show ?thesis
    by (simp add: plan_control_actions_def assms snap Let_def r'[symmetric] w split: floor_result.split option.split)
qed

lemma spares_planned:
  assumes "spares now wid before st" "planned_actions cfg cooling now st = (actions, st')"
  shows "spares now wid before st'"
proof -
  let ?s = "cs_shared st"
  let ?p = "\<lparr>pl_config = cfg, pl_workers = Some (px_workers ?s), pl_access = Some (px_access ?s), pl_pressure = Some (px_pressure ?s),
    pl_cooldowns = cooling\<rparr>"
  obtain as p' where plan: "plan_control_actions now ?p = (as, p')" by fastforce
  have "pl_workers p' = Some (prune_offline now (px_workers ?s))"
    using plan_workers[of ?p "px_workers ?s" now] plan by simp
  with assms plan show ?thesis
    by (auto simp: planned_actions_def Let_def spares_def in_use_def[of now wid "cs_shared st"] in_use_prune split: option.splits)
qed

text \<open>
  C6. A worker that serves a request is told neither to unload nor to load: as long as what others do keeps it in use and heard of, a whole
  pass of the control loop makes no call to it.
\<close>

theorem busy_worker_untouched:
  assumes "in_use now wid (cs_shared st)" "polite now wid inp" "\<And>warms. set (arrivals warms) \<subseteq> set warms"
  shows "\<exists>calls. cs_log (reconcile_loaded inp arrivals cfg cooling now st) = cs_log st @ calls \<and>
    (\<forall>c \<in> set calls. called_worker c \<noteq> wid)"
proof -
  let ?active = "active_snapshot (px_workers (cs_shared st))" and ?before = "cs_log st"
  obtain workers r where snap: "snapshot now (px_workers (cs_shared st)) = (workers, r)" by fastforce
  define st1 where "st1 = fold (unload_above_ceiling inp now ?active workers) (gc_models cfg) (on_state (put_workers r) st)"
  obtain actions st2 where plan: "planned_actions cfg cooling now st1 = (actions, st2)" by fastforce
  obtain warms st3 where start: "fold (start_action inp now) actions ([], st2) = (warms, st3)" by fastforce
  have active: "mget 0 ?active wid > 0" using assms(1) by (simp add: in_use_def in_use_reg_def active_snapshot_def)
  have r: "r = prune_offline now (px_workers (cs_shared st))" using snap by (metis snapshot_state snd_conv)
  have "spares now wid ?before (on_state (put_workers r) st)"
    using assms(1) by (simp add: spares_def r in_use_prune in_use_def[of now wid "cs_shared st"])
  then have "spares now wid ?before st1" unfolding st1_def
    by (rule fold_spares[rotated]) (rule spares_above_ceiling[OF _ assms(2) active])
  then have "start_ok now wid ?before ([], st2)" using spares_planned[OF _ plan] by (simp add: start_ok_def)
  from start_ok_fold[OF this assms(2), of now actions]
  have "start_ok now wid ?before (warms, st3)" by (simp add: start)
  then have "spares now wid ?before (fold (finish_warm inp) (arrivals warms) st3)"
    using assms(3)[of warms] by (intro fold_spares) (auto simp: start_ok_def intro!: spares_finish_warm[OF _ assms(2)])
  then show ?thesis
    using plan start by (auto simp: reconcile_loaded_def Let_def snap st1_def[symmetric] spares_def)
qed

section \<open>Witnesses\<close>

definition busy_state :: "(unit, unit) control_state" where
  "busy_state = \<lparr>cs_shared = example_shared (two_workers\<lparr>reg_active := [(''w'', 1)]\<rparr>), cs_log = [], cs_calls = 0, cs_errors = []\<rparr>"

definition quiet_call :: "nat \<Rightarrow> (unit, unit) call_input" where
  "quiet_call n = \<lparr>cl_others = id, cl_answer = Answered 200 ''200 OK'' [], cl_now = 3 * second\<rparr>"

theorem busy_worker_untouched_witness:
  "\<exists>calls. cs_log (reconcile_loaded quiet_call id limited_config [] (3 * second) busy_state) = [] @ calls \<and>
    (\<forall>c \<in> set calls. called_worker c \<noteq> ''w'')"
proof -
  have "in_use_reg (3 * second) ''w'' (two_workers\<lparr>reg_active := [(''w'', 1)]\<rparr>)"
    unfolding in_use_reg_def by code_simp
  then have "in_use (3 * second) ''w'' (cs_shared busy_state)"
    by (simp add: in_use_def busy_state_def example_shared_def px_workers_def)
  moreover have "polite (3 * second) ''w'' quiet_call" by (simp add: polite_def quiet_call_def)
  ultimately show ?thesis
    using busy_worker_untouched[of "3 * second" "''w''" busy_state quiet_call id limited_config "[]"] by (simp add: busy_state_def)
qed

end
