(* ===== verification/UpstreamFacts.thy ===== *)
theory UpstreamFacts
  imports Upstream
begin

text \<open>
  What crosses the hop to a worker: the gateway's own credentials and never the client's, the headers that identify the request, and
  no header that is meant for one connection only.
\<close>

section \<open>Names of headers\<close>

lemma byte_less: "byte c < 256"
  by (simp add: byte_def)

lemma byte_of_code: "n < 256 \<Longrightarrow> byte (char_of n) = n"
  by (simp add: byte_def of_char_of)

lemma byte_inject: "byte c = byte d \<longleftrightarrow> c = d"
  by (simp add: byte_def)

lemma byte_ascii_upper: "byte (ascii_upper c) = (if 97 \<le> byte c \<and> byte c \<le> 122 then byte c - 32 else byte c)"
  using byte_less[of c] by (simp add: ascii_upper_def byte_of_code)

lemma byte_ascii_lower: "byte (ascii_lower c) = (if 65 \<le> byte c \<and> byte c \<le> 90 then byte c + 32 else byte c)"
  using byte_less[of c] by (simp add: ascii_lower_def byte_of_code)

lemma ascii_lower_folds [simp]: "ascii_lower (ascii_upper c) = ascii_lower c" "ascii_lower (ascii_lower c) = ascii_lower c"
  by (auto simp: byte_inject[symmetric] byte_ascii_lower byte_ascii_upper)

lemma token_char_folds [simp]: "token_char c \<Longrightarrow> token_char (ascii_upper c)" "token_char c \<Longrightarrow> token_char (ascii_lower c)"
  by (auto simp: token_char_def ascii_upper_def ascii_lower_def byte_of_code)

lemma capitalize_words_token:
  "list_all token_char s \<Longrightarrow> list_all token_char (capitalize_words first s) \<and>
     map ascii_lower (capitalize_words first s) = map ascii_lower s"
  by (induction s arbitrary: first) auto

lemma to_lower_canonical [simp]: "to_lower (canonical_header name) = to_lower name"
  using capitalize_words_token[of name True] by (simp add: canonical_header_def to_lower_token)

lemma hop_by_hop_canonical [simp]: "hop_by_hop_header (canonical_header name) = hop_by_hop_header name"
  by (simp add: hop_by_hop_header_def)

section \<open>Copied headers\<close>

lemma keys_add_values: "set (mkeys (add_values key values dst)) \<subseteq> insert (canonical_header key) (set (mkeys dst))"
proof (induction "values" arbitrary: dst)
  case (Cons v vs)
  from Cons[of "header_add key v dst"] show ?case by (auto simp: add_values_def header_add_def)
qed (auto simp: add_values_def)

lemma keys_copied:
  assumes "\<And>key. Q key \<Longrightarrow> \<not> skip key \<Longrightarrow> P (canonical_header key)"
    "\<forall>e \<in> set src. Q (fst e)" "\<forall>k \<in> set (mkeys dst). P k"
  shows "\<forall>k \<in> set (mkeys (fold (\<lambda>(key, vs) dst. if skip key then dst else add_values key vs dst) src dst)). P k"
  using assms(2,3)
proof (induction src arbitrary: dst)
  case (Cons e src)
  have "\<forall>k \<in> set (mkeys (if skip (fst e) then dst else add_values (fst e) (snd e) dst)). P k"
    using Cons.prems assms(1) keys_add_values[of "fst e" "snd e" dst] by auto
  with Cons show ?case by (simp add: case_prod_beta)
qed simp

lemma copied_request_headers:
  "\<forall>k \<in> set (mkeys (copy_request_headers [] client)). \<not> hop_by_hop_header k \<and> to_lower k \<notin> set (connection_header_names client)"
  unfolding copy_request_headers_def
  by (rule keys_copied[where Q = "\<lambda>_. True" and
      skip = "\<lambda>key. hop_by_hop_header key \<or> to_lower key \<in> set (connection_header_names client)"]) (auto simp: mkeys_def)

definition gateway_headers :: "string list" where
  "gateway_headers = [''X-Request-Id'', ''X-Gateway-Model'', ''X-Gateway-Worker'', ''Authorization'']"

lemma gateway_header_names:
  "canonical_header ''X-Request-Id'' = ''X-Request-Id''" "canonical_header ''X-Gateway-Model'' = ''X-Gateway-Model''"
  "canonical_header ''X-Gateway-Worker'' = ''X-Gateway-Worker''" "canonical_header ''Authorization'' = ''Authorization''"
  by code_simp+

lemma gateway_headers_pass: "list_all (\<lambda>k. \<not> hop_by_hop_header k) gateway_headers"
  by code_simp

definition may_cross :: "http_header \<Rightarrow> string \<Rightarrow> bool" where
  "may_cross client k \<longleftrightarrow> \<not> hop_by_hop_header k \<and> (k \<in> set gateway_headers \<or> to_lower k \<notin> set (connection_header_names client))"

text \<open>
  C7. What a worker receives: whatever the client sent, the \<open>Authorization\<close> header is the gateway's own token for llama-swap and nothing
  else, or absent when there is none; the model and the worker are the ones the gateway chose; and no header that is meant for one
  connection, nor one the client names in its \<open>Connection\<close> header, is passed on.
\<close>

theorem client_credentials_stay:
  "header_values (upstream_headers client model worker_id token) ''Authorization'' = (if token = [] then [] else [''Bearer '' @ token]) \<and>
   header_values (upstream_headers client model worker_id token) ''X-Gateway-Model'' = [model] \<and>
   header_values (upstream_headers client model worker_id token) ''X-Gateway-Worker'' = [worker_id] \<and>
   list_all (may_cross client) (mkeys (upstream_headers client model worker_id token))"
proof -
  have own: "may_cross client k" if "k \<in> set gateway_headers" for k
    using gateway_headers_pass that by (simp add: may_cross_def list_all_iff)
  have "may_cross client k" if "k \<in> set (mkeys (copy_request_headers [] client))" for k
    using copied_request_headers[of client] that by (simp add: may_cross_def)
  then have "list_all (may_cross client) (mkeys (upstream_headers client model worker_id token))"
    using own unfolding gateway_headers_def
    by (auto simp: upstream_headers_def Let_def header_set_def header_del_def gateway_header_names list_all_iff)
  then show ?thesis
    by (auto simp: upstream_headers_def Let_def header_values_def header_set_def header_del_def gateway_header_names)
qed

end
