(* ===== verification/AdminActions.thy ===== *)
theory AdminActions
  imports ControlLoop Promotion
begin

text \<open>
  What an operator can do (internal/gateway/admin_actions.go and internal/gateway/config_admin.go): draining a worker, warming and
  unloading a model on one, clearing a cooldown, and promoting a service name, with the state the gateway checks before a promotion
  and the impact it reports for a change of configuration. A request is what the JSON decoder made of it. A handler returns its
  reply, the calls it made and the state; the calls have the inputs of the control loop's.
\<close>

section \<open>Replies\<close>

record admin_reply =
  ad_status :: int
  ad_action :: string
  ad_result :: string
  ad_worker_id :: string
  ad_model :: string
  ad_error :: string

definition admin_done :: "string \<Rightarrow> string \<Rightarrow> string \<Rightarrow> admin_reply" where
  "admin_done action worker_id model =
     \<lparr>ad_status = 200, ad_action = action, ad_result = ''done'', ad_worker_id = worker_id, ad_model = model, ad_error = []\<rparr>"

definition write_admin_action_error :: "int \<Rightarrow> string \<Rightarrow> string \<Rightarrow> string \<Rightarrow> string \<Rightarrow> admin_reply" where
  "write_admin_action_error status action worker_id model message =
     \<lparr>ad_status = status, ad_action = action, ad_result = ''error'', ad_worker_id = worker_id, ad_model = model, ad_error = message\<rparr>"

section \<open>Workers\<close>

definition find_worker :: "string \<Rightarrow> time \<Rightarrow> ('c, 'l) proxy_shared \<Rightarrow> worker option \<times> ('c, 'l) proxy_shared" where
  "find_worker worker_id now s =
     (let (workers, r) = snapshot now (px_workers s) in (find (\<lambda>w. w_id w = worker_id) workers, put_workers r s))"

definition handle_ui_worker_drain :: "string \<Rightarrow> time \<Rightarrow> ('c, 'l) proxy_shared \<Rightarrow> admin_reply \<times> ('c, 'l) proxy_shared" where
  "handle_ui_worker_drain path_id now s =
     (let worker_id = trim_space path_id
      in case drain worker_id (px_workers s) of
           (None, r) \<Rightarrow> (write_admin_action_error 404 ''worker_drain'' worker_id [] ''worker not found'', put_workers r s)
         | (Some w, r) \<Rightarrow> (admin_done ''worker_drain'' (w_id w) [],
             record_gateway_worker_event (w_id w) now (gateway_event ''gateway_worker_drain'' [] []) (put_workers r s)))"

definition handle_ui_worker_undrain :: "string \<Rightarrow> time \<Rightarrow> ('c, 'l) proxy_shared \<Rightarrow> admin_reply \<times> ('c, 'l) proxy_shared" where
  "handle_ui_worker_undrain path_id now s =
     (let worker_id = trim_space path_id
      in case undrain worker_id (px_workers s) of
           (None, r) \<Rightarrow> (write_admin_action_error 404 ''worker_undrain'' worker_id [] ''worker not found'', put_workers r s)
         | (Some w, r) \<Rightarrow> (admin_done ''worker_undrain'' (w_id w) [],
             record_gateway_worker_event (w_id w) now (gateway_event ''gateway_worker_undrain'' [] []) (put_workers r s)))"

section \<open>Models\<close>

text \<open>The decoded body: the worker and \<open>force\<close>, or \<open>None\<close> when it is not JSON.\<close>

definition decode_model_action_request :: "(string \<times> bool) option \<Rightarrow> admin_reply + string \<times> bool" where
  "decode_model_action_request body =
     (case body of
        None \<Rightarrow> Inl (write_admin_action_error 400 ''model_action'' [] [] ''invalid json'')
      | Some (worker_id, force) \<Rightarrow>
          if trim_space worker_id = [] then Inl (write_admin_action_error 400 ''model_action'' [] [] ''worker_id is required'')
          else Inr (trim_space worker_id, force))"

text \<open>Why a worker may not be told to load a model.\<close>

definition warm_refusal :: "gateway_config \<Rightarrow> worker \<Rightarrow> string \<Rightarrow> time \<Rightarrow> registry \<Rightarrow> string option" where
  "warm_refusal cfg w model now r =
     (if \<not> healthy r (w_id w) now then Some ''worker is not healthy or active''
      else if \<not> worker_allows_model cfg w model then Some ''worker is not allowed to run model''
      else if \<not> artifact_ready w model then Some ''artifact is not ready on worker''
      else None)"

definition handle_ui_model_warm ::
  "(nat \<Rightarrow> ('c, 'l) call_input) \<Rightarrow> string \<Rightarrow> (string \<times> bool) option \<Rightarrow> time \<Rightarrow> ('c, 'l) control_state \<Rightarrow>
   admin_reply \<times> ('c, 'l) control_state" where
  "handle_ui_model_warm inp path_model body now st =
     (let model = trim_space path_model
      in case decode_model_action_request body of
           Inl reply \<Rightarrow> (reply, st)
         | Inr (worker_id, force) \<Rightarrow>
            (let cfg = active_gateway_config (current_config (cs_shared st))
             in if \<not> mhas (gc_models cfg) model then (write_admin_action_error 404 ''model_warm'' worker_id model ''model not found'', st)
                else
                  (let (found, s) = find_worker worker_id now (cs_shared st); st = st\<lparr>cs_shared := s\<rparr>
                   in case found of
                        None \<Rightarrow> (write_admin_action_error 404 ''model_warm'' worker_id model ''worker not found'', st)
                      | Some w \<Rightarrow>
                          (case warm_refusal cfg w model now (px_workers s) of
                             Some message \<Rightarrow> (write_admin_action_error 409 ''model_warm'' (w_id w) model message, st)
                           | None \<Rightarrow>
                              (let st = on_state (record_gateway_worker_event (w_id w) now (gateway_event ''gateway_model_warm_start'' model [])) st;
                                   t = cl_now (inp (cs_calls st));
                                   (err, st) = load_call inp w model st;
                                   st = on_state (note_result ''gateway_model_warm_error'' ''gateway_model_warm_done'' (w_id w) model err t) st
                               in (case err of
                                     Some e \<Rightarrow> write_admin_action_error 502 ''model_warm'' (w_id w) model (ce_text e)
                                   | None \<Rightarrow> admin_done ''model_warm'' (w_id w) model, st))))))"

definition unload_refusal :: "bool \<Rightarrow> worker \<Rightarrow> string \<Rightarrow> registry \<Rightarrow> string option" where
  "unload_refusal force w model r =
     (if mget 0 (active_snapshot r) (w_id w) > 0 \<and> \<not> force then Some ''worker has active requests''
      else if \<not> running_model_ready w model \<and> \<not> force then Some ''model is not ready on worker''
      else None)"

definition handle_ui_model_unload ::
  "(nat \<Rightarrow> ('c, 'l) call_input) \<Rightarrow> string \<Rightarrow> (string \<times> bool) option \<Rightarrow> time \<Rightarrow> ('c, 'l) control_state \<Rightarrow>
   admin_reply \<times> ('c, 'l) control_state" where
  "handle_ui_model_unload inp path_model body now st =
     (let model = trim_space path_model
      in case decode_model_action_request body of
           Inl reply \<Rightarrow> (reply, st)
         | Inr (worker_id, force) \<Rightarrow>
            (if \<not> mhas (gc_models (current_config (cs_shared st))) model
             then (write_admin_action_error 404 ''model_unload'' worker_id model ''model not found'', st)
             else
               (let (found, s) = find_worker worker_id now (cs_shared st); st = st\<lparr>cs_shared := s\<rparr>
                in case found of
                     None \<Rightarrow> (write_admin_action_error 404 ''model_unload'' worker_id model ''worker not found'', st)
                   | Some w \<Rightarrow>
                       (case unload_refusal force w model (px_workers s) of
                          Some message \<Rightarrow> (write_admin_action_error 409 ''model_unload'' (w_id w) model message, st)
                        | None \<Rightarrow>
                           (let t = cl_now (inp (cs_calls st));
                                (err, st) = unload_call inp w model st;
                                st = on_state (note_result ''gateway_model_unload_error'' ''gateway_model_unload_done'' (w_id w) model err t) st
                            in (case err of
                                  Some e \<Rightarrow> write_admin_action_error 502 ''model_unload'' (w_id w) model (ce_text e)
                                | None \<Rightarrow> admin_done ''model_unload'' (w_id w) model, st))))))"

definition handle_ui_cooldown_clear ::
  "(string \<times> string) option \<Rightarrow> time \<Rightarrow> ('c, 'l) proxy_shared \<Rightarrow> admin_reply \<times> ('c, 'l) proxy_shared" where
  "handle_ui_cooldown_clear body now s =
     (case body of
        None \<Rightarrow> (write_admin_action_error 400 ''cooldown_clear'' [] [] ''invalid json'', s)
      | Some (worker_id, model) \<Rightarrow>
          (let worker_id = trim_space worker_id; model = trim_space model
           in if worker_id = [] \<or> model = []
              then (write_admin_action_error 400 ''cooldown_clear'' worker_id model ''worker_id and model are required'', s)
              else (admin_done ''cooldown_clear'' worker_id model,
                s\<lparr>px_cooldowns := snd (clear_cooldown worker_id model now now (px_cooldowns s))\<rparr>)))"

section \<open>Before a promotion\<close>

text \<open>The replicas of the target a request could be sent to, and how many there have to be.\<close>

definition routable_replica :: "gateway_config \<Rightarrow> string \<Rightarrow> time \<Rightarrow> registry \<Rightarrow> worker \<Rightarrow> bool" where
  "routable_replica cfg target now r w \<longleftrightarrow>
     running_model_ready w target \<and> artifact_ready w target \<and> healthy r (w_id w) now \<and> worker_allows_model cfg w target"

definition count_routable ::
  "gateway_config \<Rightarrow> string \<Rightarrow> time \<Rightarrow> registry \<Rightarrow> worker \<Rightarrow> int \<times> replica_cooldowns \<Rightarrow> int \<times> replica_cooldowns" where
  "count_routable cfg target now r w acc =
     (case acc of (n, c) \<Rightarrow>
        if \<not> routable_replica cfg target now r w then (n, c)
        else case cooldown_active (w_id w) target now now c of (cooling, c) \<Rightarrow> (if cooling then n else n + 1, c))"

definition service_name_target_readiness ::
  "gateway_config \<Rightarrow> string \<Rightarrow> time \<Rightarrow> ('c, 'l) proxy_shared \<Rightarrow> (int \<times> int) \<times> ('c, 'l) proxy_shared" where
  "service_name_target_readiness cfg target now s =
     (let need = max (m_min_loaded (mget zero_model (gc_models cfg) target)) 1;
          (workers, r) = snapshot now (px_workers s);
          (ready, c) = fold (count_routable cfg target now r) workers (0, px_cooldowns s)
      in ((ready, need), (put_workers r s)\<lparr>px_cooldowns := c\<rparr>))"

definition limit_in_use :: "queue_limiter \<Rightarrow> string \<Rightarrow> bool" where
  "limit_in_use l key \<longleftrightarrow> queue_active l key > 0 \<or> queue_queued l key > 0"

definition idle_artifact_states :: "string list" where
  "idle_artifact_states = [[], ''ready'', ''missing'', ''unavailable'', ''error'']"

text \<open>What one worker has against the promotion: requests, a replica or an artifact of the old model.\<close>

definition worker_conflict :: "queue_limiter \<Rightarrow> string \<Rightarrow> worker \<Rightarrow> service_name_conflict option" where
  "worker_conflict l service_name w =
     (if limit_in_use l (worker_model_limit_key (w_id w) service_name) then Some OldRequestsActive
      else if \<exists>running \<in> set (w_running_models w). rm_model running = service_name then Some OldReplicaActive
      else if to_lower (trim_space (mget [] (w_artifacts w) service_name)) \<notin> set idle_artifact_states then Some OldArtifactBusy
      else None)"

fun first_conflict :: "(worker \<Rightarrow> service_name_conflict option) \<Rightarrow> worker list \<Rightarrow> service_name_conflict option" where
  "first_conflict f [] = None"
| "first_conflict f (w # ws) = (case f w of Some e \<Rightarrow> Some e | None \<Rightarrow> first_conflict f ws)"

definition validate_service_name_promotion_state ::
  "gateway_config \<Rightarrow> string \<Rightarrow> string \<Rightarrow> time \<Rightarrow> ('c, 'l) proxy_shared \<Rightarrow> service_name_conflict option \<times> ('c, 'l) proxy_shared" where
  "validate_service_name_promotion_state cfg service_name target now s =
     (if accounting_model_active (px_accounting s) service_name > 0 \<or> limit_in_use (px_limiter s) (''model:'' @ service_name)
      then (Some OldRequestsActive, s)
      else
        let (workers, r) = snapshot now (px_workers s); s = put_workers r s
        in case first_conflict (worker_conflict (px_limiter s) service_name) workers of
             Some e \<Rightarrow> (Some e, s)
           | None \<Rightarrow>
              (let ((ready, need), s) = service_name_target_readiness cfg target now s
               in (if ready < need then Some TargetNotReady else None, s)))"

text \<open>\<open>handleUIServiceNameEligibility\<close>: the targets, in the order of their names.\<close>

record target_eligibility =
  el_model :: string
  el_routable_ready :: int
  el_ready_floor :: int
  el_eligible :: bool

definition handle_ui_service_name_eligibility ::
  "string \<Rightarrow> time \<Rightarrow> ('c, 'l) proxy_shared \<Rightarrow> (string \<times> target_eligibility list) \<times> ('c, 'l) proxy_shared" where
  "handle_ui_service_name_eligibility query now s =
     (let service_name = trim_space query; cfg = current_config s;
          names = filter (\<lambda>n. \<not> (n = service_name \<or> m_disabled (mget zero_model (gc_models cfg) n))) (mkeys (gc_models cfg));
          (targets, s) = fold (\<lambda>n (targets, s).
              case service_name_target_readiness cfg n now s of ((ready, need), s) \<Rightarrow>
                (targets @ [\<lparr>el_model = n, el_routable_ready = ready, el_ready_floor = need, el_eligible = (ready \<ge> need)\<rparr>], s))
            names ([], s)
      in ((service_name, sort_key el_model targets), s))"

text \<open>The status and the reason of a refused transaction.\<close>

fun conflict_code :: "service_name_conflict \<Rightarrow> string" where
  "conflict_code PendingRestartConfig = ''pending_restart_config''"
| "conflict_code OldModelMissing = ''old_model_missing''"
| "conflict_code OldModelEnabled = ''old_model_enabled''"
| "conflict_code AliasExists = ''alias_exists''"
| "conflict_code InvalidTarget = ''invalid_target''"
| "conflict_code TargetMissing = ''target_missing''"
| "conflict_code TargetDisabled = ''target_disabled''"
| "conflict_code ArchiveUnavailable = ''archive_unavailable''"
| "conflict_code ArchiveMismatch = ''archive_mismatch''"
| "conflict_code NamespaceChanged = ''namespace_changed''"
| "conflict_code AliasChanged = ''alias_changed''"
| "conflict_code PolicyChanged = ''policy_changed''"
| "conflict_code OldRequestsActive = ''old_requests_active''"
| "conflict_code OldReplicaActive = ''old_replica_active''"
| "conflict_code OldArtifactBusy = ''old_artifact_busy''"
| "conflict_code TargetNotReady = ''target_not_ready''"

fun service_name_reason_code :: "('e, 'r, 'x) transaction_error \<Rightarrow> string" where
  "service_name_reason_code (Conflict e) = conflict_code e"
| "service_name_reason_code NamesRequired = ''invalid_config''"
| "service_name_reason_code (InvalidTransactionConfig e) = ''invalid_config''"
| "service_name_reason_code e = ''storage_failure''"

fun transaction_error_status :: "('e, 'r, 'x) transaction_error \<Rightarrow> int" where
  "transaction_error_status (Conflict e) = 409"
| "transaction_error_status NamesRequired = 400"
| "transaction_error_status (InvalidTransactionConfig e) = 400"
| "transaction_error_status e = 500"

section \<open>The impact of a change of configuration\<close>

record config_impact =
  ci_model :: string
  ci_worker_id :: string
  ci_running_state :: string
  ci_loaded :: bool
  ci_requires_worker_restart :: bool
  ci_reason :: string

definition runtime_detail :: string where
  "runtime_detail = ''runtime command or artifact changed''"

definition state_requires_config_restart :: "string \<Rightarrow> bool" where
  "state_requires_config_restart state \<longleftrightarrow>
     to_lower (trim_space state) \<in> {[], ''active'', ''loaded'', ''loading'', ''ready'', ''running'', ''starting''}"

definition runtime_changed :: "config_change list \<Rightarrow> string \<Rightarrow> bool" where
  "runtime_changed changes model \<longleftrightarrow>
     (\<exists>c \<in> set changes. cc_model c = model \<and> model \<noteq> [] \<and> (cc_detail c = runtime_detail \<or> cc_type c = ''removed''))"

definition config_impacts ::
  "config_change list \<Rightarrow> time \<Rightarrow> ('c, 'l) proxy_shared \<Rightarrow> config_impact list \<times> ('c, 'l) proxy_shared" where
  "config_impacts changes now s =
     (if \<not> (\<exists>c \<in> set changes. runtime_changed changes (cc_model c)) then ([], s)
      else
        let (workers, r) = snapshot now (px_workers s)
        in (concat (map (\<lambda>w. map (\<lambda>running.
                \<lparr>ci_model = rm_model running, ci_worker_id = w_id w, ci_running_state = rm_state running, ci_loaded = True,
                 ci_requires_worker_restart = True, ci_reason = ''loaded model runtime or artifact config changed''\<rparr>)
              (filter (\<lambda>running. runtime_changed changes (rm_model running) \<and>
                 state_requires_config_restart (rm_state running)) (w_running_models w))) workers),
            put_workers r s))"

definition decorate_change :: "config_impact list \<Rightarrow> config_change \<Rightarrow> config_change" where
  "decorate_change impacts c =
     (if cc_model c = [] then c
      else if \<exists>i \<in> set impacts. ci_requires_worker_restart i \<and> ci_model i = cc_model c then c\<lparr>cc_requires_worker_restart := True\<rparr>
      else if cc_detail c = runtime_detail then c\<lparr>cc_requires_worker_restart := False\<rparr>
      else c)"

text \<open>\<open>decorateConfigImpact\<close> on a valid answer: the changes, the apply mode and the impacts.\<close>

definition decorate_config_impact ::
  "config_change list \<Rightarrow> string \<Rightarrow> time \<Rightarrow> ('c, 'l) proxy_shared \<Rightarrow>
   (config_change list \<times> string \<times> config_impact list) \<times> ('c, 'l) proxy_shared" where
  "decorate_config_impact changes apply_mode now s =
     (let mode = (if apply_mode = [] then apply_mode_for_changes changes else apply_mode);
          (impacts, s) = config_impacts changes now s
      in ((map (decorate_change impacts) changes, mode, impacts), s))"

definition configured_proxy_attempts :: "gateway_config \<Rightarrow> int" where
  "configured_proxy_attempts cfg = (if gs_proxy_attempts (gc_gateway cfg) > 0 then gs_proxy_attempts (gc_gateway cfg) else default_proxy_attempts)"

end
