(* ===== verification/AdminFacts.thy ===== *)
theory AdminFacts
  imports AdminActions PromotionFacts ProxyTries
begin

text \<open>
  What the operator's actions guarantee: a worker is told to load or unload a model only after the checks, and a service name is
  promoted only when nothing of the old model is in use and the target has the replicas it needs.
\<close>

section \<open>Calls on an operator's behalf\<close>

lemma found_worker: "fst (find_worker k now s) = Some w \<Longrightarrow> w \<in> set (fst (snapshot now (px_workers s))) \<and> w_id w = k"
  by (auto simp: find_worker_def find_Some_iff split: prod.splits)

lemma workers_of_found [simp]: "px_workers (snd (find_worker k now s)) = prune_offline now (px_workers s)"
  by (simp add: find_worker_def snapshot_state[symmetric] put_workers_def px_workers_def split: prod.split)

lemma worker_call_log: "\<exists>ok. cs_log (snd (worker_call inp e st)) = cs_log st @ [e ok]"
  by (auto simp: worker_call_def Let_def)

definition may_warm :: "gateway_config \<Rightarrow> string \<Rightarrow> time \<Rightarrow> registry \<Rightarrow> worker \<Rightarrow> bool" where
  "may_warm cfg model now r w \<longleftrightarrow> mhas (gc_models cfg) model \<and> healthy r (w_id w) now \<and> worker_allows_model cfg w model \<and> artifact_ready w model"

text \<open>
  Warming a model by hand makes at most one call, and only to a registered worker that is healthy, that a tag policy allows to run the
  model, and on which the artifact is ready; the model is one of the active configuration.
\<close>

theorem warm_by_hand_checked:
  "cs_log (snd (handle_ui_model_warm inp path_model body now st)) = cs_log st \<or>
   (\<exists>w \<in> set (fst (snapshot now (px_workers (cs_shared st)))). \<exists>endpoint ok.
      may_warm (active_gateway_config (current_config (cs_shared st))) (trim_space path_model) now
        (prune_offline now (px_workers (cs_shared st))) w \<and>
      cs_log (snd (handle_ui_model_warm inp path_model body now st)) = cs_log st @ [LoadCall (w_id w) (trim_space path_model) endpoint ok])"
proof (cases "decode_model_action_request body")
  case (Inl reply)
  then show ?thesis by (simp add: handle_ui_model_warm_def)
next
  case (Inr req)
  obtain k force where req: "req = (k, force)" by fastforce
  obtain found s where f: "find_worker k now (cs_shared st) = (found, s)" by fastforce
  then have workers: "px_workers s = prune_offline now (px_workers (cs_shared st))" by (metis snd_conv workers_of_found)
  let ?m = "trim_space path_model" and ?cfg = "active_gateway_config (current_config (cs_shared st))"
  consider "\<not> mhas (gc_models ?cfg) ?m" | "mhas (gc_models ?cfg) ?m" "found = None" | w message where "mhas (gc_models ?cfg) ?m" "found = Some w" "warm_refusal ?cfg w ?m now (px_workers s) = Some message"
    | w where "mhas (gc_models ?cfg) ?m" "found = Some w" "warm_refusal ?cfg w ?m now (px_workers s) = None"
    by (metis option.exhaust)
  then show ?thesis
  proof cases
    case 1
    then have "handle_ui_model_warm inp path_model body now st = (write_admin_action_error 404 ''model_warm'' k ?m ''model not found'', st)"
      by (simp add: handle_ui_model_warm_def Inr req)
    then show ?thesis by simp
  next
    case 2
    then have "snd (handle_ui_model_warm inp path_model body now st) = st\<lparr>cs_shared := s\<rparr>"
      by (simp add: handle_ui_model_warm_def Inr req f)
    then show ?thesis by simp
  next
    case 3
    then have "snd (handle_ui_model_warm inp path_model body now st) = st\<lparr>cs_shared := s\<rparr>"
      by (simp add: handle_ui_model_warm_def Inr req f)
    then show ?thesis by simp
  next
    case (4 w)
    then have w: "found = Some w" "warm_refusal ?cfg w ?m now (px_workers s) = None" by simp_all
    let ?st = "on_state (record_gateway_worker_event (w_id w) now (gateway_event ''gateway_model_warm_start'' ?m [])) (st\<lparr>cs_shared := s\<rparr>)"
    obtain err st2 where call: "load_call inp w ?m ?st = (err, st2)" by fastforce
    then obtain ok where log: "cs_log st2 = cs_log st @ [LoadCall (w_id w) ?m (load_endpoint (w_llama_swap_url w) ?m) ok]"
      using worker_call_log[of inp "LoadCall (w_id w) ?m (load_endpoint (w_llama_swap_url w) ?m)" ?st]
      by (auto simp: load_call_def on_state_def)
    have "cs_log (snd (handle_ui_model_warm inp path_model body now st)) = cs_log st2"
      using Inr req f 4 call by (simp add: handle_ui_model_warm_def on_state_def) (simp add: Let_def)
    moreover have "w \<in> set (fst (snapshot now (px_workers (cs_shared st))))" using found_worker[of k now "cs_shared st"] f w by simp
    moreover have "may_warm ?cfg ?m now (prune_offline now (px_workers (cs_shared st))) w"
      using 4 workers by (auto simp: may_warm_def warm_refusal_def split: if_splits)
    ultimately show ?thesis using log by auto
  qed
qed

definition may_unload :: "string \<Rightarrow> registry \<Rightarrow> worker \<Rightarrow> bool" where
  "may_unload model r w \<longleftrightarrow> \<not> mget 0 (reg_active r) (w_id w) > 0 \<and> running_model_ready w model"

text \<open>
  Unloading a model by hand makes at most one call, and, unless it is forced, only to a registered worker that serves no request and
  has the model ready.
\<close>

theorem unload_by_hand_checked:
  "cs_log (snd (handle_ui_model_unload inp path_model body now st)) = cs_log st \<or>
   (\<exists>w \<in> set (fst (snapshot now (px_workers (cs_shared st)))). \<exists>endpoint ok.
      (may_unload (trim_space path_model) (prune_offline now (px_workers (cs_shared st))) w \<or> map_option snd body = Some True) \<and>
      cs_log (snd (handle_ui_model_unload inp path_model body now st)) = cs_log st @ [UnloadCall (w_id w) (trim_space path_model) endpoint ok])"
proof (cases "decode_model_action_request body")
  case (Inl reply)
  then show ?thesis by (simp add: handle_ui_model_unload_def)
next
  case (Inr req)
  obtain k force where req: "req = (k, force)" by fastforce
  have force: "map_option snd body = Some force"
    using Inr req by (auto simp: decode_model_action_request_def split: option.splits if_splits)
  obtain found s where f: "find_worker k now (cs_shared st) = (found, s)" by fastforce
  then have workers: "px_workers s = prune_offline now (px_workers (cs_shared st))" by (metis snd_conv workers_of_found)
  let ?m = "trim_space path_model"
  consider "\<not> mhas (gc_models (current_config (cs_shared st))) ?m" | "mhas (gc_models (current_config (cs_shared st))) ?m" "found = None" | w message where "mhas (gc_models (current_config (cs_shared st))) ?m" "found = Some w" "unload_refusal force w ?m (px_workers s) = Some message"
    | w where "mhas (gc_models (current_config (cs_shared st))) ?m" "found = Some w" "unload_refusal force w ?m (px_workers s) = None"
    by (metis option.exhaust)
  then show ?thesis
  proof cases
    case 1
    then have "handle_ui_model_unload inp path_model body now st = (write_admin_action_error 404 ''model_unload'' k ?m ''model not found'', st)"
      by (simp add: handle_ui_model_unload_def Inr req)
    then show ?thesis by simp
  next
    case 2
    then have "snd (handle_ui_model_unload inp path_model body now st) = st\<lparr>cs_shared := s\<rparr>"
      by (simp add: handle_ui_model_unload_def Inr req f)
    then show ?thesis by simp
  next
    case 3
    then have "snd (handle_ui_model_unload inp path_model body now st) = st\<lparr>cs_shared := s\<rparr>"
      by (simp add: handle_ui_model_unload_def Inr req f)
    then show ?thesis by simp
  next
    case (4 w)
    then have w: "found = Some w" "unload_refusal force w ?m (px_workers s) = None" by simp_all
    let ?st = "st\<lparr>cs_shared := s\<rparr>"
    obtain err st2 where call: "unload_call inp w ?m ?st = (err, st2)" by fastforce
    then obtain ok where log: "cs_log st2 = cs_log st @ [UnloadCall (w_id w) ?m (unload_endpoint (w_llama_swap_url w) ?m) ok]"
      using worker_call_log[of inp "UnloadCall (w_id w) ?m (unload_endpoint (w_llama_swap_url w) ?m)" ?st]
      by (auto simp: unload_call_def)
    have "cs_log (snd (handle_ui_model_unload inp path_model body now st)) = cs_log st2"
      using Inr req f 4 call by (simp add: handle_ui_model_unload_def on_state_def) (simp add: Let_def)
    moreover have "w \<in> set (fst (snapshot now (px_workers (cs_shared st))))" using found_worker[of k now "cs_shared st"] f w by simp
    moreover have "may_unload ?m (prune_offline now (px_workers (cs_shared st))) w \<or> map_option snd body = Some True"
      using 4 workers force by (auto simp: may_unload_def unload_refusal_def active_snapshot_def split: if_splits)
    ultimately show ?thesis using log by auto
  qed
qed

section \<open>Promotions\<close>

lemma first_conflict_None: "first_conflict f ws = None \<longleftrightarrow> (\<forall>w \<in> set ws. f w = None)"
  by (induction ws) (auto split: option.split)

lemma counted_routable:
  "fst (fold (count_routable cfg target now r) ws (n, c)) \<le> n + int (length (filter (routable_replica cfg target now r) ws))"
proof (induction ws arbitrary: n c)
  case (Cons w ws)
  obtain n' c' where step: "count_routable cfg target now r w (n, c) = (n', c')" by fastforce
  then have "n' \<le> n + (if routable_replica cfg target now r w then 1 else 0)"
    by (auto simp: count_routable_def split: if_splits prod.splits)
  with Cons[of n' c'] step show ?case by (cases "routable_replica cfg target now r w") simp_all
qed simp

definition old_model_idle :: "string \<Rightarrow> queue_limiter \<Rightarrow> worker \<Rightarrow> bool" where
  "old_model_idle service_name l w \<longleftrightarrow> \<not> limit_in_use l (worker_model_limit_key (w_id w) service_name) \<and>
     (\<forall>running \<in> set (w_running_models w). rm_model running \<noteq> service_name)"

definition ready_for_promotion :: "gateway_config \<Rightarrow> string \<Rightarrow> string \<Rightarrow> time \<Rightarrow> ('c, 'l) proxy_shared \<Rightarrow> bool" where
  "ready_for_promotion cfg service_name target now s \<longleftrightarrow>
     \<not> accounting_model_active (px_accounting s) service_name > 0 \<and> \<not> limit_in_use (px_limiter s) (''model:'' @ service_name) \<and>
     list_all (old_model_idle service_name (px_limiter s)) (fst (snapshot now (px_workers s))) \<and>
     max (m_min_loaded (mget zero_model (gc_models cfg) target)) 1 \<le>
       int (length (filter (routable_replica cfg target now (prune_offline now (prune_offline now (px_workers s))))
         (fst (snapshot now (prune_offline now (px_workers s))))))"

lemma validated_state:
  assumes "fst (validate_service_name_promotion_state cfg service_name target now s) = None"
  shows "ready_for_promotion cfg service_name target now s"
proof -
  obtain ws r where snap: "snapshot now (px_workers s) = (ws, r)" by fastforce
  then have r: "r = prune_offline now (px_workers s)" by (metis snapshot_state snd_conv)
  obtain ws2 r2 where snap2: "snapshot now r = (ws2, r2)" by fastforce
  then have r2: "r2 = prune_offline now r" by (metis snapshot_state snd_conv)
  let ?s = "put_workers r s"
  have px: "px_workers ?s = r" "px_limiter ?s = px_limiter s" "px_cooldowns ?s = px_cooldowns s"
    by (simp_all add: px_workers_def put_workers_def)
  obtain ready c where cnt: "fold (count_routable cfg target now r2) ws2 (0, px_cooldowns s) = (ready, c)" by fastforce
  let ?need = "max (m_min_loaded (mget zero_model (gc_models cfg) target)) 1"
  have readiness: "fst (service_name_target_readiness cfg target now ?s) = (ready, ?need)"
    by (simp add: service_name_target_readiness_def px snap2 cnt Let_def)
  have idle: "\<not> (accounting_model_active (px_accounting s) service_name > 0 \<or> limit_in_use (px_limiter s) (''model:'' @ service_name))"
    using assms by (auto simp: validate_service_name_promotion_state_def)
  moreover have none: "first_conflict (worker_conflict (px_limiter s) service_name) ws = None"
    using assms idle by (cases "first_conflict (worker_conflict (px_limiter s) service_name) ws")
      (simp_all add: validate_service_name_promotion_state_def snap px Let_def)
  moreover have "\<not> ready < ?need"
    using assms idle none readiness
    by (cases "service_name_target_readiness cfg target now ?s")
      (simp add: validate_service_name_promotion_state_def snap px Let_def split: if_splits)
  moreover have "ready \<le> int (length (filter (routable_replica cfg target now r2) ws2))"
    using counted_routable[of cfg target now r2 ws2 0 "px_cooldowns s"] cnt by simp
  moreover have "list_all (old_model_idle service_name (px_limiter s)) ws"
    using none by (auto simp: first_conflict_None list_all_iff worker_conflict_def old_model_idle_def split: if_splits)
  ultimately show ?thesis
    unfolding ready_for_promotion_def r[symmetric] snap snap2 r2[symmetric] fst_conv by (intro conjI; linarith?)
qed

lemma promoted_validates:
  assumes "promote_service_name env allocate ops validate req st = (Inr resp, st', published)"
  shows "validate (fst (service_name_config_snapshot (fst st))) = None"
proof -
  obtain m t where st: "st = (m, t)" by fastforce
  obtain current file_current version where snap: "service_name_config_snapshot m = (current, file_current, version)"
    by (metis prod.exhaust)
  show ?thesis
  proof (cases "validate current")
    case None
    then show ?thesis by (simp add: st snap)
  next
    case (Some e)
    then have "\<exists>x. fst (promote_service_name env allocate ops validate req st) = Inl x"
      by (simp add: promote_service_name_def st snap Let_def split: option.split)
    with assms show ?thesis by simp
  qed
qed


section \<open>Witness\<close>

definition serving_registry :: registry where
  "serving_registry =
     snd (upsert_heartbeat (beat ''w'' (running_on ''b'') [(''b'', ''ready'')] False []) (2 * second) (new_worker_registry (6 * second)))"

lemma promote_validated:
  assumes "validate (fst (service_name_config_snapshot (fst st))) = None"
  shows "promote_service_name env allocate ops validate req st = promote_service_name env allocate ops (\<lambda>_. None) req st"
proof -
  obtain m t where st: "st = (m, t)" by fastforce
  obtain current file_current version where snap: "service_name_config_snapshot m = (current, file_current, version)"
    by (metis prod.exhaust)
  have ok: "validate current = None" using assms by (simp add: st snap)
  show ?thesis unfolding promote_service_name_def st Let_def snap prod.case ok by (rule refl)
qed

lemma serving_state_validates:
  "fst (validate_service_name_promotion_state (clone_gateway_config (promotable_config example_policy)) ''a'' ''b'' (3 * second)
     (example_shared serving_registry)) = None"
  by code_simp


end
