(* ===== verification/EventLogs.thy ===== *)
theory EventLogs
  imports Access
begin

text \<open>
  The JSON-lines logs of the gateway: appending to them, reading their last lines and reading them page by page, newest first
  (internal/gateway/request_log.go and internal/gateway/worker_event_log.go, with the handlers of internal/gateway/ui.go that page
  through them). The two logs differ only in the type of their entries. A file is the list of its lines; \<open>json.Marshal\<close> and
  \<open>json.Unmarshal\<close> are \<open>lc_marshal\<close> and \<open>lc_unmarshal\<close>. The sums of offsets wrap around as an int does.
\<close>

section \<open>Writing\<close>

record 'e log_codec =
  lc_marshal :: "'e \<Rightarrow> string option"
  lc_unmarshal :: "string \<Rightarrow> 'e option"

text \<open>What the file system does to the directory, the opening and the writing of the log.\<close>

datatype log_write_fault = WriteSucceeds | MkdirFails | OpenFails | WriteFails

text \<open>\<open>appendRequestLog\<close>: whether it succeeds, and the lines afterwards; \<open>appendWorkerEventLog\<close> has the same body.\<close>

definition append_log :: "'e log_codec \<Rightarrow> string \<Rightarrow> log_write_fault \<Rightarrow> 'e \<Rightarrow> string list \<Rightarrow> bool \<times> string list" where
  "append_log codec path fault entry file =
     (if path = [] then (True, file)
      else if fault = MkdirFails \<or> fault = OpenFails then (False, file)
      else case lc_marshal codec entry of
             None \<Rightarrow> (False, file)
           | Some line \<Rightarrow> if fault = WriteFails then (False, file) else (True, file @ [line]))"

definition append_worker_event_log :: "'e log_codec \<Rightarrow> string \<Rightarrow> log_write_fault \<Rightarrow> 'e \<Rightarrow> string list \<Rightarrow> bool \<times> string list" where
  "append_worker_event_log codec path fault entry file = append_log codec path fault entry file"

section \<open>Reading\<close>

definition default_page_limit :: int where
  "default_page_limit = 100"

definition wrap64 :: "int \<Rightarrow> int" where
  "wrap64 x = sint (word_of_int x :: 64 word)"

definition load_recent_log_lines :: "string \<Rightarrow> 'x log_file \<Rightarrow> int \<Rightarrow> 'x + string list" where
  "load_recent_log_lines path file limit =
     (if path = [] then Inr []
      else case file of
             NotExist \<Rightarrow> Inr []
           | OpenError e \<Rightarrow> Inl e
           | Opened scanned \<Rightarrow> recent_request_log_lines limit scanned)"

text \<open>At start-up: the worker events in the order of the file, the requests newest first.\<close>

definition load_recent_worker_events :: "'e log_codec \<Rightarrow> string \<Rightarrow> 'x log_file \<Rightarrow> int \<Rightarrow> 'x + 'e list" where
  "load_recent_worker_events codec path file limit =
     (case load_recent_log_lines path file limit of
        Inl e \<Rightarrow> Inl e
      | Inr lines \<Rightarrow> Inr (List.map_filter (lc_unmarshal codec) lines))"

definition load_recent_request_logs :: "'e log_codec \<Rightarrow> string \<Rightarrow> 'x log_file \<Rightarrow> int \<Rightarrow> 'x + 'e list" where
  "load_recent_request_logs codec path file limit =
     (case load_recent_log_lines path file limit of
        Inl e \<Rightarrow> Inl e
      | Inr lines \<Rightarrow> Inr (List.map_filter (lc_unmarshal codec) (rev lines)))"

record 'e log_page =
  lp_entries :: "'e list"
  lp_next_offset :: int
  lp_has_more :: bool

definition cut_slice :: "'a list \<Rightarrow> int \<Rightarrow> int \<Rightarrow> 'a list" where
  "cut_slice xs i j = take (nat (j - i)) (drop (nat i) xs)"

definition page_limit :: "int \<Rightarrow> int" where
  "page_limit limit = (let limit = (if limit \<le> 0 then default_page_limit else limit) in if limit > 500 then 500 else limit)"

text \<open>\<open>loadRequestLogPage\<close>; \<open>loadWorkerEventPage\<close> has the same body.\<close>

definition load_log_page :: "'e log_codec \<Rightarrow> string \<Rightarrow> 'x log_file \<Rightarrow> int \<Rightarrow> int \<Rightarrow> 'x + 'e log_page" where
  "load_log_page codec path file offset limit =
     (let offset = (if offset < 0 then 0 else offset);
          limit = page_limit limit
      in case load_recent_log_lines path file (wrap64 (offset + limit + 1)) of
           Inl e \<Rightarrow> Inl e
         | Inr lines \<Rightarrow>
             (let entries = List.map_filter (lc_unmarshal codec) (rev lines);
                  n = int (length entries);
                  offset = (if offset > n then n else offset);
                  last = (if offset + limit > n then n else offset + limit);
                  page = cut_slice entries offset last
              in Inr \<lparr>lp_entries = page, lp_next_offset = offset + int (length page), lp_has_more = n > last\<rparr>))"

definition load_worker_event_page :: "'e log_codec \<Rightarrow> string \<Rightarrow> 'x log_file \<Rightarrow> int \<Rightarrow> int \<Rightarrow> 'x + 'e log_page" where
  "load_worker_event_page codec path file offset limit = load_log_page codec path file offset limit"

text \<open>Paging through the entries held in memory; a slice with bounds out of order panics.\<close>

definition memory_page :: "'e list \<Rightarrow> int \<Rightarrow> int \<Rightarrow> 'e log_page option" where
  "memory_page entries offset limit =
     (let offset = (if offset < 0 then 0 else offset);
          limit = (if limit \<le> 0 then default_page_limit else limit);
          n = int (length entries);
          offset = (if offset > n then n else offset);
          last = wrap64 (offset + limit);
          last = (if last > n then n else last)
      in if last < offset then None
         else Some \<lparr>lp_entries = cut_slice entries offset last, lp_next_offset = last, lp_has_more = n > last\<rparr>)"

text \<open>\<open>recentRequestLogs\<close>: newest first.\<close>

definition recent_request_logs :: "'e list \<Rightarrow> 'e list" where
  "recent_request_logs recent = rev recent"

definition recent_agent_events :: "'e list \<Rightarrow> 'e list" where
  "recent_agent_events recent = rev recent"

datatype 'e page_reply = PagePanic | PageFails | PageSent "'e log_page"

text \<open>\<open>handleUIRequests\<close>; \<open>store\<close> is the records store, when there is one.\<close>

definition handle_ui_requests ::
  "'e log_codec \<Rightarrow> (int \<Rightarrow> int \<Rightarrow> 'e log_page option) option \<Rightarrow> string \<Rightarrow> 'x log_file \<Rightarrow> 'e list \<Rightarrow> int \<Rightarrow> int \<Rightarrow> 'e page_reply" where
  "handle_ui_requests codec store path file recent offset limit =
     (case store of
        Some page \<Rightarrow> (case page offset limit of None \<Rightarrow> PageFails | Some p \<Rightarrow> PageSent p)
      | None \<Rightarrow>
          if path = [] then (case memory_page (recent_request_logs recent) offset limit of None \<Rightarrow> PagePanic | Some p \<Rightarrow> PageSent p)
          else case load_log_page codec path file offset limit of Inl e \<Rightarrow> PageFails | Inr p \<Rightarrow> PageSent p)"

definition handle_ui_events ::
  "'e log_codec \<Rightarrow> (int \<Rightarrow> int \<Rightarrow> 'e log_page option) option \<Rightarrow> string \<Rightarrow> 'x log_file \<Rightarrow> 'e list \<Rightarrow> int \<Rightarrow> int \<Rightarrow> 'e page_reply" where
  "handle_ui_events codec store path file recent offset limit =
     (case store of
        Some page \<Rightarrow> (case page offset limit of None \<Rightarrow> PageFails | Some p \<Rightarrow> PageSent p)
      | None \<Rightarrow>
          if path = [] then (case memory_page (recent_agent_events recent) offset limit of None \<Rightarrow> PagePanic | Some p \<Rightarrow> PageSent p)
          else case load_worker_event_page codec path file offset limit of Inl e \<Rightarrow> PageFails | Inr p \<Rightarrow> PageSent p)"

text \<open>A reader that asks for page after page.\<close>

fun read_pages :: "(int \<Rightarrow> 'x + 'e log_page) \<Rightarrow> nat \<Rightarrow> int \<Rightarrow> 'e list option" where
  "read_pages page 0 offset = None"
| "read_pages page (Suc fuel) offset =
     (case page offset of
        Inl e \<Rightarrow> None
      | Inr p \<Rightarrow>
          if lp_has_more p then map_option ((@) (lp_entries p)) (read_pages page fuel (lp_next_offset p))
          else Some (lp_entries p))"

section \<open>Pages of a log\<close>

text \<open>A codec whose lines decode to what was encoded and survive the trimming of lines.\<close>

definition codec_ok :: "'e log_codec \<Rightarrow> bool" where
  "codec_ok codec \<longleftrightarrow>
     (\<forall>e line. lc_marshal codec e = Some line \<longrightarrow> lc_unmarshal codec line = Some e \<and> trim_space line = line \<and> line \<noteq> [])"

text \<open>The log after entries have been appended, each of them without a fault.\<close>

definition appended :: "'e log_codec \<Rightarrow> string \<Rightarrow> 'e list \<Rightarrow> string list \<Rightarrow> string list" where
  "appended codec path es file = fold (\<lambda>e file. snd (append_log codec path WriteSucceeds e file)) es file"

lemma appended_lines:
  assumes "path \<noteq> []" "\<forall>e \<in> set es. lc_marshal codec e \<noteq> None"
  shows "appended codec path es ls = ls @ map (the \<circ> lc_marshal codec) es"
  using assms(2)
proof (induction es arbitrary: ls)
  case (Cons e es)
  then obtain line where "lc_marshal codec e = Some line" by auto
  with Cons assms(1) show ?case by (auto simp: appended_def append_log_def)
qed (simp add: appended_def)

lemma log_lines_encoded:
  assumes "codec_ok codec" "\<forall>e \<in> set es. lc_marshal codec e \<noteq> None"
  shows "log_lines (map (the \<circ> lc_marshal codec) es) = map (the \<circ> lc_marshal codec) es"
  using assms by (induction es) (auto simp: log_lines_def codec_ok_def)

lemma decode_encoded:
  assumes "codec_ok codec" "\<forall>e \<in> set es. lc_marshal codec e \<noteq> None"
  shows "List.map_filter (lc_unmarshal codec) (map (the \<circ> lc_marshal codec) es) = es"
  using assms by (induction es) (auto simp: map_filter_simps codec_ok_def)

lemma wrap64_id: "min_int64 \<le> x \<Longrightarrow> x \<le> max_int64 \<Longrightarrow> wrap64 x = x"
  unfolding wrap64_def sint_sbintrunc' by (simp add: signed_take_bit_int_eq_self)

lemma rev_take_last: "rev (take_last n xs) = take n (rev xs)"
  by (cases "n \<le> length xs") (simp_all add: take_last_def rev_drop)

lemma page_limit_bounds: "0 < page_limit limit" "page_limit limit \<le> 500"
  by (simp_all add: page_limit_def default_page_limit_def Let_def)

text \<open>The page cut out of one entry more than is asked for.\<close>

lemma page_cut:
  assumes "k \<le> length xs"
  shows "(let n = int (length (take (k + m + 1) xs)); last = (if int k + int m > n then n else int k + int m)
          in cut_slice (take (k + m + 1) xs) (int k) last = take m (drop k xs) \<and> (n > last \<longleftrightarrow> k + m < length xs) \<and> \<not> int k > n)"
proof (cases "k + m < length xs")
  case True
  then have "int (length (take (k + m + 1) xs)) = int k + int m + 1" by simp
  moreover have "cut_slice (take (k + m + 1) xs) (int k) (int k + int m) = take m (drop k xs)" by (simp add: cut_slice_def drop_take)
  ultimately show ?thesis using True by (simp add: Let_def)
next
  case False
  then have "take (k + m + 1) xs = xs" by simp
  moreover have "cut_slice xs (int k) (int (length xs)) = take m (drop k xs)" "cut_slice xs (int k) (int k + int m) = take m (drop k xs)"
    using False assms by (simp_all add: cut_slice_def nat_diff_distrib)
  ultimately show ?thesis using False assms by (simp add: Let_def)
qed

lemma load_log_page_correct:
  assumes "codec_ok codec" "\<forall>e \<in> set es. lc_marshal codec e \<noteq> None" "path \<noteq> []" "k \<le> length es"
    "int (length es) \<le> max_int64 - 501" "m = nat (page_limit limit)"
  shows "load_log_page codec path (Opened (Inr (appended codec path es [])) :: 'x log_file) (int k) limit =
    Inr \<lparr>lp_entries = take m (drop k (rev es)), lp_next_offset = int (k + length (take m (drop k (rev es)))),
         lp_has_more = (k + m < length es)\<rparr>"
proof -
  let ?enc = "the \<circ> lc_marshal codec"
  have l: "page_limit limit = int m" "0 < m" "m \<le> 500" using page_limit_bounds[of limit] assms(6) by auto
  let ?n = "int k + int m + 1"
  have w: "wrap64 ?n = ?n" using assms(4,5) l by (intro wrap64_id) auto
  have some: "\<forall>e \<in> set (take j (rev es)). lc_marshal codec e \<noteq> None" for j
    using assms(2) by (metis in_set_takeD set_rev)
  have "(recent_request_log_lines ?n (Inr (appended codec path es [])) :: 'x + string list) = Inr (take_last (Suc (k + m)) (map ?enc es))"
    using recent_lines_are_last[of ?n "appended codec path es []"]
    by (simp add: appended_lines[OF assms(3,2)] log_lines_encoded[OF assms(1,2)] nat_add_distrib nat_int_add Suc_nat_eq_nat_zadd1 add.commute)
  then have lines: "load_recent_log_lines path (Opened (Inr (appended codec path es [])) :: 'x log_file) (wrap64 (int k + int m + 1)) =
      Inr (take_last (Suc (k + m)) (map ?enc es))"
    using assms(3) by (simp add: load_recent_log_lines_def w)
  have entries: "List.map_filter (lc_unmarshal codec) (rev (take_last (Suc (k + m)) (map ?enc es))) = take (Suc (k + m)) (rev es)"
    using decode_encoded[OF assms(1) some] by (simp add: rev_take_last rev_map take_map)
  show ?thesis
    using page_cut[of k "rev es" m] assms(4) by (simp add: load_log_page_def l(1) lines entries) (simp add: Let_def)
qed

lemma pages_from:
  assumes "codec_ok codec" "\<forall>e \<in> set es. lc_marshal codec e \<noteq> None" "path \<noteq> []" "int (length es) \<le> max_int64 - 501"
    "k \<le> length es" "length es - k < fuel"
  shows "read_pages (\<lambda>off. load_log_page codec path (Opened (Inr (appended codec path es [])) :: 'x log_file) off limit) fuel (int k) =
    Some (drop k (rev es))"
  using assms(5,6)
proof (induction fuel arbitrary: k)
  case (Suc fuel)
  let ?m = "nat (page_limit limit)"
  let ?page = "\<lambda>off. load_log_page codec path (Opened (Inr (appended codec path es [])) :: 'x log_file) off limit"
  have m: "0 < ?m" using page_limit_bounds[of limit] by auto
  have page: "?page (int k) = Inr \<lparr>lp_entries = take ?m (drop k (rev es)), lp_next_offset = int (k + length (take ?m (drop k (rev es)))),
      lp_has_more = (k + ?m < length es)\<rparr>"
    by (rule load_log_page_correct[OF assms(1-3) Suc.prems(1) assms(4) refl])
  show ?case
  proof (cases "k + ?m < length es")
    case True
    then have "read_pages ?page fuel (int (k + ?m)) = Some (drop (k + ?m) (rev es))"
      using m Suc.prems by (intro Suc.IH) auto
    moreover have "length (take ?m (drop k (rev es))) = ?m" using True by simp
    moreover have "take ?m (drop k (rev es)) @ drop (k + ?m) (rev es) = drop k (rev es)"
      by (metis append_take_drop_id drop_drop add.commute)
    ultimately show ?thesis using True by (simp only: read_pages.simps page sum.case log_page.simps if_True option.map)
  next
    case False
    then have "take ?m (drop k (rev es)) = drop k (rev es)" by simp
    with False page show ?thesis by simp
  qed
qed simp


section \<open>Witness\<close>

definition letter_codec :: "string log_codec" where
  "letter_codec = \<lparr>lc_marshal = (\<lambda>e. if trim_space e = e \<and> e \<noteq> [] then Some e else None),
     lc_unmarshal = (\<lambda>line. if line = ''?'' then None else Some line)\<rparr>"

text \<open>One line in \<open>''?''\<close> cannot be decoded.\<close>

definition plain_codec :: "string log_codec" where
  "plain_codec = \<lparr>lc_marshal = (\<lambda>e. if trim_space e = e \<and> e \<noteq> [] then Some e else None), lc_unmarshal = Some\<rparr>"

lemma letters_trim: "trim_space ''a'' = ''a''" "trim_space ''b'' = ''b''" "trim_space ''c'' = ''c''"
  by code_simp+

lemma letters_encode: "\<forall>e \<in> set [''a'', ''b'', ''c'']. lc_marshal plain_codec e \<noteq> None"
  by (simp add: plain_codec_def letters_trim)


section \<open>Two edges\<close>

text \<open>A newest line that does not decode makes a page say there is nothing more although there is.\<close>

lemma undecodable_line_hides_entries:
  "(load_log_page letter_codec ''log'' (Opened (Inr [''a'', ''b'', ''?'']) :: unit log_file) 0 1) =
     Inr \<lparr>lp_entries = [''b''], lp_next_offset = 1, lp_has_more = False\<rparr>"
proof -
  have "wrap64 (0 + 1 + 1) = 2" by (subst wrap64_id) simp_all
  moreover have "take_last 2 (log_lines [''a'', ''b'', ''?'']) = [''b'', ''?'']" by code_simp
  then have "(recent_request_log_lines 2 (Inr [''a'', ''b'', ''?'']) :: unit + string list) = Inr [''b'', ''?'']"
    using recent_lines_are_last[of 2 "[''a'', ''b'', ''?'']"] by simp
  ultimately show ?thesis
    by (simp add: load_log_page_def load_recent_log_lines_def page_limit_def default_page_limit_def letter_codec_def map_filter_simps
        cut_slice_def Let_def)
qed

text \<open>The largest limit at an offset above zero wraps around and slices out of bounds.\<close>

lemma memory_page_panics: "memory_page [''a'', ''b''] 1 max_int64 = None"
proof -
  have "wrap64 (1 + max_int64) = min_int64" by (simp add: wrap64_def)
  then show ?thesis by (simp add: memory_page_def Let_def)
qed

end
