(* ===== verification/Spec2Isabelle.thy ===== *)
theory Spec2Isabelle
  imports ConfigFacts WorkersFacts QueueLimitsFacts PlanningFacts LeasesFacts YamlFacts PromotionFacts TransportManagerFacts RenderFacts ArtifactsFacts
    AgentInstallsFacts RestartFacts ProxyTries ControlLoopFacts UpstreamFacts AdminFacts EventLogs
begin

text \<open>
  llm-swap shares a fleet of GPU workers among language models. A gateway (internal/gateway) admits the requests of clients, sends
  each to a worker on which its model is ready, and tells workers which models to load and unload; an agent on every worker
  (internal/agent) installs the files of the models, writes the configuration of the local llama-swap, restarts it when the gateway
  allows it, and keeps a tunnel to the gateway open. The two talk over three endpoints (internal/protocol): the agent fetches its
  configuration, asks for a transport lease, and sends heartbeats. This development models that code and proves what the parts promise
  each other.

  \<^bold>\<open>The parts and their theories.\<close> A theory named after a part holds its state, its operations in the order of the code and
  the lemmas that go with single operations; the theory with the suffix \<open>Facts\<close> holds invariants, properties and witnesses.

  \<^item> \<open>Prelude\<close>: Go maps as association lists (\<open>gomap\<close>; \<open>mwf\<close> says the keys are distinct), nil slices, times in nanoseconds and their
    saturating difference, int64 limits, and lemmas every part uses. \<open>GoStd\<close>: the functions of Go's standard library that the code
    calls, on strings as lists of UTF-8 bytes. \<open>PathFacts\<close>: cleaned slash paths.
  \<^item> \<open>Config\<close>, \<open>ConfigFacts\<close> (internal/config): the configuration of the gateway, its defaults and checks, model directories, aliases, the
    active view, and capacities per tag (gateway/model_alias.go, active_config.go, model_capacity.go).
  \<^item> \<open>ConfigManager\<close>, \<open>YamlNodes\<close>, \<open>Promotion\<close>, \<open>RevisionStore\<close> and their facts (gateway/config_manager.go, service_name_promotion.go,
    config_revision_store.go): the running configuration and the one in the file, dry run and application of an edited text, masking
    the tunnel token in a document with anchors and merge keys, giving the name of an old model to an alias of a new one and taking it
    back, and revision numbers. Laws of the stores: locales \<open>revision_store\<close> and \<open>archive_store\<close>.
  \<^item> \<open>Workers\<close>, \<open>QueueLimits\<close>, \<open>Cooldowns\<close>, \<open>Pressure\<close>, \<open>Access\<close>, \<open>Accounting\<close> (gateway/workers.go, limits.go, replica_cooldown.go,
    pressure.go, access.go, accounting.go): the registry of workers with the holders of restarts, the places of the queue limiter,
    failed replicas, demand, access statistics and requests in flight. The readers of cooldowns are the locale \<open>cooldown_view\<close>.
  \<^item> \<open>Placement\<close>, \<open>Planning\<close> (gateway/scheduler.go, placement.go): which ready replica serves a request, and which models to warm and
    unload. What the choice needs of the registry is the locale \<open>worker_pool\<close>.
  \<^item> \<open>Leases\<close>, \<open>TransportCrypto\<close>, \<open>AgentEndpoints\<close> (gateway/transport_lease*.go, transport_generation.go, transport/crypto.go, the
    endpoints of gateway/server.go): ports of the tunnel server per agent, in memory and in a store (locale \<open>lease_store\<close>), the sealed
    bootstrap, and the handlers for configuration, lease and heartbeat.
  \<^item> \<open>RequestBodies\<close>, \<open>Upstream\<close>, \<open>Proxy\<close> (gateway/proxy.go, request_log_parse.go, parts of server.go and billing.go): a request from its
    body to the response. \<open>ProxyFacts\<close> checks the log of a request with an automaton, \<open>ProxyTries\<close> counts its attempts.
  \<^item> \<open>ControlLoop\<close> (gateway/reconcile.go, llamaswap_client.go): one pass of unloading and warming. \<open>AdminActions\<close> (gateway/admin_actions.go,
    config_admin.go): what an operator may do. \<open>EventLogs\<close> (gateway/request_log.go, worker_event_log.go): the log files and their pages.
  \<^item> \<open>TransportManager\<close>, \<open>Render\<close>, \<open>Artifacts\<close>, \<open>AgentInstalls\<close>, \<open>AgentCycle\<close>, \<open>AgentCredentials\<close> (internal/agent): the tunnel and its
    lease, llama-swap's configuration and command lines, installing an artifact, scheduling installs, the reconcile cycle, and the token
    of a managed transport. \<open>RestartFacts\<close> puts cycle, heartbeat endpoint and registry together.

  \<^bold>\<open>State.\<close> A struct is a record and a method a function on it; what a mutex protects is one step. An operation that gives up its lock
  is cut there: \<open>AcquireWithStats\<close> into \<open>acquire_begin\<close>, the wait and \<open>acquire_done\<close>; an install into five steps of a job; the run of the
  transport manager into rounds. Where a handler waits or calls out, its input has a function that says what others do to the shared
  state meanwhile (\<open>others\<close> in \<open>Proxy\<close>), so the theorems hold for every interleaving at those points. A handler reads the clock once per
  such point. Results of HTTP calls, file faults and random numbers are inputs; JSON, YAML, HMAC, AES-GCM, net/url and the arithmetic of
  float64 are parameters, with what is used of them as named hypotheses and instances in the witnesses.

  \<^bold>\<open>What is shown.\<close> Restarts: two workers do not restart the same model at once, a global restart excludes all others, a worker restarts
  only after the gateway's permission and without a request on it. Requests: every place and every count a request takes is given back
  on every path, it is answered once, it is sent to a worker at most once, and its loop ends; the worker chosen is the least loaded one
  that can serve, and none is found only when there is none; the client's credentials stay at the gateway. Models: the plan unloads
  only what is idle and above its minimum and warms within the ceiling; a pass leaves busy workers alone. Limits: no key has more than
  its places or its queue. Leases and tunnels: an agent has one port nobody else has, through restarts of the gateway; a worker is
  reached only at the port of its own lease; one tunnel client runs at a time and a stopped manager holds no lease. Installs: what is in a directory has the checksum of
  its marker, a superseded install commits nothing, nothing is written outside, one install runs at a time. Configuration: accepted
  ones render, an application changes all or nothing, promotion and rollback are inverse, a masked document hides the token and can be
  restored. Logs: every page read from a log is what was appended.

  \<^bold>\<open>Bounds and fuel.\<close> Where the recursion is not structural the function has a measure: \<open>warm_up_to\<close> the missing replicas, YAML walks the
  unvisited nodes, \<open>free_key\<close> the keys not yet tried. Alias chains of YAML have fuel \<open>Suc (length nodes)\<close>, more than a chain without
  repetition needs; lease identifiers eight attempts, as in the code; IPv6 addresses nine groups; HKDF as many blocks as the length asks for.
  The dispatch loop takes one input per round; \<open>dispatch_loop_ends\<close> shows that one more than there are workers suffice. A reader of
  pages needs at most one page per entry and one more.

  \<^bold>\<open>Not modelled.\<close> The status pages (\<open>buildUIStatus\<close>), Prometheus metrics and the metrics scraper and store, which no decision reads;
  billing and traffic reports and the records store, which are SQL and sums of float64 (the cost of one request is modelled); routes,
  authentication and the start of the processes; the HTTP clients of the agent, GPU discovery and the tunnel library, whose results are
  inputs; \<open>canUnloadModel\<close> and its callers in gateway/reconcile.go, which nothing calls. Log lines are left out throughout.
\<close>

end
